(* ===== verification/Prelude.thy ===== *)
theory Prelude
  imports Main "HOL-Library.AList"
begin

text \<open>
  What the component theories share.

  \<^item> The one error type of the backend (\<open>packages/core/src/util/errors.ts\<close>) and the
    result type \<open>'a res\<close>: \<open>Inl\<close> is a thrown \<open>AppError\<close>, \<open>Inr\<close> a returned value.
  \<^item> Values of type \<open>unknown\<close> (JSON bodies, queue payloads, JSONB columns) as \<open>json\<close>.
  \<^item> Times are milliseconds since the epoch, as \<open>Date.getTime()\<close> gives them; a nullable
    column is an \<open>option\<close>.
  \<^item> A JavaScript \<open>Map\<close> is an association list in insertion order, changed by
    \<open>AList.update\<close>, which overwrites in place or appends; \<open>[...new Set(xs)]\<close> keeps
    first occurrences, which is \<open>dedup\<close> (\<open>remdups\<close> keeps the last ones).
  \<^item> The small string functions of \<open>packages/core/src/util/misc.ts\<close>.
  \<^item> A computation that reads and writes state and may throw is a function
    \<open>'s \<Rightarrow> 'a res \<times> 's\<close>: what was written before the throw stays written.
  \<^item> The interfaces that more than one component provides: \<open>expiring\<close> (rows with an
    expiry date) and \<open>keyed_table\<close> (a database table with a primary key).
\<close>

named_theorems keeps \<open>computations that keep a predicate of the state\<close>
named_theorems res_simps \<open>rewriting of results\<close>

type_synonym time = int

subsection \<open>Errors and results\<close>

datatype app_error_code =
    NOT_IMPLEMENTED | SETUP_REQUIRED | NOT_FOUND | UNAUTHORIZED | FORBIDDEN
  | VALIDATION_ERROR | CONFLICT | CONFIGURATION_ERROR | EXTERNAL_SERVICE_ERROR
  | PROXMOX_ERROR | GUACAMOLE_ERROR | SSH_ERROR | PROVISIONING_ERROR | RATE_LIMITED
  | ACCOUNT_LOCKED | INTERNAL_ERROR

datatype app_error = AppError (err_code: app_error_code) (err_message: string) (err_status: nat)

type_synonym 'a res = "app_error + 'a"

definition err_not_found :: "string \<Rightarrow> app_error" where
  "err_not_found m = AppError NOT_FOUND m 404"

definition err_forbidden :: "string \<Rightarrow> app_error" where
  "err_forbidden m = AppError FORBIDDEN m 403"

definition err_unauthorized :: "string \<Rightarrow> app_error" where
  "err_unauthorized m = AppError UNAUTHORIZED m 401"

definition err_validation :: "string \<Rightarrow> app_error" where
  "err_validation m = AppError VALIDATION_ERROR m 400"

definition err_conflict :: "string \<Rightarrow> app_error" where
  "err_conflict m = AppError CONFLICT m 409"

definition err_external :: "string \<Rightarrow> string \<Rightarrow> app_error" where
  "err_external service m = AppError EXTERNAL_SERVICE_ERROR (service @ '': '' @ m) 502"

lemmas err_defs = err_not_found_def err_forbidden_def err_unauthorized_def
  err_validation_def err_conflict_def err_external_def

definition rbind :: "'a res \<Rightarrow> ('a \<Rightarrow> 'b res) \<Rightarrow> 'b res" where
  "rbind r f = (case r of Inl e \<Rightarrow> Inl e | Inr x \<Rightarrow> f x)"

lemma rbind_simps [simp, res_simps]:
  "rbind (Inl e) f = Inl e"
  "rbind (Inr x) f = f x"
  by (simp_all add: rbind_def)

lemma rbind_Inr_iff [res_simps]: "rbind r f = Inr y \<longleftrightarrow> (\<exists>x. r = Inr x \<and> f x = Inr y)"
  by (cases r) auto

lemma rbind_Inl_iff [res_simps]:
  "rbind r f = Inl e \<longleftrightarrow> r = Inl e \<or> (\<exists>x. r = Inr x \<and> f x = Inl e)"
  by (cases r) auto

definition is_ok :: "'a res \<Rightarrow> bool" where
  "is_ok r = (case r of Inl e \<Rightarrow> False | Inr x \<Rightarrow> True)"

lemma is_ok_simps [simp]: "is_ok (Inl e) = False" "is_ok (Inr x) = True"
  by (simp_all add: is_ok_def)

lemma is_ok_iff: "is_ok r \<longleftrightarrow> (\<exists>x. r = Inr x)"
  by (cases r) auto

definition guard :: "bool \<Rightarrow> app_error \<Rightarrow> unit res" where
  "guard b e = (if b then Inr () else Inl e)"

lemma guard_iff [simp, res_simps]:
  "guard b e = Inr u \<longleftrightarrow> b"
  "guard b e = Inl e' \<longleftrightarrow> \<not> b \<and> e' = e"
  by (auto simp: guard_def)

lemma is_ok_guard [simp]: "is_ok (guard b e) = b"
  by (simp add: guard_def)

lemma is_ok_rbind [simp]: "is_ok (rbind r f) \<longleftrightarrow> (\<exists>x. r = Inr x \<and> is_ok (f x))"
  by (cases r) auto

subsection \<open>Untyped values\<close>

datatype json =
    JUndefined | JNull | JBool bool | JNum int | JFrac
  | JStr string | JArr "json list" | JObj "(string \<times> json) list"

text \<open>
  \<open>JNum\<close> is a number with an integer value, \<open>JFrac\<close> any other one (a fraction, an
  infinity or \<open>NaN\<close>), which the code only ever refuses.
\<close>

fun json_field :: "json \<Rightarrow> string \<Rightarrow> json" where
  "json_field (JObj fs) k = (case map_of fs k of None \<Rightarrow> JUndefined | Some v \<Rightarrow> v)"
| "json_field _ k = JUndefined"

subsection \<open>Lists and maps\<close>

fun dedup_onto :: "'a list \<Rightarrow> 'a list \<Rightarrow> 'a list" where
  "dedup_onto acc [] = acc"
| "dedup_onto acc (x # xs) = dedup_onto (if x \<in> set acc then acc else acc @ [x]) xs"

definition dedup :: "'a list \<Rightarrow> 'a list" where
  "dedup xs = dedup_onto [] xs"

lemma set_dedup_onto: "set (dedup_onto acc xs) = set acc \<union> set xs"
  by (induction acc xs rule: dedup_onto.induct) auto

lemma distinct_dedup_onto: "distinct (dedup_onto acc xs) = distinct acc"
  by (induction acc xs rule: dedup_onto.induct) auto

lemma set_dedup [simp]: "set (dedup xs) = set xs"
  by (simp add: dedup_def set_dedup_onto)

lemma distinct_dedup [simp]: "distinct (dedup xs)"
  by (simp add: dedup_def distinct_dedup_onto)

lemma dedup_onto_distinct: "distinct (acc @ xs) \<Longrightarrow> dedup_onto acc xs = acc @ xs"
  by (induction acc xs rule: dedup_onto.induct) auto

lemma dedup_distinct: "distinct xs \<Longrightarrow> dedup xs = xs"
  by (simp add: dedup_def dedup_onto_distinct)

lemma dedup_Nil_iff [simp]: "dedup xs = [] \<longleftrightarrow> xs = []"
  using set_dedup [of xs] by (metis set_empty)

lemma dedup_Nil [simp]: "dedup [] = []"
  by simp

text \<open>Membership in a nested list comprehension, one generator at a time.\<close>

lemma in_concat_if:
  "y \<in> set (concat (map (\<lambda>x. if b x then f x else []) xs)) \<longleftrightarrow> (\<exists>x \<in> set xs. b x \<and> y \<in> set (f x))"
  by (auto split: if_splits)

lemma in_concat_map: "y \<in> set (concat (map f xs)) \<longleftrightarrow> (\<exists>x \<in> set xs. y \<in> set (f x))"
  by auto

lemma in_if_list: "y \<in> set (if b then xs else []) \<longleftrightarrow> b \<and> y \<in> set xs"
  by simp

lemma in_single: "y \<in> set [x] \<longleftrightarrow> y = x"
  by simp

lemmas in_comprehension = in_concat_map in_if_list in_single

text \<open>\<open>x ?? d\<close> for a value that is not nullable any more.\<close>

definition or_else :: "'a option \<Rightarrow> 'a \<Rightarrow> 'a" where
  "or_else x d = (case x of None \<Rightarrow> d | Some v \<Rightarrow> v)"

lemma or_else_simps [simp]: "or_else None d = d" "or_else (Some v) d = v"
  by (simp_all add: or_else_def)

definition keys_of :: "('k \<times> 'v) list \<Rightarrow> 'k list" where
  "keys_of m = map fst m"

definition map_has :: "('k \<times> 'v) list \<Rightarrow> 'k \<Rightarrow> bool" where
  "map_has m k \<longleftrightarrow> map_of m k \<noteq> None"

lemma set_keys_of: "set (keys_of m) = dom (map_of m)"
  by (simp add: keys_of_def dom_map_of_conv_image_fst)

lemma map_has_iff: "map_has m k \<longleftrightarrow> k \<in> dom (map_of m)"
  by (auto simp: map_has_def)

lemma map_has_update [simp]: "map_has (AList.update k v m) k' \<longleftrightarrow> k' = k \<or> map_has m k'"
  by (auto simp: map_has_def update_conv')

lemma map_has_Nil [simp]: "\<not> map_has [] k"
  by (simp add: map_has_def)

lemma find_Some_in: "find P xs = Some x \<Longrightarrow> x \<in> set xs \<and> P x"
  by (induction xs) (auto split: if_splits)

lemma find_None_all: "find P xs = None \<longleftrightarrow> (\<forall>x \<in> set xs. \<not> P x)"
  by (induction xs) auto

subsection \<open>Strings\<close>

fun nat_str_fuel :: "nat \<Rightarrow> nat \<Rightarrow> string" where
  "nat_str_fuel 0 n = []"
| "nat_str_fuel (Suc f) n =
     (if n < 10 then [char_of (48 + n)] else nat_str_fuel f (n div 10) @ [char_of (48 + n mod 10)])"

text \<open>\<open>String(n)\<close> of a non-negative integer; one digit needs one unit of fuel, so \<open>Suc n\<close> is enough.\<close>

definition nat_str :: "nat \<Rightarrow> string" where
  "nat_str n = nat_str_fuel (Suc n) n"

definition int_str :: "int \<Rightarrow> string" where
  "int_str i = (if i < 0 then ''-'' @ nat_str (nat (- i)) else nat_str (nat i))"

fun join :: "string \<Rightarrow> string list \<Rightarrow> string" where
  "join sep [] = []"
| "join sep [x] = x"
| "join sep (x # y # xs) = x @ sep @ join sep (y # xs)"

fun split_acc :: "char \<Rightarrow> string \<Rightarrow> string \<Rightarrow> string list" where
  "split_acc c acc [] = [acc]"
| "split_acc c acc (x # xs) = (if x = c then acc # split_acc c [] xs else split_acc c (acc @ [x]) xs)"

definition split_on :: "char \<Rightarrow> string \<Rightarrow> string list" where
  "split_on c s = split_acc c [] s"

definition is_space :: "char \<Rightarrow> bool" where
  "is_space c \<longleftrightarrow> c \<in> {CHR '' '', CHR 0x09, CHR 0x0A, CHR 0x0B, CHR 0x0C, CHR 0x0D}"

definition trim :: "string \<Rightarrow> string" where
  "trim s = rev (dropWhile is_space (rev (dropWhile is_space s)))"

definition starts_with :: "string \<Rightarrow> string \<Rightarrow> bool" where
  "starts_with s p \<longleftrightarrow> take (length p) s = p"

lemma starts_with_iff: "starts_with s p \<longleftrightarrow> (\<exists>r. s = p @ r)"
  by (auto simp: starts_with_def) (metis append_take_drop_id)

definition is_digit :: "char \<Rightarrow> bool" where
  "is_digit c \<longleftrightarrow> 48 \<le> (of_char c :: nat) \<and> (of_char c :: nat) \<le> 57"

definition digit_val :: "char \<Rightarrow> nat" where
  "digit_val c = of_char c - 48"

definition digits_val :: "string \<Rightarrow> nat" where
  "digits_val s = foldl (\<lambda>n c. 10 * n + digit_val c) 0 s"

definition is_hex :: "char \<Rightarrow> bool" where
  "is_hex c \<longleftrightarrow> is_digit c \<or> (97 \<le> (of_char c :: nat) \<and> (of_char c :: nat) \<le> 102)
     \<or> (65 \<le> (of_char c :: nat) \<and> (of_char c :: nat) \<le> 70)"

definition to_lower :: "string \<Rightarrow> string" where
  "to_lower s = map (\<lambda>c. if 65 \<le> (of_char c :: nat) \<and> (of_char c :: nat) \<le> 90
                          then char_of ((of_char c :: nat) + 32) else c) s"

fun contains_str :: "string \<Rightarrow> string \<Rightarrow> bool" where
  "contains_str [] p = (p = [])"
| "contains_str (c # s) p = (starts_with (c # s) p \<or> contains_str s p)"

text \<open>The pattern \<open>UUID_RE\<close>: hexadecimal groups of 8, 4, 4, 4 and 12 joined by hyphens.\<close>

definition is_uuid :: "string \<Rightarrow> bool" where
  "is_uuid s \<longleftrightarrow> map length (split_on CHR ''-'' s) = [8, 4, 4, 4, 12]
     \<and> list_all (list_all is_hex) (split_on CHR ''-'' s)"

fun strip_trailing_slashes_rev :: "string \<Rightarrow> string" where
  "strip_trailing_slashes_rev [] = []"
| "strip_trailing_slashes_rev (c # cs) = (if c = CHR ''/'' then strip_trailing_slashes_rev cs else c # cs)"

definition strip_trailing_slashes :: "string \<Rightarrow> string" where
  "strip_trailing_slashes s = rev (strip_trailing_slashes_rev (rev s))"

text \<open>
  \<open>Number(s)\<close> of a string: surrounding blanks are ignored, the empty string is 0, then a
  radix literal or a decimal with optional sign, fraction and exponent; everything else is
  \<open>NaN\<close>. The value is exact, so it agrees with the double as long as it has fewer than 54
  significant bits; what overflows to infinity is no integer and what underflows is 0.
\<close>

definition digit_in :: "nat \<Rightarrow> char \<Rightarrow> bool" where
  "digit_in radix c \<longleftrightarrow> (if is_digit c then digit_val c < radix else radix = 16 \<and> is_hex c)"

definition hex_val :: "char \<Rightarrow> nat" where
  "hex_val c = (if is_digit c then digit_val c else (of_char c :: nat) mod 32 + 9)"

definition radix_number :: "nat \<Rightarrow> string \<Rightarrow> json" where
  "radix_number radix s =
     (if s \<noteq> [] \<and> list_all (digit_in radix) s
      then JNum (int (foldl (\<lambda>n c. radix * n + hex_val c) 0 s)) else JFrac)"

definition signed :: "string \<Rightarrow> bool \<times> string" where
  "signed s = (case s of
       [] \<Rightarrow> (False, [])
     | c # cs \<Rightarrow> (if c = CHR ''-'' then (True, cs) else if c = CHR ''+'' then (False, cs) else (False, c # cs)))"

definition scaled :: "bool \<Rightarrow> int \<Rightarrow> int \<Rightarrow> json" where
  "scaled neg m e =
     (let sg = (if neg then - 1 else 1 :: int) in
      if m = 0 then JNum 0
      else if e \<ge> 0 then (if e > 400 \<or> m * 10 ^ nat e \<ge> 2 ^ 1024 then JFrac else JNum (sg * (m * 10 ^ nat e)))
      else if m * 2 ^ 1075 \<le> 10 ^ nat (- e) then JNum 0
      else if m mod 10 ^ nat (- e) = 0
      then (if m div 10 ^ nat (- e) \<ge> 2 ^ 1024 then JFrac else JNum (sg * (m div 10 ^ nat (- e))))
      else JFrac)"

definition decimal_number :: "string \<Rightarrow> json" where
  "decimal_number s =
     (let (neg, s1) = signed s;
          ip = takeWhile is_digit s1; r1 = dropWhile is_digit s1;
          point = (r1 \<noteq> [] \<and> hd r1 = CHR ''.'');
          fp = (if point then takeWhile is_digit (tl r1) else []);
          r2 = (if point then dropWhile is_digit (tl r1) else r1)
      in if ip = [] \<and> fp = [] then JFrac
         else if r2 = [] then scaled neg (int (digits_val (ip @ fp))) (- int (length fp))
         else if hd r2 = CHR ''e'' \<or> hd r2 = CHR ''E''
         then (let (eneg, r3) = signed (tl r2)
               in if r3 \<noteq> [] \<and> list_all is_digit r3
                  then scaled neg (int (digits_val (ip @ fp)))
                         ((if eneg then - int (digits_val r3) else int (digits_val r3)) - int (length fp))
                  else JFrac)
         else JFrac)"

definition js_number :: "string \<Rightarrow> json" where
  "js_number s0 =
     (let s = trim s0 in
      if s = [] then JNum 0
      else if starts_with (to_lower s) ''0x'' then radix_number 16 (drop 2 s)
      else if starts_with (to_lower s) ''0o'' then radix_number 8 (drop 2 s)
      else if starts_with (to_lower s) ''0b'' then radix_number 2 (drop 2 s)
      else decimal_number s)"

text \<open>\<open>Number(v)\<close> of an untyped value; an array of one element converts like its text.\<close>

fun json_number :: "json \<Rightarrow> json" where
  "json_number JNull = JNum 0"
| "json_number (JBool b) = JNum (if b then 1 else 0)"
| "json_number (JNum n) = JNum n"
| "json_number (JStr s) = js_number s"
| "json_number (JArr []) = JNum 0"
| "json_number (JArr [JNull]) = JNum 0"
| "json_number (JArr [JUndefined]) = JNum 0"
| "json_number (JArr [JBool b]) = JFrac"
| "json_number (JArr [v]) = json_number v"
| "json_number _ = JFrac"

subsection \<open>Computations with state and exceptions\<close>

type_synonym ('s, 'a) comp = "'s \<Rightarrow> 'a res \<times> 's"

definition ret :: "'a \<Rightarrow> ('s, 'a) comp" where
  "ret x s = (Inr x, s)"

definition throw :: "app_error \<Rightarrow> ('s, 'a) comp" where
  "throw e s = (Inl e, s)"

definition bind :: "('s, 'a) comp \<Rightarrow> ('a \<Rightarrow> ('s, 'b) comp) \<Rightarrow> ('s, 'b) comp" where
  "bind m f s = (case m s of (Inl e, s') \<Rightarrow> (Inl e, s') | (Inr x, s') \<Rightarrow> f x s')"

definition andthen :: "('s, 'a) comp \<Rightarrow> ('s, 'b) comp \<Rightarrow> ('s, 'b) comp" where
  "andthen m n = bind m (\<lambda>_. n)"

definition gets :: "('s \<Rightarrow> 'a) \<Rightarrow> ('s, 'a) comp" where
  "gets f s = (Inr (f s), s)"

definition modify :: "('s \<Rightarrow> 's) \<Rightarrow> ('s, unit) comp" where
  "modify f s = (Inr (), f s)"

definition lift_res :: "'a res \<Rightarrow> ('s, 'a) comp" where
  "lift_res r s = (r, s)"

definition try_catch :: "('s, 'a) comp \<Rightarrow> (app_error \<Rightarrow> ('s, 'a) comp) \<Rightarrow> ('s, 'a) comp" where
  "try_catch m h s = (case m s of (Inl e, s') \<Rightarrow> h e s' | (Inr x, s') \<Rightarrow> (Inr x, s'))"

definition do_when :: "bool \<Rightarrow> ('s, unit) comp \<Rightarrow> ('s, unit) comp" where
  "do_when b m = (if b then m else ret ())"

fun for_each :: "'x list \<Rightarrow> ('x \<Rightarrow> ('s, unit) comp) \<Rightarrow> ('s, unit) comp" where
  "for_each [] f = ret ()"
| "for_each (x # xs) f = bind (f x) (\<lambda>_. for_each xs f)"

lemmas comp_defs = ret_def throw_def bind_def andthen_def gets_def modify_def lift_res_def
  try_catch_def do_when_def

lemma bind_Inr_iff: "bind m f s = (Inr y, s') \<longleftrightarrow> (\<exists>x t. m s = (Inr x, t) \<and> f x t = (Inr y, s'))"
  by (auto simp: bind_def split: prod.splits sum.splits)

lemma bind_Inl_iff:
  "bind m f s = (Inl e, s') \<longleftrightarrow> m s = (Inl e, s') \<or> (\<exists>x t. m s = (Inr x, t) \<and> f x t = (Inl e, s'))"
  by (auto simp: bind_def split: prod.splits sum.splits)

lemma andthen_Inr_iff: "andthen m n s = (Inr y, s') \<longleftrightarrow> (\<exists>x t. m s = (Inr x, t) \<and> n t = (Inr y, s'))"
  by (simp add: andthen_def bind_Inr_iff)

lemma gets_Inr_iff: "gets f s = (Inr y, s') \<longleftrightarrow> y = f s \<and> s' = s"
  by (auto simp: gets_def)

lemma ret_Inr_iff: "ret x s = (Inr y, s') \<longleftrightarrow> y = x \<and> s' = s"
  by (auto simp: ret_def)

lemma modify_Inr_iff: "modify f s = (Inr y, s') \<longleftrightarrow> s' = f s"
  by (auto simp: modify_def)

lemmas run_iffs = bind_Inr_iff andthen_Inr_iff gets_Inr_iff ret_Inr_iff modify_Inr_iff

lemma bind_assoc: "bind (bind m f) g = bind m (\<lambda>x. bind (f x) g)"
  by (rule ext) (auto simp: bind_def split: prod.splits sum.splits)

text \<open>\<open>keeps_pred P m\<close>: whatever \<open>m\<close> returns or throws, it leaves \<open>P\<close> true of the state.\<close>

definition keeps_pred :: "('s \<Rightarrow> bool) \<Rightarrow> ('s, 'a) comp \<Rightarrow> bool" where
  "keeps_pred P m \<longleftrightarrow> (\<forall>s. P s \<longrightarrow> P (snd (m s)))"

lemma keeps_predD: "keeps_pred P m \<Longrightarrow> P s \<Longrightarrow> P (snd (m s))"
  by (simp add: keeps_pred_def)

lemma keeps_pred_basic [keeps]:
  "keeps_pred P (ret x)"
  "keeps_pred P (throw e)"
  "keeps_pred P (gets f)"
  "keeps_pred P (lift_res r)"
  by (simp_all add: keeps_pred_def comp_defs)

lemma keeps_pred_modify: "(\<And>s. P s \<Longrightarrow> P (f s)) \<Longrightarrow> keeps_pred P (modify f)"
  by (simp add: keeps_pred_def comp_defs)

lemma keeps_pred_bind [keeps]:
  "keeps_pred P m \<Longrightarrow> (\<And>x. keeps_pred P (f x)) \<Longrightarrow> keeps_pred P (bind m f)"
  unfolding keeps_pred_def bind_def
  by (fastforce split: prod.splits sum.splits)

lemma keeps_pred_andthen [keeps]:
  "keeps_pred P m \<Longrightarrow> keeps_pred P n \<Longrightarrow> keeps_pred P (andthen m n)"
  by (simp add: andthen_def keeps)

lemma keeps_pred_try [keeps]:
  "keeps_pred P m \<Longrightarrow> (\<And>e. keeps_pred P (h e)) \<Longrightarrow> keeps_pred P (try_catch m h)"
  unfolding keeps_pred_def try_catch_def
  by (fastforce split: prod.splits sum.splits)

lemma keeps_pred_if [keeps]:
  "(b \<Longrightarrow> keeps_pred P m) \<Longrightarrow> (\<not> b \<Longrightarrow> keeps_pred P n) \<Longrightarrow> keeps_pred P (if b then m else n)"
  by simp

lemma keeps_pred_when [keeps]: "(b \<Longrightarrow> keeps_pred P m) \<Longrightarrow> keeps_pred P (do_when b m)"
  by (simp add: do_when_def keeps)

lemma keeps_pred_for_each [keeps]:
  "(\<And>x. x \<in> set xs \<Longrightarrow> keeps_pred P (f x)) \<Longrightarrow> keeps_pred P (for_each xs f)"
  by (induction xs) (auto intro!: keeps)

lemma keeps_pred_case_option [keeps]:
  "(x = None \<Longrightarrow> keeps_pred P m) \<Longrightarrow> (\<And>y. x = Some y \<Longrightarrow> keeps_pred P (f y))
   \<Longrightarrow> keeps_pred P (case x of None \<Rightarrow> m | Some y \<Rightarrow> f y)"
  by (cases x) auto

subsection \<open>Rows with an expiry date\<close>

text \<open>
  Every grant table filters \<open>expires_at IS NULL OR expires_at > NOW()\<close>. A provider
  gives the column; the laws say what such a filter does.
\<close>

definition is_live :: "time option \<Rightarrow> time \<Rightarrow> bool" where
  "is_live e now = (case e of None \<Rightarrow> True | Some t \<Rightarrow> t > now)"

lemma is_live_None [simp]: "is_live None now"
  by (simp add: is_live_def)

lemma is_live_Some [simp]: "is_live (Some t) now \<longleftrightarrow> now < t"
  by (simp add: is_live_def)

lemma is_live_antimono: "is_live e now' \<Longrightarrow> now \<le> now' \<Longrightarrow> is_live e now"
  by (cases e) auto

locale expiring =
  fixes expiry :: "'r \<Rightarrow> time option"
    and live :: "time \<Rightarrow> 'r \<Rightarrow> bool"
  assumes live_iff: "live now r \<longleftrightarrow> is_live (expiry r) now"
begin

lemma live_antimono: "live now' r \<Longrightarrow> now \<le> now' \<Longrightarrow> live now r"
  by (auto simp: live_iff intro: is_live_antimono)

lemma sweep_live: "filter (live now) (filter (live now) rs) = filter (live now) rs"
  by simp

lemma sweep_later:
  "now \<le> now' \<Longrightarrow> filter (live now') (filter (live now) rs) = filter (live now') rs"
  unfolding filter_filter by (rule filter_cong) (auto dest: live_antimono)

lemma sweep_concat:
  assumes "t \<le> now" and "\<And>r. \<not> live now r \<Longrightarrow> f r = []"
  shows "concat (map f (filter (live t) rs)) = concat (map f rs)"
  using assms by (induction rs) (auto dest: live_antimono)

lemma live_at_expiry: "expiry r = Some t \<Longrightarrow> \<not> live t r"
  by (simp add: live_iff)

end

subsection \<open>Tables with a primary key\<close>

definition table_find :: "('r \<Rightarrow> 'k) \<Rightarrow> 'k \<Rightarrow> 'r list \<Rightarrow> 'r option" where
  "table_find key k t = find (\<lambda>r. key r = k) t"

definition table_update :: "('r \<Rightarrow> bool) \<Rightarrow> ('r \<Rightarrow> 'r) \<Rightarrow> 'r list \<Rightarrow> 'r list" where
  "table_update P f t = map (\<lambda>r. if P r then f r else r) t"

definition table_delete :: "('r \<Rightarrow> bool) \<Rightarrow> 'r list \<Rightarrow> 'r list" where
  "table_delete P t = filter (\<lambda>r. \<not> P r) t"

lemma set_table_update [simp]:
  "set (table_update P f t) = (\<lambda>r. if P r then f r else r) ` set t"
  by (simp add: table_update_def)

lemma set_table_delete [simp]: "set (table_delete P t) = {r \<in> set t. \<not> P r}"
  by (simp add: table_delete_def)

lemma length_table_update [simp]: "length (table_update P f t) = length t"
  by (simp add: table_update_def)

locale keyed_table =
  fixes key :: "'r \<Rightarrow> 'k"
    and lookup :: "'k \<Rightarrow> 'r list \<Rightarrow> 'r option"
  assumes lookup_eq: "lookup k t = table_find key k t"
begin

definition unique :: "'r list \<Rightarrow> bool" where
  "unique t \<longleftrightarrow> distinct (map key t)"

lemma lookup_SomeD: "lookup k t = Some r \<Longrightarrow> r \<in> set t \<and> key r = k"
  using find_Some_in [of "\<lambda>r. key r = k" t r] by (simp add: lookup_eq table_find_def)

lemma lookup_None_iff: "lookup k t = None \<longleftrightarrow> k \<notin> key ` set t"
  by (auto simp: lookup_eq table_find_def find_None_all)

lemma lookup_unique: "unique t \<Longrightarrow> r \<in> set t \<Longrightarrow> lookup (key r) t = Some r"
  by (induction t) (auto simp: lookup_eq table_find_def unique_def)

lemma lookup_append_fresh: "lookup (key r) t = None \<Longrightarrow> lookup (key r) (t @ [r]) = Some r"
  by (induction t) (auto simp: lookup_eq table_find_def split: if_splits)

lemma unique_append: "unique t \<Longrightarrow> lookup (key r) t = None \<Longrightarrow> unique (t @ [r])"
  by (simp add: unique_def lookup_None_iff)

lemma unique_update: "unique t \<Longrightarrow> (\<And>r. key (f r) = key r) \<Longrightarrow> unique (table_update P f t)"
proof -
  assume u: "unique t" and k: "\<And>r. key (f r) = key r"
  have "map key (table_update P f t) = map key t"
    by (simp add: table_update_def k)
  with u show ?thesis by (simp add: unique_def)
qed

lemma unique_delete: "unique t \<Longrightarrow> unique (table_delete P t)"
  by (simp add: unique_def table_delete_def distinct_map_filter)

lemma lookup_delete: "lookup k (table_delete (\<lambda>r. key r = k) t) = None"
  by (auto simp: lookup_None_iff)

lemma lookup_update:
  "(\<And>r. key (f r) = key r) \<Longrightarrow>
   lookup k (table_update (\<lambda>r. key r = k) f t) = map_option f (lookup k t)"
  by (induction t) (auto simp: lookup_eq table_find_def table_update_def)

lemma lookup_update_other:
  "(\<And>r. key (f r) = key r) \<Longrightarrow> j \<noteq> k \<Longrightarrow>
   lookup j (table_update (\<lambda>r. key r = k) f t) = lookup j t"
  by (induction t) (auto simp: lookup_eq table_find_def table_update_def)

end

end
