(* ===== verification/Rbac.thy ===== *)
theory Rbac
  imports Prelude
begin

text \<open>
  System roles (\<open>packages/core/src/services/rbac.ts\<close>, \<open>packages/shared/src/enums.ts\<close>):
  the four built-in roles, the permission catalogue, the permission set of each role, and
  the fast-path checks \<open>hasPermission\<close> and \<open>isAdmin\<close> on an already loaded user.
\<close>

datatype role = ADMIN | OPERATOR | USER | GUEST

definition ROLES :: "role list" where
  "ROLES = [ADMIN, OPERATOR, USER, GUEST]"

fun role_name_of :: "role \<Rightarrow> string" where
  "role_name_of ADMIN = ''ADMIN''"
| "role_name_of OPERATOR = ''OPERATOR''"
| "role_name_of USER = ''USER''"
| "role_name_of GUEST = ''GUEST''"

fun role_id_of :: "role \<Rightarrow> string" where
  "role_id_of ADMIN = ''00000000-0000-0000-0000-000000000001''"
| "role_id_of OPERATOR = ''00000000-0000-0000-0000-000000000002''"
| "role_id_of USER = ''00000000-0000-0000-0000-000000000003''"
| "role_id_of GUEST = ''00000000-0000-0000-0000-000000000004''"

definition PERMISSIONS :: "string list" where
  "PERMISSIONS =
    [''vm.list'', ''vm.read'', ''vm.create'', ''vm.manage'', ''vm.edit'', ''vm.delete'',
     ''vm.provision'', ''vm.start'', ''vm.stop'', ''vm.restart'', ''cred.reveal'',
     ''cred.rotate'', ''guac.launch'', ''guac.manage'', ''protocol.ssh'', ''protocol.rdp'',
     ''protocol.vnc'', ''users.manage'', ''roles.manage'', ''groups.manage'',
     ''templates.manage'', ''audit.read'', ''jobs.read'', ''jobs.retry'', ''jobs.cancel'',
     ''settings.manage'', ''health.read'', ''proxmox.read'', ''drift.manage'']"

fun permissions_for_role :: "role \<Rightarrow> string list" where
  "permissions_for_role ADMIN = PERMISSIONS"
| "permissions_for_role OPERATOR =
    [''vm.list'', ''vm.read'', ''vm.create'', ''vm.manage'', ''vm.edit'', ''vm.provision'',
     ''cred.rotate'', ''guac.launch'', ''guac.manage'', ''jobs.read'', ''jobs.retry'',
     ''jobs.cancel'', ''health.read'', ''proxmox.read'']"
| "permissions_for_role USER = [''vm.read'', ''guac.launch'', ''jobs.read'', ''health.read'']"
| "permissions_for_role GUEST = []"

text \<open>The loaded user: its roles are the live ones, as \<open>UsersService\<close> fills them.\<close>

record user_with_roles =
  u_id :: string
  u_username :: string
  u_email :: "string option"
  u_active :: bool
  u_roles :: "role list"

definition has_permission :: "user_with_roles option \<Rightarrow> string \<Rightarrow> bool" where
  "has_permission user p = (case user of
       None \<Rightarrow> False
     | Some u \<Rightarrow> u_active u \<and> list_ex (\<lambda>r. p \<in> set (permissions_for_role r)) (u_roles u))"

definition is_admin :: "user_with_roles option \<Rightarrow> bool" where
  "is_admin user = (case user of None \<Rightarrow> False | Some u \<Rightarrow> ADMIN \<in> set (u_roles u))"

definition role_of_name :: "string \<Rightarrow> role option" where
  "role_of_name n = find (\<lambda>r. role_name_of r = n) ROLES"

definition valid_roles :: "string list \<Rightarrow> role list" where
  "valid_roles names = List.map_filter role_of_name names"

lemma role_of_name_of [simp]: "role_of_name (role_name_of r) = Some r"
  by (cases r) (simp_all add: role_of_name_def ROLES_def)

lemma role_of_name_SomeD: "role_of_name n = Some r \<Longrightarrow> n = role_name_of r"
  unfolding role_of_name_def by (drule find_Some_in) simp

lemma role_of_name_iff: "role_of_name n = Some r \<longleftrightarrow> n = role_name_of r"
  using role_of_name_SomeD by auto

lemma role_name_inj: "role_name_of a = role_name_of b \<longleftrightarrow> a = b"
  by (metis option.inject role_of_name_of)

lemma permissions_for_role_subset: "set (permissions_for_role r) \<subseteq> set PERMISSIONS"
  by (cases r) (simp_all add: PERMISSIONS_def)

lemma has_permission_inactive: "\<not> u_active u \<Longrightarrow> \<not> has_permission (Some u) p"
  by (simp add: has_permission_def)

lemma has_permission_admin:
  "u_active u \<Longrightarrow> is_admin (Some u) \<Longrightarrow> has_permission (Some u) p \<longleftrightarrow> p \<in> set PERMISSIONS"
  using permissions_for_role_subset
  by (auto simp: has_permission_def is_admin_def list_ex_iff intro!: bexI [of _ ADMIN])

lemma has_permission_guest: "u_roles u = [GUEST] \<Longrightarrow> \<not> has_permission (Some u) p"
  by (simp add: has_permission_def)

text \<open>
  The permission lists and role names are closed strings; they are unfolded by name only.
\<close>

declare role_name_of.simps [simp del] permissions_for_role.simps [simp del] role_id_of.simps [simp del]

lemma legacy_names:
  "n = ''ADMIN'' \<or> n = ''OPERATOR'' \<or> n = ''USER'' \<longleftrightarrow>
   (\<exists>k \<in> {ADMIN, OPERATOR, USER}. n = role_name_of k)"
  by (simp add: role_name_of.simps)

end
