(* ===== verification/Iam.thy ===== *)
theory Iam
  imports Rbac
begin

text \<open>
  Effective access (\<open>packages/core/src/services/iam.ts\<close>): the union of direct grants, role
  permissions and group permissions that a user holds at a moment, the per-VM access with
  its protocol list, the check that routes use, and the rules on who may confer what.

  The database is a record of tables. A join is a nested list comprehension; the code never
  depends on the order of its rows. All queries and clock readings of one request are taken
  at one instant \<open>now\<close>.
\<close>

subsection \<open>Tables\<close>

record role_row =
  role_id :: string
  role_name :: string
  role_description :: string
  role_is_system :: bool

record user_role_row =
  ur_user :: string
  ur_role :: string
  ur_expires :: "time option"

record role_permission_row =
  rp_role :: string
  rp_permission :: string

record user_permission_row =
  up_user :: string
  up_permission :: string
  up_expires :: "time option"

record group_row =
  g_id :: string
  g_name :: string
  g_description :: string

record group_member_row =
  gm_group :: string
  gm_user :: string
  gm_expires :: "time option"

record group_role_row =
  gr_group :: string
  gr_role :: string
  gr_expires :: "time option"

record group_vm_row =
  gva_group :: string
  gva_vm :: string
  gva_protocols :: json
  gva_expires :: "time option"

record vm_access_row =
  va_vm :: string
  va_user :: string
  va_protocols :: json
  va_expires :: "time option"
  va_created_by :: "string option"

record iam_db =
  roles :: "role_row list"
  user_roles :: "user_role_row list"
  role_permissions :: "role_permission_row list"
  user_permissions :: "user_permission_row list"
  groups :: "group_row list"
  group_members :: "group_member_row list"
  group_roles :: "group_role_row list"
  group_vm_access :: "group_vm_row list"
  vm_access :: "vm_access_row list"

text \<open>Every grant table is a table of rows with an expiry date.\<close>

interpretation ur_rows: expiring ur_expires "\<lambda>now r. is_live (ur_expires r) now"
  by unfold_locales simp

interpretation up_rows: expiring up_expires "\<lambda>now r. is_live (up_expires r) now"
  by unfold_locales simp

interpretation gm_rows: expiring gm_expires "\<lambda>now r. is_live (gm_expires r) now"
  by unfold_locales simp

interpretation gr_rows: expiring gr_expires "\<lambda>now r. is_live (gr_expires r) now"
  by unfold_locales simp

interpretation gva_rows: expiring gva_expires "\<lambda>now r. is_live (gva_expires r) now"
  by unfold_locales simp

interpretation va_rows: expiring va_expires "\<lambda>now r. is_live (va_expires r) now"
  by unfold_locales simp

subsection \<open>Protocol lists\<close>

definition KNOWN_PROTOCOLS :: "string list" where
  "KNOWN_PROTOCOLS = [''ssh'', ''rdp'', ''vnc'']"

fun json_known_protocol :: "json \<Rightarrow> string option" where
  "json_known_protocol (JStr p) = (if p \<in> set KNOWN_PROTOCOLS then Some p else None)"
| "json_known_protocol _ = None"

fun sanitize_protocols :: "json \<Rightarrow> string list option" where
  "sanitize_protocols (JArr vs) = Some (dedup (List.map_filter json_known_protocol vs))"
| "sanitize_protocols _ = None"

lemma json_known_protocol_known: "json_known_protocol v = Some p \<Longrightarrow> p \<in> set KNOWN_PROTOCOLS"
  by (cases v) (auto split: if_splits)

lemma sanitize_protocols_known:
  assumes "sanitize_protocols v = Some ps"
  shows "set ps \<subseteq> set KNOWN_PROTOCOLS \<and> distinct ps"
  using assms
  by (cases v) (auto simp: List.map_filter_def json_known_protocol_known)

subsection \<open>Effective access\<close>

record vm_access_grant =
  grant_protocols :: "string list option"
  grant_expires :: "time option"
  grant_sources :: "string list"

record effective_access =
  permissions :: "(string \<times> string list) list"
  vm_grants :: "(string \<times> vm_access_grant) list"
  eff_roles :: "string list"
  eff_groups :: "(string \<times> string) list"

definition add_perm ::
  "(string \<times> string list) list \<Rightarrow> string \<times> string \<Rightarrow> (string \<times> string list) list" where
  "add_perm m ps = (case ps of (perm, source) \<Rightarrow>
     let l = (case map_of m perm of None \<Rightarrow> [] | Some l \<Rightarrow> l)
     in AList.update perm (if source \<in> set l then l else l @ [source]) m)"

definition merge_grant ::
  "vm_access_grant \<Rightarrow> string list option \<Rightarrow> time option \<Rightarrow> string \<Rightarrow> vm_access_grant" where
  "merge_grant cur protocols expires source =
     \<lparr> grant_protocols = (case (grant_protocols cur, protocols) of
          (Some a, Some b) \<Rightarrow> Some (dedup (a @ b))
        | _ \<Rightarrow> None),
       grant_expires = (case grant_expires cur of
          None \<Rightarrow> expires
        | Some c \<Rightarrow> (case expires of
             None \<Rightarrow> Some c
           | Some e \<Rightarrow> if e > c then Some e else Some c)),
       grant_sources = (if source \<in> set (grant_sources cur) then grant_sources cur
                        else grant_sources cur @ [source]) \<rparr>"

definition add_vm_access ::
  "(string \<times> vm_access_grant) list \<Rightarrow> string \<times> string list option \<times> time option \<times> string
   \<Rightarrow> (string \<times> vm_access_grant) list" where
  "add_vm_access m row = (case row of (vm, protocols, expires, source) \<Rightarrow>
     case map_of m vm of
       None \<Rightarrow> AList.update vm \<lparr> grant_protocols = protocols, grant_expires = expires,
                                grant_sources = [source] \<rparr> m
     | Some cur \<Rightarrow> AList.update vm (merge_grant cur protocols expires source) m)"

text \<open>The human-readable source labels that the explanation API shows.\<close>

definition role_source :: "role_row \<Rightarrow> string" where
  "role_source r = ''role:'' @ role_name r"

definition group_role_source :: "role_row \<Rightarrow> group_row \<Rightarrow> string" where
  "group_role_source r g = ''group role:'' @ role_name r @ '' via '' @ g_name g"

definition direct_source :: string where
  "direct_source = ''direct grant''"

definition group_vm_source :: "group_row \<Rightarrow> string" where
  "group_vm_source g = ''group '' @ g_name g"

definition direct_vm_source :: string where
  "direct_vm_source = ''direct VM access''"

definition live_user_roles :: "iam_db \<Rightarrow> time \<Rightarrow> string \<Rightarrow> role_row list" where
  "live_user_roles db now uid =
     [r. ur \<leftarrow> user_roles db, ur_user ur = uid \<and> is_live (ur_expires ur) now,
         r \<leftarrow> roles db, role_id r = ur_role ur]"

definition legacy_role_perms :: "role_row list \<Rightarrow> (string \<times> string) list" where
  "legacy_role_perms rs =
     [(p, role_source r). r \<leftarrow> rs,
        role_name r = ''ADMIN'' \<or> role_name r = ''OPERATOR'' \<or> role_name r = ''USER'',
        p \<leftarrow> (case role_of_name (role_name r) of None \<Rightarrow> [] | Some k \<Rightarrow> permissions_for_role k)]"

definition custom_role_perms :: "iam_db \<Rightarrow> time \<Rightarrow> string \<Rightarrow> (string \<times> string) list" where
  "custom_role_perms db now uid =
     [(rp_permission rp, role_source r). rp \<leftarrow> role_permissions db,
        r \<leftarrow> roles db, role_id r = rp_role rp,
        ur \<leftarrow> user_roles db,
        ur_role ur = role_id r \<and> ur_user ur = uid \<and> is_live (ur_expires ur) now]"

definition direct_perms :: "iam_db \<Rightarrow> time \<Rightarrow> string \<Rightarrow> (string \<times> string) list" where
  "direct_perms db now uid =
     [(up_permission r, direct_source). r \<leftarrow> user_permissions db,
        up_user r = uid \<and> is_live (up_expires r) now]"

definition live_groups :: "iam_db \<Rightarrow> time \<Rightarrow> string \<Rightarrow> group_row list" where
  "live_groups db now uid =
     [g. gm \<leftarrow> group_members db, gm_user gm = uid \<and> is_live (gm_expires gm) now,
         g \<leftarrow> groups db, g_id g = gm_group gm]"

definition group_role_perms :: "iam_db \<Rightarrow> time \<Rightarrow> string list \<Rightarrow> (string \<times> string) list" where
  "group_role_perms db now gids =
     [(rp_permission rp, group_role_source r g).
        gr \<leftarrow> group_roles db, gr_group gr \<in> set gids \<and> is_live (gr_expires gr) now,
        g \<leftarrow> groups db, g_id g = gr_group gr,
        r \<leftarrow> roles db, role_id r = gr_role gr,
        rp \<leftarrow> role_permissions db, rp_role rp = role_id r]"

definition group_vm_rows ::
  "iam_db \<Rightarrow> time \<Rightarrow> string list \<Rightarrow> (string \<times> string list option \<times> time option \<times> string) list" where
  "group_vm_rows db now gids =
     [(gva_vm x, sanitize_protocols (gva_protocols x), gva_expires x, group_vm_source g).
        x \<leftarrow> group_vm_access db, gva_group x \<in> set gids \<and> is_live (gva_expires x) now,
        g \<leftarrow> groups db, g_id g = gva_group x]"

definition direct_vm_rows ::
  "iam_db \<Rightarrow> time \<Rightarrow> string \<Rightarrow> (string \<times> string list option \<times> time option \<times> string) list" where
  "direct_vm_rows db now uid =
     [(va_vm x, sanitize_protocols (va_protocols x), va_expires x, direct_vm_source).
        x \<leftarrow> vm_access db, va_user x = uid \<and> is_live (va_expires x) now]"

definition resolve_effective_access :: "iam_db \<Rightarrow> time \<Rightarrow> string \<Rightarrow> effective_access" where
  "resolve_effective_access db now uid =
    (let live_roles = live_user_roles db now uid;
         p1 = foldl add_perm [] (legacy_role_perms live_roles);
         p2 = (if live_roles \<noteq> [] then foldl add_perm p1 (custom_role_perms db now uid) else p1);
         p3 = foldl add_perm p2 (direct_perms db now uid);
         gs = live_groups db now uid;
         gids = map g_id gs;
         p4 = (if gs \<noteq> [] then foldl add_perm p3 (group_role_perms db now gids) else p3);
         v1 = (if gs \<noteq> [] then foldl add_vm_access [] (group_vm_rows db now gids) else []);
         v2 = foldl add_vm_access v1 (direct_vm_rows db now uid)
     in \<lparr> permissions = p4, vm_grants = v2, eff_roles = map role_name live_roles,
          eff_groups = map (\<lambda>g. (g_id g, g_name g)) gs \<rparr>)"

subsection \<open>The check used by routes\<close>

datatype access_reason =
  Ok | InactiveUser | MissingPermission | MissingVmAccess | AccessExpired | ProtocolDenied

record access_check =
  ac_allowed :: bool
  ac_reason :: access_reason
  ac_permission :: "string option"
  ac_sources :: "string list option"

record check_opts =
  opt_permission :: "string option"
  opt_vm :: "string option"
  opt_protocol :: "string option"

text \<open>An empty string is falsy, so an option that is \<open>Some []\<close> is treated as absent.\<close>

definition truthy :: "string option \<Rightarrow> bool" where
  "truthy x \<longleftrightarrow> (case x of None \<Rightarrow> False | Some s \<Rightarrow> s \<noteq> [])"

definition protocol_prefix :: string where
  "protocol_prefix = ''protocol.''"

definition global_protocols :: "effective_access \<Rightarrow> string list" where
  "global_protocols ea =
     filter (\<lambda>p. p \<in> set KNOWN_PROTOCOLS)
       (map (drop (length protocol_prefix))
         (filter (\<lambda>p. starts_with p protocol_prefix) (keys_of (permissions ea))))"

definition allowed_protocols :: "effective_access \<Rightarrow> string \<Rightarrow> string list option" where
  "allowed_protocols ea vm = (case map_of (vm_grants ea) vm of
       None \<Rightarrow> Some []
     | Some g \<Rightarrow> (case grant_protocols g of
          Some ps \<Rightarrow> Some ps
        | None \<Rightarrow> (if global_protocols ea = [] then None else Some (global_protocols ea))))"

definition deny :: "access_reason \<Rightarrow> string option \<Rightarrow> string list option \<Rightarrow> access_check" where
  "deny r p s = \<lparr> ac_allowed = False, ac_reason = r, ac_permission = p, ac_sources = s \<rparr>"

definition expired_vm_rows :: "iam_db \<Rightarrow> time \<Rightarrow> string \<Rightarrow> string \<Rightarrow> vm_access_row list" where
  "expired_vm_rows db now vm uid =
     filter (\<lambda>x. va_vm x = vm \<and> va_user x = uid \<and>
        (case va_expires x of None \<Rightarrow> False | Some t \<Rightarrow> t \<le> now)) (vm_access db)"

definition check_access ::
  "iam_db \<Rightarrow> time \<Rightarrow> user_with_roles \<Rightarrow> check_opts \<Rightarrow> access_check" where
  "check_access db now user opts =
    (let perm = opt_permission opts in
     if \<not> u_active user then deny InactiveUser None None
     else if truthy (opt_vm opts) \<and> \<not> is_uuid (the (opt_vm opts)) then deny MissingVmAccess perm None
     else let ea = resolve_effective_access db now (u_id user) in
     if truthy perm \<and> \<not> map_has (permissions ea) (the perm) then deny MissingPermission perm None
     else let sources = (if truthy perm
              then (case map_of (permissions ea) (the perm) of None \<Rightarrow> [] | Some l \<Rightarrow> l) else []) in
     if truthy (opt_vm opts) then
       (case map_of (vm_grants ea) (the (opt_vm opts)) of
          None \<Rightarrow> deny (if length (expired_vm_rows db now (the (opt_vm opts)) (u_id user)) > 0
                        then AccessExpired else MissingVmAccess) perm (Some sources)
        | Some g \<Rightarrow>
           (if truthy (opt_protocol opts) \<and>
               (case allowed_protocols ea (the (opt_vm opts)) of
                  None \<Rightarrow> False | Some ps \<Rightarrow> the (opt_protocol opts) \<notin> set ps)
            then deny ProtocolDenied perm (Some sources)
            else \<lparr> ac_allowed = True, ac_reason = Ok, ac_permission = perm, ac_sources = Some sources \<rparr>))
     else if truthy (opt_protocol opts) \<and>
             \<not> map_has (permissions ea) (protocol_prefix @ the (opt_protocol opts))
     then deny ProtocolDenied perm (Some sources)
     else \<lparr> ac_allowed = True, ac_reason = Ok, ac_permission = perm, ac_sources = Some sources \<rparr>)"

subsection \<open>Who may confer what, and whom one may administer\<close>

definition require_system_role_protection :: "role_row \<Rightarrow> string \<Rightarrow> unit res" where
  "require_system_role_protection role action =
     (if role_is_system role
      then Inl (err_forbidden (''System role \"'' @ role_name role @ ''\" is protected from '' @ action))
      else Inr ())"

definition role_effective_permissions :: "iam_db \<Rightarrow> string \<Rightarrow> string list res" where
  "role_effective_permissions db rid =
     (case find (\<lambda>r. role_id r = rid) (roles db) of
        None \<Rightarrow> Inl (err_not_found ''Role not found'')
      | Some r \<Rightarrow>
         (if role_name r = [] then Inl (err_not_found ''Role not found'')
          else if role_name r = ''ADMIN'' \<or> role_name r = ''OPERATOR'' \<or> role_name r = ''USER''
          then Inr (dedup (case role_of_name (role_name r) of None \<Rightarrow> [] | Some k \<Rightarrow> permissions_for_role k))
          else Inr (dedup (map rp_permission (filter (\<lambda>x. rp_role x = rid) (role_permissions db))))))"

definition assert_may_confer :: "iam_db \<Rightarrow> time \<Rightarrow> string \<Rightarrow> string list \<Rightarrow> unit res" where
  "assert_may_confer db now actor perms =
    (let ea = resolve_effective_access db now actor;
         missing = filter (\<lambda>p. \<not> map_has (permissions ea) p) (dedup perms)
     in if missing \<noteq> []
        then Inl (err_forbidden (''You cannot grant permission(s) you do not possess: '' @ join '', '' missing))
        else Inr ())"

definition assert_can_administer_target :: "iam_db \<Rightarrow> time \<Rightarrow> string \<Rightarrow> string \<Rightarrow> unit res" where
  "assert_can_administer_target db now actor target =
    (if actor = target then Inr ()
     else let a = resolve_effective_access db now actor;
              t = resolve_effective_access db now target;
              overreach = filter (\<lambda>p. \<not> map_has (permissions a) p) (keys_of (permissions t))
          in if overreach \<noteq> []
             then Inl (err_forbidden ''Target user holds permissions you do not possess'')
             else Inr ())"

subsection \<open>Deleting what has expired\<close>

definition expired :: "time option \<Rightarrow> time \<Rightarrow> bool" where
  "expired e now = (case e of None \<Rightarrow> False | Some t \<Rightarrow> t \<le> now)"

lemma expired_iff: "expired e now \<longleftrightarrow> \<not> is_live e now"
  by (cases e) (auto simp: expired_def)

definition prune_expired :: "iam_db \<Rightarrow> time \<Rightarrow> iam_db" where
  "prune_expired db now = db\<lparr>
     group_vm_access := table_delete (\<lambda>r. expired (gva_expires r) now) (group_vm_access db),
     group_members := table_delete (\<lambda>r. expired (gm_expires r) now) (group_members db),
     group_roles := table_delete (\<lambda>r. expired (gr_expires r) now) (group_roles db),
     user_permissions := table_delete (\<lambda>r. expired (up_expires r) now) (user_permissions db)\<rparr>"

definition delete_expired_vm_access :: "iam_db \<Rightarrow> time \<Rightarrow> string \<Rightarrow> string \<Rightarrow> iam_db" where
  "delete_expired_vm_access db now vm uid = db\<lparr>
     vm_access := table_delete (\<lambda>r. va_vm r = vm \<and> va_user r = uid \<and> expired (va_expires r) now)
       (vm_access db)\<rparr>"

end
