(* ===== verification/Iam_Props.thy ===== *)
theory Iam_Props
  imports Iam
begin

text \<open>
  Correctness of effective access. \<open>grants_permission\<close> and \<open>grants_vm\<close> say, table by table
  and without any accumulation, which live rows are a source of a permission or of access to
  a VM; the resolver is proved to compute exactly that.
\<close>

subsection \<open>The accumulators\<close>

definition perm_sources :: "(string \<times> string list) list \<Rightarrow> string \<Rightarrow> string list" where
  "perm_sources m p = (case map_of m p of None \<Rightarrow> [] | Some l \<Rightarrow> l)"

lemma perm_sources_Nil [simp]: "perm_sources [] p = []"
  by (simp add: perm_sources_def)

lemma set_perm_sources_add:
  "set (perm_sources (add_perm m (q, s)) p) = set (perm_sources m p) \<union> (if p = q then {s} else {})"
  by (auto simp: add_perm_def perm_sources_def update_conv' Let_def split: option.splits)

lemma set_perm_sources_foldl:
  "set (perm_sources (foldl add_perm m ps) p) = set (perm_sources m p) \<union> {s. (p, s) \<in> set ps}"
proof (induction ps arbitrary: m)
  case (Cons x ps)
  show ?case
    unfolding foldl_Cons Cons.IH
    by (cases x) (auto simp: set_perm_sources_add)
qed simp

lemma map_has_add_perm [simp]: "map_has (add_perm m (q, s)) p \<longleftrightarrow> p = q \<or> map_has m p"
  by (simp add: add_perm_def Let_def)

lemma map_has_foldl_add_perm:
  "map_has (foldl add_perm m ps) p \<longleftrightarrow> map_has m p \<or> (\<exists>s. (p, s) \<in> set ps)"
proof (induction ps arbitrary: m)
  case (Cons x ps)
  show ?case
    unfolding foldl_Cons Cons.IH by (cases x) auto
qed simp

lemma role_of_name_role [simp]: "role_name r = role_name_of k \<Longrightarrow> role_of_name (role_name r) = Some k"
  by simp

lemma set_legacy_role_perms:
  "(p, s) \<in> set (legacy_role_perms rs) \<longleftrightarrow>
   (\<exists>r \<in> set rs. \<exists>k \<in> {ADMIN, OPERATOR, USER}. role_name r = role_name_of k \<and>
      p \<in> set (permissions_for_role k) \<and> s = role_source r)"
  unfolding legacy_role_perms_def in_comprehension legacy_names
proof (rule bex_cong [OF refl])
  fix r :: role_row
  let ?perms = "case role_of_name (role_name r) of None \<Rightarrow> [] | Some k \<Rightarrow> permissions_for_role k"
  have "?perms = permissions_for_role k" if "role_name r = role_name_of k" for k
    using role_of_name_role [OF that] by (simp only: option.case)
  then show "((\<exists>k\<in>{ADMIN, OPERATOR, USER}. role_name r = role_name_of k) \<and>
      (p, s) \<in> set (map (\<lambda>p. (p, role_source r)) ?perms)) \<longleftrightarrow>
    (\<exists>k\<in>{ADMIN, OPERATOR, USER}. role_name r = role_name_of k \<and>
      p \<in> set (permissions_for_role k) \<and> s = role_source r)"
    by auto
qed

subsection \<open>The specification of a live source\<close>

definition role_held :: "iam_db \<Rightarrow> time \<Rightarrow> string \<Rightarrow> role_row \<Rightarrow> bool" where
  "role_held db now uid r \<longleftrightarrow> r \<in> set (roles db) \<and>
     (\<exists>ur \<in> set (user_roles db). ur_user ur = uid \<and> ur_role ur = role_id r \<and> is_live (ur_expires ur) now)"

definition member_of :: "iam_db \<Rightarrow> time \<Rightarrow> string \<Rightarrow> group_row \<Rightarrow> bool" where
  "member_of db now uid g \<longleftrightarrow> g \<in> set (groups db) \<and>
     (\<exists>gm \<in> set (group_members db). gm_user gm = uid \<and> gm_group gm = g_id g \<and> is_live (gm_expires gm) now)"

definition grants_by_role :: "iam_db \<Rightarrow> time \<Rightarrow> string \<Rightarrow> string \<Rightarrow> string \<Rightarrow> bool" where
  "grants_by_role db now uid p s \<longleftrightarrow>
     (\<exists>r. role_held db now uid r \<and>
        (\<exists>k \<in> {ADMIN, OPERATOR, USER}. role_name r = role_name_of k \<and>
           p \<in> set (permissions_for_role k) \<and> s = role_source r)) \<or>
     (\<exists>r. role_held db now uid r \<and> s = role_source r \<and>
        (\<exists>rp \<in> set (role_permissions db). rp_role rp = role_id r \<and> rp_permission rp = p))"

definition grants_directly :: "iam_db \<Rightarrow> time \<Rightarrow> string \<Rightarrow> string \<Rightarrow> string \<Rightarrow> bool" where
  "grants_directly db now uid p s \<longleftrightarrow> s = direct_source \<and>
     (\<exists>up \<in> set (user_permissions db). up_user up = uid \<and> up_permission up = p \<and> is_live (up_expires up) now)"

definition grants_by_group :: "iam_db \<Rightarrow> time \<Rightarrow> string \<Rightarrow> string \<Rightarrow> string \<Rightarrow> bool" where
  "grants_by_group db now uid p s \<longleftrightarrow>
     (\<exists>g r. (\<exists>g'. member_of db now uid g' \<and> g_id g' = g_id g) \<and> g \<in> set (groups db) \<and>
       r \<in> set (roles db) \<and> s = group_role_source r g \<and>
       (\<exists>gr \<in> set (group_roles db). gr_group gr = g_id g \<and> gr_role gr = role_id r \<and> is_live (gr_expires gr) now) \<and>
       (\<exists>rp \<in> set (role_permissions db). rp_role rp = role_id r \<and> rp_permission rp = p))"

definition grants_permission :: "iam_db \<Rightarrow> time \<Rightarrow> string \<Rightarrow> string \<Rightarrow> string \<Rightarrow> bool" where
  "grants_permission db now uid p s \<longleftrightarrow>
     grants_by_role db now uid p s \<or> grants_directly db now uid p s \<or> grants_by_group db now uid p s"

lemma set_live_user_roles: "r \<in> set (live_user_roles db now uid) \<longleftrightarrow> role_held db now uid r"
  unfolding live_user_roles_def role_held_def in_comprehension by fastforce

lemma set_live_groups: "g \<in> set (live_groups db now uid) \<longleftrightarrow> member_of db now uid g"
  unfolding live_groups_def member_of_def in_comprehension by fastforce

lemma set_custom_role_perms:
  "(p, s) \<in> set (custom_role_perms db now uid) \<longleftrightarrow>
   (\<exists>r. role_held db now uid r \<and> s = role_source r \<and>
      (\<exists>rp \<in> set (role_permissions db). rp_role rp = role_id r \<and> rp_permission rp = p))"
  unfolding custom_role_perms_def role_held_def in_comprehension prod.inject
  by (rule iffI; elim bexE exE conjE; metis)

lemma set_group_role_perms:
  "(p, s) \<in> set (group_role_perms db now gids) \<longleftrightarrow>
   (\<exists>g r. g_id g \<in> set gids \<and> g \<in> set (groups db) \<and> r \<in> set (roles db) \<and>
      s = group_role_source r g \<and>
      (\<exists>gr \<in> set (group_roles db). gr_group gr = g_id g \<and> gr_role gr = role_id r \<and> is_live (gr_expires gr) now) \<and>
      (\<exists>rp \<in> set (role_permissions db). rp_role rp = role_id r \<and> rp_permission rp = p))"
  unfolding group_role_perms_def in_comprehension prod.inject
  by (rule iffI; elim bexE exE conjE; metis)

lemma by_role_iff:
  "grants_by_role db now uid p s \<longleftrightarrow>
     (p, s) \<in> set (legacy_role_perms (live_user_roles db now uid)) \<or>
     (p, s) \<in> set (custom_role_perms db now uid)"
  unfolding grants_by_role_def set_legacy_role_perms set_custom_role_perms
  by (simp only: Bex_def [of "set (live_user_roles db now uid)"] set_live_user_roles)

lemma custom_needs_role: "(p, s) \<in> set (custom_role_perms db now uid) \<Longrightarrow> live_user_roles db now uid \<noteq> []"
  using set_live_user_roles by (force simp: set_custom_role_perms)

lemma directly_iff: "grants_directly db now uid p s \<longleftrightarrow> (p, s) \<in> set (direct_perms db now uid)"
  unfolding grants_directly_def direct_perms_def in_comprehension prod.inject by metis

lemma group_id_iff:
  "i \<in> set (map g_id (live_groups db now uid)) \<longleftrightarrow> (\<exists>g'. member_of db now uid g' \<and> g_id g' = i)"
  by (auto simp: set_live_groups)

lemma by_group_iff:
  "grants_by_group db now uid p s \<longleftrightarrow>
     (p, s) \<in> set (group_role_perms db now (map g_id (live_groups db now uid)))"
  by (simp only: grants_by_group_def set_group_role_perms group_id_iff)

lemma group_needs_group:
  "(p, s) \<in> set (group_role_perms db now (map g_id gs)) \<Longrightarrow> gs \<noteq> []"
  by (auto simp: set_group_role_perms)

lemma resolve_permissions:
  "permissions (resolve_effective_access db now uid) =
     foldl add_perm [] (legacy_role_perms (live_user_roles db now uid)
       @ (if live_user_roles db now uid \<noteq> [] then custom_role_perms db now uid else [])
       @ direct_perms db now uid
       @ (if live_groups db now uid \<noteq> [] then group_role_perms db now (map g_id (live_groups db now uid)) else []))"
  by (simp add: resolve_effective_access_def Let_def)

lemma resolve_has_iff:
  "map_has (permissions (resolve_effective_access db now uid)) p \<longleftrightarrow>
   (\<exists>s. grants_permission db now uid p s)"
  unfolding resolve_permissions map_has_foldl_add_perm grants_permission_def
    by_role_iff directly_iff by_group_iff
  by (auto dest: custom_needs_role group_needs_group)

lemma resolve_sources:
  "set (perm_sources (permissions (resolve_effective_access db now uid)) p) =
   {s. grants_permission db now uid p s}"
  unfolding resolve_permissions set_perm_sources_foldl grants_permission_def
    by_role_iff directly_iff by_group_iff
  by (auto dest: custom_needs_role group_needs_group)

subsection \<open>Access to virtual machines\<close>

type_synonym vm_grant_row = "string \<times> string list option \<times> time option \<times> string"

definition vm_rows :: "iam_db \<Rightarrow> time \<Rightarrow> string \<Rightarrow> vm_grant_row list" where
  "vm_rows db now uid =
     group_vm_rows db now (map g_id (live_groups db now uid)) @ direct_vm_rows db now uid"

definition list_covers :: "string list option \<Rightarrow> string \<Rightarrow> bool" where
  "list_covers ps p \<longleftrightarrow> (case ps of None \<Rightarrow> True | Some l \<Rightarrow> p \<in> set l)"

definition vm_covers :: "(string \<times> vm_access_grant) list \<Rightarrow> string \<Rightarrow> string \<Rightarrow> bool" where
  "vm_covers m vm p \<longleftrightarrow>
     (case map_of m vm of None \<Rightarrow> False | Some g \<Rightarrow> list_covers (grant_protocols g) p)"

definition vm_unscoped :: "(string \<times> vm_access_grant) list \<Rightarrow> string \<Rightarrow> bool" where
  "vm_unscoped m vm \<longleftrightarrow>
     (case map_of m vm of None \<Rightarrow> False | Some g \<Rightarrow> grant_protocols g = None)"

lemma list_covers_merge:
  "list_covers (grant_protocols (merge_grant g ps e s)) p \<longleftrightarrow> list_covers (grant_protocols g) p \<or> list_covers ps p"
  by (auto simp: merge_grant_def list_covers_def split: option.splits)

lemma merge_grant_None:
  "grant_protocols (merge_grant g ps e s) = None \<longleftrightarrow> grant_protocols g = None \<or> ps = None"
  by (auto simp: merge_grant_def split: option.splits)

lemma map_has_add_vm [simp]:
  "map_has (add_vm_access m (v, ps, e, s)) vm \<longleftrightarrow> vm = v \<or> map_has m vm"
  by (auto simp: add_vm_access_def split: option.splits)

lemma vm_covers_add:
  "vm_covers (add_vm_access m (v, ps, e, s)) vm p \<longleftrightarrow> vm_covers m vm p \<or> (vm = v \<and> list_covers ps p)"
  by (auto simp: add_vm_access_def vm_covers_def update_conv' list_covers_merge split: option.splits)

lemma vm_unscoped_add:
  "vm_unscoped (add_vm_access m (v, ps, e, s)) vm \<longleftrightarrow> vm_unscoped m vm \<or> (vm = v \<and> ps = None)"
  by (auto simp: add_vm_access_def vm_unscoped_def update_conv' merge_grant_None split: option.splits)

lemma foldl_add_vm:
  "map_has (foldl add_vm_access m rs) vm \<longleftrightarrow> map_has m vm \<or> (\<exists>ps e s. (vm, ps, e, s) \<in> set rs)"
  "vm_covers (foldl add_vm_access m rs) vm p \<longleftrightarrow>
     vm_covers m vm p \<or> (\<exists>ps e s. (vm, ps, e, s) \<in> set rs \<and> list_covers ps p)"
  "vm_unscoped (foldl add_vm_access m rs) vm \<longleftrightarrow>
     vm_unscoped m vm \<or> (\<exists>e s. (vm, None, e, s) \<in> set rs)"
proof (induction rs arbitrary: m)
  case (Cons r rs)
  obtain v ps e s where r: "r = (v, ps, e, s)" by (cases r) auto
  { case 1 show ?case unfolding foldl_Cons Cons.IH r by auto }
  { case 2 show ?case unfolding foldl_Cons Cons.IH r vm_covers_add by auto }
  { case 3 show ?case unfolding foldl_Cons Cons.IH r vm_unscoped_add by auto }
qed simp_all

lemma resolve_vm_grants:
  "vm_grants (resolve_effective_access db now uid) = foldl add_vm_access [] (vm_rows db now uid)"
proof -
  have "live_groups db now uid = [] \<Longrightarrow> group_vm_rows db now [] = []"
    by (simp add: group_vm_rows_def)
  then show ?thesis by (simp add: resolve_effective_access_def vm_rows_def Let_def)
qed

text \<open>What a live VM row is, table by table.\<close>

definition grants_vm :: "iam_db \<Rightarrow> time \<Rightarrow> string \<Rightarrow> string \<Rightarrow> string list option \<Rightarrow> bool" where
  "grants_vm db now uid vm ps \<longleftrightarrow>
     (\<exists>x \<in> set (vm_access db). va_user x = uid \<and> va_vm x = vm \<and>
        sanitize_protocols (va_protocols x) = ps \<and> is_live (va_expires x) now) \<or>
     (\<exists>g. member_of db now uid g \<and>
        (\<exists>x \<in> set (group_vm_access db). gva_group x = g_id g \<and> gva_vm x = vm \<and>
           sanitize_protocols (gva_protocols x) = ps \<and> is_live (gva_expires x) now))"

lemma grants_vm_iff: "grants_vm db now uid vm ps \<longleftrightarrow> (\<exists>e s. (vm, ps, e, s) \<in> set (vm_rows db now uid))"
proof -
  have direct: "(\<exists>e s. (vm, ps, e, s) \<in> set (direct_vm_rows db now uid)) \<longleftrightarrow>
      (\<exists>x \<in> set (vm_access db). va_user x = uid \<and> va_vm x = vm \<and>
        sanitize_protocols (va_protocols x) = ps \<and> is_live (va_expires x) now)"
    unfolding direct_vm_rows_def in_comprehension prod.inject by blast
  have group: "(\<exists>e s. (vm, ps, e, s) \<in> set (group_vm_rows db now (map g_id (live_groups db now uid)))) \<longleftrightarrow>
      (\<exists>g. member_of db now uid g \<and>
        (\<exists>x \<in> set (group_vm_access db). gva_group x = g_id g \<and> gva_vm x = vm \<and>
           sanitize_protocols (gva_protocols x) = ps \<and> is_live (gva_expires x) now))"
    unfolding group_vm_rows_def in_comprehension prod.inject group_id_iff
  proof (intro iffI; elim exE bexE conjE)
    fix x g' assume "x \<in> set (group_vm_access db)" "is_live (gva_expires x) now"
      "member_of db now uid g'" "g_id g' = gva_group x" "vm = gva_vm x" "ps = sanitize_protocols (gva_protocols x)"
    then show "\<exists>g. member_of db now uid g \<and> (\<exists>x \<in> set (group_vm_access db). gva_group x = g_id g \<and>
      gva_vm x = vm \<and> sanitize_protocols (gva_protocols x) = ps \<and> is_live (gva_expires x) now)"
      by (intro exI [of _ g'] conjI bexI [of _ x]) simp_all
  next
    fix g x assume m: "member_of db now uid g" and x: "x \<in> set (group_vm_access db)" "gva_group x = g_id g"
      "gva_vm x = vm" "sanitize_protocols (gva_protocols x) = ps" "is_live (gva_expires x) now"
    from m have "g \<in> set (groups db)" by (simp add: member_of_def)
    with m x show "\<exists>e s. \<exists>x \<in> set (group_vm_access db).
      ((\<exists>g'. member_of db now uid g' \<and> g_id g' = gva_group x) \<and> is_live (gva_expires x) now) \<and>
      (\<exists>g \<in> set (groups db). g_id g = gva_group x \<and> vm = gva_vm x \<and>
        ps = sanitize_protocols (gva_protocols x) \<and> e = gva_expires x \<and> s = group_vm_source g)"
      by (intro exI [of _ "gva_expires x"] exI [of _ "group_vm_source g"] bexI [of _ x] conjI
            exI [of _ g] bexI [of _ g]) simp_all
  qed
  show ?thesis
    unfolding grants_vm_def vm_rows_def set_append Un_iff ex_disj_distrib direct group by blast
qed

lemma resolve_vm_has_iff:
  "map_has (vm_grants (resolve_effective_access db now uid)) vm \<longleftrightarrow> (\<exists>ps. grants_vm db now uid vm ps)"
  unfolding resolve_vm_grants foldl_add_vm grants_vm_iff by auto

lemma resolve_vm_covers_iff:
  "vm_covers (vm_grants (resolve_effective_access db now uid)) vm p \<longleftrightarrow>
   (\<exists>ps. grants_vm db now uid vm ps \<and> list_covers ps p)"
  unfolding resolve_vm_grants foldl_add_vm grants_vm_iff by (auto simp: vm_covers_def)

lemma resolve_vm_unscoped_iff:
  "vm_unscoped (vm_grants (resolve_effective_access db now uid)) vm \<longleftrightarrow> grants_vm db now uid vm None"
  unfolding resolve_vm_grants foldl_add_vm grants_vm_iff by (auto simp: vm_unscoped_def)

subsection \<open>Time and sweeping\<close>

lemma role_held_antimono: "role_held db now' uid r \<Longrightarrow> now \<le> now' \<Longrightarrow> role_held db now uid r"
  unfolding role_held_def using ur_rows.live_antimono by blast

lemma member_of_antimono: "member_of db now' uid g \<Longrightarrow> now \<le> now' \<Longrightarrow> member_of db now uid g"
  unfolding member_of_def using gm_rows.live_antimono by blast

lemma grants_permission_antimono:
  assumes "grants_permission db now' uid p s" and "now \<le> now'"
  shows "grants_permission db now uid p s"
proof -
  have "grants_by_role db now' uid p s \<Longrightarrow> grants_by_role db now uid p s"
    unfolding grants_by_role_def using role_held_antimono [OF _ assms(2)] by blast
  moreover have "grants_directly db now' uid p s \<Longrightarrow> grants_directly db now uid p s"
    unfolding grants_directly_def using is_live_antimono [OF _ assms(2)] by blast
  moreover have "grants_by_group db now' uid p s \<Longrightarrow> grants_by_group db now uid p s"
    unfolding grants_by_group_def
    using member_of_antimono [OF _ assms(2)] is_live_antimono [OF _ assms(2)] by blast
  ultimately show ?thesis using assms(1) unfolding grants_permission_def by blast
qed

lemma grants_vm_antimono:
  assumes "grants_vm db now' uid vm ps" and "now \<le> now'"
  shows "grants_vm db now uid vm ps"
  using assms(1) unfolding grants_vm_def
  using member_of_antimono [OF _ assms(2)] is_live_antimono [OF _ assms(2)] by blast

lemma prune_selectors [simp]:
  "user_roles (prune_expired db t) = user_roles db"
  "roles (prune_expired db t) = roles db"
  "groups (prune_expired db t) = groups db"
  "role_permissions (prune_expired db t) = role_permissions db"
  "vm_access (prune_expired db t) = vm_access db"
  by (simp_all add: prune_expired_def)

lemma prune_tables:
  "group_vm_access (prune_expired db t) = filter (\<lambda>r. is_live (gva_expires r) t) (group_vm_access db)"
  "group_members (prune_expired db t) = filter (\<lambda>r. is_live (gm_expires r) t) (group_members db)"
  "group_roles (prune_expired db t) = filter (\<lambda>r. is_live (gr_expires r) t) (group_roles db)"
  "user_permissions (prune_expired db t) = filter (\<lambda>r. is_live (up_expires r) t) (user_permissions db)"
  by (simp_all add: prune_expired_def table_delete_def expired_iff)

lemma live_user_roles_prune: "live_user_roles (prune_expired db t) now uid = live_user_roles db now uid"
  unfolding live_user_roles_def prune_selectors ..

lemma custom_role_perms_prune: "custom_role_perms (prune_expired db t) now uid = custom_role_perms db now uid"
  unfolding custom_role_perms_def prune_selectors ..

lemma direct_perms_prune: "t \<le> now \<Longrightarrow> direct_perms (prune_expired db t) now uid = direct_perms db now uid"
  unfolding direct_perms_def prune_tables
  by (rule up_rows.sweep_concat) auto

lemma live_groups_prune: "t \<le> now \<Longrightarrow> live_groups (prune_expired db t) now uid = live_groups db now uid"
  unfolding live_groups_def prune_tables prune_selectors
  by (rule gm_rows.sweep_concat) auto

lemma group_role_perms_prune:
  "t \<le> now \<Longrightarrow> group_role_perms (prune_expired db t) now gids = group_role_perms db now gids"
  unfolding group_role_perms_def prune_tables prune_selectors
  by (rule gr_rows.sweep_concat) auto

lemma group_vm_rows_prune:
  "t \<le> now \<Longrightarrow> group_vm_rows (prune_expired db t) now gids = group_vm_rows db now gids"
  unfolding group_vm_rows_def prune_tables prune_selectors
  by (rule gva_rows.sweep_concat) auto

lemma direct_vm_rows_prune: "direct_vm_rows (prune_expired db t) now uid = direct_vm_rows db now uid"
  unfolding direct_vm_rows_def prune_selectors ..

lemmas prune_simps = live_user_roles_prune custom_role_perms_prune direct_perms_prune live_groups_prune
  group_role_perms_prune group_vm_rows_prune direct_vm_rows_prune

lemma resolve_prune:
  "t \<le> now \<Longrightarrow> resolve_effective_access (prune_expired db t) now uid = resolve_effective_access db now uid"
  unfolding resolve_effective_access_def by (simp only: prune_simps)

lemma delete_vm_selectors [simp]:
  "user_roles (delete_expired_vm_access db t vm u) = user_roles db"
  "roles (delete_expired_vm_access db t vm u) = roles db"
  "groups (delete_expired_vm_access db t vm u) = groups db"
  "role_permissions (delete_expired_vm_access db t vm u) = role_permissions db"
  "user_permissions (delete_expired_vm_access db t vm u) = user_permissions db"
  "group_members (delete_expired_vm_access db t vm u) = group_members db"
  "group_roles (delete_expired_vm_access db t vm u) = group_roles db"
  "group_vm_access (delete_expired_vm_access db t vm u) = group_vm_access db"
  by (simp_all add: delete_expired_vm_access_def)

lemma concat_map_delete:
  "(\<And>x. P x \<Longrightarrow> f x = []) \<Longrightarrow> concat (map f (table_delete P xs)) = concat (map f xs)"
  by (induction xs) (auto simp: table_delete_def)

lemma direct_vm_rows_delete:
  "t \<le> now \<Longrightarrow> direct_vm_rows (delete_expired_vm_access db t vm u) now uid = direct_vm_rows db now uid"
  unfolding direct_vm_rows_def delete_expired_vm_access_def
  by (simp, rule concat_map_delete) (auto simp: expired_iff dest: va_rows.live_antimono)

lemma delete_vm_unaffected:
  "live_user_roles (delete_expired_vm_access db t vm u) now uid = live_user_roles db now uid"
  "custom_role_perms (delete_expired_vm_access db t vm u) now uid = custom_role_perms db now uid"
  "direct_perms (delete_expired_vm_access db t vm u) now uid = direct_perms db now uid"
  "live_groups (delete_expired_vm_access db t vm u) now uid = live_groups db now uid"
  "group_role_perms (delete_expired_vm_access db t vm u) now gids = group_role_perms db now gids"
  "group_vm_rows (delete_expired_vm_access db t vm u) now gids = group_vm_rows db now gids"
  unfolding live_user_roles_def custom_role_perms_def direct_perms_def live_groups_def
    group_role_perms_def group_vm_rows_def delete_vm_selectors
  by (rule refl)+

lemma resolve_delete_expired:
  "t \<le> now \<Longrightarrow>
   resolve_effective_access (delete_expired_vm_access db t vm u) now uid = resolve_effective_access db now uid"
  unfolding resolve_effective_access_def delete_vm_unaffected by (simp only: direct_vm_rows_delete)

subsection \<open>The check and the conferral rules\<close>

lemma prefix_drop: "starts_with q a \<Longrightarrow> drop (length a) q = p \<longleftrightarrow> q = a @ p"
  by (auto simp: starts_with_iff)

lemma set_global_protocols:
  "p \<in> set (global_protocols ea) \<longleftrightarrow> p \<in> set KNOWN_PROTOCOLS \<and> map_has (permissions ea) (protocol_prefix @ p)"
  by (auto simp: global_protocols_def set_keys_of map_has_iff starts_with_iff image_iff)

definition protocol_allowed :: "effective_access \<Rightarrow> string \<Rightarrow> string \<Rightarrow> bool" where
  "protocol_allowed ea vm p \<longleftrightarrow> list_covers (allowed_protocols ea vm) p"

lemma protocol_allowed_iff:
  "protocol_allowed ea vm p \<longleftrightarrow> map_has (vm_grants ea) vm \<and> vm_covers (vm_grants ea) vm p \<and>
     (vm_unscoped (vm_grants ea) vm \<longrightarrow> global_protocols ea = [] \<or> p \<in> set (global_protocols ea))"
  by (auto simp: protocol_allowed_def allowed_protocols_def vm_covers_def vm_unscoped_def map_has_def
        list_covers_def split: option.splits)

lemma check_access_allowed:
  "ac_allowed (check_access db now user opts) \<longleftrightarrow>
    (let ea = resolve_effective_access db now (u_id user) in
     u_active user \<and>
     (truthy (opt_permission opts) \<longrightarrow> map_has (permissions ea) (the (opt_permission opts))) \<and>
     (truthy (opt_vm opts) \<longrightarrow> is_uuid (the (opt_vm opts)) \<and> map_has (vm_grants ea) (the (opt_vm opts)) \<and>
        (truthy (opt_protocol opts) \<longrightarrow> protocol_allowed ea (the (opt_vm opts)) (the (opt_protocol opts)))) \<and>
     (\<not> truthy (opt_vm opts) \<and> truthy (opt_protocol opts) \<longrightarrow>
        map_has (permissions ea) (protocol_prefix @ the (opt_protocol opts))))"
proof -
  have "list_covers (allowed_protocols ea vm) p \<longleftrightarrow>
      \<not> (case allowed_protocols ea vm of None \<Rightarrow> False | Some ps \<Rightarrow> p \<notin> set ps)" for ea vm p
    by (simp add: list_covers_def split: option.splits)
  then show ?thesis
    by (auto simp: check_access_def deny_def Let_def protocol_allowed_def map_has_def split: option.splits)
qed

lemma may_confer_iff:
  "is_ok (assert_may_confer db now actor ps) \<longleftrightarrow>
   set ps \<subseteq> {p. map_has (permissions (resolve_effective_access db now actor)) p}"
  by (auto simp: assert_may_confer_def Let_def filter_empty_conv)

lemma can_administer_iff:
  "is_ok (assert_can_administer_target db now actor target) \<longleftrightarrow> actor = target \<or>
   {p. map_has (permissions (resolve_effective_access db now target)) p}
     \<subseteq> {p. map_has (permissions (resolve_effective_access db now actor)) p}"
  by (auto simp: assert_can_administer_target_def Let_def filter_empty_conv set_keys_of map_has_iff)

subsection \<open>Properties\<close>

text \<open>C1. Effective permissions are exact: the resolver reports a permission precisely when some
  live source confers it (a live role of the user, a live direct grant, or a live role of a group
  the user is a live member of), and it lists precisely those sources; without one the answer is
  deny.\<close>

theorem effective_permissions_exact:
  "(map_has (permissions (resolve_effective_access db now uid)) p \<longleftrightarrow> (\<exists>s. grants_permission db now uid p s)) \<and>
   set (perm_sources (permissions (resolve_effective_access db now uid)) p) = {s. grants_permission db now uid p s}"
  by (simp add: resolve_has_iff resolve_sources)

text \<open>Effective VM access is exact: a user has access to a VM precisely when a live direct
  row or a live group row gives it, and the protocol list that results is the union of the rows'
  lists, a row without a list absorbing every other one.\<close>

theorem effective_vm_access_exact:
  "(map_has (vm_grants (resolve_effective_access db now uid)) vm \<longleftrightarrow> (\<exists>ps. grants_vm db now uid vm ps)) \<and>
   (vm_covers (vm_grants (resolve_effective_access db now uid)) vm p \<longleftrightarrow>
      (\<exists>ps. grants_vm db now uid vm ps \<and> list_covers ps p)) \<and>
   (vm_unscoped (vm_grants (resolve_effective_access db now uid)) vm \<longleftrightarrow> grants_vm db now uid vm None)"
  by (simp add: resolve_vm_has_iff resolve_vm_covers_iff resolve_vm_unscoped_iff)

text \<open>C2. The check used by routes allows a request exactly when the user is active, a live
  source confers the permission asked for, the VM asked for has a well-formed id and a live
  grant that covers it, and the protocol is allowed there: by a per-VM list where there is one,
  otherwise by the global protocol grants, or by nothing at all when the access is unscoped and
  no global protocol grant is held. Without a VM the protocol needs its global grant.\<close>

theorem check_access_exact:
  "ac_allowed (check_access db now user opts) \<longleftrightarrow>
     u_active user \<and>
     (truthy (opt_permission opts) \<longrightarrow>
        (\<exists>s. grants_permission db now (u_id user) (the (opt_permission opts)) s)) \<and>
     (truthy (opt_vm opts) \<longrightarrow> is_uuid (the (opt_vm opts)) \<and>
        (\<exists>ps. grants_vm db now (u_id user) (the (opt_vm opts)) ps) \<and>
        (truthy (opt_protocol opts) \<longrightarrow>
           (\<exists>ps. grants_vm db now (u_id user) (the (opt_vm opts)) ps \<and> list_covers ps (the (opt_protocol opts))) \<and>
           (grants_vm db now (u_id user) (the (opt_vm opts)) None \<longrightarrow>
              (\<forall>q \<in> set KNOWN_PROTOCOLS. \<nexists>s. grants_permission db now (u_id user) (protocol_prefix @ q) s) \<or>
              (the (opt_protocol opts) \<in> set KNOWN_PROTOCOLS \<and>
                 (\<exists>s. grants_permission db now (u_id user) (protocol_prefix @ the (opt_protocol opts)) s))))) \<and>
     (\<not> truthy (opt_vm opts) \<and> truthy (opt_protocol opts) \<longrightarrow>
        (\<exists>s. grants_permission db now (u_id user) (protocol_prefix @ the (opt_protocol opts)) s))"
proof -
  have glob: "global_protocols ea = [] \<longleftrightarrow> (\<forall>q \<in> set KNOWN_PROTOCOLS. \<not> map_has (permissions ea) (protocol_prefix @ q))" for ea
  proof -
    have "global_protocols ea = [] \<longleftrightarrow> (\<forall>q. q \<notin> set (global_protocols ea))" by (metis all_not_in_conv set_empty)
    then show ?thesis by (auto simp: set_global_protocols)
  qed
  show ?thesis
    unfolding check_access_allowed Let_def protocol_allowed_iff glob set_global_protocols
      resolve_has_iff resolve_vm_has_iff resolve_vm_covers_iff resolve_vm_unscoped_iff
    by blast
qed

definition sample_db :: iam_db where
  "sample_db = \<lparr> roles = [\<lparr>role_id = ''r1'', role_name = ''OPERATOR'', role_description = [], role_is_system = True\<rparr>],
     user_roles = [\<lparr>ur_user = ''u'', ur_role = ''r1'', ur_expires = Some 100\<rparr>],
     role_permissions = [], user_permissions = [], groups = [], group_members = [], group_roles = [],
     group_vm_access = [], vm_access = [] \<rparr>"

definition sample_user :: user_with_roles where
  "sample_user = \<lparr>u_id = ''u'', u_username = ''op'', u_email = None, u_active = True, u_roles = [OPERATOR]\<rparr>"

lemma sample_grant: "grants_permission sample_db 50 ''u'' ''vm.list'' ''role:OPERATOR''"
  unfolding grants_permission_def grants_by_role_def role_held_def
  by (simp add: sample_db_def role_source_def role_name_of.simps permissions_for_role.simps)

lemma check_access_exact_witness:
  "ac_allowed (check_access sample_db 50 sample_user
     \<lparr>opt_permission = Some ''vm.list'', opt_vm = None, opt_protocol = None\<rparr>)"
  unfolding check_access_exact using sample_grant
  by (auto simp: truthy_def sample_user_def)

text \<open>Privileges never come back by themselves: whatever a user may do at some time, by the
  same source, the user could already do at every earlier time over the same tables.\<close>

theorem privileges_only_expire:
  assumes "now \<le> now'"
  shows "(grants_permission db now' uid p s \<longrightarrow> grants_permission db now uid p s) \<and>
    (map_has (permissions (resolve_effective_access db now' uid)) p \<longrightarrow>
       map_has (permissions (resolve_effective_access db now uid)) p) \<and>
    (map_has (vm_grants (resolve_effective_access db now' uid)) vm \<longrightarrow>
       map_has (vm_grants (resolve_effective_access db now uid)) vm)"
  unfolding resolve_has_iff resolve_vm_has_iff
  using grants_permission_antimono [OF _ assms] grants_vm_antimono [OF _ assms] by blast

lemma privileges_only_expire_witness:
  "grants_permission sample_db 20 ''u'' ''vm.list'' ''role:OPERATOR''"
  using privileges_only_expire [of 20 50 sample_db "''u''" "''vm.list''"] sample_grant by simp

text \<open>C3. Nobody confers or administers upwards: granting succeeds exactly when every permission
  in the request is one the actor effectively holds, and mutating another user succeeds exactly
  when everything the target holds is held by the actor; refusals are 403 errors.\<close>

theorem conferral_is_bounded_by_own_permissions:
  "(is_ok (assert_may_confer db now actor ps) \<longleftrightarrow> set ps \<subseteq> {p. \<exists>s. grants_permission db now actor p s}) \<and>
   (is_ok (assert_can_administer_target db now actor target) \<longleftrightarrow> actor = target \<or>
      {p. \<exists>s. grants_permission db now target p s} \<subseteq> {p. \<exists>s. grants_permission db now actor p s}) \<and>
   (\<forall>e. assert_may_confer db now actor ps = Inl e \<or> assert_can_administer_target db now actor target = Inl e
      \<longrightarrow> err_status e = 403)"
  unfolding may_confer_iff can_administer_iff resolve_has_iff
  by (auto simp: assert_may_confer_def assert_can_administer_target_def Let_def err_forbidden_def
        split: if_splits)

lemma conferral_is_bounded_by_own_permissions_witness:
  "is_ok (assert_may_confer sample_db 50 ''u'' [''vm.list''])"
  using conferral_is_bounded_by_own_permissions [of sample_db 50 "''u''" "[''vm.list'']" "''u''"] sample_grant
  by auto

text \<open>The expiry date reported for merged access understates it: when a permanent and a
  temporary grant cover the same VM, the merged grant carries the date of the temporary one,
  whichever is merged first, although access goes on after that date.\<close>

theorem merged_expiry_understates_access:
  "(\<forall>g ps t src. grant_expires g = None \<longrightarrow> grant_expires (merge_grant g ps (Some t) src) = Some t) \<and>
   (\<forall>g ps t src. grant_expires g = Some t \<longrightarrow> grant_expires (merge_grant g ps None src) = Some t) \<and>
   (\<exists>db uid vm g t. map_of (vm_grants (resolve_effective_access db 0 uid)) vm = Some g \<and>
      grant_expires g = Some t \<and> map_has (vm_grants (resolve_effective_access db t uid)) vm)"
proof (intro conjI)
  let ?db = "\<lparr> roles = [], user_roles = [], role_permissions = [], user_permissions = [],
     groups = [\<lparr>g_id = ''g'', g_name = ''team'', g_description = []\<rparr>],
     group_members = [\<lparr>gm_group = ''g'', gm_user = ''u'', gm_expires = None\<rparr>], group_roles = [],
     group_vm_access = [\<lparr>gva_group = ''g'', gva_vm = ''v'', gva_protocols = JNull, gva_expires = None\<rparr>],
     vm_access = [\<lparr>va_vm = ''v'', va_user = ''u'', va_protocols = JNull, va_expires = Some 5, va_created_by = None\<rparr>] \<rparr>"
  have "map_option grant_expires (map_of (vm_grants (resolve_effective_access ?db 0 ''u'')) ''v'') = Some (Some 5)"
    and "map_has (vm_grants (resolve_effective_access ?db 5 ''u'')) ''v''"
    by code_simp+
  then show "\<exists>db uid vm g t. map_of (vm_grants (resolve_effective_access db 0 uid)) vm = Some g \<and>
      grant_expires g = Some t \<and> map_has (vm_grants (resolve_effective_access db t uid)) vm"
    by blast
qed (simp_all add: merge_grant_def)

lemma merged_expiry_understates_access_witness:
  "grant_expires (merge_grant \<lparr>grant_protocols = None, grant_expires = None, grant_sources = [''group team'']\<rparr>
     None (Some 5) ''direct VM access'') = Some 5"
  using merged_expiry_understates_access by simp

end
