(* ===== verification/Guac.thy ===== *)
theory Guac
  imports Iam_Props
begin

text \<open>
  The Guacamole side of access.

  \<^item> \<open>guac_db\<close> is Guacamole's own database as \<open>packages/core/src/guacamole/db.ts\<close> reads and
    writes it (class \<open>GuacamolePostgresClient\<close>): user entities, connections with their
    parameters, READ permissions on connections and on the root group. Deleting a connection
    drops its permissions, as the foreign keys of the Guacamole schema do.
  \<^item> \<open>guac_state\<close> adds the local mirror of \<open>packages/core/src/services/guacamole.ts\<close>: one row
    per VM and protocol, one row per application user, the tracked session tokens.

  Encryption, decryption and the password hash are parameters, as are fresh identifiers and
  generated passwords. Rows are kept in the order of their creation, which is the order
  \<open>ORDER BY created_at ASC\<close> returns them in.
\<close>

subsection \<open>Guacamole's database\<close>

record guac_entity =
  ge_name :: string
  ge_hash :: string
  ge_disabled :: bool

record guac_connection =
  gcn_id :: nat
  gcn_name :: string
  gcn_protocol :: string
  gcn_params :: "(string \<times> string) list"

record guac_db =
  g_entities :: "guac_entity list"
  g_connections :: "guac_connection list"
  g_perms :: "(nat \<times> string) list"
  g_group_perms :: "string list"
  g_next_id :: nat

definition entity_exists :: "guac_db \<Rightarrow> string \<Rightarrow> bool" where
  "entity_exists g u \<longleftrightarrow> (\<exists>e \<in> set (g_entities g). ge_name e = u)"

definition find_connection :: "guac_db \<Rightarrow> string \<Rightarrow> guac_connection option" where
  "find_connection g n = find (\<lambda>c. gcn_name c = n) (g_connections g)"

definition create_user :: "(string \<Rightarrow> string) \<Rightarrow> string \<Rightarrow> string \<Rightarrow> guac_db \<Rightarrow> guac_db" where
  "create_user hash u password g =
     (if entity_exists g u then g
      else g\<lparr>g_entities := g_entities g @ [\<lparr>ge_name = u, ge_hash = hash password, ge_disabled = False\<rparr>]\<rparr>)"

definition set_user_password :: "(string \<Rightarrow> string) \<Rightarrow> string \<Rightarrow> string \<Rightarrow> guac_db \<Rightarrow> guac_db" where
  "set_user_password hash u password g =
     g\<lparr>g_entities := table_update (\<lambda>e. ge_name e = u) (\<lambda>e. e\<lparr>ge_hash := hash password\<rparr>) (g_entities g)\<rparr>"

definition set_user_disabled :: "string \<Rightarrow> bool \<Rightarrow> guac_db \<Rightarrow> guac_db" where
  "set_user_disabled u d g =
     g\<lparr>g_entities := table_update (\<lambda>e. ge_name e = u) (\<lambda>e. e\<lparr>ge_disabled := d\<rparr>) (g_entities g)\<rparr>"

definition delete_user :: "string \<Rightarrow> guac_db \<Rightarrow> guac_db" where
  "delete_user u g =
     g\<lparr>g_perms := table_delete (\<lambda>p. snd p = u) (g_perms g),
       g_group_perms := table_delete (\<lambda>n. n = u) (g_group_perms g),
       g_entities := table_delete (\<lambda>e. ge_name e = u) (g_entities g)\<rparr>"

text \<open>An existing name returns its id and leaves the stored connection untouched.\<close>

definition create_connection ::
  "string \<Rightarrow> string \<Rightarrow> (string \<times> string) list \<Rightarrow> guac_db \<Rightarrow> nat \<times> guac_db" where
  "create_connection n protocol params g =
     (case find_connection g n of
        Some c \<Rightarrow> (gcn_id c, g)
      | None \<Rightarrow> (g_next_id g,
          g\<lparr>g_connections := g_connections g @
              [\<lparr>gcn_id = g_next_id g, gcn_name = n, gcn_protocol = protocol, gcn_params = params\<rparr>],
            g_next_id := Suc (g_next_id g)\<rparr>))"

definition guac_not_found :: "string \<Rightarrow> app_error" where
  "guac_not_found n = AppError INTERNAL_ERROR (''Guacamole connection '' @ n @ '' not found'') 500"

definition update_connection_params ::
  "string \<Rightarrow> (string \<times> string) list \<Rightarrow> guac_db \<Rightarrow> guac_db res" where
  "update_connection_params n params g =
     (case find_connection g n of
        None \<Rightarrow> Inl (guac_not_found n)
      | Some c \<Rightarrow> Inr (g\<lparr>g_connections := table_update (\<lambda>x. gcn_id x = gcn_id c)
          (\<lambda>x. x\<lparr>gcn_params := foldl (\<lambda>m (k, v). AList.update k v m) (gcn_params x) params\<rparr>)
          (g_connections g)\<rparr>))"

definition delete_connection :: "string \<Rightarrow> guac_db \<Rightarrow> bool \<times> guac_db" where
  "delete_connection n g =
     (find_connection g n \<noteq> None,
      g\<lparr>g_perms := table_delete (\<lambda>p. \<exists>c \<in> set (g_connections g). gcn_name c = n \<and> gcn_id c = fst p) (g_perms g),
        g_connections := table_delete (\<lambda>c. gcn_name c = n) (g_connections g)\<rparr>)"

text \<open>
  The permission columns are NOT NULL in Guacamole's schema: granting on a missing
  connection or user fails, revoking there changes nothing.
\<close>

definition grant_connection_read :: "string \<Rightarrow> string \<Rightarrow> guac_db \<Rightarrow> guac_db res" where
  "grant_connection_read n u g =
     (case find_connection g n of
        None \<Rightarrow> Inl (guac_not_found n)
      | Some c \<Rightarrow>
         (if \<not> entity_exists g u then Inl (guac_not_found u)
          else Inr (if (gcn_id c, u) \<in> set (g_perms g) then g
                    else g\<lparr>g_perms := g_perms g @ [(gcn_id c, u)]\<rparr>)))"

definition revoke_connection_access :: "string \<Rightarrow> string \<Rightarrow> guac_db \<Rightarrow> guac_db" where
  "revoke_connection_access n u g =
     (case find_connection g n of
        None \<Rightarrow> g
      | Some c \<Rightarrow> g\<lparr>g_perms := table_delete (\<lambda>p. p = (gcn_id c, u)) (g_perms g)\<rparr>)"

definition grant_root_group_read :: "string \<Rightarrow> guac_db \<Rightarrow> guac_db" where
  "grant_root_group_read u g =
     (if u \<in> set (g_group_perms g) then g else g\<lparr>g_group_perms := g_group_perms g @ [u]\<rparr>)"

definition revoke_root_group_read :: "string \<Rightarrow> guac_db \<Rightarrow> guac_db" where
  "revoke_root_group_read u g = g\<lparr>g_perms := table_delete (\<lambda>p. snd p = u) (g_perms g)\<rparr>"

text \<open>\<open>can_open g n u\<close>: Guacamole lets \<open>u\<close> open the connection named \<open>n\<close>.\<close>

definition can_open :: "guac_db \<Rightarrow> string \<Rightarrow> string \<Rightarrow> bool" where
  "can_open g n u \<longleftrightarrow> (case find_connection g n of None \<Rightarrow> False | Some c \<Rightarrow> (gcn_id c, u) \<in> set (g_perms g))"

subsection \<open>The local mirror\<close>

record guac_conn_row =
  gc_id :: string
  gc_vm :: string
  gc_protocol :: string
  gc_hostname :: string
  gc_port :: nat
  gc_username :: string
  gc_password :: string
  gc_name :: string
  gc_identifier :: "string option"
  gc_status :: string

record guac_user_row =
  gu_user :: string
  gu_name :: string
  gu_password :: string
  gu_status :: string
  gu_direct :: bool

record guac_token_row =
  gt_session :: string
  gt_token :: string

record guac_state =
  gs_conns :: "guac_conn_row list"
  gs_users :: "guac_user_row list"
  gs_tokens :: "guac_token_row list"
  gs_remote :: guac_db

definition find_connection_record :: "guac_state \<Rightarrow> string \<Rightarrow> string option \<Rightarrow> guac_conn_row option" where
  "find_connection_record s vm protocol =
     (case protocol of
        Some p \<Rightarrow> find (\<lambda>r. gc_vm r = vm \<and> gc_protocol r = p) (gs_conns s)
      | None \<Rightarrow> find (\<lambda>r. gc_vm r = vm) (gs_conns s))"

definition list_connection_records :: "guac_state \<Rightarrow> string \<Rightarrow> guac_conn_row list" where
  "list_connection_records s vm = filter (\<lambda>r. gc_vm r = vm) (gs_conns s)"

definition is_connection_name_shared :: "guac_state \<Rightarrow> guac_conn_row \<Rightarrow> bool" where
  "is_connection_name_shared s r \<longleftrightarrow> gc_name r \<noteq> [] \<and>
     list_ex (\<lambda>x. gc_name x = gc_name r \<and> gc_id x \<noteq> gc_id r) (gs_conns s)"

definition delete_connection_record :: "string \<Rightarrow> guac_state \<Rightarrow> bool \<times> guac_state" where
  "delete_connection_record i s =
     (case find (\<lambda>r. gc_id r = i) (gs_conns s) of
        None \<Rightarrow> (False, s)
      | Some r \<Rightarrow>
         let s1 = (if gc_name r \<noteq> [] \<and> \<not> is_connection_name_shared s r
                   then s\<lparr>gs_remote := snd (delete_connection (gc_name r) (gs_remote s))\<rparr> else s)
         in (True, s1\<lparr>gs_conns := table_delete (\<lambda>x. gc_id x = i) (gs_conns s1)\<rparr>))"

definition connection_params_for ::
  "string \<Rightarrow> string \<Rightarrow> nat \<Rightarrow> string \<Rightarrow> string \<Rightarrow> (string \<times> string) list" where
  "connection_params_for protocol hostname port username password =
     [(''hostname'', hostname), (''port'', nat_str port), (''username'', username), (''password'', password)] @
     (if protocol = ''ssh'' then
        [(''color-scheme'', ''gray-black''), (''font-name'', ''monospace''), (''font-size'', ''12'')]
      else if protocol = ''rdp'' then
        [(''security'', ''any''), (''ignore-cert'', ''true''), (''disable-auth'', ''false'')]
      else [])"

record upsert_opts =
  uo_vm :: string
  uo_vm_name :: string
  uo_protocol :: string
  uo_hostname :: string
  uo_port :: nat
  uo_username :: string
  uo_password :: string
  uo_name :: "string option"

definition upsert_name :: "upsert_opts \<Rightarrow> string" where
  "upsert_name o' = (case uo_name o' of Some n \<Rightarrow> n | None \<Rightarrow> ''proxvm-'' @ uo_vm_name o')"

definition upsert_connection ::
  "(string \<Rightarrow> string) \<Rightarrow> string \<Rightarrow> upsert_opts \<Rightarrow> guac_state \<Rightarrow> guac_conn_row \<times> guac_state" where
  "upsert_connection enc new_id o' s =
     (let params = connection_params_for (uo_protocol o') (uo_hostname o') (uo_port o')
                     (uo_username o') (uo_password o');
          (cid, g) = create_connection (upsert_name o') (uo_protocol o') params (gs_remote s);
          s1 = s\<lparr>gs_remote := g\<rparr>
      in case find_connection_record s1 (uo_vm o') (Some (uo_protocol o')) of
           Some old \<Rightarrow>
             let new = old\<lparr>gc_protocol := uo_protocol o', gc_hostname := uo_hostname o',
                   gc_port := uo_port o', gc_username := uo_username o',
                   gc_password := enc (uo_password o'), gc_name := upsert_name o',
                   gc_identifier := Some (nat_str cid), gc_status := ''ACTIVE''\<rparr>
             in (new, s1\<lparr>gs_conns := table_update (\<lambda>r. gc_id r = gc_id old) (\<lambda>r. new) (gs_conns s1)\<rparr>)
         | None \<Rightarrow>
             let new = \<lparr>gc_id = new_id, gc_vm = uo_vm o', gc_protocol = uo_protocol o',
                   gc_hostname = uo_hostname o', gc_port = uo_port o', gc_username = uo_username o',
                   gc_password = enc (uo_password o'), gc_name = upsert_name o',
                   gc_identifier = Some (nat_str cid), gc_status = ''ACTIVE''\<rparr>
             in (new, s1\<lparr>gs_conns := gs_conns s1 @ [new]\<rparr>))"

subsection \<open>Updates that reach both databases\<close>

text \<open>A call on Guacamole's database that may throw, inside the state of the mirror.\<close>

definition remote :: "(guac_db \<Rightarrow> guac_db) \<Rightarrow> (guac_state, unit) comp" where
  "remote f = modify (\<lambda>s. s\<lparr>gs_remote := f (gs_remote s)\<rparr>)"

definition remote_res :: "(guac_db \<Rightarrow> guac_db res) \<Rightarrow> (guac_state, unit) comp" where
  "remote_res f s = (case f (gs_remote s) of
      Inl e \<Rightarrow> (Inl e, s) | Inr g \<Rightarrow> (Inr (), s\<lparr>gs_remote := g\<rparr>))"

definition set_conn :: "string \<Rightarrow> (guac_conn_row \<Rightarrow> guac_conn_row) \<Rightarrow> (guac_state, unit) comp" where
  "set_conn i f = modify (\<lambda>s. s\<lparr>gs_conns := table_update (\<lambda>r. gc_id r = i) f (gs_conns s)\<rparr>)"

definition update_connection_password ::
  "(string \<Rightarrow> string) \<Rightarrow> string \<Rightarrow> string \<Rightarrow> (guac_state, unit) comp" where
  "update_connection_password enc vm password =
     bind (gets (\<lambda>s. list_connection_records s vm)) (\<lambda>records. for_each records (\<lambda>r.
       andthen (set_conn (gc_id r) (\<lambda>x. x\<lparr>gc_password := enc password\<rparr>))
         (try_catch (remote_res (update_connection_params (gc_name r) [(''password'', password)]))
           (\<lambda>e. throw (err_external ''Guacamole''
              (''Failed to update Guacamole connection parameters: '' @ err_message e))))))"

definition update_connection_endpoint :: "string \<Rightarrow> string \<Rightarrow> nat \<Rightarrow> (guac_state, unit) comp" where
  "update_connection_endpoint vm hostname port =
     bind (gets (\<lambda>s. list_connection_records s vm)) (\<lambda>records. for_each records (\<lambda>r.
       andthen (set_conn (gc_id r) (\<lambda>x. x\<lparr>gc_hostname := hostname, gc_port := port\<rparr>))
         (remote_res (update_connection_params (gc_name r)
            [(''hostname'', hostname), (''port'', nat_str port)]))))"

definition update_connection_hostname :: "string \<Rightarrow> string \<Rightarrow> (guac_state, nat) comp" where
  "update_connection_hostname vm hostname =
     bind (gets (\<lambda>s. list_connection_records s vm)) (\<lambda>records.
       andthen (for_each records (\<lambda>r.
         andthen (set_conn (gc_id r) (\<lambda>x. x\<lparr>gc_hostname := hostname\<rparr>))
           (remote_res (update_connection_params (gc_name r) [(''hostname'', hostname)]))))
       (ret (length records)))"

definition find_user_record :: "guac_state \<Rightarrow> string \<Rightarrow> guac_user_row option" where
  "find_user_record s uid = find (\<lambda>r. gu_user r = uid) (gs_users s)"

definition is_name_char :: "char \<Rightarrow> bool" where
  "is_name_char c \<longleftrightarrow> is_digit c \<or> (97 \<le> (of_char c :: nat) \<and> (of_char c :: nat) \<le> 122)
     \<or> (65 \<le> (of_char c :: nat) \<and> (of_char c :: nat) \<le> 90) \<or> c \<in> {CHR ''_'', CHR ''.'', CHR ''-''}"

definition guac_username :: "string \<Rightarrow> string" where
  "guac_username n = ''px_'' @ take 40 (map (\<lambda>c. if is_name_char c then c else CHR ''_'') n)"

definition upsert_user_row :: "guac_user_row \<Rightarrow> guac_user_row list \<Rightarrow> guac_user_row list" where
  "upsert_user_row r t =
     (if \<exists>x \<in> set t. gu_user x = gu_user r
      then table_update (\<lambda>x. gu_user x = gu_user r)
             (\<lambda>x. x\<lparr>gu_name := gu_name r, gu_password := gu_password r, gu_status := gu_status r\<rparr>) t
      else t @ [r])"

definition ensure_guac_user ::
  "(string \<Rightarrow> string) \<Rightarrow> (string \<Rightarrow> string) \<Rightarrow> (string \<Rightarrow> string) \<Rightarrow> string \<Rightarrow> string \<Rightarrow> string
   \<Rightarrow> guac_state \<Rightarrow> guac_user_row option \<times> guac_state" where
  "ensure_guac_user enc dec hash generated uid app_name s =
     (let u = guac_username app_name;
          password = (case find_user_record s uid of Some r \<Rightarrow> dec (gu_password r) | None \<Rightarrow> generated);
          g1 = create_user hash u password (gs_remote s);
          g2 = set_user_password hash u password g1;
          g3 = grant_root_group_read u g2;
          s' = s\<lparr>gs_remote := g3,
                 gs_users := upsert_user_row \<lparr>gu_user = uid, gu_name = u, gu_password = enc password,
                               gu_status = ''ACTIVE'', gu_direct = False\<rparr> (gs_users s)\<rparr>
      in (find_user_record s' uid, s'))"

definition set_guac_direct_login_password ::
  "(string \<Rightarrow> string) \<Rightarrow> (string \<Rightarrow> string) \<Rightarrow> (string \<Rightarrow> string) \<Rightarrow> string \<Rightarrow> string \<Rightarrow> string \<Rightarrow> string
   \<Rightarrow> (guac_state, guac_user_row option) comp" where
  "set_guac_direct_login_password enc dec hash generated uid app_name new_password s =
     (if new_password = [] then (Inl (err_validation ''password must not be empty''), s)
      else let (rec, s1) = (case find_user_record s uid of
                 Some r \<Rightarrow> (Some r, s)
               | None \<Rightarrow> ensure_guac_user enc dec hash generated uid app_name s)
        in case rec of None \<Rightarrow> (Inr None, s1) | Some r \<Rightarrow>
          let s2 = s1\<lparr>gs_remote := set_user_password hash (gu_name r) new_password (gs_remote s1),
                gs_users := table_update (\<lambda>x. gu_user x = uid)
                  (\<lambda>x. x\<lparr>gu_password := enc new_password, gu_direct := True\<rparr>) (gs_users s1)\<rparr>
          in (Inr (find_user_record s2 uid), s2))"

definition disable_guac_direct_login ::
  "(string \<Rightarrow> string) \<Rightarrow> (string \<Rightarrow> string) \<Rightarrow> string \<Rightarrow> string
   \<Rightarrow> guac_state \<Rightarrow> guac_user_row option \<times> guac_state" where
  "disable_guac_direct_login enc hash generated uid s =
     (case find_user_record s uid of
        None \<Rightarrow> (None, s)
      | Some r \<Rightarrow>
          let s2 = s\<lparr>gs_remote := set_user_password hash (gu_name r) generated (gs_remote s),
                gs_users := table_update (\<lambda>x. gu_user x = uid)
                  (\<lambda>x. x\<lparr>gu_password := enc generated, gu_direct := False\<rparr>) (gs_users s)\<rparr>
          in (find_user_record s2 uid, s2))"

definition grant_vm_access :: "string \<Rightarrow> string \<Rightarrow> (guac_state, unit) comp" where
  "grant_vm_access vm uid =
     bind (gets (\<lambda>s. list_connection_records s vm)) (\<lambda>records.
     bind (gets (\<lambda>s. find_user_record s uid)) (\<lambda>user. case user of
         None \<Rightarrow> ret ()
       | Some u \<Rightarrow> for_each records (\<lambda>r. remote_res (grant_connection_read (gc_name r) (gu_name u)))))"

definition revoke_vm_access :: "string \<Rightarrow> string \<Rightarrow> (guac_state, unit) comp" where
  "revoke_vm_access vm uid =
     bind (gets (\<lambda>s. list_connection_records s vm)) (\<lambda>records.
     bind (gets (\<lambda>s. find_user_record s uid)) (\<lambda>user. case user of
         None \<Rightarrow> ret ()
       | Some u \<Rightarrow> for_each records (\<lambda>r. remote (revoke_connection_access (gc_name r) (gu_name u)))))"

definition delete_vm_resources :: "string \<Rightarrow> (guac_state, unit) comp" where
  "delete_vm_resources vm =
     bind (gets (\<lambda>s. list_connection_records s vm)) (\<lambda>records. for_each records (\<lambda>r.
       bind (gets (\<lambda>s. is_connection_name_shared s r)) (\<lambda>shared.
         andthen (do_when (\<not> shared) (remote (\<lambda>g. snd (delete_connection (gc_name r) g))))
           (modify (\<lambda>s. s\<lparr>gs_conns := table_delete (\<lambda>x. gc_id x = gc_id r) (gs_conns s)\<rparr>)))))"

definition verify_connection :: "guac_conn_row \<Rightarrow> guac_db \<Rightarrow> bool \<times> string" where
  "verify_connection r g =
     (case find_connection g (gc_name r) of
        None \<Rightarrow> (False, ''Connection row is missing from the Guacamole database'')
      | Some c \<Rightarrow> (True, ''connection_id='' @ nat_str (gcn_id c) @ '', protocol='' @ gcn_protocol c))"

definition track_session_token :: "(string \<Rightarrow> string) \<Rightarrow> string \<Rightarrow> string \<Rightarrow> guac_state \<Rightarrow> guac_state" where
  "track_session_token enc session token s =
     s\<lparr>gs_tokens := gs_tokens s @ [\<lparr>gt_session = session, gt_token = enc token\<rparr>]\<rparr>"

text \<open>
  \<open>api\<close> is the Guacamole REST client when there is one: it says whether deleting a token
  succeeds. A failing deletion is swallowed and the row still goes.
\<close>

definition revoke_session_tokens ::
  "(string \<Rightarrow> string) \<Rightarrow> (string \<Rightarrow> bool) option \<Rightarrow> string \<Rightarrow> guac_state \<Rightarrow> nat \<times> guac_state" where
  "revoke_session_tokens dec api session s =
     (let rows = filter (\<lambda>t. gt_session t = session) (gs_tokens s);
          revoked = length (filter (\<lambda>t. case api of None \<Rightarrow> False | Some f \<Rightarrow> f (dec (gt_token t))) rows)
      in (revoked, s\<lparr>gs_tokens := table_delete (\<lambda>t. gt_session t = session) (gs_tokens s)\<rparr>))"

fun revoke_all_user_tokens ::
  "(string \<Rightarrow> string) \<Rightarrow> (string \<Rightarrow> bool) option \<Rightarrow> string list \<Rightarrow> guac_state \<Rightarrow> nat \<times> guac_state" where
  "revoke_all_user_tokens dec api [] s = (0, s)"
| "revoke_all_user_tokens dec api (i # is) s =
     (let (n, s1) = revoke_session_tokens dec api i s; (m, s2) = revoke_all_user_tokens dec api is s1
      in (n + m, s2))"

definition remove_user_resources :: "string \<Rightarrow> guac_state \<Rightarrow> guac_state" where
  "remove_user_resources uid s =
     (case find_user_record s uid of
        None \<Rightarrow> s
      | Some u \<Rightarrow> s\<lparr>gs_remote := delete_user (gu_name u) (gs_remote s),
                     gs_users := table_delete (\<lambda>r. gu_user r = uid) (gs_users s)\<rparr>)"

definition set_guac_user_disabled :: "string \<Rightarrow> bool \<Rightarrow> guac_state \<Rightarrow> guac_state" where
  "set_guac_user_disabled uid d s =
     (case find_user_record s uid of
        None \<Rightarrow> s
      | Some u \<Rightarrow> s\<lparr>gs_remote := set_user_disabled (gu_name u) d (gs_remote s)\<rparr>)"

subsection \<open>Reconciling and sweeping\<close>

definition reconcile_user_vm_guac_access ::
  "iam_db \<Rightarrow> time \<Rightarrow> string \<Rightarrow> string \<Rightarrow> (guac_state, string list option) comp" where
  "reconcile_user_vm_guac_access db now uid vm =
    (let ea = resolve_effective_access db now uid in
     andthen (revoke_vm_access vm uid)
       (if \<not> map_has (vm_grants ea) vm then ret (Some [])
        else let allowed = allowed_protocols ea vm in
          bind (gets (\<lambda>s. list_connection_records s vm)) (\<lambda>records.
          bind (gets (\<lambda>s. find_user_record s uid)) (\<lambda>user.
            andthen (case user of
                None \<Rightarrow> ret ()
              | Some u \<Rightarrow> for_each records (\<lambda>r.
                   do_when (list_covers allowed (gc_protocol r))
                     (remote_res (grant_connection_read (gc_name r) (gu_name u)))))
            (ret allowed)))))"

record sweep_state =
  sw_iam :: iam_db
  sw_guac :: guac_state
  sw_audit :: "(string \<times> string \<times> string) list"

definition stale_rows :: "iam_db \<Rightarrow> (string \<times> string) list \<Rightarrow> time \<Rightarrow> (string \<times> string \<times> string) list" where
  "stale_rows db users now =
     dedup ([(va_vm x, va_user x, ''direct''). x \<leftarrow> vm_access db, expired (va_expires x) now,
               u \<leftarrow> users, fst u = va_user x]
       @ [(gva_vm x, gm_user gm, ''group''). x \<leftarrow> group_vm_access db,
            gm \<leftarrow> group_members db, gm_group gm = gva_group x,
            u \<leftarrow> users, fst u = gm_user gm \<and> (expired (gva_expires x) now \<or> expired (gm_expires gm) now)])"

text \<open>
  One iteration: \<open>reachable vm user\<close> says whether the calls on Guacamole's database go
  through for this pair; when they throw, the row is only counted as an error.
\<close>

definition sweep_one ::
  "(string \<Rightarrow> string \<Rightarrow> bool) \<Rightarrow> time \<Rightarrow> string \<times> string \<times> string
   \<Rightarrow> (string \<times> string) list \<times> nat \<times> nat \<times> sweep_state
   \<Rightarrow> (string \<times> string) list \<times> nat \<times> nat \<times> sweep_state" where
  "sweep_one reachable now row acc =
     (case row of (vm, uid, kind) \<Rightarrow> case acc of (seen, revoked, errors, st) \<Rightarrow>
       if (vm, uid) \<in> set seen then (seen, revoked, errors, st)
       else if \<not> reachable vm uid then ((vm, uid) # seen, revoked, Suc errors, st)
       else (case revoke_vm_access vm uid (sw_guac st) of
          (Inl e, g) \<Rightarrow> ((vm, uid) # seen, revoked, Suc errors, st\<lparr>sw_guac := g\<rparr>)
        | (Inr _, g) \<Rightarrow> ((vm, uid) # seen, Suc revoked, errors,
             st\<lparr>sw_guac := g, sw_iam := delete_expired_vm_access (sw_iam st) now vm uid,
                sw_audit := sw_audit st @ [(''TEMPORARY_ACCESS_EXPIRED'', vm, uid)]\<rparr>)))"

definition sweep_expired_vm_access ::
  "(string \<Rightarrow> string \<Rightarrow> bool) \<Rightarrow> (string \<times> string) list \<Rightarrow> time \<Rightarrow> sweep_state
   \<Rightarrow> nat \<times> nat \<times> sweep_state" where
  "sweep_expired_vm_access reachable users now st =
     (case fold (sweep_one reachable now) (stale_rows (sw_iam st) users now) ([], 0, 0, st) of
        (seen, revoked, errors, st') \<Rightarrow>
          (revoked, errors, st'\<lparr>sw_iam := prune_expired (sw_iam st') now\<rparr>))"

end
