(* ===== verification/Guac_Props.thy ===== *)
theory Guac_Props
  imports Guac
begin

text \<open>
  Correctness of the Guacamole mirror: what one permission call does to who can open what,
  what a reconciliation achieves, and how the expiry sweep relates to effective access.
\<close>

subsection \<open>Well-formed Guacamole databases\<close>

definition guac_wf :: "guac_db \<Rightarrow> bool" where
  "guac_wf g \<longleftrightarrow> distinct (map gcn_id (g_connections g)) \<and> (\<forall>c \<in> set (g_connections g). gcn_id c < g_next_id g)
     \<and> (\<forall>p \<in> set (g_perms g). fst p \<in> gcn_id ` set (g_connections g))"

lemma find_connection_SomeD: "find_connection g n = Some c \<Longrightarrow> c \<in> set (g_connections g) \<and> gcn_name c = n"
  unfolding find_connection_def by (rule find_Some_in)

lemma wf_id_name:
  "guac_wf g \<Longrightarrow> find_connection g n = Some c \<Longrightarrow> find_connection g n' = Some c' \<Longrightarrow> gcn_id c = gcn_id c' \<Longrightarrow> n = n'"
  by (auto simp: guac_wf_def distinct_map dest!: find_connection_SomeD dest: inj_onD)

lemma guac_wf_create: "guac_wf g \<Longrightarrow> guac_wf (snd (create_connection n p ps g))"
  by (auto simp: guac_wf_def create_connection_def split: option.splits)

lemma guac_wf_grant: "guac_wf g \<Longrightarrow> grant_connection_read n u g = Inr g' \<Longrightarrow> guac_wf g'"
  by (fastforce simp: guac_wf_def grant_connection_read_def split: option.splits if_splits dest!: find_connection_SomeD)

lemma guac_wf_revoke: "guac_wf g \<Longrightarrow> guac_wf (revoke_connection_access n u g)"
  by (auto simp: guac_wf_def revoke_connection_access_def split: option.splits)

lemma guac_wf_delete_connection: "guac_wf g \<Longrightarrow> guac_wf (snd (delete_connection n g))"
proof -
  assume wf: "guac_wf g"
  have "fst p \<in> gcn_id ` {c \<in> set (g_connections g). gcn_name c \<noteq> n}"
    if "p \<in> set (g_perms g)" "\<forall>c \<in> set (g_connections g). gcn_name c = n \<longrightarrow> gcn_id c \<noteq> fst p" for p
    using wf that by (fastforce simp: guac_wf_def)
  then show ?thesis
    using wf by (auto simp: guac_wf_def delete_connection_def table_delete_def distinct_map_filter)
qed

lemma guac_wf_delete_user: "guac_wf g \<Longrightarrow> guac_wf (delete_user u g)"
  by (auto simp: guac_wf_def delete_user_def)

lemma guac_wf_params: "guac_wf g \<Longrightarrow> update_connection_params n ps g = Inr g' \<Longrightarrow> guac_wf g'"
proof -
  assume wf: "guac_wf g" and "update_connection_params n ps g = Inr g'"
  then obtain f where g': "g' = g\<lparr>g_connections := map f (g_connections g)\<rparr>" and f: "\<And>c. gcn_id (f c) = gcn_id c"
    by (fastforce simp: update_connection_params_def table_update_def split: option.splits)
  from wf f show ?thesis
    by (auto simp: guac_wf_def g' comp_def image_image)
qed

subsection \<open>Who can open what\<close>

lemma find_connection_perms [simp]:
  "find_connection (g\<lparr>g_perms := ps\<rparr>) n = find_connection g n"
  by (simp add: find_connection_def)

lemma find_connection_revoke [simp]:
  "find_connection (revoke_connection_access m u g) n = find_connection g n"
  by (simp add: revoke_connection_access_def split: option.splits)

lemma find_connection_grant:
  "grant_connection_read m u g = Inr g' \<Longrightarrow> find_connection g' n = find_connection g n"
  by (auto simp: grant_connection_read_def split: option.splits if_splits)

lemma can_open_grant:
  "guac_wf g \<Longrightarrow> grant_connection_read m u g = Inr g' \<Longrightarrow>
   can_open g' n v \<longleftrightarrow> can_open g n v \<or> (n = m \<and> v = u)"
  by (auto simp: grant_connection_read_def can_open_def split: option.splits if_splits dest: wf_id_name)

lemma can_open_revoke:
  "guac_wf g \<Longrightarrow> can_open (revoke_connection_access m u g) n v \<longleftrightarrow> can_open g n v \<and> \<not> (n = m \<and> v = u)"
  by (auto simp: revoke_connection_access_def can_open_def split: option.splits dest: wf_id_name)

subsection \<open>Loops over connection records\<close>

lemma bind_remote: "bind (remote f) k s = k () (s\<lparr>gs_remote := f (gs_remote s)\<rparr>)"
  by (simp add: remote_def bind_def modify_def)

lemma remote_res_run:
  "remote_res f s = (Inr y, s') \<longleftrightarrow> (\<exists>g. f (gs_remote s) = Inr g \<and> s' = s\<lparr>gs_remote := g\<rparr>)"
  by (auto simp: remote_res_def split: sum.splits)

lemma remote_loop:
  assumes "guac_wf (gs_remote s)"
    and "for_each rs (\<lambda>r. remote (revoke_connection_access (gc_name r) u)) s = (r, s')"
  shows "r = Inr () \<and> guac_wf (gs_remote s') \<and> gs_conns s' = gs_conns s \<and> gs_users s' = gs_users s \<and>
    (\<forall>n. find_connection (gs_remote s') n = find_connection (gs_remote s) n) \<and>
    (\<forall>n v. can_open (gs_remote s') n v \<longleftrightarrow> can_open (gs_remote s) n v \<and> \<not> (v = u \<and> n \<in> gc_name ` set rs))"
  using assms
proof (induction rs arbitrary: s)
  case Nil
  then show ?case by (simp add: comp_defs)
next
  case (Cons x rs)
  let ?s = "s\<lparr>gs_remote := revoke_connection_access (gc_name x) u (gs_remote s)\<rparr>"
  have "for_each rs (\<lambda>r. remote (revoke_connection_access (gc_name r) u)) ?s = (r, s')"
    using Cons.prems(2) by (simp add: bind_remote)
  from Cons.IH [OF _ this] Cons.prems(1) show ?case
    by (auto simp: guac_wf_revoke can_open_revoke)
qed

lemma grant_loop:
  assumes "guac_wf (gs_remote s)"
    and "for_each rs (\<lambda>r. do_when (P r) (remote_res (grant_connection_read (gc_name r) u))) s = (Inr y, s')"
  shows "guac_wf (gs_remote s') \<and> gs_conns s' = gs_conns s \<and> gs_users s' = gs_users s \<and>
    (\<forall>n. find_connection (gs_remote s') n = find_connection (gs_remote s) n) \<and>
    (\<forall>n v. can_open (gs_remote s') n v \<longleftrightarrow>
       can_open (gs_remote s) n v \<or> (v = u \<and> (\<exists>r \<in> set rs. P r \<and> gc_name r = n)))"
  using assms
proof (induction rs arbitrary: s)
  case Nil
  then show ?case by (simp add: comp_defs)
next
  case (Cons x rs)
  show ?case
  proof (cases "P x")
    case False
    with Cons.prems have "for_each rs (\<lambda>r. do_when (P r) (remote_res (grant_connection_read (gc_name r) u))) s = (Inr y, s')"
      by (simp add: bind_def do_when_def ret_def)
    from Cons.IH [OF Cons.prems(1) this] False show ?thesis by auto
  next
    case True
    with Cons.prems(2) obtain g where g: "grant_connection_read (gc_name x) u (gs_remote s) = Inr g"
      and rest: "for_each rs (\<lambda>r. do_when (P r) (remote_res (grant_connection_read (gc_name r) u)))
        (s\<lparr>gs_remote := g\<rparr>) = (Inr y, s')"
      by (auto simp: bind_Inr_iff remote_res_run do_when_def)
    have wf: "guac_wf g" using Cons.prems(1) g by (rule guac_wf_grant)
    from Cons.IH [OF _ rest] wf True show ?thesis
      by (auto simp: can_open_grant [OF Cons.prems(1) g] find_connection_grant [OF g])
  qed
qed

lemma revoke_vm_access_spec:
  assumes "guac_wf (gs_remote s)" and "find_user_record s uid = Some u" and "revoke_vm_access vm uid s = (r, s')"
  shows "r = Inr () \<and> guac_wf (gs_remote s') \<and> gs_conns s' = gs_conns s \<and> gs_users s' = gs_users s \<and>
    (\<forall>n v. can_open (gs_remote s') n v \<longleftrightarrow>
       can_open (gs_remote s) n v \<and> \<not> (v = gu_name u \<and> n \<in> gc_name ` set (list_connection_records s vm)))"
  using remote_loop [OF assms(1)] assms(2,3)
  by (auto simp: revoke_vm_access_def comp_defs)

lemma reconcile_spec:
  assumes wf: "guac_wf (gs_remote s)" and u: "find_user_record s uid = Some u"
    and run: "reconcile_user_vm_guac_access db now uid vm s = (Inr ps, s')"
  shows "can_open (gs_remote s') n v \<longleftrightarrow>
    (if v = gu_name u \<and> n \<in> gc_name ` set (list_connection_records s vm)
     then map_has (vm_grants (resolve_effective_access db now uid)) vm \<and>
       (\<exists>r \<in> set (list_connection_records s vm). gc_name r = n \<and>
          protocol_allowed (resolve_effective_access db now uid) vm (gc_protocol r))
     else can_open (gs_remote s) n v)"
proof -
  let ?ea = "resolve_effective_access db now uid"
  obtain r1 s1 where s1: "revoke_vm_access vm uid s = (r1, s1)" by (cases "revoke_vm_access vm uid s")
  note spec = revoke_vm_access_spec [OF wf u s1]
  then have eqs: "list_connection_records s1 vm = list_connection_records s vm" "find_user_record s1 uid = Some u"
    using u by (simp_all add: list_connection_records_def find_user_record_def)
  show ?thesis
  proof (cases "map_has (vm_grants ?ea) vm")
    case False
    with run s1 spec have "s' = s1" by (simp add: reconcile_user_vm_guac_access_def comp_defs Let_def)
    with spec False show ?thesis by auto
  next
    case True
    with run s1 spec eqs obtain y where
      loop: "for_each (list_connection_records s vm) (\<lambda>r. do_when (list_covers (allowed_protocols ?ea vm) (gc_protocol r))
        (remote_res (grant_connection_read (gc_name r) (gu_name u)))) s1 = (Inr y, s')"
      by (auto simp: reconcile_user_vm_guac_access_def andthen_def bind_def gets_def ret_def Let_def
            split: prod.splits sum.splits)
    from grant_loop [OF _ loop] spec True show ?thesis
      by (auto simp: protocol_allowed_def)
  qed
qed

subsection \<open>The sweep\<close>

lemma revoke_vm_access_ok: "\<exists>s'. revoke_vm_access vm uid s = (Inr (), s')"
proof -
  have "\<exists>s'. for_each rs (\<lambda>r. remote (revoke_connection_access (gc_name r) u)) s = (Inr (), s')" for rs u s
    by (induction rs arbitrary: s) (simp_all add: ret_def bind_remote)
  then show ?thesis by (auto simp: revoke_vm_access_def bind_def gets_def ret_def split: option.splits)
qed

definition swept_like :: "time \<Rightarrow> iam_db \<Rightarrow> iam_db \<Rightarrow> bool" where
  "swept_like now db db' \<longleftrightarrow>
     (\<forall>t uid. now \<le> t \<longrightarrow> resolve_effective_access db' t uid = resolve_effective_access db t uid) \<and>
     set (vm_access db') \<subseteq> set (vm_access db)"

definition pair_clean :: "time \<Rightarrow> iam_db \<Rightarrow> string \<times> string \<Rightarrow> bool" where
  "pair_clean now db p \<longleftrightarrow>
     (\<forall>x \<in> set (vm_access db). va_vm x = fst p \<and> va_user x = snd p \<longrightarrow> \<not> expired (va_expires x) now)"

lemma vm_access_delete_expired:
  "set (vm_access (delete_expired_vm_access db now vm uid)) \<subseteq> set (vm_access db)"
  by (auto simp: delete_expired_vm_access_def)

lemma pair_clean_delete: "pair_clean now (delete_expired_vm_access db now vm uid) (vm, uid)"
  by (auto simp: pair_clean_def delete_expired_vm_access_def)

lemma pair_clean_mono: "pair_clean now db p \<Longrightarrow> set (vm_access db') \<subseteq> set (vm_access db) \<Longrightarrow> pair_clean now db' p"
  by (auto simp: pair_clean_def)

text \<open>The loop invariant: resolution is unchanged, and every pair seen and reachable is clean.\<close>

definition sweep_inv ::
  "(string \<Rightarrow> string \<Rightarrow> bool) \<Rightarrow> time \<Rightarrow> iam_db \<Rightarrow> (string \<times> string) list \<times> nat \<times> nat \<times> sweep_state \<Rightarrow> bool" where
  "sweep_inv reachable now db acc \<longleftrightarrow> (case acc of (seen, revoked, errors, st) \<Rightarrow>
     swept_like now db (sw_iam st) \<and> distinct seen \<and> revoked + errors = length seen \<and>
     (\<forall>p \<in> set seen. reachable (fst p) (snd p) \<longrightarrow> pair_clean now (sw_iam st) p))"

lemma sweep_one_inv:
  assumes "sweep_inv reachable now db acc"
  shows "sweep_inv reachable now db (sweep_one reachable now row acc)"
proof -
  obtain vm uid kind where row: "row = (vm, uid, kind)" by (cases row) auto
  obtain seen revoked errors st where acc: "acc = (seen, revoked, errors, st)" by (cases acc) auto
  obtain g where g: "revoke_vm_access vm uid (sw_guac st) = (Inr (), g)" using revoke_vm_access_ok by blast
  let ?db = "delete_expired_vm_access (sw_iam st) now vm uid"
  have "swept_like now db (sw_iam st) \<Longrightarrow> swept_like now db ?db"
    using resolve_delete_expired vm_access_delete_expired [of "sw_iam st" now vm uid]
    by (auto simp: swept_like_def)
  with assms show ?thesis
    using pair_clean_delete [of now "sw_iam st" vm uid]
      pair_clean_mono [OF _ vm_access_delete_expired [of "sw_iam st" now vm uid]]
    by (auto simp: sweep_inv_def row acc sweep_one_def g)
qed

lemma sweep_fold_inv:
  "sweep_inv reachable now db acc \<Longrightarrow> sweep_inv reachable now db (fold (sweep_one reachable now) rows acc)"
proof (induction rows arbitrary: acc)
  case (Cons r rows)
  show ?case using Cons.IH [OF sweep_one_inv [OF Cons.prems]] by simp
qed simp

lemma sweep_one_seen:
  "set (fst (sweep_one reachable now (vm, uid, k) acc)) = insert (vm, uid) (set (fst acc))"
  by (cases acc) (auto simp: sweep_one_def split: prod.splits sum.splits)

lemma sweep_fold_seen:
  "set (fst (fold (sweep_one reachable now) rows acc)) = (\<lambda>(vm, uid, k). (vm, uid)) ` set rows \<union> set (fst acc)"
proof (induction rows arbitrary: acc)
  case (Cons row rows)
  then show ?case by (cases row) (auto simp: sweep_one_seen)
qed simp

lemma sweep_spec:
  assumes "sweep_expired_vm_access reachable users now st = (revoked, errors, st')"
  shows "\<And>t uid. now \<le> t \<Longrightarrow> resolve_effective_access (sw_iam st') t uid = resolve_effective_access (sw_iam st) t uid"
    and "revoked + errors = card ((\<lambda>(vm, uid, k). (vm, uid)) ` set (stale_rows (sw_iam st) users now))"
    and "\<And>vm uid k. (vm, uid, k) \<in> set (stale_rows (sw_iam st) users now) \<Longrightarrow> reachable vm uid \<Longrightarrow>
      pair_clean now (sw_iam st') (vm, uid)"
proof -
  let ?fin = "fold (sweep_one reachable now) (stale_rows (sw_iam st) users now) ([], 0, 0, st)"
  obtain seen st1 where fin: "?fin = (seen, revoked, errors, st1)" and st': "st' = st1\<lparr>sw_iam := prune_expired (sw_iam st1) now\<rparr>"
    using assms by (auto simp: sweep_expired_vm_access_def split: prod.splits)
  have "sweep_inv reachable now (sw_iam st) ([], 0, 0, st)"
    by (simp add: sweep_inv_def swept_like_def)
  then have inv: "sweep_inv reachable now (sw_iam st) (seen, revoked, errors, st1)"
    using sweep_fold_inv fin by metis
  have seen: "set seen = (\<lambda>(vm, uid, k). (vm, uid)) ` set (stale_rows (sw_iam st) users now)"
    using sweep_fold_seen [of reachable now _ "([], 0, 0, st)"] fin by (metis fst_conv set_empty2 sup_bot.right_neutral)
  show "now \<le> t \<Longrightarrow> resolve_effective_access (sw_iam st') t uid = resolve_effective_access (sw_iam st) t uid" for t uid
    using inv by (simp add: st' resolve_prune sweep_inv_def swept_like_def)
  show "revoked + errors = card ((\<lambda>(vm, uid, k). (vm, uid)) ` set (stale_rows (sw_iam st) users now))"
    using inv by (simp add: sweep_inv_def seen [symmetric] distinct_card)
  show "pair_clean now (sw_iam st') (vm, uid)"
    if "(vm, uid, k) \<in> set (stale_rows (sw_iam st) users now)" "reachable vm uid" for vm uid k
  proof -
    have "(vm, uid) \<in> set seen" using that(1) unfolding seen by force
    with inv that(2) show ?thesis by (fastforce simp: sweep_inv_def st' pair_clean_def)
  qed
qed

subsection \<open>Account names\<close>

lemma guac_username_inj:
  assumes "length a \<le> 40" "length b \<le> 40" "list_all is_name_char a" "list_all is_name_char b"
    and "guac_username a = guac_username b"
  shows "a = b"
proof -
  have "map (\<lambda>c. if is_name_char c then c else CHR ''_'') x = x" if "list_all is_name_char x" for x
    using that by (induction x) auto
  with assms show ?thesis by (simp add: guac_username_def)
qed

subsection \<open>Properties\<close>

text \<open>C4. Reconciling a user's Guacamole permissions for a VM makes Guacamole agree with effective
  access. For every connection of the VM and this user the permission afterwards holds exactly
  when the user has live access to the VM and the protocol of one of the records with that
  connection name is allowed; every other permission (of other users, and on connections that
  are not this VM's) is what it was.\<close>

theorem reconcile_matches_effective_access:
  assumes "guac_wf (gs_remote s)" and "find_user_record s uid = Some u"
    and "reconcile_user_vm_guac_access db now uid vm s = (Inr ps, s')"
  shows "can_open (gs_remote s') n v \<longleftrightarrow>
    (if v = gu_name u \<and> n \<in> gc_name ` set (list_connection_records s vm)
     then map_has (vm_grants (resolve_effective_access db now uid)) vm \<and>
       (\<exists>r \<in> set (list_connection_records s vm). gc_name r = n \<and>
          protocol_allowed (resolve_effective_access db now uid) vm (gc_protocol r))
     else can_open (gs_remote s) n v)"
  using assms by (rule reconcile_spec)

definition example_iam :: iam_db where
  "example_iam = \<lparr> roles = [], user_roles = [], role_permissions = [],
     user_permissions = [\<lparr>up_user = ''u'', up_permission = ''vm.start'', up_expires = Some 50\<rparr>],
     groups = [\<lparr>g_id = ''g'', g_name = ''team'', g_description = []\<rparr>],
     group_members = [\<lparr>gm_group = ''g'', gm_user = ''u'', gm_expires = None\<rparr>],
     group_roles = [],
     group_vm_access = [\<lparr>gva_group = ''g'', gva_vm = ''v'', gva_protocols = JNull, gva_expires = None\<rparr>],
     vm_access = [\<lparr>va_vm = ''v'', va_user = ''u'', va_protocols = JNull, va_expires = Some 5, va_created_by = None\<rparr>] \<rparr>"

definition example_guac :: guac_state where
  "example_guac = \<lparr> gs_conns = [\<lparr>gc_id = ''r'', gc_vm = ''v'', gc_protocol = ''ssh'', gc_hostname = ''h'',
       gc_port = 22, gc_username = ''d'', gc_password = ''x'', gc_name = ''c'', gc_identifier = Some ''0'',
       gc_status = ''ACTIVE''\<rparr>],
     gs_users = [\<lparr>gu_user = ''u'', gu_name = ''px_u'', gu_password = ''x'', gu_status = ''ACTIVE'',
       gu_direct = False\<rparr>],
     gs_tokens = [],
     gs_remote = \<lparr> g_entities = [\<lparr>ge_name = ''px_u'', ge_hash = ''x'', ge_disabled = False\<rparr>],
       g_connections = [\<lparr>gcn_id = 0, gcn_name = ''c'', gcn_protocol = ''ssh'', gcn_params = []\<rparr>],
       g_perms = [(0, ''px_u'')], g_group_perms = [], g_next_id = 1 \<rparr> \<rparr>"

lemma example_guac_wf: "guac_wf (gs_remote example_guac)"
  by (simp add: guac_wf_def example_guac_def)

lemma example_user: "find_user_record example_guac ''u'' = Some (hd (gs_users example_guac))"
  by code_simp

lemma example_reconcile:
  "fst (reconcile_user_vm_guac_access example_iam 10 ''u'' ''v'' example_guac) = Inr None"
  by code_simp

lemma reconcile_matches_effective_access_witness:
  "\<exists>s'. reconcile_user_vm_guac_access example_iam 10 ''u'' ''v'' example_guac = (Inr None, s') \<and>
     can_open (gs_remote s') ''c'' ''px_u''"
proof -
  obtain s' where run: "reconcile_user_vm_guac_access example_iam 10 ''u'' ''v'' example_guac = (Inr None, s')"
    using example_reconcile by (metis prod.collapse)
  have "map_has (vm_grants (resolve_effective_access example_iam 10 ''u'')) ''v''"
    and "protocol_allowed (resolve_effective_access example_iam 10 ''u'') ''v'' ''ssh''" by code_simp+
  then have "can_open (gs_remote s') ''c'' ''px_u''"
    using reconcile_matches_effective_access [OF example_guac_wf example_user run, of "''c''" "''px_u''"]
    by (simp add: example_guac_def list_connection_records_def)
  with run show ?thesis by blast
qed

text \<open>The sweep of expired rows never changes what anyone may do: at every time from the
  sweep on, every user's effective access (permissions with their sources, VM access, roles,
  groups) is the same as if the sweep had not run. Every stale (VM, user) pair is counted exactly
  once, as revoked or as an error, and no expired direct row of a pair that could be reached is
  left.\<close>

theorem sweep_keeps_effective_access:
  assumes "sweep_expired_vm_access reachable users now st = (revoked, errors, st')"
  shows "(\<forall>t uid. t < now \<or> resolve_effective_access (sw_iam st') t uid = resolve_effective_access (sw_iam st) t uid) \<and>
    revoked + errors = card ((\<lambda>(vm, uid, k). (vm, uid)) ` set (stale_rows (sw_iam st) users now)) \<and>
    (\<forall>(vm, uid, k) \<in> set (stale_rows (sw_iam st) users now). reachable vm uid \<longrightarrow>
       (\<forall>x \<in> set (vm_access (sw_iam st')). va_vm x = vm \<and> va_user x = uid \<longrightarrow> is_live (va_expires x) now))"
  using sweep_spec [OF assms] by (auto simp: pair_clean_def expired_iff not_less)

definition example_sweep :: sweep_state where
  "example_sweep = \<lparr> sw_iam = example_iam, sw_guac = example_guac, sw_audit = [] \<rparr>"

lemma sweep_keeps_effective_access_witness:
  "\<exists>revoked errors st'. sweep_expired_vm_access (\<lambda>_ _. True) [(''u'', ''alice'')] 10 example_sweep = (revoked, errors, st') \<and>
     revoked + errors = 1 \<and> resolve_effective_access (sw_iam st') 10 ''u'' = resolve_effective_access example_iam 10 ''u''"
proof -
  obtain revoked errors st' where
    run: "sweep_expired_vm_access (\<lambda>_ _. True) [(''u'', ''alice'')] 10 example_sweep = (revoked, errors, st')"
    by (cases "sweep_expired_vm_access (\<lambda>_ _. True) [(''u'', ''alice'')] 10 example_sweep") auto
  have rows: "stale_rows (sw_iam example_sweep) [(''u'', ''alice'')] 10 = [(''v'', ''u'', ''direct'')]" by code_simp
  have iam: "sw_iam example_sweep = example_iam" by (simp add: example_sweep_def)
  from sweep_keeps_effective_access [OF run] have "revoked + errors = 1"
    by (simp add: rows)
  moreover from sweep_keeps_effective_access [OF run]
  have "resolve_effective_access (sw_iam st') 10 ''u'' = resolve_effective_access example_iam 10 ''u''"
    by (auto simp: iam)
  ultimately show ?thesis using run by blast
qed

text \<open>The sweep can take away remote access that the user still holds: it revokes every
  Guacamole permission of a stale (VM, user) pair without asking whether another live grant
  covers the pair. Here a direct grant on the VM has expired while a permanent group grant is
  live: effective access still has the VM, Guacamole let the user open the connection before
  the sweep and refuses it afterwards.\<close>

theorem sweep_cuts_live_access:
  "let st' = snd (snd (sweep_expired_vm_access (\<lambda>_ _. True) [(''u'', ''alice'')] 10 example_sweep)) in
   protocol_allowed (resolve_effective_access (sw_iam st') 10 ''u'') ''v'' ''ssh'' \<and>
   can_open (gs_remote (sw_guac example_sweep)) ''c'' ''px_u'' \<and>
   \<not> can_open (gs_remote (sw_guac st')) ''c'' ''px_u''"
  by code_simp

text \<open>Guacamole account names are injective on the usernames the schemas accept as long as
  they have at most 40 characters, and not beyond: two accepted usernames of 41 characters get
  the same account.\<close>

theorem guac_username_injective:
  "(\<forall>a b. length a \<le> 40 \<and> length b \<le> 40 \<and> list_all is_name_char a \<and> list_all is_name_char b \<and>
      guac_username a = guac_username b \<longrightarrow> a = b) \<and>
   (\<exists>a b. list_all is_name_char a \<and> list_all is_name_char b \<and> length a = 41 \<and> length b = 41 \<and>
      a \<noteq> b \<and> guac_username a = guac_username b)"
proof
  show "\<forall>a b. length a \<le> 40 \<and> length b \<le> 40 \<and> list_all is_name_char a \<and> list_all is_name_char b \<and>
      guac_username a = guac_username b \<longrightarrow> a = b"
    using guac_username_inj by blast
  have "list_all is_name_char (replicate 40 CHR ''a'' @ ''1'')" "list_all is_name_char (replicate 40 CHR ''a'' @ ''2'')"
    by code_simp+
  then show "\<exists>a b. list_all is_name_char a \<and> list_all is_name_char b \<and> length a = 41 \<and> length b = 41 \<and>
      a \<noteq> b \<and> guac_username a = guac_username b"
    by (intro exI [of _ "replicate 40 CHR ''a'' @ ''1''"] exI [of _ "replicate 40 CHR ''a'' @ ''2''"] conjI)
       (simp_all add: guac_username_def)
qed

lemma guac_username_injective_witness: "guac_username ''alice'' \<noteq> guac_username ''bob''"
proof -
  have "length ''alice'' \<le> 40 \<and> length ''bob'' \<le> 40 \<and> list_all is_name_char ''alice'' \<and> list_all is_name_char ''bob''"
    by code_simp
  moreover have "''alice'' \<noteq> ''bob''" by simp
  ultimately show ?thesis using guac_username_injective by blast
qed

end
