(* ===== verification/Vms.thy ===== *)
theory Vms
  imports Iam_Props
begin

text \<open>
  The VM registry (\<open>packages/core/src/services/vms.ts\<close>, class \<open>VmsRepository\<close>): the \<open>vms\<close>
  table with its unique keys, direct and group grants, visibility, privacy and VM class.

  A row of the \<open>vms\<close> table is also the record that the API returns (\<open>toVmRecord\<close> renames
  the columns); \<open>vm_class_of\<close> is the one conversion that changes a value. Identifiers are
  compared in the lower-case form in which the database stores them. Fresh identifiers and
  the clock are arguments; foreign keys to other tables are not modelled.
\<close>

datatype vm_status = VmPending | VmRunning | VmStopped | VmFailed | VmNotFound

datatype vm_class = ServerClass | UserClass

record vm_row =
  v_id :: string
  v_vmid :: int
  v_node :: string
  v_name :: string
  v_status :: vm_status
  v_os_type :: "string option"
  v_os_name :: "string option"
  v_ip :: "string option"
  v_created_by :: "string option"
  v_template :: "string option"
  v_created_at :: time
  v_deleted_at :: "time option"
  v_privacy :: bool
  v_isolated :: bool
  v_class :: string
  v_start_on_boot :: bool
  v_ip_static :: bool

definition vm_class_of :: "vm_row \<Rightarrow> vm_class" where
  "vm_class_of r = (if v_class r = ''user'' then UserClass else ServerClass)"

fun vm_class_str :: "vm_class \<Rightarrow> string" where
  "vm_class_str ServerClass = ''server''"
| "vm_class_str UserClass = ''user''"

record schedule_row =
  sch_vm :: string
  sch_enabled :: bool

record vm_db =
  vms :: "vm_row list"
  schedules :: "schedule_row list"
  iam :: iam_db

definition vm_live :: "vm_row \<Rightarrow> bool" where
  "vm_live r \<longleftrightarrow> v_deleted_at r = None"

definition pg_error :: "string \<Rightarrow> app_error" where
  "pg_error m = AppError INTERNAL_ERROR m 500"

subsection \<open>The table\<close>

record create_vm_input =
  cv_vmid :: int
  cv_node :: string
  cv_name :: string
  cv_status :: "vm_status option"
  cv_os_type :: "string option"
  cv_ip :: "string option"
  cv_created_by :: "string option"
  cv_template :: "string option"

definition new_vm_row :: "time \<Rightarrow> string \<Rightarrow> create_vm_input \<Rightarrow> vm_row" where
  "new_vm_row now nid i =
     \<lparr>v_id = nid, v_vmid = cv_vmid i, v_node = cv_node i, v_name = cv_name i,
      v_status = (case cv_status i of None \<Rightarrow> VmPending | Some s \<Rightarrow> s),
      v_os_type = cv_os_type i, v_os_name = None, v_ip = cv_ip i, v_created_by = cv_created_by i,
      v_template = cv_template i, v_created_at = now, v_deleted_at = None, v_privacy = False,
      v_isolated = False, v_class = ''server'', v_start_on_boot = False, v_ip_static = False\<rparr>"

definition occupies :: "int \<Rightarrow> string \<Rightarrow> vm_row \<Rightarrow> bool" where
  "occupies vmid node r \<longleftrightarrow> v_vmid r = vmid \<and> v_node r = node"

definition vms_create :: "time \<Rightarrow> string \<Rightarrow> create_vm_input \<Rightarrow> (vm_db, vm_row) comp" where
  "vms_create now nid i db =
     (if list_ex (\<lambda>r. v_id r = nid \<or> occupies (cv_vmid i) (cv_node i) r) (vms db)
      then throw (pg_error ''duplicate key value violates unique constraint'') db
      else (Inr (new_vm_row now nid i), db\<lparr>vms := vms db @ [new_vm_row now nid i]\<rparr>))"

definition vm_by_id :: "string \<Rightarrow> vm_row list \<Rightarrow> vm_row option" where
  "vm_by_id i t = table_find v_id i t"

interpretation vm_table: keyed_table v_id vm_by_id
  by unfold_locales (simp add: vm_by_id_def)

definition live_opt :: "vm_row option \<Rightarrow> vm_row option" where
  "live_opt x = (case x of None \<Rightarrow> None | Some r \<Rightarrow> if vm_live r then Some r else None)"

definition find_by_id :: "vm_db \<Rightarrow> string \<Rightarrow> vm_row option" where
  "find_by_id db i = (if \<not> is_uuid i then None else live_opt (vm_by_id i (vms db)))"

definition require_by_id :: "vm_db \<Rightarrow> string \<Rightarrow> vm_row res" where
  "require_by_id db i = (case find_by_id db i of
       None \<Rightarrow> Inl (err_not_found ''VM not found'')
     | Some r \<Rightarrow> Inr r)"

definition list_vmids_by_node :: "vm_db \<Rightarrow> string \<Rightarrow> int list" where
  "list_vmids_by_node db node = map v_vmid (filter (\<lambda>r. v_node r = node) (vms db))"

definition find_by_id_key :: "vm_db \<Rightarrow> int \<Rightarrow> string \<Rightarrow> vm_row option" where
  "find_by_id_key db vmid node = find (\<lambda>r. occupies vmid node r \<and> vm_live r) (vms db)"

definition find_or_create :: "time \<Rightarrow> string \<Rightarrow> create_vm_input \<Rightarrow> (vm_db, vm_row) comp" where
  "find_or_create now nid i db =
     (case find_by_id_key db (cv_vmid i) (cv_node i) of
        Some r \<Rightarrow> ret r db
      | None \<Rightarrow> vms_create now nid i db)"

definition newest_first :: "vm_row list \<Rightarrow> vm_row list" where
  "newest_first rs = sort_key (\<lambda>r. - v_created_at r) rs"

definition list_vms :: "vm_db \<Rightarrow> bool \<Rightarrow> vm_row list" where
  "list_vms db app_managed_only =
     newest_first (filter (\<lambda>r. vm_live r \<and> (app_managed_only \<longrightarrow> v_created_by r \<noteq> None)) (vms db))"

definition direct_grant :: "iam_db \<Rightarrow> time \<Rightarrow> string \<Rightarrow> string \<Rightarrow> bool" where
  "direct_grant db now vm uid \<longleftrightarrow>
     list_ex (\<lambda>x. va_vm x = vm \<and> va_user x = uid \<and> is_live (va_expires x) now) (vm_access db)"

definition group_grant :: "iam_db \<Rightarrow> time \<Rightarrow> string \<Rightarrow> string \<Rightarrow> bool" where
  "group_grant db now vm uid \<longleftrightarrow>
     list_ex (\<lambda>x. gva_vm x = vm \<and> is_live (gva_expires x) now \<and>
        list_ex (\<lambda>g. gm_group g = gva_group x \<and> gm_user g = uid \<and> is_live (gm_expires g) now)
          (group_members db)) (group_vm_access db)"

definition list_assigned_to_user :: "vm_db \<Rightarrow> time \<Rightarrow> string \<Rightarrow> vm_row list" where
  "list_assigned_to_user db now uid =
     newest_first (filter (\<lambda>r. vm_live r \<and> (direct_grant (iam db) now (v_id r) uid
        \<or> group_grant (iam db) now (v_id r) uid \<or> v_created_by r = Some uid)) (vms db))"

definition list_all_for_user :: "vm_db \<Rightarrow> time \<Rightarrow> string \<Rightarrow> bool \<Rightarrow> vm_row list" where
  "list_all_for_user db now uid privileged =
     (if privileged then list_vms db False else list_assigned_to_user db now uid)"

definition update_vm :: "string \<Rightarrow> (vm_row \<Rightarrow> vm_row) \<Rightarrow> vm_db \<Rightarrow> vm_db" where
  "update_vm i f db = db\<lparr>vms := table_update (\<lambda>r. v_id r = i) f (vms db)\<rparr>"

definition update_status :: "string \<Rightarrow> vm_status \<Rightarrow> vm_db \<Rightarrow> vm_db" where
  "update_status i s = update_vm i (\<lambda>r. r\<lparr>v_status := s\<rparr>)"

text \<open>The partial unique index of migration 016: static addresses of live rows do not repeat.\<close>

definition static_ip_taken :: "vm_db \<Rightarrow> string \<Rightarrow> string \<Rightarrow> bool" where
  "static_ip_taken db i ip \<longleftrightarrow>
     list_ex (\<lambda>r. v_id r \<noteq> i \<and> vm_live r \<and> v_ip_static r \<and> v_ip r = Some ip) (vms db)"

definition live_row :: "vm_db \<Rightarrow> string \<Rightarrow> bool" where
  "live_row db i \<longleftrightarrow> list_ex (\<lambda>r. v_id r = i \<and> vm_live r) (vms db)"

definition update_ip :: "string \<Rightarrow> string option \<Rightarrow> bool option \<Rightarrow> (vm_db, unit) comp" where
  "update_ip i ip static db =
     (let st = (case static of None \<Rightarrow> False | Some b \<Rightarrow> b)
      in if st \<and> live_row db i \<and> (case ip of None \<Rightarrow> False | Some a \<Rightarrow> static_ip_taken db i a)
         then throw (pg_error ''duplicate key value violates unique constraint'') db
         else (Inr (), update_vm i (\<lambda>r. r\<lparr>v_ip := ip, v_ip_static := st\<rparr>) db))"

definition update_os_info :: "string \<Rightarrow> string option \<Rightarrow> vm_db \<Rightarrow> vm_db" where
  "update_os_info i os = update_vm i (\<lambda>r. r\<lparr>v_os_name := os\<rparr>)"

definition update_name :: "string \<Rightarrow> string \<Rightarrow> vm_db \<Rightarrow> vm_db" where
  "update_name i n = update_vm i (\<lambda>r. r\<lparr>v_name := n\<rparr>)"

definition update_node :: "string \<Rightarrow> string \<Rightarrow> (vm_db, unit) comp" where
  "update_node i n db =
     (if list_ex (\<lambda>r. v_id r = i \<and> list_ex (\<lambda>q. v_id q \<noteq> i \<and> occupies (v_vmid r) n q) (vms db)) (vms db)
      then throw (pg_error ''duplicate key value violates unique constraint'') db
      else (Inr (), update_vm i (\<lambda>r. r\<lparr>v_node := n\<rparr>) db))"

definition soft_delete :: "time \<Rightarrow> string \<Rightarrow> vm_db \<Rightarrow> vm_db" where
  "soft_delete now i = update_vm i (\<lambda>r. r\<lparr>v_deleted_at := Some now\<rparr>)"

definition set_privacy_flag :: "string \<Rightarrow> bool \<Rightarrow> vm_db \<Rightarrow> vm_db" where
  "set_privacy_flag i b = update_vm i (\<lambda>r. r\<lparr>v_privacy := b\<rparr>)"

definition set_start_on_boot :: "string \<Rightarrow> bool \<Rightarrow> vm_db \<Rightarrow> vm_db" where
  "set_start_on_boot i b = update_vm i (\<lambda>r. r\<lparr>v_start_on_boot := b\<rparr>)"

subsection \<open>Grants\<close>

text \<open>
  \<open>vm_access\<close> has the primary key (VM, user). A scope is the pair of a protocol list and an
  expiry date; an absent one is NULL. \<open>COALESCE(new, old)\<close> keeps the old value on NULL.
\<close>

definition va_key :: "vm_access_row \<Rightarrow> string \<times> string" where
  "va_key r = (va_vm r, va_user r)"

definition access_row :: "string \<times> string \<Rightarrow> vm_access_row list \<Rightarrow> vm_access_row option" where
  "access_row k t = table_find va_key k t"

interpretation access_table: keyed_table va_key access_row
  by unfold_locales (simp add: access_row_def)

definition protocols_json :: "string list option \<Rightarrow> json" where
  "protocols_json p = (case p of None \<Rightarrow> JNull | Some ps \<Rightarrow> JArr (map JStr ps))"

definition coalesce :: "'a option \<Rightarrow> 'a option \<Rightarrow> 'a option" where
  "coalesce x y = (case x of None \<Rightarrow> y | Some v \<Rightarrow> Some v)"

definition update_access :: "string \<Rightarrow> string \<Rightarrow> (vm_access_row \<Rightarrow> vm_access_row) \<Rightarrow> iam_db \<Rightarrow> iam_db" where
  "update_access vm uid f db =
     db\<lparr>vm_access := table_update (\<lambda>r. va_key r = (vm, uid)) f (vm_access db)\<rparr>"

definition upsert_access ::
  "vm_access_row \<Rightarrow> (vm_access_row \<Rightarrow> vm_access_row) \<Rightarrow> iam_db \<Rightarrow> iam_db" where
  "upsert_access new f db =
     (case access_row (va_key new) (vm_access db) of
        None \<Rightarrow> db\<lparr>vm_access := vm_access db @ [new]\<rparr>
      | Some r \<Rightarrow> update_access (va_vm new) (va_user new) f db)"

definition set_access ::
  "string \<Rightarrow> string \<Rightarrow> string option \<Rightarrow> string list option \<Rightarrow> time option \<Rightarrow> iam_db \<Rightarrow> iam_db" where
  "set_access vm uid created_by protocols expires db =
     (let db1 = upsert_access
            \<lparr>va_vm = vm, va_user = uid, va_protocols = protocols_json protocols, va_expires = expires,
             va_created_by = None\<rparr>
            (\<lambda>r. r\<lparr>va_protocols := (case protocols of None \<Rightarrow> va_protocols r | Some ps \<Rightarrow> protocols_json (Some ps)),
                   va_expires := coalesce expires (va_expires r)\<rparr>) db
      in if truthy created_by
         then update_access vm uid (\<lambda>r. r\<lparr>va_created_by := coalesce (va_created_by r) created_by\<rparr>) db1
         else db1)"

definition replace_access ::
  "string \<Rightarrow> string \<Rightarrow> string list option \<Rightarrow> time option \<Rightarrow> string option \<Rightarrow> iam_db \<Rightarrow> iam_db" where
  "replace_access vm uid protocols expires created_by db =
     upsert_access
       \<lparr>va_vm = vm, va_user = uid, va_protocols = protocols_json protocols, va_expires = expires,
        va_created_by = created_by\<rparr>
       (\<lambda>r. r\<lparr>va_protocols := protocols_json protocols, va_expires := expires,
              va_created_by := coalesce (va_created_by r) created_by\<rparr>) db"

definition revoke_access :: "string \<Rightarrow> string \<Rightarrow> iam_db \<Rightarrow> iam_db" where
  "revoke_access vm uid db = db\<lparr>vm_access := table_delete (\<lambda>r. va_key r = (vm, uid)) (vm_access db)\<rparr>"

definition revoke_all_access :: "string \<Rightarrow> iam_db \<Rightarrow> nat \<times> iam_db" where
  "revoke_all_access vm db =
     (length (filter (\<lambda>r. va_vm r = vm) (vm_access db)) + length (filter (\<lambda>r. gva_vm r = vm) (group_vm_access db)),
      db\<lparr>vm_access := table_delete (\<lambda>r. va_vm r = vm) (vm_access db),
         group_vm_access := table_delete (\<lambda>r. gva_vm r = vm) (group_vm_access db)\<rparr>)"

record access_entry =
  ae_user :: string
  ae_created_by :: "string option"
  ae_protocols :: json
  ae_expires :: "time option"
  ae_group :: "(string \<times> string) option"

text \<open>Rows come in creation order, which is table order; the creation dates are not kept.\<close>

definition list_access_entries :: "iam_db \<Rightarrow> time \<Rightarrow> string \<Rightarrow> access_entry list" where
  "list_access_entries db now vm =
     map (\<lambda>r. \<lparr>ae_user = va_user r, ae_created_by = va_created_by r, ae_protocols = va_protocols r,
               ae_expires = va_expires r, ae_group = None\<rparr>)
       (filter (\<lambda>r. va_vm r = vm) (vm_access db)) @
     [\<lparr>ae_user = gm_user m, ae_created_by = None, ae_protocols = gva_protocols x,
       ae_expires = gva_expires x, ae_group = Some (gva_group x, g_name g)\<rparr>.
        x \<leftarrow> group_vm_access db, gva_vm x = vm \<and> is_live (gva_expires x) now,
        g \<leftarrow> groups db, g_id g = gva_group x,
        m \<leftarrow> group_members db, gm_group m = gva_group x \<and> is_live (gm_expires m) now]"

definition list_access_user_ids :: "iam_db \<Rightarrow> time \<Rightarrow> string \<Rightarrow> string list" where
  "list_access_user_ids db now vm =
     dedup (map va_user (filter (\<lambda>r. va_vm r = vm \<and> is_live (va_expires r) now) (vm_access db)) @
       [gm_user m. x \<leftarrow> group_vm_access db, gva_vm x = vm \<and> is_live (gva_expires x) now,
          m \<leftarrow> group_members db, gm_group m = gva_group x \<and> is_live (gm_expires m) now])"

definition has_access :: "iam_db \<Rightarrow> time \<Rightarrow> string \<Rightarrow> string \<Rightarrow> bool" where
  "has_access db now vm uid \<longleftrightarrow> is_uuid vm \<and> is_uuid uid \<and>
     (direct_grant db now vm uid \<or> group_grant db now vm uid)"

definition has_access_or_owns :: "vm_db \<Rightarrow> time \<Rightarrow> string \<Rightarrow> string \<Rightarrow> bool" where
  "has_access_or_owns db now vm uid \<longleftrightarrow> has_access (iam db) now vm uid \<or>
     (case find_by_id db vm of None \<Rightarrow> False | Some r \<Rightarrow> v_created_by r = Some uid)"

definition visible_to :: "vm_db \<Rightarrow> time \<Rightarrow> string \<Rightarrow> string list \<Rightarrow> string \<Rightarrow> bool \<times> bool" where
  "visible_to db now uid rs vm =
     (let privileged = (''ADMIN'' \<in> set rs \<or> ''OPERATOR'' \<in> set rs)
      in case find_by_id db vm of
           None \<Rightarrow> (privileged, False)
         | Some r \<Rightarrow>
            (if v_privacy r then (has_access_or_owns db now vm uid, True)
             else if privileged then (True, False)
             else (has_access (iam db) now vm uid, False)))"

definition merge_grant_scope ::
  "(json \<times> time option) option \<Rightarrow> json \<times> time option \<Rightarrow> json \<times> time option" where
  "merge_grant_scope existing requested = (case existing of None \<Rightarrow> requested | Some s \<Rightarrow> s)"

subsection \<open>VM class and privacy\<close>

definition enabled_schedules :: "vm_db \<Rightarrow> string \<Rightarrow> nat" where
  "enabled_schedules db vm = length (filter (\<lambda>s. sch_vm s = vm \<and> sch_enabled s) (schedules db))"

definition set_vm_class :: "string \<Rightarrow> vm_class \<Rightarrow> (vm_db, bool) comp" where
  "set_vm_class i c db =
     (case require_by_id db i of
        Inl e \<Rightarrow> throw e db
      | Inr vm \<Rightarrow>
         (if c = UserClass \<and> vm_class_of vm \<noteq> UserClass \<and> enabled_schedules db i > 0
          then throw (err_validation ''VM class switch to \"user\" is blocked: the VM has enabled schedules that would conflict with idle auto-shutdown'') db
          else if c = vm_class_of vm then ret False db
          else (Inr True, update_vm i (\<lambda>r. r\<lparr>v_class := vm_class_str c\<rparr>) db)))"

definition msg_privacy_grant :: string where
  "msg_privacy_grant = ''Toggling privacy requires a direct grant for this VM''"

definition msg_privacy_clear :: string where
  "msg_privacy_clear = ''Clearing the privacy flag requires vm.edit, ownership, or ADMIN''"

definition assert_may_change_privacy ::
  "vm_db \<Rightarrow> time \<Rightarrow> vm_row \<Rightarrow> string \<Rightarrow> string list \<Rightarrow> bool \<Rightarrow> bool res" where
  "assert_may_change_privacy db now vm uid rs enabled =
     (let granted = has_access_or_owns db now (v_id vm) uid
      in if \<not> granted \<and> ''ADMIN'' \<notin> set rs then Inl (err_forbidden msg_privacy_grant)
         else if \<not> enabled \<and> v_created_by vm \<noteq> Some uid \<and> ''ADMIN'' \<notin> set rs
            \<and> \<not> map_has (permissions (resolve_effective_access (iam db) now uid)) ''vm.edit''
         then Inl (err_forbidden msg_privacy_clear)
         else Inr granted)"

text \<open>
  The bulk operations run each item in a try block: what one item throws becomes its entry
  in the results and the next item goes on with the state that was reached.
\<close>

fun bulk :: "('x \<Rightarrow> ('s, 'a) comp) \<Rightarrow> 'x list \<Rightarrow> 's \<Rightarrow> ('x \<times> 'a res) list \<times> 's" where
  "bulk f [] s = ([], s)"
| "bulk f (x # xs) s =
     (let (r, s1) = f x s; (rs, s2) = bulk f xs s1 in ((x, r) # rs, s2))"

definition privacy_item :: "time \<Rightarrow> bool \<Rightarrow> string \<Rightarrow> string list \<Rightarrow> string \<Rightarrow> (vm_db, bool) comp" where
  "privacy_item now enabled uid rs i db =
     (case find_by_id db i of
        None \<Rightarrow> throw (err_forbidden msg_privacy_grant) db
      | Some vm \<Rightarrow>
         (case assert_may_change_privacy db now vm uid rs enabled of
            Inl e \<Rightarrow> throw e db
          | Inr granted \<Rightarrow> (Inr granted,
              if enabled \<noteq> v_privacy vm then set_privacy_flag (v_id vm) enabled db else db)))"

definition bulk_set_privacy ::
  "time \<Rightarrow> string list \<Rightarrow> bool \<Rightarrow> string \<Rightarrow> string list \<Rightarrow> vm_db \<Rightarrow> (string \<times> bool res) list \<times> vm_db" where
  "bulk_set_privacy now ids enabled uid rs = bulk (privacy_item now enabled uid rs) (dedup ids)"

definition bulk_set_vm_class ::
  "string list \<Rightarrow> vm_class \<Rightarrow> vm_db \<Rightarrow> (string \<times> bool res) list \<times> vm_db" where
  "bulk_set_vm_class ids c = bulk (\<lambda>i. set_vm_class i c) (dedup ids)"

end
