(* ===== verification/Vms_Props.thy ===== *)
theory Vms_Props
  imports Vms
begin

text \<open>
  Properties of the VM registry: the table invariant (unique identifiers, unique pairs of
  VMID and node over live and deleted rows, unique static addresses), visibility, grants,
  and the bulk operations item by item.
\<close>

lemma update_vm_vms [simp]: "vms (update_vm i f db) = table_update (\<lambda>r. v_id r = i) f (vms db)"
  and update_vm_iam [simp]: "iam (update_vm i f db) = iam db"
  and update_vm_schedules [simp]: "schedules (update_vm i f db) = schedules db"
  by (simp_all add: update_vm_def)

lemma find_by_id_Some: "find_by_id db i = Some r \<Longrightarrow> r \<in> set (vms db) \<and> v_id r = i \<and> vm_live r \<and> is_uuid i"
  by (auto simp: find_by_id_def live_opt_def split: if_splits option.splits dest: vm_table.lookup_SomeD)

lemma find_by_id_live:
  "vm_table.unique (vms db) \<Longrightarrow> r \<in> set (vms db) \<Longrightarrow> vm_live r \<Longrightarrow> is_uuid (v_id r)
   \<Longrightarrow> find_by_id db (v_id r) = Some r"
  by (simp add: find_by_id_def live_opt_def vm_table.lookup_unique)

lemma find_by_id_update:
  assumes "\<And>r. v_id (f r) = v_id r" and "\<And>r. v_deleted_at (f r) = v_deleted_at r"
  shows "find_by_id (update_vm i f db) j
     = map_option (\<lambda>r. if v_id r = i then f r else r) (find_by_id db j)"
proof (cases "j = i")
  case True
  then show ?thesis
    using vm_table.lookup_update [of f i "vms db"] assms
    by (auto simp: find_by_id_def live_opt_def vm_live_def split: option.splits
        dest: vm_table.lookup_SomeD)
next
  case False
  then show ?thesis
    using vm_table.lookup_update_other [of f j i "vms db"] assms
    by (auto simp: find_by_id_def live_opt_def vm_live_def split: option.splits
        dest: vm_table.lookup_SomeD)
qed

lemma table_update_cong:
  "(\<And>r. r \<in> set t \<Longrightarrow> (if P r then f r else r) = (if Q r then g r else r))
   \<Longrightarrow> table_update P f t = table_update Q g t"
  by (simp add: table_update_def)

subsection \<open>The table invariant\<close>

definition pairwise :: "('r \<Rightarrow> 'r \<Rightarrow> bool) \<Rightarrow> 'r set \<Rightarrow> bool" where
  "pairwise R S \<longleftrightarrow> (\<forall>x \<in> S. \<forall>y \<in> S. x \<noteq> y \<longrightarrow> R x y)"

lemma pairwise_imageI:
  "(\<And>x y. x \<in> S \<Longrightarrow> y \<in> S \<Longrightarrow> x \<noteq> y \<Longrightarrow> R (g x) (g y)) \<Longrightarrow> pairwise R (g ` S)"
  unfolding pairwise_def by blast

lemma pairwiseD: "pairwise R S \<Longrightarrow> x \<in> S \<Longrightarrow> y \<in> S \<Longrightarrow> x \<noteq> y \<Longrightarrow> R x y"
  unfolding pairwise_def by blast

definition static_at :: "vm_row \<Rightarrow> string option" where
  "static_at r = (if vm_live r \<and> v_ip_static r then v_ip r else None)"

definition vms_wf :: "vm_db \<Rightarrow> bool" where
  "vms_wf db \<longleftrightarrow> vm_table.unique (vms db)
     \<and> pairwise (\<lambda>x y. (v_vmid x, v_node x) \<noteq> (v_vmid y, v_node y)) (set (vms db))
     \<and> pairwise (\<lambda>x y. static_at x = None \<or> static_at x \<noteq> static_at y) (set (vms db))"

lemma unique_eq:
  "vm_table.unique t \<Longrightarrow> x \<in> set t \<Longrightarrow> y \<in> set t \<Longrightarrow> v_id x = v_id y \<Longrightarrow> x = y"
  by (metis vm_table.lookup_unique option.inject)

lemma vms_wf_update:
  assumes wf: "vms_wf db"
    and keeps: "\<And>r. v_id (f r) = v_id r \<and> v_vmid (f r) = v_vmid r \<and> v_node (f r) = v_node r"
    and static: "\<And>r. static_at (f r) = None \<or> static_at (f r) = static_at r"
  shows "vms_wf (update_vm i f db)"
proof -
  let ?g = "\<lambda>r. if v_id r = i then f r else r"
  have key: "v_vmid (?g r) = v_vmid r" "v_node (?g r) = v_node r" "v_id (?g r) = v_id r" for r
    using keeps by auto
  have st: "static_at (?g r) = None \<or> static_at (?g r) = static_at r" for r
    using static by auto
  have "vm_table.unique (vms (update_vm i f db))"
    using wf keeps by (simp add: vms_wf_def vm_table.unique_update)
  moreover have "pairwise (\<lambda>x y. (v_vmid x, v_node x) \<noteq> (v_vmid y, v_node y)) (?g ` set (vms db))"
  proof (rule pairwise_imageI)
    fix x y
    assume "x \<in> set (vms db)" "y \<in> set (vms db)" "x \<noteq> y"
    then show "(v_vmid (?g x), v_node (?g x)) \<noteq> (v_vmid (?g y), v_node (?g y))"
      unfolding key using wf unfolding vms_wf_def by (blast dest: pairwiseD)
  qed
  moreover have "pairwise (\<lambda>x y. static_at x = None \<or> static_at x \<noteq> static_at y) (?g ` set (vms db))"
  proof (rule pairwise_imageI)
    fix x y
    assume "x \<in> set (vms db)" "y \<in> set (vms db)" "x \<noteq> y"
    then have "static_at x = None \<or> static_at x \<noteq> static_at y"
      using wf unfolding vms_wf_def by (blast dest: pairwiseD)
    then show "static_at (?g x) = None \<or> static_at (?g x) \<noteq> static_at (?g y)"
      using st [of x] st [of y] by metis
  qed
  ultimately show ?thesis by (simp add: vms_wf_def)
qed

lemma vms_wf_create:
  assumes "vms_wf db"
  shows "vms_wf (snd (vms_create now nid i db))"
proof (cases "list_ex (\<lambda>r. v_id r = nid \<or> occupies (cv_vmid i) (cv_node i) r) (vms db)")
  case True
  then show ?thesis using assms by (simp add: vms_create_def throw_def)
next
  case False
  let ?n = "new_vm_row now nid i"
  have n: "v_id ?n = nid" "v_vmid ?n = cv_vmid i" "v_node ?n = cv_node i" "static_at ?n = None"
    by (simp_all add: new_vm_row_def static_at_def)
  have fresh: "\<And>r. r \<in> set (vms db) \<Longrightarrow> v_id r \<noteq> nid \<and> (v_vmid r, v_node r) \<noteq> (cv_vmid i, cv_node i)"
    using False by (auto simp: list_ex_iff occupies_def)
  have "vm_table.unique (vms db @ [?n])"
    using assms fresh by (intro vm_table.unique_append) (auto simp: vms_wf_def vm_table.lookup_None_iff n)
  moreover have "snd (vms_create now nid i db) = db\<lparr>vms := vms db @ [?n]\<rparr>"
    using False by (simp add: vms_create_def)
  moreover have "pairwise (\<lambda>x y. (v_vmid x, v_node x) \<noteq> (v_vmid y, v_node y)) (insert ?n (set (vms db)))"
    using assms fresh unfolding vms_wf_def pairwise_def by (fastforce simp: n)
  moreover have "pairwise (\<lambda>x y. static_at x = None \<or> static_at x \<noteq> static_at y) (insert ?n (set (vms db)))"
    using assms unfolding vms_wf_def pairwise_def by (simp add: n) (metis not_None_eq)
  ultimately show ?thesis by (simp add: vms_wf_def)
qed

lemma vms_wf_update_node:
  assumes wf: "vms_wf db"
  shows "vms_wf (snd (update_node i n db))"
proof (cases "list_ex (\<lambda>r. v_id r = i \<and> list_ex (\<lambda>q. v_id q \<noteq> i \<and> occupies (v_vmid r) n q) (vms db)) (vms db)")
  case True
  then show ?thesis using wf by (simp add: update_node_def throw_def)
next
  case False
  let ?g = "\<lambda>r::vm_row. if v_id r = i then r\<lparr>v_node := n\<rparr> else r"
  have free: "\<And>r q. r \<in> set (vms db) \<Longrightarrow> q \<in> set (vms db) \<Longrightarrow> v_id r = i \<Longrightarrow> v_id q \<noteq> i
      \<Longrightarrow> v_vmid q = v_vmid r \<Longrightarrow> v_node q \<noteq> n"
    using False by (auto simp: list_ex_iff occupies_def)
  have u: "vm_table.unique (vms db)" using wf by (simp add: vms_wf_def)
  have st: "static_at (?g r) = static_at r" for r
    by (auto simp: static_at_def vm_live_def)
  have "pairwise (\<lambda>x y. (v_vmid x, v_node x) \<noteq> (v_vmid y, v_node y)) (?g ` set (vms db))"
  proof (rule pairwise_imageI)
    fix x y
    assume xy: "x \<in> set (vms db)" "y \<in> set (vms db)" "x \<noteq> y"
    then have "(v_vmid x, v_node x) \<noteq> (v_vmid y, v_node y)" and "v_id x \<noteq> v_id y"
      using wf xy unique_eq [OF u] unfolding vms_wf_def pairwise_def by blast+
    then show "(v_vmid (?g x), v_node (?g x)) \<noteq> (v_vmid (?g y), v_node (?g y))"
      using free [OF xy(1,2)] free [OF xy(2,1)] by auto
  qed
  moreover have "pairwise (\<lambda>x y. static_at x = None \<or> static_at x \<noteq> static_at y) (?g ` set (vms db))"
    by (rule pairwise_imageI, unfold st) (use wf in \<open>auto simp: vms_wf_def dest: pairwiseD\<close>)
  moreover have "vm_table.unique (vms (update_vm i (\<lambda>r. r\<lparr>v_node := n\<rparr>) db))"
    using u by (simp add: vm_table.unique_update)
  ultimately show ?thesis using False by (simp add: update_node_def vms_wf_def)
qed

lemma vms_wf_update_ip:
  assumes wf: "vms_wf db"
  shows "vms_wf (snd (update_ip i ip st db))"
proof -
  let ?b = "case st of None \<Rightarrow> False | Some b \<Rightarrow> b"
  let ?g = "\<lambda>r::vm_row. if v_id r = i then r\<lparr>v_ip := ip, v_ip_static := ?b\<rparr> else r"
  have u: "vm_table.unique (vms db)" using wf by (simp add: vms_wf_def)
  show ?thesis
  proof (cases "?b \<and> live_row db i \<and> (case ip of None \<Rightarrow> False | Some a \<Rightarrow> static_ip_taken db i a)")
    case True
    then show ?thesis using wf by (simp add: update_ip_def throw_def)
  next
    case False
    have free: "static_at (?g x) = None \<or> static_at (?g x) \<noteq> static_at y"
      if "x \<in> set (vms db)" "y \<in> set (vms db)" "v_id x = i" "v_id y \<noteq> i" for x y
    proof -
      have "\<not> (?b \<and> vm_live x \<and> v_ip_static y \<and> vm_live y \<and> ip \<noteq> None \<and> v_ip y = ip)"
        using False that by (auto simp: live_row_def static_ip_taken_def list_ex_iff)
      then show ?thesis using that by (auto simp: static_at_def vm_live_def)
    qed
    have "pairwise (\<lambda>x y. (v_vmid x, v_node x) \<noteq> (v_vmid y, v_node y)) (?g ` set (vms db))"
      by (rule pairwise_imageI) (use wf in \<open>auto simp: vms_wf_def dest: pairwiseD\<close>)
    moreover have "pairwise (\<lambda>x y. static_at x = None \<or> static_at x \<noteq> static_at y) (?g ` set (vms db))"
    proof (rule pairwise_imageI)
      fix x y
      assume xy: "x \<in> set (vms db)" "y \<in> set (vms db)" "x \<noteq> y"
      then have "v_id x \<noteq> v_id y" and o: "static_at x = None \<or> static_at x \<noteq> static_at y"
        using unique_eq [OF u] wf unfolding vms_wf_def by (blast dest: pairwiseD)+
      then consider "v_id x = i" "v_id y \<noteq> i" | "v_id y = i" "v_id x \<noteq> i" | "v_id x \<noteq> i" "v_id y \<noteq> i"
        by blast
      then show "static_at (?g x) = None \<or> static_at (?g x) \<noteq> static_at (?g y)"
      proof cases
        case 1
        with free [OF xy(1,2)] show ?thesis by simp
      next
        case 2
        with free [OF xy(2,1)] show ?thesis by auto
      next
        case 3
        with o show ?thesis by simp
      qed
    qed
    moreover have "vm_table.unique (table_update (\<lambda>r. v_id r = i) (\<lambda>r. r\<lparr>v_ip := ip, v_ip_static := ?b\<rparr>) (vms db))"
      using u by (simp add: vm_table.unique_update)
    moreover have "snd (update_ip i ip st db) = update_vm i (\<lambda>r. r\<lparr>v_ip := ip, v_ip_static := ?b\<rparr>) db"
      unfolding update_ip_def Let_def if_not_P [OF False] by simp
    ultimately show ?thesis by (simp add: vms_wf_def)
  qed
qed

lemma static_at_simps:
  "static_at (r\<lparr>v_status := s\<rparr>) = static_at r"
  "static_at (r\<lparr>v_os_name := o'\<rparr>) = static_at r"
  "static_at (r\<lparr>v_name := n\<rparr>) = static_at r"
  "static_at (r\<lparr>v_privacy := b\<rparr>) = static_at r"
  "static_at (r\<lparr>v_start_on_boot := b\<rparr>) = static_at r"
  "static_at (r\<lparr>v_isolated := b\<rparr>) = static_at r"
  "static_at (r\<lparr>v_class := c\<rparr>) = static_at r"
  "static_at (r\<lparr>v_deleted_at := Some t\<rparr>) = None"
  by (auto simp: static_at_def vm_live_def)

lemma vms_wf_fields [keeps]:
  assumes "vms_wf db"
  shows "vms_wf (update_status i s db)" "vms_wf (update_os_info i os db)" "vms_wf (update_name i n db)"
    "vms_wf (set_privacy_flag i b db)" "vms_wf (set_start_on_boot i b db)" "vms_wf (soft_delete now i db)"
  unfolding update_status_def update_os_info_def update_name_def set_privacy_flag_def
    set_start_on_boot_def soft_delete_def
  by (rule vms_wf_update [OF assms]; simp add: static_at_simps)+

lemma vms_wf_set_class:
  assumes "vms_wf db"
  shows "vms_wf (snd (set_vm_class i c db))"
proof -
  have "vms_wf (update_vm i (\<lambda>r. r\<lparr>v_class := vm_class_str c\<rparr>) db)"
    by (rule vms_wf_update [OF assms]; simp add: static_at_simps)
  then show ?thesis
    using assms by (auto simp: set_vm_class_def comp_defs split: sum.splits)
qed

lemma vms_wf_find_or_create:
  "vms_wf db \<Longrightarrow> vms_wf (snd (find_or_create now nid i db))"
  by (auto simp: find_or_create_def ret_def vms_wf_create split: option.splits)

text \<open>C5. The table invariant of the VM registry (unique identifiers; no two rows, live or
  deleted, with the same VMID on the same node; no two live rows with the same static
  address) is kept by every operation of the repository that writes the table.\<close>

theorem vms_wf_preserved:
  assumes "vms_wf db"
  shows "vms_wf (snd (vms_create now nid inp db)) \<and> vms_wf (snd (find_or_create now nid inp db))
    \<and> vms_wf (snd (update_ip i ip st db)) \<and> vms_wf (snd (update_node i n db))
    \<and> vms_wf (snd (set_vm_class i c db)) \<and> vms_wf (update_status i s db) \<and> vms_wf (update_os_info i os db)
    \<and> vms_wf (update_name i n db) \<and> vms_wf (set_privacy_flag i b db) \<and> vms_wf (set_start_on_boot i b db)
    \<and> vms_wf (soft_delete now i db)"
  using assms by (simp add: vms_wf_create vms_wf_find_or_create vms_wf_update_ip vms_wf_update_node
      vms_wf_set_class vms_wf_fields)

definition sample_vm :: vm_row where
  "sample_vm = \<lparr>v_id = ''00000000-0000-0000-0000-00000000000a'', v_vmid = 100, v_node = ''pve'', v_name = ''web'',
     v_status = VmRunning, v_os_type = Some ''linux'', v_os_name = None, v_ip = Some ''10.0.0.5'',
     v_created_by = Some ''00000000-0000-0000-0000-0000000000b1'', v_template = None, v_created_at = 1,
     v_deleted_at = None, v_privacy = False, v_isolated = False, v_class = ''server'',
     v_start_on_boot = False, v_ip_static = True\<rparr>"

definition sample_iam :: iam_db where
  "sample_iam = \<lparr> roles = [], user_roles = [], role_permissions = [], user_permissions = [],
     groups = [], group_members = [], group_roles = [], group_vm_access = [], vm_access = [] \<rparr>"

definition sample_vms :: vm_db where
  "sample_vms = \<lparr>vms = [sample_vm], schedules = [], iam = sample_iam\<rparr>"

lemma sample_vms_wf: "vms_wf sample_vms"
  by (simp add: vms_wf_def sample_vms_def pairwise_def vm_table.unique_def)

lemma vms_wf_preserved_witness:
  "vms_wf (snd (update_ip (v_id sample_vm) (Some ''10.0.0.6'') (Some True) sample_vms))"
  using vms_wf_preserved [OF sample_vms_wf] by blast

subsection \<open>Registering a machine\<close>

text \<open>Registering a machine returns the live row when there is one, fails exactly when a
  soft-deleted row still occupies the VMID on that node (or the fresh identifier is taken),
  and otherwise appends a pending row; a VMID that the allocator's list of the node does not
  contain never fails.\<close>

theorem find_or_create_exact:
  assumes "vms_wf db" and fresh: "nid \<notin> v_id ` set (vms db)"
  shows "(case find_by_id_key db (cv_vmid i) (cv_node i) of
           Some r \<Rightarrow> find_or_create now nid i db = (Inr r, db)
         | None \<Rightarrow> (if cv_vmid i \<in> set (list_vmids_by_node db (cv_node i))
             then (\<exists>e. find_or_create now nid i db = (Inl e, db) \<and> err_code e = INTERNAL_ERROR) \<and>
                  (\<exists>r \<in> set (vms db). occupies (cv_vmid i) (cv_node i) r \<and> \<not> vm_live r)
             else find_or_create now nid i db
                    = (Inr (new_vm_row now nid i), db\<lparr>vms := vms db @ [new_vm_row now nid i]\<rparr>)))"
proof (cases "find_by_id_key db (cv_vmid i) (cv_node i)")
  case (Some r)
  then show ?thesis by (simp add: find_or_create_def ret_def)
next
  case None
  have occ: "cv_vmid i \<in> set (list_vmids_by_node db (cv_node i))
      \<longleftrightarrow> (\<exists>r \<in> set (vms db). occupies (cv_vmid i) (cv_node i) r)"
    by (auto simp: list_vmids_by_node_def occupies_def image_iff)
  have dead: "\<And>r. r \<in> set (vms db) \<Longrightarrow> occupies (cv_vmid i) (cv_node i) r \<Longrightarrow> \<not> vm_live r"
    using None by (auto simp: find_by_id_key_def find_None_all)
  show ?thesis
    using None dead fresh
    by (auto simp: occ find_or_create_def vms_create_def throw_def pg_error_def list_ex_iff)
qed

lemma find_or_create_exact_witness:
  "fst (find_or_create 5 ''n'' \<lparr>cv_vmid = 101, cv_node = ''pve'', cv_name = ''db'', cv_status = None,
      cv_os_type = None, cv_ip = None, cv_created_by = None, cv_template = None\<rparr> sample_vms)
    = Inr (new_vm_row 5 ''n'' \<lparr>cv_vmid = 101, cv_node = ''pve'', cv_name = ''db'', cv_status = None,
      cv_os_type = None, cv_ip = None, cv_created_by = None, cv_template = None\<rparr>)"
  using find_or_create_exact [OF sample_vms_wf, of "''n''" "\<lparr>cv_vmid = 101, cv_node = ''pve'', cv_name = ''db'',
      cv_status = None, cv_os_type = None, cv_ip = None, cv_created_by = None, cv_template = None\<rparr>" 5]
  by (simp add: sample_vms_def sample_vm_def find_by_id_key_def occupies_def list_vmids_by_node_def)

subsection \<open>Grants and visibility\<close>

lemma group_grant_iff:
  fixes db :: iam_db
  assumes "\<And>x. x \<in> set (group_vm_access db) \<Longrightarrow> \<exists>g \<in> set (groups db). g_id g = gva_group x"
  shows "group_grant db now vm uid \<longleftrightarrow>
    (\<exists>g. member_of db now uid g \<and>
        (\<exists>x \<in> set (group_vm_access db). gva_group x = g_id g \<and> gva_vm x = vm \<and> is_live (gva_expires x) now))"
proof
  assume "group_grant db now vm uid"
  then obtain x m where x: "x \<in> set (group_vm_access db)" "gva_vm x = vm" "is_live (gva_expires x) now"
    and m: "m \<in> set (group_members db)" "gm_group m = gva_group x" "gm_user m = uid" "is_live (gm_expires m) now"
    unfolding group_grant_def list_ex_iff by blast
  from assms [OF x(1)] obtain g where "g \<in> set (groups db)" "g_id g = gva_group x" by blast
  with x m show "\<exists>g. member_of db now uid g \<and>
      (\<exists>x \<in> set (group_vm_access db). gva_group x = g_id g \<and> gva_vm x = vm \<and> is_live (gva_expires x) now)"
    unfolding member_of_def by metis
next
  assume "\<exists>g. member_of db now uid g \<and>
      (\<exists>x \<in> set (group_vm_access db). gva_group x = g_id g \<and> gva_vm x = vm \<and> is_live (gva_expires x) now)"
  then show "group_grant db now vm uid"
    unfolding group_grant_def list_ex_iff member_of_def by metis
qed

lemma grant_iff_grants_vm:
  fixes db :: iam_db
  assumes "\<And>x. x \<in> set (group_vm_access db) \<Longrightarrow> \<exists>g \<in> set (groups db). g_id g = gva_group x"
  shows "direct_grant db now vm uid \<or> group_grant db now vm uid \<longleftrightarrow> (\<exists>ps. grants_vm db now uid vm ps)"
  by (simp add: group_grant_iff [OF assms] grants_vm_def direct_grant_def list_ex_iff ex_disj_distrib) blast

text \<open>The registry's own grant check agrees with the effective-access resolver: over
  group rows whose groups exist, a user has a grant on a machine exactly when the resolver
  lists the machine, and such a user is among the user ids that hold access.\<close>

theorem has_access_matches_resolution:
  assumes "\<And>x. x \<in> set (group_vm_access db) \<Longrightarrow> \<exists>g \<in> set (groups db). g_id g = gva_group x"
    and "is_uuid vm" and "is_uuid uid"
  shows "(has_access db now vm uid \<longleftrightarrow> map_has (vm_grants (resolve_effective_access db now uid)) vm) \<and>
    (has_access db now vm uid \<longleftrightarrow> uid \<in> set (list_access_user_ids db now vm))"
proof
  show "has_access db now vm uid \<longleftrightarrow> map_has (vm_grants (resolve_effective_access db now uid)) vm"
    using assms by (simp add: has_access_def grant_iff_grants_vm resolve_vm_has_iff)
  have "uid \<in> set (list_access_user_ids db now vm) \<longleftrightarrow> direct_grant db now vm uid \<or> group_grant db now vm uid"
    unfolding list_access_user_ids_def set_dedup set_append Un_iff in_comprehension
      direct_grant_def group_grant_def list_ex_iff by auto
  then show "has_access db now vm uid \<longleftrightarrow> uid \<in> set (list_access_user_ids db now vm)"
    using assms by (simp add: has_access_def)
qed

lemma sample_uuid:
  "is_uuid (v_id sample_vm)" "is_uuid ''00000000-0000-0000-0000-0000000000b1''"
  by code_simp+

lemma has_access_matches_resolution_witness:
  "\<not> map_has (vm_grants (resolve_effective_access sample_iam 0 ''00000000-0000-0000-0000-0000000000b1''))
     (v_id sample_vm)"
  using has_access_matches_resolution
    [of sample_iam "v_id sample_vm" "''00000000-0000-0000-0000-0000000000b1''" 0] sample_uuid
  by (simp add: sample_iam_def has_access_def direct_grant_def group_grant_def)

definition privileged_roles :: "string list \<Rightarrow> bool" where
  "privileged_roles rs \<longleftrightarrow> ''ADMIN'' \<in> set rs \<or> ''OPERATOR'' \<in> set rs"

lemma owns_iff:
  assumes "vms_wf db" and "r \<in> set (vms db)" "vm_live r" "is_uuid (v_id r)"
  shows "has_access_or_owns db now (v_id r) uid \<longleftrightarrow>
    has_access (iam db) now (v_id r) uid \<or> v_created_by r = Some uid"
  using assms by (simp add: has_access_or_owns_def find_by_id_live vms_wf_def)

text \<open>Visibility of a live machine. A private machine is open exactly to holders of a
  grant and its creator, whatever their roles; a public one to administrators, operators and
  holders of a grant. The list of an ordinary user shows the machines with a grant and the
  user's own ones: the list and the per-machine check differ exactly on a public machine that
  the user created and holds no grant for, which is listed but refused.\<close>

theorem visibility_exact:
  assumes wf: "vms_wf db" and r: "r \<in> set (vms db)" "vm_live r" "is_uuid (v_id r)" and u: "is_uuid uid"
  shows "visible_to db now uid rs (v_id r) =
      (if v_privacy r then (has_access (iam db) now (v_id r) uid \<or> v_created_by r = Some uid, True)
       else (privileged_roles rs \<or> has_access (iam db) now (v_id r) uid, False)) \<and>
    (r \<in> set (list_all_for_user db now uid False) \<longleftrightarrow>
       has_access (iam db) now (v_id r) uid \<or> v_created_by r = Some uid) \<and>
    (\<not> privileged_roles rs \<longrightarrow>
      ((r \<in> set (list_all_for_user db now uid False)) \<noteq> fst (visible_to db now uid rs (v_id r)) \<longleftrightarrow>
        \<not> v_privacy r \<and> v_created_by r = Some uid \<and> \<not> has_access (iam db) now (v_id r) uid))"
proof -
  have vis: "visible_to db now uid rs (v_id r) =
      (if v_privacy r then (has_access (iam db) now (v_id r) uid \<or> v_created_by r = Some uid, True)
       else (privileged_roles rs \<or> has_access (iam db) now (v_id r) uid, False))"
    using find_by_id_live [of db r] wf r owns_iff [OF wf r]
    by (auto simp: visible_to_def privileged_roles_def Let_def vms_wf_def)
  have "r \<in> set (list_all_for_user db now uid False) \<longleftrightarrow>
      has_access (iam db) now (v_id r) uid \<or> v_created_by r = Some uid"
    using r u by (auto simp: list_all_for_user_def list_assigned_to_user_def newest_first_def has_access_def)
  with vis show ?thesis by auto
qed

lemma visibility_exact_witness:
  "sample_vm \<in> set (list_all_for_user sample_vms 0 ''00000000-0000-0000-0000-0000000000b1'' False) \<and>
   \<not> fst (visible_to sample_vms 0 ''00000000-0000-0000-0000-0000000000b1'' [''USER''] (v_id sample_vm))"
  using visibility_exact [OF sample_vms_wf, of sample_vm "''00000000-0000-0000-0000-0000000000b1''" 0 "[''USER'']"]
    sample_uuid
  by (simp add: sample_vms_def sample_vm_def vm_live_def sample_iam_def has_access_def direct_grant_def
      group_grant_def privileged_roles_def)

subsection \<open>Editing a grant\<close>

lemma va_key_set [simp]: "va_key (r\<lparr>va_protocols := p\<rparr>) = va_key r" "va_key (r\<lparr>va_expires := e\<rparr>) = va_key r"
  "va_key (r\<lparr>va_created_by := c\<rparr>) = va_key r"
  by (simp_all add: va_key_def)

lemma va_key_row [simp]:
  "va_key \<lparr>va_vm = v, va_user = u, va_protocols = p, va_expires = e, va_created_by = c\<rparr> = (v, u)"
  by (simp add: va_key_def)

lemma access_row_update:
  assumes "\<And>r. va_key (f r) = va_key r"
  shows "access_row k (vm_access (update_access vm uid f db))
    = (if k = (vm, uid) then map_option f (access_row k (vm_access db)) else access_row k (vm_access db))"
  using access_table.lookup_update [of f "(vm, uid)" "vm_access db"]
    access_table.lookup_update_other [of f k "(vm, uid)" "vm_access db"] assms
  by (simp add: update_access_def)

lemma access_row_append_other:
  "k \<noteq> va_key r \<Longrightarrow> access_row k (t @ [r]) = access_row k t"
  by (induction t) (auto simp: access_row_def table_find_def)

lemma access_row_upsert:
  assumes "\<And>r. va_key (f r) = va_key r"
  shows "access_row k (vm_access (upsert_access new f db)) =
    (if k = va_key new then Some (case access_row k (vm_access db) of None \<Rightarrow> new | Some r \<Rightarrow> f r)
     else access_row k (vm_access db))"
proof (cases "access_row (va_key new) (vm_access db)")
  case None
  then show ?thesis
    using access_table.lookup_append_fresh [of new "vm_access db"]
    by (auto simp: upsert_access_def access_row_append_other)
next
  case (Some r)
  moreover have "va_key new = (va_vm new, va_user new)" by (simp add: va_key_def)
  ultimately show ?thesis
    using assms by (auto simp: upsert_access_def access_row_update)
qed

lemma unique_upsert:
  assumes "\<And>r. va_key (f r) = va_key r" and "access_table.unique (vm_access db)"
  shows "access_table.unique (vm_access (upsert_access new f db))"
  using assms
  by (auto simp: upsert_access_def update_access_def access_table.unique_update access_table.unique_append
      split: option.splits)

text \<open>Re-granting a machine never drops a restriction that the request leaves open: on an
  existing row an absent protocol list or expiry keeps the stored one and the first granter
  stays on record; a new row takes the request as it is. Replacing a row, by contrast, sets
  protocols and expiry to exactly the request. Both leave every other row and the primary key
  alone.\<close>

theorem regrant_keeps_scope:
  assumes "access_table.unique (vm_access db)"
  shows "(access_row (vm, uid) (vm_access (set_access vm uid by ps e db)) =
      Some (case access_row (vm, uid) (vm_access db) of
          None \<Rightarrow> \<lparr>va_vm = vm, va_user = uid, va_protocols = protocols_json ps, va_expires = e,
                   va_created_by = (if truthy by then by else None)\<rparr>
        | Some r \<Rightarrow> r\<lparr>va_protocols := (if ps = None then va_protocols r else protocols_json ps),
                     va_expires := (if e = None then va_expires r else e),
                     va_created_by := (if va_created_by r = None \<and> truthy by then by else va_created_by r)\<rparr>)) \<and>
    (\<exists>r. access_row (vm, uid) (vm_access (replace_access vm uid ps e by db)) = Some r \<and>
      va_protocols r = protocols_json ps \<and> va_expires r = e) \<and>
    (k \<noteq> (vm, uid) \<longrightarrow>
      access_row k (vm_access (set_access vm uid by ps e db)) = access_row k (vm_access db) \<and>
      access_row k (vm_access (replace_access vm uid ps e by db)) = access_row k (vm_access db)) \<and>
    access_table.unique (vm_access (set_access vm uid by ps e db)) \<and>
    access_table.unique (vm_access (replace_access vm uid ps e by db))"
proof -
  have "access_table.unique (vm_access (set_access vm uid by ps e db))"
    using assms by (simp add: set_access_def Let_def update_access_def access_table.unique_update unique_upsert)
  moreover have "access_table.unique (vm_access (replace_access vm uid ps e by db))"
    using assms by (simp add: replace_access_def unique_upsert)
  moreover have "access_row (vm, uid) (vm_access (set_access vm uid by ps e db)) =
      Some (case access_row (vm, uid) (vm_access db) of
          None \<Rightarrow> \<lparr>va_vm = vm, va_user = uid, va_protocols = protocols_json ps, va_expires = e,
                   va_created_by = (if truthy by then by else None)\<rparr>
        | Some r \<Rightarrow> r\<lparr>va_protocols := (if ps = None then va_protocols r else protocols_json ps),
                     va_expires := (if e = None then va_expires r else e),
                     va_created_by := (if va_created_by r = None \<and> truthy by then by else va_created_by r)\<rparr>)"
    by (cases "access_row (vm, uid) (vm_access db)"; cases e; cases ps)
      (auto simp: set_access_def Let_def access_row_update access_row_upsert coalesce_def truthy_def
        split: option.splits)
  ultimately show ?thesis
    by (auto simp: replace_access_def set_access_def Let_def access_row_update access_row_upsert
        split: option.splits)
qed

lemma regrant_keeps_scope_witness:
  "map_option va_expires (access_row (''v'', ''u'') (vm_access (set_access ''v'' ''u'' None None None
     (sample_iam\<lparr>vm_access := [\<lparr>va_vm = ''v'', va_user = ''u'', va_protocols = JNull, va_expires = Some 5,
        va_created_by = None\<rparr>]\<rparr>)))) = Some (Some 5)"
proof -
  let ?db = "sample_iam\<lparr>vm_access := [\<lparr>va_vm = ''v'', va_user = ''u'', va_protocols = JNull,
     va_expires = Some 5, va_created_by = None\<rparr>]\<rparr>"
  have "access_table.unique (vm_access ?db)" by (simp add: access_table.unique_def)
  from conjunct1 [OF regrant_keeps_scope [OF this, of "''v''" "''u''" None None None]] show ?thesis
    by (simp add: access_row_def table_find_def va_key_def)
qed

subsection \<open>VM class\<close>

definition schedule_safe :: "vm_db \<Rightarrow> bool" where
  "schedule_safe db \<longleftrightarrow> (\<forall>r \<in> set (vms db). vm_class_of r = UserClass \<longrightarrow> enabled_schedules db (v_id r) = 0)"

lemma set_vm_class_safe:
  assumes "vms_wf db" and safe: "schedule_safe db"
  shows "schedule_safe (snd (set_vm_class i c db))"
proof (cases "find_by_id db i")
  case None
  then show ?thesis using safe by (simp add: set_vm_class_def require_by_id_def throw_def)
next
  case (Some vm)
  note row = find_by_id_Some [OF Some]
  have en: "enabled_schedules (update_vm i f db) j = enabled_schedules db j" for f j
    by (simp add: enabled_schedules_def)
  have "c = UserClass \<Longrightarrow> enabled_schedules db i > 0 \<Longrightarrow> vm_class_of vm \<noteq> UserClass"
    using safe row by (auto simp: schedule_safe_def)
  then show ?thesis
    using Some safe
    by (cases c) (auto simp: set_vm_class_def require_by_id_def comp_defs schedule_safe_def en vm_class_of_def)
qed

lemma bulk_keeps:
  "(\<And>x s. P s \<Longrightarrow> P (snd (f x s))) \<Longrightarrow> P s \<Longrightarrow> P (snd (bulk f xs s))"
  by (induction xs arbitrary: s) (auto simp: Let_def split: prod.splits, metis snd_conv)

text \<open>No machine that the idle ticker may shut down has an enabled schedule: whatever
  machines and class a bulk request names, and whatever items fail, setting VM classes keeps
  that invariant (with the table invariant).\<close>

theorem vm_class_respects_schedules:
  assumes "vms_wf db" and "schedule_safe db"
  shows "vms_wf (snd (bulk_set_vm_class ids c db)) \<and> schedule_safe (snd (bulk_set_vm_class ids c db))"
  unfolding bulk_set_vm_class_def
  by (rule bulk_keeps [where P = "\<lambda>db. vms_wf db \<and> schedule_safe db"])
    (use assms in \<open>auto simp: vms_wf_set_class set_vm_class_safe\<close>)

lemma vm_class_respects_schedules_witness:
  "schedule_safe (snd (bulk_set_vm_class [v_id sample_vm] UserClass sample_vms))"
  using vm_class_respects_schedules [OF sample_vms_wf, of "[v_id sample_vm]" UserClass]
  by (simp add: schedule_safe_def sample_vms_def sample_vm_def vm_class_of_def)

subsection \<open>Bulk privacy\<close>

lemma set_privacy_find:
  "find_by_id (set_privacy_flag j b db) i
     = map_option (\<lambda>r. if v_id r = j then r\<lparr>v_privacy := b\<rparr> else r) (find_by_id db i)"
  unfolding set_privacy_flag_def by (rule find_by_id_update) simp_all

lemma set_privacy_iam [simp]: "iam (set_privacy_flag j b db) = iam db"
  by (simp add: set_privacy_flag_def)

lemma privacy_verdict_stable:
  "fst (privacy_item now en uid rs i (set_privacy_flag j b db)) = fst (privacy_item now en uid rs i db)"
  by (auto simp: privacy_item_def set_privacy_find throw_def assert_may_change_privacy_def Let_def
      has_access_or_owns_def split: option.splits)

lemma set_privacy_same:
  assumes "vm_table.unique (vms db)" and "r \<in> set (vms db)"
  shows "set_privacy_flag (v_id r) (v_privacy r) db = db"
proof -
  have "table_update (\<lambda>x. v_id x = v_id r) (\<lambda>x. x\<lparr>v_privacy := v_privacy r\<rparr>) (vms db) = vms db"
    unfolding table_update_def
  proof (rule map_idI)
    fix x assume "x \<in> set (vms db)"
    then show "(if v_id x = v_id r then x\<lparr>v_privacy := v_privacy r\<rparr> else x) = x"
      using unique_eq [OF assms(1) _ assms(2), of x] by (cases x) auto
  qed
  then show ?thesis by (simp add: set_privacy_flag_def update_vm_def)
qed

lemma privacy_item_state:
  assumes "vms_wf db"
  shows "snd (privacy_item now en uid rs i db)
    = (if is_ok (fst (privacy_item now en uid rs i db)) then set_privacy_flag i en db else db)"
proof (cases "find_by_id db i")
  case None
  then show ?thesis by (simp add: privacy_item_def throw_def)
next
  case (Some r)
  note row = find_by_id_Some [OF Some]
  have "set_privacy_flag (v_id r) (v_privacy r) db = db"
    using assms row by (intro set_privacy_same) (auto simp: vms_wf_def)
  then show ?thesis
    using Some row by (cases "v_privacy r"; cases en) (auto simp: privacy_item_def throw_def split: sum.splits)
qed

definition privacy_ok :: "time \<Rightarrow> bool \<Rightarrow> string \<Rightarrow> string list \<Rightarrow> vm_db \<Rightarrow> string \<Rightarrow> bool" where
  "privacy_ok now en uid rs db i \<longleftrightarrow> is_ok (fst (privacy_item now en uid rs i db))"

lemma bulk_privacy_run:
  assumes "vms_wf db"
  shows "bulk (privacy_item now en uid rs) ids db =
    (map (\<lambda>i. (i, fst (privacy_item now en uid rs i db))) ids,
     db\<lparr>vms := map (\<lambda>r. if v_id r \<in> set ids \<and> privacy_ok now en uid rs db (v_id r)
                      then r\<lparr>v_privacy := en\<rparr> else r) (vms db)\<rparr>)"
  using assms
proof (induction ids arbitrary: db)
  case Nil
  then show ?case by simp
next
  case (Cons i ids)
  let ?db1 = "snd (privacy_item now en uid rs i db)"
  have step: "?db1 = (if privacy_ok now en uid rs db i then set_privacy_flag i en db else db)"
    using privacy_item_state [OF Cons.prems] by (simp add: privacy_ok_def)
  have wf: "vms_wf ?db1" using Cons.prems by (simp add: step vms_wf_fields)
  have same: "fst (privacy_item now en uid rs j ?db1) = fst (privacy_item now en uid rs j db)" for j
    by (simp add: step privacy_verdict_stable)
  have ok: "privacy_ok now en uid rs ?db1 j = privacy_ok now en uid rs db j" for j
    by (simp add: privacy_ok_def same)
  have rows: "map (\<lambda>r. if v_id r \<in> set ids \<and> privacy_ok now en uid rs db (v_id r)
        then r\<lparr>v_privacy := en\<rparr> else r) (vms ?db1)
      = map (\<lambda>r. if v_id r \<in> set (i # ids) \<and> privacy_ok now en uid rs db (v_id r)
        then r\<lparr>v_privacy := en\<rparr> else r) (vms db)"
    by (auto simp: step set_privacy_flag_def table_update_def)
  have rest: "?db1\<lparr>vms := X\<rparr> = db\<lparr>vms := X\<rparr>" for X
    by (simp add: step set_privacy_flag_def update_vm_def)
  have "bulk (privacy_item now en uid rs) (i # ids) db
      = ((i, fst (privacy_item now en uid rs i db)) # fst (bulk (privacy_item now en uid rs) ids ?db1),
         snd (bulk (privacy_item now en uid rs) ids ?db1))"
    by (simp only: bulk.simps Let_def split_beta)
  then show ?case
    unfolding Cons.IH [OF wf] fst_conv snd_conv same ok rows rest by (simp only: list.map)
qed

text \<open>A bulk privacy request treats every machine as the single endpoint would on the
  database as it was: its answers are those of the single check, a flag changes exactly on the
  machines whose item is allowed, no other column changes, a missing machine answers exactly
  like a refused one, and repeating the request gives the same answers and changes nothing
  more.\<close>

theorem bulk_privacy_pointwise:
  assumes "vms_wf db"
  shows "fst (bulk_set_privacy now ids en uid rs db)
      = map (\<lambda>i. (i, fst (privacy_item now en uid rs i db))) (dedup ids) \<and>
    snd (bulk_set_privacy now ids en uid rs db)
      = db\<lparr>vms := map (\<lambda>r. if v_id r \<in> set ids \<and> privacy_ok now en uid rs db (v_id r)
                        then r\<lparr>v_privacy := en\<rparr> else r) (vms db)\<rparr> \<and>
    bulk_set_privacy now ids en uid rs (snd (bulk_set_privacy now ids en uid rs db))
      = bulk_set_privacy now ids en uid rs db \<and>
    (\<forall>i. find_by_id db i = None \<longrightarrow>
       fst (privacy_item now en uid rs i db) = Inl (err_forbidden msg_privacy_grant))"
proof -
  let ?db1 = "snd (bulk_set_privacy now ids en uid rs db)"
  note run = bulk_privacy_run [of _ now en uid rs "dedup ids", folded bulk_set_privacy_def]
  have db1: "?db1 = db\<lparr>vms := map (\<lambda>r. if v_id r \<in> set ids \<and> privacy_ok now en uid rs db (v_id r)
                        then r\<lparr>v_privacy := en\<rparr> else r) (vms db)\<rparr>"
    using run [OF assms] by (simp add: bulk_set_privacy_def)
  have inv: "vms_wf ?db1 \<and> (\<forall>j. fst (privacy_item now en uid rs j ?db1) = fst (privacy_item now en uid rs j db))"
    unfolding bulk_set_privacy_def
  proof (rule bulk_keeps [where P = "\<lambda>d. vms_wf d \<and>
      (\<forall>j. fst (privacy_item now en uid rs j d) = fst (privacy_item now en uid rs j db))"])
    fix x s
    assume "vms_wf s \<and> (\<forall>j. fst (privacy_item now en uid rs j s) = fst (privacy_item now en uid rs j db))"
    then show "vms_wf (snd (privacy_item now en uid rs x s)) \<and>
      (\<forall>j. fst (privacy_item now en uid rs j (snd (privacy_item now en uid rs x s)))
         = fst (privacy_item now en uid rs j db))"
      by (simp add: privacy_item_state vms_wf_fields privacy_verdict_stable)
  qed (use assms in simp)
  then have "privacy_ok now en uid rs ?db1 = privacy_ok now en uid rs db"
    by (simp add: privacy_ok_def fun_eq_iff)
  then have again: "bulk_set_privacy now ids en uid rs ?db1 = bulk_set_privacy now ids en uid rs db"
    using bulk_privacy_run [OF assms, of now en uid rs "dedup ids"]
      bulk_privacy_run [OF conjunct1 [OF inv], of now en uid rs "dedup ids"] inv db1
    by (auto simp: bulk_set_privacy_def)
  have "\<forall>i. find_by_id db i = None \<longrightarrow>
       fst (privacy_item now en uid rs i db) = Inl (err_forbidden msg_privacy_grant)"
    by (simp add: privacy_item_def throw_def)
  with again db1 bulk_privacy_run [OF assms, of now en uid rs "dedup ids"] show ?thesis
    by (simp add: bulk_set_privacy_def)
qed

lemma bulk_privacy_pointwise_witness:
  "fst (bulk_set_privacy 0 [v_id sample_vm] True ''00000000-0000-0000-0000-0000000000b1'' [''USER''] sample_vms)
     = [(v_id sample_vm, Inr True)]"
proof -
  have "fst (privacy_item 0 True ''00000000-0000-0000-0000-0000000000b1'' [''USER''] (v_id sample_vm) sample_vms)
    = Inr True"
    by code_simp
  then show ?thesis
    using bulk_privacy_pointwise [OF sample_vms_wf, of 0 "[v_id sample_vm]" True
        "''00000000-0000-0000-0000-0000000000b1''" "[''USER'']"]
    by (simp add: dedup_distinct)
qed

end
