(* ===== verification/Firewall.thy ===== *)
theory Firewall
  imports Vms_Props
begin

text \<open>
  Network isolation of a VM (\<open>packages/core/src/services/firewall.ts\<close>): the validators of
  addresses and ports, the rule builder, and the two operations that drive the guest
  firewall of Proxmox, together with \<open>services/start-on-boot.ts\<close> and the bulk operations of
  \<open>services/vms.ts\<close> that call them.

  Proxmox is outside the repository: its calls are a record of computations over an
  arbitrary state \<open>'w\<close> of the outside world, and may fail. What the code relies on, that a
  rule created at position 0 comes first in the chain and that positions are indices, is the
  hypothesis \<open>fw_laws\<close>.
\<close>

datatype fw_action = FwAccept | FwDrop | FwReject

datatype fw_dir = FwIn | FwOut

record fw_rule =
  fr_action :: fw_action
  fr_dir :: fw_dir
  fr_proto :: "string option"
  fr_dport :: "string option"
  fr_sport :: "string option"
  fr_source :: "string option"
  fr_dest :: "string option"
  fr_comment :: "string option"

definition PROXVM_RULE_COMMENT :: string where
  "PROXVM_RULE_COMMENT = ''proxvm-isolation''"

record isolation_options =
  io_allow_from :: "string option"
  io_inbound_ports :: "string list option"
  io_dns_to :: "string option"
  io_internet :: "bool option"
  io_extra :: "fw_rule list"

definition DEFAULT_INBOUND_PORTS :: "string list" where
  "DEFAULT_INBOUND_PORTS = [''22'', ''3389'', ''5900:5910'']"

definition PRIVATE_EGRESS_RANGES :: "string list" where
  "PRIVATE_EGRESS_RANGES =
     [''10.0.0.0/8'', ''172.16.0.0/12'', ''192.168.0.0/16'', ''169.254.0.0/16'', ''127.0.0.0/8'']"

subsection \<open>Validators\<close>

definition all_digits :: "string \<Rightarrow> bool" where
  "all_digits s \<longleftrightarrow> s \<noteq> [] \<and> list_all is_digit s"

definition port_range_ok :: "nat list \<Rightarrow> bool" where
  "port_range_ok ns \<longleftrightarrow> list_all (\<lambda>n. n \<le> 65535) ns \<and> (length ns = 2 \<longrightarrow> ns ! 0 \<le> ns ! 1)"

definition assert_port_spec :: "string \<Rightarrow> string \<Rightarrow> unit res" where
  "assert_port_spec spec field =
     (let syntax = err_validation (field @ '' must be ports like 22, ranges like 5900:5910, comma-separated'');
          ranges = map (split_on CHR '':'') (split_on CHR '','' spec)
      in if spec = [] \<or> \<not> list_all (\<lambda>c. is_digit c \<or> c = CHR '','' \<or> c = CHR '':'') spec \<or> length spec > 64
         then Inl syntax
         else foldl (\<lambda>r range. rbind r (\<lambda>_.
            if length range > 2 \<or> \<not> list_all all_digits range then Inl syntax
            else if \<not> port_range_ok (map digits_val range)
            then Inl (err_validation (field @ '' ports must be 0-65535 with range start <= end''))
            else Inr ())) (Inr ()) ranges)"

definition PROXMOX_FIREWALL_KEYWORDS :: "string list" where
  "PROXMOX_FIREWALL_KEYWORDS = [''any'', ''all'', ''$allowlist'', ''$allow_list'']"

definition is_octet_text :: "string \<Rightarrow> bool" where
  "is_octet_text s \<longleftrightarrow> all_digits s \<and> length s \<le> 3"

definition is_prefix_text :: "string \<Rightarrow> bool" where
  "is_prefix_text s \<longleftrightarrow> all_digits s \<and>
     (length s = 1 \<or> length s = 2 \<and> 10 \<le> digits_val s \<and> digits_val s \<le> 32)"

text \<open>The IPv4 pattern: the octet texts and the optional prefix text, when the value matches.\<close>

definition match_ipv4 :: "string \<Rightarrow> (string list \<times> string option) option" where
  "match_ipv4 v = (case split_on CHR ''/'' v of
       [a] \<Rightarrow> (let os = split_on CHR ''.'' a in
               if length os = 4 \<and> list_all is_octet_text os then Some (os, None) else None)
     | [a, p] \<Rightarrow> (let os = split_on CHR ''.'' a in
               if length os = 4 \<and> list_all is_octet_text os \<and> is_prefix_text p then Some (os, Some p) else None)
     | _ \<Rightarrow> None)"

definition is_alnum :: "char \<Rightarrow> bool" where
  "is_alnum c \<longleftrightarrow> is_digit c \<or> (97 \<le> (of_char c :: nat) \<and> (of_char c :: nat) \<le> 122)
     \<or> (65 \<le> (of_char c :: nat) \<and> (of_char c :: nat) \<le> 90)"

definition is_label :: "string \<Rightarrow> bool" where
  "is_label s \<longleftrightarrow> s \<noteq> [] \<and> length s \<le> 63 \<and> is_alnum (hd s) \<and> is_alnum (last s)
     \<and> list_all (\<lambda>c. is_alnum c \<or> c = CHR ''-'') s"

definition drop_final_dot :: "string \<Rightarrow> string" where
  "drop_final_dot s = (if s \<noteq> [] \<and> last s = CHR ''.'' then butlast s else s)"

definition is_hostname :: "string \<Rightarrow> bool" where
  "is_hostname s \<longleftrightarrow> 1 \<le> length s \<and> length s \<le> 253 \<and> list_all is_label (split_on CHR ''.'' (drop_final_dot s))"

definition assert_address :: "string \<Rightarrow> string \<Rightarrow> unit res" where
  "assert_address value field = (case match_ipv4 value of
       Some (os, p) \<Rightarrow>
         (if list_ex (\<lambda>x. digits_val x > 255) os then Inl (err_validation (field @ '' has an octet above 255''))
          else if (case p of None \<Rightarrow> False | Some q \<Rightarrow> digits_val q = 0)
          then Inl (err_validation (field @ '' must not be a 0.0.0.0/0 network (it would allow every source)''))
          else Inr ())
     | None \<Rightarrow>
         (if \<not> is_hostname value
          then Inl (err_validation (field @ '' must be an IPv4 address, CIDR, or hostname (e.g. 192.168.1.22, 10.0.0.0/24, or guac.example.com)''))
          else if to_lower (trim value) \<in> set PROXMOX_FIREWALL_KEYWORDS
          then Inl (err_validation (field @ '' must not be the Proxmox keyword \"'' @ value @ ''\" (it would allow every source)''))
          else Inr ()))"

subsection \<open>The rule builder\<close>

definition stamp :: "string \<Rightarrow> string option" where
  "stamp s = Some (PROXVM_RULE_COMMENT @ '': '' @ s)"

definition plain_rule :: "fw_action \<Rightarrow> fw_dir \<Rightarrow> string option \<Rightarrow> string option \<Rightarrow> string option
    \<Rightarrow> string option \<Rightarrow> string option \<Rightarrow> fw_rule" where
  "plain_rule a d proto dport source dest comment =
     \<lparr>fr_action = a, fr_dir = d, fr_proto = proto, fr_dport = dport, fr_sport = None,
      fr_source = source, fr_dest = dest, fr_comment = comment\<rparr>"

definition inbound_rules :: "isolation_options \<Rightarrow> fw_rule list" where
  "inbound_rules opts =
     (let ports = (case io_inbound_ports opts of
            None \<Rightarrow> DEFAULT_INBOUND_PORTS
          | Some ps \<Rightarrow> if length ps > 0 then ps else DEFAULT_INBOUND_PORTS)
      in if truthy (io_allow_from opts)
         then map (\<lambda>p. plain_rule FwAccept FwIn (Some ''tcp'') (Some p) (io_allow_from opts) None
                    (stamp (''remote access from '' @ the (io_allow_from opts)))) ports
         else [])"

definition dns_rules :: "isolation_options \<Rightarrow> fw_rule list" where
  "dns_rules opts =
     (if truthy (io_dns_to opts)
      then map (\<lambda>proto. plain_rule FwAccept FwOut (Some proto) (Some ''53'') None (io_dns_to opts)
                  (stamp (''dns to '' @ the (io_dns_to opts)))) [''udp'', ''tcp'']
      else [])"

definition internet_rules :: "isolation_options \<Rightarrow> fw_rule list" where
  "internet_rules opts =
     (if io_internet opts \<noteq> Some False
      then [plain_rule FwAccept FwOut (Some ''udp'') (Some ''67'') None None (stamp ''dhcp client''),
            plain_rule FwAccept FwIn (Some ''udp'') (Some ''68'') None None (stamp ''dhcp replies'')]
         @ map (\<lambda>d. plain_rule FwDrop FwOut None None None (Some d) (stamp (''no local network '' @ d)))
             PRIVATE_EGRESS_RANGES
         @ [plain_rule FwAccept FwOut None None None None (stamp ''internet (non-local)'')]
      else [])"

definition extra_rule :: "fw_rule \<Rightarrow> fw_rule" where
  "extra_rule r = r\<lparr>fr_comment := Some (case fr_comment r of None \<Rightarrow> PROXVM_RULE_COMMENT | Some c \<Rightarrow> c)\<rparr>"

definition build_isolation_rules :: "isolation_options \<Rightarrow> fw_rule list res" where
  "build_isolation_rules opts =
     rbind (if truthy (io_allow_from opts) then assert_address (the (io_allow_from opts)) ''allowFrom'' else Inr ()) (\<lambda>_.
     rbind (if truthy (io_dns_to opts) then assert_address (the (io_dns_to opts)) ''allowDnsTo'' else Inr ()) (\<lambda>_.
     rbind (foldl (\<lambda>r p. rbind r (\<lambda>_. assert_port_spec p ''inboundPorts'')) (Inr ())
             (case io_inbound_ports opts of None \<Rightarrow> [] | Some ps \<Rightarrow> ps)) (\<lambda>_.
     Inr (inbound_rules opts @ dns_rules opts @ internet_rules opts @ map extra_rule (io_extra opts)))))"

text \<open>A rule as Proxmox lists it is an untyped object.\<close>

definition is_proxvm_rule :: "json \<Rightarrow> bool" where
  "is_proxvm_rule r = (case json_field r ''comment'' of JStr c \<Rightarrow> starts_with c PROXVM_RULE_COMMENT | _ \<Rightarrow> False)"

definition nonempty_str :: "json \<Rightarrow> string option" where
  "nonempty_str v = (case v of JStr s \<Rightarrow> if s \<noteq> [] then Some s else None | _ \<Rightarrow> None)"

definition checked_field :: "(string \<Rightarrow> string \<Rightarrow> unit res) \<Rightarrow> json \<Rightarrow> string \<Rightarrow> string option res" where
  "checked_field check b field = (case nonempty_str (json_field b field) of
       None \<Rightarrow> Inr None
     | Some s \<Rightarrow> rbind (check s field) (\<lambda>_. Inr (Some s)))"

definition assert_firewall_rule_input :: "json \<Rightarrow> fw_rule res" where
  "assert_firewall_rule_input b =
     (if b = JNull \<or> b = JUndefined then Inl (AppError INTERNAL_ERROR ''Cannot read properties of null'' 500) else
      rbind (case json_field b ''action'' of
          JStr a \<Rightarrow> (if a = ''ACCEPT'' then Inr FwAccept else if a = ''DROP'' then Inr FwDrop
                     else if a = ''REJECT'' then Inr FwReject
                     else Inl (err_validation ''action must be ACCEPT, DROP, or REJECT''))
        | _ \<Rightarrow> Inl (err_validation ''action must be ACCEPT, DROP, or REJECT'')) (\<lambda>action.
      rbind (case json_field b ''type'' of
          JStr t \<Rightarrow> (if t = ''in'' then Inr FwIn else if t = ''out'' then Inr FwOut
                     else Inl (err_validation ''type must be in or out''))
        | _ \<Rightarrow> Inl (err_validation ''type must be in or out'')) (\<lambda>dir.
      rbind (case json_field b ''proto'' of
          JUndefined \<Rightarrow> Inr None
        | JStr p \<Rightarrow> (if p = ''tcp'' \<or> p = ''udp'' \<or> p = ''icmp'' then Inr (Some p)
                     else Inl (err_validation ''proto must be tcp, udp, or icmp''))
        | _ \<Rightarrow> Inl (err_validation ''proto must be tcp, udp, or icmp'')) (\<lambda>proto.
      rbind (checked_field assert_port_spec b ''dport'') (\<lambda>dport.
      rbind (checked_field assert_port_spec b ''sport'') (\<lambda>sport.
      rbind (checked_field assert_address b ''source'') (\<lambda>source.
      rbind (checked_field assert_address b ''dest'') (\<lambda>dest.
      Inr \<lparr>fr_action = action, fr_dir = dir, fr_proto = proto, fr_dport = dport, fr_sport = sport,
           fr_source = source, fr_dest = dest,
           fr_comment = (case json_field b ''comment'' of
               JStr c \<Rightarrow> (if trim c \<noteq> [] then Some (PROXVM_RULE_COMMENT @ '': '' @ take 80 (trim c))
                          else Some PROXVM_RULE_COMMENT)
             | _ \<Rightarrow> Some PROXVM_RULE_COMMENT)\<rparr>))))))))"

subsection \<open>Driving the guest firewall\<close>

record fw_options =
  fo_enable :: "bool option"
  fo_policy_in :: "string option"
  fo_policy_out :: "string option"

text \<open>The client's calls, on a guest given by node and VMID.\<close>

record 'w px_firewall =
  px_cluster_fw :: "('w, json) comp"
  px_rules :: "string \<Rightarrow> int \<Rightarrow> ('w, json list) comp"
  px_set_fw :: "string \<Rightarrow> int \<Rightarrow> fw_options \<Rightarrow> ('w, unit) comp"
  px_create_rule :: "string \<Rightarrow> int \<Rightarrow> fw_rule \<Rightarrow> nat \<Rightarrow> ('w, unit) comp"
  px_delete_rule :: "string \<Rightarrow> int \<Rightarrow> int \<Rightarrow> ('w, unit) comp"
  px_set_onboot :: "string \<Rightarrow> int \<Rightarrow> bool \<Rightarrow> ('w, unit) comp"

text \<open>The database and the outside world; a remote call changes only the latter.\<close>

record 'w host =
  hdb :: vm_db
  world :: 'w

definition remote :: "('w, 'a) comp \<Rightarrow> ('w host, 'a) comp" where
  "remote m h = (case m (world h) of (r, w) \<Rightarrow> (r, h\<lparr>world := w\<rparr>))"

definition on_db :: "(vm_db \<Rightarrow> vm_db) \<Rightarrow> ('w host, unit) comp" where
  "on_db f h = (Inr (), h\<lparr>hdb := f (hdb h)\<rparr>)"

definition cluster_firewall_enabled :: "'w px_firewall \<Rightarrow> ('w, bool) comp" where
  "cluster_firewall_enabled px =
     bind (px_cluster_fw px) (\<lambda>opts. let e = json_field opts ''enable''
       in ret (e = JNum 1 \<or> e = JStr ''1'' \<or> e = JBool True))"

text \<open>The positions of our own rules, highest first.\<close>

definition own_positions :: "json list \<Rightarrow> int list" where
  "own_positions rules =
     rev (sort (List.map_filter (\<lambda>r. case json_number (json_field r ''pos'') of
          JNum n \<Rightarrow> (if n \<ge> 0 then Some n else None) | _ \<Rightarrow> None)
        (filter is_proxvm_rule rules)))"

definition delete_own_rules :: "'w px_firewall \<Rightarrow> string \<Rightarrow> int \<Rightarrow> ('w, nat) comp" where
  "delete_own_rules px node vmid =
     bind (px_rules px node vmid) (\<lambda>existing.
     bind (for_each (own_positions existing) (px_delete_rule px node vmid)) (\<lambda>_.
     ret (length (own_positions existing))))"

definition set_isolated :: "string \<Rightarrow> bool \<Rightarrow> vm_db \<Rightarrow> vm_db" where
  "set_isolated i b = update_vm i (\<lambda>r. r\<lparr>v_isolated := b\<rparr>)"

definition msg_cluster_off :: string where
  "msg_cluster_off = ''Proxmox cluster firewall is disabled, so guest rules would be silently ignored. Enable it once (Datacenter - Firewall - Options) and retry - ProxVM will not touch datacenter config itself.''"

definition apply_isolation ::
  "'w px_firewall \<Rightarrow> string \<Rightarrow> string \<Rightarrow> int \<Rightarrow> isolation_options \<Rightarrow> ('w host, nat) comp" where
  "apply_isolation px i node vmid opts =
     bind (remote (cluster_firewall_enabled px)) (\<lambda>on.
     if \<not> on then throw (err_validation msg_cluster_off) else
     bind (lift_res (build_isolation_rules opts)) (\<lambda>rules.
     bind (remote (px_set_fw px node vmid \<lparr>fo_enable = Some True, fo_policy_in = None, fo_policy_out = None\<rparr>)) (\<lambda>_.
     bind (remote (delete_own_rules px node vmid)) (\<lambda>_.
     bind (remote (for_each (rev rules) (\<lambda>r. px_create_rule px node vmid r 0))) (\<lambda>_.
     bind (remote (px_set_fw px node vmid
        \<lparr>fo_enable = Some True, fo_policy_in = Some ''DROP'', fo_policy_out = Some ''DROP''\<rparr>)) (\<lambda>_.
     bind (on_db (set_isolated i True)) (\<lambda>_.
     ret (length rules))))))))"

definition remove_isolation ::
  "'w px_firewall \<Rightarrow> string \<Rightarrow> string \<Rightarrow> int \<Rightarrow> ('w host, nat) comp" where
  "remove_isolation px i node vmid =
     bind (remote (px_set_fw px node vmid
        \<lparr>fo_enable = None, fo_policy_in = Some ''ACCEPT'', fo_policy_out = Some ''ACCEPT''\<rparr>)) (\<lambda>_.
     bind (remote (delete_own_rules px node vmid)) (\<lambda>n.
     bind (on_db (set_isolated i False)) (\<lambda>_.
     ret n)))"

definition apply_start_on_boot :: "'w px_firewall \<Rightarrow> vm_row \<Rightarrow> bool \<Rightarrow> ('w host, unit) comp" where
  "apply_start_on_boot px vm enabled =
     bind (remote (px_set_onboot px (v_node vm) (v_vmid vm) enabled)) (\<lambda>_.
     on_db (set_start_on_boot (v_id vm) enabled))"

text \<open>The bulk operations; \<open>allowInternet\<close> defaults to true here.\<close>

definition isolation_item ::
  "'w px_firewall \<Rightarrow> bool \<Rightarrow> isolation_options option \<Rightarrow> string \<Rightarrow> ('w host, nat) comp" where
  "isolation_item px enabled opts i h =
     (case require_by_id (hdb h) i of
        Inl e \<Rightarrow> throw e h
      | Inr vm \<Rightarrow>
         (if enabled then
            apply_isolation px (v_id vm) (v_node vm) (v_vmid vm)
              \<lparr>io_allow_from = (case opts of None \<Rightarrow> None | Some x \<Rightarrow> io_allow_from x),
               io_inbound_ports = None,
               io_dns_to = (case opts of None \<Rightarrow> None | Some x \<Rightarrow> io_dns_to x),
               io_internet = Some (case opts of None \<Rightarrow> True
                   | Some x \<Rightarrow> (case io_internet x of None \<Rightarrow> True | Some b \<Rightarrow> b)),
               io_extra = []\<rparr> h
          else remove_isolation px (v_id vm) (v_node vm) (v_vmid vm) h))"

definition bulk_set_isolation ::
  "'w px_firewall \<Rightarrow> string list \<Rightarrow> bool \<Rightarrow> isolation_options option \<Rightarrow> 'w host
   \<Rightarrow> (string \<times> nat res) list \<times> 'w host" where
  "bulk_set_isolation px ids enabled opts = bulk (isolation_item px enabled opts) (dedup ids)"

definition start_on_boot_item :: "'w px_firewall \<Rightarrow> bool \<Rightarrow> string \<Rightarrow> ('w host, unit) comp" where
  "start_on_boot_item px enabled i h =
     (case require_by_id (hdb h) i of
        Inl e \<Rightarrow> throw e h
      | Inr vm \<Rightarrow> apply_start_on_boot px vm enabled h)"

definition bulk_set_start_on_boot ::
  "'w px_firewall \<Rightarrow> string list \<Rightarrow> bool \<Rightarrow> 'w host \<Rightarrow> (string \<times> unit res) list \<times> 'w host" where
  "bulk_set_start_on_boot px ids enabled = bulk (start_on_boot_item px enabled) (dedup ids)"

subsection \<open>What the code relies on\<close>

text \<open>
  A guest firewall seen from outside: its chain of rules and its policies. A rule created at
  position 0 comes first; deleting a position removes that index; a listed rule carries its
  index and its comment; setting options changes only the fields that are given. A call
  that fails changes nothing, and no call on a chain touches the policies or conversely.
\<close>

type_synonym fw_view = "fw_rule list \<times> string \<times> string"

definition view_json :: "fw_rule list \<Rightarrow> json list \<Rightarrow> bool" where
  "view_json chain js \<longleftrightarrow> length js = length chain \<and>
     (\<forall>k < length chain. json_field (js ! k) ''pos'' = JNum (int k) \<and>
        json_field (js ! k) ''comment'' = (case fr_comment (chain ! k) of None \<Rightarrow> JUndefined | Some c \<Rightarrow> JStr c))"

definition new_policy :: "string option \<Rightarrow> string \<Rightarrow> string" where
  "new_policy x old = (case x of None \<Rightarrow> old | Some p \<Rightarrow> p)"

definition fw_laws :: "'w px_firewall \<Rightarrow> string \<Rightarrow> int \<Rightarrow> ('w \<Rightarrow> fw_view) \<Rightarrow> bool" where
  "fw_laws px node vmid view \<longleftrightarrow>
     (\<forall>w r w'. px_cluster_fw px w = (r, w') \<longrightarrow> view w' = view w) \<and>
     (\<forall>w r w'. px_rules px node vmid w = (r, w') \<longrightarrow> view w' = view w \<and>
        (\<forall>js. r = Inr js \<longrightarrow> view_json (fst (view w)) js)) \<and>
     (\<forall>w r w' o'. px_set_fw px node vmid o' w = (r, w') \<longrightarrow>
        view w' = (if is_ok r then (fst (view w), new_policy (fo_policy_in o') (fst (snd (view w))),
                                    new_policy (fo_policy_out o') (snd (snd (view w))))
                   else view w)) \<and>
     (\<forall>w r w' x. px_create_rule px node vmid x 0 w = (r, w') \<longrightarrow>
        view w' = (if is_ok r then (x # fst (view w), snd (view w)) else view w)) \<and>
     (\<forall>w r w' k. k < length (fst (view w)) \<longrightarrow> px_delete_rule px node vmid (int k) w = (r, w') \<longrightarrow>
        view w' = (if is_ok r then (take k (fst (view w)) @ drop (Suc k) (fst (view w)), snd (view w))
                   else view w))"

definition own_rule :: "fw_rule \<Rightarrow> bool" where
  "own_rule r \<longleftrightarrow> (case fr_comment r of None \<Rightarrow> False | Some c \<Rightarrow> starts_with c PROXVM_RULE_COMMENT)"

end
