(* ===== verification/Firewall_Props.thy ===== *)
theory Firewall_Props
  imports Firewall
begin

text \<open>
  Properties of network isolation: what the built chain lets through, what the two
  operations leave behind when they succeed and when a call fails in the middle, and that
  the database never claims more than Proxmox was told.
\<close>

lemma remote_iff: "remote m h = (r, h') \<longleftrightarrow> (\<exists>w. m (world h) = (r, w) \<and> h' = h\<lparr>world := w\<rparr>)"
  by (auto simp: remote_def split: prod.splits)

lemma bind_cases:
  assumes "bind m f s = (r, s')"
  obtains (fail) e where "m s = (Inl e, s')" "r = Inl e"
    | (ok) x t where "m s = (Inr x, t)" "f x t = (r, s')"
  using assms by (auto simp: bind_def split: prod.splits sum.splits)

subsection \<open>What the chain lets through\<close>

text \<open>
  First match wins. How Proxmox matches an address or a port text is a parameter: only the
  order of the rules and their fields are used.
\<close>

record 'a packet =
  pk_dir :: fw_dir
  pk_proto :: string
  pk_sport :: nat
  pk_dport :: nat
  pk_src :: 'a
  pk_dst :: 'a

definition opt_holds :: "('x \<Rightarrow> bool) \<Rightarrow> 'x option \<Rightarrow> bool" where
  "opt_holds P x \<longleftrightarrow> (case x of None \<Rightarrow> True | Some y \<Rightarrow> P y)"

lemma opt_holds_simps [simp]: "opt_holds P None" "opt_holds P (Some y) = P y"
  by (simp_all add: opt_holds_def)

definition rule_matches ::
  "(string \<Rightarrow> 'a \<Rightarrow> bool) \<Rightarrow> (string \<Rightarrow> nat \<Rightarrow> bool) \<Rightarrow> fw_rule \<Rightarrow> 'a packet \<Rightarrow> bool" where
  "rule_matches am pm r p \<longleftrightarrow> fr_dir r = pk_dir p
     \<and> opt_holds (\<lambda>x. pk_proto p = x) (fr_proto r)
     \<and> opt_holds (\<lambda>x. pm x (pk_dport p)) (fr_dport r) \<and> opt_holds (\<lambda>x. pm x (pk_sport p)) (fr_sport r)
     \<and> opt_holds (\<lambda>x. am x (pk_src p)) (fr_source r) \<and> opt_holds (\<lambda>x. am x (pk_dst p)) (fr_dest r)"

definition verdict ::
  "(string \<Rightarrow> 'a \<Rightarrow> bool) \<Rightarrow> (string \<Rightarrow> nat \<Rightarrow> bool) \<Rightarrow> fw_action \<Rightarrow> fw_rule list \<Rightarrow> 'a packet \<Rightarrow> fw_action" where
  "verdict am pm policy rules p =
     (case find (\<lambda>r. rule_matches am pm r p) rules of None \<Rightarrow> policy | Some r \<Rightarrow> fr_action r)"

lemma find_append: "find P (xs @ ys) = (case find P xs of None \<Rightarrow> find P ys | Some x \<Rightarrow> Some x)"
  by (induction xs) auto

lemma verdict_append_accepts:
  assumes "\<And>r. r \<in> set xs \<Longrightarrow> fr_action r = FwAccept"
  shows "verdict am pm d (xs @ ys) p = FwAccept
    \<longleftrightarrow> (\<exists>r \<in> set xs. rule_matches am pm r p) \<or> verdict am pm d ys p = FwAccept"
  using assms by (induction xs) (auto simp: verdict_def)

lemma verdict_append_drops:
  assumes "\<And>r. r \<in> set xs \<Longrightarrow> fr_action r = FwDrop"
  shows "verdict am pm d (xs @ ys) p = FwAccept
    \<longleftrightarrow> (\<forall>r \<in> set xs. \<not> rule_matches am pm r p) \<and> verdict am pm d ys p = FwAccept"
  using assms by (induction xs) (auto simp: verdict_def)

definition inbound_ports :: "isolation_options \<Rightarrow> string list" where
  "inbound_ports opts = (case io_inbound_ports opts of
       None \<Rightarrow> DEFAULT_INBOUND_PORTS | Some ps \<Rightarrow> if ps = [] then DEFAULT_INBOUND_PORTS else ps)"

definition internet_on :: "isolation_options \<Rightarrow> bool" where
  "internet_on opts \<longleftrightarrow> io_internet opts \<noteq> Some False"

lemma inbound_rules_alt:
  "inbound_rules opts = (if truthy (io_allow_from opts)
     then map (\<lambda>p. plain_rule FwAccept FwIn (Some ''tcp'') (Some p) (io_allow_from opts) None
                (stamp (''remote access from '' @ the (io_allow_from opts)))) (inbound_ports opts) else [])"
  by (simp add: inbound_rules_def inbound_ports_def Let_def split: option.split)

lemma inbound_match:
  "(\<exists>r \<in> set (inbound_rules opts). rule_matches am pm r p) \<longleftrightarrow>
    truthy (io_allow_from opts) \<and> pk_dir p = FwIn \<and> pk_proto p = ''tcp'' \<and>
    am (the (io_allow_from opts)) (pk_src p) \<and> (\<exists>q \<in> set (inbound_ports opts). pm q (pk_dport p))"
  by (cases "io_allow_from opts")
    (auto simp: inbound_rules_alt truthy_def rule_matches_def plain_rule_def)

lemma dns_match:
  "(\<exists>r \<in> set (dns_rules opts). rule_matches am pm r p) \<longleftrightarrow>
    truthy (io_dns_to opts) \<and> pk_dir p = FwOut \<and> pk_proto p \<in> {''udp'', ''tcp''} \<and>
    pm ''53'' (pk_dport p) \<and> am (the (io_dns_to opts)) (pk_dst p)"
proof (cases "io_dns_to opts")
  case (Some a)
  show ?thesis
  proof (cases "a = []")
    case False
    with Some show ?thesis
      by (simp add: dns_rules_def truthy_def rule_matches_def plain_rule_def eq_commute [of _ "pk_dir p"]) blast
  qed (use Some in \<open>simp add: dns_rules_def truthy_def\<close>)
qed (simp add: dns_rules_def truthy_def)

lemma internet_verdict:
  "verdict am pm FwDrop (internet_rules opts) p = FwAccept \<longleftrightarrow> internet_on opts \<and>
    (if pk_dir p = FwIn then pk_proto p = ''udp'' \<and> pm ''68'' (pk_dport p)
     else pk_proto p = ''udp'' \<and> pm ''67'' (pk_dport p)
        \<or> (\<forall>r \<in> set PRIVATE_EGRESS_RANGES. \<not> am r (pk_dst p)))"
proof (cases "internet_on opts")
  case False
  then show ?thesis by (simp add: internet_rules_def internet_on_def verdict_def)
next
  case True
  let ?a = "[plain_rule FwAccept FwOut (Some ''udp'') (Some ''67'') None None (stamp ''dhcp client''),
             plain_rule FwAccept FwIn (Some ''udp'') (Some ''68'') None None (stamp ''dhcp replies'')]"
  let ?d = "map (\<lambda>d. plain_rule FwDrop FwOut None None None (Some d) (stamp (''no local network '' @ d)))
             PRIVATE_EGRESS_RANGES"
  let ?l = "[plain_rule FwAccept FwOut None None None None (stamp ''internet (non-local)'')]"
  have "internet_rules opts = ?a @ ?d @ ?l"
    using True by (simp only: internet_rules_def internet_on_def if_True simp_thms)
  moreover have "verdict am pm FwDrop (?a @ ?d @ ?l) p = FwAccept \<longleftrightarrow>
     (\<exists>r \<in> set ?a. rule_matches am pm r p) \<or>
     (\<forall>r \<in> set ?d. \<not> rule_matches am pm r p) \<and> verdict am pm FwDrop ?l p = FwAccept"
    by (subst verdict_append_accepts, force simp: plain_rule_def)
      (subst verdict_append_drops, force simp: plain_rule_def, rule refl)
  ultimately show ?thesis
    using True by (cases "pk_dir p") (auto simp: rule_matches_def plain_rule_def verdict_def)
qed

lemma build_Inr:
  "build_isolation_rules opts = Inr rules \<Longrightarrow>
    rules = inbound_rules opts @ dns_rules opts @ internet_rules opts @ map extra_rule (io_extra opts) \<and>
    (truthy (io_allow_from opts) \<longrightarrow> is_ok (assert_address (the (io_allow_from opts)) ''allowFrom''))"
  by (auto simp: build_isolation_rules_def rbind_Inr_iff split: if_splits)

lemma set_split_on: "x \<in> set (split_acc c acc s) \<Longrightarrow> set x \<subseteq> set acc \<union> set s"
  by (induction c acc s rule: split_acc.induct) (fastforce split: if_splits)+

lemma split_on_none: "c \<notin> set s \<Longrightarrow> split_acc c acc s = [acc @ s]"
  by (induction c acc s rule: split_acc.induct) auto

lemma match_ipv4_dot:
  assumes "match_ipv4 v = Some m"
  shows "CHR ''.'' \<in> set v"
proof -
  obtain a where a: "a \<in> set (split_on CHR ''/'' v)" "length (split_on CHR ''.'' a) = 4"
    using assms by (auto simp: match_ipv4_def Let_def split: list.splits if_splits)
  then have "CHR ''.'' \<in> set a"
    using split_on_none [of "CHR ''.''" a "[]"] by (cases "CHR ''.'' \<in> set a") (auto simp: split_on_def)
  with a(1) show ?thesis
    using set_split_on [of a "CHR ''/''" "[]" v] by (auto simp: split_on_def)
qed

lemma dot_survives: "CHR ''.'' \<in> set v \<Longrightarrow> CHR ''.'' \<in> set (to_lower (trim v))"
proof -
  have drop: "CHR ''.'' \<in> set s \<Longrightarrow> CHR ''.'' \<in> set (dropWhile is_space s)" for s
    by (induction s) (auto simp: is_space_def)
  assume "CHR ''.'' \<in> set v"
  then have "CHR ''.'' \<in> set (trim v)"
    unfolding trim_def set_rev using drop by simp
  then show ?thesis by (force simp: to_lower_def image_iff)
qed

lemma address_no_keyword:
  assumes "to_lower (trim v) \<in> set PROXMOX_FIREWALL_KEYWORDS"
  shows "\<not> is_ok (assert_address v f)"
proof -
  have "match_ipv4 v = None"
    using assms dot_survives [of v] match_ipv4_dot [of v]
    by (cases "match_ipv4 v") (auto simp: PROXMOX_FIREWALL_KEYWORDS_def)
  then show ?thesis using assms by (simp add: assert_address_def)
qed

text \<open>C6. A built chain without extra rules, under the deny-by-default policy it is installed
  with, accepts exactly: inbound TCP to the remote-access ports from the allowed source and
  DHCP replies; outbound DNS to the given resolver, DHCP requests, and, unless the internet is
  switched off, every destination outside the private ranges. The allowed source is never one
  of the keywords that Proxmox reads as every address.\<close>

theorem isolation_verdict:
  assumes "build_isolation_rules opts = Inr rules" and "io_extra opts = []"
  shows "(verdict am pm FwDrop rules p = FwAccept \<longleftrightarrow>
     (if pk_dir p = FwIn then
        truthy (io_allow_from opts) \<and> pk_proto p = ''tcp'' \<and> am (the (io_allow_from opts)) (pk_src p)
          \<and> (\<exists>q \<in> set (inbound_ports opts). pm q (pk_dport p))
        \<or> internet_on opts \<and> pk_proto p = ''udp'' \<and> pm ''68'' (pk_dport p)
      else
        truthy (io_dns_to opts) \<and> pk_proto p \<in> {''udp'', ''tcp''} \<and> pm ''53'' (pk_dport p)
          \<and> am (the (io_dns_to opts)) (pk_dst p)
        \<or> internet_on opts \<and> (pk_proto p = ''udp'' \<and> pm ''67'' (pk_dport p)
            \<or> (\<forall>r \<in> set PRIVATE_EGRESS_RANGES. \<not> am r (pk_dst p))))) \<and>
    (truthy (io_allow_from opts) \<longrightarrow>
       to_lower (trim (the (io_allow_from opts))) \<notin> set PROXMOX_FIREWALL_KEYWORDS)"
proof
  have acc: "\<And>r. r \<in> set (inbound_rules opts) \<Longrightarrow> fr_action r = FwAccept"
    "\<And>r. r \<in> set (dns_rules opts) \<Longrightarrow> fr_action r = FwAccept"
    by (auto simp: inbound_rules_alt dns_rules_def plain_rule_def split: if_splits)
  have "rules = inbound_rules opts @ dns_rules opts @ internet_rules opts"
    using build_Inr [OF assms(1)] assms(2) by simp
  then have "verdict am pm FwDrop rules p = FwAccept \<longleftrightarrow>
      (\<exists>r \<in> set (inbound_rules opts). rule_matches am pm r p) \<or>
      (\<exists>r \<in> set (dns_rules opts). rule_matches am pm r p) \<or>
      verdict am pm FwDrop (internet_rules opts) p = FwAccept"
    by (simp add: verdict_append_accepts acc)
  then show "verdict am pm FwDrop rules p = FwAccept \<longleftrightarrow>
     (if pk_dir p = FwIn then
        truthy (io_allow_from opts) \<and> pk_proto p = ''tcp'' \<and> am (the (io_allow_from opts)) (pk_src p)
          \<and> (\<exists>q \<in> set (inbound_ports opts). pm q (pk_dport p))
        \<or> internet_on opts \<and> pk_proto p = ''udp'' \<and> pm ''68'' (pk_dport p)
      else
        truthy (io_dns_to opts) \<and> pk_proto p \<in> {''udp'', ''tcp''} \<and> pm ''53'' (pk_dport p)
          \<and> am (the (io_dns_to opts)) (pk_dst p)
        \<or> internet_on opts \<and> (pk_proto p = ''udp'' \<and> pm ''67'' (pk_dport p)
            \<or> (\<forall>r \<in> set PRIVATE_EGRESS_RANGES. \<not> am r (pk_dst p))))"
    unfolding inbound_match dns_match internet_verdict by (cases "pk_dir p") simp_all
  show "truthy (io_allow_from opts) \<longrightarrow>
       to_lower (trim (the (io_allow_from opts))) \<notin> set PROXMOX_FIREWALL_KEYWORDS"
    using build_Inr [OF assms(1)] address_no_keyword by blast
qed

definition sample_opts :: isolation_options where
  "sample_opts = \<lparr>io_allow_from = Some ''10.0.0.2'', io_inbound_ports = None, io_dns_to = None,
     io_internet = None, io_extra = []\<rparr>"

lemma sample_build: "\<exists>rules. build_isolation_rules sample_opts = Inr rules"
proof -
  have "is_ok (build_isolation_rules sample_opts)" by code_simp
  then show ?thesis by (simp add: is_ok_iff)
qed

lemma isolation_verdict_witness:
  "\<exists>rules. build_isolation_rules sample_opts = Inr rules \<and>
     verdict (\<lambda>a b. a = b) (\<lambda>s n. s = nat_str n) FwDrop rules
       \<lparr>pk_dir = FwIn, pk_proto = ''tcp'', pk_sport = 4000, pk_dport = 22, pk_src = ''10.0.0.9'', pk_dst = ''g''\<rparr>
     \<noteq> FwAccept"
proof -
  obtain rules where r: "build_isolation_rules sample_opts = Inr rules" using sample_build by blast
  have "io_extra sample_opts = []" by (simp add: sample_opts_def)
  from conjunct1 [OF isolation_verdict [OF r this, of "\<lambda>a b. a = b" "\<lambda>s n. s = nat_str n"
      "\<lparr>pk_dir = FwIn, pk_proto = ''tcp'', pk_sport = 4000, pk_dport = 22, pk_src = ''10.0.0.9'', pk_dst = ''g''\<rparr>"]]
  show ?thesis using r by (simp add: sample_opts_def)
qed

subsection \<open>Driving the guest firewall\<close>

lemma law_cluster: "fw_laws px node vmid view \<Longrightarrow> px_cluster_fw px w = (r, w') \<Longrightarrow> view w' = view w"
  unfolding fw_laws_def by blast

lemma law_rules:
  "fw_laws px node vmid view \<Longrightarrow> px_rules px node vmid w = (r, w') \<Longrightarrow>
    view w' = view w \<and> (\<forall>js. r = Inr js \<longrightarrow> view_json (fst (view w)) js)"
  unfolding fw_laws_def by blast

lemma law_set:
  "fw_laws px node vmid view \<Longrightarrow> px_set_fw px node vmid o' w = (r, w') \<Longrightarrow>
    view w' = (if is_ok r then (fst (view w), new_policy (fo_policy_in o') (fst (snd (view w))),
                                new_policy (fo_policy_out o') (snd (snd (view w)))) else view w)"
  unfolding fw_laws_def by blast

lemma law_create:
  "fw_laws px node vmid view \<Longrightarrow> px_create_rule px node vmid x 0 w = (r, w') \<Longrightarrow>
    view w' = (if is_ok r then (x # fst (view w), snd (view w)) else view w)"
  unfolding fw_laws_def by blast

lemma law_delete:
  "fw_laws px node vmid view \<Longrightarrow> k < length (fst (view w)) \<Longrightarrow>
    px_delete_rule px node vmid (int k) w = (r, w') \<Longrightarrow>
    view w' = (if is_ok r then (take k (fst (view w)) @ drop (Suc k) (fst (view w)), snd (view w)) else view w)"
  unfolding fw_laws_def by blast

definition own_indices :: "fw_rule list \<Rightarrow> nat list" where
  "own_indices chain = filter (\<lambda>k. own_rule (chain ! k)) [0..<length chain]"

lemma view_own:
  assumes "view_json chain js" and "k < length chain"
  shows "is_proxvm_rule (js ! k) = own_rule (chain ! k)"
  using assms by (auto simp: view_json_def is_proxvm_rule_def own_rule_def split: option.splits)

lemma own_positions_view:
  assumes v: "view_json chain js"
  shows "own_positions js = map int (rev (own_indices chain))"
proof -
  let ?pos = "\<lambda>r. case json_number (json_field r ''pos'') of
          JNum n \<Rightarrow> (if n \<ge> 0 then Some n else None) | _ \<Rightarrow> None"
  have js: "js = map (\<lambda>k. js ! k) [0..<length chain]"
    using v map_nth [of js] by (simp add: view_json_def)
  have "filter is_proxvm_rule js = map (\<lambda>k. js ! k) (own_indices chain)"
  proof -
    have "filter (\<lambda>k. is_proxvm_rule (js ! k)) [0..<length chain] = own_indices chain"
      unfolding own_indices_def by (rule filter_cong) (simp_all add: view_own [OF v])
    then show ?thesis by (subst js) (simp add: filter_map o_def)
  qed
  moreover have "List.map_filter ?pos (map (\<lambda>k. js ! k) ks) = map int ks" if "set ks \<subseteq> {..<length chain}" for ks
    using that v by (induction ks) (auto simp: view_json_def)
  moreover have "set (own_indices chain) \<subseteq> {..<length chain}"
    by (auto simp: own_indices_def)
  ultimately have "List.map_filter ?pos (filter is_proxvm_rule js) = map int (own_indices chain)"
    by simp
  moreover have "sorted (map int (own_indices chain))"
  proof -
    have "sorted (own_indices chain)" unfolding own_indices_def by (rule sorted_wrt_filter) simp
    then show ?thesis unfolding sorted_map by simp
  qed
  ultimately show ?thesis
    unfolding own_positions_def by (simp add: sorted_sort_id rev_map)
qed

lemma for_each_Cons_iff:
  "for_each (x # xs) f s = (r, s') \<longleftrightarrow>
    (\<exists>t. f x s = (Inr (), t) \<and> for_each xs f t = (r, s')) \<or> (\<exists>e. f x s = (Inl e, s') \<and> r = Inl e)"
  by (auto simp: bind_def split: prod.splits sum.splits)

lemma delete_descending:
  assumes laws: "fw_laws px node vmid view"
  shows "fst (view w) = xs @ ys \<Longrightarrow>
    for_each (map int (rev (own_indices xs))) (px_delete_rule px node vmid) w = (r, w') \<Longrightarrow>
    snd (view w') = snd (view w) \<and>
    (is_ok r \<longrightarrow> fst (view w') = filter (\<lambda>x. \<not> own_rule x) xs @ ys) \<and>
    filter (\<lambda>x. \<not> own_rule x) (fst (view w')) = filter (\<lambda>x. \<not> own_rule x) (xs @ ys)"
proof (induction xs arbitrary: ys w rule: rev_induct)
  case Nil
  then show ?case by (simp add: own_indices_def ret_def)
next
  case (snoc x xs)
  have idx: "own_indices (xs @ [x]) = own_indices xs @ (if own_rule x then [length xs] else [])"
    by (auto simp: own_indices_def nth_append intro!: filter_cong)
  show ?case
  proof (cases "own_rule x")
    case False
    then have run: "for_each (map int (rev (own_indices xs))) (px_delete_rule px node vmid) w = (r, w')"
      using snoc.prems(2) by (simp add: idx)
    show ?thesis using snoc.IH [of w "x # ys"] run snoc.prems(1) False by simp
  next
    case True
    have "for_each (int (length xs) # map int (rev (own_indices xs))) (px_delete_rule px node vmid) w = (r, w')"
      using snoc.prems(2) True by (simp add: idx)
    then consider (ok) t where "px_delete_rule px node vmid (int (length xs)) w = (Inr (), t)"
        "for_each (map int (rev (own_indices xs))) (px_delete_rule px node vmid) t = (r, w')"
      | (fail) e where "px_delete_rule px node vmid (int (length xs)) w = (Inl e, w')" "r = Inl e"
      unfolding for_each_Cons_iff by blast
    then show ?thesis
    proof cases
      case ok
      then have "view t = (xs @ ys, snd (view w))"
        using law_delete [OF laws _ ok(1)] snoc.prems(1) by simp
      then show ?thesis using snoc.IH [of t ys] ok(2) True by simp
    next
      case fail
      then have "view w' = view w"
        using law_delete [OF laws _ fail(1)] snoc.prems(1) by simp
      then show ?thesis using fail snoc.prems(1) by simp
    qed
  qed
qed

lemma delete_own_run:
  assumes laws: "fw_laws px node vmid view" and run: "delete_own_rules px node vmid w = (r, w')"
  shows "snd (view w') = snd (view w) \<and>
    (is_ok r \<longrightarrow> fst (view w') = filter (\<lambda>x. \<not> own_rule x) (fst (view w))) \<and>
    filter (\<lambda>x. \<not> own_rule x) (fst (view w')) = filter (\<lambda>x. \<not> own_rule x) (fst (view w))"
proof -
  from run show ?thesis
    unfolding delete_own_rules_def
  proof (rule bind_cases)
    fix e assume "px_rules px node vmid w = (Inl e, w')" "r = Inl e"
    then have "view w' = view w" using law_rules [OF laws] by blast
    with \<open>r = Inl e\<close> show ?thesis by simp
  next
    fix js t
    assume l: "px_rules px node vmid w = (Inr js, t)"
      and rest: "bind (for_each (own_positions js) (px_delete_rule px node vmid)) (\<lambda>_. ret (length (own_positions js))) t
        = (r, w')"
    from l have t: "view t = view w" "view_json (fst (view w)) js"
      using law_rules [OF laws] by blast+
    obtain q where "for_each (own_positions js) (px_delete_rule px node vmid) t = (q, w')" "is_ok q = is_ok r"
      using rest by (rule bind_cases) (auto simp: ret_def)
    then show ?thesis
      using delete_descending [OF laws, of t "fst (view w)" "[]" q w'] t
      by (simp add: own_positions_view [OF t(2)])
  qed
qed

lemma create_run:
  assumes laws: "fw_laws px node vmid view"
  shows "for_each rs (\<lambda>x. px_create_rule px node vmid x 0) w = (r, w') \<Longrightarrow>
    snd (view w') = snd (view w) \<and>
    (is_ok r \<longrightarrow> fst (view w') = rev rs @ fst (view w)) \<and>
    (\<exists>k. fst (view w') = rev (take k rs) @ fst (view w))"
proof (induction rs arbitrary: w)
  case Nil
  then show ?case by (simp add: ret_def)
next
  case (Cons x rs)
  from Cons.prems consider (ok) t where "px_create_rule px node vmid x 0 w = (Inr (), t)"
      "for_each rs (\<lambda>x. px_create_rule px node vmid x 0) t = (r, w')"
    | (fail) e where "px_create_rule px node vmid x 0 w = (Inl e, w')" "r = Inl e"
    unfolding for_each_Cons_iff by blast
  then show ?case
  proof cases
    case ok
    then have "view t = (x # fst (view w), snd (view w))"
      using law_create [OF laws ok(1)] by simp
    moreover obtain k where "fst (view w') = rev (take k rs) @ fst (view t)"
      using Cons.IH [OF ok(2)] by blast
    ultimately have "fst (view w') = rev (take (Suc k) (x # rs)) @ fst (view w)" by simp
    then have "\<exists>k. fst (view w') = rev (take k (x # rs)) @ fst (view w)" by blast
    with Cons.IH [OF ok(2)] \<open>view t = _\<close> show ?thesis by simp
  next
    case fail
    then have "view w' = view w" using law_create [OF laws fail(1)] by simp
    then show ?thesis using fail by (auto intro: exI [of _ 0])
  qed
qed

lemma built_own:
  assumes "build_isolation_rules opts = Inr rules" and "io_extra opts = []" and "r \<in> set rules"
  shows "own_rule r"
proof -
  have st: "fr_comment r = stamp c \<Longrightarrow> own_rule r" for c
    by (simp add: own_rule_def stamp_def starts_with_iff)
  have "r \<in> set (inbound_rules opts) \<or> r \<in> set (dns_rules opts) \<or> r \<in> set (internet_rules opts)"
    using build_Inr [OF assms(1)] assms(2,3) by auto
  then have "\<exists>c. fr_comment r = stamp c"
    by (auto simp: inbound_rules_alt dns_rules_def internet_rules_def plain_rule_def split: if_splits)
  then show ?thesis using st by blast
qed

lemma remote_bind_cases:
  assumes "bind (remote m) f h = (r, h')"
  obtains (fail) e w where "m (world h) = (Inl e, w)" "r = Inl e" "h' = h\<lparr>world := w\<rparr>"
    | (ok) x w where "m (world h) = (Inr x, w)" "f x (h\<lparr>world := w\<rparr>) = (r, h')"
  using assms by (auto simp: bind_def remote_def split: prod.splits sum.splits)

text \<open>Everything after the cluster check, as one computation on the outside world.\<close>

definition install_rules :: "'w px_firewall \<Rightarrow> string \<Rightarrow> int \<Rightarrow> fw_rule list \<Rightarrow> ('w, unit) comp" where
  "install_rules px node vmid rules =
     bind (px_set_fw px node vmid \<lparr>fo_enable = Some True, fo_policy_in = None, fo_policy_out = None\<rparr>) (\<lambda>_.
     bind (delete_own_rules px node vmid) (\<lambda>_.
     bind (for_each (rev rules) (\<lambda>r. px_create_rule px node vmid r 0)) (\<lambda>_.
     px_set_fw px node vmid
        \<lparr>fo_enable = Some True, fo_policy_in = Some ''DROP'', fo_policy_out = Some ''DROP''\<rparr>)))"

lemma remote_bind: "remote (bind m f) = bind (remote m) (\<lambda>x. remote (f x))"
  by (rule ext) (auto simp: remote_def bind_def split: prod.splits sum.splits)

lemma apply_isolation_alt:
  "apply_isolation px i node vmid opts =
     bind (remote (cluster_firewall_enabled px)) (\<lambda>on.
     if \<not> on then throw (err_validation msg_cluster_off) else
     bind (lift_res (build_isolation_rules opts)) (\<lambda>rules.
     bind (remote (install_rules px node vmid rules)) (\<lambda>_.
     bind (on_db (set_isolated i True)) (\<lambda>_. ret (length rules)))))"
  unfolding apply_isolation_def install_rules_def remote_bind bind_assoc by (rule refl)

lemma install_run:
  assumes laws: "fw_laws px node vmid view" and run: "install_rules px node vmid rules w = (r, w')"
    and own: "\<And>x. x \<in> set rules \<Longrightarrow> own_rule x"
  shows "(is_ok r \<longrightarrow> view w' = (rules @ filter (\<lambda>x. \<not> own_rule x) (fst (view w)), ''DROP'', ''DROP'')) \<and>
    (\<not> is_ok r \<longrightarrow> snd (view w') = snd (view w)) \<and>
    filter (\<lambda>x. \<not> own_rule x) (fst (view w')) = filter (\<lambda>x. \<not> own_rule x) (fst (view w))"
proof -
  have none: "filter (\<lambda>x. \<not> own_rule x) (rev (take k (rev rules))) = []" for k
    using own by (auto simp: filter_empty_conv dest: in_set_takeD)
  from run show ?thesis
    unfolding install_rules_def
  proof (cases rule: bind_cases)
    case (fail e)
    then show ?thesis using law_set [OF laws fail(1)] by simp
  next
    case (ok x1 w1)
    have w1: "view w1 = view w" using law_set [OF laws ok(1)] by (simp add: new_policy_def)
    from ok(2) show ?thesis
    proof (cases rule: bind_cases)
      case (fail e)
      then show ?thesis using delete_own_run [OF laws fail(1)] w1 by simp
    next
      case (ok x2 w2)
      note w2 = delete_own_run [OF laws ok(1)]
      from ok(2) show ?thesis
      proof (cases rule: bind_cases)
        case (fail e)
        obtain k where "fst (view w') = rev (take k (rev rules)) @ fst (view w2)"
          using create_run [OF laws fail(1)] by blast
        then show ?thesis using create_run [OF laws fail(1)] w2 w1 fail none by simp
      next
        case (ok x3 w3)
        have "view w3 = (rules @ fst (view w2), snd (view w2))"
          using create_run [OF laws ok(1)] by (metis is_ok_simps(2) prod.collapse rev_rev_ident)
        moreover have "filter (\<lambda>x. \<not> own_rule x) rules = []"
          using own by (simp add: filter_empty_conv)
        ultimately show ?thesis
          using law_set [OF laws ok(2)] w2 w1 by (simp add: new_policy_def)
      qed
    qed
  qed
qed

text \<open>C7. Isolating a machine is all or nothing as far as policy and database go. On success
  the chain is the built rules in builder order followed by the rules that were not ours, in
  their order, both policies are DROP and the database says isolated. On any failure, the
  cluster firewall being off included, the database and both policies are as they were. The
  rules that are not ours survive in every case.\<close>

theorem apply_isolation_atomic:
  assumes laws: "fw_laws px node vmid view" and "io_extra opts = []"
    and run: "apply_isolation px i node vmid opts h = (r, h')"
  shows "(\<forall>n. r = Inr n \<longrightarrow> (\<exists>rules. build_isolation_rules opts = Inr rules \<and> n = length rules \<and>
        view (world h') = (rules @ filter (\<lambda>x. \<not> own_rule x) (fst (view (world h))), ''DROP'', ''DROP'')) \<and>
      hdb h' = set_isolated i True (hdb h)) \<and>
    (\<forall>e. r = Inl e \<longrightarrow> hdb h' = hdb h \<and> snd (view (world h')) = snd (view (world h))) \<and>
    filter (\<lambda>x. \<not> own_rule x) (fst (view (world h'))) = filter (\<lambda>x. \<not> own_rule x) (fst (view (world h)))"
proof -
  have cl: "view w' = view w" if "cluster_firewall_enabled px w = (q, w')" for w q w'
    using that unfolding cluster_firewall_enabled_def
    by (rule bind_cases) (auto simp: Let_def ret_def dest: law_cluster [OF laws])
  from run show ?thesis
    unfolding apply_isolation_alt
  proof (cases rule: remote_bind_cases)
    case (fail e w)
    then show ?thesis using cl [OF fail(1)] by simp
  next
    case (ok on w)
    note on = cl [OF ok(1)]
    show ?thesis
    proof (cases "on")
      case False
      then show ?thesis using ok on by (auto simp: throw_def)
    next
      case True
      show ?thesis
      proof (cases "build_isolation_rules opts")
        case (Inl e)
        then show ?thesis using ok on True by (auto simp: bind_def lift_res_def)
      next
        case (Inr rules)
        then have "bind (remote (install_rules px node vmid rules)) (\<lambda>_.
            bind (on_db (set_isolated i True)) (\<lambda>_. ret (length rules))) (h\<lparr>world := w\<rparr>) = (r, h')"
          using ok True by (simp add: bind_def [of "lift_res _"] lift_res_def)
        then show ?thesis
        proof (cases rule: remote_bind_cases)
          case (fail e w2)
          then show ?thesis
            using install_run [OF laws fail(1) built_own [OF Inr assms(2)]] on by simp
        next
          case (ok u w2)
          then have "r = Inr (length rules)" "world h' = w2" "hdb h' = set_isolated i True (hdb h)"
            by (auto simp: bind_def on_db_def ret_def)
          moreover have "filter (\<lambda>x. \<not> own_rule x) rules = []"
            using built_own [OF Inr assms(2)] by (simp add: filter_empty_conv)
          ultimately show ?thesis
            using install_run [OF laws ok(1) built_own [OF Inr assms(2)]] on Inr by simp
        qed
      qed
    qed
  qed
qed

text \<open>
  A guest firewall that behaves as documented, for the examples: one chain with its policies
  and the number of rule creations that still succeed.
\<close>

definition listed :: "nat \<Rightarrow> fw_rule \<Rightarrow> json" where
  "listed k r = JObj ([(''pos'', JNum (int k))] @
     (case fr_comment r of None \<Rightarrow> [] | Some c \<Rightarrow> [(''comment'', JStr c)]))"

definition pf_rules :: "(fw_view \<times> nat, json list) comp" where
  "pf_rules w = (Inr (map (\<lambda>k. listed k (fst (fst w) ! k)) [0..<length (fst (fst w))]), w)"

definition pf_set :: "fw_options \<Rightarrow> (fw_view \<times> nat, unit) comp" where
  "pf_set opts w = (Inr (), (fst (fst w), new_policy (fo_policy_in opts) (fst (snd (fst w))),
     new_policy (fo_policy_out opts) (snd (snd (fst w)))), snd w)"

definition pf_create :: "fw_rule \<Rightarrow> (fw_view \<times> nat, unit) comp" where
  "pf_create x w = (if snd w = 0 then (Inl (err_external ''Proxmox'' ''rule refused''), w)
     else (Inr (), (x # fst (fst w), snd (fst w)), snd w - 1))"

definition pf_delete :: "int \<Rightarrow> (fw_view \<times> nat, unit) comp" where
  "pf_delete k w = (Inr (), (take (nat k) (fst (fst w)) @ drop (Suc (nat k)) (fst (fst w)), snd (fst w)), snd w)"

definition plain_firewall :: "(fw_view \<times> nat) px_firewall" where
  "plain_firewall = \<lparr>px_cluster_fw = ret (JObj [(''enable'', JNum 1)]),
     px_rules = (\<lambda>_ _. pf_rules), px_set_fw = (\<lambda>_ _. pf_set), px_create_rule = (\<lambda>_ _ r _. pf_create r),
     px_delete_rule = (\<lambda>_ _. pf_delete), px_set_onboot = (\<lambda>_ _ _. ret ())\<rparr>"

lemma listed_view: "view_json chain (map (\<lambda>k. listed k (chain ! k)) [0..<length chain])"
  by (auto simp: view_json_def listed_def split: option.splits)

lemma plain_firewall_laws: "fw_laws plain_firewall node vmid fst"
  unfolding fw_laws_def plain_firewall_def
  by (auto simp: ret_def pf_rules_def pf_set_def pf_create_def pf_delete_def listed_view err_external_def
      split: if_splits)

definition sample_host :: "fw_view \<Rightarrow> nat \<Rightarrow> (fw_view \<times> nat) host" where
  "sample_host v n = \<lparr>hdb = sample_vms, world = (v, n)\<rparr>"

lemma apply_isolation_atomic_witness:
  "filter (\<lambda>x. \<not> own_rule x) (fst (fst (world (snd (apply_isolation plain_firewall (v_id sample_vm) ''pve'' 100
     sample_opts (sample_host ([plain_rule FwDrop FwIn None None None None None], ''ACCEPT'', ''ACCEPT'') 20))))))
   = [plain_rule FwDrop FwIn None None None None None]"
proof -
  have "io_extra sample_opts = []" by (simp add: sample_opts_def)
  from conjunct2 [OF conjunct2 [OF apply_isolation_atomic [OF plain_firewall_laws this prod.collapse [symmetric]]]]
  show ?thesis by (simp add: sample_host_def own_rule_def plain_rule_def)
qed

text \<open>Removing isolation opens both policies first and then deletes our rules: on success
  exactly the rules that are not ours remain, in their order, under ACCEPT policies, and the
  database says not isolated; on failure the database is as it was, and the policies are open
  unless the very first call failed. Rules that are not ours survive in every case.\<close>

theorem remove_isolation_exact:
  assumes laws: "fw_laws px node vmid view" and run: "remove_isolation px i node vmid h = (r, h')"
  shows "(is_ok r \<longrightarrow> hdb h' = set_isolated i False (hdb h) \<and>
        view (world h') = (filter (\<lambda>x. \<not> own_rule x) (fst (view (world h))), ''ACCEPT'', ''ACCEPT'')) \<and>
    (\<not> is_ok r \<longrightarrow> hdb h' = hdb h \<and>
        (view (world h') = view (world h) \<or> snd (view (world h')) = (''ACCEPT'', ''ACCEPT''))) \<and>
    filter (\<lambda>x. \<not> own_rule x) (fst (view (world h'))) = filter (\<lambda>x. \<not> own_rule x) (fst (view (world h)))"
  using run unfolding remove_isolation_def
proof (cases rule: remote_bind_cases)
  case (fail e w)
  then show ?thesis using law_set [OF laws fail(1)] by simp
next
  case (ok x w)
  have w: "view w = (fst (view (world h)), ''ACCEPT'', ''ACCEPT'')"
    using law_set [OF laws ok(1)] by (simp add: new_policy_def)
  from ok(2) show ?thesis
  proof (cases rule: remote_bind_cases)
    case (fail e w2)
    then show ?thesis using delete_own_run [OF laws fail(1)[simplified]] w by (cases "view w2") simp
  next
    case (ok n w2)
    then show ?thesis
      using delete_own_run [OF laws ok(1)[simplified]] w
      by (cases "view w2") (auto simp: bind_def on_db_def ret_def)
  qed
qed

lemma remove_isolation_exact_witness:
  "filter (\<lambda>x. \<not> own_rule x) (fst (fst (world (snd (remove_isolation plain_firewall (v_id sample_vm) ''pve'' 100
     (sample_host ([plain_rule FwDrop FwIn None None None None None], ''DROP'', ''DROP'') 0))))))
   = [plain_rule FwDrop FwIn None None None None None]"
  using conjunct2 [OF conjunct2 [OF remove_isolation_exact [OF plain_firewall_laws prod.collapse [symmetric]]]]
  by (simp add: sample_host_def own_rule_def plain_rule_def)

lemma plain_delete_own:
  "\<exists>n v. delete_own_rules plain_firewall node vmid u = (Inr n, v) \<and> snd v = snd u"
proof -
  have fe: "\<exists>v. for_each ks (px_delete_rule plain_firewall node vmid) u = (Inr (), v) \<and> snd v = snd u" for ks u
    by (induction ks arbitrary: u) (auto simp: ret_def bind_def plain_firewall_def pf_delete_def)
  have r1: "px_rules plain_firewall node vmid = pf_rules" by (simp add: plain_firewall_def)
  let ?js = "map (\<lambda>k. listed k (fst (fst u) ! k)) [0..<length (fst (fst u))]"
  obtain v where "for_each (own_positions ?js) (px_delete_rule plain_firewall node vmid) u = (Inr (), v)"
    "snd v = snd u"
    using fe by blast
  then show ?thesis
    by (simp add: delete_own_rules_def r1 bind_def pf_rules_def ret_def)
qed

text \<open>Re-applying isolation to a machine that is already isolated does not keep the guest as
  reachable as it was: there is a firewall that obeys the laws, and a chain built by an earlier
  application, such that one refused rule creation leaves the guest under DROP policies with an
  empty chain, so that remote access that worked before the call is gone after it.\<close>

theorem reapply_can_lock_out:
  "\<exists>(px :: (fw_view \<times> nat) px_firewall) view h h' rules p e.
     fw_laws px node vmid view \<and> build_isolation_rules sample_opts = Inr rules \<and>
     view (world h) = (rules, ''DROP'', ''DROP'') \<and>
     apply_isolation px i node vmid sample_opts h = (Inl e, h') \<and>
     view (world h') = ([], ''DROP'', ''DROP'') \<and>
     verdict (=) (\<lambda>s n. s = nat_str n) FwDrop rules p = FwAccept \<and>
     verdict (=) (\<lambda>s n. s = nat_str n) FwDrop [] p = FwDrop"
proof -
  obtain rules where b: "build_isolation_rules sample_opts = Inr rules" using sample_build by blast
  have ex: "io_extra sample_opts = []" by (simp add: sample_opts_def)
  let ?h = "sample_host (rules, ''DROP'', ''DROP'') 0"
  let ?p = "\<lparr>pk_dir = FwIn, pk_proto = ''tcp'', pk_sport = 4000, pk_dport = 22, pk_src = ''10.0.0.2'', pk_dst = ''g''\<rparr>"
  have "rules \<noteq> []" using build_Inr [OF b] by (simp add: internet_rules_def sample_opts_def)
  obtain n w where del: "delete_own_rules plain_firewall node vmid ((rules, ''DROP'', ''DROP''), 0) = (Inr n, w)"
    and w0: "snd w = 0"
    using plain_delete_own [of node vmid "((rules, ''DROP'', ''DROP''), 0)"] by auto
  have vw: "fst w = ([], ''DROP'', ''DROP'')"
    using delete_own_run [OF plain_firewall_laws [of node vmid] del] built_own [OF b ex]
    by (cases "fst w") (simp add: filter_empty_conv)
  have pf: "px_set_fw plain_firewall node vmid = pf_set"
    "(\<lambda>r. px_create_rule plain_firewall node vmid r 0) = pf_create"
    by (simp_all add: plain_firewall_def)
  obtain x xs where rv: "rev rules = x # xs" using \<open>rules \<noteq> []\<close> by (cases "rev rules") auto
  have "install_rules plain_firewall node vmid rules ((rules, ''DROP'', ''DROP''), 0)
      = (Inl (err_external ''Proxmox'' ''rule refused''), w)"
    unfolding install_rules_def pf rv
    by (simp add: bind_def pf_set_def new_policy_def del w0 pf_create_def)
  moreover have "cluster_firewall_enabled plain_firewall u = (Inr True, u)" for u
    by (simp add: cluster_firewall_enabled_def plain_firewall_def bind_def ret_def)
  ultimately have failed: "apply_isolation plain_firewall i node vmid sample_opts ?h
      = (Inl (err_external ''Proxmox'' ''rule refused''), ?h\<lparr>world := w\<rparr>)"
    by (simp add: apply_isolation_alt bind_def remote_def lift_res_def b sample_host_def)
  have accepted: "verdict (=) (\<lambda>s n. s = nat_str n) FwDrop rules ?p = FwAccept"
  proof -
    have "nat_str 22 = ''22''" by code_simp
    then have "\<exists>q \<in> set (inbound_ports sample_opts). q = nat_str 22"
      by (simp add: sample_opts_def inbound_ports_def DEFAULT_INBOUND_PORTS_def)
    moreover have "truthy (io_allow_from sample_opts)" "the (io_allow_from sample_opts) = ''10.0.0.2''"
      by (simp_all add: sample_opts_def truthy_def)
    moreover note conjunct1 [OF isolation_verdict [OF b ex, of "(=)" "\<lambda>s n. s = nat_str n" ?p]]
    ultimately show ?thesis by (simp only: packet.simps simp_thms if_True bex_simps)
  qed
  show ?thesis
  proof (intro exI conjI)
    show "fw_laws plain_firewall node vmid fst" by (rule plain_firewall_laws)
    show "build_isolation_rules sample_opts = Inr rules" by (rule b)
    show "fst (world ?h) = (rules, ''DROP'', ''DROP'')" by (simp add: sample_host_def)
    show "apply_isolation plain_firewall i node vmid sample_opts ?h
      = (Inl (err_external ''Proxmox'' ''rule refused''), ?h\<lparr>world := w\<rparr>)" by (rule failed)
    show "fst (world (?h\<lparr>world := w\<rparr>)) = ([], ''DROP'', ''DROP'')" using vw by simp
    show "verdict (=) (\<lambda>s n. s = nat_str n) FwDrop rules ?p = FwAccept" by (rule accepted)
    show "verdict (=) (\<lambda>s n. s = nat_str n) FwDrop [] ?p = FwDrop" by (simp add: verdict_def)
  qed
qed

end
