(* ===== verification/Policy.thy ===== *)
theory Policy
  imports Vms_Props "HOL-Library.Word"
begin

text \<open>
  The provisioning policy (\<open>packages/core/src/provisioning/policy.ts\<close>): resource ceilings and
  the static-address allowlist, checked by the API before a job is queued and by the worker
  before anything is cloned. Addresses and masks are 32-bit words, as the code's \<open>>>> 0\<close>
  makes them.
\<close>

unbundle bit_operations_syntax

type_synonym settings = "string \<Rightarrow> string option"

record policy_network =
  pn_mode :: "string option"
  pn_ip :: "string option"
  pn_gateway :: "string option"

record policy_input =
  pi_cpu :: int
  pi_ram :: int
  pi_disk :: int
  pi_network :: "policy_network option"

definition to_int :: "string option \<Rightarrow> string \<Rightarrow> int option res" where
  "to_int value key = (case value of
       None \<Rightarrow> Inr None
     | Some v \<Rightarrow> (case js_number v of
          JNum n \<Rightarrow> (if n \<le> 0 then Inl (err_validation (key @ '' must be a positive integer'')) else Inr (Some n))
        | _ \<Rightarrow> Inl (err_validation (key @ '' must be a positive integer''))))"

record ceilings =
  max_cpu :: "int option"
  max_ram :: "int option"
  max_disk :: "int option"

definition get_provision_ceilings :: "settings \<Rightarrow> ceilings res" where
  "get_provision_ceilings st =
     rbind (to_int (st ''provision.max_cpu'') ''provision.max_cpu'') (\<lambda>c.
     rbind (to_int (st ''provision.max_ram_mb'') ''provision.max_ram_mb'') (\<lambda>r.
     rbind (to_int (st ''provision.max_disk_gb'') ''provision.max_disk_gb'') (\<lambda>d.
     Inr \<lparr>max_cpu = c, max_ram = r, max_disk = d\<rparr>)))"

definition octet_ok :: "string \<Rightarrow> bool" where
  "octet_ok part \<longleftrightarrow> 1 \<le> length part \<and> length part \<le> 3 \<and> list_all is_digit part \<and> digits_val part \<le> 255"

definition ip_to_int :: "string \<Rightarrow> 32 word option" where
  "ip_to_int ip =
     (let parts = split_on CHR ''.'' (trim ip)
      in if length parts = 4 \<and> list_all octet_ok parts
         then Some (word_of_int (foldl (\<lambda>out part. out * 256 + int (digits_val part)) 0 parts)) else None)"

record parsed_cidr =
  pc_cidr :: string
  pc_network :: "32 word"
  pc_mask :: "32 word"
  pc_prefix :: nat

definition mask_of :: "nat \<Rightarrow> 32 word" where
  "mask_of prefix = (if prefix = 0 then 0 else push_bit (32 - prefix) (- 1))"

definition cidr_prefix :: "string list \<Rightarrow> json" where
  "cidr_prefix parts = (case parts of
       a # p # _ \<Rightarrow> (if p = [] then JNum 32 else js_number p)
     | _ \<Rightarrow> JNum 32)"

definition parse_cidr :: "string \<Rightarrow> parsed_cidr res" where
  "parse_cidr cidr =
     (let parts = split_on CHR ''/'' cidr;
          bad = err_validation (''Invalid CIDR \"'' @ cidr @ ''\": expected IPv4 like 192.168.1.0/24'')
      in case (if hd parts = [] then None else ip_to_int (hd parts), cidr_prefix parts) of
           (Some base, JNum p) \<Rightarrow>
             (if p < 0 \<or> p > 32 then Inl bad
              else Inr \<lparr>pc_cidr = cidr, pc_network = base AND mask_of (nat p), pc_mask = mask_of (nat p),
                        pc_prefix = nat p\<rparr>)
         | _ \<Rightarrow> Inl bad)"

fun parse_pieces :: "string list \<Rightarrow> parsed_cidr list res" where
  "parse_pieces [] = Inr []"
| "parse_pieces (piece # rest) =
     (if trim piece = [] then parse_pieces rest
      else rbind (parse_cidr (trim piece)) (\<lambda>c. rbind (parse_pieces rest) (\<lambda>cs. Inr (c # cs))))"

definition parse_cidr_list :: "string option \<Rightarrow> parsed_cidr list res" where
  "parse_cidr_list raw = (case raw of
       None \<Rightarrow> Inr []
     | Some r \<Rightarrow> if trim r = [] then Inr [] else parse_pieces (split_on CHR '','' r))"

definition get_static_allowlist :: "settings \<Rightarrow> parsed_cidr list res" where
  "get_static_allowlist st = parse_cidr_list (st ''network.static_allowed_cidrs'')"

definition ip_held_by_other_vm :: "vm_db \<Rightarrow> string \<Rightarrow> string option \<Rightarrow> bool" where
  "ip_held_by_other_vm db ip exclude \<longleftrightarrow>
     list_ex (\<lambda>r. v_ip r = Some ip \<and> vm_live r \<and> (case exclude of None \<Rightarrow> True | Some e \<Rightarrow> v_id r \<noteq> e)) (vms db)"

definition in_cidr :: "32 word \<Rightarrow> parsed_cidr \<Rightarrow> bool" where
  "in_cidr ip c \<longleftrightarrow> ip AND pc_mask c = pc_network c"

definition broadcast_of :: "parsed_cidr \<Rightarrow> 32 word" where
  "broadcast_of c = pc_network c OR (NOT (pc_mask c))"

definition edge_address :: "32 word \<Rightarrow> parsed_cidr \<Rightarrow> bool" where
  "edge_address ip c \<longleftrightarrow> pc_prefix c < 31 \<and> (ip = pc_network c \<or> ip = broadcast_of c)"

definition ceiling_error :: "string \<Rightarrow> string \<Rightarrow> int \<Rightarrow> int \<Rightarrow> app_error" where
  "ceiling_error what u req lim = err_validation (what @ '' request ('' @ int_str req @ u
     @ '') exceeds the configured maximum ('' @ int_str lim @ u @ '')'')"

definition check_ceiling :: "string \<Rightarrow> string \<Rightarrow> int \<Rightarrow> int option \<Rightarrow> unit res" where
  "check_ceiling what u req lim = (case lim of
       None \<Rightarrow> Inr ()
     | Some m \<Rightarrow> if req > m then Inl (ceiling_error what u req m) else Inr ())"

definition outside_error :: "string \<Rightarrow> string \<Rightarrow> parsed_cidr list \<Rightarrow> app_error" where
  "outside_error what ip allow = err_validation (what @ '' '' @ ip @ '' is outside the allowed subnets (''
     @ join '', '' (map pc_cidr allow) @ '')'')"

definition str_of :: "string option \<Rightarrow> string" where
  "str_of x = (case x of None \<Rightarrow> [] | Some s \<Rightarrow> s)"

definition msg_static_off :: string where
  "msg_static_off = ''Static IP assignment is disabled. Ask an administrator to allow a subnet.''"

definition validate_static :: "settings \<Rightarrow> vm_db \<Rightarrow> policy_network \<Rightarrow> string option \<Rightarrow> unit res" where
  "validate_static st db net exclude =
     rbind (get_static_allowlist st) (\<lambda>allow.
     if length allow = 0 then Inl (err_validation msg_static_off) else
     (let ip = trim (str_of (pn_ip net)); gateway = trim (str_of (pn_gateway net)) in
      case ip_to_int ip of
        None \<Rightarrow> Inl (err_validation ''Static IP must be a valid IPv4 address'')
      | Some a \<Rightarrow> (case ip_to_int gateway of
          None \<Rightarrow> Inl (err_validation ''Static gateway must be a valid IPv4 address'')
        | Some g \<Rightarrow>
           (if a = g then Inl (err_validation ''Static IP must not equal the gateway address'')
            else case find (\<lambda>c. in_cidr a c \<and> in_cidr g c) allow of
                None \<Rightarrow> Inl (outside_error ''Static IP'' ip allow)
              | Some c \<Rightarrow>
                 (if edge_address a c
                  then Inl (err_validation (''Static IP '' @ ip @ '' is a network or broadcast address''))
                  else if ip_held_by_other_vm db ip exclude
                  then Inl (err_validation (''Static IP '' @ ip @ '' is already allocated to another VM''))
                  else Inr ())))))"

definition validate_provision_policy ::
  "settings \<Rightarrow> vm_db \<Rightarrow> policy_input \<Rightarrow> bool \<Rightarrow> string option \<Rightarrow> unit res" where
  "validate_provision_policy st db inp admin exclude =
     (if admin then Inr () else
      rbind (get_provision_ceilings st) (\<lambda>c.
      rbind (check_ceiling ''CPU'' [] (pi_cpu inp) (max_cpu c)) (\<lambda>_.
      rbind (check_ceiling ''RAM'' '' MB'' (pi_ram inp) (max_ram c)) (\<lambda>_.
      rbind (check_ceiling ''Disk'' '' GB'' (pi_disk inp) (max_disk c)) (\<lambda>_.
      case pi_network inp of
        None \<Rightarrow> Inr ()
      | Some net \<Rightarrow> (if pn_mode net \<noteq> Some ''static'' then Inr () else validate_static st db net exclude))))))"

definition validate_ip_override ::
  "settings \<Rightarrow> vm_db \<Rightarrow> string \<Rightarrow> bool \<Rightarrow> string option \<Rightarrow> unit res" where
  "validate_ip_override st db ip admin exclude =
     (if admin then Inr () else
      rbind (get_static_allowlist st) (\<lambda>allow.
      if length allow = 0 then Inl (err_validation msg_static_off) else
      (let clean = trim ip in
       case ip_to_int clean of
         None \<Rightarrow> Inl (err_validation ''IP must be a valid IPv4 address'')
       | Some a \<Rightarrow> (case find (in_cidr a) allow of
            None \<Rightarrow> Inl (outside_error ''IP'' clean allow)
          | Some c \<Rightarrow>
             (if edge_address a c
              then Inl (err_validation (''IP '' @ clean @ '' is a network or broadcast address''))
              else if ip_held_by_other_vm db clean exclude
              then Inl (err_validation (''IP '' @ clean @ '' is already allocated to another VM''))
              else Inr ())))))"

end
