(* ===== verification/Policy_Props.thy ===== *)
theory Policy_Props
  imports Policy
begin

text \<open>
  Properties of the provisioning policy: mask arithmetic is division by powers of two, and a
  request that passes is inside an allowed subnet and under every ceiling.
\<close>

definition cidr_wf :: "parsed_cidr \<Rightarrow> bool" where
  "cidr_wf c \<longleftrightarrow> pc_prefix c \<le> 32 \<and> pc_mask c = mask_of (pc_prefix c)
     \<and> pc_network c AND pc_mask c = pc_network c"

lemma mask_of_eq: "p \<le> 32 \<Longrightarrow> mask_of p = NOT (mask (32 - p))"
proof -
  have "(mask 32 :: 32 word) = - 1"
    by (rule bit_eqI) (simp add: bit_simps)
  then show "p \<le> 32 \<Longrightarrow> mask_of p = NOT (mask (32 - p))"
    by (simp add: mask_of_def)
qed

lemma and_mask_of:
  fixes x :: "32 word"
  assumes "p \<le> 32"
  shows "x AND mask_of p = push_bit (32 - p) (drop_bit (32 - p) x)"
  unfolding mask_of_eq [OF assms] by (rule bit_eqI) (auto simp: bit_simps)

lemma push_drop_eq_iff:
  fixes x y :: "32 word"
  shows "push_bit n (drop_bit n x) = push_bit n (drop_bit n y) \<longleftrightarrow> drop_bit n x = drop_bit n y"
proof
  assume "push_bit n (drop_bit n x) = push_bit n (drop_bit n y)"
  then have "drop_bit n (push_bit n (drop_bit n x)) = drop_bit n (push_bit n (drop_bit n y))"
    by simp
  moreover have "drop_bit n (push_bit n (drop_bit n z)) = drop_bit n z" for z :: "32 word"
    by (rule bit_eqI) (auto simp: bit_simps dest: bit_imp_le_length)
  ultimately show "drop_bit n x = drop_bit n y" by simp
qed simp

lemma in_cidr_drop:
  assumes "cidr_wf c"
  shows "in_cidr a c \<longleftrightarrow> drop_bit (32 - pc_prefix c) a = drop_bit (32 - pc_prefix c) (pc_network c)"
proof -
  have "in_cidr a c \<longleftrightarrow> a AND pc_mask c = pc_network c AND pc_mask c"
    using assms unfolding in_cidr_def cidr_wf_def by metis
  then show ?thesis
    using assms by (simp add: cidr_wf_def and_mask_of push_drop_eq_iff)
qed

lemma in_cidr_div:
  assumes "cidr_wf c"
  shows "in_cidr a c \<longleftrightarrow>
    unat a div 2 ^ (32 - pc_prefix c) = unat (pc_network c) div 2 ^ (32 - pc_prefix c)"
proof -
  have "unat (drop_bit n x) = unat x div 2 ^ n" for x :: "32 word" and n
    unfolding unat_drop_bit_eq by (rule drop_bit_eq_div)
  then show ?thesis
    unfolding in_cidr_drop [OF assms] word_eq_iff_unsigned [where 'a = nat] by simp
qed

lemma network_aligned:
  assumes "cidr_wf c"
  shows "unat (pc_network c) mod 2 ^ (32 - pc_prefix c) = 0"
proof -
  have "take_bit (32 - pc_prefix c) (pc_network c) = 0"
    using assms unfolding cidr_wf_def
    by (metis and_mask_of take_bit_push_bit diff_self_eq_0 take_bit_0 push_bit_of_0)
  then have "take_bit (32 - pc_prefix c) (unat (pc_network c)) = 0"
    by (metis unat_0 unsigned_take_bit_eq)
  then show ?thesis by (simp add: take_bit_eq_mod)
qed

lemma broadcast_value:
  assumes "cidr_wf c"
  shows "unat (broadcast_of c) = unat (pc_network c) + (2 ^ (32 - pc_prefix c) - 1)"
proof -
  let ?n = "32 - pc_prefix c"
  have le: "?n \<le> 32" by simp
  have m: "NOT (pc_mask c) = mask ?n"
    using assms by (simp add: cidr_wf_def mask_of_eq)
  have "unat (broadcast_of c) = unat (pc_network c) OR unat (mask ?n :: 32 word)"
    by (simp add: broadcast_of_def m unsigned_or_eq)
  also have "unat (mask ?n :: 32 word) = mask ?n"
    using unsigned_take_bit_eq [of ?n "- 1 :: 32 word"] le
    by (simp add: unsigned_minus_1_eq_mask min_def flip: take_bit_minus_one_eq_mask)
  also have "unat (pc_network c) OR mask ?n = unat (pc_network c) + mask ?n"
  proof (rule disjunctive_add [symmetric])
    fix k
    have "take_bit ?n (unat (pc_network c)) = 0"
      using network_aligned [OF assms] by (simp add: take_bit_eq_mod)
    then have "\<not> bit (take_bit ?n (unat (pc_network c))) k" by simp
    then show "\<not> bit (unat (pc_network c)) k \<or> \<not> bit (mask ?n :: nat) k"
      by (auto simp: bit_simps)
  qed
  finally show ?thesis by (simp add: mask_eq_exp_minus_1)
qed

lemma parse_cidr_wf: "parse_cidr s = Inr c \<Longrightarrow> cidr_wf c"
  by (auto simp: parse_cidr_def Let_def cidr_wf_def and.assoc split: option.splits json.splits if_splits)

lemma parse_pieces_wf: "parse_pieces ps = Inr cs \<Longrightarrow> \<forall>c \<in> set cs. cidr_wf c"
  by (induction ps arbitrary: cs) (auto simp: rbind_Inr_iff parse_cidr_wf split: if_splits)

lemma allowlist_wf: "get_static_allowlist st = Inr cs \<Longrightarrow> c \<in> set cs \<Longrightarrow> cidr_wf c"
  unfolding get_static_allowlist_def parse_cidr_list_def
  by (auto split: option.splits if_splits dest!: parse_pieces_wf)

text \<open>The block of \<open>2 ^ (32 - prefix)\<close> addresses that an address belongs to.\<close>

definition block :: "nat \<Rightarrow> 32 word \<Rightarrow> nat" where
  "block prefix a = unat a div 2 ^ (32 - prefix)"

text \<open>Not the first or the last address of its block, unless the block has one or two addresses.\<close>

definition host_address :: "nat \<Rightarrow> 32 word \<Rightarrow> bool" where
  "host_address prefix a \<longleftrightarrow> prefix < 31 \<longrightarrow>
     unat a mod 2 ^ (32 - prefix) \<noteq> 0 \<and> unat a mod 2 ^ (32 - prefix) \<noteq> 2 ^ (32 - prefix) - 1"

lemma edge_address_iff:
  assumes wf: "cidr_wf c" and "in_cidr a c"
  shows "\<not> edge_address a c \<longleftrightarrow> host_address (pc_prefix c) a"
proof -
  let ?b = "2 ^ (32 - pc_prefix c) :: nat"
  have a: "unat a = unat (pc_network c) + unat a mod ?b"
    using in_cidr_div [OF wf] assms(2) network_aligned [OF wf]
    by (metis add.commute add_0 mod_mult_div_eq mult_div_mod_eq)
  have "a = pc_network c \<longleftrightarrow> unat a mod ?b = 0"
    unfolding word_eq_iff_unsigned [where 'a = nat] using a by linarith
  moreover have "a = broadcast_of c \<longleftrightarrow> unat a mod ?b = ?b - 1"
    unfolding word_eq_iff_unsigned [where 'a = nat] broadcast_value [OF wf] using a by linarith
  ultimately show ?thesis by (auto simp: edge_address_def host_address_def)
qed

definition held_elsewhere :: "vm_db \<Rightarrow> string \<Rightarrow> string option \<Rightarrow> bool" where
  "held_elsewhere db ip exclude \<longleftrightarrow>
     (\<exists>r \<in> set (vms db). vm_live r \<and> v_ip r = Some ip \<and> Some (v_id r) \<noteq> exclude)"

lemma held_iff: "ip_held_by_other_vm db ip exclude \<longleftrightarrow> held_elsewhere db ip exclude"
  by (cases exclude) (auto simp: ip_held_by_other_vm_def held_elsewhere_def list_ex_iff)

lemma in_cidr_block: "cidr_wf c \<Longrightarrow> in_cidr a c \<longleftrightarrow> block (pc_prefix c) a = block (pc_prefix c) (pc_network c)"
  by (simp add: block_def in_cidr_div)

lemma validate_static_ok:
  assumes "validate_static st db net exclude = Inr ()"
  shows "\<exists>allow c a g. get_static_allowlist st = Inr allow \<and> c \<in> set allow \<and>
    ip_to_int (trim (str_of (pn_ip net))) = Some a \<and> ip_to_int (trim (str_of (pn_gateway net))) = Some g \<and>
    a \<noteq> g \<and> in_cidr a c \<and> in_cidr g c \<and> \<not> edge_address a c \<and>
    \<not> held_elsewhere db (trim (str_of (pn_ip net))) exclude"
proof -
  from assms obtain allow where al: "get_static_allowlist st = Inr allow"
    unfolding validate_static_def rbind_Inr_iff by blast
  from assms al obtain a where a: "ip_to_int (trim (str_of (pn_ip net))) = Some a"
    by (cases "ip_to_int (trim (str_of (pn_ip net)))") (auto simp: validate_static_def Let_def split: if_split_asm)
  from assms al a obtain g where g: "ip_to_int (trim (str_of (pn_gateway net))) = Some g"
    by (cases "ip_to_int (trim (str_of (pn_gateway net)))") (auto simp: validate_static_def Let_def split: if_split_asm)
  from assms al a g obtain c where c: "find (\<lambda>c. in_cidr a c \<and> in_cidr g c) allow = Some c"
    by (cases "find (\<lambda>c. in_cidr a c \<and> in_cidr g c) allow") (auto simp: validate_static_def Let_def split: if_split_asm)
  from assms al a g c have "a \<noteq> g" "\<not> edge_address a c" "\<not> held_elsewhere db (trim (str_of (pn_ip net))) exclude"
    by (auto simp: validate_static_def Let_def held_iff split: if_split_asm)
  with al a g find_Some_in [OF c] show ?thesis by blast
qed

lemma check_ceiling_ok: "check_ceiling what u req lim = Inr x \<longleftrightarrow> (\<forall>m. lim = Some m \<longrightarrow> req \<le> m)"
  by (auto simp: check_ceiling_def split: option.splits)

text \<open>C8. A provisioning request that the policy accepts from a non-administrator stays under
  every configured ceiling, and if it asks for a static address, that address and its gateway
  are different addresses of one block of an allowed subnet, the address is no network or
  broadcast address of it, and no other live machine holds it. Administrators are exempt.\<close>

theorem accepted_request_is_safe:
  assumes "validate_provision_policy st db inp False exclude = Inr ()"
  shows "(\<exists>c. get_provision_ceilings st = Inr c \<and> (\<forall>m. max_cpu c = Some m \<longrightarrow> pi_cpu inp \<le> m) \<and>
      (\<forall>m. max_ram c = Some m \<longrightarrow> pi_ram inp \<le> m) \<and> (\<forall>m. max_disk c = Some m \<longrightarrow> pi_disk inp \<le> m)) \<and>
    (\<forall>net. pi_network inp = Some net \<and> pn_mode net = Some ''static'' \<longrightarrow>
      (\<exists>allow c a g. get_static_allowlist st = Inr allow \<and> c \<in> set allow \<and>
        ip_to_int (trim (str_of (pn_ip net))) = Some a \<and> ip_to_int (trim (str_of (pn_gateway net))) = Some g \<and>
        a \<noteq> g \<and> block (pc_prefix c) a = block (pc_prefix c) (pc_network c) \<and>
        block (pc_prefix c) g = block (pc_prefix c) (pc_network c) \<and> host_address (pc_prefix c) a \<and>
        \<not> held_elsewhere db (trim (str_of (pn_ip net))) exclude)) \<and>
    validate_provision_policy st db other True exclude = Inr ()"
proof (intro conjI allI impI)
  show "\<exists>c. get_provision_ceilings st = Inr c \<and> (\<forall>m. max_cpu c = Some m \<longrightarrow> pi_cpu inp \<le> m) \<and>
      (\<forall>m. max_ram c = Some m \<longrightarrow> pi_ram inp \<le> m) \<and> (\<forall>m. max_disk c = Some m \<longrightarrow> pi_disk inp \<le> m)"
    using assms by (auto simp: validate_provision_policy_def rbind_Inr_iff check_ceiling_ok)
next
  fix net assume net: "pi_network inp = Some net \<and> pn_mode net = Some ''static''"
  then have "validate_static st db net exclude = Inr ()"
    using assms by (auto simp: validate_provision_policy_def rbind_Inr_iff)
  from validate_static_ok [OF this] show "\<exists>allow c a g. get_static_allowlist st = Inr allow \<and> c \<in> set allow \<and>
        ip_to_int (trim (str_of (pn_ip net))) = Some a \<and> ip_to_int (trim (str_of (pn_gateway net))) = Some g \<and>
        a \<noteq> g \<and> block (pc_prefix c) a = block (pc_prefix c) (pc_network c) \<and>
        block (pc_prefix c) g = block (pc_prefix c) (pc_network c) \<and> host_address (pc_prefix c) a \<and>
        \<not> held_elsewhere db (trim (str_of (pn_ip net))) exclude"
    by (metis allowlist_wf in_cidr_block edge_address_iff)
qed (simp add: validate_provision_policy_def)

definition sample_settings :: settings where
  "sample_settings = (\<lambda>k. if k = ''network.static_allowed_cidrs'' then Some ''10.0.0.0/24, 192.168.7.0/28''
     else if k = ''provision.max_cpu'' then Some ''8'' else None)"

definition sample_request :: policy_input where
  "sample_request = \<lparr>pi_cpu = 4, pi_ram = 2048, pi_disk = 20,
     pi_network = Some \<lparr>pn_mode = Some ''static'', pn_ip = Some ''192.168.7.3'', pn_gateway = Some ''192.168.7.1''\<rparr>\<rparr>"

lemma sample_accepted: "validate_provision_policy sample_settings sample_vms sample_request False None = Inr ()"
  by code_simp

lemma accepted_request_is_safe_witness:
  "\<exists>allow c. get_static_allowlist sample_settings = Inr allow \<and> c \<in> set allow"
proof -
  have net: "pi_network sample_request = Some \<lparr>pn_mode = Some ''static'', pn_ip = Some ''192.168.7.3'',
      pn_gateway = Some ''192.168.7.1''\<rparr>" by (simp add: sample_request_def)
  show ?thesis
    using accepted_request_is_safe [OF sample_accepted, of sample_request] net by (metis policy_network.select_convs(1))
qed

text \<open>A manual address override by a non-administrator succeeds exactly when the allowlist
  parses and is not empty, the text is an IPv4 address, the first allowed subnet that contains
  it does not have it as network or broadcast address, and no other live machine holds it; an
  administrator's override is never refused here.\<close>

theorem ip_override_exact:
  "is_ok (validate_ip_override st db ip admin exclude) \<longleftrightarrow> admin \<or>
     (\<exists>allow a c. get_static_allowlist st = Inr allow \<and> ip_to_int (trim ip) = Some a \<and>
        find (\<lambda>c. block (pc_prefix c) a = block (pc_prefix c) (pc_network c)) allow = Some c \<and>
        host_address (pc_prefix c) a \<and> \<not> held_elsewhere db (trim ip) exclude)"
proof (cases "admin")
  case True
  then show ?thesis by (simp add: validate_ip_override_def)
next
  case False
  show ?thesis
  proof (cases "get_static_allowlist st")
    case (Inl e)
    with False show ?thesis by (simp add: validate_ip_override_def)
  next
    case (Inr allow)
    have same: "find (in_cidr a) allow = find (\<lambda>c. block (pc_prefix c) a = block (pc_prefix c) (pc_network c)) allow" for a
      using allowlist_wf [OF Inr] by (intro find_cong) (auto simp: in_cidr_block)
    have edge: "find (in_cidr a) allow = Some c \<Longrightarrow> edge_address a c \<longleftrightarrow> \<not> host_address (pc_prefix c) a" for a c
      using edge_address_iff allowlist_wf [OF Inr] by (metis find_Some_in)
    show ?thesis
    proof (cases "ip_to_int (trim ip)")
      case None
      with False Inr show ?thesis by (simp add: validate_ip_override_def Let_def)
    next
      case (Some a)
      have "is_ok (validate_ip_override st db ip admin exclude) \<longleftrightarrow>
          (\<exists>c. find (in_cidr a) allow = Some c \<and> \<not> edge_address a c \<and> \<not> held_elsewhere db (trim ip) exclude)"
        using False Inr Some
        by (cases "find (in_cidr a) allow") (auto simp: validate_ip_override_def Let_def held_iff)
      then show ?thesis using False Inr Some edge unfolding same by auto
    qed
  qed
qed

end
