(* ===== verification/Users.thy ===== *)
theory Users
  imports Vms_Props
begin

text \<open>
  Accounts and sessions: \<open>packages/core/src/services/users.ts\<close> (class \<open>UsersService\<close>),
  \<open>services/sessions.ts\<close> (class \<open>SessionsService\<close>) and the quota functions of
  \<open>services/usage.ts\<close> that only read or write \<open>users\<close>.

  \<open>app_db\<close> adds the \<open>users\<close> and \<open>sessions\<close> tables to the registry, whose grant tables hold
  the roles. Deleting a user follows the foreign keys on the modelled tables. The hash of a
  session id and the CSRF derivation are parameters.
\<close>

record user_row =
  us_id :: string
  us_username :: string
  us_email :: "string option"
  us_given_name :: "string option"
  us_password_hash :: string
  us_active :: bool
  us_failed :: int
  us_locked_until :: "time option"
  us_last_login :: "time option"
  us_initial_admin :: bool
  us_max_vms :: "int option"
  us_created_at :: time

record session_row =
  se_id :: string
  se_sid_hash :: string
  se_user :: string
  se_expires :: time
  se_last_active :: time
  se_idle_minutes :: int
  se_revoked_at :: "time option"

record app_db =
  users :: "user_row list"
  sessions :: "session_row list"
  reg :: vm_db

abbreviation db_iam :: "app_db \<Rightarrow> iam_db" where
  "db_iam db \<equiv> iam (reg db)"

definition user_by_id :: "string \<Rightarrow> user_row list \<Rightarrow> user_row option" where
  "user_by_id i t = table_find us_id i t"

interpretation user_table: keyed_table us_id user_by_id
  by unfold_locales (simp add: user_by_id_def)

definition with_iam :: "(iam_db \<Rightarrow> iam_db) \<Rightarrow> app_db \<Rightarrow> app_db" where
  "with_iam f db = db\<lparr>reg := reg db\<lparr>iam := f (iam (reg db))\<rparr>\<rparr>"

definition update_user :: "string \<Rightarrow> (user_row \<Rightarrow> user_row) \<Rightarrow> app_db \<Rightarrow> app_db" where
  "update_user i f db = db\<lparr>users := table_update (\<lambda>u. us_id u = i) f (users db)\<rparr>"

subsection \<open>Reading users\<close>

text \<open>The join with live role rows; unknown role names and repetitions are dropped.\<close>

definition roles_of :: "iam_db \<Rightarrow> time \<Rightarrow> string \<Rightarrow> role list" where
  "roles_of db now uid = dedup (valid_roles (map role_name (live_user_roles db now uid)))"

definition assemble_user :: "iam_db \<Rightarrow> time \<Rightarrow> user_row \<Rightarrow> user_with_roles" where
  "assemble_user db now u =
     \<lparr>u_id = us_id u, u_username = us_username u, u_email = us_email u, u_active = us_active u,
      u_roles = roles_of db now (us_id u)\<rparr>"

definition find_user :: "app_db \<Rightarrow> time \<Rightarrow> string \<Rightarrow> user_with_roles option" where
  "find_user db now i =
     (if \<not> is_uuid i then None else map_option (assemble_user (db_iam db) now) (user_by_id i (users db)))"

definition find_user_by_username :: "app_db \<Rightarrow> time \<Rightarrow> string \<Rightarrow> user_with_roles option" where
  "find_user_by_username db now name =
     map_option (assemble_user (db_iam db) now) (find (\<lambda>u. us_username u = name) (users db))"

definition require_user :: "app_db \<Rightarrow> time \<Rightarrow> string \<Rightarrow> user_with_roles res" where
  "require_user db now i = (case find_user db now i of
       None \<Rightarrow> Inl (err_not_found ''User not found'')
     | Some u \<Rightarrow> Inr u)"

definition list_users :: "app_db \<Rightarrow> time \<Rightarrow> user_with_roles list" where
  "list_users db now = map (assemble_user (db_iam db) now) (sort_key us_created_at (users db))"

definition count_users :: "app_db \<Rightarrow> nat" where
  "count_users db = length (users db)"

definition is_initial_admin :: "app_db \<Rightarrow> string \<Rightarrow> bool" where
  "is_initial_admin db i \<longleftrightarrow> (case user_by_id i (users db) of None \<Rightarrow> False | Some u \<Rightarrow> us_initial_admin u)"

definition admin_ids :: "app_db \<Rightarrow> time \<Rightarrow> string list" where
  "admin_ids db now =
     dedup [us_id u. u \<leftarrow> users db, us_active u,
        ur \<leftarrow> user_roles (db_iam db), ur_user ur = us_id u \<and> is_live (ur_expires ur) now,
        r \<leftarrow> roles (db_iam db), role_id r = ur_role ur \<and> role_name r = ''ADMIN'']"

definition count_active_admins :: "app_db \<Rightarrow> time \<Rightarrow> string \<Rightarrow> nat" where
  "count_active_admins db now exclude = length (filter (\<lambda>i. i \<noteq> exclude) (admin_ids db now))"

subsection \<open>Writing users\<close>

fun insert_roles :: "string \<Rightarrow> role list \<Rightarrow> (iam_db, unit) comp" where
  "insert_roles uid [] db = (Inr (), db)"
| "insert_roles uid (r # rs) db =
     (if list_ex (\<lambda>x. ur_user x = uid \<and> ur_role x = role_id_of r) (user_roles db)
      then (Inl (pg_error ''duplicate key value violates unique constraint''), db)
      else insert_roles uid rs
             (db\<lparr>user_roles := user_roles db @ [\<lparr>ur_user = uid, ur_role = role_id_of r, ur_expires = None\<rparr>]\<rparr>))"

definition set_roles :: "string \<Rightarrow> string list \<Rightarrow> (app_db, unit) comp" where
  "set_roles uid names db =
     (let (r, iam') = insert_roles uid (valid_roles names)
            ((db_iam db)\<lparr>user_roles := table_delete (\<lambda>x. ur_user x = uid) (user_roles (db_iam db))\<rparr>)
      in (r, with_iam (\<lambda>_. iam') db))"

definition new_user :: "time \<Rightarrow> string \<Rightarrow> string \<Rightarrow> string option \<Rightarrow> string option \<Rightarrow> string \<Rightarrow> user_row" where
  "new_user now nid name email given hash =
     \<lparr>us_id = nid, us_username = name, us_email = email, us_given_name = given, us_password_hash = hash,
      us_active = True, us_failed = 0, us_locked_until = None, us_last_login = None,
      us_initial_admin = False, us_max_vms = None, us_created_at = now\<rparr>"

definition user_create ::
  "time \<Rightarrow> string \<Rightarrow> string \<Rightarrow> string option \<Rightarrow> string option \<Rightarrow> string \<Rightarrow> string list
   \<Rightarrow> (app_db, user_with_roles) comp" where
  "user_create now nid name email given hash names db =
     (if list_ex (\<lambda>u. us_id u = nid \<or> us_username u = name) (users db)
      then throw (pg_error ''duplicate key value violates unique constraint'') db
      else bind (set_roles nid names) (\<lambda>_ d. (require_user d now nid, d))
             (db\<lparr>users := users db @ [new_user now nid name email given hash]\<rparr>))"

definition mark_initial_admin :: "string \<Rightarrow> app_db \<Rightarrow> app_db" where
  "mark_initial_admin i = update_user i (\<lambda>u. u\<lparr>us_initial_admin := True\<rparr>)"

definition user_delete :: "string \<Rightarrow> app_db \<Rightarrow> app_db" where
  "user_delete i db =
     \<lparr>users = table_delete (\<lambda>u. us_id u = i) (users db),
      sessions = table_delete (\<lambda>s. se_user s = i) (sessions db),
      reg = \<lparr>vms = table_update (\<lambda>r. v_created_by r = Some i) (\<lambda>r. r\<lparr>v_created_by := None\<rparr>) (vms (reg db)),
        schedules = schedules (reg db),
        iam = (db_iam db)\<lparr>
          user_roles := table_delete (\<lambda>x. ur_user x = i) (user_roles (db_iam db)),
          user_permissions := table_delete (\<lambda>x. up_user x = i) (user_permissions (db_iam db)),
          group_members := table_delete (\<lambda>x. gm_user x = i) (group_members (db_iam db)),
          vm_access := table_update (\<lambda>x. va_created_by x = Some i) (\<lambda>x. x\<lparr>va_created_by := None\<rparr>)
             (table_delete (\<lambda>x. va_user x = i) (vm_access (db_iam db)))\<rparr>\<rparr>\<rparr>"

definition set_roles_guarded :: "time \<Rightarrow> string \<Rightarrow> string list \<Rightarrow> (app_db, unit) comp" where
  "set_roles_guarded now uid names db =
     (case require_user db now uid of
        Inl e \<Rightarrow> throw e db
      | Inr target \<Rightarrow>
         (if is_initial_admin db uid
          then throw (err_validation (''The initial administrator account \"'' @ u_username target
                 @ ''\" is the system's root account. Its role cannot be changed.'')) db
          else if ADMIN \<in> set (u_roles target) \<and> ''ADMIN'' \<notin> set names \<and> count_active_admins db now uid = 0
          then throw (err_validation (''Cannot demote \"'' @ u_username target
                 @ ''\": they are the only active administrator. Create or promote another administrator first.'')) db
          else set_roles uid names db))"

definition delete_guarded :: "time \<Rightarrow> string \<Rightarrow> (app_db, unit) comp" where
  "delete_guarded now uid db =
     (case require_user db now uid of
        Inl e \<Rightarrow> throw e db
      | Inr target \<Rightarrow>
         (if is_initial_admin db uid
          then throw (err_validation (''The initial administrator account \"'' @ u_username target
                 @ ''\" cannot be deleted.'')) db
          else if ADMIN \<in> set (u_roles target) \<and> count_active_admins db now uid = 0
          then throw (err_validation (''Cannot delete \"'' @ u_username target
                 @ ''\": they are the only active administrator. Create or promote another administrator first.'')) db
          else (Inr (), user_delete uid db)))"

definition can_deactivate :: "app_db \<Rightarrow> time \<Rightarrow> string \<Rightarrow> bool res" where
  "can_deactivate db now uid =
     rbind (require_user db now uid) (\<lambda>target.
       if is_initial_admin db uid then Inr False
       else if ADMIN \<in> set (u_roles target) \<and> count_active_admins db now uid = 0 then Inr False
       else Inr True)"

definition set_active :: "string \<Rightarrow> bool \<Rightarrow> app_db \<Rightarrow> app_db" where
  "set_active i b = update_user i (\<lambda>u. u\<lparr>us_active := b\<rparr>)"

definition set_last_login :: "time \<Rightarrow> string \<Rightarrow> app_db \<Rightarrow> app_db" where
  "set_last_login now i = update_user i (\<lambda>u. u\<lparr>us_last_login := Some now\<rparr>)"

definition change_password :: "string \<Rightarrow> string \<Rightarrow> app_db \<Rightarrow> app_db" where
  "change_password i hash = update_user i (\<lambda>u. u\<lparr>us_password_hash := hash, us_failed := 0, us_locked_until := None\<rparr>)"

definition clear_failed_logins :: "string \<Rightarrow> app_db \<Rightarrow> app_db" where
  "clear_failed_logins name db =
     db\<lparr>users := table_update (\<lambda>u. us_username u = name) (\<lambda>u. u\<lparr>us_failed := 0, us_locked_until := None\<rparr>) (users db)\<rparr>"

definition revoke_all_for_user :: "time \<Rightarrow> string \<Rightarrow> app_db \<Rightarrow> app_db" where
  "revoke_all_for_user now uid db =
     db\<lparr>sessions := table_update (\<lambda>s. se_user s = uid \<and> se_revoked_at s = None)
          (\<lambda>s. s\<lparr>se_revoked_at := Some now\<rparr>) (sessions db)\<rparr>"

record lockout =
  lo_locked :: bool
  lo_remaining :: int

definition ceil_minutes :: "int \<Rightarrow> int" where
  "ceil_minutes ms = - ((- ms) div 60000)"

definition bump_failed :: "time \<Rightarrow> int \<Rightarrow> int \<Rightarrow> user_row \<Rightarrow> user_row" where
  "bump_failed now max_attempts lock_minutes u =
     u\<lparr>us_failed := us_failed u + 1,
       us_locked_until := (if us_failed u + 1 \<ge> max_attempts then Some (now + lock_minutes * 60000)
                           else us_locked_until u)\<rparr>"

definition is_locked :: "time \<Rightarrow> user_row \<Rightarrow> bool" where
  "is_locked now u \<longleftrightarrow> (case us_locked_until u of None \<Rightarrow> False | Some t \<Rightarrow> t > now)"

definition record_failed_login :: "time \<Rightarrow> string \<Rightarrow> int \<Rightarrow> int \<Rightarrow> app_db \<Rightarrow> lockout \<times> app_db" where
  "record_failed_login now name max_attempts lock_minutes db =
     (case find (\<lambda>u. us_username u = name) (users db) of
        None \<Rightarrow> (\<lparr>lo_locked = True, lo_remaining = - 1\<rparr>, db)
      | Some u \<Rightarrow>
         (if is_locked now u
          then (\<lparr>lo_locked = True, lo_remaining = ceil_minutes (the (us_locked_until u) - now)\<rparr>, db)
          else let row = bump_failed now max_attempts lock_minutes u;
                   db1 = update_user (us_id u) (bump_failed now max_attempts lock_minutes) db
               in if is_locked now row
                  then (\<lparr>lo_locked = True, lo_remaining = lock_minutes\<rparr>, revoke_all_for_user now (us_id u) db1)
                  else (\<lparr>lo_locked = False, lo_remaining = max 0 (max_attempts - us_failed row)\<rparr>, db1)))"

subsection \<open>Sessions\<close>

definition session_create ::
  "(string \<Rightarrow> string) \<Rightarrow> time \<Rightarrow> int \<Rightarrow> int \<Rightarrow> string \<Rightarrow> string \<Rightarrow> string \<Rightarrow> app_db \<Rightarrow> app_db" where
  "session_create hash now hours idle nid sid uid db =
     db\<lparr>sessions := sessions db @ [\<lparr>se_id = nid, se_sid_hash = hash sid, se_user = uid,
        se_expires = now + hours * 3600 * 1000, se_last_active = now, se_idle_minutes = idle,
        se_revoked_at = None\<rparr>]\<rparr>"

definition find_by_sid :: "(string \<Rightarrow> string) \<Rightarrow> app_db \<Rightarrow> string \<Rightarrow> session_row option" where
  "find_by_sid hash db sid = find (\<lambda>s. se_sid_hash s = hash sid) (sessions db)"

definition session_validate :: "(string \<Rightarrow> string) \<Rightarrow> app_db \<Rightarrow> time \<Rightarrow> string \<Rightarrow> session_row option" where
  "session_validate hash db now sid = (case find_by_sid hash db sid of
       None \<Rightarrow> None
     | Some s \<Rightarrow>
        (if se_revoked_at s \<noteq> None then None
         else if se_expires s \<le> now then None
         else if se_last_active s < now - se_idle_minutes s * 60 * 1000 then None
         else Some s))"

definition update_session :: "string \<Rightarrow> (session_row \<Rightarrow> session_row) \<Rightarrow> app_db \<Rightarrow> app_db" where
  "update_session i f db = db\<lparr>sessions := table_update (\<lambda>s. se_id s = i) f (sessions db)\<rparr>"

definition session_touch :: "time \<Rightarrow> string \<Rightarrow> app_db \<Rightarrow> app_db" where
  "session_touch now i = update_session i (\<lambda>s. s\<lparr>se_last_active := now\<rparr>)"

definition session_revoke :: "time \<Rightarrow> string \<Rightarrow> app_db \<Rightarrow> app_db" where
  "session_revoke now i = update_session i (\<lambda>s. s\<lparr>se_revoked_at := Some now\<rparr>)"

definition one_day :: time where
  "one_day = 24 * 3600 * 1000"

definition session_cleanup :: "time \<Rightarrow> app_db \<Rightarrow> app_db" where
  "session_cleanup now db =
     db\<lparr>sessions := table_delete (\<lambda>s. se_expires s < now - one_day \<or>
          (case se_revoked_at s of None \<Rightarrow> False | Some t \<Rightarrow> t < now - one_day)) (sessions db)\<rparr>"

definition check_csrf :: "string \<Rightarrow> string option \<Rightarrow> unit res" where
  "check_csrf expected provided =
     (if \<not> truthy provided then Inl (err_forbidden ''CSRF token missing'')
      else if the provided \<noteq> expected then Inl (err_forbidden ''CSRF token mismatch'')
      else Inr ())"

subsection \<open>Quotas\<close>

definition get_user_quota :: "app_db \<Rightarrow> string \<Rightarrow> int option" where
  "get_user_quota db uid = (case user_by_id uid (users db) of None \<Rightarrow> None | Some u \<Rightarrow> us_max_vms u)"

definition set_user_quota :: "string \<Rightarrow> int option \<Rightarrow> (app_db, int option) comp" where
  "set_user_quota uid max_vms db =
     (if (case max_vms of None \<Rightarrow> False | Some n \<Rightarrow> n < 0)
      then throw (err_validation ''maxVms must be a non-negative integer or null (unlimited)'') db
      else case user_by_id uid (users db) of
          None \<Rightarrow> throw (err_not_found ''User not found'') db
        | Some u \<Rightarrow> (Inr max_vms, update_user uid (\<lambda>u. u\<lparr>us_max_vms := max_vms\<rparr>) db))"

definition count_user_vms :: "vm_db \<Rightarrow> string \<Rightarrow> nat" where
  "count_user_vms db uid = length (filter (\<lambda>r. v_created_by r = Some uid \<and> vm_live r) (vms db))"

end
