(* ===== verification/Auth.thy ===== *)
theory Auth
  imports Users
begin

text \<open>
  The request gate (\<open>apps/api/src/plugins/auth.ts\<close>) and the login route
  (\<open>apps/api/src/routes/auth.ts\<close>): session cookie to user, CSRF check of writes, permission
  check, password login with lockout. The request-scoped memo of resolved permissions only
  saves queries and is not modelled; the best-effort \<open>touch\<close> of a session succeeds.
\<close>

record http_request =
  rq_method :: string
  rq_cookie :: "string option"
  rq_csrf_header :: "string option"
  rq_csrf_skip :: bool

definition safe_method :: "string \<Rightarrow> bool" where
  "safe_method m \<longleftrightarrow> m = ''GET'' \<or> m = ''HEAD'' \<or> m = ''OPTIONS''"

text \<open>The \<open>onRequest\<close> hook: the user and session id it puts on the request, and the database.\<close>

definition on_request ::
  "(string \<Rightarrow> string) \<Rightarrow> time \<Rightarrow> http_request \<Rightarrow> app_db \<Rightarrow> (user_with_roles \<times> string) option \<times> app_db" where
  "on_request hash now rq db =
     (if \<not> truthy (rq_cookie rq) then (None, db) else
      case session_validate hash db now (the (rq_cookie rq)) of
        None \<Rightarrow> (None, db)
      | Some s \<Rightarrow> (case find_user db now (se_user s) of
          None \<Rightarrow> (None, db)
        | Some u \<Rightarrow>
           (if \<not> u_active u then (None, db)
            else (Some (u, se_id s), if safe_method (rq_method rq) then session_touch now (se_id s) db else db))))"

text \<open>The \<open>preHandler\<close> hook. \<open>csrf\<close> derives the token from the session id.\<close>

definition pre_handler ::
  "(string \<Rightarrow> string) \<Rightarrow> (string \<Rightarrow> string) \<Rightarrow> time \<Rightarrow> http_request \<Rightarrow> string option \<Rightarrow> (app_db, unit) comp" where
  "pre_handler hash csrf now rq sid db =
     (if safe_method (rq_method rq) \<or> rq_csrf_skip rq then (Inr (), db) else
      case sid of
        None \<Rightarrow> (Inr (), db)
      | Some i \<Rightarrow>
         (let cookie = (case rq_cookie rq of None \<Rightarrow> [] | Some c \<Rightarrow> c) in
          case find_by_sid hash db cookie of
            None \<Rightarrow> (Inr (), db)
          | Some s \<Rightarrow> (case check_csrf (csrf cookie) (rq_csrf_header rq) of
              Inl e \<Rightarrow> (Inl e, db)
            | Inr _ \<Rightarrow> (Inr (), session_touch now i db))))"

definition require_auth :: "user_with_roles option \<Rightarrow> user_with_roles res" where
  "require_auth user = (case user of
       None \<Rightarrow> Inl (err_unauthorized ''Authentication required'')
     | Some u \<Rightarrow> Inr u)"

definition require_permission ::
  "app_db \<Rightarrow> time \<Rightarrow> user_with_roles option \<Rightarrow> string list \<Rightarrow> user_with_roles res" where
  "require_permission db now user wanted = (case user of
       None \<Rightarrow> Inl (err_unauthorized ''Authentication required'')
     | Some u \<Rightarrow>
        (if list_ex (has_permission (Some u)) wanted then Inr u
         else let effective = resolve_effective_access (db_iam db) now (u_id u)
              in if list_ex (map_has (permissions effective)) wanted then Inr u
                 else Inl (err_forbidden ''You do not have permission to perform this action'')))"

definition require_admin :: "user_with_roles option \<Rightarrow> user_with_roles res" where
  "require_admin user = (case user of
       None \<Rightarrow> Inl (err_unauthorized ''Authentication required'')
     | Some u \<Rightarrow> if \<not> is_admin (Some u) then Inl (err_forbidden ''You do not have permission to perform this action'') else Inr u)"

text \<open>Both hooks and the permission check of a route, in the order they run.\<close>

definition authorize ::
  "(string \<Rightarrow> string) \<Rightarrow> (string \<Rightarrow> string) \<Rightarrow> time \<Rightarrow> http_request \<Rightarrow> string list
   \<Rightarrow> (app_db, user_with_roles) comp" where
  "authorize hash csrf now rq wanted db =
     (let (who, db1) = on_request hash now rq db;
          (r, db2) = pre_handler hash csrf now rq (map_option snd who) db1
      in case r of
           Inl e \<Rightarrow> (Inl e, db2)
         | Inr _ \<Rightarrow> (require_permission db2 now (map_option fst who) wanted, db2))"

subsection \<open>Password login\<close>

datatype login_reason = UnknownUser | AccountLocked | BadPassword | AccountDisabled

text \<open>What the client sees is the same 401 for every reason; the audit log keeps the reason.\<close>

datatype login_result = LoggedIn user_with_roles | LoginRefused login_reason

definition MAX_FAILED :: int where
  "MAX_FAILED = 5"

definition LOCK_MINUTES :: int where
  "LOCK_MINUTES = 15"

definition login ::
  "(string \<Rightarrow> string) \<Rightarrow> (string \<Rightarrow> string \<Rightarrow> bool) \<Rightarrow> int \<Rightarrow> int \<Rightarrow> time \<Rightarrow> string \<Rightarrow> string
   \<Rightarrow> string \<Rightarrow> string \<Rightarrow> app_db \<Rightarrow> login_result \<times> app_db" where
  "login hash verify hours idle now nid sid name password db =
     (case find (\<lambda>u. us_username u = name) (users db) of
        None \<Rightarrow> (LoginRefused UnknownUser, db)
      | Some u \<Rightarrow>
         (if is_locked now u then (LoginRefused AccountLocked, db)
          else if \<not> verify (us_password_hash u) password
          then (LoginRefused BadPassword, snd (record_failed_login now name MAX_FAILED LOCK_MINUTES db))
          else if \<not> us_active u then (LoginRefused AccountDisabled, db)
          else (LoggedIn (assemble_user (db_iam db) now u),
                set_last_login now (us_id u)
                  (clear_failed_logins (us_username u)
                    (session_create hash now hours idle nid sid (us_id u) db)))))"

end
