(* ===== verification/Session_Props.thy ===== *)
theory Session_Props
  imports Auth_Props
begin

text \<open>
  Sessions over time: a step relation whose steps are the operations of the service at
  non-decreasing instants, the lockout counter as a run of failed logins, and the exactness of
  the request gate.
\<close>

subsection \<open>Validity of a session\<close>

definition session_dead :: "time \<Rightarrow> session_row \<Rightarrow> bool" where
  "session_dead t s \<longleftrightarrow> se_revoked_at s \<noteq> None \<or> se_expires s \<le> t
     \<or> se_last_active s < t - se_idle_minutes s * 60 * 1000"

lemma session_dead_mono: "session_dead t s \<Longrightarrow> t \<le> t' \<Longrightarrow> session_dead t' s"
  by (auto simp: session_dead_def)

lemma session_dead_revoke [simp]: "session_dead t (s\<lparr>se_revoked_at := Some r\<rparr>)"
  by (simp add: session_dead_def)

lemma validate_iff:
  "session_validate hash db t sid = Some s \<longleftrightarrow> find_by_sid hash db sid = Some s \<and> \<not> session_dead t s"
  by (auto simp: session_validate_def session_dead_def split: option.splits if_splits)

definition sessions_wf :: "app_db \<Rightarrow> bool" where
  "sessions_wf db \<longleftrightarrow> distinct (map se_id (sessions db)) \<and> distinct (map se_sid_hash (sessions db))"

lemma session_same_id: "sessions_wf db \<Longrightarrow> s \<in> set (sessions db) \<Longrightarrow> s' \<in> set (sessions db) \<Longrightarrow> se_id s = se_id s' \<Longrightarrow> s = s'"
  by (auto simp: sessions_wf_def distinct_map dest: inj_onD)

lemma session_same_hash:
  "sessions_wf db \<Longrightarrow> s \<in> set (sessions db) \<Longrightarrow> s' \<in> set (sessions db) \<Longrightarrow> se_sid_hash s = se_sid_hash s' \<Longrightarrow> s = s'"
  by (auto simp: sessions_wf_def distinct_map dest: inj_onD)

lemma find_by_sid_Some: "find_by_sid hash db sid = Some s \<Longrightarrow> s \<in> set (sessions db) \<and> se_sid_hash s = hash sid"
  unfolding find_by_sid_def by (drule find_Some_in) simp

text \<open>Every session whose token hashes to \<open>h\<close> is dead at \<open>t\<close>.\<close>

definition gone :: "string \<Rightarrow> time \<Rightarrow> app_db \<Rightarrow> bool" where
  "gone h t db \<longleftrightarrow> sessions_wf db \<and> (\<forall>s \<in> set (sessions db). se_sid_hash s = h \<longrightarrow> session_dead t s)"

lemma gone_mono: "gone h t db \<Longrightarrow> t \<le> t' \<Longrightarrow> gone h t' db"
  by (auto simp: gone_def intro: session_dead_mono)

lemma gone_update:
  assumes g: "gone h t db" and db': "sessions db' = table_update P f (sessions db)"
    and keep: "\<And>s. se_id (f s) = se_id s \<and> se_sid_hash (f s) = se_sid_hash s"
    and dead: "\<And>s. s \<in> set (sessions db) \<Longrightarrow> P s \<Longrightarrow> se_sid_hash s = h \<Longrightarrow> session_dead t (f s)"
  shows "gone h t db'"
proof -
  have "map se_id (sessions db') = map se_id (sessions db)" "map se_sid_hash (sessions db') = map se_sid_hash (sessions db)"
    using keep by (simp_all add: db' table_update_def)
  then show ?thesis
    using g dead keep unfolding gone_def sessions_wf_def db' by auto
qed

lemma gone_delete: "gone h t db \<Longrightarrow> sessions db' = table_delete P (sessions db) \<Longrightarrow> gone h t db'"
  by (auto simp: gone_def sessions_wf_def table_delete_def distinct_map_filter)

lemma gone_sessions: "gone h t db \<Longrightarrow> sessions db' = sessions db \<Longrightarrow> gone h t db'"
  by (simp add: gone_def sessions_wf_def)

lemma gone_touch:
  assumes "gone h t db" and v: "session_validate hash db t sid = Some s"
  shows "gone h t (session_touch t (se_id s) db)"
proof (rule gone_update [OF assms(1)])
  show "sessions (session_touch t (se_id s) db) = table_update (\<lambda>x. se_id x = se_id s) (\<lambda>x. x\<lparr>se_last_active := t\<rparr>) (sessions db)"
    by (simp add: session_touch_def update_session_def)
next
  fix x assume x: "x \<in> set (sessions db)" "se_id x = se_id s" "se_sid_hash x = h"
  have "s \<in> set (sessions db)" "\<not> session_dead t s"
    using v by (auto simp: validate_iff dest: find_by_sid_Some)
  then have "False" using assms(1) x session_same_id [of db x s] by (auto simp: gone_def)
  then show "session_dead t (x\<lparr>se_last_active := t\<rparr>)" ..
qed simp

lemma gone_create:
  assumes "gone h t db" and "nid \<notin> se_id ` set (sessions db)" "hash sid \<notin> se_sid_hash ` set (sessions db)" "hash sid \<noteq> h"
  shows "gone h t (session_create hash now hours idle nid sid uid db)"
  using assms by (auto simp: gone_def sessions_wf_def session_create_def)

lemma on_request_cases:
  assumes "on_request hash now rq db = (who, db')"
  obtains (none) "who = None" "db' = db"
    | (some) s u where "session_validate hash db now (the (rq_cookie rq)) = Some s" "truthy (rq_cookie rq)"
        "find_user db now (se_user s) = Some u" "u_active u" "who = Some (u, se_id s)"
        "db' = (if safe_method (rq_method rq) then session_touch now (se_id s) db else db)"
proof (cases "truthy (rq_cookie rq) \<and> (\<exists>s u. session_validate hash db now (the (rq_cookie rq)) = Some s \<and>
    find_user db now (se_user s) = Some u \<and> u_active u)")
  case True
  then obtain s u where c: "truthy (rq_cookie rq)" "session_validate hash db now (the (rq_cookie rq)) = Some s"
    "find_user db now (se_user s) = Some u" "u_active u" by blast
  then have "who = Some (u, se_id s)"
    "db' = (if safe_method (rq_method rq) then session_touch now (se_id s) db else db)"
    using assms by (simp_all add: on_request_def)
  with c show ?thesis by (intro some) auto
next
  case False
  then have "on_request hash now rq db = (None, db)"
    by (auto simp: on_request_def split: option.split)
  with assms show ?thesis by (intro none) auto
qed

lemma gone_authorize:
  assumes g: "gone h now db"
  shows "gone h now (snd (authorize hash csrf now rq wanted db))"
proof -
  obtain who db1 where o: "on_request hash now rq db = (who, db1)" by (cases "on_request hash now rq db")
  obtain r db2 where p: "pre_handler hash csrf now rq (map_option snd who) db1 = (r, db2)"
    by (cases "pre_handler hash csrf now rq (map_option snd who) db1")
  have db2: "snd (authorize hash csrf now rq wanted db) = db2"
    using o p by (auto simp: authorize_def split: sum.splits)
  from o show ?thesis
  proof (cases rule: on_request_cases)
    case none
    then show ?thesis using g p db2 by (auto simp: pre_handler_def split: if_splits)
  next
    case (some s u)
    show ?thesis
    proof (cases "safe_method (rq_method rq)")
      case True
      then show ?thesis using p db2 some gone_touch [OF g some(1)] by (simp add: pre_handler_def)
    next
      case False
      then have "db2 = db \<or> db2 = session_touch now (se_id s) db"
        using p some by (auto simp: pre_handler_def Let_def split: if_splits option.splits sum.splits)
      then show ?thesis using db2 g gone_touch [OF g some(1)] by auto
    qed
  qed
qed

lemma gone_failed_login: "gone h now db \<Longrightarrow> gone h now (snd (record_failed_login now name m l db))"
  unfolding record_failed_login_def Let_def
  by (auto split: option.split intro: gone_sessions)
    (rule gone_update [where P = "\<lambda>s. se_user s = _ \<and> se_revoked_at s = None" and f = "\<lambda>s. s\<lparr>se_revoked_at := Some now\<rparr>"];
     simp add: revoke_all_for_user_def)+

subsection \<open>Steps\<close>

text \<open>
  One operation of the service at an instant not before the previous one. Random session ids
  and row ids are fresh; \<open>h\<close> is the hash of an id that is never drawn again.
\<close>

inductive session_step ::
  "(string \<Rightarrow> string) \<Rightarrow> (string \<Rightarrow> string) \<Rightarrow> string \<Rightarrow> time \<times> app_db \<Rightarrow> time \<times> app_db \<Rightarrow> bool"
  for hash csrf h where
  step_request: "t \<le> t' \<Longrightarrow> session_step hash csrf h (t, db) (t', snd (authorize hash csrf t' rq wanted db))"
| step_login: "t \<le> t' \<Longrightarrow> nid \<notin> se_id ` set (sessions db) \<Longrightarrow> hash sid \<notin> se_sid_hash ` set (sessions db)
    \<Longrightarrow> hash sid \<noteq> h \<Longrightarrow>
    session_step hash csrf h (t, db) (t', snd (login hash verify hours idle t' nid sid name password db))"
| step_logout: "t \<le> t' \<Longrightarrow> session_step hash csrf h (t, db) (t', session_revoke t' i db)"
| step_revoke_all: "t \<le> t' \<Longrightarrow> session_step hash csrf h (t, db) (t', revoke_all_for_user t' uid db)"
| step_cleanup: "t \<le> t' \<Longrightarrow> session_step hash csrf h (t, db) (t', session_cleanup t' db)"
| step_wait: "t \<le> t' \<Longrightarrow> session_step hash csrf h (t, db) (t', db)"

inductive_cases session_stepE: "session_step hash csrf h c c'"

lemma gone_login:
  assumes g: "gone h now db" and "nid \<notin> se_id ` set (sessions db)"
    "hash sid \<notin> se_sid_hash ` set (sessions db)" "hash sid \<noteq> h"
  shows "gone h now (snd (login hash verify hours idle now nid sid name password db))"
proof -
  have "gone h now (set_last_login now i (clear_failed_logins n (session_create hash now hours idle nid sid uid db)))"
    for i n uid
    by (rule gone_sessions [OF gone_create [where hash = hash and sid = sid and nid = nid]])
      (use assms in \<open>simp_all add: set_last_login_def clear_failed_logins_def\<close>)
  then show ?thesis
    using g gone_failed_login [OF g] by (auto simp: login_def split: option.split)
qed

lemma session_step_gone:
  "session_step hash csrf h c c' \<Longrightarrow> gone h (fst c) (snd c) \<Longrightarrow> gone h (fst c') (snd c')"
proof (induction rule: session_step.induct)
  case (step_request t t' db rq wanted)
  then show ?case using gone_authorize gone_mono by fastforce
next
  case (step_login t t' nid db sid verify hours idle name password)
  then have "gone h t' db" by (auto intro: gone_mono)
  then show ?case
    using gone_login [where hash = hash and sid = sid and nid = nid and db = db] step_login(2-4) by simp
next
  case (step_logout t t' db i)
  then have "gone h t' db" by (auto intro: gone_mono)
  then show ?case
    by (auto intro: gone_update [where P = "\<lambda>s. se_id s = i" and f = "\<lambda>s. s\<lparr>se_revoked_at := Some t'\<rparr>"]
        simp: session_revoke_def update_session_def)
next
  case (step_revoke_all t t' db uid)
  then have "gone h t' db" by (auto intro: gone_mono)
  then show ?case
    by (auto intro: gone_update [where P = "\<lambda>s. se_user s = uid \<and> se_revoked_at s = None"
          and f = "\<lambda>s. s\<lparr>se_revoked_at := Some t'\<rparr>"] simp: revoke_all_for_user_def)
next
  case (step_cleanup t t' db)
  then have "gone h t' db" by (auto intro: gone_mono)
  then show ?case by (auto intro: gone_delete simp: session_cleanup_def)
qed (auto intro: gone_mono)

lemma session_steps_gone:
  "(session_step hash csrf h)\<^sup>*\<^sup>* c c' \<Longrightarrow> gone h (fst c) (snd c) \<Longrightarrow> gone h (fst c') (snd c')"
  by (induction rule: rtranclp_induct) (auto intro: session_step_gone)

lemma gone_no_validate:
  assumes "gone (hash sid) t db"
  shows "session_validate hash db t sid = None"
proof (cases "session_validate hash db t sid")
  case (Some s)
  then have "s \<in> set (sessions db)" "se_sid_hash s = hash sid" "\<not> session_dead t s"
    by (auto simp: validate_iff dest: find_by_sid_Some)
  with assms show ?thesis by (auto simp: gone_def)
qed simp

text \<open>C10. A session that has ended stays ended. Once a session was revoked, passed its absolute
  expiry or its idle window, no later sequence of requests, logins, logouts, failed logins,
  revocations and cleanups makes its cookie valid again: the only writer that extends a
  session touches sessions that are valid at that instant.\<close>

theorem ended_session_stays_ended:
  assumes "sessions_wf db" and "find_by_sid hash db sid = Some s" and "session_dead t s"
    and "(session_step hash csrf (hash sid))\<^sup>*\<^sup>* (t, db) (t', db')"
  shows "session_validate hash db' t' sid = None"
proof -
  have s: "s \<in> set (sessions db)" "se_sid_hash s = hash sid"
    using find_by_sid_Some [OF assms(2)] by auto
  have "gone (hash sid) t db"
    unfolding gone_def
  proof (intro conjI ballI impI)
    show "sessions_wf db" by (rule assms(1))
    fix x assume "x \<in> set (sessions db)" "se_sid_hash x = hash sid"
    then have "x = s" using session_same_hash [OF assms(1) _ s(1)] s(2) by simp
    with assms(3) show "session_dead t x" by simp
  qed
  then have "gone (hash sid) (fst (t, db)) (snd (t, db))" by simp
  from session_steps_gone [OF assms(4) this] have "gone (hash sid) t' db'"
    unfolding fst_conv snd_conv .
  then show ?thesis by (rule gone_no_validate)
qed

definition one_session :: app_db where
  "one_session = \<lparr>users = [], sessions = [\<lparr>se_id = ''s'', se_sid_hash = ''c'', se_user = ''u'', se_expires = 10,
     se_last_active = 0, se_idle_minutes = 60, se_revoked_at = None\<rparr>], reg = sample_vms\<rparr>"

lemma ended_session_stays_ended_witness:
  "session_validate id (session_cleanup 20 one_session) 20 ''c'' = None"
proof -
  have "session_step id id (id ''c'') (10, one_session) (20, session_cleanup 20 one_session)"
    by (rule step_cleanup) simp
  moreover have "sessions_wf one_session" by (simp add: sessions_wf_def one_session_def)
  moreover have "find_by_sid id one_session ''c'' = Some (hd (sessions one_session))"
    "session_dead 10 (hd (sessions one_session))"
    by (simp_all add: one_session_def find_by_sid_def session_dead_def)
  ultimately show ?thesis
    by (intro ended_session_stays_ended [where hash = id and csrf = id and s = "hd (sessions one_session)"
          and t = 10 and db = one_session] r_into_rtranclp)
qed

subsection \<open>Lockout\<close>

definition named :: "string \<Rightarrow> app_db \<Rightarrow> user_row \<Rightarrow> bool" where
  "named name db u \<longleftrightarrow> find (\<lambda>u. us_username u = name) (users db) = Some u"

lemma find_map_same:
  "(\<And>x. P (f x) = P x) \<Longrightarrow> find P (map f xs) = map_option f (find P xs)"
  by (induction xs) auto

lemma named_update:
  assumes "named name db u" and "\<And>x. us_username (f x) = us_username x"
  shows "named name (update_user (us_id u) f db) (f u)"
proof -
  let ?g = "\<lambda>x. if us_id x = us_id u then f x else x"
  have "find (\<lambda>u. us_username u = name) (map ?g (users db))
      = map_option ?g (find (\<lambda>u. us_username u = name) (users db))"
    by (rule find_map_same) (simp add: assms(2))
  then show ?thesis using assms(1) by (simp add: named_def table_update_def)
qed

lemma named_revoke [simp]: "named name (revoke_all_for_user t i db) u = named name db u"
  by (simp add: named_def revoke_all_for_user_def)

lemma failed_login_open:
  assumes "named name db u" "\<not> is_locked now u" "us_failed u + 1 < m"
  shows "record_failed_login now name m l db =
    (\<lparr>lo_locked = False, lo_remaining = m - (us_failed u + 1)\<rparr>, update_user (us_id u) (bump_failed now m l) db)"
  using assms by (auto simp: record_failed_login_def named_def Let_def bump_failed_def is_locked_def)

lemma failed_login_locks:
  assumes "named name db u" "\<not> is_locked now u" "us_failed u + 1 \<ge> m" "0 < l"
  shows "record_failed_login now name m l db = (\<lparr>lo_locked = True, lo_remaining = l\<rparr>,
    revoke_all_for_user now (us_id u) (update_user (us_id u) (bump_failed now m l) db))"
  using assms by (auto simp: record_failed_login_def named_def Let_def bump_failed_def is_locked_def)

lemma failed_login_locked:
  assumes "named name db u" "is_locked now u"
  shows "snd (record_failed_login now name m l db) = db"
  using assms by (simp add: record_failed_login_def named_def)

definition failed_logins :: "string \<Rightarrow> int \<Rightarrow> int \<Rightarrow> time list \<Rightarrow> app_db \<Rightarrow> app_db" where
  "failed_logins name m l ts db = foldl (\<lambda>db t. snd (record_failed_login t name m l db)) db ts"

lemma failed_logins_open:
  assumes "named name db u" and "us_failed u = 0" "us_locked_until u = None" and "int (length ts) < m"
  shows "\<exists>v. named name (failed_logins name m l ts db) v \<and> us_id v = us_id u \<and>
    us_failed v = int (length ts) \<and> us_locked_until v = None"
  using assms(4)
proof (induction ts rule: rev_induct)
  case Nil
  then show ?case using assms by (auto simp: failed_logins_def)
next
  case (snoc t ts)
  then obtain v where v: "named name (failed_logins name m l ts db) v" "us_id v = us_id u"
    "us_failed v = int (length ts)" "us_locked_until v = None" by auto
  have "failed_logins name m l (ts @ [t]) db
      = update_user (us_id v) (bump_failed t m l) (failed_logins name m l ts db)"
    using failed_login_open [OF v(1), of t m l] v snoc.prems by (simp add: failed_logins_def is_locked_def)
  then show ?case
    using named_update [OF v(1), of "bump_failed t m l"] v snoc.prems
    by (auto simp: bump_failed_def intro!: exI [of _ "bump_failed t m l v"])
qed

lemma revoked_no_validate:
  "session_validate hash (revoke_all_for_user now uid db) t sid = Some s \<Longrightarrow> se_user s \<noteq> uid"
proof -
  let ?db = "revoke_all_for_user now uid db"
  assume "session_validate hash ?db t sid = Some s"
  then have s: "s \<in> set (sessions ?db)" "se_revoked_at s = None"
    by (auto simp: validate_iff session_dead_def dest: find_by_sid_Some)
  from s(1) have "s \<in> (\<lambda>x. if se_user x = uid \<and> se_revoked_at x = None
      then x\<lparr>se_revoked_at := Some now\<rparr> else x) ` set (sessions db)"
    unfolding revoke_all_for_user_def by simp
  then obtain x where x: "s = (if se_user x = uid \<and> se_revoked_at x = None
      then x\<lparr>se_revoked_at := Some now\<rparr> else x)"
    by (rule imageE)
  show ?thesis
  proof (cases "se_user x = uid \<and> se_revoked_at x = None")
    case True
    with x s(2) show ?thesis by simp
  next
    case False
    with x s(2) show ?thesis by simp
  qed
qed

text \<open>C11. The lockout. On a fresh account the first \<open>m - 1\<close> failed logins leave it unlocked, the
  \<open>m\<close>-th at instant \<open>t\<close> locks it for exactly \<open>l\<close> minutes and leaves no session of the user
  valid at any time; while locked further failures change nothing; and the counter survives
  the lock, so that after it has passed a single failure locks the account again.\<close>

theorem lockout_exact:
  assumes "named name db u" and "us_failed u = 0" "us_locked_until u = None"
    and "int (length ts) + 1 = m" and "0 < l"
  shows "let db' = failed_logins name m l (ts @ [t]) db in
    (\<exists>v. named name (failed_logins name m l ts db) v \<and> us_locked_until v = None) \<and>
    (\<exists>v. named name db' v \<and> us_id v = us_id u \<and> us_locked_until v = Some (t + l * 60000) \<and> us_failed v = m) \<and>
    (\<forall>hash t' sid s. session_validate hash db' t' sid = Some s \<longrightarrow> se_user s \<noteq> us_id u) \<and>
    (\<forall>t'. t' < t + l * 60000 \<longrightarrow> snd (record_failed_login t' name m l db') = db') \<and>
    (\<forall>t'. t + l * 60000 \<le> t' \<longrightarrow> lo_locked (fst (record_failed_login t' name m l db')))"
proof -
  obtain v where v: "named name (failed_logins name m l ts db) v" "us_id v = us_id u"
    "us_failed v = int (length ts)" "us_locked_until v = None"
    using failed_logins_open [OF assms(1-3), of ts m l] assms(4) by auto
  let ?f = "bump_failed t m l"
  let ?db = "failed_logins name m l (ts @ [t]) db"
  have db': "?db = revoke_all_for_user t (us_id v) (update_user (us_id v) ?f (failed_logins name m l ts db))"
    using failed_login_locks [OF v(1), of t m l] v assms by (simp add: failed_logins_def is_locked_def)
  have fv: "named name ?db (?f v)" "us_id (?f v) = us_id u" "us_locked_until (?f v) = Some (t + l * 60000)"
    "us_failed (?f v) = m"
    using named_update [OF v(1), of ?f] v assms(4) by (auto simp: db' bump_failed_def)
  have "\<forall>hash t' sid s. session_validate hash ?db t' sid = Some s \<longrightarrow> se_user s \<noteq> us_id u"
    unfolding db' v(2) using revoked_no_validate by blast
  moreover have "snd (record_failed_login t' name m l ?db) = ?db" if "t' < t + l * 60000" for t'
    using failed_login_locked [OF fv(1), of t'] fv(3) that by (simp add: is_locked_def)
  moreover have "lo_locked (fst (record_failed_login t' name m l ?db))" if "t + l * 60000 \<le> t'" for t'
    using failed_login_locks [OF fv(1), of t' m l] fv that assms(5) by (simp add: is_locked_def)
  moreover have "\<exists>v. named name (failed_logins name m l ts db) v \<and> us_locked_until v = None"
    using v(1,4) by blast
  moreover have "\<exists>v. named name ?db v \<and> us_id v = us_id u \<and> us_locked_until v = Some (t + l * 60000) \<and> us_failed v = m"
    using fv by blast
  ultimately show ?thesis
    unfolding Let_def by (intro conjI allI impI; blast?)
qed

lemma lockout_exact_witness:
  "lo_locked (fst (record_failed_login 3000000 ''ann'' 2 15 (failed_logins ''ann'' 2 15 [1, 2] (two_admins None))))"
proof -
  have "named ''ann'' (two_admins None) (new_user 0 admin_a ''ann'' None None ''h'')"
    by (simp add: named_def two_admins_def new_user_def)
  from lockout_exact [OF this, of "[1]" 2 15 2] show ?thesis
    by (simp add: new_user_def Let_def)
qed

subsection \<open>The request gate\<close>

lemma fast_path_resolved:
  assumes "has_permission (Some (assemble_user db now r)) p"
  shows "map_has (permissions (resolve_effective_access db now (us_id r))) p"
proof -
  obtain k where k: "k \<in> set (roles_of db now (us_id r))" "p \<in> set (permissions_for_role k)"
    using assms by (auto simp: has_permission_def assemble_user_def list_ex_iff)
  then obtain x where x: "role_held db now (us_id r) x" "role_name x = role_name_of k"
    unfolding roles_of_def set_dedup in_valid_roles using set_live_user_roles by auto
  have "k \<noteq> GUEST" using k(2) by (auto simp: permissions_for_role.simps)
  then have "k \<in> {ADMIN, OPERATOR, USER}" by (cases k) simp_all
  then have "grants_by_role db now (us_id r) p (role_source x)"
    unfolding grants_by_role_def using x k(2) by blast
  then show ?thesis unfolding resolve_has_iff grants_permission_def by blast
qed

lemma require_permission_iff:
  assumes "u = assemble_user (db_iam db) now r"
  shows "require_permission db now (Some u) wanted = Inr v \<longleftrightarrow> v = u \<and>
    (\<exists>p \<in> set wanted. map_has (permissions (resolve_effective_access (db_iam db) now (u_id u))) p)"
proof -
  have "u_id u = us_id r" using assms by (simp add: assemble_user_def)
  then show ?thesis
    using fast_path_resolved [of "db_iam db" now r] assms
    by (auto simp: require_permission_def Let_def list_ex_iff)
qed

definition csrf_ok :: "(string \<Rightarrow> string) \<Rightarrow> http_request \<Rightarrow> bool" where
  "csrf_ok csrf rq \<longleftrightarrow> safe_method (rq_method rq) \<or> rq_csrf_skip rq \<or>
     truthy (rq_csrf_header rq) \<and> rq_csrf_header rq = Some (csrf (the (rq_cookie rq)))"

lemma touch_reg [simp]: "reg (session_touch t i db) = reg db"
  by (simp add: session_touch_def update_session_def)

lemma pre_handler_valid:
  assumes "find_by_sid hash db (the (rq_cookie rq)) = Some s" and "truthy (rq_cookie rq)"
  shows "pre_handler hash csrf now rq (Some i) db =
    (if csrf_ok csrf rq
     then (Inr (), if safe_method (rq_method rq) \<or> rq_csrf_skip rq then db else session_touch now i db)
     else (fst (pre_handler hash csrf now rq (Some i) db), db))"
    and "\<not> csrf_ok csrf rq \<Longrightarrow> \<exists>m. fst (pre_handler hash csrf now rq (Some i) db) = Inl (err_forbidden m)"
  using assms
  by (auto simp: pre_handler_def csrf_ok_def check_csrf_def Let_def truthy_def split: option.splits)

text \<open>C9. The gate of a route. A request passes, as user \<open>u\<close>, exactly when its cookie names a
  session that is valid now, the session's user exists and is active, a write carries the CSRF
  token of its own session (unless the route opts out), and the effective-access resolver
  confers one of the wanted permissions: the role fast path never lets through more. A write
  with a missing or wrong token is refused with 403 and does not keep the session alive.\<close>

theorem gate_exact:
  "(fst (authorize hash csrf now rq wanted db) = Inr u \<longleftrightarrow>
     truthy (rq_cookie rq) \<and> csrf_ok csrf rq \<and>
     (\<exists>s. session_validate hash db now (the (rq_cookie rq)) = Some s \<and> find_user db now (se_user s) = Some u) \<and>
     u_active u \<and> (\<exists>p \<in> set wanted. map_has (permissions (resolve_effective_access (db_iam db) now (u_id u))) p)) \<and>
   (fst (on_request hash now rq db) \<noteq> None \<and> \<not> csrf_ok csrf rq \<longrightarrow>
     (\<exists>m. authorize hash csrf now rq wanted db = (Inl (err_forbidden m), db)))"
proof -
  obtain who db1 where o: "on_request hash now rq db = (who, db1)" by (cases "on_request hash now rq db")
  from o show ?thesis
  proof (cases rule: on_request_cases)
    case none
    have "\<not> (truthy (rq_cookie rq) \<and> session_validate hash db now (the (rq_cookie rq)) = Some s \<and>
        find_user db now (se_user s) = Some u \<and> u_active u)" for s
      using o none by (auto simp: on_request_def split: if_splits)
    moreover have "fst (authorize hash csrf now rq wanted db) \<noteq> Inr u"
      using o none by (auto simp: authorize_def require_permission_def split: sum.splits prod.splits)
    ultimately show ?thesis using o none by auto
  next
    case (some s v)
    have sid: "find_by_sid hash db (the (rq_cookie rq)) = Some s" using some(1) by (simp add: validate_iff)
    obtain r where r: "v = assemble_user (db_iam db) now r" using find_user_Some [OF some(3)] by blast
    show ?thesis
    proof (cases "csrf_ok csrf rq")
      case True
      have "\<exists>d. reg d = reg db \<and> pre_handler hash csrf now rq (Some (se_id s)) db1 = (Inr (), d)"
      proof (cases "safe_method (rq_method rq)")
        case True
        then show ?thesis using some(6) by (simp add: pre_handler_def)
      next
        case False
        then show ?thesis using pre_handler_valid(1) [OF sid some(2), of csrf now "se_id s"] \<open>csrf_ok csrf rq\<close> some(6)
          by simp
      qed
      then obtain d where d: "reg d = reg db" "pre_handler hash csrf now rq (Some (se_id s)) db1 = (Inr (), d)"
        by blast
      have "authorize hash csrf now rq wanted db = (require_permission d now (Some v) wanted, d)"
        using o some(5) d by (simp add: authorize_def)
      moreover have "v = assemble_user (db_iam d) now r" using r d by simp
      ultimately show ?thesis
        using require_permission_iff [of v d now r wanted u] some True d by auto
    next
      case False
      then have "db1 = db" using some(6) by (auto simp: csrf_ok_def)
      moreover obtain m where "pre_handler hash csrf now rq (Some (se_id s)) db = (Inl (err_forbidden m), db)"
        using pre_handler_valid [OF sid some(2), of csrf now "se_id s"] False by (metis prod.collapse fst_conv)
      ultimately have "authorize hash csrf now rq wanted db = (Inl (err_forbidden m), db)"
        using o some(5) by (simp add: authorize_def)
      then show ?thesis using False by auto
    qed
  qed
qed

definition admin_session :: app_db where
  "admin_session = (two_admins None)\<lparr>sessions := [\<lparr>se_id = ''s'', se_sid_hash = ''c'', se_user = admin_a,
     se_expires = 10, se_last_active = 0, se_idle_minutes = 60, se_revoked_at = None\<rparr>]\<rparr>"

lemma gate_exact_witness:
  "\<not> csrf_ok id \<lparr>rq_method = ''POST'', rq_cookie = Some ''c'', rq_csrf_header = Some ''x'', rq_csrf_skip = False\<rparr> \<and>
   (\<exists>m. authorize id id 5 \<lparr>rq_method = ''POST'', rq_cookie = Some ''c'', rq_csrf_header = Some ''x'',
      rq_csrf_skip = False\<rparr> [''vm.list''] admin_session = (Inl (err_forbidden m), admin_session))"
proof -
  let ?rq = "\<lparr>rq_method = ''POST'', rq_cookie = Some ''c'', rq_csrf_header = Some ''x'', rq_csrf_skip = False\<rparr>"
  have "\<not> csrf_ok id ?rq" by (simp add: csrf_ok_def safe_method_def)
  moreover have "fst (on_request id 5 ?rq admin_session) \<noteq> None" by code_simp
  ultimately show ?thesis
    using gate_exact [of id id 5 ?rq "[''vm.list'']" admin_session] by blast
qed

end
