(* ===== verification/Audit_Log.thy ===== *)
theory Audit_Log
  imports Prelude
begin

text \<open>
  The audit trail (\<open>packages/core/src/services/audit.ts\<close>): redaction of secrets, the insert,
  the filtered list and the retention sweep. The table is a list of rows in insertion order;
  row identifiers are not kept.
\<close>

record audit_entry =
  au_event :: string
  au_actor :: "string option"
  au_actor_name :: "string option"
  au_vm :: "string option"
  au_job :: "string option"
  au_ip :: "string option"
  au_detail :: "json option"

type_synonym audit_log = "(time \<times> audit_entry) list"

subsection \<open>Redaction\<close>

definition FORBIDDEN_DETAIL_KEYS :: "string list" where
  "FORBIDDEN_DETAIL_KEYS = [''password'', ''newPassword'', ''token'', ''tokenSecret'', ''secret'',
     ''masterKey'', ''sessionKey'', ''credentials'', ''authorization'', ''cookie'', ''authToken'',
     ''cipassword'', ''passthrough'']"

definition FORBIDDEN_SUBSTRINGS :: "string list" where
  "FORBIDDEN_SUBSTRINGS = [''password'', ''passwd'', ''token'', ''secret'', ''apikey'', ''privatekey'',
     ''passphrase'', ''sshkey'', ''credential'']"

definition normalize_key :: "string \<Rightarrow> string" where
  "normalize_key k = filter (\<lambda>c. c \<noteq> CHR ''_'' \<and> c \<noteq> CHR ''-'') (to_lower k)"

definition is_sensitive_key :: "string \<Rightarrow> bool" where
  "is_sensitive_key key \<longleftrightarrow>
     normalize_key key \<in> set (map normalize_key FORBIDDEN_DETAIL_KEYS) \<or>
     list_ex (\<lambda>s. contains_str (normalize_key key) s) FORBIDDEN_SUBSTRINGS"

definition redacted :: json where
  "redacted = JStr ''[REDACTED]''"

fun sanitize_value :: "nat \<Rightarrow> json \<Rightarrow> json" where
  "sanitize_value d v =
     (if d > 5 then redacted
      else case v of
          JArr vs \<Rightarrow> JArr (map (sanitize_value (Suc d)) vs)
        | JObj fs \<Rightarrow> JObj (map (\<lambda>f. (fst f,
            if is_sensitive_key (fst f) then redacted else sanitize_value (Suc d) (snd f))) fs)
        | _ \<Rightarrow> v)"

declare sanitize_value.simps [simp del]

definition sanitize_detail :: "nat \<Rightarrow> (string \<times> json) list \<Rightarrow> (string \<times> json) list" where
  "sanitize_detail d fs = map (\<lambda>f. (fst f,
     if is_sensitive_key (fst f) then redacted else sanitize_value d (snd f))) fs"

text \<open>The recursive call of the code on a nested object is \<open>sanitize_detail\<close> one level deeper.\<close>

lemma sanitize_value_obj: "d \<le> 5 \<Longrightarrow> sanitize_value d (JObj fs) = JObj (sanitize_detail (Suc d) fs)"
  by (simp add: sanitize_value.simps [of d] sanitize_detail_def)

definition audit_record :: "time \<Rightarrow> audit_entry \<Rightarrow> audit_log \<Rightarrow> audit_log" where
  "audit_record now e log =
     log @ [(now, e\<lparr>au_detail := (case au_detail e of
        Some (JObj fs) \<Rightarrow> Some (JObj (sanitize_detail 0 fs))
      | _ \<Rightarrow> None)\<rparr>)]"

text \<open>
  The window in days is given as its floor, \<open>None\<close> when it is not finite: a number is under 1
  exactly when its floor is.
\<close>

definition prune :: "time \<Rightarrow> int option \<Rightarrow> (audit_log, nat) comp" where
  "prune now older_than_days log =
     (case older_than_days of
        None \<Rightarrow> throw (err_validation ''retention must be at least 1 day'') log
      | Some d \<Rightarrow>
         (if d < 1 then throw (err_validation ''retention must be at least 1 day'') log
          else let old = (\<lambda>r :: time \<times> audit_entry. fst r < now - d * (24 * 3600 * 1000))
               in (Inr (length (filter old log)), table_delete old log)))"

subsection \<open>The list\<close>

definition escape_like :: "string \<Rightarrow> string" where
  "escape_like v = concat (map (\<lambda>c. if c = CHR 0x5C \<or> c = CHR ''%'' \<or> c = CHR ''_'' then [CHR 0x5C, c] else [c]) v)"

text \<open>\<open>LIKE\<close> of PostgreSQL: \<open>%\<close> is any run, \<open>_\<close> any character, a backslash quotes the next one.\<close>

fun like :: "string \<Rightarrow> string \<Rightarrow> bool" where
  "like [] s = (s = [])"
| "like (p # ps) s =
     (if p = CHR ''%'' then like ps s \<or> (case s of [] \<Rightarrow> False | _ # t \<Rightarrow> like (p # ps) t)
      else if p = CHR ''_'' then (case s of [] \<Rightarrow> False | _ # t \<Rightarrow> like ps t)
      else if p = CHR 0x5C
      then (case ps of [] \<Rightarrow> False | q # qs \<Rightarrow> (case s of [] \<Rightarrow> False | c # t \<Rightarrow> c = q \<and> like qs t))
      else (case s of [] \<Rightarrow> False | c # t \<Rightarrow> c = p \<and> like ps t))"

declare like.simps(2) [simp del]

definition ilike :: "string \<Rightarrow> string \<Rightarrow> bool" where
  "ilike pattern s = like (to_lower pattern) (to_lower s)"

record audit_filter =
  af_limit :: "nat option"
  af_offset :: "nat option"
  af_event :: "string option"
  af_vm :: "string option"
  af_actor :: "string option option"
  af_actor_name :: "string option"
  af_ip :: "string option"
  af_since :: "time option"
  af_until :: "time option"

definition nonempty :: "string option \<Rightarrow> bool" where
  "nonempty x \<longleftrightarrow> (case x of None \<Rightarrow> False | Some s \<Rightarrow> s \<noteq> [])"

text \<open>
  \<open>actor_user_id = NULL\<close> is never true, so an explicit null actor selects no row.
\<close>

definition audit_matches :: "audit_filter \<Rightarrow> time \<times> audit_entry \<Rightarrow> bool" where
  "audit_matches f r \<longleftrightarrow>
     (nonempty (af_event f) \<longrightarrow> af_event f = Some (au_event (snd r))) \<and>
     (nonempty (af_vm f) \<longrightarrow> au_vm (snd r) = af_vm f) \<and>
     (case af_actor f of None \<Rightarrow> True | Some a \<Rightarrow> a \<noteq> None \<and> au_actor (snd r) = a) \<and>
     (nonempty (af_actor_name f) \<longrightarrow> (case au_actor_name (snd r) of None \<Rightarrow> False
        | Some n \<Rightarrow> ilike (''%'' @ escape_like (the (af_actor_name f)) @ ''%'') n)) \<and>
     (nonempty (af_ip f) \<longrightarrow> au_ip (snd r) = af_ip f) \<and>
     (case af_since f of None \<Rightarrow> True | Some t \<Rightarrow> fst r \<ge> t) \<and>
     (case af_until f of None \<Rightarrow> True | Some t \<Rightarrow> fst r \<le> t)"

definition audit_list :: "audit_log \<Rightarrow> audit_filter \<Rightarrow> (time \<times> audit_entry) list" where
  "audit_list log f =
     take (case af_limit f of None \<Rightarrow> 50 | Some n \<Rightarrow> n)
       (drop (case af_offset f of None \<Rightarrow> 0 | Some n \<Rightarrow> n)
         (sort_key (\<lambda>r. - fst r) (filter (audit_matches f) log)))"

end
