(* ===== verification/Audit_Props.thy ===== *)
theory Audit_Props
  imports Audit_Log
begin

text \<open>
  Properties of the audit trail: no secret is stored, redaction is idempotent and keeps
  everything else, retention removes exactly the rows older than its window, and the free-text filter is
  a literal substring search.
\<close>

subsection \<open>Redaction\<close>

lemma contains_str_iff: "contains_str s p \<longleftrightarrow> (\<exists>a b. s = a @ p @ b)"
proof (induction s)
  case (Cons c s)
  have "contains_str (c # s) p \<longleftrightarrow> (\<exists>b. c # s = p @ b) \<or> (\<exists>a b. s = a @ p @ b)"
    by (simp add: Cons.IH starts_with_iff)
  also have "\<dots> \<longleftrightarrow> (\<exists>a b. c # s = a @ p @ b)"
    by (metis append_Cons append_Nil list.inject neq_Nil_conv)
  finally show ?case .
qed simp

text \<open>
  The keys that must not carry a value, letter case, hyphens and underscores aside: five names,
  and whatever contains one of nine words.
\<close>

definition secret_names :: "string set" where
  "secret_names = {''masterkey'', ''sessionkey'', ''authorization'', ''cookie'', ''passthrough''}"

definition secret_words :: "string set" where
  "secret_words = {''password'', ''passwd'', ''token'', ''secret'', ''apikey'', ''privatekey'', ''passphrase'', ''sshkey'', ''credential''}"

definition secret_key :: "string \<Rightarrow> bool" where
  "secret_key key \<longleftrightarrow> (let n = filter (\<lambda>c. c \<notin> {CHR ''-'', CHR ''_''}) (to_lower key)
     in n \<in> secret_names \<or> (\<exists>w \<in> secret_words. \<exists>a b. n = a @ w @ b))"

lemma sensitive_iff: "is_sensitive_key key \<longleftrightarrow> secret_key key"
proof -
  let ?n = "normalize_key key"
  have n: "?n = filter (\<lambda>c. c \<notin> {CHR ''-'', CHR ''_''}) (to_lower key)"
    unfolding normalize_key_def by (rule filter_cong) auto
  have words: "list_ex (contains_str ?n) FORBIDDEN_SUBSTRINGS \<longleftrightarrow> (\<exists>w \<in> secret_words. \<exists>a b. ?n = a @ w @ b)"
    by (simp only: FORBIDDEN_SUBSTRINGS_def secret_words_def list_ex_iff contains_str_iff [symmetric] list.set)
  have exact: "map normalize_key FORBIDDEN_DETAIL_KEYS = [''password'', ''newpassword'', ''token'', ''tokensecret'', ''secret'',
     ''masterkey'', ''sessionkey'', ''credentials'', ''authorization'', ''cookie'', ''authtoken'', ''cipassword'', ''passthrough'']"
    by code_simp
  have "list_all (\<lambda>k. k \<in> set [''masterkey'', ''sessionkey'', ''authorization'', ''cookie'', ''passthrough'']
      \<or> list_ex (contains_str k) FORBIDDEN_SUBSTRINGS) (map normalize_key FORBIDDEN_DETAIL_KEYS)"
    by code_simp
  then have "?n \<in> set (map normalize_key FORBIDDEN_DETAIL_KEYS) \<Longrightarrow>
      ?n \<in> secret_names \<or> list_ex (contains_str ?n) FORBIDDEN_SUBSTRINGS"
    by (auto simp: list_all_iff secret_names_def simp del: set_map)
  moreover have "secret_names \<subseteq> set (map normalize_key FORBIDDEN_DETAIL_KEYS)"
    unfolding exact secret_names_def by simp
  ultimately have "is_sensitive_key key \<longleftrightarrow> ?n \<in> secret_names \<or> list_ex (contains_str ?n) FORBIDDEN_SUBSTRINGS"
    unfolding is_sensitive_key_def by blast
  then show ?thesis unfolding words secret_key_def Let_def n [symmetric] .
qed

text \<open>\<open>clean v\<close>: wherever an object occurs in \<open>v\<close>, its secret keys hold the redaction mark.\<close>

fun clean :: "json \<Rightarrow> bool" where
  "clean (JArr vs) = list_all clean vs"
| "clean (JObj fs) = list_all (\<lambda>f. (secret_key (fst f) \<longrightarrow> snd f = JStr ''[REDACTED]'') \<and> clean (snd f)) fs"
| "clean v = True"

lemma clean_obj: "clean (JObj fs) = list_all (\<lambda>f. (is_sensitive_key (fst f) \<longrightarrow> snd f = redacted) \<and> clean (snd f)) fs"
  by (simp add: sensitive_iff redacted_def)

declare clean.simps(2) [simp del]
declare clean_obj [simp]

lemma clean_redacted [simp]: "clean redacted"
  by (simp add: redacted_def)

lemma clean_sanitize_value: "clean (sanitize_value d v)"
proof (induction d v rule: sanitize_value.induct)
  case (1 d v)
  show ?case
  proof (cases v)
    case (JArr vs)
    with 1(1) show ?thesis
      by (simp add: sanitize_value.simps [of d] list.pred_map list.pred_set)
  next
    case (JObj fs)
    with 1(2) show ?thesis
      by (auto simp add: sanitize_value.simps [of d] list.pred_map list.pred_set)
  qed (simp_all add: sanitize_value.simps [of d])
qed

lemma clean_sanitize_detail: "clean (JObj (sanitize_detail d fs))"
  by (auto simp: sanitize_detail_def list.pred_map list.pred_set clean_sanitize_value)

fun json_depth :: "json \<Rightarrow> nat" where
  "json_depth (JArr vs) = Suc (fold max (map json_depth vs) 0)"
| "json_depth (JObj fs) = Suc (fold max (map (\<lambda>f. json_depth (snd f)) fs) 0)"
| "json_depth v = 0"

lemma le_fold_max: "x \<in> set xs \<or> x \<le> a \<Longrightarrow> x \<le> fold max xs (a :: nat)"
proof (induction xs arbitrary: a)
  case (Cons y ys)
  have "x \<le> fold max ys (max y a)"
    by (rule Cons.IH) (use Cons.prems in auto)
  then show ?case by simp
qed simp

lemma sanitize_keeps_clean:
  "clean v \<Longrightarrow> d + json_depth v \<le> 5 \<Longrightarrow> sanitize_value d v = v"
proof (induction d v rule: sanitize_value.induct)
  case (1 d v)
  show ?case
  proof (cases v)
    case (JArr vs)
    have "sanitize_value (Suc d) x = x" if "x \<in> set vs" for x
    proof (rule 1(1))
      have "json_depth x \<le> fold max (map json_depth vs) 0"
        by (rule le_fold_max) (use that in auto)
      with 1(4) JArr show "Suc d + json_depth x \<le> 5" by simp
    qed (use 1(3,4) JArr that in \<open>auto simp: list_all_iff\<close>)
    with 1(4) JArr show ?thesis
      by (simp add: sanitize_value.simps [of d] map_idI)
  next
    case (JObj fs)
    have "sanitize_value (Suc d) (snd f) = snd f" if "f \<in> set fs" "\<not> is_sensitive_key (fst f)" for f
    proof (rule 1(2))
      have "json_depth (snd f) \<le> fold max (map (\<lambda>f. json_depth (snd f)) fs) 0"
        by (rule le_fold_max) (use that in auto)
      with 1(4) JObj show "Suc d + json_depth (snd f) \<le> 5" by simp
    qed (use 1(3,4) JObj that in \<open>auto simp: list_all_iff\<close>)
    then have "map (\<lambda>f. (fst f, if is_sensitive_key (fst f) then redacted else sanitize_value (Suc d) (snd f))) fs = fs"
      using 1(3) JObj by (intro map_idI) (auto simp: list_all_iff prod_eq_iff)
    with 1(4) JObj show ?thesis
      by (simp add: sanitize_value.simps [of d])
  qed (use 1(4) in \<open>simp_all add: sanitize_value.simps [of d]\<close>)
qed

lemma sanitize_detail_keeps_clean:
  assumes "clean (JObj fs)" "json_depth (JObj fs) \<le> 6"
  shows "sanitize_detail 0 fs = fs"
  unfolding sanitize_detail_def
proof (rule map_idI)
  fix f assume f: "f \<in> set fs"
  have "json_depth (snd f) \<le> fold max (map (\<lambda>f. json_depth (snd f)) fs) 0"
    by (rule le_fold_max) (use f in auto)
  with assms f have "sanitize_value 0 (snd f) = snd f"
    by (intro sanitize_keeps_clean) (auto simp: list_all_iff)
  with assms(1) f show "(fst f, if is_sensitive_key (fst f) then redacted else sanitize_value 0 (snd f)) = f"
    by (auto simp: list_all_iff prod_eq_iff)
qed

definition clean_log :: "audit_log \<Rightarrow> bool" where
  "clean_log log \<longleftrightarrow> (\<forall>r \<in> set log. case au_detail (snd r) of
       None \<Rightarrow> True | Some d \<Rightarrow> (case d of JObj fs \<Rightarrow> clean d | _ \<Rightarrow> False))"

lemma clean_log_record: "clean_log log \<Longrightarrow> clean_log (audit_record now e log)"
  by (auto simp: clean_log_def audit_record_def clean_sanitize_detail simp del: clean.simps clean_obj
      split: option.splits json.splits)

lemma clean_log_prune: "clean_log log \<Longrightarrow> clean_log (snd (prune now d log))"
  by (auto simp: clean_log_def prune_def throw_def Let_def split: option.splits)

text \<open>The retention sweep.\<close>

lemma prune_exact:
  "prune now d log =
     (case d of None \<Rightarrow> (Inl (err_validation ''retention must be at least 1 day''), log)
      | Some n \<Rightarrow> if n < 1 then (Inl (err_validation ''retention must be at least 1 day''), log)
          else (Inr (length (filter (\<lambda>r. fst r < now - n * 86400000) log)),
                filter (\<lambda>r. \<not> fst r < now - n * 86400000) log))"
  by (simp add: prune_def throw_def table_delete_def split: option.splits)

lemma prune_keeps_recent:
  assumes "r \<in> set log" "now - 86400000 \<le> fst r"
  shows "r \<in> set (snd (prune now d log))"
proof (cases d)
  case (Some n)
  have "\<not> fst r < now - n * 86400000" if "1 \<le> n"
    using assms(2) that by linarith
  with assms(1) Some show ?thesis by (auto simp: prune_exact)
qed (simp add: prune_exact assms(1))

text \<open>The two writes of the service, one after another.\<close>

datatype audit_write = Record time audit_entry | Sweep time "int option"

fun write_audit :: "audit_write \<Rightarrow> audit_log \<Rightarrow> audit_log" where
  "write_audit (Record now e) log = audit_record now e log"
| "write_audit (Sweep now d) log = snd (prune now d log)"

lemma clean_log_writes: "clean_log log \<Longrightarrow> clean_log (fold write_audit ws log)"
proof (induction ws arbitrary: log)
  case (Cons w ws)
  have "clean_log (write_audit w log)"
    using Cons.prems clean_log_record clean_log_prune by (cases w) auto
  from Cons.IH [OF this] show ?case by simp
qed simp

text \<open>C18. The trail never holds a secret. After any sequence of recorded events and retention sweeps,
  whatever the events carry, every stored detail is an object in which, at any depth, each key
  that names a password, token, secret, API key, private key, passphrase, SSH key, credential,
  master or session key, authorization or cookie holds the redaction mark. Recording adds one row
  at the end and changes no other; the row is the event with its detail redacted, under the same
  keys, and the event itself when its detail has no secret and is nested at most six levels deep;
  a detail that is no object is dropped. A sweep refuses a window under one day and deletes
  nothing then; else it deletes exactly the rows older than the window.\<close>

theorem audit_trail_is_clean:
  assumes "clean_log log"
  shows "clean_log (fold write_audit ws log)
    \<and> (\<exists>detail. audit_record now x log = log @ [(now, x\<lparr>au_detail := detail\<rparr>)]
        \<and> (case au_detail x of
             Some (JObj fs) \<Rightarrow> (\<exists>gs. detail = Some (JObj gs) \<and> map fst gs = map fst fs \<and> clean (JObj gs)
               \<and> (clean (JObj fs) \<and> json_depth (JObj fs) \<le> 6 \<longrightarrow> gs = fs))
           | _ \<Rightarrow> detail = None))
    \<and> prune now d log =
        (case d of
           None \<Rightarrow> (Inl (err_validation ''retention must be at least 1 day''), log)
         | Some n \<Rightarrow> if n < 1 then (Inl (err_validation ''retention must be at least 1 day''), log)
             else (Inr (length (filter (\<lambda>r. fst r < now - n * 86400000) log)),
                   filter (\<lambda>r. now - n * 86400000 \<le> fst r) log))"
proof (intro conjI)
  show "clean_log (fold write_audit ws log)" using assms by (rule clean_log_writes)
  have "map fst (sanitize_detail 0 fs) = map fst fs" for fs by (simp add: sanitize_detail_def)
  then show "\<exists>detail. audit_record now x log = log @ [(now, x\<lparr>au_detail := detail\<rparr>)]
        \<and> (case au_detail x of
             Some (JObj fs) \<Rightarrow> (\<exists>gs. detail = Some (JObj gs) \<and> map fst gs = map fst fs \<and> clean (JObj gs)
               \<and> (clean (JObj fs) \<and> json_depth (JObj fs) \<le> 6 \<longrightarrow> gs = fs))
           | _ \<Rightarrow> detail = None)"
    using clean_sanitize_detail sanitize_detail_keeps_clean
    by (auto simp: audit_record_def simp del: clean_obj json_depth.simps split: option.split json.split)
  show "prune now d log =
        (case d of
           None \<Rightarrow> (Inl (err_validation ''retention must be at least 1 day''), log)
         | Some n \<Rightarrow> if n < 1 then (Inl (err_validation ''retention must be at least 1 day''), log)
             else (Inr (length (filter (\<lambda>r. fst r < now - n * 86400000) log)),
                   filter (\<lambda>r. now - n * 86400000 \<le> fst r) log))"
    unfolding prune_exact by (simp only: not_less)
qed

definition sample_event :: audit_entry where
  "sample_event = \<lparr>au_event = ''PASSWORD_CREATED'', au_actor = Some ''u1'', au_actor_name = Some ''alice'',
     au_vm = Some ''v1'', au_job = None, au_ip = None,
     au_detail = Some (JObj [(''username'', JStr ''deploy''), (''new_Password'', redacted)])\<rparr>"

lemma audit_trail_is_clean_witness:
  "clean_log (fold write_audit [Record 5 (sample_event\<lparr>au_detail := Some (JObj [(''api-key'', JStr ''x'')])\<rparr>), Sweep 9 (Some 1)]
     [(7, sample_event)])
   \<and> prune 86400006 (Some 1) [(7, sample_event)] = (Inr 0, [(7, sample_event)])"
proof -
  have 1: "clean_log [(7, sample_event)]"
    by (simp add: clean_log_def sample_event_def is_sensitive_key_def) code_simp
  from audit_trail_is_clean [OF 1, of "[Record 5 (sample_event\<lparr>au_detail := Some (JObj [(''api-key'', JStr ''x'')])\<rparr>), Sweep 9 (Some 1)]"
      86400006 sample_event "Some 1"] show ?thesis by simp
qed

subsection \<open>The free-text filter\<close>

lemma like_percent: "like [CHR ''%''] s"
  by (induction s) (simp_all add: like.simps(2))

lemma like_escaped:
  "like (escape_like v @ ps) s \<longleftrightarrow> (\<exists>t. s = v @ t \<and> like ps t)"
proof (induction v arbitrary: s)
  case Nil
  show ?case by (simp add: escape_like_def)
next
  case (Cons c v)
  have e: "escape_like (c # v) = (if c = CHR 0x5C \<or> c = CHR ''%'' \<or> c = CHR ''_'' then [CHR 0x5C, c] else [c])
      @ escape_like v"
    by (simp add: escape_like_def)
  show ?case
    using Cons.IH by (cases s) (auto simp: e like.simps(2))
qed

lemma like_anywhere:
  "like (CHR ''%'' # ps) s \<longleftrightarrow> (\<exists>a b. s = a @ b \<and> like ps b)"
proof (induction s)
  case Nil
  show ?case by (simp add: like.simps(2))
next
  case (Cons c s)
  have "like (CHR ''%'' # ps) (c # s) \<longleftrightarrow> like ps (c # s) \<or> (\<exists>a b. s = a @ b \<and> like ps b)"
    using Cons.IH by (simp add: like.simps(2))
  also have "\<dots> \<longleftrightarrow> (\<exists>a b. c # s = a @ b \<and> like ps b)"
    by (auto simp: append_eq_Cons_conv Cons_eq_append_conv)
  finally show ?case .
qed

lemma like_contains: "like (''%'' @ escape_like v @ ''%'') s \<longleftrightarrow> (\<exists>a b. s = a @ v @ b)"
  by (auto simp: like_anywhere like_escaped like_percent)

lemma to_lower_append [simp]: "to_lower (a @ b) = to_lower a @ to_lower b"
  by (simp add: to_lower_def)

text \<open>Lower case neither makes nor removes a character that \<open>escape_like\<close> quotes.\<close>

definition lower_char :: "char \<Rightarrow> char" where
  "lower_char c = (if 65 \<le> (of_char c :: nat) \<and> (of_char c :: nat) \<le> 90
                   then char_of ((of_char c :: nat) + 32) else c)"

lemma to_lower_map: "to_lower s = map lower_char s"
  by (simp add: to_lower_def lower_char_def)

lemma lower_char_eq_iff:
  assumes "(of_char q :: nat) < 65 \<or> 90 < (of_char q :: nat) \<and> (of_char q :: nat) < 97"
  shows "lower_char c = q \<longleftrightarrow> c = q"
proof (cases "65 \<le> (of_char c :: nat) \<and> (of_char c :: nat) \<le> 90")
  case True
  then have "(of_char (lower_char c) :: nat) = of_char c + 32"
    by (simp add: lower_char_def of_char_of)
  with True assms show ?thesis by fastforce
qed (auto simp: lower_char_def)

lemma to_lower_escape: "to_lower (escape_like v) = escape_like (to_lower v)"
proof (induction v)
  case (Cons c v)
  have q: "lower_char c = q \<longleftrightarrow> c = q" if "q \<in> {CHR 0x5C, CHR ''%'', CHR ''_''}" for q
    by (rule lower_char_eq_iff) (use that in auto)
  have b: "lower_char CHR 0x5C = CHR 0x5C"
    by code_simp
  have e: "escape_like (x # xs) = (if x \<in> {CHR 0x5C, CHR ''%'', CHR ''_''} then [CHR 0x5C, x] else [x])
      @ escape_like xs" for x xs
    by (simp add: escape_like_def)
  have h: "to_lower (c # v) = lower_char c # to_lower v"
    by (simp add: to_lower_map)
  show ?case
  proof (cases "c \<in> {CHR 0x5C, CHR ''%'', CHR ''_''}")
    case True
    with q have "lower_char c = c" by blast
    with True b Cons show ?thesis
      unfolding e h by (simp add: to_lower_map)
  next
    case False
    with q have "lower_char c \<notin> {CHR 0x5C, CHR ''%'', CHR ''_''}" by blast
    with False Cons show ?thesis
      unfolding e h by (simp add: to_lower_map)
  qed
qed (simp add: escape_like_def to_lower_def)

lemma ilike_contains:
  "ilike (''%'' @ escape_like v @ ''%'') n \<longleftrightarrow> contains_str (to_lower n) (to_lower v)"
proof -
  have "to_lower ''%'' = ''%''" by code_simp
  then have "to_lower (''%'' @ escape_like v @ ''%'') = ''%'' @ escape_like (to_lower v) @ ''%''"
    by (simp only: to_lower_append to_lower_escape)
  then show ?thesis
    by (simp only: ilike_def like_contains contains_str_iff)
qed

text \<open>The free-text filter of the audit list is literal. For any text a caller enters,
  wildcards and backslashes included, a row passes exactly when its actor name contains the
  text, letter case aside; a page lists only rows that pass, newest first and at most as many
  as the limit.\<close>

theorem audit_filter_is_literal:
  assumes "af_actor_name f = Some v" "v \<noteq> []"
    and "r \<in> set (audit_list log f)"
  shows "(\<exists>n. au_actor_name (snd r) = Some n \<and> contains_str (to_lower n) (to_lower v))
    \<and> r \<in> set log \<and> sorted (map (\<lambda>x. - fst x) (audit_list log f))
    \<and> (\<forall>m. af_limit f = Some m \<longrightarrow> length (audit_list log f) \<le> m)
    \<and> (audit_matches f x \<longleftrightarrow> audit_matches (f\<lparr>af_actor_name := None\<rparr>) x \<and>
         (\<exists>n. au_actor_name (snd x) = Some n \<and> contains_str (to_lower n) (to_lower v)))"
proof -
  have m: "audit_matches f x \<longleftrightarrow> audit_matches (f\<lparr>af_actor_name := None\<rparr>) x \<and>
      (\<exists>n. au_actor_name (snd x) = Some n \<and> contains_str (to_lower n) (to_lower v))" for x
    using assms(1,2) ilike_contains [of v]
    by (cases "au_actor_name (snd x)") (auto simp: audit_matches_def nonempty_def)
  have "r \<in> set (sort_key (\<lambda>r. - fst r) (filter (audit_matches f) log))"
    using assms(3) unfolding audit_list_def by (rule in_set_dropD [OF in_set_takeD])
  then have r: "r \<in> set log" "audit_matches f r" by auto
  have "sorted (map (\<lambda>x. - fst x) (audit_list log f))"
    unfolding audit_list_def take_map [symmetric] drop_map [symmetric]
    by (simp add: sorted_wrt_take sorted_wrt_drop)
  with m [of r] m [of x] r show ?thesis
    by (auto simp: audit_list_def)
qed

definition all_events :: audit_filter where
  "all_events = \<lparr>af_limit = None, af_offset = None, af_event = None, af_vm = None, af_actor = None,
     af_actor_name = Some ''LI'', af_ip = None, af_since = None, af_until = None\<rparr>"

lemma audit_filter_is_literal_witness:
  "\<exists>n. au_actor_name sample_event = Some n \<and> contains_str (to_lower n) (to_lower ''LI'')"
proof -
  have "(5, sample_event) \<in> set (audit_list [(5, sample_event)] all_events)"
    by code_simp
  moreover have "af_actor_name all_events = Some ''LI''"
    by (simp add: all_events_def)
  ultimately show ?thesis
    using audit_filter_is_literal [of all_events "''LI''" "(5, sample_event)"] by simp
qed

end
