(* ===== verification/HostKeys.thy ===== *)
theory HostKeys
  imports Vms Audit_Log
begin

text \<open>
  Trust on first use of SSH host keys (\<open>packages/core/src/ssh/host-keys.ts\<close>): scopes,
  fingerprints, the check during key exchange, the enrolment after authentication and the
  administrative changes of a pin. Row identifiers are not kept. Other connections and
  administrators may act between the queries of one enrolment: \<open>confirm\<close> takes what they do
  as two arbitrary changes of the state. A database that does not answer is the flag \<open>up\<close>.
\<close>

record host_key_row =
  hk_scope :: string
  hk_vm :: "string option"
  hk_endpoint :: string
  hk_fingerprint :: string
  hk_type :: "string option"
  hk_updated :: time

record host_keys =
  pins :: "host_key_row list"
  hk_audit :: audit_log

definition pin_of :: "string \<Rightarrow> host_key_row list \<Rightarrow> host_key_row option" where
  "pin_of scope t = table_find hk_scope scope t"

interpretation pin_table: keyed_table hk_scope pin_of
  by unfold_locales (simp add: pin_of_def)

subsection \<open>Scopes and fingerprints\<close>

definition strip_brackets :: "string \<Rightarrow> string" where
  "strip_brackets h =
     (let a = (case h of c # t \<Rightarrow> (if c = CHR ''['' then t else h) | [] \<Rightarrow> [])
      in if a \<noteq> [] \<and> last a = CHR '']'' then butlast a else a)"

definition normalize_endpoint :: "string \<Rightarrow> int option \<Rightarrow> string" where
  "normalize_endpoint host port =
     (let h = strip_brackets (to_lower (trim host));
          wrapped = (if CHR '':'' \<in> set h then ''['' @ h @ '']'' else h)
      in wrapped @ '':'' @ int_str (case port of None \<Rightarrow> 22 | Some p \<Rightarrow> p))"

definition build_scope :: "string option \<Rightarrow> string \<Rightarrow> int option \<Rightarrow> string" where
  "build_scope vm host port =
     (if truthy vm then ''vm:'' @ the vm @ ''@'' @ normalize_endpoint host port
      else ''host:'' @ normalize_endpoint host port)"

definition b64_val :: "char \<Rightarrow> nat option" where
  "b64_val c = (let n = (of_char c :: nat) in
     if 65 \<le> n \<and> n \<le> 90 then Some (n - 65)
     else if 97 \<le> n \<and> n \<le> 122 then Some (n - 71)
     else if 48 \<le> n \<and> n \<le> 57 then Some (n + 4)
     else if n = 43 then Some 62 else if n = 47 then Some 63 else None)"

definition hex_char :: "nat \<Rightarrow> char" where
  "hex_char d = char_of (if d < 10 then 48 + d else 87 + d)"

fun hex_of :: "nat \<Rightarrow> nat \<Rightarrow> string" where
  "hex_of 0 n = []"
| "hex_of (Suc k) n = hex_of k (n div 16) @ [hex_char (n mod 16)]"

text \<open>
  \<open>Buffer.from(s, "base64").toString("hex")\<close> when it has 32 bytes: six bits per character,
  the bits after the last whole byte dropped.
\<close>

definition b64_hex :: "string \<Rightarrow> string option" where
  "b64_hex s =
     (let bits = 6 * length s in
      if bits div 8 \<noteq> 32 then None
      else Some (hex_of 64 (foldl (\<lambda>n c. 64 * n + (case b64_val c of None \<Rightarrow> 0 | Some v \<Rightarrow> v)) 0 s
                              div 2 ^ (bits mod 8))))"

text \<open>The pattern \<open>SHA256:\<close> (any case), one or more base64 characters, at most two \<open>=\<close>.\<close>

definition openssh_b64 :: "string \<Rightarrow> string option" where
  "openssh_b64 raw =
     (let body = drop 7 raw; core = takeWhile (\<lambda>c. b64_val c \<noteq> None) body; rest = drop (length core) body
      in if starts_with (to_lower raw) ''sha256:'' \<and> core \<noteq> [] \<and> length rest \<le> 2 \<and> list_all (\<lambda>c. c = CHR ''='') rest
         then Some core else None)"

definition normalize_fingerprint :: "string \<Rightarrow> string option" where
  "normalize_fingerprint input =
     (let raw = trim input in
      if length raw = 64 \<and> list_all is_hex raw then Some (to_lower raw)
      else case openssh_b64 raw of None \<Rightarrow> None | Some core \<Rightarrow> b64_hex core)"

subsection \<open>Audit rows\<close>

definition hk_event ::
  "string \<Rightarrow> string option \<Rightarrow> string option \<Rightarrow> string option \<Rightarrow> string option \<Rightarrow> (string \<times> json) list \<Rightarrow> audit_entry" where
  "hk_event ev actor actor_name vm job detail =
     \<lparr>au_event = ev, au_actor = actor, au_actor_name = actor_name, au_vm = vm, au_job = job, au_ip = None,
      au_detail = Some (JObj detail)\<rparr>"

definition record_hk :: "time \<Rightarrow> audit_entry \<Rightarrow> host_keys \<Rightarrow> host_keys" where
  "record_hk now e s = s\<lparr>hk_audit := audit_record now e (hk_audit s)\<rparr>"

definition record_mismatch ::
  "time \<Rightarrow> string \<Rightarrow> string \<Rightarrow> string option \<Rightarrow> string option \<Rightarrow> string \<Rightarrow> string \<Rightarrow> host_keys \<Rightarrow> host_keys" where
  "record_mismatch now scope endpoint vm job expected presented =
     record_hk now (hk_event ''SSH_HOST_KEY_MISMATCH'' None None vm job
       [(''scope'', JStr scope), (''endpoint'', JStr endpoint), (''expected'', JStr expected),
        (''presented'', JStr presented), (''blocked'', JBool True)])"

subsection \<open>The two checks of a connection\<close>

record hk_decision =
  hd_accept :: bool
  hd_enrolled :: bool

definition decide ::
  "bool \<Rightarrow> time \<Rightarrow> string \<Rightarrow> string \<Rightarrow> string option \<Rightarrow> string option \<Rightarrow> string \<Rightarrow> host_keys \<Rightarrow> hk_decision \<times> host_keys" where
  "decide up now scope endpoint vm job fp s =
     (if \<not> up then (\<lparr>hd_accept = False, hd_enrolled = False\<rparr>, s)
      else case pin_of scope (pins s) of
          None \<Rightarrow> (\<lparr>hd_accept = True, hd_enrolled = False\<rparr>, s)
        | Some r \<Rightarrow>
           (if hk_fingerprint r = fp then (\<lparr>hd_accept = True, hd_enrolled = True\<rparr>, s)
            else (\<lparr>hd_accept = False, hd_enrolled = True\<rparr>,
                  record_mismatch now scope endpoint vm job (hk_fingerprint r) fp s)))"

definition enroll :: "host_key_row \<Rightarrow> host_keys \<Rightarrow> host_keys" where
  "enroll new s = (case pin_of (hk_scope new) (pins s) of
       None \<Rightarrow> s\<lparr>pins := pins s @ [new]\<rparr> | Some r \<Rightarrow> s)"

definition confirm ::
  "(host_keys \<Rightarrow> host_keys) \<Rightarrow> (host_keys \<Rightarrow> host_keys) \<Rightarrow> bool \<Rightarrow> time \<Rightarrow> string \<Rightarrow> string \<Rightarrow> string option
   \<Rightarrow> string option \<Rightarrow> string \<Rightarrow> string option \<Rightarrow> host_keys \<Rightarrow> hk_decision \<times> host_keys" where
  "confirm between1 between2 up now scope endpoint vm job fp kt s =
     (if \<not> up then (\<lparr>hd_accept = False, hd_enrolled = False\<rparr>, s)
      else case pin_of scope (pins s) of
          Some r \<Rightarrow>
           (if hk_fingerprint r = fp then (\<lparr>hd_accept = True, hd_enrolled = True\<rparr>, s)
            else (\<lparr>hd_accept = False, hd_enrolled = True\<rparr>,
                  record_mismatch now scope endpoint vm job (hk_fingerprint r) fp s))
        | None \<Rightarrow>
           (let s1 = enroll \<lparr>hk_scope = scope, hk_vm = vm, hk_endpoint = endpoint, hk_fingerprint = fp,
                      hk_type = kt, hk_updated = now\<rparr> (between1 s);
                s2 = between2 s1
            in case pin_of scope (pins s2) of
                 None \<Rightarrow> (\<lparr>hd_accept = False, hd_enrolled = False\<rparr>, s2)
               | Some a \<Rightarrow>
                  (if hk_fingerprint a \<noteq> fp
                   then (\<lparr>hd_accept = False, hd_enrolled = True\<rparr>,
                         record_mismatch now scope endpoint vm job (hk_fingerprint a) fp s2)
                   else (\<lparr>hd_accept = True, hd_enrolled = False\<rparr>,
                         record_hk now (hk_event ''SSH_HOST_KEY_ENROLLED'' None None vm job
                           [(''endpoint'', JStr endpoint), (''fingerprint'', JStr fp),
                            (''keyType'', case kt of None \<Rightarrow> JNull | Some k \<Rightarrow> JStr k)]) s2))))"

subsection \<open>Administration\<close>

text \<open>
  An unrecognised fingerprint is a \<open>TypeError\<close>, which the error handler answers like any
  unexpected one. The row that the audit entry calls \<open>previous\<close> is the one that the
  UPDATE returns.
\<close>

definition set_fingerprint ::
  "time \<Rightarrow> string option \<Rightarrow> string \<Rightarrow> int option \<Rightarrow> string \<Rightarrow> string option \<Rightarrow> string option
   \<Rightarrow> (host_keys, host_key_row option) comp" where
  "set_fingerprint now vm host port input actor actor_name s =
     (case normalize_fingerprint input of
        None \<Rightarrow> (Inl (AppError INTERNAL_ERROR ''not a recognized SSH host-key fingerprint'' 500), s)
      | Some fp \<Rightarrow>
         (let scope = build_scope vm host port;
              s1 = s\<lparr>pins := table_update (\<lambda>r. hk_scope r = scope)
                       (\<lambda>r. r\<lparr>hk_fingerprint := fp, hk_type := None, hk_updated := now\<rparr>) (pins s)\<rparr>
          in case pin_of scope (pins s1) of
               None \<Rightarrow> (Inr None, s1)
             | Some current \<Rightarrow> (Inr (Some current),
                 record_hk now (hk_event ''SSH_HOST_KEY_ROTATED'' actor actor_name vm None
                   [(''endpoint'', JStr (normalize_endpoint host port)),
                    (''previous'', JStr (hk_fingerprint current)), (''fingerprint'', JStr fp),
                    (''reason'', JStr ''admin-verified'')]) s1)))"

definition unpin ::
  "time \<Rightarrow> string option \<Rightarrow> string \<Rightarrow> int option \<Rightarrow> string option \<Rightarrow> string option \<Rightarrow> host_keys \<Rightarrow> bool \<times> host_keys" where
  "unpin now vm host port actor actor_name s =
     (let scope = build_scope vm host port in
      case pin_of scope (pins s) of
        None \<Rightarrow> (False, s)
      | Some r \<Rightarrow> (True,
          record_hk now (hk_event ''SSH_HOST_KEY_UNPINNED'' actor actor_name vm None
            [(''endpoint'', JStr (normalize_endpoint host port)), (''fingerprint'', JStr (hk_fingerprint r))])
            (s\<lparr>pins := table_delete (\<lambda>x. hk_scope x = scope) (pins s)\<rparr>)))"

end
