(* ===== verification/HostKeys_Props.thy ===== *)
theory HostKeys_Props
  imports HostKeys Audit_Props
begin

text \<open>
  Properties of host-key pinning: a connection goes through only on the pinned key or on the
  key that it pins itself, whatever happens concurrently; fingerprints have one canonical form.
\<close>

subsection \<open>Trust on first use\<close>

lemma record_hk_pins [simp]: "pins (record_hk now e s) = pins s"
  by (simp add: record_hk_def)

lemma record_mismatch_pins [simp]: "pins (record_mismatch now scope endpoint vm job x y s) = pins s"
  by (simp add: record_mismatch_def)

lemma decide_pins [simp]: "pins (snd (decide up now scope endpoint vm job fp s)) = pins s"
  by (simp add: decide_def split: option.splits)

lemma decide_accept_iff:
  "hd_accept (fst (decide up now scope endpoint vm job fp s)) \<longleftrightarrow>
     up \<and> (case pin_of scope (pins s) of None \<Rightarrow> True | Some r \<Rightarrow> hk_fingerprint r = fp)"
  by (simp add: decide_def split: option.splits)

lemma confirm_pinned:
  assumes "pin_of scope (pins s) = Some r"
  shows "hd_accept (fst (confirm b1 b2 up now scope endpoint vm job fp kt s)) \<longleftrightarrow> up \<and> hk_fingerprint r = fp"
    and "pins (snd (confirm b1 b2 up now scope endpoint vm job fp kt s)) = pins s"
  using assms by (simp_all add: confirm_def)

lemma confirm_accept_pinned:
  assumes "hd_accept (fst (confirm b1 b2 up now scope endpoint vm job fp kt s))"
  shows "\<exists>r. pin_of scope (pins (snd (confirm b1 b2 up now scope endpoint vm job fp kt s))) = Some r
    \<and> hk_fingerprint r = fp"
proof -
  have up: "up" using assms by (simp add: confirm_def split: if_splits)
  show ?thesis
  proof (cases "pin_of scope (pins s)")
    case (Some r)
    with assms up show ?thesis by (simp add: confirm_def split: if_splits)
  next
    case None
    define n where "n = \<lparr>hk_scope = scope, hk_vm = vm, hk_endpoint = endpoint, hk_fingerprint = fp,
                      hk_type = kt, hk_updated = now\<rparr>"
    define t where "t = b2 (enroll n (b1 s))"
    have c: "confirm b1 b2 up now scope endpoint vm job fp kt s =
      (case pin_of scope (pins t) of
         None \<Rightarrow> (\<lparr>hd_accept = False, hd_enrolled = False\<rparr>, t)
       | Some a \<Rightarrow>
          (if hk_fingerprint a \<noteq> fp
           then (\<lparr>hd_accept = False, hd_enrolled = True\<rparr>,
                 record_mismatch now scope endpoint vm job (hk_fingerprint a) fp t)
           else (\<lparr>hd_accept = True, hd_enrolled = False\<rparr>,
                 record_hk now (hk_event ''SSH_HOST_KEY_ENROLLED'' None None vm job
                           [(''endpoint'', JStr endpoint), (''fingerprint'', JStr fp),
                            (''keyType'', case kt of None \<Rightarrow> JNull | Some k \<Rightarrow> JStr k)]) t)))"
      unfolding t_def n_def using None up by (simp add: confirm_def Let_def)
    show ?thesis
    proof (cases "pin_of scope (pins t)")
      case None
      with assms show ?thesis by (simp add: c)
    next
      case (Some a)
      with assms show ?thesis by (cases "hk_fingerprint a = fp") (simp_all add: c)
    qed
  qed
qed

lemma enroll_keeps_pin: "pin_of k (pins s) = Some r \<Longrightarrow> pin_of k (pins (enroll n s)) = Some r"
  by (auto simp: enroll_def pin_of_def table_find_def find_Some_iff nth_append split: option.splits)

text \<open>The loser of a race between first connections with different keys.\<close>

lemma confirm_loses_race:
  assumes "pin_of scope (pins s) = None" "pin_of scope (pins (b1 s)) = Some r" "hk_fingerprint r \<noteq> fp"
  shows "\<not> hd_accept (fst (confirm b1 id up now scope endpoint vm job fp kt s))"
  using assms enroll_keeps_pin [OF assms(2)]
  by (simp add: confirm_def Let_def)

lemma confirm_first:
  assumes "pin_of scope (pins s) = None"
  shows "hd_accept (fst (confirm id id True now scope endpoint vm job fp kt s))"
    and "pins (snd (confirm id id True now scope endpoint vm job fp kt s)) =
      pins s @ [\<lparr>hk_scope = scope, hk_vm = vm, hk_endpoint = endpoint, hk_fingerprint = fp,
                 hk_type = kt, hk_updated = now\<rparr>]"
proof -
  let ?n = "\<lparr>hk_scope = scope, hk_vm = vm, hk_endpoint = endpoint, hk_fingerprint = fp,
                 hk_type = kt, hk_updated = now\<rparr>"
  have "pin_of (hk_scope ?n) (pins s @ [?n]) = Some ?n"
    by (rule pin_table.lookup_append_fresh) (simp add: assms)
  then show "hd_accept (fst (confirm id id True now scope endpoint vm job fp kt s))"
    and "pins (snd (confirm id id True now scope endpoint vm job fp kt s)) = pins s @ [?n]"
    using assms by (simp_all add: confirm_def Let_def enroll_def)
qed

text \<open>Trust on first use, failing closed. On a scope with a pin a connection passes either check
  exactly with the pinned key, and neither check changes a pin. On a scope without one, the
  enrolment alone pins the presented key and accepts; but whatever other connections and
  administrators do between its queries, a connection that the enrolment accepts has its own
  key as the stored pin at that moment, and the loser of a race between two first connections
  with different keys is refused. With the database down nothing is accepted.\<close>

theorem tofu_exact:
  assumes "pin_of scope (pins s) = Some r" and "pin_of scope (pins su) = None"
    and "pin_of scope (pins (race su)) = Some r" and "fp' \<noteq> hk_fingerprint r"
    and "hd_accept (fst (confirm ca cb up now scope endpoint vm job fp kt x))"
  shows "hd_accept (fst (decide True now scope endpoint vm job fp s)) = (fp = hk_fingerprint r)
    \<and> hd_accept (fst (confirm race late True now scope endpoint vm job fp kt s)) = (fp = hk_fingerprint r)
    \<and> pins (snd (decide True now scope endpoint vm job fp s)) = pins s
    \<and> pins (snd (confirm race late True now scope endpoint vm job fp kt s)) = pins s
    \<and> hd_accept (fst (confirm id id True now scope endpoint vm job fp kt su))
    \<and> \<not> hd_accept (fst (confirm race id True now scope endpoint vm job fp' kt su))
    \<and> up \<and> (\<exists>q. pin_of scope (pins (snd (confirm ca cb up now scope endpoint vm job fp kt x))) = Some q
             \<and> hk_fingerprint q = fp)"
proof -
  have "up" using assms(5) by (simp add: confirm_def split: if_splits)
  moreover have "\<not> hd_accept (fst (confirm race id True now scope endpoint vm job fp' kt su))"
    by (rule confirm_loses_race [where r = r]) (use assms in simp_all)
  ultimately show ?thesis
    using decide_accept_iff [of True now scope endpoint vm job fp s] confirm_pinned [OF assms(1)]
      confirm_first(1) [OF assms(2)] confirm_accept_pinned [OF assms(5)] assms(1)
    by auto
qed

definition sample_pin :: host_key_row where
  "sample_pin = \<lparr>hk_scope = ''host:h:22'', hk_vm = None, hk_endpoint = ''h:22'', hk_fingerprint = ''aa'',
     hk_type = None, hk_updated = 0\<rparr>"

definition sample_keys :: "host_key_row list \<Rightarrow> host_keys" where
  "sample_keys ps = \<lparr>pins = ps, hk_audit = []\<rparr>"

lemma tofu_exact_witness:
  "\<not> hd_accept (fst (confirm (enroll sample_pin) id True 1 ''host:h:22'' ''h:22'' None None ''bb'' None (sample_keys [])))
   \<and> hd_accept (fst (confirm id id True 1 ''host:h:22'' ''h:22'' None None ''aa'' None (sample_keys [])))"
proof -
  have 1: "pin_of ''host:h:22'' (pins (sample_keys [sample_pin])) = Some sample_pin"
    by code_simp
  have 2: "pin_of ''host:h:22'' (pins (sample_keys [])) = None"
    by code_simp
  have 3: "pin_of ''host:h:22'' (pins (enroll sample_pin (sample_keys []))) = Some sample_pin"
    by code_simp
  have 4: "''bb'' \<noteq> hk_fingerprint sample_pin"
    by code_simp
  have 5: "hd_accept (fst (confirm id id True 1 ''host:h:22'' ''h:22'' None None ''aa'' None (sample_keys [])))"
    by (rule confirm_first(1) [OF 2])
  show ?thesis
    using tofu_exact [where race = "enroll sample_pin" and ca = id and cb = id and fp = "''aa''", OF 1 2 _ 4] 3 5
    by blast
qed

text \<open>What a rotation leaves in the trail as the previous fingerprint is the new one.\<close>

lemma rotation_audit_loses_previous:
  assumes "normalize_fingerprint input = Some fp" "pin_of (build_scope vm host port) (pins s) = Some old"
  shows "\<exists>t. set_fingerprint now vm host port input actor name s = (Inr (Some (old\<lparr>hk_fingerprint := fp,
        hk_type := None, hk_updated := now\<rparr>)), t)
      \<and> hk_audit t = audit_record now (hk_event ''SSH_HOST_KEY_ROTATED'' actor name vm None
          [(''endpoint'', JStr (normalize_endpoint host port)), (''previous'', JStr fp),
           (''fingerprint'', JStr fp), (''reason'', JStr ''admin-verified'')]) (hk_audit s)"
proof -
  let ?f = "\<lambda>r. r\<lparr>hk_fingerprint := fp, hk_type := None, hk_updated := now\<rparr>"
  have "pin_of (build_scope vm host port) (table_update (\<lambda>r. hk_scope r = build_scope vm host port) ?f (pins s))
      = Some (?f old)"
    using pin_table.lookup_update [of ?f "build_scope vm host port" "pins s"] assms(2) by simp
  with assms(1) show ?thesis
    by (simp add: set_fingerprint_def Let_def record_hk_def)
qed

subsection \<open>Canonical fingerprints\<close>

lemma hex_char_lower:
  assumes "d < 16" shows "is_hex (hex_char d)" "\<not> is_space (hex_char d)"
    "\<not> (65 \<le> (of_char (hex_char d) :: nat) \<and> (of_char (hex_char d) :: nat) \<le> 90)"
proof -
  have "d \<in> set [0..<16]" using assms by simp
  moreover have "list_all (\<lambda>d. is_hex (hex_char d) \<and> \<not> is_space (hex_char d) \<and>
      \<not> (65 \<le> (of_char (hex_char d) :: nat) \<and> (of_char (hex_char d) :: nat) \<le> 90)) [0..<16]"
    by code_simp
  ultimately show "is_hex (hex_char d)" "\<not> is_space (hex_char d)"
    "\<not> (65 \<le> (of_char (hex_char d) :: nat) \<and> (of_char (hex_char d) :: nat) \<le> 90)"
    by (auto simp: list_all_iff)
qed

definition canonical_fp :: "string \<Rightarrow> bool" where
  "canonical_fp s \<longleftrightarrow> length s = 64 \<and> list_all is_hex s \<and> to_lower s = s"

lemma hex_of_hex_chars: "\<exists>ds. hex_of k n = map hex_char ds \<and> length ds = k \<and> (\<forall>d \<in> set ds. d < 16)"
proof (induction k arbitrary: n)
  case (Suc k)
  from Suc [of "n div 16"] obtain ds where "hex_of k (n div 16) = map hex_char ds" "length ds = k"
    "\<forall>d \<in> set ds. d < 16" by blast
  then show ?case by (intro exI [of _ "ds @ [n mod 16]"]) auto
qed simp

lemma to_lower_id: "list_all (\<lambda>c. \<not> (65 \<le> (of_char c :: nat) \<and> (of_char c :: nat) \<le> 90)) s \<Longrightarrow> to_lower s = s"
  by (induction s) (auto simp: to_lower_def)

lemma canonical_hex_of: "canonical_fp (hex_of 64 n)"
proof -
  obtain ds where ds: "hex_of 64 n = map hex_char ds" "length ds = 64" "\<forall>d \<in> set ds. d < 16"
    using hex_of_hex_chars by blast
  have *: "\<exists>d < 16. c = hex_char d" if "c \<in> set (hex_of 64 n)" for c
    using that ds(3) unfolding ds(1) by auto
  have "list_all is_hex (hex_of 64 n)"
    unfolding list_all_iff using * hex_char_lower(1) by metis
  moreover have "to_lower (hex_of 64 n) = hex_of 64 n"
    by (rule to_lower_id) (unfold list_all_iff, metis * hex_char_lower(3))
  moreover have "length (hex_of 64 n) = 64"
    using ds by (metis length_map)
  ultimately show ?thesis by (simp only: canonical_fp_def)
qed

lemma to_lower_hex: "list_all is_hex s \<Longrightarrow> list_all is_hex (to_lower s) \<and> to_lower (to_lower s) = to_lower s"
proof (induction s)
  case (Cons c s)
  have "is_hex c \<Longrightarrow> is_hex (lower_char c) \<and> lower_char (lower_char c) = lower_char c"
    by (auto simp: lower_char_def is_hex_def is_digit_def of_char_of)
  with Cons show ?case by (simp add: to_lower_map)
qed (simp add: to_lower_def)

lemma hex_not_space: "is_hex c \<Longrightarrow> \<not> is_space c"
  by (auto simp: is_space_def is_hex_def is_digit_def)

lemma trim_no_space: "list_all (\<lambda>c. \<not> is_space c) s \<Longrightarrow> trim s = s"
proof -
  assume "list_all (\<lambda>c. \<not> is_space c) s"
  then have 1: "\<forall>c \<in> set s. \<not> is_space c" by (simp add: list_all_iff)
  have "dropWhile is_space xs = xs" if "\<forall>c \<in> set xs. \<not> is_space c" for xs
    using that by (cases xs) auto
  from this [of s] this [of "rev s"] 1 show ?thesis by (simp add: trim_def)
qed

lemma normalize_canonical:
  assumes "canonical_fp fp" shows "normalize_fingerprint fp = Some fp"
proof -
  have "trim fp = fp"
    using assms by (intro trim_no_space) (auto simp: canonical_fp_def list_all_iff hex_not_space)
  with assms show ?thesis
    by (simp add: normalize_fingerprint_def canonical_fp_def)
qed

lemma normalize_result_canonical:
  assumes "normalize_fingerprint input = Some fp" shows "canonical_fp fp"
proof (cases "length (trim input) = 64 \<and> list_all is_hex (trim input)")
  case True
  with assms to_lower_hex [of "trim input"] show ?thesis
    by (auto simp: normalize_fingerprint_def Let_def canonical_fp_def to_lower_map)
next
  case False
  with assms obtain core where "b64_hex core = Some fp"
    by (auto simp: normalize_fingerprint_def Let_def split: option.splits)
  then show ?thesis
    by (auto simp: b64_hex_def Let_def canonical_hex_of split: if_splits)
qed

text \<open>One canonical form for fingerprints. Whatever an administrator pastes, hexadecimal in any
  case or the base64 form that \<open>ssh-keygen\<close> prints, an accepted value is stored as 64 lower-case
  hexadecimal digits, the form in which keys are presented; normalising it again changes
  nothing, blanks around it do not matter, and after a rotation to it exactly the keys with
  that fingerprint pass the check of the scope.\<close>

theorem fingerprint_canonical:
  assumes "normalize_fingerprint input = Some fp" and "pin_of (build_scope vm host port) (pins s) = Some old"
  shows "length fp = 64 \<and> list_all is_hex fp \<and> to_lower fp = fp \<and> normalize_fingerprint fp = Some fp
    \<and> hd_accept (fst (decide True now (build_scope vm host port) ep v job presented
        (snd (set_fingerprint now vm host port input actor name s)))) = (presented = fp)"
proof -
  let ?f = "\<lambda>r. r\<lparr>hk_fingerprint := fp, hk_type := None, hk_updated := now\<rparr>"
  have "pin_of (build_scope vm host port) (table_update (\<lambda>r. hk_scope r = build_scope vm host port) ?f (pins s))
      = Some (?f old)"
    using pin_table.lookup_update [of ?f "build_scope vm host port" "pins s"] assms(2) by simp
  then have "hd_accept (fst (decide True now (build_scope vm host port) ep v job presented
        (snd (set_fingerprint now vm host port input actor name s)))) = (presented = fp)"
    using assms(1) by (auto simp add: decide_accept_iff set_fingerprint_def Let_def)
  with normalize_result_canonical [OF assms(1)] normalize_canonical show ?thesis
    by (simp add: canonical_fp_def)
qed

lemma fingerprint_canonical_witness:
  "normalize_fingerprint (replicate 64 CHR ''a'') = Some (replicate 64 CHR ''a'')"
proof -
  have 1: "normalize_fingerprint ('' '' @ replicate 64 CHR ''A'') = Some (replicate 64 CHR ''a'')"
    by code_simp
  have 2: "pin_of (build_scope None ''h'' None) (pins (sample_keys [sample_pin])) = Some sample_pin"
    by code_simp
  show ?thesis
    using fingerprint_canonical [OF 1 2] by blast
qed

end
