(* ===== verification/Templates.thy ===== *)
theory Templates
  imports Vms
begin

text \<open>
  The template registry (\<open>packages/core/src/services/templates.ts\<close>, class
  \<open>TemplatesService\<close>) with the enumerations of \<open>packages/shared/src/enums.ts\<close> that it and
  the provisioning pipeline use.
\<close>

datatype os_type = Linux | Windows

datatype protocol = SSH | RDP | VNC

datatype prov_method = CloudInit | CloudbaseInit | Unattend | NoMethod

fun os_str :: "os_type \<Rightarrow> string" where
  "os_str Linux = ''linux''"
| "os_str Windows = ''windows''"

fun protocol_str :: "protocol \<Rightarrow> string" where
  "protocol_str SSH = ''ssh''"
| "protocol_str RDP = ''rdp''"
| "protocol_str VNC = ''vnc''"

fun method_str :: "prov_method \<Rightarrow> string" where
  "method_str CloudInit = ''cloud-init''"
| "method_str CloudbaseInit = ''cloudbase-init''"
| "method_str Unattend = ''unattend''"
| "method_str NoMethod = ''none''"

lemma protocol_str_inject [simp]: "protocol_str p = protocol_str q \<longleftrightarrow> p = q"
  by (cases p; cases q) simp_all

record template_row =
  tp_id :: string
  tp_name :: string
  tp_node :: string
  tp_vmid :: int
  tp_os :: os_type
  tp_method :: prov_method
  tp_cloud_init :: bool
  tp_agent_required :: bool
  tp_cpu :: int
  tp_ram :: int
  tp_disk :: int
  tp_protocols :: "protocol list"

definition template_by_id :: "string \<Rightarrow> template_row list \<Rightarrow> template_row option" where
  "template_by_id i t = table_find tp_id i t"

interpretation template_table: keyed_table tp_id template_by_id
  by unfold_locales (simp add: template_by_id_def)

definition tp_place :: "template_row \<Rightarrow> string \<times> int" where
  "tp_place r = (tp_node r, tp_vmid r)"

definition template_at :: "string \<times> int \<Rightarrow> template_row list \<Rightarrow> template_row option" where
  "template_at k t = table_find tp_place k t"

interpretation place_table: keyed_table tp_place template_at
  by unfold_locales (simp add: template_at_def)

text \<open>
  The input of \<open>register\<close> is a row without an identifier; \<open>register i t\<close> takes the fresh one
  as the identifier of \<open>i\<close>.
\<close>

definition find_by_proxmox_id :: "template_row list \<Rightarrow> string \<Rightarrow> int \<Rightarrow> template_row option" where
  "find_by_proxmox_id t node vmid = template_at (node, vmid) t"

definition register :: "template_row \<Rightarrow> (template_row list, template_row) comp" where
  "register i t =
     (case find_by_proxmox_id t (tp_node i) (tp_vmid i) of
        Some old \<Rightarrow>
          (let new = i\<lparr>tp_id := tp_id old\<rparr>
           in (Inr new, table_update (\<lambda>r. tp_id r = tp_id old \<and> tp_node r = tp_node i) (\<lambda>_. new) t))
      | None \<Rightarrow>
          (if template_by_id (tp_id i) t \<noteq> None
           then throw (pg_error ''duplicate key value violates unique constraint'') t
           else (Inr i, t @ [i])))"

definition template_require :: "template_row list \<Rightarrow> string \<Rightarrow> template_row res" where
  "template_require t i = (case template_by_id i t of
       None \<Rightarrow> Inl (err_not_found ''Template not found'')
     | Some r \<Rightarrow> Inr r)"

definition template_find :: "template_row list \<Rightarrow> string \<Rightarrow> template_row option" where
  "template_find t i = (if \<not> is_uuid i then None else template_by_id i t)"

definition template_delete :: "string \<Rightarrow> template_row list \<Rightarrow> template_row list" where
  "template_delete i t = table_delete (\<lambda>r. tp_id r = i) t"

definition ensure_provisionable :: "template_row \<Rightarrow> unit res" where
  "ensure_provisionable t =
     (if tp_os t = Linux \<and> tp_method t \<noteq> CloudInit
      then Inl (err_validation (''Linux template \"'' @ tp_name t @ ''\" uses provisioning method \"''
             @ method_str (tp_method t) @ ''\". Only \"cloud-init\" is supported for automated Linux provisioning.''))
      else if tp_os t = Windows
      then (if tp_method t = CloudbaseInit \<and> tp_cloud_init t then Inr ()
            else Inl (AppError NOT_IMPLEMENTED (''Windows template \"'' @ tp_name t @ ''\" (provisioning: ''
                   @ method_str (tp_method t) @ '', cloud-init: '' @ (if tp_cloud_init t then ''yes'' else ''no'')
                   @ '') does not support automated guest provisioning. Only Windows templates prepared with Cloudbase-Init on the Proxmox cloud-init drive can be provisioned automatically.'') 501))
      else Inr ())"

subsection \<open>Registration is an upsert\<close>

definition templates_wf :: "template_row list \<Rightarrow> bool" where
  "templates_wf t \<longleftrightarrow> template_table.unique t \<and> place_table.unique t"

lemma register_new:
  assumes "template_at (tp_place i) t = None" "template_by_id (tp_id i) t = None"
  shows "register i t = (Inr i, t @ [i])"
  using assms by (simp add: register_def find_by_proxmox_id_def tp_place_def throw_def)

lemma register_known:
  assumes wf: "templates_wf t" and old: "template_at (tp_place i) t = Some old"
  shows "register i t = (Inr (i\<lparr>tp_id := tp_id old\<rparr>),
     table_update (\<lambda>r. tp_id r = tp_id old) (\<lambda>_. i\<lparr>tp_id := tp_id old\<rparr>) t)"
proof -
  have o: "old \<in> set t" "tp_node old = tp_node i"
    using place_table.lookup_SomeD [OF old] by (simp_all add: tp_place_def)
  have u: "template_table.unique t" using wf by (simp add: templates_wf_def)
  have same: "r = old" if "r \<in> set t" "tp_id r = tp_id old" for r
    using template_table.lookup_unique [OF u that(1)] template_table.lookup_unique [OF u o(1)] that(2)
    by (metis option.inject)
  have "(tp_id r = tp_id old \<and> tp_node r = tp_node i) = (tp_id r = tp_id old)" if "r \<in> set t" for r
    using same [OF that] o(2) by blast
  then have "table_update (\<lambda>r. tp_id r = tp_id old \<and> tp_node r = tp_node i) (\<lambda>_. i\<lparr>tp_id := tp_id old\<rparr>) t
     = table_update (\<lambda>r. tp_id r = tp_id old) (\<lambda>_. i\<lparr>tp_id := tp_id old\<rparr>) t"
    by (simp add: table_update_def)
  with old show ?thesis
    by (simp add: register_def find_by_proxmox_id_def tp_place_def Let_def)
qed

end
