(* ===== verification/Jobs.thy ===== *)
theory Jobs
  imports Users Templates
begin

text \<open>
  The provisioning ledger (\<open>packages/core/src/services/jobs.ts\<close>, class \<open>JobsRepository\<close>):
  jobs and their steps; the queue payload of \<open>services/queue.ts\<close>; the progress scale of
  \<open>services/progress.ts\<close>; the load counters of \<open>services/usage.ts\<close>.

  The request of a job is the validated provisioning request of the shared schema, with the
  password encrypted; sizes are whole numbers. Step rows carry no identifier of their own:
  \<open>(job_id, step)\<close> is their key.
\<close>

datatype job_status = PENDING | CREATING | PROVISIONING | WAITING_FOR_GUEST | CONFIGURING | VERIFYING
  | GUACAMOLE_CREATING | READY | FAILED | CANCELLED

datatype job_step = VALIDATE_PROXMOX_RESOURCES | CLONE_TEMPLATE | CONFIGURE_VM | CONFIGURE_GUEST_PROVISIONING
  | START_VM | WAIT_FOR_GUEST | DISCOVER_IP | VERIFY_GUEST | VERIFY_CREDENTIALS
  | CREATE_GUACAMOLE_CONNECTION | VERIFY_GUACAMOLE

datatype step_state = StepPending | StepRunning | StepSucceeded | StepFailed | StepSkipped

definition JOB_STEPS :: "job_step list" where
  "JOB_STEPS = [VALIDATE_PROXMOX_RESOURCES, CLONE_TEMPLATE, CONFIGURE_VM, CONFIGURE_GUEST_PROVISIONING,
     START_VM, WAIT_FOR_GUEST, DISCOVER_IP, VERIFY_GUEST, VERIFY_CREDENTIALS,
     CREATE_GUACAMOLE_CONNECTION, VERIFY_GUACAMOLE]"

text \<open>Steps are ordered as the pipeline runs them.\<close>

fun step_no :: "job_step \<Rightarrow> nat" where
  "step_no VALIDATE_PROXMOX_RESOURCES = 0"
| "step_no CLONE_TEMPLATE = 1"
| "step_no CONFIGURE_VM = 2"
| "step_no CONFIGURE_GUEST_PROVISIONING = 3"
| "step_no START_VM = 4"
| "step_no WAIT_FOR_GUEST = 5"
| "step_no DISCOVER_IP = 6"
| "step_no VERIFY_GUEST = 7"
| "step_no VERIFY_CREDENTIALS = 8"
| "step_no CREATE_GUACAMOLE_CONNECTION = 9"
| "step_no VERIFY_GUACAMOLE = 10"

lemma step_no_inject [simp]: "step_no a = step_no b \<longleftrightarrow> a = b"
  by (cases a; cases b) simp_all

instantiation job_step :: linorder
begin

definition less_eq_job_step :: "job_step \<Rightarrow> job_step \<Rightarrow> bool" where
  "a \<le> b \<longleftrightarrow> step_no a \<le> step_no b"

definition less_job_step :: "job_step \<Rightarrow> job_step \<Rightarrow> bool" where
  "a < b \<longleftrightarrow> step_no a < step_no b"

instance
  by standard (auto simp: less_eq_job_step_def less_job_step_def)

end

record network_request =
  nr_bridge :: string
  nr_vlan :: "int option"
  nr_mode :: string
  nr_ip :: "string option"
  nr_cidr :: "int option"
  nr_gateway :: "string option"
  nr_dns :: "string list option"

record provision_request =
  rq_name :: string
  rq_template :: "string option"
  rq_template_vmid :: "int option"
  rq_node :: "string option"
  rq_vmid :: "int option"
  rq_cpu :: int
  rq_ram :: int
  rq_disk :: int
  rq_storage :: string
  rq_network :: network_request
  rq_os :: os_type
  rq_protocols :: "protocol list option"
  rq_guest_user :: string
  rq_password :: string
  rq_ssh_key :: "string option"
  rq_start :: bool
  rq_linked :: bool
  rq_assign :: "string list"

record job_row =
  jb_id :: string
  jb_vm :: "string option"
  jb_status :: job_status
  jb_error :: "string option"
  jb_request :: provision_request
  jb_creator :: "string option"
  jb_bull :: "string option"
  jb_started :: "time option"
  jb_finished :: "time option"
  jb_created :: time
  jb_updated :: time

record step_row =
  st_job :: string
  st_step :: job_step
  st_state :: step_state
  st_detail :: "json option"
  st_error :: "string option"
  st_started :: "time option"
  st_finished :: "time option"

record ledger =
  jobs :: "job_row list"
  steps :: "step_row list"

definition terminal :: "job_status \<Rightarrow> bool" where
  "terminal s \<longleftrightarrow> s = READY \<or> s = FAILED \<or> s = CANCELLED"

definition done_state :: "step_state \<Rightarrow> bool" where
  "done_state s \<longleftrightarrow> s = StepSucceeded \<or> s = StepFailed \<or> s = StepSkipped"

definition job_by_id :: "string \<Rightarrow> job_row list \<Rightarrow> job_row option" where
  "job_by_id i t = table_find jb_id i t"

interpretation job_table: keyed_table jb_id job_by_id
  by unfold_locales (simp add: job_by_id_def)

definition st_key :: "step_row \<Rightarrow> string \<times> job_step" where
  "st_key r = (st_job r, st_step r)"

definition step_of :: "string \<times> job_step \<Rightarrow> step_row list \<Rightarrow> step_row option" where
  "step_of k t = table_find st_key k t"

interpretation step_table: keyed_table st_key step_of
  by unfold_locales (simp add: step_of_def)

subsection \<open>Jobs\<close>

definition job_create ::
  "time \<Rightarrow> string \<Rightarrow> string option \<Rightarrow> provision_request \<Rightarrow> string option \<Rightarrow> string option
   \<Rightarrow> (ledger, job_row) comp" where
  "job_create now nid vm req creator bull l =
     (if job_by_id nid (jobs l) \<noteq> None
      then throw (pg_error ''duplicate key value violates unique constraint'') l
      else let r = \<lparr>jb_id = nid, jb_vm = vm, jb_status = PENDING, jb_error = None, jb_request = req,
                    jb_creator = creator, jb_bull = bull, jb_started = None, jb_finished = None,
                    jb_created = now, jb_updated = now\<rparr>
           in (Inr r, l\<lparr>jobs := jobs l @ [r]\<rparr>))"

definition job_get :: "ledger \<Rightarrow> string \<Rightarrow> job_row option" where
  "job_get l i = (if \<not> is_uuid i then None else job_by_id i (jobs l))"

definition job_require :: "ledger \<Rightarrow> string \<Rightarrow> job_row res" where
  "job_require l i = (case job_get l i of
       None \<Rightarrow> Inl (err_not_found ''Provisioning job not found'')
     | Some j \<Rightarrow> Inr j)"

record job_filter =
  jf_limit :: "nat option"
  jf_offset :: "nat option"
  jf_status :: "job_status option"
  jf_vm :: "string option"
  jf_creator :: "string option"

definition job_list :: "ledger \<Rightarrow> job_filter \<Rightarrow> job_row list" where
  "job_list l f =
     take (case jf_limit f of None \<Rightarrow> 50 | Some n \<Rightarrow> n)
       (drop (case jf_offset f of None \<Rightarrow> 0 | Some n \<Rightarrow> n)
         (sort_key (\<lambda>j. - jb_created j) (filter (\<lambda>j.
            (case jf_status f of None \<Rightarrow> True | Some s \<Rightarrow> jb_status j = s) \<and>
            (truthy (jf_vm f) \<longrightarrow> jb_vm j = jf_vm f) \<and>
            (case jf_creator f of None \<Rightarrow> True | Some u \<Rightarrow> jb_creator j = Some u)) (jobs l))))"

definition update_job :: "string \<Rightarrow> (job_row \<Rightarrow> job_row) \<Rightarrow> ledger \<Rightarrow> ledger" where
  "update_job i f l = l\<lparr>jobs := table_update (\<lambda>j. jb_id j = i) f (jobs l)\<rparr>"

definition job_update_status :: "time \<Rightarrow> string \<Rightarrow> job_status \<Rightarrow> string option \<Rightarrow> ledger \<Rightarrow> ledger" where
  "job_update_status now i s e =
     update_job i (\<lambda>j. j\<lparr>jb_status := s, jb_error := e,
        jb_started := (if jb_started j = None \<and> s \<noteq> PENDING then Some now else jb_started j),
        jb_finished := (if terminal s then Some now else jb_finished j),
        jb_updated := now\<rparr>)"

definition set_bull_job_id :: "time \<Rightarrow> string \<Rightarrow> string \<Rightarrow> ledger \<Rightarrow> ledger" where
  "set_bull_job_id now i b = update_job i (\<lambda>j. j\<lparr>jb_bull := Some b, jb_updated := now\<rparr>)"

definition set_vm_id :: "time \<Rightarrow> string \<Rightarrow> string \<Rightarrow> ledger \<Rightarrow> ledger" where
  "set_vm_id now i vm = update_job i (\<lambda>j. j\<lparr>jb_vm := Some vm, jb_updated := now\<rparr>)"

definition reset_for_retry :: "time \<Rightarrow> string \<Rightarrow> ledger \<Rightarrow> ledger" where
  "reset_for_retry now i l =
     (update_job i (\<lambda>j. j\<lparr>jb_status := PENDING, jb_error := None, jb_updated := now\<rparr>) l)
       \<lparr>steps := table_update (\<lambda>r. st_job r = i \<and> st_state r = StepFailed)
          (\<lambda>r. r\<lparr>st_state := StepPending, st_error := None, st_finished := None\<rparr>) (steps l)\<rparr>"

definition job_cancel :: "time \<Rightarrow> string \<Rightarrow> ledger \<Rightarrow> ledger" where
  "job_cancel now i = update_job i (\<lambda>j. j\<lparr>jb_status := CANCELLED, jb_finished := Some now, jb_updated := now\<rparr>)"

definition active_job_with_name :: "ledger \<Rightarrow> string \<Rightarrow> string \<Rightarrow> job_row option" where
  "active_job_with_name l creator name =
     (case sort_key (\<lambda>j. - jb_created j) (filter (\<lambda>j. jb_creator j = Some creator
          \<and> \<not> terminal (jb_status j) \<and> rq_name (jb_request j) = name) (jobs l)) of
        [] \<Rightarrow> None | j # _ \<Rightarrow> Some j)"

definition active_jobs_for_vm :: "ledger \<Rightarrow> string \<Rightarrow> job_row list" where
  "active_jobs_for_vm l vm = filter (\<lambda>j. jb_vm j = Some vm \<and> \<not> terminal (jb_status j)) (jobs l)"

definition active_job_vm_ids :: "ledger \<Rightarrow> string list" where
  "active_job_vm_ids l =
     dedup (List.map_filter (\<lambda>j. if \<not> terminal (jb_status j) then jb_vm j else None) (jobs l))"

subsection \<open>Steps\<close>

definition new_step :: "time \<Rightarrow> string \<Rightarrow> job_step \<Rightarrow> step_state \<Rightarrow> json option \<Rightarrow> string option \<Rightarrow> step_row" where
  "new_step now i step s detail e =
     \<lparr>st_job = i, st_step = step, st_state = s, st_detail = detail, st_error = e,
      st_started = (if s = StepRunning then Some now else None),
      st_finished = (if done_state s then Some now else None)\<rparr>"

definition overwrite_step :: "time \<Rightarrow> step_state \<Rightarrow> json option \<Rightarrow> string option \<Rightarrow> step_row \<Rightarrow> step_row" where
  "overwrite_step now s detail e r =
     r\<lparr>st_state := s, st_detail := detail, st_error := e,
       st_started := (if s = StepRunning then coalesce (st_started r) (Some now) else st_started r),
       st_finished := (if done_state s then Some now else st_finished r)\<rparr>"

definition set_step ::
  "time \<Rightarrow> string \<Rightarrow> job_step \<Rightarrow> step_state \<Rightarrow> json option \<Rightarrow> string option \<Rightarrow> ledger \<Rightarrow> ledger" where
  "set_step now i step s detail e l =
     l\<lparr>steps := (case step_of (i, step) (steps l) of
         None \<Rightarrow> steps l @ [new_step now i step s detail e]
       | Some r \<Rightarrow> table_update (\<lambda>r. st_key r = (i, step)) (overwrite_step now s detail e) (steps l))\<rparr>"

text \<open>\<open>ORDER BY started_at ASC\<close> puts NULL last.\<close>

definition get_steps :: "ledger \<Rightarrow> string \<Rightarrow> step_row list" where
  "get_steps l i =
     sort_key (\<lambda>r. case st_started r of None \<Rightarrow> (1 :: int) | Some t \<Rightarrow> 0)
       (sort_key (\<lambda>r. case st_started r of None \<Rightarrow> 0 | Some t \<Rightarrow> t) (filter (\<lambda>r. st_job r = i) (steps l)))"

definition completed_steps :: "ledger \<Rightarrow> string \<Rightarrow> job_step list" where
  "completed_steps l i =
     map st_step (filter (\<lambda>r. st_state r = StepSucceeded \<or> st_state r = StepSkipped) (get_steps l i))"

subsection \<open>Load, queue payloads, progress\<close>

definition count_active_provisioning_jobs :: "ledger \<Rightarrow> time \<Rightarrow> string \<Rightarrow> nat" where
  "count_active_provisioning_jobs l now uid =
     length (filter (\<lambda>j. jb_creator j = Some uid \<and> \<not> terminal (jb_status j)
        \<and> jb_updated j > now - 24 * 3600 * 1000) (jobs l))"

definition count_provision_load :: "vm_db \<Rightarrow> ledger \<Rightarrow> time \<Rightarrow> string \<Rightarrow> nat" where
  "count_provision_load db l now uid = count_user_vms db uid + count_active_provisioning_jobs l now uid"

definition validate_queue_payload :: "json \<Rightarrow> (string \<times> nat) option" where
  "validate_queue_payload data =
     (case json_field data ''jobDbId'' of
        JStr i \<Rightarrow> (case json_field data ''attempt'' of
            JNum n \<Rightarrow> (if is_uuid i \<and> n \<ge> 0 then Some (i, nat n) else None)
          | _ \<Rightarrow> None)
      | _ \<Rightarrow> None)"

definition queue_job_id :: "string \<Rightarrow> nat \<Rightarrow> string" where
  "queue_job_id i attempt = ''db-'' @ i @ ''-a'' @ nat_str attempt"

fun progress_for :: "job_status \<Rightarrow> nat" where
  "progress_for PENDING = 0"
| "progress_for CREATING = 5"
| "progress_for PROVISIONING = 20"
| "progress_for WAITING_FOR_GUEST = 55"
| "progress_for CONFIGURING = 70"
| "progress_for VERIFYING = 85"
| "progress_for GUACAMOLE_CREATING = 95"
| "progress_for READY = 100"
| "progress_for FAILED = 100"
| "progress_for CANCELLED = 100"

end
