(* ===== verification/Netconf.thy ===== *)
theory Netconf
  imports Jobs
begin

text \<open>
  The pure helpers of the pipeline (\<open>packages/core/src/provisioning/pipeline.ts\<close>): protocols and
  ports, the choice of a guest address, the network and disk entries of a VM configuration, and
  the search for a free VMID. A configuration of Proxmox is an association list whose values
  are strings or integers.
\<close>

datatype cfg_value = CfgStr string | CfgNum int

type_synonym cfg = "(string \<times> cfg_value) list"

fun cfg_text :: "cfg_value \<Rightarrow> string" where
  "cfg_text (CfgStr s) = s"
| "cfg_text (CfgNum n) = int_str n"

subsection \<open>Protocols\<close>

definition resolve_protocols :: "provision_request \<Rightarrow> template_row option \<Rightarrow> protocol list" where
  "resolve_protocols req template =
     (case rq_protocols req of
        Some (p # ps) \<Rightarrow> dedup (p # ps)
      | _ \<Rightarrow> (case template of
          Some t \<Rightarrow> (if tp_protocols t \<noteq> [] then dedup (tp_protocols t)
                     else [if rq_os req = Windows then RDP else SSH])
        | None \<Rightarrow> [if rq_os req = Windows then RDP else SSH]))"

definition port_for_protocol :: "protocol \<Rightarrow> nat" where
  "port_for_protocol p = (if p = RDP then 3389 else if p = VNC then 5900 else 22)"

datatype verify_mechanism = VerifySsh | VerifyRdpPort | VerifyVncPort

fun mechanism_str :: "verify_mechanism \<Rightarrow> string" where
  "mechanism_str VerifySsh = ''ssh''"
| "mechanism_str VerifyRdpPort = ''rdp-port''"
| "mechanism_str VerifyVncPort = ''vnc-port''"

definition select_verify_mechanism :: "protocol list \<Rightarrow> os_type \<Rightarrow> verify_mechanism" where
  "select_verify_mechanism protocols os =
     (if SSH \<in> set protocols then VerifySsh
      else if os = Windows \<or> RDP \<in> set protocols then VerifyRdpPort
      else VerifyVncPort)"

definition port_for_verify_mechanism :: "verify_mechanism \<Rightarrow> nat" where
  "port_for_verify_mechanism m = (if m = VerifyRdpPort then 3389 else if m = VerifyVncPort then 5900 else 22)"

subsection \<open>Addresses\<close>

definition dotted_quad :: "string \<Rightarrow> bool" where
  "dotted_quad a \<longleftrightarrow> length (split_on CHR ''.'' a) = 4
     \<and> list_all (\<lambda>p. p \<noteq> [] \<and> list_all is_digit p) (split_on CHR ''.'' a)"

definition usable_ipv4 :: "string \<Rightarrow> bool" where
  "usable_ipv4 a \<longleftrightarrow> dotted_quad a \<and> \<not> starts_with a ''127.'' \<and> \<not> starts_with a ''169.254.''
     \<and> \<not> starts_with a ''0.'' \<and> hd (split_on CHR ''.'' a) \<noteq> ''255''"

definition select_usable_ipv4 :: "string list \<Rightarrow> string option" where
  "select_usable_ipv4 addresses = find usable_ipv4 addresses"

subsection \<open>Network entries\<close>

definition net_index :: "cfg \<Rightarrow> string option" where
  "net_index cfg = find (\<lambda>k. map_of cfg k \<noteq> None) (map (\<lambda>i. ''net'' @ nat_str i) [0..<32])"

definition key_part :: "string \<Rightarrow> string" where
  "key_part part = takeWhile (\<lambda>c. c \<noteq> CHR ''='') part"

definition has_eq :: "string \<Rightarrow> bool" where
  "has_eq part \<longleftrightarrow> CHR ''='' \<in> set part"

definition value_part :: "string \<Rightarrow> string" where
  "value_part part = drop (Suc (length (key_part part))) part"

record parsed_net =
  net_model :: string
  net_mac :: "string option"
  net_bridge :: "string option"

definition virtio :: string where
  "virtio = ''virtio''"

definition parse_net_first :: "string \<Rightarrow> parsed_net" where
  "parse_net_first first =
     (if has_eq first
      then \<lparr>net_model = (if key_part first = [] then virtio else key_part first),
            net_mac = (if value_part first = [] then None else Some (value_part first)), net_bridge = None\<rparr>
      else \<lparr>net_model = (if first = [] then virtio else first), net_mac = None, net_bridge = None\<rparr>)"

definition parse_net_part :: "string \<Rightarrow> parsed_net \<Rightarrow> parsed_net" where
  "parse_net_part part n =
     (if \<not> has_eq part then n
      else if key_part part = ''bridge'' then n\<lparr>net_bridge := Some (value_part part)\<rparr>
      else if key_part part = ''model'' then n\<lparr>net_model := value_part part\<rparr>
      else n)"

definition parse_net :: "string \<Rightarrow> parsed_net" where
  "parse_net str =
     (let parts = split_on CHR '','' str
      in fold parse_net_part parts (parse_net_first (hd parts)))"

definition build_net :: "string \<Rightarrow> string option \<Rightarrow> string \<Rightarrow> int option \<Rightarrow> string list \<Rightarrow> string" where
  "build_net model mac bridge vlan extra =
     join '','' ([case mac of Some a \<Rightarrow> (if a = [] then model else model @ ''='' @ a) | None \<Rightarrow> model,
        ''bridge='' @ bridge @ (case vlan of Some v \<Rightarrow> (if v = 0 then [] else '',tag='' @ int_str v) | None \<Rightarrow> [])]
       @ extra)"

definition extra_option :: "string \<Rightarrow> string \<Rightarrow> bool" where
  "extra_option model part \<longleftrightarrow> part \<noteq> [] \<and> key_part part \<notin> {''bridge'', ''tag'', ''model'', ''macaddr''}
     \<and> part \<noteq> model \<and> \<not> starts_with part (model @ ''='')"

definition extra_net_options :: "string option \<Rightarrow> string \<Rightarrow> string list" where
  "extra_net_options raw model = filter (extra_option model) (split_on CHR '','' (case raw of None \<Rightarrow> [] | Some r \<Rightarrow> r))"

subsection \<open>Disks\<close>

definition root_disk :: "cfg \<Rightarrow> string option" where
  "root_disk cfg = find (\<lambda>k. map_of cfg k \<noteq> None) [''scsi0'', ''virtio0'', ''ide0'', ''sata0'']"

text \<open>
  A size is the pair \<open>(m, d)\<close> of the \<open>m / 10 ^ d\<close> bytes it denotes. \<open>size_at\<close> matches the
  pattern at the start of its argument; the first match from the left counts.
\<close>

definition unit_factor :: "string \<Rightarrow> int" where
  "unit_factor u = (if u = ''K'' then 1024 else if u = ''M'' then 1024 ^ 2 else 1024 ^ 3)"

definition upper_unit :: "string \<Rightarrow> string" where
  "upper_unit s = (case s of [] \<Rightarrow> []
     | c # _ \<Rightarrow> (if c \<in> {CHR ''K'', CHR ''k''} then ''K'' else if c \<in> {CHR ''M'', CHR ''m''} then ''M''
                 else if c \<in> {CHR ''G'', CHR ''g''} then ''G'' else []))"

definition size_at :: "string \<Rightarrow> (int \<times> nat) option" where
  "size_at s =
     (if \<not> starts_with (to_lower s) ''size='' then None else
      let r = drop 5 s; ip = takeWhile is_digit r; r1 = dropWhile is_digit r;
          fp = (if r1 \<noteq> [] \<and> hd r1 = CHR ''.'' then takeWhile is_digit (tl r1) else []);
          r2 = (if fp = [] then r1 else drop (Suc (length fp)) r1)
      in if ip = [] then None
         else Some (int (digits_val (ip @ fp)) * unit_factor (upper_unit r2), length fp))"

fun disk_size_of :: "string \<Rightarrow> (int \<times> nat) option" where
  "disk_size_of [] = None"
| "disk_size_of (c # s) = (case size_at (c # s) of Some x \<Rightarrow> Some x | None \<Rightarrow> disk_size_of s)"

definition smaller_than :: "int \<times> nat \<Rightarrow> int \<Rightarrow> bool" where
  "smaller_than sz bytes \<longleftrightarrow> fst sz < bytes * 10 ^ snd sz"

subsection \<open>A free VMID\<close>

text \<open>
  The loop of \<open>cloneTemplate\<close>: \<open>n\<close> increments are left; leaving with none left is the
  conflict error, whether or not the last candidate is free.
\<close>

fun next_free :: "nat \<Rightarrow> (int \<Rightarrow> bool) \<Rightarrow> int \<Rightarrow> int option" where
  "next_free 0 busy v = None"
| "next_free (Suc n) busy v = (if busy v then next_free n busy (v + 1) else Some v)"

definition VMID_ATTEMPTS :: nat where
  "VMID_ATTEMPTS = 1000"

lemma next_free_Some:
  "next_free n busy v = Some w \<longleftrightarrow> v \<le> w \<and> w < v + int n \<and> \<not> busy w \<and> (\<forall>u. v \<le> u \<and> u < w \<longrightarrow> busy u)"
proof (induction n busy v rule: next_free.induct)
  case (2 n busy v)
  show ?case
  proof (cases "busy v")
    case True
    have "next_free n busy (v + 1) = Some w \<longleftrightarrow>
        v + 1 \<le> w \<and> w < v + 1 + int n \<and> \<not> busy w \<and> (\<forall>u. v + 1 \<le> u \<and> u < w \<longrightarrow> busy u)"
      using 2 [OF True] .
    also have "\<dots> \<longleftrightarrow> v \<le> w \<and> w < v + int (Suc n) \<and> \<not> busy w \<and> (\<forall>u. v \<le> u \<and> u < w \<longrightarrow> busy u)"
      using True by (auto simp: le_less add1_zle_eq) (metis le_less add1_zle_eq)+
    finally show ?thesis using True by simp
  next
    case False
    then show ?thesis by (auto intro: antisym simp: not_less le_less)
  qed
qed simp

lemma next_free_None: "next_free n busy v = None \<longleftrightarrow> (\<forall>u. v \<le> u \<and> u < v + int n \<longrightarrow> busy u)"
proof (induction n busy v rule: next_free.induct)
  case (2 n busy v)
  show ?case
  proof (cases "busy v")
    case True
    have "busy u" if "\<forall>u. v + 1 \<le> u \<and> u < v + 1 + int n \<longrightarrow> busy u" "v \<le> u" "u < v + int (Suc n)" for u
      using that True by (cases "u = v") auto
    then have "(\<forall>u. v + 1 \<le> u \<and> u < v + 1 + int n \<longrightarrow> busy u)
        \<longleftrightarrow> (\<forall>u. v \<le> u \<and> u < v + int (Suc n) \<longrightarrow> busy u)"
      by (intro iffI allI impI) (blast, simp)
    with 2 [OF True] True show ?thesis by simp
  qed auto
qed auto

text \<open>A terabyte suffix is not known to the pattern and reads as gigabytes.\<close>

lemma terabytes_read_as_gigabytes: "disk_size_of ''vm-1-disk-0,size=2T'' = disk_size_of ''vm-1-disk-0,size=2G''"
  by code_simp

end
