(* ===== verification/Strings.thy ===== *)
theory Strings
  imports Prelude
begin

text \<open>
  Laws of the text functions that the component theories share: splitting what was joined, and
  the digits of printed numbers.
\<close>

subsection \<open>Suffixes\<close>

definition ends_with :: "string \<Rightarrow> string \<Rightarrow> bool" where
  "ends_with s p \<longleftrightarrow> drop (length s - length p) s = p"

lemma ends_withD: "ends_with s p \<Longrightarrow> \<exists>a. s = a @ p"
  unfolding ends_with_def by (metis append_take_drop_id)

subsection \<open>Splitting what was joined\<close>

lemma split_acc_plain: "c \<notin> set x \<Longrightarrow> split_acc c acc x = [acc @ x]"
  by (induction x arbitrary: acc) auto

lemma split_acc_append: "c \<notin> set x \<Longrightarrow> split_acc c acc (x @ c # rest) = (acc @ x) # split_acc c [] rest"
  by (induction x arbitrary: acc) auto

lemma split_on_join:
  "parts \<noteq> [] \<Longrightarrow> \<forall>x \<in> set parts. c \<notin> set x \<Longrightarrow> split_on c (join [c] parts) = parts"
  unfolding split_on_def
  by (induction "[c]" parts rule: join.induct) (simp_all add: split_acc_plain split_acc_append)

lemma nat_str_fuel_digits: "set (nat_str_fuel f n) \<subseteq> char_of ` {48..57 :: nat}"
proof (induction f n rule: nat_str_fuel.induct)
  case (2 f n)
  have "char_of (48 + n mod 10) \<in> char_of ` {48..57 :: nat}" "n < 10 \<Longrightarrow> char_of (48 + n) \<in> char_of ` {48..57 :: nat}"
    by (intro imageI, simp)+
  with 2 show ?case by auto
qed simp

lemma int_str_chars: "x \<in> set (int_str v) \<Longrightarrow> x = CHR ''-'' \<or> x \<in> char_of ` {48..57 :: nat}"
  using nat_str_fuel_digits by (auto simp: int_str_def nat_str_def split: if_splits)

lemma comma_not_digit: "CHR '','' \<notin> char_of ` {48..57 :: nat}"
proof
  assume "CHR '','' \<in> char_of ` {48..57 :: nat}"
  then obtain n :: nat where n: "48 \<le> n" "n \<le> 57" "CHR '','' = char_of n" by auto
  have "(of_char (CHR '','') :: nat) = n mod 256" by (simp only: n(3) of_char_of)
  with n(1,2) show False by simp
qed

lemma int_str_no_comma: "CHR '','' \<notin> set (int_str v)"
  using int_str_chars comma_not_digit by fastforce

end
