(* ===== verification/Netconf_Props.thy ===== *)
theory Netconf_Props
  imports Netconf Strings
begin

text \<open>
  The network entry of a VM configuration survives its rewriting: what \<open>buildNet\<close> writes,
  \<open>parseNet\<close> and \<open>extraNetOptions\<close> read back.
\<close>

subsection \<open>Network entries\<close>

definition plain_model :: "string \<Rightarrow> bool" where
  "plain_model m \<longleftrightarrow> m \<noteq> [] \<and> CHR '','' \<notin> set m \<and> CHR ''='' \<notin> set m \<and> m \<notin> {''bridge'', ''model''}"

definition net_parts :: "string \<Rightarrow> string option \<Rightarrow> string \<Rightarrow> int option \<Rightarrow> string list \<Rightarrow> string list" where
  "net_parts model mac bridge vlan extra =
     (case mac of Some a \<Rightarrow> (if a = [] then model else model @ ''='' @ a) | None \<Rightarrow> model)
       # (''bridge='' @ bridge)
       # (case vlan of Some v \<Rightarrow> (if v = 0 then [] else [''tag='' @ int_str v]) | None \<Rightarrow> []) @ extra"

lemma build_net_join: "build_net model mac bridge vlan extra = join '','' (net_parts model mac bridge vlan extra)"
  by (cases extra) (auto simp: build_net_def net_parts_def split: option.splits)

lemma split_build_net:
  assumes "plain_model model" "\<forall>a. mac = Some a \<longrightarrow> CHR '','' \<notin> set a" "CHR '','' \<notin> set bridge"
    and "\<forall>x \<in> set extra. CHR '','' \<notin> set x"
  shows "split_on CHR '','' (build_net model mac bridge vlan extra) = net_parts model mac bridge vlan extra"
  unfolding build_net_join
proof (rule split_on_join)
  show "\<forall>x \<in> set (net_parts model mac bridge vlan extra). CHR '','' \<notin> set x"
    using assms int_str_no_comma by (auto simp: net_parts_def plain_model_def split: option.splits if_splits)
qed (simp add: net_parts_def)

lemma key_part_append: "CHR ''='' \<notin> set k \<Longrightarrow> key_part (k @ CHR ''='' # v) = k"
  by (induction k) (auto simp: key_part_def)

lemma value_part_append: "CHR ''='' \<notin> set k \<Longrightarrow> value_part (k @ CHR ''='' # v) = v"
  by (simp add: value_part_def key_part_append)

lemma key_part_plain: "CHR ''='' \<notin> set k \<Longrightarrow> key_part k = k"
  by (induction k) (auto simp: key_part_def)

lemma extra_ignored: "\<forall>x \<in> set xs. extra_option model x \<Longrightarrow> fold parse_net_part xs n = n"
  by (induction xs arbitrary: n) (auto simp: extra_option_def parse_net_part_def)


definition extras_ok :: "string \<Rightarrow> string list \<Rightarrow> bool" where
  "extras_ok model extra \<longleftrightarrow> (\<forall>x \<in> set extra. extra_option model x \<and> CHR '','' \<notin> set x)"

lemma parse_build_net:
  assumes m: "plain_model model" and a: "\<forall>a. mac = Some a \<longrightarrow> a \<noteq> [] \<and> CHR '','' \<notin> set a"
    and "CHR '','' \<notin> set bridge" "extras_ok model extra"
  shows "parse_net (build_net model mac bridge vlan extra) =
    \<lparr>net_model = model, net_mac = mac, net_bridge = Some bridge\<rparr>"
proof -
  have eq: "CHR ''='' \<notin> set model" "model \<noteq> []" "model \<noteq> ''bridge''" "model \<noteq> ''model''"
    using m by (auto simp: plain_model_def)
  have s: "split_on CHR '','' (build_net model mac bridge vlan extra) = net_parts model mac bridge vlan extra"
    by (rule split_build_net) (use assms in \<open>auto simp: extras_ok_def\<close>)
  have e: "fold parse_net_part extra n = n" for n
    by (rule extra_ignored [of _ model]) (use assms(4) in \<open>simp add: extras_ok_def\<close>)
  have b: "key_part (''bridge='' @ bridge) = ''bridge''" "value_part (''bridge='' @ bridge) = bridge"
    using key_part_append [of "''bridge''" bridge] value_part_append [of "''bridge''" bridge] by simp_all
  have t: "key_part (''tag='' @ v) = ''tag''" for v
    using key_part_append [of "''tag''" v] by simp
  show ?thesis
    unfolding parse_net_def s
    using eq a
    by (auto simp: net_parts_def parse_net_first_def parse_net_part_def has_eq_def e b t [simplified] b [simplified]
        key_part_append value_part_append split: option.splits)
qed

lemma extra_build_net:
  assumes m: "plain_model model" and "\<forall>a. mac = Some a \<longrightarrow> a \<noteq> [] \<and> CHR '','' \<notin> set a"
    and "CHR '','' \<notin> set bridge" "extras_ok model extra"
  shows "extra_net_options (Some (build_net model mac bridge vlan extra)) model = extra"
proof -
  have s: "split_on CHR '','' (build_net model mac bridge vlan extra) = net_parts model mac bridge vlan extra"
    by (rule split_build_net) (use assms in \<open>auto simp: extras_ok_def\<close>)
  have k: "key_part (''bridge='' @ bridge) = ''bridge''" "key_part (''tag='' @ v) = ''tag''" for v
    using key_part_append [of "''bridge''" bridge] key_part_append [of "''tag''" v] by simp_all
  have "filter (extra_option model) extra = extra"
    using assms(4) by (simp add: extras_ok_def)
  then show ?thesis
    unfolding extra_net_options_def option.case s
    by (auto simp: net_parts_def extra_option_def k [simplified] starts_with_def split: option.splits)
qed

text \<open>Rewriting the network entry of a template keeps what provisioning does not manage. The
  entry written by \<open>buildNet\<close> reads back as the same model, MAC address, bridge and further
  options, so writing it again with another bridge and VLAN gives exactly the entry with these
  two changed.\<close>

theorem net_roundtrip:
  assumes "plain_model model" and "\<forall>a. mac = Some a \<longrightarrow> a \<noteq> [] \<and> CHR '','' \<notin> set a"
    and "CHR '','' \<notin> set bridge" and "extras_ok model extra"
  shows "let raw = build_net model mac bridge vlan extra; n = parse_net raw in
    n = \<lparr>net_model = model, net_mac = mac, net_bridge = Some bridge\<rparr>
    \<and> extra_net_options (Some raw) (net_model n) = extra
    \<and> build_net (net_model n) (net_mac n) bridge' vlan' (extra_net_options (Some raw) (net_model n))
      = build_net model mac bridge' vlan' extra"
  by (simp add: Let_def parse_build_net [OF assms] extra_build_net [OF assms])

lemma net_roundtrip_witness:
  "build_net ''virtio'' (Some ''AA:BB'') ''vmbr1'' (Some 20) [''firewall=1'', ''mtu=9000''] =
     ''virtio=AA:BB,bridge=vmbr1,tag=20,firewall=1,mtu=9000''
   \<and> parse_net ''virtio=AA:BB,bridge=vmbr1,tag=20,firewall=1,mtu=9000'' =
     \<lparr>net_model = ''virtio'', net_mac = Some ''AA:BB'', net_bridge = Some ''vmbr1''\<rparr>"
proof -
  have e: "extras_ok ''virtio'' [''firewall=1'', ''mtu=9000'']"
    unfolding extras_ok_def by code_simp
  have b: "build_net ''virtio'' (Some ''AA:BB'') ''vmbr1'' (Some 20) [''firewall=1'', ''mtu=9000''] =
     ''virtio=AA:BB,bridge=vmbr1,tag=20,firewall=1,mtu=9000''"
    by code_simp
  show ?thesis
    using net_roundtrip [OF _ _ _ e, of "Some ''AA:BB''" "''vmbr1''" "Some 20"] b
    by (simp add: Let_def plain_model_def)
qed

end
