(* ===== verification/Credentials.thy ===== *)
theory Credentials
  imports Vms
begin

text \<open>
  The guest credential vault (\<open>packages/core/src/services/credentials.ts\<close>, class
  \<open>CredentialsService\<close>): one encrypted password per VM and the claim that serialises
  rotations. Encryption is a parameter; fresh identifiers and the clock are arguments.
\<close>

datatype cred_status = CredNone | CredEncrypted | CredProvisioned | CredVerified | CredRotating | CredFailed

record cred_row =
  cr_id :: string
  cr_vm :: string
  cr_username :: string
  cr_cipher :: string
  cr_key :: string
  cr_status :: cred_status
  cr_created :: time
  cr_verified :: "time option"
  cr_rotated :: "time option"

definition cred_of :: "string \<Rightarrow> cred_row list \<Rightarrow> cred_row option" where
  "cred_of vm t = table_find cr_vm vm t"

interpretation cred_table: keyed_table cr_vm cred_of
  by unfold_locales (simp add: cred_of_def)

definition key_id_of :: "string \<Rightarrow> string" where
  "key_id_of c = (let p = takeWhile (\<lambda>x. x \<noteq> CHR '':'') c
                  in if length p < length c \<and> p \<noteq> [] then p else ''v1'')"

definition cred_update_row ::
  "(string \<Rightarrow> string) \<Rightarrow> time \<Rightarrow> string \<Rightarrow> string \<Rightarrow> string \<Rightarrow> cred_status \<Rightarrow> cred_row list \<Rightarrow> cred_row list" where
  "cred_update_row enc now i username password st t =
     table_update (\<lambda>r. cr_id r = i) (\<lambda>r. r\<lparr>cr_username := username, cr_cipher := enc password,
        cr_key := key_id_of (enc password), cr_status := st,
        cr_verified := (if st = CredVerified then Some now else cr_verified r)\<rparr>) t"

definition cred_store ::
  "(string \<Rightarrow> string) \<Rightarrow> time \<Rightarrow> string \<Rightarrow> string \<Rightarrow> string \<Rightarrow> string \<Rightarrow> cred_status \<Rightarrow> cred_row list
   \<Rightarrow> string \<times> cred_row list" where
  "cred_store enc now nid vm username password st t =
     (case cred_of vm t of
        Some r \<Rightarrow> (cr_id r, cred_update_row enc now (cr_id r) username password st t)
      | None \<Rightarrow> (nid, t @ [\<lparr>cr_id = nid, cr_vm = vm, cr_username = username, cr_cipher = enc password,
           cr_key = key_id_of (enc password), cr_status = st, cr_created = now, cr_verified = None,
           cr_rotated = None\<rparr>]))"

definition cred_rotate ::
  "(string \<Rightarrow> string) \<Rightarrow> time \<Rightarrow> string \<Rightarrow> string \<Rightarrow> string \<Rightarrow> (cred_row list, unit) comp" where
  "cred_rotate enc now vm username password t =
     (case cred_of vm t of
        None \<Rightarrow> (Inl (err_not_found ''No credential stored for this VM''), t)
      | Some r \<Rightarrow> (Inr (), table_update (\<lambda>x. cr_id x = cr_id r) (\<lambda>x. x\<lparr>cr_rotated := Some now\<rparr>)
           (cred_update_row enc now (cr_id r) username password CredRotating t)))"

definition mark_verified :: "time \<Rightarrow> string \<Rightarrow> cred_row list \<Rightarrow> cred_row list" where
  "mark_verified now vm t =
     table_update (\<lambda>r. cr_vm r = vm) (\<lambda>r. r\<lparr>cr_status := CredVerified, cr_verified := Some now\<rparr>) t"

definition mark_rotated_success :: "time \<Rightarrow> string \<Rightarrow> cred_row list \<Rightarrow> cred_row list" where
  "mark_rotated_success now vm t =
     table_update (\<lambda>r. cr_vm r = vm) (\<lambda>r. r\<lparr>cr_status := CredVerified, cr_verified := Some now\<rparr>) t"

definition cred_set_status :: "string \<Rightarrow> cred_status \<Rightarrow> cred_row list \<Rightarrow> cred_row list" where
  "cred_set_status vm st t = table_update (\<lambda>r. cr_vm r = vm) (\<lambda>r. r\<lparr>cr_status := st\<rparr>) t"

definition claimable :: "string \<Rightarrow> cred_row \<Rightarrow> bool" where
  "claimable vm r \<longleftrightarrow> cr_vm r = vm \<and> cr_status r \<noteq> CredRotating"

definition try_claim_rotation :: "string \<Rightarrow> cred_row list \<Rightarrow> bool \<times> cred_row list" where
  "try_claim_rotation vm t =
     (length (filter (claimable vm) t) > 0,
      table_update (claimable vm) (\<lambda>r. r\<lparr>cr_status := CredRotating\<rparr>) t)"

definition cred_delete :: "string \<Rightarrow> cred_row list \<Rightarrow> cred_row list" where
  "cred_delete vm t = table_delete (\<lambda>r. cr_vm r = vm) t"

record cred_view =
  cw_id :: string
  cw_vm :: string
  cw_username :: string
  cw_status :: cred_status
  cw_created :: time
  cw_verified :: "time option"
  cw_rotated :: "time option"

definition cred_view_of :: "string \<Rightarrow> cred_row list \<Rightarrow> cred_view option" where
  "cred_view_of vm t = map_option (\<lambda>r. \<lparr>cw_id = cr_id r, cw_vm = cr_vm r, cw_username = cr_username r,
      cw_status = cr_status r, cw_created = cr_created r, cw_verified = cr_verified r,
      cw_rotated = cr_rotated r\<rparr>) (cred_of vm t)"

subsection \<open>Well-formedness\<close>

definition creds_wf :: "cred_row list \<Rightarrow> bool" where
  "creds_wf t \<longleftrightarrow> cred_table.unique t \<and> distinct (map cr_id t)"

lemma creds_wf_update:
  assumes "creds_wf t" "\<And>r. cr_vm (f r) = cr_vm r" "\<And>r. cr_id (f r) = cr_id r"
  shows "creds_wf (table_update P f t)"
proof -
  have "map cr_id (table_update P f t) = map cr_id t"
    by (simp add: table_update_def assms(3))
  with assms show ?thesis
    by (simp add: creds_wf_def cred_table.unique_update)
qed

lemma creds_wf_ops:
  assumes "creds_wf t"
  shows "creds_wf (cred_update_row enc now i u p st t)" "creds_wf (mark_verified now vm t)"
    "creds_wf (mark_rotated_success now vm t)" "creds_wf (cred_set_status vm st t)"
    "creds_wf (snd (try_claim_rotation vm t))" "creds_wf (snd (cred_rotate enc now vm u p t))"
  using assms
  by (auto simp: cred_update_row_def mark_verified_def mark_rotated_success_def cred_set_status_def
      try_claim_rotation_def cred_rotate_def intro!: creds_wf_update split: option.split)

lemma same_cred_row:
  assumes "creds_wf t" "cred_of vm t = Some r" "x \<in> set t"
  shows "cr_id x = cr_id r \<longleftrightarrow> cr_vm x = vm"
proof -
  have r: "r \<in> set t" "cr_vm r = vm" using cred_table.lookup_SomeD [OF assms(2)] by auto
  have "x = r" if "cr_id x = cr_id r"
    using assms(1,3) r(1) that by (auto simp: creds_wf_def distinct_map dest: inj_onD)
  moreover have "x = r" if "cr_vm x = vm"
    using cred_table.lookup_unique [of t x] assms that by (simp add: creds_wf_def)
  ultimately show ?thesis using r by auto
qed

lemma cred_of_update_row:
  assumes "creds_wf t" "cred_of vm t = Some r"
  shows "cred_of v (cred_update_row enc now (cr_id r) u p st t) =
    (if v = vm then Some (r\<lparr>cr_username := u, cr_cipher := enc p, cr_key := key_id_of (enc p), cr_status := st,
        cr_verified := (if st = CredVerified then Some now else cr_verified r)\<rparr>) else cred_of v t)"
proof -
  let ?f = "\<lambda>r. r\<lparr>cr_username := u, cr_cipher := enc p, cr_key := key_id_of (enc p), cr_status := st,
        cr_verified := (if st = CredVerified then Some now else cr_verified r)\<rparr>"
  have "cred_update_row enc now (cr_id r) u p st t = table_update (\<lambda>x. cr_vm x = vm) ?f t"
    using same_cred_row [OF assms] by (simp add: cred_update_row_def table_update_def)
  then show ?thesis
    using cred_table.lookup_update [of ?f vm t] cred_table.lookup_update_other [of ?f v vm t] assms(2) by simp
qed

lemma cred_of_append:
  "cred_of v (t @ [r]) = (case cred_of v t of Some x \<Rightarrow> Some x | None \<Rightarrow> if cr_vm r = v then Some r else None)"
  by (induction t) (auto simp: cred_of_def table_find_def)

lemma cred_store_lookup:
  assumes "creds_wf t"
  shows "\<exists>r. cred_of vm (snd (cred_store enc now nid vm u p st t)) = Some r \<and> cr_cipher r = enc p
      \<and> cr_username r = u \<and> cr_status r = st \<and> cr_key r = key_id_of (enc p)
      \<and> cr_id r = fst (cred_store enc now nid vm u p st t)"
    and "v \<noteq> vm \<Longrightarrow> cred_of v (snd (cred_store enc now nid vm u p st t)) = cred_of v t"
  using cred_of_update_row [OF assms]
  by (auto simp: cred_store_def cred_of_append split: option.split)

lemma creds_wf_store:
  assumes "creds_wf t" "nid \<notin> cr_id ` set t"
  shows "creds_wf (snd (cred_store enc now nid vm u p st t))"
  using assms creds_wf_ops(1)
  by (auto simp: cred_store_def creds_wf_def cred_table.unique_append split: option.split)

fun racing_claims :: "string \<Rightarrow> nat \<Rightarrow> cred_row list \<Rightarrow> bool list \<times> cred_row list" where
  "racing_claims vm 0 t = ([], t)"
| "racing_claims vm (Suc n) t =
     (let (b, t1) = try_claim_rotation vm t; (bs, t2) = racing_claims vm n t1 in (b # bs, t2))"

lemma claim_after_claim:
  "\<not> fst (try_claim_rotation vm (snd (try_claim_rotation vm t)))"
  "snd (try_claim_rotation vm (snd (try_claim_rotation vm t))) = snd (try_claim_rotation vm t)"
  by (auto simp: try_claim_rotation_def claimable_def filter_empty_conv table_update_def)

lemma racing_claims_after:
  "fst (racing_claims vm n (snd (try_claim_rotation vm t))) = replicate n False"
proof (induction n arbitrary: t)
  case (Suc n)
  have "fst (racing_claims vm (Suc n) (snd (try_claim_rotation vm t))) =
    fst (try_claim_rotation vm (snd (try_claim_rotation vm t)))
    # fst (racing_claims vm n (snd (try_claim_rotation vm (snd (try_claim_rotation vm t)))))"
    by (simp add: case_prod_beta Let_def)
  with Suc claim_after_claim [of vm t] show ?case by simp
qed simp

lemma racing_claims_one:
  "fst (racing_claims vm (Suc n) t) = fst (try_claim_rotation vm t) # replicate n False"
  using racing_claims_after [of vm n t] by (simp add: case_prod_beta Let_def)

lemma claim_iff:
  assumes "creds_wf t"
  shows "fst (try_claim_rotation vm t) \<longleftrightarrow> (\<exists>r. cred_of vm t = Some r \<and> cr_status r \<noteq> CredRotating)"
proof -
  have "fst (try_claim_rotation vm t) \<longleftrightarrow> (\<exists>r \<in> set t. cr_vm r = vm \<and> cr_status r \<noteq> CredRotating)"
    by (auto simp: try_claim_rotation_def claimable_def filter_empty_conv)
  also have "\<dots> \<longleftrightarrow> (\<exists>r. cred_of vm t = Some r \<and> cr_status r \<noteq> CredRotating)"
  proof
    assume "\<exists>r \<in> set t. cr_vm r = vm \<and> cr_status r \<noteq> CredRotating"
    then obtain r where "r \<in> set t" "cr_vm r = vm" "cr_status r \<noteq> CredRotating" by blast
    with assms cred_table.lookup_unique [of t r] show "\<exists>r. cred_of vm t = Some r \<and> cr_status r \<noteq> CredRotating"
      by (simp add: creds_wf_def)
  qed (use cred_table.lookup_SomeD [of vm t] in blast)
  finally show ?thesis .
qed

text \<open>The credential vault. With a cipher that can be undone, what \<open>store\<close> wrote for a VM is
  what decryption of its row gives back, under the key the ciphertext names, whatever was
  there before; no other VM's credential changes; every VM keeps at most one row. Of any
  number of rotations racing for a VM, the first wins exactly when a credential exists that is
  not being rotated, and all others lose.\<close>

theorem credential_vault:
  assumes "creds_wf t" and "\<And>p. dec (enc p) = p" and "nid \<notin> cr_id ` set t" and "v \<noteq> vm"
  shows "(\<exists>r. cred_of vm (snd (cred_store enc now nid vm u p st t)) = Some r \<and> dec (cr_cipher r) = p
        \<and> cr_username r = u \<and> cr_status r = st \<and> cr_key r = key_id_of (cr_cipher r))
    \<and> cred_of v (snd (cred_store enc now nid vm u p st t)) = cred_of v t
    \<and> creds_wf (snd (cred_store enc now nid vm u p st t))
    \<and> fst (racing_claims vm (Suc n) t) =
        (\<exists>r. cred_of vm t = Some r \<and> cr_status r \<noteq> CredRotating) # replicate n False"
proof (intro conjI)
  from cred_store_lookup(1) [OF assms(1)] obtain r
    where "cred_of vm (snd (cred_store enc now nid vm u p st t)) = Some r" "cr_cipher r = enc p"
      "cr_username r = u" "cr_status r = st" "cr_key r = key_id_of (enc p)" by blast
  with assms(2) show "\<exists>r. cred_of vm (snd (cred_store enc now nid vm u p st t)) = Some r \<and> dec (cr_cipher r) = p
        \<and> cr_username r = u \<and> cr_status r = st \<and> cr_key r = key_id_of (cr_cipher r)"
    by (intro exI [of _ r]) simp
  show "fst (racing_claims vm (Suc n) t) =
        (\<exists>r. cred_of vm t = Some r \<and> cr_status r \<noteq> CredRotating) # replicate n False"
    by (simp only: racing_claims_one claim_iff [OF assms(1)])
qed (rule cred_store_lookup(2) [OF assms(1,4)] creds_wf_store [OF assms(1,3)])+

definition sample_creds :: "cred_row list" where
  "sample_creds = [\<lparr>cr_id = ''c1'', cr_vm = ''v1'', cr_username = ''deploy'', cr_cipher = ''k2:x'', cr_key = ''k2'',
     cr_status = CredVerified, cr_created = 0, cr_verified = Some 1, cr_rotated = None\<rparr>]"

lemma credential_vault_witness:
  "fst (racing_claims ''v1'' 3 sample_creds) = [True, False, False]"
proof -
  have 1: "creds_wf sample_creds"
    by (simp add: creds_wf_def sample_creds_def cred_table.unique_def)
  have "cred_of ''v1'' sample_creds = Some (hd sample_creds)"
    by code_simp
  then have 2: "\<exists>r. cred_of ''v1'' sample_creds = Some r \<and> cr_status r \<noteq> CredRotating"
    by (simp add: sample_creds_def)
  have "fst (racing_claims ''v1'' (Suc 2) sample_creds) =
      (\<exists>r. cred_of ''v1'' sample_creds = Some r \<and> cr_status r \<noteq> CredRotating) # replicate 2 False"
    using credential_vault [OF 1, where enc = "\<lambda>p. ''k2:'' @ p" and dec = "drop 3" and nid = "''c2''"
        and vm = "''v1''" and v = "''v2''" and n = 2]
    by (simp add: sample_creds_def)
  with 2 show ?thesis
    by (simp add: numeral_eq_Suc)
qed

end
