(* ===== verification/Pipeline.thy ===== *)
theory Pipeline
  imports Netconf Policy Guac Credentials Audit_Log
begin

text \<open>
  The provisioning worker: \<open>packages/core/src/provisioning/pipeline.ts\<close>
  (\<open>runProvisioningJob\<close> and the class \<open>StepRunner\<close>), \<open>provisioning/reschedule.ts\<close> and the
  queue consumer of \<open>apps/worker/src/index.ts\<close>.

  Everything outside the databases is a world of an arbitrary type: Proxmox, SSH and TCP
  probes, Redis, the clock and the source of identifiers are the record \<open>services\<close>, whose
  calls may change the world and throw. A \<open>RescheduleError\<close> is the result \<open>StepLater\<close> of a
  step, every other exception an \<open>app_error\<close>. Database queries themselves do not fail except
  where a constraint says so. The pinned host keys that an SSH probe reads are in the world.
\<close>

subsection \<open>The outside world\<close>

record agent_info =
  ag_ipv4s :: "string list"
  ag_os :: "string option"

record px_resource =
  pr_vmid :: int
  pr_node :: string
  pr_name :: string
  pr_template :: bool

record clone_opts =
  co_node :: string
  co_template :: int
  co_new :: int
  co_name :: string
  co_full :: bool
  co_storage :: "string option"
  co_target :: "string option"

record ssh_result =
  ssh_authenticated :: bool
  ssh_detail :: string
  ssh_output :: string

record 'w services =
  sv_clock :: "'w \<Rightarrow> time"
  sv_new_id :: "('w, string) comp"
  sv_new_password :: "('w, string) comp"
  sv_encrypt :: "string \<Rightarrow> string"
  sv_decrypt :: "string \<Rightarrow> string res"
  sv_hash :: "string \<Rightarrow> string"
  sv_publish :: "string \<Rightarrow> json \<Rightarrow> 'w \<Rightarrow> 'w"
  sv_enqueue :: "string \<Rightarrow> string \<Rightarrow> nat \<Rightarrow> int \<Rightarrow> ('w, unit) comp"
  sv_client :: "('w, unit) comp"
  sv_guac_db :: "('w, unit) comp"
  sv_nodes :: "('w, string list) comp"
  sv_resources :: "('w, px_resource list) comp"
  sv_storages :: "string \<Rightarrow> ('w, (string \<times> string) list) comp"
  sv_networks :: "string \<Rightarrow> ('w, string list) comp"
  sv_next_vmid :: "('w, int) comp"
  sv_clone :: "clone_opts \<Rightarrow> ('w, string) comp"
  sv_wait_task :: "string \<Rightarrow> string \<Rightarrow> int \<Rightarrow> ('w, unit) comp"
  sv_config :: "string \<Rightarrow> int \<Rightarrow> ('w, cfg) comp"
  sv_update_config :: "string \<Rightarrow> int \<Rightarrow> cfg \<Rightarrow> ('w, string) comp"
  sv_resize_disk :: "string \<Rightarrow> int \<Rightarrow> string \<Rightarrow> string \<Rightarrow> ('w, string) comp"
  sv_start :: "string \<Rightarrow> int \<Rightarrow> ('w, string) comp"
  sv_status :: "string \<Rightarrow> int \<Rightarrow> ('w, string) comp"
  sv_wait_agent :: "string \<Rightarrow> int \<Rightarrow> int \<Rightarrow> int \<Rightarrow> ('w, bool) comp"
  sv_guest_ips :: "string \<Rightarrow> int \<Rightarrow> ('w, agent_info option) comp"
  sv_os_info :: "string \<Rightarrow> int \<Rightarrow> ('w, string option) comp"
  sv_probe_ssh :: "string option \<Rightarrow> string \<Rightarrow> string \<Rightarrow> ('w, ssh_result) comp"
  sv_probe_tcp :: "string option \<Rightarrow> nat \<Rightarrow> ('w, bool) comp"

subsection \<open>State\<close>

text \<open>What a \<open>StepRunner\<close> holds: its \<open>shared\<close> fields and the resolved template.\<close>

record runner =
  ru_template :: "template_row option"
  ru_template_id :: string
  ru_template_vmid :: int
  ru_node :: string
  ru_vmid :: int
  ru_vm :: "string option"
  ru_ip :: "string option"
  ru_os :: os_type
  ru_protocol :: protocol
  ru_port :: nat
  ru_protocols :: "protocol list"

record 'w pstate =
  p_app :: app_db
  p_ledger :: ledger
  p_creds :: "cred_row list"
  p_templates :: "template_row list"
  p_guac :: guac_state
  p_audit :: audit_log
  p_settings :: settings
  p_run :: runner
  p_world :: 'w

definition p_now :: "'w services \<Rightarrow> 'w pstate \<Rightarrow> time" where
  "p_now sv s = sv_clock sv (p_world s)"

definition world_call :: "('w, 'a) comp \<Rightarrow> ('w pstate, 'a) comp" where
  "world_call m s = (case m (p_world s) of (r, w) \<Rightarrow> (r, s\<lparr>p_world := w\<rparr>))"

definition on_ledger :: "'w services \<Rightarrow> (time \<Rightarrow> ledger \<Rightarrow> ledger) \<Rightarrow> ('w pstate, unit) comp" where
  "on_ledger sv f = modify (\<lambda>s. s\<lparr>p_ledger := f (p_now sv s) (p_ledger s)\<rparr>)"

definition on_creds :: "'w services \<Rightarrow> (time \<Rightarrow> cred_row list \<Rightarrow> cred_row list) \<Rightarrow> ('w pstate, unit) comp" where
  "on_creds sv f = modify (\<lambda>s. s\<lparr>p_creds := f (p_now sv s) (p_creds s)\<rparr>)"

definition on_reg :: "(vm_db, 'a) comp \<Rightarrow> ('w pstate, 'a) comp" where
  "on_reg m s = (case m (reg (p_app s)) of (r, d) \<Rightarrow> (r, s\<lparr>p_app := (p_app s)\<lparr>reg := d\<rparr>\<rparr>))"

definition on_guac :: "(guac_state, 'a) comp \<Rightarrow> ('w pstate, 'a) comp" where
  "on_guac m s = (case m (p_guac s) of (r, g) \<Rightarrow> (r, s\<lparr>p_guac := g\<rparr>))"

definition set_run :: "(runner \<Rightarrow> runner) \<Rightarrow> ('w pstate, unit) comp" where
  "set_run f = modify (\<lambda>s. s\<lparr>p_run := f (p_run s)\<rparr>)"

definition get_run :: "('w pstate, runner) comp" where
  "get_run = gets p_run"

definition json_opt :: "string option \<Rightarrow> json" where
  "json_opt x = (case x of None \<Rightarrow> JNull | Some s \<Rightarrow> JStr s)"

definition p_event ::
  "'w services \<Rightarrow> string \<Rightarrow> string option \<times> string option \<Rightarrow> string \<Rightarrow> string option \<Rightarrow> (string \<times> json) list
   \<Rightarrow> ('w pstate, unit) comp" where
  "p_event sv ev actor i vm detail = modify (\<lambda>s. s\<lparr>p_audit := audit_record (p_now sv s)
     \<lparr>au_event = ev, au_actor = fst actor, au_actor_name = snd actor, au_vm = vm, au_job = Some i,
      au_ip = None, au_detail = Some (JObj detail)\<rparr> (p_audit s)\<rparr>)"

definition progress :: "'w services \<Rightarrow> string \<Rightarrow> json \<Rightarrow> ('w pstate, unit) comp" where
  "progress sv i data = modify (\<lambda>s. s\<lparr>p_world := sv_publish sv i data (p_world s)\<rparr>)"

definition job_actor :: "'w services \<Rightarrow> string \<Rightarrow> 'w pstate \<Rightarrow> string option \<times> string option" where
  "job_actor sv i s = (case job_get (p_ledger s) i of
       None \<Rightarrow> (None, None)
     | Some j \<Rightarrow> (case jb_creator j of
          None \<Rightarrow> (None, None)
        | Some u \<Rightarrow> (Some u, map_option u_username (find_user (p_app s) (p_now sv s) u))))"

datatype step_result = StepDone json | StepLater string

type_synonym 'w step = "('w pstate, step_result) comp"

definition done_with :: "(string \<times> json) list \<Rightarrow> 'w step" where
  "done_with d = ret (StepDone (JObj d))"

subsection \<open>The runner\<close>

definition apply_protocols :: "protocol list \<Rightarrow> runner \<Rightarrow> runner" where
  "apply_protocols ps ru =
     (let primary = (case ps of p # _ \<Rightarrow> p | [] \<Rightarrow> if ru_os ru = Windows then RDP else SSH)
      in ru\<lparr>ru_protocols := ps, ru_protocol := primary, ru_port := port_for_protocol primary\<rparr>)"

definition new_runner :: "provision_request \<Rightarrow> runner" where
  "new_runner req = apply_protocols (resolve_protocols req None)
     \<lparr>ru_template = None, ru_template_id = (case rq_template req of None \<Rightarrow> [] | Some i \<Rightarrow> i),
      ru_template_vmid = (case rq_template_vmid req of None \<Rightarrow> 0 | Some v \<Rightarrow> v),
      ru_node = (case rq_node req of None \<Rightarrow> [] | Some n \<Rightarrow> n),
      ru_vmid = (case rq_vmid req of None \<Rightarrow> 0 | Some v \<Rightarrow> v),
      ru_vm = None, ru_ip = None, ru_os = rq_os req, ru_protocol = SSH, ru_port = 22, ru_protocols = []\<rparr>"

definition restore_template :: "provision_request \<Rightarrow> template_row \<Rightarrow> runner \<Rightarrow> runner" where
  "restore_template req t ru = apply_protocols (resolve_protocols req (Some t))
     (ru\<lparr>ru_template := Some t, ru_template_id := tp_id t, ru_template_vmid := tp_vmid t, ru_os := tp_os t\<rparr>)"

definition step_status :: "job_step \<Rightarrow> job_status" where
  "step_status k = (case k of
       VALIDATE_PROXMOX_RESOURCES \<Rightarrow> CREATING | CLONE_TEMPLATE \<Rightarrow> CREATING
     | CONFIGURE_VM \<Rightarrow> PROVISIONING | CONFIGURE_GUEST_PROVISIONING \<Rightarrow> PROVISIONING
     | START_VM \<Rightarrow> CONFIGURING | WAIT_FOR_GUEST \<Rightarrow> WAITING_FOR_GUEST | DISCOVER_IP \<Rightarrow> WAITING_FOR_GUEST
     | VERIFY_GUEST \<Rightarrow> VERIFYING | VERIFY_CREDENTIALS \<Rightarrow> VERIFYING
     | CREATE_GUACAMOLE_CONNECTION \<Rightarrow> GUACAMOLE_CREATING | VERIFY_GUACAMOLE \<Rightarrow> GUACAMOLE_CREATING)"

definition fail_step :: "'w services \<Rightarrow> string \<Rightarrow> job_step \<Rightarrow> string \<Rightarrow> ('w pstate, unit) comp" where
  "fail_step sv i k msg = on_ledger sv (\<lambda>now. set_step now i k StepFailed None (Some msg))"

definition run_step :: "'w services \<Rightarrow> string \<Rightarrow> job_step \<Rightarrow> 'w step \<Rightarrow> 'w step" where
  "run_step sv i k fn =
     bind (on_ledger sv (\<lambda>now. job_update_status now i (step_status k) None)) (\<lambda>_.
     bind (on_ledger sv (\<lambda>now. set_step now i k StepRunning None None)) (\<lambda>_.
     bind (gets (\<lambda>s. ru_vm (p_run s))) (\<lambda>vm.
     bind (progress sv i (JObj [(''vmId'', json_opt vm), (''progress'', JNum 0)])) (\<lambda>_.
     bind (try_catch fn (\<lambda>e. bind (fail_step sv i k (err_message e)) (\<lambda>_. throw e))) (\<lambda>r.
     case r of
       StepLater msg \<Rightarrow> bind (fail_step sv i k msg) (\<lambda>_. ret (StepLater msg))
     | StepDone d \<Rightarrow>
         bind (on_ledger sv (\<lambda>now. set_step now i k StepSucceeded (Some d) None)) (\<lambda>_.
         bind (gets (\<lambda>s. ru_vm (p_run s))) (\<lambda>vm'.
         bind (progress sv i (JObj [(''vmId'', json_opt vm'), (''progress'', JNum 100)])) (\<lambda>_.
         ret (StepDone d)))))))))"

subsection \<open>Step: validate the resources\<close>

definition default_node :: "settings \<Rightarrow> string option" where
  "default_node st =
     (if \<not> truthy (st ''proxmox.url'') \<or> st ''proxmox.token_secret'' = None then None
      else st ''proxmox.default_node'')"

definition resolution_node :: "'w services \<Rightarrow> ('w pstate, string) comp" where
  "resolution_node sv =
     bind (gets (\<lambda>s. default_node (p_settings s))) (\<lambda>d.
     if truthy d then ret (the d)
     else bind (world_call (sv_client sv)) (\<lambda>_.
          bind (world_call (sv_nodes sv)) (\<lambda>nodes. ret (case nodes of [] \<Rightarrow> [] | n # _ \<Rightarrow> n))))"

definition template_by_vmid :: "'w services \<Rightarrow> provision_request \<Rightarrow> ('w pstate, template_row option) comp" where
  "template_by_vmid sv req =
     (case rq_template_vmid req of
        Some v \<Rightarrow> (if v = 0 then ret None
          else bind (case rq_node req of Some n \<Rightarrow> ret n | None \<Rightarrow> resolution_node sv) (\<lambda>node.
               gets (\<lambda>s. find_by_proxmox_id (p_templates s) node v)))
      | None \<Rightarrow> ret None)"

definition msg_register :: string where
  "msg_register = ''Template must be registered in ProxVM before it can be used for provisioning. Register it on the Templates page.''"

definition requested_template :: "'w services \<Rightarrow> provision_request \<Rightarrow> ('w pstate, template_row) comp" where
  "requested_template sv req =
     (if truthy (rq_template req)
      then bind (gets (\<lambda>s. template_require (p_templates s) (the (rq_template req)))) lift_res
      else bind (template_by_vmid sv req) (\<lambda>t. case t of
             None \<Rightarrow> throw (err_validation msg_register) | Some t \<Rightarrow> ret t))"

definition check_template_resource :: "'w services \<Rightarrow> template_row \<Rightarrow> ('w pstate, unit) comp" where
  "check_template_resource sv t =
     bind (world_call (sv_resources sv)) (\<lambda>rs.
     case find (\<lambda>r. pr_vmid r = tp_vmid t \<and> pr_node r = tp_node t) rs of
       None \<Rightarrow> throw (err_external ''Proxmox'' (''Template '' @ tp_name t @ '' (vmid '' @ int_str (tp_vmid t)
                 @ '') no longer exists on node '' @ tp_node t))
     | Some r \<Rightarrow> (if pr_template r then ret () else throw (err_validation (''VM '' @ int_str (tp_vmid t) @ '' (\"''
                 @ pr_name r @ ''\") exists on node '' @ tp_node t
                 @ '' but is not a template. Convert it to a template or register a different VM.''))))"

definition check_storage :: "'w services \<Rightarrow> string \<Rightarrow> string \<Rightarrow> ('w pstate, unit) comp" where
  "check_storage sv node storage =
     bind (world_call (sv_storages sv node)) (\<lambda>sts.
     case find (\<lambda>x. fst x = storage) sts of
       None \<Rightarrow> throw (err_external ''Proxmox'' (''Storage \"'' @ storage @ ''\" not found on node '' @ node))
     | Some x \<Rightarrow> (if contains_str (snd x) ''images'' then ret ()
          else throw (err_external ''Proxmox'' (''Storage \"'' @ storage @ ''\" cannot hold VM images (content=''
                 @ (if snd x = [] then ''none'' else snd x) @ '')''))))"

definition check_bridge :: "'w services \<Rightarrow> string \<Rightarrow> string \<Rightarrow> ('w pstate, unit) comp" where
  "check_bridge sv node bridge =
     (if bridge = [] then ret ()
      else bind (world_call (sv_networks sv node)) (\<lambda>ifs.
           if bridge \<in> set ifs then ret ()
           else throw (err_external ''Proxmox'' (''Network bridge \"'' @ bridge @ ''\" not found on node '' @ node))))"

definition validate_resources :: "'w services \<Rightarrow> provision_request \<Rightarrow> 'w step" where
  "validate_resources sv req =
     bind (world_call (sv_client sv)) (\<lambda>_.
     bind (requested_template sv req) (\<lambda>t.
     bind (set_run (\<lambda>ru. ru\<lparr>ru_template := Some t\<rparr>)) (\<lambda>_.
     bind (lift_res (ensure_provisionable t)) (\<lambda>_.
     bind (gets (\<lambda>s. case rq_node req of Some n \<Rightarrow> n | None \<Rightarrow> ru_node (p_run s))) (\<lambda>node.
     bind (world_call (sv_nodes sv)) (\<lambda>nodes.
     if node \<notin> set nodes then throw (err_validation (''Proxmox node \"'' @ node @ ''\" does not exist'')) else
     bind (check_template_resource sv t) (\<lambda>_.
     bind (check_storage sv node (rq_storage req)) (\<lambda>_.
     bind (check_bridge sv node (nr_bridge (rq_network req))) (\<lambda>_.
     bind (set_run (\<lambda>ru. restore_template req t (ru\<lparr>ru_node := node\<rparr>))) (\<lambda>_.
     done_with [(''node'', JStr node), (''storage'', JStr (rq_storage req)), (''templateId'', JStr (tp_id t)),
       (''templateVmid'', JNum (tp_vmid t)), (''osType'', JStr (os_str (tp_os t)))]))))))))))"

subsection \<open>Step: clone the template\<close>

definition choose_vmid :: "'w services \<Rightarrow> provision_request \<Rightarrow> ('w pstate, int) comp" where
  "choose_vmid sv req =
     (if rq_vmid req \<noteq> None \<and> rq_vmid req \<noteq> Some 0 then ret (the (rq_vmid req)) else
      bind (world_call (sv_next_vmid sv)) (\<lambda>v.
      bind (gets (\<lambda>s. list_vmids_by_node (reg (p_app s)) (ru_node (p_run s)))) (\<lambda>taken.
      if v \<notin> set taken then ret v else
      bind (world_call (sv_resources sv)) (\<lambda>rs.
      bind get_run (\<lambda>ru.
      case next_free VMID_ATTEMPTS (\<lambda>x. x \<in> set taken \<or> x \<in> pr_vmid ` set rs) v of
        None \<Rightarrow> throw (err_conflict (''No free VM ID found on node '' @ ru_node ru @ '' after 1000 attempts.''))
      | Some w \<Rightarrow> ret w)))))"

definition clone_template :: "'w services \<Rightarrow> string \<Rightarrow> provision_request \<Rightarrow> string option \<Rightarrow> 'w step" where
  "clone_template sv i req creator =
     bind (world_call (sv_client sv)) (\<lambda>_.
     bind get_run (\<lambda>ru.
     case ru_template ru of None \<Rightarrow> throw (err_validation ''Template not resolved'') | Some t \<Rightarrow>
     bind (choose_vmid sv req) (\<lambda>v.
     bind (gets (\<lambda>s. find_by_id_key (reg (p_app s)) v (ru_node ru))) (\<lambda>existing.
     if existing \<noteq> None
     then throw (err_conflict (''VM ID '' @ int_str v @ '' on node '' @ ru_node ru
            @ '' is already tracked. Choose a different VM ID.'')) else
     bind (world_call (sv_clone sv \<lparr>co_node = tp_node t, co_template = tp_vmid t, co_new = v,
        co_name = rq_name req, co_full = \<not> rq_linked req,
        co_storage = (if rq_linked req then None else Some (rq_storage req)),
        co_target = (if rq_linked req then None else Some (ru_node ru))\<rparr>)) (\<lambda>upid.
     bind (set_run (\<lambda>ru. ru\<lparr>ru_vmid := v\<rparr>)) (\<lambda>_.
     bind (world_call (sv_wait_task sv (tp_node t) upid 900000)) (\<lambda>_.
     bind (world_call (sv_new_id sv)) (\<lambda>nid.
     bind (gets (p_now sv)) (\<lambda>now.
     bind (on_reg (find_or_create now nid \<lparr>cv_vmid = v, cv_node = ru_node ru, cv_name = rq_name req,
        cv_status = Some VmPending, cv_os_type = Some (os_str (ru_os ru)), cv_ip = None,
        cv_created_by = creator, cv_template = Some (ru_template_id ru)\<rparr>)) (\<lambda>vm.
     bind (set_run (\<lambda>ru. ru\<lparr>ru_vm := Some (v_id vm)\<rparr>)) (\<lambda>_.
     bind (on_ledger sv (\<lambda>now. set_vm_id now i (v_id vm))) (\<lambda>_.
     bind (on_ledger sv (\<lambda>now. job_update_status now i CREATING None)) (\<lambda>_.
     done_with [(''vmid'', JNum v), (''node'', JStr (ru_node ru)), (''upid'', JStr upid)])))))))))))))"

subsection \<open>Steps: configuration\<close>

definition wait_if :: "'w services \<Rightarrow> string \<Rightarrow> string \<Rightarrow> int \<Rightarrow> ('w pstate, unit) comp" where
  "wait_if sv node upid ms = do_when (upid \<noteq> []) (world_call (sv_wait_task sv node upid ms))"

definition str_or_na :: "string option \<Rightarrow> json" where
  "str_or_na x = JStr (case x of None \<Rightarrow> ''n/a'' | Some k \<Rightarrow> k)"

definition net_update :: "provision_request \<Rightarrow> cfg \<Rightarrow> string \<Rightarrow> string" where
  "net_update req cfg k =
     (let v = the (map_of cfg k); old = parse_net (cfg_text v)
      in build_net (net_model old) (net_mac old) (nr_bridge (rq_network req)) (nr_vlan (rq_network req))
           (extra_net_options (case v of CfgStr s \<Rightarrow> Some s | CfgNum _ \<Rightarrow> None) (net_model old)))"

definition hardware_updates :: "provision_request \<Rightarrow> cfg \<Rightarrow> cfg" where
  "hardware_updates req cfg =
     [(''memory'', CfgNum (rq_ram req)), (''cores'', CfgNum (rq_cpu req)), (''sockets'', CfgNum 1),
      (''agent'', CfgStr ''enabled=1,fstrim_cloned_disks=1'')] @
     (case net_index cfg of None \<Rightarrow> [] | Some k \<Rightarrow> [(k, CfgStr (net_update req cfg k))])"

definition disk_to_grow :: "provision_request \<Rightarrow> cfg \<Rightarrow> string option" where
  "disk_to_grow req cfg = (case root_disk cfg of
       None \<Rightarrow> None
     | Some k \<Rightarrow> (case disk_size_of (cfg_text (the (map_of cfg k))) of
          None \<Rightarrow> None
        | Some sz \<Rightarrow> if smaller_than sz (rq_disk req * 1024 ^ 3) then Some k else None))"

definition configure_vm :: "'w services \<Rightarrow> provision_request \<Rightarrow> 'w step" where
  "configure_vm sv req =
     bind (world_call (sv_client sv)) (\<lambda>_.
     bind get_run (\<lambda>ru.
     bind (world_call (sv_config sv (ru_node ru) (ru_vmid ru))) (\<lambda>cfg.
     bind (world_call (sv_update_config sv (ru_node ru) (ru_vmid ru) (hardware_updates req cfg))) (\<lambda>upid.
     bind (wait_if sv (ru_node ru) upid 120000) (\<lambda>_.
     bind (case disk_to_grow req cfg of
        None \<Rightarrow> ret ()
      | Some k \<Rightarrow> bind (world_call (sv_resize_disk sv (ru_node ru) (ru_vmid ru) k (int_str (rq_disk req) @ ''G'')))
          (\<lambda>u. wait_if sv (ru_node ru) u 300000)) (\<lambda>_.
     done_with [(''memory'', JNum (rq_ram req)), (''cores'', JNum (rq_cpu req)),
       (''net'', str_or_na (net_index cfg)), (''disk'', str_or_na (root_disk cfg))]))))))"

definition is_cloudinit :: "string \<times> cfg_value \<Rightarrow> bool" where
  "is_cloudinit x = (case snd x of CfgStr v \<Rightarrow> contains_str v ''cloudinit'' | CfgNum _ \<Rightarrow> False)"

definition ip_config :: "network_request \<Rightarrow> string res" where
  "ip_config net =
     (if nr_mode net \<noteq> ''static'' then Inr ''ip=dhcp''
      else if \<not> truthy (nr_ip net) \<or> \<not> truthy (nr_gateway net)
      then Inl (err_validation ''Static networking requires both IP and gateway'')
      else Inr (''ip='' @ the (nr_ip net) @ ''/'' @ int_str (case nr_cidr net of None \<Rightarrow> 24 | Some c \<Rightarrow> c)
             @ '',gw='' @ the (nr_gateway net)))"

definition cloud_init_config :: "provision_request \<Rightarrow> string \<Rightarrow> cfg" where
  "cloud_init_config req ipconfig =
     [(''ciuser'', CfgStr (rq_guest_user req)), (''cipassword'', CfgStr (rq_password req)),
      (''ipconfig0'', CfgStr ipconfig), (''ciupgrade'', CfgNum 0)] @
     (case nr_dns (rq_network req) of
        Some (d # ds) \<Rightarrow> (if nr_mode (rq_network req) = ''static''
                          then [(''nameserver'', CfgStr (join '' '' (d # ds)))] else [])
      | _ \<Rightarrow> [])"

text \<open>Without a VM record the NOT NULL column \<open>vm_id\<close> refuses the credential.\<close>

definition store_credential :: "'w services \<Rightarrow> string option \<Rightarrow> string \<Rightarrow> string \<Rightarrow> cred_status \<Rightarrow> ('w pstate, unit) comp" where
  "store_credential sv vm username password st =
     (case vm of
        None \<Rightarrow> throw (pg_error ''null value in column vm_id violates not-null constraint'')
      | Some v \<Rightarrow> bind (world_call (sv_new_id sv)) (\<lambda>nid.
          on_creds sv (\<lambda>now t. snd (cred_store (sv_encrypt sv) now nid v username password st t))))"

definition configure_guest_provisioning :: "'w services \<Rightarrow> string \<Rightarrow> provision_request \<Rightarrow> 'w step" where
  "configure_guest_provisioning sv i req =
     bind (world_call (sv_client sv)) (\<lambda>_.
     bind get_run (\<lambda>ru.
     bind (world_call (sv_config sv (ru_node ru) (ru_vmid ru))) (\<lambda>cfg.
     case find is_cloudinit cfg of
       None \<Rightarrow> throw (err_external ''Proxmox'' ''Template must include a cloud-init drive. Current config has no \"cloudinit\" drive.'')
     | Some drive \<Rightarrow>
     bind (lift_res (ip_config (rq_network req))) (\<lambda>ipc.
     bind (world_call (sv_update_config sv (ru_node ru) (ru_vmid ru) (cloud_init_config req ipc))) (\<lambda>_.
     bind (store_credential sv (ru_vm ru) (rq_guest_user req) (rq_password req) CredProvisioned) (\<lambda>_.
     bind (gets (job_actor sv i)) (\<lambda>actor.
     bind (p_event sv ''PASSWORD_CREATED'' actor i (ru_vm ru)
        [(''username'', JStr (rq_guest_user req)), (''mechanism'', JStr ''cloud-init'')]) (\<lambda>_.
     done_with [(''ciuser'', JStr (rq_guest_user req)), (''ipconfig0'', JStr ipc), (''drive'', JStr (fst drive))]))))))))"

end
