(* ===== verification/Worker.thy ===== *)
theory Worker
  imports Pipeline
begin

text \<open>
  The second half of the provisioning worker: the steps from starting the VM to verifying the
  remote connection (\<open>provisioning/pipeline.ts\<close>), the re-authorization at execution time, one
  attempt of a job, and the rescheduling of attempts (\<open>provisioning/reschedule.ts\<close>,
  \<open>apps/worker/src/index.ts\<close>).
\<close>

definition MAX_WAIT_ATTEMPTS :: nat where
  "MAX_WAIT_ATTEMPTS = 30"

definition WAIT_RECHECK_DELAY_MS :: int where
  "WAIT_RECHECK_DELAY_MS = 30000"

subsection \<open>Steps: start and discover\<close>

definition start_vm :: "'w services \<Rightarrow> provision_request \<Rightarrow> 'w step" where
  "start_vm sv req =
     bind (world_call (sv_client sv)) (\<lambda>_.
     if \<not> rq_start req then done_with [(''started'', JBool False)] else
     bind get_run (\<lambda>ru.
     bind (world_call (sv_start sv (ru_node ru) (ru_vmid ru))) (\<lambda>upid.
     bind (wait_if sv (ru_node ru) upid 120000) (\<lambda>_.
     bind (world_call (sv_status sv (ru_node ru) (ru_vmid ru))) (\<lambda>st.
     if st \<noteq> ''running''
     then throw (err_external ''Proxmox'' (''VM did not reach running state (status='' @ st @ '')'')) else
     bind (case ru_vm ru of None \<Rightarrow> ret () | Some vm \<Rightarrow>
        on_reg (modify (update_status vm VmRunning))) (\<lambda>_.
     done_with [(''started'', JBool True), (''status'', JStr st)]))))))"

definition provisioning_error :: "string \<Rightarrow> app_error" where
  "provisioning_error m = AppError PROVISIONING_ERROR m 504"

definition wait_for_guest :: "'w services \<Rightarrow> provision_request \<Rightarrow> nat \<Rightarrow> 'w step" where
  "wait_for_guest sv req attempt =
     bind (world_call (sv_client sv)) (\<lambda>_.
     if \<not> rq_start req then done_with [] else
     bind get_run (\<lambda>ru.
     bind (world_call (sv_wait_agent sv (ru_node ru) (ru_vmid ru) 120000 5000)) (\<lambda>ready.
     if ready then done_with []
     else if attempt \<ge> MAX_WAIT_ATTEMPTS
     then throw (case ru_template ru of
         None \<Rightarrow> pg_error ''Cannot read properties of null''
       | Some t \<Rightarrow> provisioning_error (if tp_agent_required t
            then ''Guest agent never became available. Ensure qemu-guest-agent is installed in the template and the VM boots correctly.''
            else ''VM did not boot to a reachable state within the allowed time.''))
     else ret (StepLater ''WAITING FOR GUEST IP''))))"

definition static_address :: "provision_request \<Rightarrow> (string \<times> string) option" where
  "static_address req =
     (if nr_mode (rq_network req) = ''static'' \<and> truthy (nr_ip (rq_network req))
      then Some (the (nr_ip (rq_network req)), ''static_config'') else None)"

definition record_os :: "'w services \<Rightarrow> runner \<Rightarrow> agent_info \<Rightarrow> ('w pstate, unit) comp" where
  "record_os sv ru agent =
     (case ru_vm ru of
        None \<Rightarrow> ret ()
      | Some vm \<Rightarrow>
         bind (if truthy (ag_os agent) then ret (ag_os agent)
               else world_call (sv_os_info sv (ru_node ru) (ru_vmid ru))) (\<lambda>label.
         if truthy label then on_reg (modify (update_os_info vm label)) else ret ()))"

definition guest_address :: "'w services \<Rightarrow> provision_request \<Rightarrow> ('w pstate, (string \<times> string) option) comp" where
  "guest_address sv req =
     (if \<not> rq_start req then ret (static_address req) else
      bind get_run (\<lambda>ru.
      bind (world_call (sv_guest_ips sv (ru_node ru) (ru_vmid ru))) (\<lambda>agent.
      case agent of
        None \<Rightarrow> ret (static_address req)
      | Some a \<Rightarrow> bind (record_os sv ru a) (\<lambda>_.
          ret (case select_usable_ipv4 (ag_ipv4s a) of
             Some ip \<Rightarrow> Some (ip, ''guest_agent'') | None \<Rightarrow> static_address req)))))"

definition save_ip :: "string option \<Rightarrow> string \<Rightarrow> string \<Rightarrow> ('w pstate, unit) comp" where
  "save_ip vm ip source = (case vm of
       None \<Rightarrow> ret ()
     | Some v \<Rightarrow> try_catch (on_reg (update_ip v (Some ip) (Some (source = ''static_config''))))
         (\<lambda>_. throw (err_validation (''IP address '' @ ip
            @ '' was allocated to another VM while provisioning (source: '' @ source @ '')''))))"

definition discover_ip :: "'w services \<Rightarrow> provision_request \<Rightarrow> nat \<Rightarrow> 'w step" where
  "discover_ip sv req attempt =
     bind (world_call (sv_client sv)) (\<lambda>_.
     bind (guest_address sv req) (\<lambda>found.
     case found of
       None \<Rightarrow>
         (if attempt \<ge> MAX_WAIT_ATTEMPTS
          then throw (provisioning_error ''IP address could not be discovered. The guest agent reported no usable IPv4 address and no static address was configured.'')
          else ret (StepLater ''WAITING FOR GUEST IP''))
     | Some (ip, source) \<Rightarrow>
         bind (set_run (\<lambda>ru. ru\<lparr>ru_ip := Some ip\<rparr>)) (\<lambda>_.
         bind get_run (\<lambda>ru.
         bind (save_ip (ru_vm ru) ip source) (\<lambda>_.
         done_with [(''ip'', JStr ip), (''source'', JStr source)])))))"

subsection \<open>Steps: verification\<close>

definition ip_text :: "string option \<Rightarrow> string" where
  "ip_text x = (case x of None \<Rightarrow> ''null'' | Some a \<Rightarrow> a)"

definition unreachable_port :: "nat \<Rightarrow> string option \<Rightarrow> app_error" where
  "unreachable_port port ip = err_external ''Guest''
     (''Guest port '' @ nat_str port @ '' is not reachable on '' @ ip_text ip)"

definition verify_guest :: "'w services \<Rightarrow> provision_request \<Rightarrow> 'w step" where
  "verify_guest sv req =
     bind get_run (\<lambda>ru.
     let mech = select_verify_mechanism (ru_protocols ru) (ru_os ru);
         port = port_for_verify_mechanism mech in
     if mech = VerifySsh
     then bind (world_call (sv_probe_ssh sv (ru_ip ru) (rq_guest_user req) (rq_password req))) (\<lambda>r.
          if \<not> ssh_authenticated r
          then throw (err_external ''SSH'' (''Guest is reachable at '' @ ip_text (ru_ip ru)
                  @ '' but credentials were rejected: '' @ ssh_detail r))
          else done_with [(''mechanism'', JStr ''ssh''), (''hostname'', JStr (ssh_output r))])
     else bind (world_call (sv_probe_tcp sv (ru_ip ru) port)) (\<lambda>ok.
          if \<not> ok then throw (unreachable_port port (ru_ip ru))
          else done_with [(''mechanism'', JStr (mechanism_str mech)), (''reachable'', JBool True)]))"

definition set_cred_status :: "'w services \<Rightarrow> string option \<Rightarrow> cred_status \<Rightarrow> ('w pstate, unit) comp" where
  "set_cred_status sv vm st = (case vm of
       None \<Rightarrow> ret () | Some v \<Rightarrow> on_creds sv (\<lambda>_. cred_set_status v st))"

definition msg_transport :: string where
  "msg_transport = ''Credential check passed at the transport level; full authentication verification happens when the connection is opened.''"

definition verify_credentials :: "'w services \<Rightarrow> string \<Rightarrow> provision_request \<Rightarrow> 'w step" where
  "verify_credentials sv i req =
     bind get_run (\<lambda>ru.
     let mech = select_verify_mechanism (ru_protocols ru) (ru_os ru);
         port = port_for_verify_mechanism mech in
     if mech = VerifySsh
     then bind (world_call (sv_probe_ssh sv (ru_ip ru) (rq_guest_user req) (rq_password req))) (\<lambda>r.
          if \<not> ssh_authenticated r
          then bind (set_cred_status sv (ru_vm ru) CredFailed) (\<lambda>_.
               throw (err_external ''SSH'' (''Credential verification failed for '' @ ip_text (ru_ip ru)
                  @ '': '' @ ssh_detail r)))
          else bind (set_cred_status sv (ru_vm ru) CredVerified) (\<lambda>_.
               bind (gets (job_actor sv i)) (\<lambda>actor.
               bind (p_event sv ''PASSWORD_VERIFIED'' actor i (ru_vm ru)
                  [(''mechanism'', JStr ''ssh''), (''username'', JStr (rq_guest_user req))]) (\<lambda>_.
               done_with [(''verified'', JBool True), (''mechanism'', JStr ''ssh'')]))))
     else bind (world_call (sv_probe_tcp sv (ru_ip ru) port)) (\<lambda>ok.
          if \<not> ok then throw (unreachable_port port (ru_ip ru))
          else bind (set_cred_status sv (ru_vm ru) CredProvisioned) (\<lambda>_.
               done_with [(''verified'', JBool False), (''mechanism'', JStr (mechanism_str mech)),
                 (''note'', JStr msg_transport)])))"

subsection \<open>Steps: Guacamole\<close>

definition guac_user :: "'w services \<Rightarrow> string \<Rightarrow> string \<Rightarrow> ('w pstate, unit) comp" where
  "guac_user sv uid name =
     bind (gets (\<lambda>s. find_user_record (p_guac s) uid)) (\<lambda>old.
     bind (case old of
        None \<Rightarrow> world_call (sv_new_password sv)
      | Some r \<Rightarrow> lift_res (sv_decrypt sv (gu_password r))) (\<lambda>password.
     on_guac (\<lambda>g. case ensure_guac_user (sv_encrypt sv) (\<lambda>_. password) (sv_hash sv) password uid name g of
        (_, g') \<Rightarrow> (Inr (), g'))))"

definition give_access :: "'w services \<Rightarrow> string \<Rightarrow> user_with_roles \<Rightarrow> ('w pstate, unit) comp" where
  "give_access sv vm u =
     bind (guac_user sv (u_id u) (u_username u)) (\<lambda>_.
     bind (on_guac (grant_vm_access vm (u_id u))) (\<lambda>_.
     on_reg (modify (\<lambda>db. db\<lparr>iam := set_access vm (u_id u) None None None (iam db)\<rparr>))))"

definition connect_protocol ::
  "'w services \<Rightarrow> provision_request \<Rightarrow> vm_row \<Rightarrow> runner \<Rightarrow> protocol \<Rightarrow> ('w pstate, unit) comp" where
  "connect_protocol sv req vm ru p =
     bind (world_call (sv_new_id sv)) (\<lambda>nid.
     on_guac (\<lambda>g. case upsert_connection (sv_encrypt sv) nid
         \<lparr>uo_vm = v_id vm, uo_vm_name = v_name vm, uo_protocol = protocol_str p, uo_hostname = ip_text (ru_ip ru),
          uo_port = port_for_protocol p, uo_username = rq_guest_user req, uo_password = rq_password req,
          uo_name = (if length (ru_protocols ru) > 1
                     then Some (''proxvm-'' @ v_name vm @ ''-'' @ protocol_str p) else None)\<rparr> g of
        (_, g') \<Rightarrow> (Inr (), g')))"

definition assign_user :: "'w services \<Rightarrow> string \<Rightarrow> string \<Rightarrow> string \<Rightarrow> ('w pstate, unit) comp" where
  "assign_user sv i vm uid =
     bind (gets (\<lambda>s. find_user (p_app s) (p_now sv s) uid)) (\<lambda>u.
     case u of
       None \<Rightarrow> ret ()
     | Some u \<Rightarrow>
         bind (give_access sv vm u) (\<lambda>_.
         bind (gets (job_actor sv i)) (\<lambda>actor.
         p_event sv ''VM_ACCESS_GRANTED'' actor i (Some vm)
           [(''userId'', JStr uid), (''username'', JStr (u_username u))])))"

definition assign_creator :: "'w services \<Rightarrow> provision_request \<Rightarrow> vm_row \<Rightarrow> ('w pstate, unit) comp" where
  "assign_creator sv req vm =
     (if rq_assign req \<noteq> [] \<or> \<not> truthy (v_created_by vm) then ret () else
      bind (gets (\<lambda>s. find_user (p_app s) (p_now sv s) (the (v_created_by vm)))) (\<lambda>u.
      case u of
        None \<Rightarrow> ret ()
      | Some u \<Rightarrow> do_when (list_ex (\<lambda>r. r \<noteq> USER) (u_roles u)) (give_access sv (v_id vm) u)))"

definition create_guacamole_connection :: "'w services \<Rightarrow> string \<Rightarrow> provision_request \<Rightarrow> 'w step" where
  "create_guacamole_connection sv i req =
     bind (world_call (sv_guac_db sv)) (\<lambda>_.
     bind get_run (\<lambda>ru.
     bind (gets (\<lambda>s. require_by_id (reg (p_app s)) (case ru_vm ru of None \<Rightarrow> [] | Some v \<Rightarrow> v))) (\<lambda>r.
     bind (lift_res r) (\<lambda>vm.
     bind (for_each (ru_protocols ru) (connect_protocol sv req vm ru)) (\<lambda>_.
     bind (for_each (rq_assign req) (assign_user sv i (v_id vm))) (\<lambda>_.
     bind (assign_creator sv req vm) (\<lambda>_.
     bind (gets (job_actor sv i)) (\<lambda>actor.
     bind (p_event sv ''GUAC_CONNECTION_CREATED'' actor i (Some (v_id vm))
        [(''protocols'', JArr (map (JStr \<circ> protocol_str) (ru_protocols ru))),
         (''hostname'', json_opt (ru_ip ru))]) (\<lambda>_.
     done_with [(''protocols'', JArr (map (JStr \<circ> protocol_str) (ru_protocols ru)))])))))))))"

definition verify_record :: "guac_conn_row \<Rightarrow> ('w pstate, unit) comp" where
  "verify_record r =
     bind (gets (\<lambda>s. verify_connection r (gs_remote (p_guac s)))) (\<lambda>check.
     if \<not> fst check
     then bind (on_guac (set_conn (gc_id r) (\<lambda>x. x\<lparr>gc_status := ''FAILED''\<rparr>))) (\<lambda>_.
          throw (err_external ''Guacamole'' (''Guacamole verification failed ('' @ gc_protocol r @ ''): '' @ snd check)))
     else on_guac (set_conn (gc_id r) (\<lambda>x. x\<lparr>gc_status := ''ACTIVE''\<rparr>)))"

definition verify_guacamole :: "'w services \<Rightarrow> 'w step" where
  "verify_guacamole sv =
     bind (world_call (sv_guac_db sv)) (\<lambda>_.
     bind get_run (\<lambda>ru.
     bind (gets (\<lambda>s. require_by_id (reg (p_app s)) (case ru_vm ru of None \<Rightarrow> [] | Some v \<Rightarrow> v))) (\<lambda>r.
     bind (lift_res r) (\<lambda>vm.
     bind (gets (\<lambda>s. list_connection_records (p_guac s) (v_id vm))) (\<lambda>records.
     if records = [] then throw (err_external ''Guacamole'' ''Connection record missing'') else
     bind (for_each records verify_record) (\<lambda>_.
     done_with [(''ok'', JBool True)]))))))"

subsection \<open>One attempt\<close>

definition pipeline_steps ::
  "'w services \<Rightarrow> string \<Rightarrow> provision_request \<Rightarrow> string option \<Rightarrow> nat \<Rightarrow> (job_step \<times> 'w step) list" where
  "pipeline_steps sv i req creator attempt =
     [(VALIDATE_PROXMOX_RESOURCES, validate_resources sv req),
      (CLONE_TEMPLATE, clone_template sv i req creator),
      (CONFIGURE_VM, configure_vm sv req),
      (CONFIGURE_GUEST_PROVISIONING, configure_guest_provisioning sv i req),
      (START_VM, start_vm sv req),
      (WAIT_FOR_GUEST, wait_for_guest sv req attempt),
      (DISCOVER_IP, discover_ip sv req attempt),
      (VERIFY_GUEST, verify_guest sv req),
      (VERIFY_CREDENTIALS, verify_credentials sv i req),
      (CREATE_GUACAMOLE_CONNECTION, create_guacamole_connection sv i req),
      (VERIFY_GUACAMOLE, verify_guacamole sv)]"

text \<open>A completed step is skipped; skipping the discovery takes the address from the VM record.\<close>

definition restore_ip :: "('w pstate, unit) comp" where
  "restore_ip = modify (\<lambda>s. case ru_vm (p_run s) of
       None \<Rightarrow> s
     | Some v \<Rightarrow> (case find_by_id (reg (p_app s)) v of
          None \<Rightarrow> s
        | Some vm \<Rightarrow> if truthy (v_ip vm) then s\<lparr>p_run := (p_run s)\<lparr>ru_ip := v_ip vm\<rparr>\<rparr> else s))"

definition skip_step :: "job_step \<Rightarrow> 'w step" where
  "skip_step k = bind (do_when (k = DISCOVER_IP) restore_ip) (\<lambda>_. done_with [])"

fun run_steps :: "'w services \<Rightarrow> string \<Rightarrow> job_step list \<Rightarrow> (job_step \<times> 'w step) list \<Rightarrow> 'w step" where
  "run_steps sv i completed [] = done_with []"
| "run_steps sv i completed ((k, fn) # rest) =
     bind (if k \<in> set completed then skip_step k else run_step sv i k fn) (\<lambda>r.
     case r of StepLater m \<Rightarrow> ret (StepLater m) | StepDone _ \<Rightarrow> run_steps sv i completed rest)"

text \<open>
  The check at execution: the reason to refuse the job, or whether the creator is exempt from
  the policy.
\<close>

definition may :: "app_db \<Rightarrow> time \<Rightarrow> string \<Rightarrow> user_with_roles option \<Rightarrow> string \<Rightarrow> bool" where
  "may db now uid creator perm \<longleftrightarrow> (case creator of
       None \<Rightarrow> False
     | Some c \<Rightarrow> u_active c \<and> (has_permission (Some c) perm
          \<or> map_has (permissions (resolve_effective_access (db_iam db) now uid)) perm))"

definition execution_check :: "app_db \<Rightarrow> ledger \<Rightarrow> time \<Rightarrow> job_row \<Rightarrow> string + bool" where
  "execution_check db l now job =
     (if \<not> truthy (jb_creator job)
      then Inl ''job has no creator; refusing to provision without re-authorization''
      else
        (let uid = the (jb_creator job);
             creator = find_user db now uid;
             effective = resolve_effective_access (db_iam db) now uid;
             may_provision = may db now uid creator ''vm.create'';
             quota = get_user_quota db uid;
             over_quota = (case quota of None \<Rightarrow> False | Some q \<Rightarrow> int (count_provision_load (reg db) l now uid) > q);
             stale_assigns = (rq_assign (jb_request job) \<noteq> [] \<and> \<not> may db now uid creator ''vm.edit'')
         in if \<not> may_provision then Inl ''creator no longer authorized to provision''
            else if over_quota then Inl (''quota exceeded (limit '' @ int_str (the quota) @ '')'')
            else if stale_assigns then Inl ''creator no longer holds vm.edit for delegated access grants''
            else Inr (creator \<noteq> None \<and> (is_admin creator \<or> ''ADMIN'' \<in> set (eff_roles effective)))))"

datatype run_outcome = Completed | Reschedule | Failed | Skipped

text \<open>What the runner knows of a VM that an earlier attempt created.\<close>

definition resume_runner :: "provision_request \<Rightarrow> job_row \<Rightarrow> 'w pstate \<Rightarrow> runner" where
  "resume_runner req job s =
     (case (case jb_vm job of None \<Rightarrow> None | Some v \<Rightarrow> find_by_id (reg (p_app s)) v) of
        None \<Rightarrow> new_runner req
      | Some vm \<Rightarrow>
         (let ru = (new_runner req)\<lparr>ru_vm := Some (v_id vm), ru_vmid := v_vmid vm, ru_node := v_node vm,
                       ru_ip := (if truthy (v_ip vm) then v_ip vm else None)\<rparr>
          in if \<not> truthy (v_template vm) then ru
             else case template_find (p_templates s) (the (v_template vm)) of
                 None \<Rightarrow> ru | Some t \<Rightarrow> restore_template req t ru))"

definition policy_of :: "provision_request \<Rightarrow> policy_input" where
  "policy_of req = \<lparr>pi_cpu = rq_cpu req, pi_ram = rq_ram req, pi_disk = rq_disk req,
     pi_network = Some \<lparr>pn_mode = Some (nr_mode (rq_network req)), pn_ip = nr_ip (rq_network req),
        pn_gateway = nr_gateway (rq_network req)\<rparr>\<rparr>"

definition resolve_again :: "'w services \<Rightarrow> provision_request \<Rightarrow> ('w pstate, unit) comp" where
  "resolve_again sv req =
     bind (if truthy (rq_template req)
           then gets (\<lambda>s. template_find (p_templates s) (the (rq_template req)))
           else template_by_vmid sv req) (\<lambda>t.
     case t of
       None \<Rightarrow> throw (err_validation msg_register)
     | Some t \<Rightarrow> set_run (restore_template req t))"

definition finish_job :: "'w services \<Rightarrow> string \<Rightarrow> provision_request \<Rightarrow> string option \<times> string option \<Rightarrow> ('w pstate, unit) comp" where
  "finish_job sv i req actor =
     bind (on_ledger sv (\<lambda>now. job_update_status now i READY None)) (\<lambda>_.
     bind get_run (\<lambda>ru.
     bind (case ru_vm ru of
        None \<Rightarrow> ret ()
      | Some vm \<Rightarrow>
         bind (on_reg (modify (update_status vm (if rq_start req then VmRunning else VmStopped)))) (\<lambda>_.
         on_creds sv (\<lambda>now. mark_verified now vm))) (\<lambda>_.
     bind (progress sv i (JObj [(''vmId'', json_opt (ru_vm ru)), (''progress'', JNum 100)])) (\<lambda>_.
     p_event sv ''VM_CREATED'' actor i (ru_vm ru)
       [(''vmid'', JNum (case rq_vmid req of Some v \<Rightarrow> v | None \<Rightarrow> ru_vmid ru)), (''name'', JStr (rq_name req))]))))"

text \<open>The \<open>try\<close> block of \<open>runProvisioningJob\<close>.\<close>

definition attempt_body ::
  "'w services \<Rightarrow> job_row \<Rightarrow> provision_request \<Rightarrow> bool \<Rightarrow> job_step list \<Rightarrow> string option \<times> string option
   \<Rightarrow> nat \<Rightarrow> 'w step" where
  "attempt_body sv job req admin completed actor attempt =
     bind (gets (\<lambda>s. validate_provision_policy (p_settings s) (reg (p_app s)) (policy_of req) admin (jb_vm job))) (\<lambda>r.
     bind (lift_res r) (\<lambda>_.
     bind get_run (\<lambda>ru.
     bind (do_when (ru_template ru = None \<and> VALIDATE_PROXMOX_RESOURCES \<in> set completed) (resolve_again sv req)) (\<lambda>_.
     bind (run_steps sv (jb_id job) completed (pipeline_steps sv (jb_id job) req (jb_creator job) attempt)) (\<lambda>r.
     case r of
       StepLater m \<Rightarrow> ret (StepLater m)
     | StepDone d \<Rightarrow> bind (finish_job sv (jb_id job) req actor) (\<lambda>_. ret (StepDone d)))))))"

definition fail_job ::
  "'w services \<Rightarrow> job_row \<Rightarrow> string option \<times> string option \<Rightarrow> string \<Rightarrow> ('w pstate, unit) comp
   \<Rightarrow> (string \<times> json) list \<Rightarrow> ('w pstate, unit) comp" where
  "fail_job sv job actor msg tell detail =
     bind (on_ledger sv (\<lambda>now. job_update_status now (jb_id job) FAILED (Some msg))) (\<lambda>_.
     bind tell (\<lambda>_.
     p_event sv ''PROVISIONING_FAILED'' actor (jb_id job) (jb_vm job) ((''error'', JStr msg) # detail)))"

definition run_attempt ::
  "'w services \<Rightarrow> job_row \<Rightarrow> provision_request \<Rightarrow> bool \<Rightarrow> string option \<times> string option \<Rightarrow> nat
   \<Rightarrow> ('w pstate, run_outcome) comp" where
  "run_attempt sv job req admin actor attempt s0 =
     (let completed = completed_steps (p_ledger s0) (jb_id job);
          publish_end = (\<lambda>n. progress sv (jb_id job) (JObj [(''vmId'', json_opt (jb_vm job)), (''progress'', JNum n)]))
      in bind (on_ledger sv (\<lambda>now. job_update_status now (jb_id job) PROVISIONING None)) (\<lambda>_.
         bind (p_event sv ''PROVISIONING_STARTED'' actor (jb_id job) (jb_vm job) [(''attempt'', JNum (int attempt))]) (\<lambda>_.
         bind (gets (resume_runner req job)) (\<lambda>ru.
         bind (set_run (\<lambda>_. ru)) (\<lambda>_.
         try_catch
           (bind (attempt_body sv job req admin completed actor attempt) (\<lambda>r. case r of
              StepDone _ \<Rightarrow> ret Completed
            | StepLater m \<Rightarrow> bind (publish_end 55) (\<lambda>_. ret Reschedule)))
           (\<lambda>e. bind (fail_job sv job actor (err_message e) (publish_end 100) [(''attempt'', JNum (int attempt))]) (\<lambda>_.
              ret Failed))))))
         s0)"

definition run_provisioning_job :: "'w services \<Rightarrow> string \<Rightarrow> nat \<Rightarrow> ('w pstate, run_outcome) comp" where
  "run_provisioning_job sv i attempt =
     bind (gets (\<lambda>s. job_require (p_ledger s) i)) (\<lambda>r.
     bind (lift_res r) (\<lambda>job.
     if jb_status job = READY then ret Skipped
     else if jb_status job = FAILED \<or> jb_status job = CANCELLED then ret Failed else
     bind (gets (\<lambda>s. execution_check (p_app s) (p_ledger s) (p_now sv s) job)) (\<lambda>check.
     case check of
       Inl reason \<Rightarrow>
         bind (fail_job sv job (jb_creator job, None) reason (ret ())
            [(''attempt'', JNum (int attempt)), (''during'', JStr ''authorization-recheck'')]) (\<lambda>_.
         ret Failed)
     | Inr admin \<Rightarrow>
         bind (gets (job_actor sv i)) (\<lambda>actor.
         bind (lift_res (if rq_password (jb_request job) = [] then Inr []
                         else sv_decrypt sv (rq_password (jb_request job)))) (\<lambda>password.
         run_attempt sv job ((jb_request job)\<lparr>rq_password := password\<rparr>) admin actor attempt)))))"

subsection \<open>Rescheduling\<close>

definition give_up :: "'w services \<Rightarrow> string \<Rightarrow> string \<Rightarrow> (string \<times> json) list \<Rightarrow> ('w pstate, unit) comp" where
  "give_up sv i msg detail =
     bind (on_ledger sv (\<lambda>now. job_update_status now i FAILED (Some msg))) (\<lambda>_.
     p_event sv ''PROVISIONING_FAILED'' (None, None) i None detail)"

definition handle_provisioning_outcome ::
  "'w services \<Rightarrow> string \<Rightarrow> nat \<Rightarrow> run_outcome \<Rightarrow> ('w pstate, run_outcome) comp" where
  "handle_provisioning_outcome sv i attempt outcome =
     (if outcome \<noteq> Reschedule then ret outcome
      else if attempt + 1 \<ge> MAX_WAIT_ATTEMPTS
      then bind (give_up sv i ''Guest never became reachable within the allowed time''
             [(''reason'', JStr ''reschedule limit reached''), (''attempts'', JNum (int attempt + 1))]) (\<lambda>_.
           ret Failed)
      else try_catch
        (bind (world_call (sv_enqueue sv (queue_job_id i (attempt + 1)) i (attempt + 1) WAIT_RECHECK_DELAY_MS)) (\<lambda>_.
         ret Reschedule))
        (\<lambda>e. bind (give_up sv i (''Failed to reschedule provisioning attempt: '' @ err_message e)
             [(''reason'', JStr ''reschedule-queue-failure''), (''error'', JStr (err_message e)),
              (''attempt'', JNum (int attempt))]) (\<lambda>_. throw e)))"

text \<open>The consumer of the queue: what it does with one payload.\<close>

definition consume :: "'w services \<Rightarrow> json \<Rightarrow> ('w pstate, run_outcome) comp" where
  "consume sv data =
     (case validate_queue_payload data of
        None \<Rightarrow>
          bind (case json_field data ''jobDbId'' of
             JStr i \<Rightarrow> do_when (is_uuid i)
               (on_ledger sv (\<lambda>now. job_update_status now i FAILED (Some ''malformed queue payload'')))
           | _ \<Rightarrow> ret ()) (\<lambda>_. ret Failed)
      | Some (i, attempt) \<Rightarrow>
          bind (run_provisioning_job sv i attempt) (handle_provisioning_outcome sv i attempt))"

end
