(* ===== verification/Jobs_Props.thy ===== *)
theory Jobs_Props
  imports Jobs
begin

text \<open>
  Properties of the provisioning ledger: keys stay unique, what has ended has a stamp and history
  is not rewritten under any sequence of its writers; a step counts as completed exactly when its
  row says so.
\<close>

definition ledger_wf :: "ledger \<Rightarrow> bool" where
  "ledger_wf l \<longleftrightarrow> job_table.unique (jobs l) \<and> step_table.unique (steps l)
     \<and> (\<forall>j \<in> set (jobs l). terminal (jb_status j) \<longrightarrow> jb_finished j \<noteq> None)
     \<and> (\<forall>r \<in> set (steps l). (done_state (st_state r) \<longrightarrow> st_finished r \<noteq> None)
          \<and> (st_state r = StepRunning \<longrightarrow> st_started r \<noteq> None))"

text \<open>The writers of the ledger, at any time and with any arguments.\<close>

inductive ledger_step :: "ledger \<Rightarrow> ledger \<Rightarrow> bool" where
  create: "ledger_step l (snd (job_create now nid vm req creator bull l))"
| status: "ledger_step l (job_update_status now i s e l)"
| bull: "ledger_step l (set_bull_job_id now i b l)"
| vm: "ledger_step l (set_vm_id now i v l)"
| retry: "ledger_step l (reset_for_retry now i l)"
| cancel: "ledger_step l (job_cancel now i l)"
| step: "ledger_step l (set_step now i k s d e l)"

lemma update_job_jobs [simp]:
  "jobs (update_job i f l) = table_update (\<lambda>j. jb_id j = i) f (jobs l)" "steps (update_job i f l) = steps l"
  by (simp_all add: update_job_def)

lemma set_step_jobs [simp]: "jobs (set_step now i k s d e l) = jobs l"
  by (simp add: set_step_def)

lemma ledger_wf_update_job:
  assumes "ledger_wf l" "\<And>j. jb_id (f j) = jb_id j"
    and "\<And>j. jb_id j = i \<Longrightarrow> terminal (jb_status (f j)) \<Longrightarrow> jb_finished (f j) \<noteq> None \<or> terminal (jb_status j) \<and> jb_finished (f j) = jb_finished j"
  shows "ledger_wf (update_job i f l)"
proof -
  have "jb_finished (if jb_id j = i then f j else j) \<noteq> None"
    if "j \<in> set (jobs l)" "terminal (jb_status (if jb_id j = i then f j else j))" for j
    using that assms(1) assms(3) [of j] by (cases "jb_id j = i") (auto simp: ledger_wf_def)
  then have "\<forall>j \<in> set (table_update (\<lambda>j. jb_id j = i) f (jobs l)). terminal (jb_status j) \<longrightarrow> jb_finished j \<noteq> None"
    unfolding set_table_update by blast
  with assms(1,2) show ?thesis
    by (simp add: ledger_wf_def job_table.unique_update)
qed

lemma overwrite_key [simp]: "st_key (overwrite_step now s d e r) = st_key r"
  by (simp add: overwrite_step_def st_key_def)

lemma new_step_key [simp]: "st_key (new_step now i k s d e) = (i, k)"
  by (simp add: new_step_def st_key_def)

definition step_ok :: "step_row \<Rightarrow> bool" where
  "step_ok r \<longleftrightarrow> (done_state (st_state r) \<longrightarrow> st_finished r \<noteq> None) \<and> (st_state r = StepRunning \<longrightarrow> st_started r \<noteq> None)"

lemma step_ok_new: "step_ok (new_step now i k s d e)"
  by (simp add: step_ok_def new_step_def)

lemma step_ok_overwrite: "step_ok (overwrite_step now s d e r)"
  by (cases "st_started r") (simp_all add: step_ok_def overwrite_step_def coalesce_def)

lemma ledger_wf_alt:
  "ledger_wf l \<longleftrightarrow> job_table.unique (jobs l) \<and> step_table.unique (steps l)
     \<and> (\<forall>j \<in> set (jobs l). terminal (jb_status j) \<longrightarrow> jb_finished j \<noteq> None) \<and> (\<forall>r \<in> set (steps l). step_ok r)"
  by (simp add: ledger_wf_def step_ok_def)

lemma ledger_wf_set_step:
  assumes "ledger_wf l"
  shows "ledger_wf (set_step now i k s d e l)"
proof (cases "step_of (i, k) (steps l)")
  case None
  with assms have "step_table.unique (steps l @ [new_step now i k s d e])"
    by (intro step_table.unique_append) (simp_all add: ledger_wf_def)
  with None assms show ?thesis
    by (auto simp: ledger_wf_alt set_step_def step_ok_new)
next
  case (Some r)
  have "\<forall>x \<in> set (table_update (\<lambda>r. st_key r = (i, k)) (overwrite_step now s d e) (steps l)). step_ok x"
    unfolding set_table_update using assms step_ok_overwrite by (auto simp: ledger_wf_alt)
  with Some assms show ?thesis
    by (simp add: ledger_wf_alt set_step_def step_table.unique_update)
qed

lemma ledger_wf_retry:
  assumes "ledger_wf l" shows "ledger_wf (reset_for_retry now i l)"
proof -
  have 1: "ledger_wf (update_job i (\<lambda>j. j\<lparr>jb_status := PENDING, jb_error := None, jb_updated := now\<rparr>) l)"
    by (rule ledger_wf_update_job [OF assms]) (simp_all add: terminal_def)
  have "step_ok (if st_job r = i \<and> st_state r = StepFailed
      then r\<lparr>st_state := StepPending, st_error := None, st_finished := None\<rparr> else r)" if "step_ok r" for r
    using that by (auto simp: step_ok_def done_state_def)
  then have "\<forall>x \<in> set (table_update (\<lambda>r. st_job r = i \<and> st_state r = StepFailed)
      (\<lambda>r. r\<lparr>st_state := StepPending, st_error := None, st_finished := None\<rparr>) (steps l)). step_ok x"
    unfolding set_table_update using assms unfolding ledger_wf_alt by blast
  with 1 assms show ?thesis
    by (simp add: ledger_wf_alt reset_for_retry_def step_table.unique_update st_key_def)
qed

lemma ledger_wf_create:
  assumes "ledger_wf l" shows "ledger_wf (snd (job_create now nid vm req creator bull l))"
proof (cases "job_by_id nid (jobs l)")
  case None
  have "job_table.unique (jobs l @ [r])" if "jb_id r = nid" for r
    using None that assms by (intro job_table.unique_append) (simp_all add: ledger_wf_def)
  with None assms show ?thesis
    by (simp add: ledger_wf_def job_create_def Let_def terminal_def)
qed (simp add: job_create_def throw_def assms)

lemma ledger_wf_step:
  assumes "ledger_step l l'" "ledger_wf l" shows "ledger_wf l'"
  using assms(1)
proof cases
  case (status now i s e)
  show ?thesis unfolding status job_update_status_def
    by (rule ledger_wf_update_job [OF assms(2)]) (simp_all add: terminal_def)
next
  case (bull now i b)
  show ?thesis unfolding bull set_bull_job_id_def
    by (rule ledger_wf_update_job [OF assms(2)]) simp_all
next
  case (vm now i v)
  show ?thesis unfolding vm set_vm_id_def
    by (rule ledger_wf_update_job [OF assms(2)]) simp_all
next
  case (cancel now i)
  show ?thesis unfolding cancel job_cancel_def
    by (rule ledger_wf_update_job [OF assms(2)]) simp_all
qed (simp_all add: assms(2) ledger_wf_create ledger_wf_retry ledger_wf_set_step)

text \<open>What a job started at, who it belongs to and what it asks for are never rewritten.\<close>

definition job_continues :: "job_row \<Rightarrow> job_row \<Rightarrow> bool" where
  "job_continues j j' \<longleftrightarrow> jb_id j' = jb_id j \<and> jb_request j' = jb_request j \<and> jb_creator j' = jb_creator j
     \<and> jb_created j' = jb_created j \<and> (jb_started j \<noteq> None \<longrightarrow> jb_started j' = jb_started j)"

lemma job_continues_refl [simp]: "job_continues j j"
  by (simp add: job_continues_def)

lemma job_continues_trans: "job_continues a b \<Longrightarrow> job_continues b c \<Longrightarrow> job_continues a c"
  by (simp add: job_continues_def)

lemma job_by_id_update:
  assumes "\<And>j. jb_id (f j) = jb_id j"
  shows "job_by_id k (table_update (\<lambda>j. jb_id j = i) f t) = map_option (if k = i then f else id) (job_by_id k t)"
  using job_table.lookup_update [of f i t] job_table.lookup_update_other [of f k i t] assms
  by (cases "k = i") (simp_all add: option.map_id)

lemma job_by_id_append:
  "job_by_id k t = Some j \<Longrightarrow> job_by_id k (t @ [r]) = Some j"
  by (induction t) (auto simp: job_by_id_def table_find_def)

lemma ledger_step_continues:
  assumes "ledger_step l l'" "job_by_id k (jobs l) = Some j"
  shows "\<exists>j'. job_by_id k (jobs l') = Some j' \<and> job_continues j j'"
  using assms(1)
proof cases
  case (create now nid vm req creator bull)
  with assms(2) show ?thesis
    by (auto simp: job_create_def throw_def Let_def intro: job_by_id_append)
qed (use assms(2) in \<open>simp_all add: job_update_status_def set_bull_job_id_def set_vm_id_def job_cancel_def
        reset_for_retry_def job_by_id_update job_continues_def\<close>)

text \<open>Completed steps survive everything but a new write of the same step.\<close>

definition completed :: "step_row \<Rightarrow> bool" where
  "completed r \<longleftrightarrow> st_state r = StepSucceeded \<or> st_state r = StepSkipped"

lemma step_of_retry:
  "completed r \<Longrightarrow> step_of k (steps l) = Some r \<Longrightarrow> step_of k (steps (reset_for_retry now i l)) = Some r"
proof -
  assume r: "completed r" "step_of k (steps l) = Some r"
  let ?f = "\<lambda>r. if st_job r = i \<and> st_state r = StepFailed
      then r\<lparr>st_state := StepPending, st_error := None, st_finished := None\<rparr> else r"
  have "find (\<lambda>x. st_key x = k) (map ?f t) = map_option ?f (find (\<lambda>x. st_key x = k) t)" for t
    by (induction t) (auto simp: st_key_def)
  with r show ?thesis
    by (auto simp: step_of_def table_find_def reset_for_retry_def table_update_def completed_def)
qed

lemma in_completed_steps:
  assumes "ledger_wf l"
  shows "k \<in> set (completed_steps l i) \<longleftrightarrow> (\<exists>r. step_of (i, k) (steps l) = Some r \<and> completed r)"
proof
  assume "k \<in> set (completed_steps l i)"
  then obtain r where r: "r \<in> set (steps l)" "st_key r = (i, k)" "completed r"
    by (auto simp: completed_steps_def get_steps_def st_key_def completed_def)
  with step_table.lookup_unique [of "steps l" r] assms show "\<exists>r. step_of (i, k) (steps l) = Some r \<and> completed r"
    by (auto simp: ledger_wf_def)
next
  assume "\<exists>r. step_of (i, k) (steps l) = Some r \<and> completed r"
  then obtain r where "r \<in> set (steps l)" "st_key r = (i, k)" "completed r"
    using step_table.lookup_SomeD by blast
  then show "k \<in> set (completed_steps l i)"
    by (force simp: completed_steps_def get_steps_def st_key_def completed_def)
qed

lemma step_of_set_step:
  assumes "ledger_wf l"
  shows "step_of k (steps (set_step now i step s d e l)) =
    (if k = (i, step) then Some (case step_of k (steps l) of
         None \<Rightarrow> new_step now i step s d e | Some r \<Rightarrow> overwrite_step now s d e r)
     else step_of k (steps l))"
proof (cases "step_of (i, step) (steps l)")
  case None
  have "step_of k (t @ [r]) = (case step_of k t of None \<Rightarrow> if st_key r = k then Some r else None | Some x \<Rightarrow> Some x)"
    for t r by (induction t) (auto simp: step_of_def table_find_def)
  with None show ?thesis
    by (auto simp: set_step_def split: option.split)
next
  case (Some r)
  then show ?thesis
    using step_table.lookup_update [of "overwrite_step now s d e" "(i, step)" "steps l"]
      step_table.lookup_update_other [of "overwrite_step now s d e" k "(i, step)" "steps l"]
    by (simp add: set_step_def)
qed

lemma step_of_retry_back:
  "completed r \<Longrightarrow> step_of k (steps (reset_for_retry now i l)) = Some r \<Longrightarrow> step_of k (steps l) = Some r"
proof -
  assume r: "completed r" "step_of k (steps (reset_for_retry now i l)) = Some r"
  let ?f = "\<lambda>r. if st_job r = i \<and> st_state r = StepFailed
      then r\<lparr>st_state := StepPending, st_error := None, st_finished := None\<rparr> else r"
  have "find (\<lambda>x. st_key x = k) (map ?f t) = map_option ?f (find (\<lambda>x. st_key x = k) t)" for t
    by (induction t) (auto simp: st_key_def)
  with r show ?thesis
    by (auto simp: step_of_def table_find_def reset_for_retry_def table_update_def completed_def split: if_splits)
qed

text \<open>C17. The ledger keeps its history. Under any sequence of its writers, in any order and with any
  arguments, from a ledger where this holds: job identifiers and the pairs of job and step are
  unique, a finished job has a finishing stamp, a finished step has a finishing stamp and a running
  step a starting stamp. The stamps say no more than that: a job that is active again after a
  retry keeps the finishing stamp of its failure. A job never disappears, keeps its request,
  creator and creation date, and once started keeps the instant it started at. The pipeline sees
  as completed exactly the steps whose row is succeeded or skipped, and a retry changes neither
  which steps are completed nor their rows.\<close>

theorem ledger_history:
  assumes "ledger_step\<^sup>*\<^sup>* l l'" and "ledger_wf l" and "job_by_id i (jobs l) = Some j"
  shows "distinct (map jb_id (jobs l')) \<and> distinct (map st_key (steps l'))
    \<and> (\<forall>x \<in> set (jobs l'). jb_status x \<in> {READY, FAILED, CANCELLED} \<longrightarrow> jb_finished x \<noteq> None)
    \<and> (\<forall>r \<in> set (steps l'). (st_state r \<in> {StepSucceeded, StepFailed, StepSkipped} \<longrightarrow> st_finished r \<noteq> None)
         \<and> (st_state r = StepRunning \<longrightarrow> st_started r \<noteq> None))
    \<and> (\<exists>j'. job_by_id i (jobs l') = Some j' \<and> jb_request j' = jb_request j \<and> jb_creator j' = jb_creator j
         \<and> jb_created j' = jb_created j \<and> (jb_started j \<noteq> None \<longrightarrow> jb_started j' = jb_started j))
    \<and> (k \<in> set (completed_steps l' n) \<longleftrightarrow> (\<exists>r. step_of (n, k) (steps l') = Some r \<and> st_state r \<in> {StepSucceeded, StepSkipped}))
    \<and> set (completed_steps (reset_for_retry now m l') n) = set (completed_steps l' n)
    \<and> (k \<in> set (completed_steps l' n) \<longrightarrow> step_of (n, k) (steps (reset_for_retry now m l')) = step_of (n, k) (steps l'))"
proof -
  have "ledger_wf l' \<and> (\<exists>j'. job_by_id i (jobs l') = Some j' \<and> job_continues j j')"
    using assms(1)
  proof (induction rule: rtranclp_induct)
    case (step y z)
    then obtain j' where j': "job_by_id i (jobs y) = Some j'" "job_continues j j'" by blast
    from ledger_step_continues [OF step.hyps(2) j'(1)] job_continues_trans [OF j'(2)]
      ledger_wf_step [OF step.hyps(2)] step.IH
    show ?case by blast
  qed (use assms in auto)
  then have wf: "ledger_wf l'" and j: "\<exists>j'. job_by_id i (jobs l') = Some j' \<and> job_continues j j'"
    by auto
  note seen = in_completed_steps [OF wf] in_completed_steps [OF ledger_wf_retry [OF wf]]
  have same: "set (completed_steps (reset_for_retry now m l') n) = set (completed_steps l' n)"
  proof (rule set_eqI)
    fix x
    show "x \<in> set (completed_steps (reset_for_retry now m l') n) \<longleftrightarrow> x \<in> set (completed_steps l' n)"
      unfolding seen by (metis step_of_retry step_of_retry_back)
  qed
  have kept: "step_of (n, k) (steps (reset_for_retry now m l')) = step_of (n, k) (steps l')" if "k \<in> set (completed_steps l' n)"
    using that unfolding seen by (metis step_of_retry)
  have row: "k \<in> set (completed_steps l' n) \<longleftrightarrow> (\<exists>r. step_of (n, k) (steps l') = Some r \<and> st_state r \<in> {StepSucceeded, StepSkipped})"
    unfolding seen(1) completed_def by simp
  have stamps: "distinct (map jb_id (jobs l'))" "distinct (map st_key (steps l'))"
    "\<forall>x \<in> set (jobs l'). jb_status x \<in> {READY, FAILED, CANCELLED} \<longrightarrow> jb_finished x \<noteq> None"
    "\<forall>r \<in> set (steps l'). (st_state r \<in> {StepSucceeded, StepFailed, StepSkipped} \<longrightarrow> st_finished r \<noteq> None)
         \<and> (st_state r = StepRunning \<longrightarrow> st_started r \<noteq> None)"
    using wf unfolding ledger_wf_def job_table.unique_def step_table.unique_def terminal_def done_state_def by simp_all
  have job: "\<exists>j'. job_by_id i (jobs l') = Some j' \<and> jb_request j' = jb_request j \<and> jb_creator j' = jb_creator j
         \<and> jb_created j' = jb_created j \<and> (jb_started j \<noteq> None \<longrightarrow> jb_started j' = jb_started j)"
    using j unfolding job_continues_def by blast
  show ?thesis using stamps job row same kept by (intro conjI impI)
qed

definition sample_provisioning :: provision_request where
  "sample_provisioning = \<lparr>rq_name = ''web'', rq_template = Some ''t1'', rq_template_vmid = None, rq_node = Some ''pve'',
     rq_vmid = None, rq_cpu = 2, rq_ram = 2048, rq_disk = 20, rq_storage = ''local-lvm'',
     rq_network = \<lparr>nr_bridge = ''vmbr0'', nr_vlan = None, nr_mode = ''dhcp'', nr_ip = None, nr_cidr = None,
       nr_gateway = None, nr_dns = None\<rparr>,
     rq_os = Linux, rq_protocols = None, rq_guest_user = ''deploy'', rq_password = ''k1:x'', rq_ssh_key = None,
     rq_start = True, rq_linked = True, rq_assign = []\<rparr>"

definition sample_ledger :: ledger where
  "sample_ledger = snd (job_create 0 ''j1'' None sample_provisioning (Some ''u1'') None \<lparr>jobs = [], steps = []\<rparr>)"

lemma ledger_history_witness:
  "\<exists>j'. job_by_id ''j1'' (jobs (job_cancel 9 ''j1'' sample_ledger)) = Some j' \<and> jb_creator j' = Some ''u1''"
proof -
  have 1: "ledger_step\<^sup>*\<^sup>* sample_ledger (job_cancel 9 ''j1'' sample_ledger)"
    by (rule r_into_rtranclp) (rule ledger_step.cancel)
  have 2: "ledger_wf sample_ledger"
    unfolding sample_ledger_def
    by (rule ledger_wf_create) (simp add: ledger_wf_def job_table.unique_def step_table.unique_def)
  have 3: "job_by_id ''j1'' (jobs sample_ledger) = Some (hd (jobs sample_ledger))"
    by code_simp
  have "jb_creator (hd (jobs sample_ledger)) = Some ''u1''"
    by code_simp
  with ledger_history [OF 1 2 3] show ?thesis by metis
qed

text \<open>A retried job is active again but keeps the finishing stamp of its failure.\<close>

lemma retry_keeps_finished:
  assumes "job_by_id i (jobs l) = Some j" "jb_finished j = Some t"
  shows "\<exists>j'. job_by_id i (jobs (reset_for_retry now i l)) = Some j' \<and> jb_status j' = PENDING
    \<and> jb_finished j' = Some t"
  using assms by (simp add: reset_for_retry_def job_by_id_update)

end
