(* ===== verification/Worker_Frame.thy ===== *)
theory Worker_Frame
  imports Worker Jobs_Props
begin

text \<open>
  What the steps of the pipeline leave alone: a predicate of the ledger that survives the two
  writes of a step on its own job survives every step.
\<close>

named_theorems kl \<open>computations that keep a predicate of the ledger\<close>

definition keeps_ledger :: "(ledger \<Rightarrow> bool) \<Rightarrow> ('w pstate, 'a) comp \<Rightarrow> bool" where
  "keeps_ledger Q m \<longleftrightarrow> keeps_pred (\<lambda>s. Q (p_ledger s)) m"

lemma keeps_ledgerD: "keeps_ledger Q m \<Longrightarrow> Q (p_ledger s) \<Longrightarrow> Q (p_ledger (snd (m s)))"
  by (simp add: keeps_ledger_def keeps_predD [where P = "\<lambda>s. Q (p_ledger s)"])

lemma kl_basic [kl]:
  "keeps_ledger Q (ret x)" "keeps_ledger Q (throw e)" "keeps_ledger Q (gets f)" "keeps_ledger Q (lift_res r)"
  "keeps_ledger Q (world_call m)" "keeps_ledger Q (on_creds sv f')" "keeps_ledger Q (on_reg m')"
  "keeps_ledger Q (on_guac m'')" "keeps_ledger Q (set_run g)" "keeps_ledger Q get_run"
  "keeps_ledger Q (p_event sv ev actor i vm d)" "keeps_ledger Q (progress sv i data)"
  "keeps_ledger Q (done_with d)" "keeps_ledger Q restore_ip"
  by (simp_all add: keeps_ledger_def keeps_pred_def comp_defs world_call_def on_creds_def on_reg_def on_guac_def
      set_run_def get_run_def p_event_def progress_def done_with_def restore_ip_def split: prod.split option.split)

lemma kl_bind [kl]: "keeps_ledger Q m \<Longrightarrow> (\<And>x. keeps_ledger Q (f x)) \<Longrightarrow> keeps_ledger Q (bind m f)"
  by (simp add: keeps_ledger_def keeps_pred_bind)

lemma kl_try [kl]: "keeps_ledger Q m \<Longrightarrow> (\<And>e. keeps_ledger Q (h e)) \<Longrightarrow> keeps_ledger Q (try_catch m h)"
  by (simp add: keeps_ledger_def keeps_pred_try)

lemma kl_if [kl]: "keeps_ledger Q m \<Longrightarrow> keeps_ledger Q n \<Longrightarrow> keeps_ledger Q (if b then m else n)"
  by simp

lemma kl_when [kl]: "keeps_ledger Q m \<Longrightarrow> keeps_ledger Q (do_when b m)"
  by (simp add: do_when_def kl)

lemma kl_for_each [kl]: "(\<And>x. keeps_ledger Q (f x)) \<Longrightarrow> keeps_ledger Q (for_each xs f)"
  by (induction xs) (auto intro!: kl)

lemma kl_option [kl]:
  "keeps_ledger Q m \<Longrightarrow> (\<And>y. keeps_ledger Q (f y)) \<Longrightarrow> keeps_ledger Q (case x of None \<Rightarrow> m | Some y \<Rightarrow> f y)"
  by (cases x) auto

lemma kl_prod [kl]: "(\<And>a b. keeps_ledger Q (f a b)) \<Longrightarrow> keeps_ledger Q (case x of (a, b) \<Rightarrow> f a b)"
  by (cases x) auto

lemma kl_result [kl]:
  "(\<And>d. keeps_ledger Q (f d)) \<Longrightarrow> (\<And>m. keeps_ledger Q (g m))
   \<Longrightarrow> keeps_ledger Q (case r of StepDone d \<Rightarrow> f d | StepLater m \<Rightarrow> g m)"
  by (cases r) auto

lemma kl_let [kl]: "keeps_ledger Q (f x) \<Longrightarrow> keeps_ledger Q (let y = x in f y)"
  by simp

lemma kl_ledger: "(\<And>now l. Q l \<Longrightarrow> Q (f now l)) \<Longrightarrow> keeps_ledger Q (on_ledger sv f)"
  by (simp add: keeps_ledger_def keeps_pred_def on_ledger_def comp_defs)

lemma kl_validate: "keeps_ledger Q (validate_resources sv req)"
  unfolding validate_resources_def requested_template_def template_by_vmid_def resolution_node_def
    check_template_resource_def check_storage_def check_bridge_def
  by (intro kl)

lemma kl_clone:
  assumes "\<And>now v l. Q l \<Longrightarrow> Q (set_vm_id now i v l)" "\<And>now l. Q l \<Longrightarrow> Q (job_update_status now i CREATING None l)"
  shows "keeps_ledger Q (clone_template sv i req creator)"
  unfolding clone_template_def choose_vmid_def
  by (intro kl kl_ledger assms)

lemma kl_configure: "keeps_ledger Q (configure_vm sv req)"
  unfolding configure_vm_def wait_if_def by (intro kl)

lemma kl_guest: "keeps_ledger Q (configure_guest_provisioning sv i req)"
  unfolding configure_guest_provisioning_def store_credential_def by (intro kl)

lemma kl_start: "keeps_ledger Q (start_vm sv req)"
  unfolding start_vm_def wait_if_def by (intro kl)

lemma kl_wait: "keeps_ledger Q (wait_for_guest sv req attempt)"
  unfolding wait_for_guest_def by (intro kl)

lemma kl_discover: "keeps_ledger Q (discover_ip sv req attempt)"
  unfolding discover_ip_def guest_address_def record_os_def save_ip_def by (intro kl)

lemma kl_verify: "keeps_ledger Q (verify_guest sv req)"
  unfolding verify_guest_def by (intro kl)

lemma kl_credentials: "keeps_ledger Q (verify_credentials sv i req)"
  unfolding verify_credentials_def set_cred_status_def by (intro kl)

lemma kl_guacamole: "keeps_ledger Q (create_guacamole_connection sv i req)"
  unfolding create_guacamole_connection_def connect_protocol_def assign_user_def assign_creator_def
    give_access_def guac_user_def
  by (intro kl)

lemma kl_verify_guacamole: "keeps_ledger Q (verify_guacamole sv)"
  unfolding verify_guacamole_def verify_record_def by (intro kl)

lemmas kl_steps = kl_validate kl_configure kl_guest kl_start kl_wait kl_discover kl_verify kl_credentials
  kl_guacamole kl_verify_guacamole

lemma kl_pipeline:
  assumes "\<And>now v l. Q l \<Longrightarrow> Q (set_vm_id now i v l)" "\<And>now l. Q l \<Longrightarrow> Q (job_update_status now i CREATING None l)"
    and "(k, fn) \<in> set (pipeline_steps sv i req creator attempt)"
  shows "keeps_ledger Q fn"
  using assms(3) kl_steps kl_clone [OF assms(1,2)] unfolding pipeline_steps_def by auto

lemma kl_resolve_again: "keeps_ledger Q (resolve_again sv req)"
  unfolding resolve_again_def template_by_vmid_def resolution_node_def by (intro kl)

end
