(* ===== verification/Worker_Demo.thy ===== *)
theory Worker_Demo
  imports Worker_Frame
begin

text \<open>
  A small world on which the worker runs: one Proxmox node with one template, a guest that
  reports its address, and a Guacamole database. It exercises the definitions on a whole
  provisioning and supplies the instances of the properties.
\<close>

definition demo_job :: string where
  "demo_job = ''11111111-1111-1111-1111-111111111111''"

definition demo_user :: string where
  "demo_user = ''22222222-2222-2222-2222-222222222222''"

definition demo_template :: string where
  "demo_template = ''33333333-3333-3333-3333-333333333333''"

definition demo_vm :: string where
  "demo_vm = ''44444444-4444-4444-4444-444444444444''"

text \<open>The world counts the messages published; \<open>ready\<close> says whether the guest agent answers.\<close>

definition demo_services :: "bool \<Rightarrow> int services" where
  "demo_services ready = \<lparr>sv_clock = (\<lambda>w. w), sv_new_id = ret demo_vm, sv_new_password = ret ''pw'',
     sv_encrypt = (\<lambda>p. ''k1:'' @ p), sv_decrypt = (\<lambda>c. Inr (drop 3 c)), sv_hash = (\<lambda>p. p),
     sv_publish = (\<lambda>i d w. w + 1), sv_enqueue = (\<lambda>q i n d. ret ()), sv_client = ret (), sv_guac_db = ret (),
     sv_nodes = ret [''pve''],
     sv_resources = ret [\<lparr>pr_vmid = 900, pr_node = ''pve'', pr_name = ''debian'', pr_template = True\<rparr>],
     sv_storages = (\<lambda>n. ret [(''local-lvm'', ''images'')]), sv_networks = (\<lambda>n. ret [''vmbr0'']),
     sv_next_vmid = ret 101, sv_clone = (\<lambda>c. ret ''UPID''), sv_wait_task = (\<lambda>n u ms. ret ()),
     sv_config = (\<lambda>n v. ret [(''net0'', CfgStr ''virtio=AA,bridge=vmbr1''), (''scsi0'', CfgStr ''disk,size=8G''),
       (''ide2'', CfgStr ''cloudinit'')]),
     sv_update_config = (\<lambda>n v c. ret ''UPID''), sv_resize_disk = (\<lambda>n v d s. ret ''UPID''),
     sv_start = (\<lambda>n v. ret ''UPID''), sv_status = (\<lambda>n v. ret ''running''),
     sv_wait_agent = (\<lambda>n v t p. ret ready),
     sv_guest_ips = (\<lambda>n v. ret (Some \<lparr>ag_ipv4s = [''127.0.0.1'', ''10.0.0.7''], ag_os = Some ''Debian''\<rparr>)),
     sv_os_info = (\<lambda>n v. ret None),
     sv_probe_ssh = (\<lambda>ip u p. ret \<lparr>ssh_authenticated = True, ssh_detail = [], ssh_output = ''web''\<rparr>),
     sv_probe_tcp = (\<lambda>ip p. ret True)\<rparr>"

definition demo_request :: provision_request where
  "demo_request = sample_provisioning\<lparr>rq_template := Some demo_template, rq_assign := [demo_user]\<rparr>"

definition demo_row :: job_row where
  "demo_row = \<lparr>jb_id = demo_job, jb_vm = None, jb_status = PENDING, jb_error = None, jb_request = demo_request,
     jb_creator = Some demo_user, jb_bull = None, jb_started = None, jb_finished = None, jb_created = 0, jb_updated = 0\<rparr>"

definition demo_account :: user_row where
  "demo_account = \<lparr>us_id = demo_user, us_username = ''ada'', us_email = None, us_given_name = None,
     us_password_hash = [], us_active = True, us_failed = 0, us_locked_until = None, us_last_login = None,
     us_initial_admin = False, us_max_vms = Some 5, us_created_at = 0\<rparr>"

text \<open>The creator is an administrator when \<open>admin\<close> is set and holds nothing otherwise.\<close>

definition demo_iam :: "bool \<Rightarrow> iam_db" where
  "demo_iam admin = sample_db\<lparr>roles := [\<lparr>role_id = ''r1'', role_name = ''ADMIN'', role_description = [], role_is_system = True\<rparr>],
     user_roles := (if admin then [\<lparr>ur_user = demo_user, ur_role = ''r1'', ur_expires = None\<rparr>] else [])\<rparr>"

definition demo_tpl :: template_row where
  "demo_tpl = \<lparr>tp_id = demo_template, tp_name = ''debian'', tp_node = ''pve'', tp_vmid = 900, tp_os = Linux,
     tp_method = CloudInit, tp_cloud_init = True, tp_agent_required = True, tp_cpu = 2, tp_ram = 2048, tp_disk = 8,
     tp_protocols = [SSH]\<rparr>"

definition demo_state :: "bool \<Rightarrow> int pstate" where
  "demo_state admin = \<lparr>p_app = \<lparr>users = [demo_account], sessions = [], reg = \<lparr>vms = [], schedules = [], iam = demo_iam admin\<rparr>\<rparr>,
     p_ledger = \<lparr>jobs = [demo_row], steps = []\<rparr>, p_creds = [], p_templates = [demo_tpl],
     p_guac = \<lparr>gs_conns = [], gs_users = [], gs_tokens = [],
       gs_remote = \<lparr>g_entities = [], g_connections = [], g_perms = [], g_group_perms = [], g_next_id = 1\<rparr>\<rparr>,
     p_audit = [], p_settings = (\<lambda>k. None), p_run = new_runner demo_request, p_world = 0\<rparr>"

text \<open>The same state with the clone already made.\<close>

definition demo_cloned :: "int pstate" where
  "demo_cloned = (demo_state True)
     \<lparr>p_ledger := set_step 3 demo_job CLONE_TEMPLATE StepSucceeded None None (p_ledger (demo_state True))\<rparr>"

lemma demo_wf: "ledger_wf (p_ledger (demo_state admin))"
  by (simp add: demo_state_def ledger_wf_def job_table.unique_def step_table.unique_def demo_row_def terminal_def)

lemma demo_cloned_wf: "ledger_wf (p_ledger demo_cloned)"
  by (simp add: demo_cloned_def ledger_wf_step [OF ledger_step.step] demo_wf)

lemma demo_cloned_row:
  "step_of (demo_job, CLONE_TEMPLATE) (steps (p_ledger demo_cloned)) =
     Some (new_step 3 demo_job CLONE_TEMPLATE StepSucceeded None None)"
  by code_simp

lemma demo_uuid: "is_uuid demo_job"
  by code_simp

lemma demo_require: "job_require (p_ledger (demo_state admin)) demo_job = Inr demo_row"
  using demo_uuid
  by (simp add: job_require_def job_get_def demo_state_def job_by_id_def table_find_def demo_row_def)

end
