(* ===== verification/Worker_Props.thy ===== *)
theory Worker_Props
  imports Worker_Demo
begin

text \<open>
  Properties of the provisioning worker: re-authorization before anything outside is touched,
  completed steps stay completed and are not run again, what each outcome says of the job, and
  that every job ends.
\<close>

subsection \<open>Ledger predicates that job writes keep\<close>

lemma job_writes_steps [simp]:
  "steps (job_update_status now i st e l) = steps l" "steps (set_vm_id now i v l) = steps l"
  by (simp_all add: job_update_status_def set_vm_id_def)

lemma ledger_wf_writes:
  "ledger_wf l \<Longrightarrow> ledger_wf (job_update_status now i st e l)" "ledger_wf l \<Longrightarrow> ledger_wf (set_vm_id now i v l)"
  "ledger_wf l \<Longrightarrow> ledger_wf (set_step now i k s d e l)"
  by (erule ledger_wf_step [OF ledger_step.status] ledger_wf_step [OF ledger_step.vm]
      ledger_wf_step [OF ledger_step.step])+

definition job_status_of :: "ledger \<Rightarrow> string \<Rightarrow> job_status option" where
  "job_status_of l i = map_option jb_status (job_by_id i (jobs l))"

lemma job_status_of_update:
  "job_status_of (job_update_status now i st e l) i = (if job_by_id i (jobs l) = None then None else Some st)"
  by (cases "job_by_id i (jobs l)") (simp_all add: job_status_of_def job_update_status_def job_by_id_update)

lemma job_status_of_set_vm [simp]: "job_status_of (set_vm_id now i v l) j = job_status_of l j"
  by (cases "job_by_id j (jobs l)") (simp_all add: job_status_of_def set_vm_id_def job_by_id_update)

lemma job_status_of_set_step [simp]: "job_status_of (set_step now i k s d e l) j = job_status_of l j"
  by (simp add: job_status_of_def)

lemma job_exists_writes [simp]:
  "(job_by_id j (jobs (job_update_status now i st e l)) = None) = (job_by_id j (jobs l) = None)"
  "(job_by_id j (jobs (set_vm_id now i v l)) = None) = (job_by_id j (jobs l) = None)"
  by (auto simp: job_update_status_def set_vm_id_def job_by_id_update)

subsection \<open>A step run\<close>

lemma kl_run_step:
  assumes "\<And>now st l. Q l \<Longrightarrow> Q (job_update_status now i st None l)"
    and "\<And>now st d e l. Q l \<Longrightarrow> Q (set_step now i k st d e l)" and "keeps_ledger Q fn"
  shows "keeps_ledger Q (run_step sv i k fn)"
  unfolding run_step_def fail_step_def by (intro kl kl_ledger assms)

lemma kl_run_steps:
  assumes "\<And>now st l. Q l \<Longrightarrow> Q (job_update_status now i st None l)"
    and "\<And>k now st d e l. k \<in> fst ` set xs \<Longrightarrow> k \<notin> set done \<Longrightarrow> Q l \<Longrightarrow> Q (set_step now i k st d e l)"
    and "\<And>x. x \<in> set xs \<Longrightarrow> keeps_ledger Q (snd x)"
  shows "keeps_ledger Q (run_steps sv i done xs)"
  using assms(2,3)
proof (induction xs)
  case Nil
  show ?case by (simp add: kl)
next
  case (Cons x xs)
  obtain k fn where x: "x = (k, fn)" by (cases x)
  have 1: "keeps_ledger Q (if k \<in> set done then skip_step k else run_step sv i k fn)"
  proof (cases "k \<in> set done")
    case False
    then have "keeps_ledger Q (run_step sv i k fn)"
      using Cons.prems(1) [of k] Cons.prems(2) [of x] x assms(1) by (intro kl_run_step) simp_all
    with False show ?thesis by simp
  qed (simp add: skip_step_def kl)
  have "keeps_ledger Q (run_steps sv i done xs)"
    by (rule Cons.IH) (rule Cons.prems; simp)+
  then show ?case
    unfolding x run_steps.simps by (intro kl_bind kl_result kl_basic 1)
qed

text \<open>The body of an attempt keeps what the writes of its open steps keep.\<close>

lemma pipeline_keys: "map fst (pipeline_steps sv i req creator attempt) = JOB_STEPS"
  by (simp add: pipeline_steps_def JOB_STEPS_def)

lemma kl_finish: 
  assumes "\<And>now st l. Q l \<Longrightarrow> Q (job_update_status now i st None l)"
  shows "keeps_ledger Q (finish_job sv i req actor)"
  unfolding finish_job_def by (intro kl kl_ledger assms)

lemma kl_attempt_body:
  assumes u: "\<And>now st l. Q l \<Longrightarrow> Q (job_update_status now (jb_id job) st None l)"
    and v: "\<And>now v l. Q l \<Longrightarrow> Q (set_vm_id now (jb_id job) v l)"
    and s: "\<And>k now st d e l. k \<notin> set done \<Longrightarrow> Q l \<Longrightarrow> Q (set_step now (jb_id job) k st d e l)"
  shows "keeps_ledger Q (attempt_body sv job req admin done actor attempt)"
proof -
  have "keeps_ledger Q (run_steps sv (jb_id job) done (pipeline_steps sv (jb_id job) req (jb_creator job) attempt))"
  proof (rule kl_run_steps)
    fix x assume "x \<in> set (pipeline_steps sv (jb_id job) req (jb_creator job) attempt)"
    then have m: "(fst x, snd x) \<in> set (pipeline_steps sv (jb_id job) req (jb_creator job) attempt)" by simp
    show "keeps_ledger Q (snd x)"
      by (rule kl_pipeline [where Q = Q, OF _ _ m]) (erule v, erule u)
  qed (use u s in auto)
  then show ?thesis
    unfolding attempt_body_def by (intro kl kl_resolve_again kl_finish u)
qed

lemma kl_fail_job:
  assumes "\<And>now l. Q l \<Longrightarrow> Q (job_update_status now (jb_id job) FAILED (Some msg) l)" "keeps_ledger Q tell"
  shows "keeps_ledger Q (fail_job sv job actor msg tell d)"
  unfolding fail_job_def by (intro kl kl_ledger assms)

lemma kl_run_attempt:
  assumes u: "\<And>now st e l. Q l \<Longrightarrow> Q (job_update_status now (jb_id job) st e l)"
    and v: "\<And>now v l. Q l \<Longrightarrow> Q (set_vm_id now (jb_id job) v l)"
    and s: "\<And>k now st d e l. k \<notin> set (completed_steps (p_ledger s0) (jb_id job)) \<Longrightarrow> Q l
              \<Longrightarrow> Q (set_step now (jb_id job) k st d e l)"
    and "Q (p_ledger s0)"
  shows "Q (p_ledger (snd (run_attempt sv job req admin actor attempt s0)))"
  unfolding run_attempt_def Let_def
  by (rule keeps_ledgerD [where Q = Q]) (rule_tac [2] assms(4), intro kl kl_ledger kl_fail_job kl_attempt_body u v s)

lemma job_requireD: "job_require l i = Inr job \<Longrightarrow> job_by_id i (jobs l) = Some job \<and> jb_id job = i \<and> is_uuid i"
  using job_table.lookup_SomeD [of i "jobs l" job]
  by (auto simp: job_require_def job_get_def split: option.splits if_splits)

text \<open>One run in closed form.\<close>

lemma run_job_unfold:
  "run_provisioning_job sv i attempt s =
    (case job_require (p_ledger s) i of
       Inl e \<Rightarrow> (Inl e, s)
     | Inr job \<Rightarrow>
        if jb_status job = READY then (Inr Skipped, s)
        else if jb_status job = FAILED \<or> jb_status job = CANCELLED then (Inr Failed, s)
        else case execution_check (p_app s) (p_ledger s) (p_now sv s) job of
            Inl reason \<Rightarrow> (Inr Failed, snd (fail_job sv job (jb_creator job, None) reason (ret ())
               [(''attempt'', JNum (int attempt)), (''during'', JStr ''authorization-recheck'')] s))
          | Inr admin \<Rightarrow>
              (case (if rq_password (jb_request job) = [] then Inr []
                     else sv_decrypt sv (rq_password (jb_request job))) of
                 Inl e \<Rightarrow> (Inl e, s)
               | Inr password \<Rightarrow> run_attempt sv job ((jb_request job)\<lparr>rq_password := password\<rparr>) admin
                    (job_actor sv i s) attempt s))"
  by (simp add: run_provisioning_job_def bind_def gets_def lift_res_def ret_def fail_job_def on_ledger_def
      modify_def p_event_def split: sum.split)

lemma kl_run_job:
  assumes u: "\<And>now st e l. Q l \<Longrightarrow> Q (job_update_status now i st e l)"
    and v: "\<And>now v l. Q l \<Longrightarrow> Q (set_vm_id now i v l)"
    and s: "\<And>k now st d e l. k \<notin> set (completed_steps (p_ledger s) i) \<Longrightarrow> Q l \<Longrightarrow> Q (set_step now i k st d e l)"
    and q: "Q (p_ledger s)"
  shows "Q (p_ledger (snd (run_provisioning_job sv i attempt s)))"
proof (cases "job_require (p_ledger s) i")
  case (Inl e)
  with q show ?thesis by (simp add: run_job_unfold)
next
  case (Inr job)
  then have i: "jb_id job = i" using job_requireD by blast
  have f: "Q (p_ledger (snd (fail_job sv job a m (ret ()) d s)))" for a m d
    by (rule keeps_ledgerD [where Q = Q]) (intro kl_fail_job kl, simp_all add: u i q)
  have a: "Q (p_ledger (snd (run_attempt sv job req admin actor attempt s)))" for req admin actor
    by (rule kl_run_attempt) (use u v s q i in auto)
  show ?thesis
    using Inr q f a by (auto simp: run_job_unfold split: sum.split)
qed

subsection \<open>Completed steps\<close>

lemma completed_row_stays:
  assumes wf: "ledger_wf (p_ledger s)" and row: "step_of (j, k) (steps (p_ledger s)) = Some row"
    and c: "completed row \<or> j \<noteq> i"
  shows "ledger_wf (p_ledger (snd (run_provisioning_job sv i attempt s)))
    \<and> step_of (j, k) (steps (p_ledger (snd (run_provisioning_job sv i attempt s)))) = Some row"
proof (rule kl_run_job [where Q = "\<lambda>l. ledger_wf l \<and> step_of (j, k) (steps l) = Some row"])
  fix k' now st d e l
  assume k': "k' \<notin> set (completed_steps (p_ledger s) i)" and l: "ledger_wf l \<and> step_of (j, k) (steps l) = Some row"
  have "(j, k) \<noteq> (i, k')"
    using c row k' in_completed_steps [OF wf, of k' i] by auto
  with l show "ledger_wf (set_step now i k' st d e l) \<and> step_of (j, k) (steps (set_step now i k' st d e l)) = Some row"
    by (auto simp add: ledger_wf_writes step_of_set_step)
qed (use wf row in \<open>simp_all add: ledger_wf_writes\<close>)

lemma run_steps_skip:
  "run_steps sv i done xs =
   run_steps sv i done (map (\<lambda>x. (fst x, if fst x \<in> set done then g (fst x) else snd x)) xs)"
  by (induction xs) auto

text \<open>C16. No completed work is redone. Whatever an attempt does and however it ends, the row of
  every step that had succeeded or was skipped stays as it was, details and stamps included,
  as do all rows of other jobs; and the attempt would be the same with any other code in
  place of its completed steps, so that none of them runs again.\<close>

theorem completed_steps_never_redone:
  assumes "ledger_wf (p_ledger s)" and "step_of (j, k) (steps (p_ledger s)) = Some row"
    and "st_state row = StepSucceeded \<or> st_state row = StepSkipped \<or> j \<noteq> i"
  shows "step_of (j, k) (steps (p_ledger (snd (run_provisioning_job sv i attempt s)))) = Some row
    \<and> ledger_wf (p_ledger (snd (run_provisioning_job sv i attempt s)))
    \<and> run_steps sv i (completed_steps (p_ledger s) i) (pipeline_steps sv i req creator attempt) =
      run_steps sv i (completed_steps (p_ledger s) i)
        (map (\<lambda>x. (fst x, if fst x \<in> set (completed_steps (p_ledger s) i) then other (fst x) else snd x))
          (pipeline_steps sv i req creator attempt))"
  using completed_row_stays [OF assms(1,2), of i] assms(3) run_steps_skip
  by (auto simp: completed_def)

lemma completed_steps_never_redone_witness:
  "step_of (demo_job, CLONE_TEMPLATE)
     (steps (p_ledger (snd (run_provisioning_job (demo_services True) demo_job 1 demo_cloned)))) =
   Some (new_step 3 demo_job CLONE_TEMPLATE StepSucceeded None None)"
  using completed_steps_never_redone [OF demo_cloned_wf demo_cloned_row, of demo_job "demo_services True" 1]
  by (simp add: new_step_def)

subsection \<open>Which steps may ask to be called later\<close>

named_theorems nl \<open>computations that do not end in a reschedule\<close>

definition no_later :: "'w step \<Rightarrow> bool" where
  "no_later m \<longleftrightarrow> (\<forall>s msg s'. m s \<noteq> (Inr (StepLater msg), s'))"

lemma nl_basic [nl]: "no_later (throw e)" "no_later (done_with d)"
  by (simp_all add: no_later_def throw_def done_with_def ret_def)

lemma nl_bind [nl]: "(\<And>x. no_later (f x)) \<Longrightarrow> no_later (bind m f)"
  by (auto simp: no_later_def bind_def split: prod.splits sum.splits)

lemma nl_if [nl]: "no_later m \<Longrightarrow> no_later n \<Longrightarrow> no_later (if b then m else n)"
  by simp

lemma nl_option [nl]:
  "no_later m \<Longrightarrow> (\<And>y. no_later (f y)) \<Longrightarrow> no_later (case x of None \<Rightarrow> m | Some y \<Rightarrow> f y)"
  by (cases x) auto

lemma nl_let [nl]: "no_later (f x) \<Longrightarrow> no_later (let y = x in f y)"
  by simp

lemma nl_steps:
  "no_later (validate_resources sv req)" "no_later (clone_template sv i req creator)"
  "no_later (configure_vm sv req)" "no_later (configure_guest_provisioning sv i req)"
  "no_later (start_vm sv req)" "no_later (verify_guest sv req)" "no_later (verify_credentials sv i req)"
  "no_later (create_guacamole_connection sv i req)" "no_later (verify_guacamole sv)"
  unfolding validate_resources_def clone_template_def configure_vm_def configure_guest_provisioning_def
    start_vm_def verify_guest_def verify_credentials_def create_guacamole_connection_def verify_guacamole_def
  by (intro nl)+

lemma later_steps:
  "x \<in> set (pipeline_steps sv i req creator attempt) \<Longrightarrow> no_later (snd x)
   \<or> step_status (fst x) = WAITING_FOR_GUEST \<and> fst x \<in> {WAIT_FOR_GUEST, DISCOVER_IP}"
  by (auto simp: pipeline_steps_def step_status_def nl_steps)

subsection \<open>The status of the job\<close>

lemma bind_on_ledger:
  "bind (on_ledger sv f) g s = g () (s\<lparr>p_ledger := f (p_now sv s) (p_ledger s)\<rparr>)"
  by (simp add: bind_def on_ledger_def modify_def)

definition job_exists :: "string \<Rightarrow> ledger \<Rightarrow> bool" where
  "job_exists i l \<longleftrightarrow> job_by_id i (jobs l) \<noteq> None"

lemma job_exists_update [simp]:
  "job_exists i (job_update_status now j st e l) = job_exists i l" "job_exists i (set_vm_id now j v l) = job_exists i l"
  "job_exists i (set_step now j k s d e l) = job_exists i l"
  by (simp_all add: job_exists_def)

lemma job_status_written [simp]:
  "job_exists i l \<Longrightarrow> job_status_of (job_update_status now i st e l) i = Some st"
  by (simp add: job_exists_def job_status_of_update)

lemma run_step_status:
  assumes "job_exists i (p_ledger s)"
    and "keeps_ledger (\<lambda>l. job_status_of l i = Some (step_status k)) fn"
  shows "job_status_of (p_ledger (snd (run_step sv i k fn s))) i = Some (step_status k)"
proof -
  define Q where "Q = (\<lambda>l. job_status_of l i = Some (step_status k))"
  have st: "keeps_ledger Q (on_ledger sv (\<lambda>now. set_step now i k' x d e))" for k' x d e
    by (rule kl_ledger) (simp add: Q_def)
  have fn: "keeps_ledger Q fn"
    using assms(2) by (simp add: Q_def)
  have "Q (p_ledger (snd (run_step sv i k fn s)))"
    unfolding run_step_def bind_on_ledger [where f = "\<lambda>now. job_update_status now i (step_status k) None"] fail_step_def
    by (rule keeps_ledgerD [where Q = Q]) (intro kl fn st, simp add: Q_def assms(1))
  then show ?thesis by (simp add: Q_def)
qed

lemma run_step_exists:
  assumes "job_exists i (p_ledger s)" "keeps_ledger (job_exists i) fn"
  shows "job_exists i (p_ledger (snd (run_step sv i k fn s)))"
  by (rule keeps_ledgerD [where Q = "job_exists i"]) (intro kl_run_step assms(2), simp_all add: assms(1))

text \<open>A step keeps every predicate of the ledger that a new VM id and, for cloning, a status write keep.\<close>

definition harmless :: "string \<Rightarrow> job_step \<times> 'w step \<Rightarrow> bool" where
  "harmless i x \<longleftrightarrow> (\<forall>Q. (\<forall>now v l. Q l \<longrightarrow> Q (set_vm_id now i v l))
     \<longrightarrow> (\<forall>now l. Q l \<longrightarrow> Q (job_update_status now i (step_status (fst x)) None l)) \<longrightarrow> keeps_ledger Q (snd x))"

lemma harmlessD:
  assumes "harmless i x" "\<And>now v l. Q l \<Longrightarrow> Q (set_vm_id now i v l)"
    "\<And>now l. Q l \<Longrightarrow> Q (job_update_status now i (step_status (fst x)) None l)"
  shows "keeps_ledger Q (snd x)"
  using assms by (simp add: harmless_def)

lemma harmless_pipeline: "x \<in> set (pipeline_steps sv i req creator attempt) \<Longrightarrow> harmless i x"
  unfolding harmless_def
proof (intro allI impI)
  fix Q assume x: "x \<in> set (pipeline_steps sv i req creator attempt)"
    and v: "\<forall>now v l. Q l \<longrightarrow> Q (set_vm_id now i v l)"
    and u: "\<forall>now l. Q l \<longrightarrow> Q (job_update_status now i (step_status (fst x)) None l)"
  show "keeps_ledger Q (snd x)"
  proof (cases "fst x = CLONE_TEMPLATE")
    case True
    then have "snd x = clone_template sv i req creator"
      using x by (auto simp: pipeline_steps_def)
    with u v True show ?thesis
      by (auto intro!: kl_clone simp: step_status_def)
  next
    case False
    with x show ?thesis
      by (auto simp: pipeline_steps_def kl_steps)
  qed
qed

lemma harmless_exists: "harmless i x \<Longrightarrow> keeps_ledger (job_exists i) (snd x)"
  by (rule harmlessD) simp_all

lemma harmless_wf: "harmless i x \<Longrightarrow> keeps_ledger ledger_wf (snd x)"
  by (rule harmlessD) (simp_all add: ledger_wf_writes)

lemma harmless_status:
  assumes "harmless i x"
  shows "keeps_ledger (\<lambda>l. job_exists i l \<and> job_status_of l i = Some (step_status (fst x))) (snd x)"
  using assms by (rule harmlessD) simp_all

lemma run_step_status':
  assumes "job_exists i (p_ledger s)" "harmless i x"
  shows "job_status_of (p_ledger (snd (run_step sv i (fst x) (snd x) s))) i = Some (step_status (fst x))"
proof (rule run_step_status [OF assms(1)])
  have "job_exists i l" if "job_status_of l i = Some (step_status (fst x))" for l
    using that by (auto simp: job_exists_def job_status_of_def)
  then show "keeps_ledger (\<lambda>l. job_status_of l i = Some (step_status (fst x))) (snd x)"
    using harmless_status [OF assms(2)] by (auto simp: keeps_ledger_def keeps_pred_def)
qed

lemma bind_gets: "bind (gets f) g s = g (f s) s"
  by (simp add: bind_def gets_def)

lemma snd_on_ledger: "snd (on_ledger sv f s) = s\<lparr>p_ledger := f (p_now sv s) (p_ledger s)\<rparr>"
  by (simp add: on_ledger_def modify_def)

lemma bind_progress: "bind (progress sv i d) g s = g () (s\<lparr>p_world := sv_publish sv i d (p_world s)\<rparr>)"
  by (simp add: bind_def progress_def modify_def)

definition step_started :: "'w services \<Rightarrow> string \<Rightarrow> job_step \<Rightarrow> 'w pstate \<Rightarrow> 'w pstate" where
  "step_started sv i k s =
     (let s1 = s\<lparr>p_ledger := job_update_status (p_now sv s) i (step_status k) None (p_ledger s)\<rparr>;
          s2 = s1\<lparr>p_ledger := set_step (p_now sv s1) i k StepRunning None None (p_ledger s1)\<rparr>
      in s2\<lparr>p_world := sv_publish sv i (JObj [(''vmId'', json_opt (ru_vm (p_run s2))), (''progress'', JNum 0)]) (p_world s2)\<rparr>)"

definition guarded :: "'w services \<Rightarrow> string \<Rightarrow> job_step \<Rightarrow> 'w step \<Rightarrow> 'w step" where
  "guarded sv i k fn = try_catch fn (\<lambda>e. bind (fail_step sv i k (err_message e)) (\<lambda>_. throw e))"

lemma run_step_unfold:
  "run_step sv i k fn s =
     (case guarded sv i k fn (step_started sv i k s) of
        (Inl e, t) \<Rightarrow> (Inl e, t)
      | (Inr r, t) \<Rightarrow> (case r of
           StepLater msg \<Rightarrow> (Inr (StepLater msg), snd (fail_step sv i k msg t))
         | StepDone d \<Rightarrow>
             (let u = t\<lparr>p_ledger := set_step (p_now sv t) i k StepSucceeded (Some d) None (p_ledger t)\<rparr>
              in (Inr (StepDone d), u\<lparr>p_world := sv_publish sv i
                    (JObj [(''vmId'', json_opt (ru_vm (p_run u))), (''progress'', JNum 100)]) (p_world u)\<rparr>))))"
proof -
  have "run_step sv i k fn s =
     bind (guarded sv i k fn) (\<lambda>r.
     case r of
       StepLater msg \<Rightarrow> bind (fail_step sv i k msg) (\<lambda>_. ret (StepLater msg))
     | StepDone d \<Rightarrow>
         bind (on_ledger sv (\<lambda>now. set_step now i k StepSucceeded (Some d) None)) (\<lambda>_.
         bind (gets (\<lambda>s. ru_vm (p_run s))) (\<lambda>vm'.
         bind (progress sv i (JObj [(''vmId'', json_opt vm'), (''progress'', JNum 100)])) (\<lambda>_.
         ret (StepDone d))))) (step_started sv i k s)"
    unfolding run_step_def bind_on_ledger bind_gets bind_progress guarded_def step_started_def Let_def ..
  then show ?thesis
    by (simp add: bind_def [of "guarded sv i k fn"] bind_on_ledger bind_gets bind_progress fail_step_def Let_def
        snd_on_ledger ret_def split: prod.split sum.split step_result.split)
qed

lemma guarded_Inr: "guarded sv i k fn s = (Inr r, t) \<longleftrightarrow> fn s = (Inr r, t)"
  by (auto simp: guarded_def try_catch_def bind_def throw_def split: prod.splits sum.splits)

lemma run_step_InrD:
  assumes "run_step sv i k fn s = (Inr r, s')"
  shows "\<exists>t. fn (step_started sv i k s) = (Inr r, t) \<and>
    (case r of StepLater msg \<Rightarrow> True
     | StepDone d \<Rightarrow> p_ledger s' = set_step (p_now sv t) i k StepSucceeded (Some d) None (p_ledger t))"
  using assms
  by (auto simp: run_step_unfold guarded_Inr Let_def split: prod.splits sum.splits step_result.splits)

lemma run_step_LaterD:
  assumes "run_step sv i k fn s = (Inr (StepLater msg), s')" shows "\<not> no_later fn"
  using run_step_InrD [OF assms] by (auto simp: no_later_def)

lemma skip_step_done: "\<exists>s'. skip_step k s = (Inr (StepDone (JObj [])), s') \<and> p_ledger s' = p_ledger s"
  by (auto simp: skip_step_def do_when_def restore_ip_def bind_def modify_def ret_def done_with_def
      split: option.split)

text \<open>The first step of the list, whether it runs or is skipped.\<close>

definition first_step :: "'w services \<Rightarrow> string \<Rightarrow> job_step list \<Rightarrow> job_step \<times> 'w step \<Rightarrow> 'w step" where
  "first_step sv i done x = (if fst x \<in> set done then skip_step (fst x) else run_step sv i (fst x) (snd x))"

lemma run_steps_Cons:
  "run_steps sv i done (x # xs) =
     bind (first_step sv i done x) (\<lambda>r. case r of StepLater m \<Rightarrow> ret (StepLater m) | StepDone _ \<Rightarrow> run_steps sv i done xs)"
  by (cases x) (simp add: first_step_def)

lemma first_step_exists:
  assumes "job_exists i (p_ledger s)" "harmless i x"
  shows "job_exists i (p_ledger (snd (first_step sv i done x s)))"
  using assms run_step_exists [OF assms(1) harmless_exists [OF assms(2)]] skip_step_done [of "fst x" s]
  by (auto simp: first_step_def)

lemma run_steps_later:
  assumes "run_steps sv i done xs s = (Inr (StepLater msg), s')" "job_exists i (p_ledger s)"
    and "\<And>x. x \<in> set xs \<Longrightarrow> harmless i x"
  shows "\<exists>x \<in> set xs. \<not> no_later (snd x) \<and> job_status_of (p_ledger s') i = Some (step_status (fst x))"
  using assms
proof (induction xs arbitrary: s)
  case Nil
  then show ?case by (simp add: done_with_def ret_def)
next
  case (Cons x xs)
  have h: "harmless i x" using Cons.prems(3) by simp
  obtain r t where f: "first_step sv i done x s = (Inr r, t)"
    using Cons.prems(1) by (auto simp: run_steps_Cons bind_def split: prod.splits sum.splits)
  show ?case
  proof (cases r)
    case (StepLater m)
    have "s' = t" using Cons.prems(1) f StepLater by (simp add: run_steps_Cons bind_def ret_def)
    moreover have k: "fst x \<notin> set done"
      using f StepLater skip_step_done [of "fst x" s] by (auto simp: first_step_def)
    ultimately have "run_step sv i (fst x) (snd x) s = (Inr (StepLater m), s')"
      using f StepLater by (simp add: first_step_def)
    with run_step_LaterD [OF this] run_step_status' [OF Cons.prems(2) h, of sv] show ?thesis
      by auto
  next
    case (StepDone d)
    have "run_steps sv i done xs t = (Inr (StepLater msg), s')"
      using Cons.prems(1) f StepDone by (simp add: run_steps_Cons bind_def)
    moreover have "job_exists i (p_ledger t)"
      using first_step_exists [OF Cons.prems(2) h, of sv "done"] f by simp
    ultimately show ?thesis
      using Cons.IH [of t] Cons.prems(3) by auto
  qed
qed

subsection \<open>A finished job has all its steps\<close>

definition step_complete :: "string \<Rightarrow> job_step \<Rightarrow> ledger \<Rightarrow> bool" where
  "step_complete i k l \<longleftrightarrow> (\<exists>row. step_of (i, k) (steps l) = Some row \<and> completed row)"

lemma step_complete_other:
  "ledger_wf l \<Longrightarrow> step_complete i k l \<Longrightarrow> k' \<noteq> k \<Longrightarrow> step_complete i k (set_step now i k' s d e l)"
  by (simp add: step_complete_def step_of_set_step)

lemma step_complete_writes [simp]:
  "step_complete i k (job_update_status now j st e l) = step_complete i k l"
  "step_complete i k (set_vm_id now j v l) = step_complete i k l"
  by (simp_all add: step_complete_def)

lemma step_complete_succeeded:
  "ledger_wf l \<Longrightarrow> step_complete i k (set_step now i k StepSucceeded d e l)"
  by (simp add: step_complete_def step_of_set_step completed_def new_step_def overwrite_step_def split: option.split)

lemma run_step_done:
  assumes "run_step sv i k fn s = (Inr (StepDone d), s')" "ledger_wf (p_ledger s)" "keeps_ledger ledger_wf fn"
  shows "step_complete i k (p_ledger s') \<and> ledger_wf (p_ledger s') \<and> (\<exists>t t'. fn t = (Inr (StepDone d), t'))"
proof -
  from run_step_InrD [OF assms(1)] obtain t where t: "fn (step_started sv i k s) = (Inr (StepDone d), t)"
    and s': "p_ledger s' = set_step (p_now sv t) i k StepSucceeded (Some d) None (p_ledger t)" by auto
  have "ledger_wf (p_ledger (step_started sv i k s))"
    using assms(2) by (simp add: step_started_def Let_def ledger_wf_writes)
  then have "ledger_wf (p_ledger t)"
    using keeps_ledgerD [where Q = ledger_wf and s = "step_started sv i k s" and m = fn] assms(3) t by simp
  with s' t show ?thesis
    by (auto simp: step_complete_succeeded ledger_wf_writes)
qed

lemma run_steps_done:
  assumes "run_steps sv i done xs s = (Inr (StepDone d), s')" "ledger_wf (p_ledger s)"
    and "\<And>x. x \<in> set xs \<Longrightarrow> harmless i x" "distinct (map fst xs)"
    and "\<And>k. k \<in> set done \<Longrightarrow> step_complete i k (p_ledger s)"
  shows "ledger_wf (p_ledger s') \<and> (\<forall>x \<in> set xs. step_complete i (fst x) (p_ledger s')
    \<and> (fst x \<notin> set done \<longrightarrow> (\<exists>t d' t'. snd x t = (Inr (StepDone d'), t'))))"
  using assms
proof (induction xs arbitrary: s)
  case Nil
  then show ?case by (simp add: done_with_def ret_def)
next
  case (Cons x xs)
  have h: "harmless i x" using Cons.prems(3) by simp
  define Q where "Q k l \<longleftrightarrow> ledger_wf l \<and> step_complete i k l" for k l
  have kQ: "keeps_ledger (Q k) (snd y)" if "harmless i y" for k y
    using that by (rule harmlessD) (simp_all add: Q_def ledger_wf_writes)
  obtain r t where f: "first_step sv i done x s = (Inr r, t)" and r: "\<exists>e. r = StepDone e"
    and rest: "run_steps sv i done xs t = (Inr (StepDone d), s')"
    using Cons.prems(1)
    by (auto simp: run_steps_Cons bind_def ret_def split: prod.splits sum.splits step_result.splits)
  have t: "ledger_wf (p_ledger t) \<and> step_complete i (fst x) (p_ledger t)
     \<and> (fst x \<notin> set done \<longrightarrow> (\<exists>t d' t'. snd x t = (Inr (StepDone d'), t')))"
  proof (cases "fst x \<in> set done")
    case True
    with f skip_step_done [of "fst x" s] Cons.prems(2) Cons.prems(5) [of "fst x"] show ?thesis
      by (auto simp: first_step_def)
  next
    case False
    from r obtain e where e: "r = StepDone e" by blast
    have "run_step sv i (fst x) (snd x) s = (Inr (StepDone e), t)"
      using f e False by (simp add: first_step_def)
    from run_step_done [OF this Cons.prems(2) harmless_wf [OF h]] show ?thesis
      by blast
  qed
  have d: "step_complete i k (p_ledger t)" if k: "k \<in> set done" for k
  proof (cases "fst x \<in> set done")
    case True
    with f skip_step_done [of "fst x" s] Cons.prems(5) [OF k] show ?thesis
      by (auto simp: first_step_def)
  next
    case False
    have "keeps_ledger (Q k) (run_step sv i (fst x) (snd x))"
      by (rule kl_run_step [OF _ _ kQ [OF h]])
        (use False k in \<open>auto simp: Q_def ledger_wf_writes intro: step_complete_other\<close>)
    then have "Q k (p_ledger (snd (run_step sv i (fst x) (snd x) s)))"
      by (rule keeps_ledgerD [where Q = "Q k"]) (use Cons.prems(2) Cons.prems(5) [OF k] in \<open>simp add: Q_def\<close>)
    with f False show ?thesis by (simp add: first_step_def Q_def)
  qed
  have "keeps_ledger (Q (fst x)) (run_steps sv i done xs)"
  proof (rule kl_run_steps)
    fix k now st d e l
    assume "k \<in> fst ` set xs" "Q (fst x) l"
    then show "Q (fst x) (set_step now i k st d e l)"
      using Cons.prems(4) step_complete_other [of l i "fst x" k] by (cases "k = fst x") (simp_all add: Q_def ledger_wf_writes)
  next
    fix y assume "y \<in> set xs"
    with Cons.prems(3) [of y] kQ [of y] show "keeps_ledger (Q (fst x)) (snd y)" by simp
  qed (simp add: Q_def ledger_wf_writes)
  then have "Q (fst x) (p_ledger s')"
    using keeps_ledgerD [where Q = "Q (fst x)" and s = t and m = "run_steps sv i done xs"] rest t by (simp add: Q_def)
  moreover have "ledger_wf (p_ledger s') \<and> (\<forall>x \<in> set xs. step_complete i (fst x) (p_ledger s')
    \<and> (fst x \<notin> set done \<longrightarrow> (\<exists>t d' t'. snd x t = (Inr (StepDone d'), t'))))"
    by (rule Cons.IH [OF rest]) (use t d Cons.prems(3,4) in auto)
  ultimately show ?case
    using t by (auto simp: Q_def)
qed

subsection \<open>An attempt\<close>

definition attempt_started ::
  "'w services \<Rightarrow> job_row \<Rightarrow> provision_request \<Rightarrow> string option \<times> string option \<Rightarrow> nat \<Rightarrow> 'w pstate \<Rightarrow> 'w pstate" where
  "attempt_started sv job req actor attempt s =
     (let s1 = s\<lparr>p_ledger := job_update_status (p_now sv s) (jb_id job) PROVISIONING None (p_ledger s)\<rparr>;
          s2 = snd (p_event sv ''PROVISIONING_STARTED'' actor (jb_id job) (jb_vm job) [(''attempt'', JNum (int attempt))] s1)
      in s2\<lparr>p_run := resume_runner req job s2\<rparr>)"

definition publish_end :: "'w services \<Rightarrow> job_row \<Rightarrow> int \<Rightarrow> ('w pstate, unit) comp" where
  "publish_end sv job n = progress sv (jb_id job) (JObj [(''vmId'', json_opt (jb_vm job)), (''progress'', JNum n)])"

lemma fail_job_snd: "fail_job sv job actor msg tell d s = (fst (fail_job sv job actor msg tell d s), snd (fail_job sv job actor msg tell d s))"
  by simp

lemma run_attempt_unfold:
  "run_attempt sv job req admin actor attempt s =
    (case attempt_body sv job req admin (completed_steps (p_ledger s) (jb_id job)) actor attempt
            (attempt_started sv job req actor attempt s) of
       (Inr (StepDone d), t) \<Rightarrow> (Inr Completed, t)
     | (Inr (StepLater m), t) \<Rightarrow> (Inr Reschedule, snd (publish_end sv job 55 t))
     | (Inl e, t) \<Rightarrow> (Inr Failed, snd (fail_job sv job actor (err_message e) (publish_end sv job 100)
           [(''attempt'', JNum (int attempt))] t)))"
proof -
  have p: "bind (p_event sv ev a i vm d) g s = g () (snd (p_event sv ev a i vm d s))" for ev a i vm d g s
    by (simp add: bind_def p_event_def modify_def)
  have r: "bind (set_run f) g s = g () (s\<lparr>p_run := f (p_run s)\<rparr>)" for f g s
    by (simp add: bind_def set_run_def modify_def)
  have f: "bind (fail_job sv job actor m (publish_end sv job n) d) (\<lambda>_. ret Failed) t =
      (Inr Failed, snd (fail_job sv job actor m (publish_end sv job n) d t))" for m n d t
    by (simp add: fail_job_def bind_on_ledger bind_def [of "publish_end sv job n"] publish_end_def progress_def modify_def
        p_event_def bind_def ret_def on_ledger_def)
  have b: "bind (publish_end sv job n) (\<lambda>_. ret Reschedule) t = (Inr Reschedule, snd (publish_end sv job n t))" for n t
    by (simp add: bind_def publish_end_def progress_def modify_def ret_def)
  show ?thesis
    unfolding run_attempt_def Let_def bind_on_ledger p bind_gets r publish_end_def [symmetric]
    by (simp add: try_catch_def f b attempt_started_def Let_def bind_def [of "attempt_body a1 a2 a3 a4 a5 a6 a7" for a1 a2 a3 a4 a5 a6 a7] ret_def
        split: prod.split sum.split step_result.split)
qed

end
