(* ===== verification/Worker_Runs.thy ===== *)
theory Worker_Runs
  imports Worker_Props
begin

text \<open>
  What the outcome of a run says of the job (\<open>runProvisioningJob\<close>), and what becomes of a job
  over all its deliveries (\<open>handleProvisioningOutcome\<close>).
\<close>

subsection \<open>The end of an attempt\<close>

lemma finish_job_run:
  "\<exists>t. finish_job sv i req actor s = (Inr (), t) \<and>
    p_ledger t = job_update_status (p_now sv s) i READY None (p_ledger s)"
  unfolding finish_job_def bind_on_ledger get_run_def bind_gets
  by (simp add: bind_def on_reg_def modify_def on_creds_def progress_def p_event_def ret_def split: option.split)

lemma resolve_again_ledger: "resolve_again sv req s = (r, t) \<Longrightarrow> p_ledger t = p_ledger s"
  using keeps_ledgerD [OF kl_resolve_again, of "\<lambda>l. l = p_ledger s"  s sv req] by simp

definition steps_then_finish ::
  "'w services \<Rightarrow> job_row \<Rightarrow> provision_request \<Rightarrow> job_step list \<Rightarrow> string option \<times> string option \<Rightarrow> nat \<Rightarrow> 'w step" where
  "steps_then_finish sv job req done actor attempt =
     bind (run_steps sv (jb_id job) done (pipeline_steps sv (jb_id job) req (jb_creator job) attempt)) (\<lambda>r.
     case r of
       StepLater m \<Rightarrow> ret (StepLater m)
     | StepDone d \<Rightarrow> bind (finish_job sv (jb_id job) req actor) (\<lambda>_. ret (StepDone d)))"

lemma bind_lift: "bind (lift_res r) g s = (case r of Inl e \<Rightarrow> (Inl e, s) | Inr x \<Rightarrow> g x s)"
  by (simp add: bind_def lift_res_def split: sum.split)

lemma bind_when: "bind (do_when b m) g s = (if b then bind m g s else g () s)"
  by (simp add: do_when_def bind_def ret_def)

lemma attempt_body_unfold:
  "attempt_body sv job req admin done actor attempt s =
    (case validate_provision_policy (p_settings s) (reg (p_app s)) (policy_of req) admin (jb_vm job) of
       Inl e \<Rightarrow> (Inl e, s)
     | Inr _ \<Rightarrow> if ru_template (p_run s) = None \<and> VALIDATE_PROXMOX_RESOURCES \<in> set done
         then bind (resolve_again sv req) (\<lambda>_. steps_then_finish sv job req done actor attempt) s
         else steps_then_finish sv job req done actor attempt s)"
  unfolding attempt_body_def get_run_def bind_gets bind_lift bind_when steps_then_finish_def [symmetric] ..

lemma attempt_body_InrD:
  assumes "attempt_body sv job req admin done actor attempt s = (Inr r, s')"
  shows "\<exists>t. p_ledger t = p_ledger s \<and> steps_then_finish sv job req done actor attempt t = (Inr r, s')"
  using assms resolve_again_ledger [of sv req s]
  by (auto simp: attempt_body_unfold bind_Inr_iff split: sum.splits if_splits)

lemma steps_then_finish_InrD:
  assumes "steps_then_finish sv job req done actor attempt t = (Inr r, s')"
  shows "\<exists>u. run_steps sv (jb_id job) done (pipeline_steps sv (jb_id job) req (jb_creator job) attempt) t = (Inr r, u)
     \<and> (case r of StepLater m \<Rightarrow> s' = u
        | StepDone d \<Rightarrow> p_ledger s' = job_update_status (p_now sv u) (jb_id job) READY None (p_ledger u))"
proof -
  obtain r' u where r: "run_steps sv (jb_id job) done (pipeline_steps sv (jb_id job) req (jb_creator job) attempt) t = (Inr r', u)"
    and k: "(case r' of StepLater m \<Rightarrow> ret (StepLater m)
       | StepDone d \<Rightarrow> bind (finish_job sv (jb_id job) req actor) (\<lambda>_. ret (StepDone d))) u = (Inr r, s')"
    using assms unfolding steps_then_finish_def bind_Inr_iff by blast
  show ?thesis
    using r k finish_job_run [of sv "jb_id job" req actor u]
    by (cases r') (auto simp: ret_def bind_def)
qed

subsection \<open>What the outcome says of the job\<close>

lemma pipeline_step_complete:
  assumes "run_steps sv i (completed_steps l i) (pipeline_steps sv i req creator attempt) t = (Inr (StepDone d), u)"
    and "ledger_wf l" and "p_ledger t = job_update_status now i st e l"
  shows "\<forall>k \<in> set JOB_STEPS. step_complete i k (p_ledger u)"
proof -
  have k: "step_complete i k (p_ledger t)" if "k \<in> set (completed_steps l i)" for k
    using that in_completed_steps [OF assms(2), of k i] assms(3) by (auto simp: step_complete_def)
  have "\<forall>x \<in> set (pipeline_steps sv i req creator attempt). step_complete i (fst x) (p_ledger u)"
    using run_steps_done [OF assms(1) _ harmless_pipeline _ k] assms(2,3)
    by (auto simp: ledger_wf_writes pipeline_keys [unfolded JOB_STEPS_def] )
  then show ?thesis
    using pipeline_keys [of sv i req creator attempt] by (metis (no_types) imageE list.set_map)
qed

lemma attempt_started_ledger:
  "p_ledger (attempt_started sv job req actor attempt s) = job_update_status (p_now sv s) (jb_id job) PROVISIONING None (p_ledger s)"
  by (simp add: attempt_started_def Let_def p_event_def modify_def)

lemma fail_job_ledger:
  assumes "\<And>Q. keeps_ledger Q tell"
  shows "p_ledger (snd (fail_job sv job actor msg tell d s)) =
    job_update_status (p_now sv s) (jb_id job) FAILED (Some msg) (p_ledger s)"
  unfolding fail_job_def bind_on_ledger
  by (rule keeps_ledgerD [where Q = "\<lambda>l. l = job_update_status (p_now sv s) (jb_id job) FAILED (Some msg) (p_ledger s)"])
    (intro kl assms, simp)

lemma kl_publish_end [kl]: "keeps_ledger Q (publish_end sv job n)"
  unfolding publish_end_def by (intro kl)

text \<open>What the ledger says of a job after an outcome.\<close>

fun outcome_shown :: "run_outcome \<Rightarrow> ledger \<Rightarrow> string \<Rightarrow> bool" where
  "outcome_shown Completed l i \<longleftrightarrow> job_status_of l i = Some READY \<and> (\<forall>k \<in> set JOB_STEPS. step_complete i k l)"
| "outcome_shown Reschedule l i \<longleftrightarrow> job_status_of l i = Some WAITING_FOR_GUEST"
| "outcome_shown Failed l i \<longleftrightarrow> job_status_of l i = Some FAILED \<or> job_status_of l i = Some CANCELLED"
| "outcome_shown Skipped l i \<longleftrightarrow> job_status_of l i = Some READY"

lemma run_attempt_outcome:
  assumes "job_exists (jb_id job) (p_ledger s)" "ledger_wf (p_ledger s)"
  shows "\<exists>r. fst (run_attempt sv job req admin actor attempt s) = Inr r
    \<and> outcome_shown r (p_ledger (snd (run_attempt sv job req admin actor attempt s))) (jb_id job)"
proof -
  let ?s = "attempt_started sv job req actor attempt s" and ?i = "jb_id job"
  let ?done = "completed_steps (p_ledger s) ?i"
  obtain x t where b: "attempt_body sv job req admin ?done actor attempt ?s = (x, t)"
    by (cases "attempt_body sv job req admin ?done actor attempt ?s")
  have ex: "job_exists ?i (p_ledger ?s)" "job_exists ?i (p_ledger t)"
  proof -
    show *: "job_exists ?i (p_ledger ?s)" using assms(1) by (simp add: attempt_started_ledger)
    have "job_exists ?i (p_ledger (snd (attempt_body sv job req admin ?done actor attempt ?s)))"
      by (rule keeps_ledgerD [where Q = "job_exists ?i"]) (rule kl_attempt_body, simp_all add: *)
    with b show "job_exists ?i (p_ledger t)" by simp
  qed
  consider (ready) d where "x = Inr (StepDone d)" | (later) m where "x = Inr (StepLater m)" | (fail) e where "x = Inl e"
    by (metis sum.exhaust step_result.exhaust)
  then show ?thesis
  proof cases
    case ready
    from attempt_body_InrD [OF b [unfolded ready]] obtain t0 where t0: "p_ledger t0 = p_ledger ?s"
      and sf: "steps_then_finish sv job req ?done actor attempt t0 = (Inr (StepDone d), t)" by blast
    from steps_then_finish_InrD [OF sf] obtain u
      where u: "run_steps sv ?i ?done (pipeline_steps sv ?i req (jb_creator job) attempt) t0 = (Inr (StepDone d), u)"
      and t: "p_ledger t = job_update_status (p_now sv u) ?i READY None (p_ledger u)" by auto
    have "\<forall>k \<in> set JOB_STEPS. step_complete ?i k (p_ledger u)"
      by (rule pipeline_step_complete [OF u assms(2)]) (simp add: t0 attempt_started_ledger)
    moreover have "job_exists ?i (p_ledger u)" using ex(2) t by simp
    ultimately show ?thesis
      using b ready t by (simp add: run_attempt_unfold)
  next
    case later
    from attempt_body_InrD [OF b [unfolded later]] obtain t0 where t0: "p_ledger t0 = p_ledger ?s"
      and sf: "steps_then_finish sv job req ?done actor attempt t0 = (Inr (StepLater m), t)" by blast
    from steps_then_finish_InrD [OF sf] have
      "run_steps sv ?i ?done (pipeline_steps sv ?i req (jb_creator job) attempt) t0 = (Inr (StepLater m), t)" by auto
    moreover have "job_exists ?i (p_ledger t0)" using ex(1) t0 by simp
    ultimately have "\<exists>y \<in> set (pipeline_steps sv ?i req (jb_creator job) attempt).
        \<not> no_later (snd y) \<and> job_status_of (p_ledger t) ?i = Some (step_status (fst y))"
      by (rule run_steps_later) (rule harmless_pipeline)
    then obtain y where y: "y \<in> set (pipeline_steps sv ?i req (jb_creator job) attempt)" "\<not> no_later (snd y)"
      "job_status_of (p_ledger t) ?i = Some (step_status (fst y))" by blast
    then have "job_status_of (p_ledger t) ?i = Some WAITING_FOR_GUEST"
      using later_steps [OF y(1)] by simp
    then show ?thesis
      using b later keeps_ledgerD [where Q = "\<lambda>l. job_status_of l ?i = Some WAITING_FOR_GUEST", OF kl_publish_end]
      by (simp add: run_attempt_unfold)
  next
    case fail
    then show ?thesis
      using b ex(2) by (simp add: run_attempt_unfold fail_job_ledger kl)
  qed
qed

text \<open>C14. An outcome is what the ledger shows. \<open>completed\<close> means that the job is READY and
  that all eleven steps have succeeded or been skipped, \<open>reschedule\<close> that it waits for the
  guest, \<open>failed\<close> that it is FAILED or was cancelled, \<open>skipped\<close> that it was READY. A run
  throws only when there is no such job or when the password of a job that has not ended does
  not decrypt, and has changed nothing then.\<close>

theorem outcome_matches_job:
  assumes "ledger_wf (p_ledger s)"
  shows "case run_provisioning_job sv i attempt s of
      (Inr r, s') \<Rightarrow> outcome_shown r (p_ledger s') i
    | (Inl e, s') \<Rightarrow> s' = s \<and> (job_require (p_ledger s) i = Inl e \<or>
        (\<exists>job. job_require (p_ledger s) i = Inr job \<and> \<not> terminal (jb_status job)
           \<and> sv_decrypt sv (rq_password (jb_request job)) = Inl e))"
proof (cases "job_require (p_ledger s) i")
  case (Inr job)
  then have job: "job_by_id i (jobs (p_ledger s)) = Some job" "jb_id job = i"
    using job_requireD by blast+
  then have ex: "job_exists (jb_id job) (p_ledger s)" and st: "job_status_of (p_ledger s) i = Some (jb_status job)"
    by (simp_all add: job_exists_def job_status_of_def)
  have a: "\<exists>r. y = Inr r \<and> outcome_shown r (p_ledger t) i"
    if "run_attempt sv job req admin actor attempt s = (y, t)" for req admin actor y t
    using run_attempt_outcome [OF ex assms, of sv req admin actor attempt] job(2) that by auto
  show ?thesis
    using Inr st ex unfolding job(2)
    by (auto simp: run_job_unfold terminal_def fail_job_ledger kl job(2) split: sum.splits prod.splits if_splits dest!: a)
qed (simp add: run_job_unfold)

lemma outcome_matches_job_witness:
  "case run_provisioning_job (demo_services True) demo_job 0 (demo_state True) of
     (Inr r, s') \<Rightarrow> outcome_shown r (p_ledger s') demo_job | (Inl e, s') \<Rightarrow> s' = demo_state True"
  using outcome_matches_job [OF demo_wf [of True], where sv = "demo_services True" and i = demo_job and attempt = 0]
  by (auto split: prod.splits sum.splits)

subsection \<open>All deliveries of a job\<close>

text \<open>
  The queue delivers the payload of an attempt; when its consumer asks to reschedule, the
  payload of the next attempt follows. Between two deliveries \<open>others\<close> stands for whatever the
  rest of the system does. The result is the last outcome, the state and the last attempt.
  Attempts are bounded by \<open>MAX_WAIT_ATTEMPTS\<close>, which is the measure of the recursion.
\<close>

definition payload :: "string \<Rightarrow> nat \<Rightarrow> json" where
  "payload i attempt = JObj [(''jobDbId'', JStr i), (''attempt'', JNum (int attempt))]"

lemma payload_valid: "validate_queue_payload (payload i attempt) = (if is_uuid i then Some (i, attempt) else None)"
  by (simp add: validate_queue_payload_def payload_def)

lemma consume_payload:
  "is_uuid i \<Longrightarrow> consume sv (payload i attempt) = bind (run_provisioning_job sv i attempt) (handle_provisioning_outcome sv i attempt)"
  by (simp add: consume_def payload_valid)

lemma handle_reschedule_bound:
  "handle_provisioning_outcome sv i attempt r s = (Inr Reschedule, t) \<Longrightarrow> Suc attempt < MAX_WAIT_ATTEMPTS"
  by (auto simp: handle_provisioning_outcome_def bind_def ret_def split: if_splits prod.splits sum.splits)

lemma consume_reschedule_bound:
  "consume sv (payload i attempt) s = (Inr Reschedule, t) \<Longrightarrow> Suc attempt < MAX_WAIT_ATTEMPTS"
  by (cases "is_uuid i")
    (auto simp: consume_payload bind_Inr_iff handle_reschedule_bound, auto simp: consume_def payload_valid ret_def bind_def
      split: prod.splits sum.splits json.splits)

function deliveries ::
  "'w services \<Rightarrow> string \<Rightarrow> (nat \<Rightarrow> 'w pstate \<Rightarrow> 'w pstate) \<Rightarrow> nat \<Rightarrow> 'w pstate \<Rightarrow> run_outcome res \<times> 'w pstate \<times> nat" where
  "deliveries sv i others attempt s =
     (case consume sv (payload i attempt) s of
        (r, t) \<Rightarrow> if r = Inr Reschedule then deliveries sv i others (Suc attempt) (others attempt t) else (r, t, attempt))"
  by pat_completeness auto
termination
  by (relation "measure (\<lambda>(sv, i, others, attempt, s). MAX_WAIT_ATTEMPTS - attempt)")
    (auto dest: consume_reschedule_bound [OF sym])

declare deliveries.simps [simp del]

lemma bind_give_up: "bind (give_up sv i msg d) g s = g () (snd (give_up sv i msg d s))"
  by (simp add: give_up_def bind_def on_ledger_def p_event_def modify_def)

lemma give_up_ledger:
  "p_ledger (snd (give_up sv i msg d s)) = job_update_status (p_now sv s) i FAILED (Some msg) (p_ledger s)"
  unfolding give_up_def bind_on_ledger by (simp add: p_event_def modify_def)

text \<open>What the handler does with a request to reschedule.\<close>

lemma handle_reschedule:
  assumes "handle_provisioning_outcome sv i attempt Reschedule s = (x, t)"
  shows "x = Inr Reschedule \<and> p_ledger t = p_ledger s
    \<or> (x = Inr Failed \<or> (\<exists>e. x = Inl e)) \<and>
      (\<exists>now msg. p_ledger t = job_update_status now i FAILED (Some msg) (p_ledger s))"
proof (cases "attempt + 1 \<ge> MAX_WAIT_ATTEMPTS")
  case True
  with assms show ?thesis
    by (auto simp: handle_provisioning_outcome_def bind_give_up give_up_ledger ret_def) blast+
next
  case False
  obtain y u where y: "world_call (sv_enqueue sv (queue_job_id i (attempt + 1)) i (attempt + 1) WAIT_RECHECK_DELAY_MS) s = (y, u)"
    by (cases "world_call (sv_enqueue sv (queue_job_id i (attempt + 1)) i (attempt + 1) WAIT_RECHECK_DELAY_MS) s")
  have u: "p_ledger u = p_ledger s"
    using keeps_ledgerD [where Q = "\<lambda>l. l = p_ledger s" and s = s, OF kl_basic(5)] y by (metis snd_conv)
  show ?thesis
  proof (cases y)
    case (Inr v)
    with assms False y u show ?thesis
      by (auto simp: handle_provisioning_outcome_def try_catch_def bind_def [of "world_call m" for m] ret_def)
  next
    case (Inl e)
    with assms False y u show ?thesis
      by (auto simp: handle_provisioning_outcome_def try_catch_def bind_def [of "world_call m" for m] bind_give_up
          give_up_ledger throw_def) blast+
  qed
qed

definition job_ready_to_run :: "string \<Rightarrow> ledger \<Rightarrow> bool" where
  "job_ready_to_run i l \<longleftrightarrow> ledger_wf l \<and> job_exists i l"

lemma run_job_ready:
  "job_ready_to_run i (p_ledger s) \<Longrightarrow> job_ready_to_run i (p_ledger (snd (run_provisioning_job sv i attempt s)))"
  by (rule kl_run_job) (simp_all add: job_ready_to_run_def ledger_wf_writes)

text \<open>What one delivery leaves behind.\<close>

definition undecryptable :: "'w services \<Rightarrow> string \<Rightarrow> ledger \<Rightarrow> bool" where
  "undecryptable sv i l \<longleftrightarrow>
     (\<exists>job e. job_by_id i (jobs l) = Some job \<and> sv_decrypt sv (rq_password (jb_request job)) = Inl e)"

lemma job_require_exists: "is_uuid i \<Longrightarrow> job_exists i l \<Longrightarrow> \<exists>job. job_require l i = Inr job"
  by (auto simp: job_require_def job_get_def job_exists_def)

lemma consume_outcome:
  assumes u: "is_uuid i" and ok: "job_ready_to_run i (p_ledger s)" and c: "consume sv (payload i attempt) s = (x, t)"
  shows "job_ready_to_run i (p_ledger t) \<and> (case x of
      Inr r \<Rightarrow> outcome_shown r (p_ledger t) i
    | Inl e \<Rightarrow> job_status_of (p_ledger t) i = Some FAILED \<or> undecryptable sv i (p_ledger t))"
proof -
  obtain y v where y: "run_provisioning_job sv i attempt s = (y, v)"
    by (cases "run_provisioning_job sv i attempt s")
  have v: "job_ready_to_run i (p_ledger v)"
    using run_job_ready [OF ok, of sv attempt] y by simp
  have m: "case y of Inr r \<Rightarrow> outcome_shown r (p_ledger v) i | Inl e \<Rightarrow> v = s \<and> undecryptable sv i (p_ledger s)"
    using outcome_matches_job [where s = s and sv = sv and i = i and attempt = attempt] ok y job_require_exists [OF u, of "p_ledger s"]
    by (auto simp: job_ready_to_run_def undecryptable_def split: sum.splits dest: job_requireD)
  show ?thesis
  proof (cases y)
    case (Inl e)
    with c m y v show ?thesis by (auto simp: consume_payload [OF u] bind_def)
  next
    case (Inr r)
    then have h: "handle_provisioning_outcome sv i attempt r v = (x, t)"
      using c y by (simp add: consume_payload [OF u] bind_def)
    show ?thesis
    proof (cases "r = Reschedule")
      case False
      with h have "x = Inr r" "t = v" by (simp_all add: handle_provisioning_outcome_def ret_def)
      with m v Inr show ?thesis by simp
    next
      case True
      with handle_reschedule [of sv i attempt v x t] h m v Inr show ?thesis
        by (auto simp: job_ready_to_run_def ledger_wf_writes)
    qed
  qed
qed

text \<open>C13. Every job ends. From any attempt, whatever services answer and whatever the rest of the
  system does between two deliveries, as long as it does not delete the job, there are fewer
  than thirty attempts after the first and the last delivery does not ask for another. The job
  is then READY, FAILED or CANCELLED, as its outcome says, except when the stored password of
  the job does not decrypt: such a run throws and the job stays as it was.\<close>

theorem job_always_ends:
  assumes "is_uuid i" and "job_ready_to_run i (p_ledger s)"
    and "\<And>n t. job_ready_to_run i (p_ledger t) \<Longrightarrow> job_ready_to_run i (p_ledger (others n t))"
  shows "case deliveries sv i others attempt s of (x, t, n) \<Rightarrow>
     n < max MAX_WAIT_ATTEMPTS (Suc attempt) \<and> (case x of
       Inr r \<Rightarrow> r \<noteq> Reschedule \<and> outcome_shown r (p_ledger t) i
         \<and> (\<exists>st. job_status_of (p_ledger t) i = Some st \<and> terminal st)
     | Inl e \<Rightarrow> job_status_of (p_ledger t) i = Some FAILED \<or> undecryptable sv i (p_ledger t))"
  using assms
proof (induction sv i others attempt s rule: deliveries.induct)
  case (1 sv i others attempt s)
  obtain x t where c: "consume sv (payload i attempt) s = (x, t)"
    by (cases "consume sv (payload i attempt) s")
  have o: "job_ready_to_run i (p_ledger t)" "case x of
      Inr r \<Rightarrow> outcome_shown r (p_ledger t) i
    | Inl e \<Rightarrow> job_status_of (p_ledger t) i = Some FAILED \<or> undecryptable sv i (p_ledger t)"
    using consume_outcome [OF 1(2,3) c] by blast+
  show ?case
  proof (cases "x = Inr Reschedule")
    case True
    have "max MAX_WAIT_ATTEMPTS (Suc (Suc attempt)) = max MAX_WAIT_ATTEMPTS (Suc attempt)"
      using consume_reschedule_bound [of sv i attempt s t] c True by simp
    with 1(1) [OF c [symmetric] True 1(2) 1(4) [OF o(1)] 1(4)] c True show ?thesis
      by (simp add: deliveries.simps [of sv i others attempt])
  next
    case False
    have t: "\<exists>st. job_status_of (p_ledger t) i = Some st \<and> terminal st"
      if "x = Inr r" "r \<noteq> Reschedule" for r
      using o(2) that by (cases r) (auto simp: terminal_def)
    show ?thesis
      using c False o(2) t by (cases x) (auto simp: deliveries.simps [of sv i others attempt] max_def)
  qed
qed

lemma job_always_ends_witness:
  "case deliveries (demo_services False) demo_job (\<lambda>n t. t) 0 (demo_state True) of
     (x, t, n) \<Rightarrow> n < 30 \<and> (\<exists>st. job_status_of (p_ledger t) demo_job = Some st \<and> terminal st)"
proof -
  have "job_ready_to_run demo_job (p_ledger (demo_state True))"
    using demo_wf job_requireD [OF demo_require] by (simp add: job_ready_to_run_def job_exists_def)
  moreover have "\<not> undecryptable (demo_services False) demo_job l" for l
    by (simp add: undecryptable_def demo_services_def)
  ultimately show ?thesis
    using job_always_ends [OF demo_uuid, where s = "demo_state True" and others = "\<lambda>n t. t"
        and sv = "demo_services False" and attempt = 0]
    by (auto simp: MAX_WAIT_ATTEMPTS_def terminal_def split: prod.splits sum.splits)
qed

end
