(* ===== verification/Worker_Gate.thy ===== *)
theory Worker_Gate
  imports Worker_Runs
begin

text \<open>
  The re-authorization at execution time, the choice of a VMID, and what the worker's verdicts
  do not mean.
\<close>

subsection \<open>Who may have a job run\<close>

definition creator_holds :: "app_db \<Rightarrow> time \<Rightarrow> user_with_roles \<Rightarrow> string \<Rightarrow> string \<Rightarrow> bool" where
  "creator_holds db now c uid p \<longleftrightarrow>
     (\<exists>r \<in> set (u_roles c). p \<in> set (permissions_for_role r)) \<or> (\<exists>src. grants_permission (db_iam db) now uid p src)"

text \<open>The job names an active creator who, now, may create VMs, is within quota, and may edit VMs if
  the job hands out access.\<close>

definition re_authorized :: "app_db \<Rightarrow> ledger \<Rightarrow> time \<Rightarrow> job_row \<Rightarrow> bool" where
  "re_authorized db l now job \<longleftrightarrow>
     (\<exists>uid c. jb_creator job = Some uid \<and> uid \<noteq> [] \<and> find_user db now uid = Some c \<and> u_active c
        \<and> creator_holds db now c uid ''vm.create''
        \<and> (rq_assign (jb_request job) \<noteq> [] \<longrightarrow> creator_holds db now c uid ''vm.edit'')
        \<and> (\<forall>q. get_user_quota db uid = Some q \<longrightarrow> int (count_provision_load (reg db) l now uid) \<le> q))"

definition policy_exempt :: "app_db \<Rightarrow> time \<Rightarrow> job_row \<Rightarrow> bool" where
  "policy_exempt db now job \<longleftrightarrow>
     (\<exists>uid c. jb_creator job = Some uid \<and> find_user db now uid = Some c
        \<and> (ADMIN \<in> set (u_roles c) \<or> ''ADMIN'' \<in> set (eff_roles (resolve_effective_access (db_iam db) now uid))))"

lemma may_iff:
  "may db now uid creator p \<longleftrightarrow> (\<exists>c. creator = Some c \<and> u_active c \<and> creator_holds db now c uid p)"
  by (cases creator) (auto simp: may_def creator_holds_def has_permission_def resolve_has_iff list_ex_iff)

lemma execution_check_authorized:
  "re_authorized db l now job \<Longrightarrow> execution_check db l now job = Inr (policy_exempt db now job)"
  by (auto simp: re_authorized_def policy_exempt_def execution_check_def may_iff Let_def truthy_def is_admin_def
      split: option.splits)

lemma execution_check_refused:
  "\<not> re_authorized db l now job \<Longrightarrow> \<exists>reason. execution_check db l now job = Inl reason"
  by (cases "jb_creator job"; cases "find_user db now (the (jb_creator job))")
    (auto simp: re_authorized_def execution_check_def may_iff Let_def truthy_def split: option.splits)

subsection \<open>Nothing happens before the gate\<close>

text \<open>All that a run changed is the ledger, the audit log and a progress message.\<close>

definition only_recorded :: "'w services \<Rightarrow> string \<Rightarrow> 'w pstate \<Rightarrow> 'w pstate \<Rightarrow> bool" where
  "only_recorded sv i s t \<longleftrightarrow> p_app t = p_app s \<and> p_creds t = p_creds s \<and> p_templates t = p_templates s
     \<and> p_guac t = p_guac s \<and> p_settings t = p_settings s
     \<and> (p_world t = p_world s \<or> (\<exists>d. p_world t = sv_publish sv i d (p_world s)))"

lemma only_recorded_refl [simp]: "only_recorded sv i s s"
  by (simp add: only_recorded_def)

lemma only_recorded_fail_job:
  "only_recorded sv (jb_id job) s (snd (fail_job sv job actor msg (ret ()) d s))"
  "only_recorded sv (jb_id job) s (snd (fail_job sv job actor msg (publish_end sv job n) d s))"
  by (auto simp: only_recorded_def fail_job_def on_ledger_def ret_def p_event_def modify_def bind_def publish_end_def
      progress_def)

lemma attempt_started_fields:
  "p_app (attempt_started sv job req actor attempt s) = p_app s"
  "p_creds (attempt_started sv job req actor attempt s) = p_creds s"
  "p_templates (attempt_started sv job req actor attempt s) = p_templates s"
  "p_guac (attempt_started sv job req actor attempt s) = p_guac s"
  "p_settings (attempt_started sv job req actor attempt s) = p_settings s"
  "p_world (attempt_started sv job req actor attempt s) = p_world s"
  by (simp_all add: attempt_started_def Let_def p_event_def modify_def)

lemma policy_of_password [simp]: "policy_of (req\<lparr>rq_password := pw\<rparr>) = policy_of req"
  by (simp add: policy_of_def)

lemma run_attempt_refused:
  assumes "validate_provision_policy (p_settings s) (reg (p_app s)) (policy_of req) admin (jb_vm job) = Inl e"
  shows "fst (run_attempt sv job req admin actor attempt s) = Inr Failed
    \<and> only_recorded sv (jb_id job) s (snd (run_attempt sv job req admin actor attempt s))"
proof -
  let ?s = "attempt_started sv job req actor attempt s"
  have "attempt_body sv job req admin c actor attempt ?s = (Inl e, ?s)" for c
    using assms by (simp add: attempt_body_unfold attempt_started_fields)
  then have "run_attempt sv job req admin actor attempt s =
      (Inr Failed, snd (fail_job sv job actor (err_message e) (publish_end sv job 100) [(''attempt'', JNum (int attempt))] ?s))"
    by (simp add: run_attempt_unfold)
  then show ?thesis
    using only_recorded_fail_job(2) [of sv job ?s actor "err_message e" 100]
    by (simp add: only_recorded_def attempt_started_fields)
qed

lemma run_job_refused:
  assumes "job_require (p_ledger s) i = Inr job" "\<not> terminal (jb_status job)"
    and "\<not> re_authorized (p_app s) (p_ledger s) (p_now sv s) job"
  shows "\<exists>reason d. run_provisioning_job sv i attempt s =
    (Inr Failed, snd (fail_job sv job (jb_creator job, None) reason (ret ()) d s))"
  using assms(1,2) execution_check_refused [OF assms(3)] by (auto simp: run_job_unfold terminal_def) blast+

text \<open>C15. Nothing is touched without authorization. A run that changes accounts, VMs, grants,
  credentials, templates, the Guacamole database or the outside world (but for one progress
  message) had, at that moment, a job that has not ended, an active creator who still may
  create VMs, still may edit them if the job hands out access, and is within quota, and a request
  that the provisioning policy accepts or a creator exempt from it. A job that has not ended and
  fails the authorization ends as FAILED with a reason, and the refusal is in the audit log.\<close>

theorem execution_gate:
  assumes "job_require (p_ledger s) i = Inr job"
  shows "let (x, t) = run_provisioning_job sv i attempt s in
    (\<not> only_recorded sv i s t \<longrightarrow> \<not> terminal (jb_status job)
       \<and> re_authorized (p_app s) (p_ledger s) (p_now sv s) job
       \<and> validate_provision_policy (p_settings s) (reg (p_app s)) (policy_of (jb_request job))
           (policy_exempt (p_app s) (p_now sv s) job) (jb_vm job) = Inr ())
    \<and> (\<not> terminal (jb_status job) \<and> \<not> re_authorized (p_app s) (p_ledger s) (p_now sv s) job
       \<longrightarrow> x = Inr Failed
         \<and> (\<exists>reason. p_ledger t = job_update_status (p_now sv s) i FAILED (Some reason) (p_ledger s))
         \<and> (\<exists>e. p_audit t = p_audit s @ [(p_now sv s, e)] \<and> au_event e = ''PROVISIONING_FAILED'' \<and> au_job e = Some i))"
proof -
  have i: "jb_id job = i" using job_requireD [OF assms] by blast
  obtain x t where r: "run_provisioning_job sv i attempt s = (x, t)"
    by (cases "run_provisioning_job sv i attempt s")
  have refused: "x = Inr Failed \<and> only_recorded sv i s t
      \<and> (\<exists>reason. p_ledger t = job_update_status (p_now sv s) i FAILED (Some reason) (p_ledger s))
      \<and> (\<exists>e. p_audit t = p_audit s @ [(p_now sv s, e)] \<and> au_event e = ''PROVISIONING_FAILED'' \<and> au_job e = Some i)"
    if "\<not> terminal (jb_status job)" "\<not> re_authorized (p_app s) (p_ledger s) (p_now sv s) job"
    using run_job_refused [OF assms that, of attempt] r i
    by (auto simp: only_recorded_def fail_job_def on_ledger_def ret_def p_event_def modify_def bind_def audit_record_def
        p_now_def)
  have "only_recorded sv i s t" if "terminal (jb_status job)"
    using assms that r by (auto simp: run_job_unfold terminal_def)
  moreover have "only_recorded sv i s t"
    if "\<not> terminal (jb_status job)" "re_authorized (p_app s) (p_ledger s) (p_now sv s) job"
      "validate_provision_policy (p_settings s) (reg (p_app s)) (policy_of (jb_request job))
         (policy_exempt (p_app s) (p_now sv s) job) (jb_vm job) = Inl e" for e
  proof -
    have a: "only_recorded sv i s u"
      if "run_attempt sv job ((jb_request job)\<lparr>rq_password := pw\<rparr>) (policy_exempt (p_app s) (p_now sv s) job) actor attempt s = (y, u)"
      for pw actor y u
      using run_attempt_refused [of s "(jb_request job)\<lparr>rq_password := pw\<rparr>"
            "policy_exempt (p_app s) (p_now sv s) job" job e sv actor attempt]
        \<open>validate_provision_policy _ _ _ _ _ = Inl e\<close> that i by simp
    show ?thesis
      using assms that(1) r execution_check_authorized [OF that(2)]
      by (auto simp: run_job_unfold terminal_def split: sum.splits if_splits dest: a)
  qed
  ultimately show ?thesis
    using r refused by (cases "validate_provision_policy (p_settings s) (reg (p_app s)) (policy_of (jb_request job))
         (policy_exempt (p_app s) (p_now sv s) job) (jb_vm job)") auto
qed

lemma demo_refused:
  "execution_check (p_app (demo_state False)) (p_ledger (demo_state False)) (p_now (demo_services True) (demo_state False)) demo_row
   = Inl ''creator no longer authorized to provision''"
  by code_simp

lemma execution_gate_witness:
  "fst (run_provisioning_job (demo_services True) demo_job 0 (demo_state False)) = Inr Failed"
proof -
  have "\<not> re_authorized (p_app (demo_state False)) (p_ledger (demo_state False)) (p_now (demo_services True) (demo_state False)) demo_row"
    using execution_check_authorized demo_refused by force
  moreover have "\<not> terminal (jb_status demo_row)"
    by (simp add: demo_row_def terminal_def)
  ultimately show ?thesis
    using execution_gate [OF demo_require [of False], where sv = "demo_services True" and attempt = 0]
    by (auto simp: Let_def split: prod.splits)
qed

subsection \<open>The VMID of a clone\<close>

text \<open>The VMID asked for, or the first free one of a thousand from what Proxmox proposes.\<close>

definition vmid_choice :: "'w services \<Rightarrow> provision_request \<Rightarrow> 'w pstate \<Rightarrow> int \<Rightarrow> bool" where
  "vmid_choice sv req s v \<longleftrightarrow>
     (v \<noteq> 0 \<and> rq_vmid req = Some v) \<or>
     (\<exists>proposed w. sv_next_vmid sv (p_world s) = (Inr proposed, w)
        \<and> v \<notin> set (list_vmids_by_node (reg (p_app s)) (ru_node (p_run s)))
        \<and> proposed \<le> v \<and> v < proposed + 1000
        \<and> (v \<noteq> proposed \<longrightarrow> (\<exists>rs w'. sv_resources sv w = (Inr rs, w') \<and> v \<notin> pr_vmid ` set rs
             \<and> (\<forall>u. proposed \<le> u \<and> u < v \<longrightarrow>
                  u \<in> set (list_vmids_by_node (reg (p_app s)) (ru_node (p_run s))) \<or> u \<in> pr_vmid ` set rs))))"

lemma world_call_Inr_iff: "world_call m s = (Inr x, t) \<longleftrightarrow> (\<exists>w. m (p_world s) = (Inr x, w) \<and> t = s\<lparr>p_world := w\<rparr>)"
  by (auto simp: world_call_def split: prod.splits)

lemma choose_vmid_run:
  assumes "choose_vmid sv req s = (Inr v, t)"
  shows "vmid_choice sv req s v \<and> (\<exists>w. t = s\<lparr>p_world := w\<rparr>)"
proof (cases "rq_vmid req \<noteq> None \<and> rq_vmid req \<noteq> Some 0")
  case True
  with assms have "t = s \<and> rq_vmid req = Some v \<and> v \<noteq> 0" by (auto simp: choose_vmid_def ret_def)
  moreover have "s = s\<lparr>p_world := p_world s\<rparr>" by simp
  ultimately show ?thesis unfolding vmid_choice_def by metis
next
  case False
  define taken where "taken = list_vmids_by_node (reg (p_app s)) (ru_node (p_run s))"
  obtain n w where n: "sv_next_vmid sv (p_world s) = (Inr n, w)"
    and r: "bind (gets (\<lambda>s. list_vmids_by_node (reg (p_app s)) (ru_node (p_run s)))) (\<lambda>taken.
      if n \<notin> set taken then ret n else
      bind (world_call (sv_resources sv)) (\<lambda>rs. bind get_run (\<lambda>ru.
      case next_free VMID_ATTEMPTS (\<lambda>x. x \<in> set taken \<or> x \<in> pr_vmid ` set rs) n of
        None \<Rightarrow> throw (err_conflict (''No free VM ID found on node '' @ ru_node ru @ '' after 1000 attempts.''))
      | Some w \<Rightarrow> ret w))) (s\<lparr>p_world := w\<rparr>) = (Inr v, t)"
    using assms unfolding choose_vmid_def if_not_P [OF False] bind_Inr_iff [where m = "world_call m" for m] world_call_Inr_iff
    by blast
  have t: "list_vmids_by_node (reg (p_app (s\<lparr>p_world := w\<rparr>))) (ru_node (p_run (s\<lparr>p_world := w\<rparr>))) = taken"
    by (simp add: taken_def)
  have r: "(if n \<notin> set taken then ret n else
      bind (world_call (sv_resources sv)) (\<lambda>rs. bind get_run (\<lambda>ru.
      case next_free VMID_ATTEMPTS (\<lambda>x. x \<in> set taken \<or> x \<in> pr_vmid ` set rs) n of
        None \<Rightarrow> throw (err_conflict (''No free VM ID found on node '' @ ru_node ru @ '' after 1000 attempts.''))
      | Some w \<Rightarrow> ret w))) (s\<lparr>p_world := w\<rparr>) = (Inr v, t)"
    using r unfolding bind_gets t .
  show ?thesis
  proof (cases "n \<in> set taken")
    case False
    with r have "v = n \<and> t = s\<lparr>p_world := w\<rparr>" by (simp add: ret_def)
    with n False show ?thesis by (auto simp: vmid_choice_def taken_def)
  next
    case True
    then obtain rs w' where rs: "sv_resources sv w = (Inr rs, w')" "t = s\<lparr>p_world := w'\<rparr>"
      "next_free VMID_ATTEMPTS (\<lambda>x. x \<in> set taken \<or> x \<in> pr_vmid ` set rs) n = Some v"
      using r by (auto simp: bind_Inr_iff world_call_Inr_iff get_run_def gets_Inr_iff ret_def throw_def
          simp del: next_free.simps split: option.splits)
    then have "n \<le> v \<and> v < n + 1000 \<and> v \<notin> set taken \<and> v \<notin> pr_vmid ` set rs
        \<and> (\<forall>u. n \<le> u \<and> u < v \<longrightarrow> u \<in> set taken \<or> u \<in> pr_vmid ` set rs)"
      unfolding next_free_Some VMID_ATTEMPTS_def by auto
    with n rs show ?thesis
      unfolding vmid_choice_def taken_def by blast
  qed
qed

lemma find_or_create_new:
  assumes "find_or_create now nid inp db = (Inr vm, db')" "find_by_id_key db (cv_vmid inp) (cv_node inp) = None"
  shows "vm = new_vm_row now nid inp \<and> vms db' = vms db @ [vm] \<and> cv_vmid inp \<notin> set (list_vmids_by_node db (cv_node inp))"
  using assms
  by (auto simp: find_or_create_def vms_create_def throw_def list_ex_iff list_vmids_by_node_def occupies_def
      split: if_splits)

lemma on_reg_Inr_iff:
  "on_reg m s = (Inr x, t) \<longleftrightarrow> (\<exists>d. m (reg (p_app s)) = (Inr x, d) \<and> t = s\<lparr>p_app := (p_app s)\<lparr>reg := d\<rparr>\<rparr>)"
  by (auto simp: on_reg_def split: prod.splits)

lemma bind_set_run: "bind (set_run f) g s = g () (s\<lparr>p_run := f (p_run s)\<rparr>)"
  by (simp add: bind_def set_run_def modify_def)

definition clone_request :: "provision_request \<Rightarrow> template_row \<Rightarrow> string \<Rightarrow> int \<Rightarrow> clone_opts" where
  "clone_request req tmpl node v = \<lparr>co_node = tp_node tmpl, co_template = tp_vmid tmpl, co_new = v, co_name = rq_name req,
     co_full = \<not> rq_linked req, co_storage = (if rq_linked req then None else Some (rq_storage req)),
     co_target = (if rq_linked req then None else Some node)\<rparr>"

text \<open>The part of the step that follows the choice of the VMID.\<close>

definition clone_rest :: "'w services \<Rightarrow> string \<Rightarrow> provision_request \<Rightarrow> string option \<Rightarrow> runner \<Rightarrow> template_row \<Rightarrow> int \<Rightarrow> 'w step" where
  "clone_rest sv i req creator ru tmpl v =
     bind (world_call (sv_clone sv (clone_request req tmpl (ru_node ru) v))) (\<lambda>upid.
     bind (set_run (\<lambda>ru. ru\<lparr>ru_vmid := v\<rparr>)) (\<lambda>_.
     bind (world_call (sv_wait_task sv (tp_node tmpl) upid 900000)) (\<lambda>_.
     bind (world_call (sv_new_id sv)) (\<lambda>nid.
     bind (gets (p_now sv)) (\<lambda>now.
     bind (on_reg (find_or_create now nid \<lparr>cv_vmid = v, cv_node = ru_node ru, cv_name = rq_name req,
        cv_status = Some VmPending, cv_os_type = Some (os_str (ru_os ru)), cv_ip = None,
        cv_created_by = creator, cv_template = Some (ru_template_id ru)\<rparr>)) (\<lambda>vm.
     bind (set_run (\<lambda>ru. ru\<lparr>ru_vm := Some (v_id vm)\<rparr>)) (\<lambda>_.
     bind (on_ledger sv (\<lambda>now. set_vm_id now i (v_id vm))) (\<lambda>_.
     bind (on_ledger sv (\<lambda>now. job_update_status now i CREATING None)) (\<lambda>_.
     done_with [(''vmid'', JNum v), (''node'', JStr (ru_node ru)), (''upid'', JStr upid)])))))))))"

lemma clone_template_unfold:
  "clone_template sv i req creator =
     bind (world_call (sv_client sv)) (\<lambda>_. bind get_run (\<lambda>ru.
     case ru_template ru of None \<Rightarrow> throw (err_validation ''Template not resolved'') | Some t \<Rightarrow>
     bind (choose_vmid sv req) (\<lambda>v.
     bind (gets (\<lambda>s. find_by_id_key (reg (p_app s)) v (ru_node ru))) (\<lambda>existing.
     if existing \<noteq> None
     then throw (err_conflict (''VM ID '' @ int_str v @ '' on node '' @ ru_node ru
            @ '' is already tracked. Choose a different VM ID.''))
     else clone_rest sv i req creator ru t v))))"
  unfolding clone_template_def clone_rest_def clone_request_def ..

lemma clone_rest_run:
  assumes "clone_rest sv i req creator ru tmpl v s = (Inr r, t)" "find_by_id_key (reg (p_app s)) v (ru_node ru) = None"
  shows "\<exists>vm w w' upid. sv_clone sv (clone_request req tmpl (ru_node ru) v) w = (Inr upid, w')
    \<and> v \<notin> set (list_vmids_by_node (reg (p_app s)) (ru_node ru))
    \<and> vms (reg (p_app t)) = vms (reg (p_app s)) @ [vm]
    \<and> v_vmid vm = v \<and> v_node vm = ru_node ru \<and> vm_live vm \<and> v_created_by vm = creator
    \<and> ru_vm (p_run t) = Some (v_id vm) \<and> ru_vmid (p_run t) = v"
proof -
  from assms(1) obtain upid w where c: "sv_clone sv (clone_request req tmpl (ru_node ru) v) (p_world s) = (Inr upid, w)"
    and 1: "bind (set_run (\<lambda>ru. ru\<lparr>ru_vmid := v\<rparr>)) (\<lambda>_.
     bind (world_call (sv_wait_task sv (tp_node tmpl) upid 900000)) (\<lambda>_.
     bind (world_call (sv_new_id sv)) (\<lambda>nid.
     bind (gets (p_now sv)) (\<lambda>now.
     bind (on_reg (find_or_create now nid \<lparr>cv_vmid = v, cv_node = ru_node ru, cv_name = rq_name req,
        cv_status = Some VmPending, cv_os_type = Some (os_str (ru_os ru)), cv_ip = None,
        cv_created_by = creator, cv_template = Some (ru_template_id ru)\<rparr>)) (\<lambda>vm.
     bind (set_run (\<lambda>ru. ru\<lparr>ru_vm := Some (v_id vm)\<rparr>)) (\<lambda>_.
     bind (on_ledger sv (\<lambda>now. set_vm_id now i (v_id vm))) (\<lambda>_.
     bind (on_ledger sv (\<lambda>now. job_update_status now i CREATING None)) (\<lambda>_.
     done_with [(''vmid'', JNum v), (''node'', JStr (ru_node ru)), (''upid'', JStr upid)]))))))))
       (s\<lparr>p_world := w\<rparr>) = (Inr r, t)"
    unfolding clone_rest_def bind_Inr_iff [where m = "world_call m" for m] world_call_Inr_iff by blast
  from 1 obtain w2 nid now vm d where f: "find_or_create now nid \<lparr>cv_vmid = v, cv_node = ru_node ru, cv_name = rq_name req,
        cv_status = Some VmPending, cv_os_type = Some (os_str (ru_os ru)), cv_ip = None,
        cv_created_by = creator, cv_template = Some (ru_template_id ru)\<rparr> (reg (p_app s)) = (Inr vm, d)"
    and t: "p_app t = (p_app s)\<lparr>reg := d\<rparr>" "ru_vm (p_run t) = Some (v_id vm)" "ru_vmid (p_run t) = v"
    unfolding bind_set_run bind_on_ledger bind_gets bind_Inr_iff [where m = "world_call m" for m] world_call_Inr_iff
      bind_Inr_iff [where m = "on_reg m" for m] on_reg_Inr_iff
    by (auto simp: done_with_def ret_def)
  show ?thesis
    using c t find_or_create_new [OF f] assms(2) by (auto simp: new_vm_row_def vm_live_def)
qed

text \<open>What a finished clone has done. It cloned the resolved template under a VMID that no VM
  record of the node holds, live or deleted; the VMID is the one asked for, or the proposal of
  Proxmox, or, when that is held, the least one of the thousand from it that neither the
  records nor the cluster hold. Exactly one record is added, live, at that place and owned by
  the creator of the job, and the runner goes on with it. A linked clone names no target: the
  record is filed under the node asked for although the clone stays on the node of the template.\<close>

theorem clone_step_exact:
  assumes "clone_template sv i req creator s = (Inr r, t)"
  shows "\<exists>tmpl v vm start w w' upid.
    ru_template (p_run s) = Some tmpl \<and> vmid_choice sv req (s\<lparr>p_world := start\<rparr>) v
    \<and> sv_clone sv (clone_request req tmpl (ru_node (p_run s)) v) w = (Inr upid, w')
    \<and> v \<notin> set (list_vmids_by_node (reg (p_app s)) (ru_node (p_run s)))
    \<and> vms (reg (p_app t)) = vms (reg (p_app s)) @ [vm]
    \<and> v_vmid vm = v \<and> v_node vm = ru_node (p_run s) \<and> vm_live vm \<and> v_created_by vm = creator
    \<and> ru_vm (p_run t) = Some (v_id vm) \<and> ru_vmid (p_run t) = v"
proof -
  have pr: "p_run (s\<lparr>p_world := start\<rparr>) = p_run s" for start by simp
  from assms obtain start where "bind get_run (\<lambda>ru.
     case ru_template ru of None \<Rightarrow> throw (err_validation ''Template not resolved'') | Some t \<Rightarrow>
     bind (choose_vmid sv req) (\<lambda>v.
     bind (gets (\<lambda>s. find_by_id_key (reg (p_app s)) v (ru_node ru))) (\<lambda>existing.
     if existing \<noteq> None
     then throw (err_conflict (''VM ID '' @ int_str v @ '' on node '' @ ru_node ru
            @ '' is already tracked. Choose a different VM ID.''))
     else clone_rest sv i req creator ru t v))) (s\<lparr>p_world := start\<rparr>) = (Inr r, t)"
    unfolding clone_template_unfold bind_Inr_iff [where m = "world_call m" for m] world_call_Inr_iff by blast
  then have b: "(case ru_template (p_run s) of None \<Rightarrow> throw (err_validation ''Template not resolved'') | Some t \<Rightarrow>
     bind (choose_vmid sv req) (\<lambda>v.
     bind (gets (\<lambda>x. find_by_id_key (reg (p_app x)) v (ru_node (p_run s)))) (\<lambda>existing.
     if existing \<noteq> None
     then throw (err_conflict (''VM ID '' @ int_str v @ '' on node '' @ ru_node (p_run s)
            @ '' is already tracked. Choose a different VM ID.''))
     else clone_rest sv i req creator (p_run s) t v))) (s\<lparr>p_world := start\<rparr>) = (Inr r, t)"
    unfolding get_run_def bind_gets [where f = p_run] pr .
  then obtain tmpl where tmpl: "ru_template (p_run s) = Some tmpl"
    by (cases "ru_template (p_run s)") (auto simp: throw_def)
  obtain v u where c: "choose_vmid sv req (s\<lparr>p_world := start\<rparr>) = (Inr v, u)"
    and r: "bind (gets (\<lambda>x. find_by_id_key (reg (p_app x)) v (ru_node (p_run s)))) (\<lambda>existing.
     if existing \<noteq> None
     then throw (err_conflict (''VM ID '' @ int_str v @ '' on node '' @ ru_node (p_run s)
            @ '' is already tracked. Choose a different VM ID.''))
     else clone_rest sv i req creator (p_run s) tmpl v) u = (Inr r, t)"
    using b unfolding tmpl option.case bind_Inr_iff [where m = "choose_vmid sv req"] by blast
  have u: "vmid_choice sv req (s\<lparr>p_world := start\<rparr>) v" "p_app u = p_app s" "p_run u = p_run s"
    using choose_vmid_run [OF c] by auto
  have n: "find_by_id_key (reg (p_app u)) v (ru_node (p_run s)) = None
      \<and> clone_rest sv i req creator (p_run s) tmpl v u = (Inr r, t)"
    using r u(3) by (auto simp: bind_gets throw_def split: if_splits)
  then show ?thesis
    using clone_rest_run [of sv i req creator "p_run s" tmpl v u r t] tmpl u by metis
qed

definition demo_resolved :: "int pstate" where
  "demo_resolved = (demo_state True)\<lparr>p_run := (new_runner demo_request)\<lparr>ru_template := Some demo_tpl\<rparr>\<rparr>"

lemma demo_clones:
  "fst (clone_template (demo_services True) demo_job demo_request (Some demo_user) demo_resolved) =
     Inr (StepDone (JObj [(''vmid'', JNum 101), (''node'', JStr ''pve''), (''upid'', JStr ''UPID'')]))"
  by code_simp

lemma clone_step_exact_witness:
  "\<exists>vm. vms (reg (p_app (snd (clone_template (demo_services True) demo_job demo_request (Some demo_user) demo_resolved)))) = [vm]
     \<and> v_created_by vm = Some demo_user"
proof -
  have "vms (reg (p_app demo_resolved)) = []"
    by (simp add: demo_resolved_def demo_state_def)
  then show ?thesis
    using clone_step_exact [of "demo_services True" demo_job demo_request "Some demo_user" demo_resolved,
        OF prod_eqI [OF demo_clones [THEN trans [OF _ fst_conv [symmetric]]] snd_conv [symmetric]]] by auto
qed

end
