(* ===== verification/Worker_Limits.thy ===== *)
theory Worker_Limits
  imports Worker_Gate Guac_Props
begin

text \<open>
  What the verdicts of the provisioning worker do not mean: jobs that cannot complete, statuses
  that are overwritten, credentials called verified, and consoles that two VMs share.
\<close>

subsection \<open>A VM that is not started needs a static address\<close>

lemma guest_address_unstarted:
  "\<not> rq_start req \<Longrightarrow> guest_address sv req = ret (static_address req)"
  by (simp add: guest_address_def)

lemma static_address_password: "static_address (req\<lparr>rq_password := pw\<rparr>) = static_address req"
  by (simp add: static_address_def)

lemma discover_ip_unstarted:
  assumes "\<not> rq_start req" "static_address req = None"
  shows "discover_ip sv req attempt s \<noteq> (Inr (StepDone d), t)"
  using assms
  by (auto simp: discover_ip_def guest_address_unstarted bind_def ret_def throw_def split: prod.splits sum.splits)

text \<open>A VM that is created without being started and without a static address cannot be
  provisioned: as long as its address has not been discovered, no attempt completes the job,
  whatever the services answer, although the request is accepted.\<close>

theorem unstarted_needs_static_address:
  assumes "job_require (p_ledger s) i = Inr job" and "ledger_wf (p_ledger s)"
    and "\<not> rq_start (jb_request job)" and "static_address (jb_request job) = None"
    and "DISCOVER_IP \<notin> set (completed_steps (p_ledger s) i)"
  shows "fst (run_provisioning_job sv i attempt s) \<noteq> Inr Completed"
proof
  assume c: "fst (run_provisioning_job sv i attempt s) = Inr Completed"
  have i: "jb_id job = i" using job_requireD [OF assms(1)] by blast
  from c obtain pw admin actor where r: "fst (run_attempt sv job ((jb_request job)\<lparr>rq_password := pw\<rparr>) admin actor attempt s) = Inr Completed"
    using assms(1) by (auto simp: run_job_unfold split: if_splits sum.splits)
  let ?req = "(jb_request job)\<lparr>rq_password := pw\<rparr>" and ?done = "completed_steps (p_ledger s) i"
  let ?s = "attempt_started sv job ?req actor attempt s"
  from r i obtain d t where "attempt_body sv job ?req admin ?done actor attempt ?s = (Inr (StepDone d), t)"
    by (auto simp: run_attempt_unfold split: prod.splits sum.splits step_result.splits)
  from attempt_body_InrD [OF this] obtain t0 where t0: "p_ledger t0 = p_ledger ?s"
    and sf: "steps_then_finish sv job ?req ?done actor attempt t0 = (Inr (StepDone d), t)" by blast
  from steps_then_finish_InrD [OF sf] i obtain u
    where u: "run_steps sv i ?done (pipeline_steps sv i ?req (jb_creator job) attempt) t0 = (Inr (StepDone d), u)" by auto
  have wf: "ledger_wf (p_ledger t0)"
    using assms(2) by (simp add: t0 attempt_started_ledger ledger_wf_writes)
  have k: "step_complete i k (p_ledger t0)" if "k \<in> set ?done" for k
    using that in_completed_steps [OF assms(2), of k i] by (auto simp: t0 attempt_started_ledger i step_complete_def)
  have "distinct (map fst (pipeline_steps sv i ?req (jb_creator job) attempt))"
    by (simp add: pipeline_keys JOB_STEPS_def)
  from run_steps_done [OF u wf harmless_pipeline this k]
  have "\<exists>s d t. discover_ip sv ?req attempt s = (Inr (StepDone d), t)"
    using assms(5) by (auto simp: pipeline_steps_def)
  then show False
    using discover_ip_unstarted [of ?req sv attempt] assms(3,4) by (auto simp: static_address_password)
qed

definition demo_unstarted_row :: job_row where
  "demo_unstarted_row = demo_row\<lparr>jb_request := demo_request\<lparr>rq_start := False\<rparr>\<rparr>"

definition demo_unstarted :: "int pstate" where
  "demo_unstarted = (demo_state True)\<lparr>p_ledger := \<lparr>jobs = [demo_unstarted_row], steps = []\<rparr>\<rparr>"

lemma unstarted_needs_static_address_witness:
  "fst (run_provisioning_job (demo_services True) demo_job 0 demo_unstarted) \<noteq> Inr Completed"
proof -
  have row: "jb_id demo_unstarted_row = demo_job" "jb_request demo_unstarted_row = demo_request\<lparr>rq_start := False\<rparr>"
    "jb_status demo_unstarted_row = PENDING"
    by (simp_all add: demo_unstarted_row_def demo_row_def)
  have l: "p_ledger demo_unstarted = \<lparr>jobs = [demo_unstarted_row], steps = []\<rparr>"
    by (simp add: demo_unstarted_def)
  have 1: "job_require (p_ledger demo_unstarted) demo_job = Inr demo_unstarted_row"
    using demo_uuid by (simp add: l row job_require_def job_get_def job_by_id_def table_find_def)
  have 2: "ledger_wf (p_ledger demo_unstarted)"
    by (simp add: l row ledger_wf_def job_table.unique_def step_table.unique_def terminal_def)
  have 3: "static_address (jb_request demo_unstarted_row) = None"
    by (simp add: row static_address_def demo_request_def sample_provisioning_def)
  have 4: "DISCOVER_IP \<notin> set (completed_steps (p_ledger demo_unstarted) demo_job)"
    by (simp add: l completed_steps_def get_steps_def)
  show ?thesis
    using unstarted_needs_static_address [OF 1 2 _ 3 4] row by simp
qed

subsection \<open>Statuses that are overwritten\<close>

text \<open>A job that is cancelled while an attempt runs becomes active again with the next step.\<close>

lemma step_revives_cancelled_job:
  assumes "job_exists i (p_ledger s)" and "x \<in> set (pipeline_steps sv i req creator attempt)"
    and "job_status_of (p_ledger s) i = Some CANCELLED"
  shows "\<exists>st. job_status_of (p_ledger (snd (run_step sv i (fst x) (snd x) s))) i = Some st \<and> \<not> terminal st"
  using run_step_status' [OF assms(1) harmless_pipeline [OF assms(2)], of sv]
  by (auto simp: terminal_def step_status_def split: job_step.splits)

text \<open>A password that does not decrypt leaves the job active for good.\<close>

lemma undecryptable_job_stays:
  assumes "job_require (p_ledger s) i = Inr job" "\<not> terminal (jb_status job)"
    and "re_authorized (p_app s) (p_ledger s) (p_now sv s) job"
    and "rq_password (jb_request job) \<noteq> []" "sv_decrypt sv (rq_password (jb_request job)) = Inl e"
  shows "run_provisioning_job sv i attempt s = (Inl e, s)"
  using assms execution_check_authorized [OF assms(3)] by (simp add: run_job_unfold terminal_def)

subsection \<open>Credentials called verified\<close>

text \<open>Without SSH the check of the credentials connects to a port and presents no credentials.\<close>

lemma port_check_ignores_credentials:
  assumes "select_verify_mechanism (ru_protocols (p_run s)) (ru_os (p_run s)) \<noteq> VerifySsh"
  shows "verify_credentials sv i (req\<lparr>rq_guest_user := u, rq_password := pw\<rparr>) s = verify_credentials sv i req s"
  using assms by (simp add: verify_credentials_def get_run_def bind_gets Let_def)

text \<open>Finishing calls the credential verified all the same.\<close>

lemma finish_calls_verified:
  assumes "ru_vm (p_run s) = Some vm" "cred_of vm (p_creds s) = Some c"
  shows "\<exists>c'. cred_of vm (p_creds (snd (finish_job sv i req actor s))) = Some c' \<and> cr_status c' = CredVerified"
  using assms
  by (simp add: finish_job_def on_ledger_def get_run_def gets_def bind_def on_reg_def modify_def on_creds_def
      progress_def p_event_def ret_def mark_verified_def cred_table.lookup_update)

subsection \<open>Consoles shared by name\<close>

lemma find_append_None: "find P xs = None \<Longrightarrow> find P (xs @ ys) = find P ys"
  by (induction xs) (auto split: if_splits)

text \<open>A connection of Guacamole is addressed by name, and names of VMs repeat. Connecting a VM
  under a free name stores a connection to its own host. Under a name in use it stores
  nothing: the VM's row gets the identifier of the connection that is there, which keeps its
  host and passes the verification, and whoever is then granted access to the VM may open that
  other machine.\<close>

theorem same_name_shares_console:
  assumes "upsert_connection enc nid opts s = (row, t)"
  shows "gc_name row = upsert_name opts \<and> fst (verify_connection row (gs_remote t)) \<and>
    (case find_connection (gs_remote s) (upsert_name opts) of
       None \<Rightarrow> (\<exists>c. find_connection (gs_remote t) (upsert_name opts) = Some c \<and> gc_identifier row = Some (nat_str (gcn_id c))
         \<and> gcn_params c = connection_params_for (uo_protocol opts) (uo_hostname opts) (uo_port opts)
             (uo_username opts) (uo_password opts))
     | Some c \<Rightarrow> gs_remote t = gs_remote s \<and> gc_identifier row = Some (nat_str (gcn_id c))
         \<and> (\<forall>u g. grant_connection_read (gc_name row) u (gs_remote t) = Inr g \<longrightarrow>
              can_open g (upsert_name opts) u \<and> find_connection g (upsert_name opts) = Some c))"
proof -
  have row: "gc_name row = upsert_name opts"
    using assms by (auto simp: upsert_connection_def Let_def split: prod.splits option.splits)
  show ?thesis
  proof (cases "find_connection (gs_remote s) (upsert_name opts)")
    case (Some c)
    have same: "gs_remote t = gs_remote s \<and> gc_identifier row = Some (nat_str (gcn_id c))"
      using assms Some
      by (auto simp: upsert_connection_def Let_def create_connection_def split: prod.splits option.splits)
    have g: "find_connection g (upsert_name opts) = Some c \<and> can_open g (upsert_name opts) u"
      if "grant_connection_read (upsert_name opts) u (gs_remote s) = Inr g" for u g
      using that Some find_connection_grant [OF that, of "upsert_name opts"]
      by (auto simp: can_open_def grant_connection_read_def split: if_splits)
    show ?thesis
      using row same Some g by (simp add: verify_connection_def)
  next
    case None
    let ?p = "connection_params_for (uo_protocol opts) (uo_hostname opts) (uo_port opts) (uo_username opts) (uo_password opts)"
    let ?c = "\<lparr>gcn_id = g_next_id (gs_remote s), gcn_name = upsert_name opts, gcn_protocol = uo_protocol opts, gcn_params = ?p\<rparr>"
    have t: "gs_remote t = (gs_remote s)\<lparr>g_connections := g_connections (gs_remote s) @ [?c], g_next_id := Suc (g_next_id (gs_remote s))\<rparr>
        \<and> gc_identifier row = Some (nat_str (g_next_id (gs_remote s)))"
      using assms None
      by (auto simp: upsert_connection_def Let_def create_connection_def split: prod.splits option.splits)
    then have "find_connection (gs_remote t) (upsert_name opts) = Some ?c"
      using None by (simp add: find_connection_def find_append_None)
    then show ?thesis
      using row t None by (simp add: verify_connection_def)
  qed
qed

definition demo_console :: "string \<Rightarrow> string \<Rightarrow> upsert_opts" where
  "demo_console vm host = \<lparr>uo_vm = vm, uo_vm_name = ''web'', uo_protocol = ''ssh'', uo_hostname = host, uo_port = 22,
     uo_username = ''deploy'', uo_password = ''pw'', uo_name = None\<rparr>"

text \<open>Two VMs called \<open>web\<close>: the row of the second leads to the host of the first.\<close>

lemma same_name_shares_console_witness:
  "case upsert_connection id ''r2'' (demo_console ''v2'' ''10.0.0.2'')
        (snd (upsert_connection id ''r1'' (demo_console ''v1'' ''10.0.0.1'') (p_guac (demo_state True)))) of
     (row, t) \<Rightarrow> gc_vm row = ''v2'' \<and> fst (verify_connection row (gs_remote t)) \<and>
       map_option (\<lambda>c. map_of (gcn_params c) ''hostname'') (find_connection (gs_remote t) (gc_name row)) = Some (Some ''10.0.0.1'')"
proof -
  let ?s = "snd (upsert_connection id ''r1'' (demo_console ''v1'' ''10.0.0.1'') (p_guac (demo_state True)))"
  obtain row t where r: "upsert_connection id ''r2'' (demo_console ''v2'' ''10.0.0.2'') ?s = (row, t)"
    by fastforce
  have "map_option (\<lambda>c. map_of (gcn_params c) ''hostname'')
      (find_connection (gs_remote ?s) (upsert_name (demo_console ''v2'' ''10.0.0.2''))) = Some (Some ''10.0.0.1'')"
    by code_simp
  moreover have "gc_vm (fst (upsert_connection id ''r2'' (demo_console ''v2'' ''10.0.0.2'') ?s)) = ''v2''"
    by code_simp
  ultimately show ?thesis
    using same_name_shares_console [OF r] r by (auto split: option.splits)
qed

end
