(* ===== verification/Ssrf.thy ===== *)
theory Ssrf
  imports Strings "HOL-Library.Word"
begin

text \<open>
  The guard of server-initiated requests (\<open>packages/core/src/util/ssrf.ts\<close>): which hosts are
  never dialled, the check of a host with its DNS answers, and the fetch that follows redirects
  one guarded hop at a time.

  The URL parser and \<open>isIP\<close> of the runtime are arguments, DNS and HTTP are computations on a
  world of an arbitrary type. The integers of JavaScript's shifts are 32-bit words.
\<close>

unbundle bit_operations_syntax

subsection \<open>Obfuscated literals\<close>

definition octets_of :: "32 word \<Rightarrow> int list" where
  "octets_of n = [uint (drop_bit 24 n AND 255), uint (drop_bit 16 n AND 255), uint (drop_bit 8 n AND 255), uint (n AND 255)]"

definition is_octal :: "char \<Rightarrow> bool" where
  "is_octal c \<longleftrightarrow> is_digit c \<and> digit_val c < 8"

definition radix_val :: "int \<Rightarrow> string \<Rightarrow> int" where
  "radix_val radix s = foldl (\<lambda>n c. radix * n + int (hex_val c)) 0 s"

definition parse_part :: "string \<Rightarrow> int option" where
  "parse_part p =
     (let n = (if starts_with (to_lower p) ''0x'' \<and> drop 2 p \<noteq> [] \<and> list_all is_hex (drop 2 p)
               then Some (radix_val 16 (drop 2 p))
               else if starts_with p ''0'' \<and> tl p \<noteq> [] \<and> list_all is_octal (tl p) then Some (radix_val 8 (tl p))
               else if p \<noteq> [] \<and> list_all is_digit p then Some (radix_val 10 p)
               else None)
      in case n of None \<Rightarrow> None | Some v \<Rightarrow> if v \<le> 0xffffffff then Some v else None)"

fun parse_parts :: "string list \<Rightarrow> int list option" where
  "parse_parts [] = Some []"
| "parse_parts (p # ps) = (case parse_part p of
       None \<Rightarrow> None
     | Some n \<Rightarrow> (case parse_parts ps of None \<Rightarrow> None | Some ns \<Rightarrow> Some (n # ns)))"

definition tail_bytes :: "nat \<Rightarrow> int \<Rightarrow> int list" where
  "tail_bytes bits tail = map (\<lambda>s. uint (drop_bit s (word_of_int tail :: 32 word) AND 255)) (rev (map (\<lambda>k. 8 * k) [0..<bits div 8]))"

definition octets_of_parts :: "int list \<Rightarrow> int list option" where
  "octets_of_parts nums =
     (if length nums = 4 then (if list_ex (\<lambda>n. n > 255) nums then None else Some nums)
      else if length nums = 1 then Some (octets_of (word_of_int (hd nums)))
      else
        (let head = butlast nums; bits = (if length nums = 2 then 24 else 16); tail = last nums
         in if list_ex (\<lambda>n. n > 255) head \<or> tail \<ge> 2 ^ bits then None else Some (head @ tail_bytes bits tail)))"

definition hex_group :: "string \<Rightarrow> bool" where
  "hex_group g \<longleftrightarrow> 1 \<le> length g \<and> length g \<le> 4 \<and> list_all is_hex g"

text \<open>The part after \<open>::ffff:\<close>: \<open>Inl\<close> octets that are already decided, \<open>Inr\<close> the text to parse.\<close>

definition mapped_v4 :: "string \<Rightarrow> int list + string" where
  "mapped_v4 host =
     (let rest = drop 7 host in
      if starts_with (to_lower host) ''::ffff:'' \<and> rest \<noteq> [] \<and> CHR 0x0A \<notin> set rest \<and> CHR 0x0D \<notin> set rest
      then (if CHR '':'' \<in> set rest
            then (case split_on CHR '':'' rest of
                [a, b] \<Rightarrow> (if hex_group a \<and> hex_group b
                   then Inr (join ''.'' (map int_str
                     (octets_of (push_bit 16 (word_of_int (radix_val 16 a)) OR word_of_int (radix_val 16 b)))))
                   else Inl [127, 0, 0, 1])
              | _ \<Rightarrow> Inl [127, 0, 0, 1])
            else Inr rest)
      else Inr host)"

definition parse_numeric_parts :: "string \<Rightarrow> int list option" where
  "parse_numeric_parts host = (case mapped_v4 host of
       Inl os \<Rightarrow> Some os
     | Inr v4 \<Rightarrow> (let parts = split_on CHR ''.'' v4
         in if length parts < 1 \<or> length parts > 4 then None
            else case parse_parts parts of None \<Rightarrow> None | Some nums \<Rightarrow> octets_of_parts nums))"

subsection \<open>Blocked destinations\<close>

definition strip_host_brackets :: "string \<Rightarrow> string" where
  "strip_host_brackets s =
     (let s1 = (if starts_with s ''['' then tl s else s)
      in if s1 \<noteq> [] \<and> last s1 = CHR '']'' then butlast s1 else s1)"

definition blocked_octets :: "int list \<Rightarrow> bool" where
  "blocked_octets os \<longleftrightarrow> os ! 0 = 127 \<or> os ! 0 = 0 \<or> (os ! 0 = 169 \<and> os ! 1 = 254)"

definition quad_prefix :: "string \<Rightarrow> int list option" where
  "quad_prefix host =
     (let parts = split_on CHR ''.'' host in
      if length parts \<ge> 5 \<and> list_all (\<lambda>p. 1 \<le> length p \<and> length p \<le> 3 \<and> list_all is_digit p) (take 4 parts)
      then Some (map (int \<circ> digits_val) (take 4 parts)) else None)"

definition blocked_v6 :: "string \<Rightarrow> bool" where
  "blocked_v6 h \<longleftrightarrow> h = ''::1'' \<or> h = ''::'' \<or> starts_with h ''fe80:'' \<or> starts_with h ''fc'' \<or> starts_with h ''fd''
     \<or> starts_with h ''::ffff:''"

definition is_blocked_destination :: "string \<Rightarrow> bool" where
  "is_blocked_destination hostname =
     (let host = strip_host_brackets (to_lower hostname) in
      if host = ''localhost'' \<or> host = ''metadata.google.internal'' \<or> ends_with host ''.metadata.google.internal'' then True
      else if (case quad_prefix host of None \<Rightarrow> False | Some os \<Rightarrow> list_all (\<lambda>n. n \<le> 255) os \<and> blocked_octets os) then True
      else case parse_numeric_parts host of
          Some os \<Rightarrow> blocked_octets os
        | None \<Rightarrow> CHR '':'' \<in> set host \<and> blocked_v6 host)"

subsection \<open>Hosts, URLs, redirects\<close>

record url =
  url_protocol :: string
  url_hostname :: string

record http_response =
  hr_status :: int
  hr_location :: "string option"

record 'w net =
  net_lookup :: "string \<Rightarrow> ('w, string list) comp"
  net_get :: "string \<Rightarrow> ('w, http_response) comp"
  net_is_ip :: "string \<Rightarrow> bool"
  net_parse :: "string \<Rightarrow> url option"
  net_resolve :: "string \<Rightarrow> string \<Rightarrow> string option"

text \<open>\<open>net_resolve loc base\<close> is the text of \<open>new URL(loc, base)\<close>, \<open>None\<close> when the constructor throws.\<close>

definition plain_error :: "string \<Rightarrow> app_error" where
  "plain_error m = AppError INTERNAL_ERROR m 500"

definition assert_safe_host :: "'w net \<Rightarrow> string \<Rightarrow> string \<Rightarrow> ('w, unit) comp" where
  "assert_safe_host nt hostname what =
     (if is_blocked_destination hostname
      then throw (err_validation (what @ '' must not target loopback, private, link-local, or cloud metadata endpoints''))
      else if net_is_ip nt hostname then ret ()
      else bind (try_catch (net_lookup nt hostname) (\<lambda>_. throw (err_validation (what @ '' does not resolve'')))) (\<lambda>addresses.
           if addresses = [] \<or> list_ex is_blocked_destination addresses
           then throw (err_validation (what @ '' resolves to a blocked address'')) else ret ()))"

definition assert_safe_url :: "'w net \<Rightarrow> string \<Rightarrow> string \<Rightarrow> ('w, string) comp" where
  "assert_safe_url nt raw what =
     (case net_parse nt (trim raw) of
        None \<Rightarrow> throw (err_validation (what @ '' must be a valid http(s) URL''))
      | Some u \<Rightarrow>
         (if url_protocol u \<noteq> ''http:'' \<and> url_protocol u \<noteq> ''https:''
          then throw (err_validation (what @ '' must use http or https''))
          else bind (assert_safe_host nt (url_hostname u) what) (\<lambda>_. ret (trim raw))))"

definition is_redirect :: "int \<Rightarrow> bool" where
  "is_redirect st \<longleftrightarrow> st \<in> {301, 302, 307, 308}"

text \<open>\<open>fetch_hops n\<close> runs the loop with \<open>n\<close> iterations left.\<close>

fun fetch_hops :: "'w net \<Rightarrow> nat \<Rightarrow> string \<Rightarrow> ('w, http_response) comp" where
  "fetch_hops nt 0 current = throw (plain_error ''Redirect limit exceeded'')"
| "fetch_hops nt (Suc n) current =
     (case net_parse nt current of
        None \<Rightarrow> throw (plain_error ''Invalid URL'')
      | Some u \<Rightarrow>
         bind (assert_safe_host nt (url_hostname u) ''redirect target'') (\<lambda>_.
         bind (net_get nt current) (\<lambda>res.
         if \<not> is_redirect (hr_status res) then ret res
         else case hr_location res of
            None \<Rightarrow> throw (plain_error ''Redirect without Location'')
          | Some loc \<Rightarrow> if loc = [] then throw (plain_error ''Redirect without Location'') else
             (case net_resolve nt loc current of
                None \<Rightarrow> throw (plain_error ''Invalid URL'')
              | Some next \<Rightarrow> (case net_parse nt next of
                  None \<Rightarrow> throw (plain_error ''Invalid URL'')
                | Some nu \<Rightarrow> if url_protocol nu \<noteq> ''http:'' \<and> url_protocol nu \<noteq> ''https:''
                    then throw (plain_error ''Redirect target refused'')
                    else fetch_hops nt n next)))))"

definition fetch_with_ssrf_guard :: "'w net \<Rightarrow> string \<Rightarrow> nat \<Rightarrow> ('w, http_response) comp" where
  "fetch_with_ssrf_guard nt address max_redirects = fetch_hops nt (Suc max_redirects) address"

end
