(* ===== verification/Ssrf_Props.thy ===== *)
theory Ssrf_Props
  imports Ssrf
begin

text \<open>
  The guard judges a numeric host by the address it denotes, however it is written, and no
  request leaves for a host that was not judged safe just before.
\<close>

subsection \<open>Numbers with up to four parts\<close>

text \<open>The address that a host of one to four numbers denotes, as \<open>inet_aton\<close> reads it.\<close>

fun aton :: "int list \<Rightarrow> int option" where
  "aton [a] = (if a < 2 ^ 32 then Some a else None)"
| "aton [a, b] = (if a < 256 \<and> b < 2 ^ 24 then Some (a * 2 ^ 24 + b) else None)"
| "aton [a, b, c] = (if a < 256 \<and> b < 256 \<and> c < 2 ^ 16 then Some (a * 2 ^ 24 + b * 2 ^ 16 + c) else None)"
| "aton [a, b, c, d] = (if a < 256 \<and> b < 256 \<and> c < 256 \<and> d < 256
     then Some (a * 2 ^ 24 + b * 2 ^ 16 + c * 2 ^ 8 + d) else None)"
| "aton _ = None"

definition octets :: "int \<Rightarrow> int list" where
  "octets v = [v div 2 ^ 24, v div 2 ^ 16 mod 256, v div 2 ^ 8 mod 256, v mod 256]"

lemma uint_drop: "uint (drop_bit k (w :: 32 word)) = uint w div 2 ^ k"
proof -
  have "uint (drop_bit k w) = int (drop_bit k (unat w))" by (simp only: uint_nat unat_drop_bit_eq)
  also have "\<dots> = int (unat w) div 2 ^ k" by (simp only: drop_bit_eq_div zdiv_int of_nat_power of_nat_numeral)
  finally show ?thesis by (simp only: uint_nat)
qed

lemma uint_of: "uint (word_of_int v :: 32 word) = v mod 2 ^ 32"
  by (simp only: unsigned_of_int take_bit_eq_mod) simp

lemma low_byte: "uint ((w :: 32 word) AND 255) = uint w mod 256"
proof -
  have "uint (w AND 255) = uint w AND mask 8" by (simp add: unsigned_and_eq mask_eq_exp_minus_1)
  also have "\<dots> = take_bit 8 (uint w)" by (simp only: take_bit_eq_mask)
  finally show ?thesis by (simp add: take_bit_eq_mod)
qed

lemma byte_at: "uint (drop_bit k (word_of_int v :: 32 word) AND 255) = v mod 2 ^ 32 div 2 ^ k mod 256"
  by (simp only: low_byte uint_drop uint_of)

lemma small_quotient: "0 \<le> v \<Longrightarrow> v < 256 * d \<Longrightarrow> 0 < d \<Longrightarrow> v div d mod 256 = v div (d :: int)"
proof (rule mod_pos_pos_trivial)
  assume v: "0 \<le> v" "v < 256 * d" "0 < d"
  then show "0 \<le> v div d" by (simp add: pos_imp_zdiv_nonneg_iff)
  have "v div d * d \<le> v" using v(3) by (metis div_mult_mod_eq le_add_same_cancel1 pos_mod_sign)
  with v have "v div d * d < 256 * d" by linarith
  with v(3) show "v div d < 256" by (simp add: mult_less_cancel_right)
qed

lemma octets_of_word:
  assumes "0 \<le> v" "v < 2 ^ 32"
  shows "octets_of (word_of_int v) = octets v"
proof -
  have "v div 2 ^ 24 mod 256 = v div 2 ^ 24" by (rule small_quotient) (use assms in simp_all)
  moreover have "v mod 2 ^ 32 = v" using assms by (rule mod_pos_pos_trivial)
  moreover have "uint ((word_of_int v :: 32 word) AND 255) = v mod 2 ^ 32 mod 256"
    using byte_at [of 0 v] by (simp only: drop_bit_0 id_apply power_0 div_by_1)
  ultimately show ?thesis
    by (simp only: octets_of_def octets_def byte_at)
qed

lemma short_word: "0 \<le> t \<Longrightarrow> t < 2 ^ n \<Longrightarrow> n \<le> 32 \<Longrightarrow> t mod 2 ^ 32 = (t :: int)"
  using power_increasing [of n 32 "2 :: int"] by (intro mod_pos_pos_trivial) linarith+

lemma tail_bytes_24: "0 \<le> t \<Longrightarrow> t < 2 ^ 24 \<Longrightarrow> tail_bytes 24 t = [t div 2 ^ 16 mod 256, t div 2 ^ 8 mod 256, t mod 256]"
proof -
  assume "0 \<le> t" "t < 2 ^ 24"
  then have "t mod 2 ^ 32 = t" by (rule short_word) simp
  moreover have "rev (map (\<lambda>k. 8 * k) [0..<24 div 8]) = [16, 8, 0 :: nat]" by code_simp
  ultimately show ?thesis
    by (simp only: tail_bytes_def list.map byte_at power_0 div_by_1)
qed

lemma tail_bytes_16: "0 \<le> t \<Longrightarrow> t < 2 ^ 16 \<Longrightarrow> tail_bytes 16 t = [t div 2 ^ 8 mod 256, t mod 256]"
proof -
  assume "0 \<le> t" "t < 2 ^ 16"
  then have "t mod 2 ^ 32 = t" by (rule short_word) simp
  moreover have "rev (map (\<lambda>k. 8 * k) [0..<16 div 8]) = [8, 0 :: nat]" by code_simp
  ultimately show ?thesis
    by (simp only: tail_bytes_def list.map byte_at power_0 div_by_1)
qed

lemma upper_field: "0 \<le> b \<Longrightarrow> b < m \<Longrightarrow> (a * m + b) div m = (a :: int)"
  by simp

lemma lower_field:
  assumes "m = k * 256 * d" "0 < (d :: int)"
  shows "(a * m + b) div d mod 256 = b div d mod 256"
proof -
  have e: "a * m + b = b + (a * k * 256) * d" using assms(1) by (simp add: algebra_simps)
  have "(a * m + b) div d = b div d + a * k * 256" unfolding e using assms(2) by simp
  then show ?thesis by simp
qed

lemma lowest_field: "m = k * 256 \<Longrightarrow> (a * m + b) mod 256 = b mod (256 :: int)"
  using lower_field [of m k 1 a b] by simp

lemma octets_two:
  assumes "0 \<le> b" "b < 2 ^ 24"
  shows "octets (a * 2 ^ 24 + b) = [a, b div 2 ^ 16 mod 256, b div 2 ^ 8 mod 256, b mod 256]"
proof -
  have "(a * 2 ^ 24 + b) div 2 ^ 24 = a" using assms by (rule upper_field)
  moreover have "(a * 2 ^ 24 + b) div 2 ^ 16 mod 256 = b div 2 ^ 16 mod 256"
    by (rule lower_field [where k = 1]) simp_all
  moreover have "(a * 2 ^ 24 + b) div 2 ^ 8 mod 256 = b div 2 ^ 8 mod 256"
    by (rule lower_field [where k = 256]) simp_all
  moreover have "(a * 2 ^ 24 + b) mod 256 = b mod 256"
    by (rule lowest_field [where k = 65536]) simp
  ultimately show ?thesis by (simp only: octets_def)
qed

lemma octets_three:
  assumes "0 \<le> b" "b < 256" "0 \<le> c" "c < 2 ^ 16"
  shows "octets (a * 2 ^ 24 + b * 2 ^ 16 + c) = [a, b, c div 2 ^ 8 mod 256, c mod 256]"
proof -
  have "0 \<le> b * 2 ^ 16 + c" "b * 2 ^ 16 + c < 2 ^ 24" using assms by simp_all
  note two = octets_two [OF this, of a]
  have "(b * 2 ^ 16 + c) div 2 ^ 16 = b" using assms(3,4) by (rule upper_field)
  moreover have "b mod 256 = b" using assms by (intro mod_pos_pos_trivial)
  moreover have "(b * 2 ^ 16 + c) div 2 ^ 8 mod 256 = c div 2 ^ 8 mod 256"
    by (rule lower_field [where k = 1]) simp_all
  moreover have "(b * 2 ^ 16 + c) mod 256 = c mod 256"
    by (rule lowest_field [where k = 256]) simp
  ultimately show ?thesis using two by (simp only: add.assoc)
qed

lemma octets_four:
  assumes "0 \<le> b" "b < 256" "0 \<le> c" "c < 256" "0 \<le> d" "d < 256"
  shows "octets (a * 2 ^ 24 + b * 2 ^ 16 + c * 2 ^ 8 + d) = [a, b, c, d]"
proof -
  have "0 \<le> c * 2 ^ 8 + d" "c * 2 ^ 8 + d < 2 ^ 16" using assms by simp_all
  note three = octets_three [OF assms(1,2) this, of a]
  have "(c * 2 ^ 8 + d) div 2 ^ 8 = c" by (rule upper_field) (use assms in simp_all)
  moreover have "c mod 256 = c" "d mod 256 = d" using assms by (intro mod_pos_pos_trivial, simp_all)+
  moreover have "(c * 2 ^ 8 + d) mod 256 = d mod 256"
    by (rule lowest_field [where k = 1]) simp
  ultimately show ?thesis using three by (simp only: add.assoc)
qed

lemma octets_of_parts_aton:
  assumes "1 \<le> length nums" "length nums \<le> 4" "\<forall>n \<in> set nums. 0 \<le> n \<and> n < 2 ^ 32"
  shows "octets_of_parts nums = map_option octets (aton nums)"
proof -
  consider a where "nums = [a]" | a b where "nums = [a, b]" | a b c where "nums = [a, b, c]"
    | a b c d where "nums = [a, b, c, d]"
    using assms(1,2)
    by (cases nums; cases "tl nums"; cases "tl (tl nums)"; cases "tl (tl (tl nums))"; cases "tl (tl (tl (tl nums)))") auto
  then show ?thesis
  proof cases
    case (1 a)
    with assms(3) show ?thesis by (simp add: octets_of_parts_def octets_of_word)
  next
    case (2 a b)
    with assms(3) show ?thesis
      using tail_bytes_24 [of b] octets_two [of b a] by (simp add: octets_of_parts_def)
  next
    case (3 a b c)
    with assms(3) show ?thesis
      using tail_bytes_16 [of c] octets_three [of b c a] by (simp add: octets_of_parts_def)
  next
    case (4 a b c d)
    with assms(3) show ?thesis
      using octets_four [of b c d a] by (simp add: octets_of_parts_def)
  qed
qed

definition never_dialled :: "int \<Rightarrow> bool" where
  "never_dialled v \<longleftrightarrow> v < 2 ^ 24 \<or> (127 * 2 ^ 24 \<le> v \<and> v < 128 * 2 ^ 24)
     \<or> (169 * 2 ^ 24 + 254 * 2 ^ 16 \<le> v \<and> v < 169 * 2 ^ 24 + 255 * 2 ^ 16)"

lemma quotient_iff: "0 < d \<Longrightarrow> v div d = k \<longleftrightarrow> k * d \<le> v \<and> v < (k + 1) * (d :: int)"
proof -
  assume d: "0 < d"
  have e: "v = v div d * d + v mod d" "0 \<le> v mod d" "v mod d < d" using d by simp_all
  show ?thesis
  proof
    assume "v div d = k"
    with e show "k * d \<le> v \<and> v < (k + 1) * d" by (simp add: algebra_simps)
  next
    assume b: "k * d \<le> v \<and> v < (k + 1) * d"
    then have "v - k * d < d" "0 \<le> v - k * d" by (simp_all add: algebra_simps)
    then have "(v - k * d) div d = 0" by simp
    moreover have "(v - k * d) div d = v div d - k" using d div_mult_self1 [of d v "- k"] by simp
    ultimately show "v div d = k" by simp
  qed
qed

lemma blocked_octets_range:
  assumes "0 \<le> v"
  shows "blocked_octets (octets v) \<longleftrightarrow> never_dialled v"
proof -
  have "v div 2 ^ 24 = 169 \<and> v div 2 ^ 16 mod 256 = 254 \<longleftrightarrow> v div 2 ^ 16 = 169 * 256 + 254"
  proof -
    have "v div 2 ^ 24 = v div 2 ^ 16 div 256" using zdiv_zmult2_eq [of 256 v "2 ^ 16"] by simp
    moreover have "q div 256 = 169 \<and> q mod 256 = 254 \<longleftrightarrow> q = 169 * 256 + 254" for q :: int
      by presburger
    ultimately show ?thesis by simp
  qed
  then show ?thesis
    using quotient_iff [of "2 ^ 24" v 0] quotient_iff [of "2 ^ 24" v 127] quotient_iff [of "2 ^ 16" v "169 * 256 + 254"]
      assms by (simp add: blocked_octets_def octets_def never_dialled_def) blast
qed

subsection \<open>Numeric hosts\<close>

lemma length_split_acc: "length (split_acc c acc s) = Suc (length (filter (\<lambda>x. x = c) s))"
  by (induction c acc s rule: split_acc.induct) auto

lemma in_split_acc: "x \<in> set s \<Longrightarrow> x \<noteq> c \<Longrightarrow> \<exists>p \<in> set (split_acc c acc s). x \<in> set p"
proof (induction s arbitrary: acc)
  case (Cons y s)
  have "set acc \<subseteq> set (hd (split_acc c acc s))" for acc
    by (induction c acc s rule: split_acc.induct) auto
  moreover have "split_acc c acc s \<noteq> []" for acc
    by (induction c acc s rule: split_acc.induct) auto
  ultimately have "a \<in> set acc \<Longrightarrow> \<exists>p \<in> set (split_acc c acc s). a \<in> set p" for a acc
    by (meson hd_in_set subset_iff)
  with Cons show ?case by auto
qed simp

definition odd_chars :: "string" where
  "odd_chars = [CHR ''l'', CHR '':'', CHR ''['', CHR '']'', CHR 0x0A, CHR 0x0D]"

lemma odd_not_digit: "c \<in> set odd_chars \<Longrightarrow> \<not> is_digit c \<and> \<not> is_hex c \<and> to_lower [c] = [c] \<and> c \<noteq> CHR ''0'' \<and> c \<noteq> CHR ''x''"
proof -
  have "list_all (\<lambda>c. \<not> is_digit c \<and> \<not> is_hex c \<and> to_lower [c] = [c] \<and> c \<noteq> CHR ''0'' \<and> c \<noteq> CHR ''x'') odd_chars"
    by code_simp
  then show "c \<in> set odd_chars \<Longrightarrow> ?thesis" by (simp add: list_all_iff)
qed

lemma parse_part_plain:
  assumes "parse_part p = Some n" "c \<in> set odd_chars"
  shows "c \<notin> set p"
proof
  assume c: "c \<in> set p"
  note odd = odd_not_digit [OF assms(2)]
  have d: "\<not> list_all is_digit p"
    using c odd by (auto simp: list_all_iff)
  have h: "\<not> (starts_with (to_lower p) ''0x'' \<and> list_all is_hex (drop 2 p))"
  proof
    assume a: "starts_with (to_lower p) ''0x'' \<and> list_all is_hex (drop 2 p)"
    then obtain u v r where p: "p = u # v # r" and uv: "to_lower [u] = ''0''" "to_lower [v] = ''x''"
      by (cases p; cases "tl p") (auto simp: starts_with_def to_lower_def)
    with c a odd show False by (auto simp: list_all_iff)
  qed
  have o: "\<not> (starts_with p ''0'' \<and> list_all is_octal (tl p))"
    using c odd by (cases p) (auto simp: starts_with_def list_all_iff is_octal_def)
  have "parse_part p = None"
    unfolding parse_part_def
    by (subst if_not_P, use h in blast, subst if_not_P, use o in blast, subst if_not_P, use d in blast) simp
  with assms(1) show False by simp
qed

lemma radix_val_nonneg: "0 \<le> r \<Longrightarrow> 0 \<le> radix_val r s"
proof -
  assume r: "0 \<le> r"
  have "0 \<le> n \<Longrightarrow> 0 \<le> foldl (\<lambda>n c. r * n + int (hex_val c)) n s" for n
    using r by (induction s arbitrary: n) auto
  then show "0 \<le> radix_val r s" by (simp add: radix_val_def)
qed

lemma parse_part_bound: "parse_part p = Some n \<Longrightarrow> 0 \<le> n \<and> n < 2 ^ 32"
  using radix_val_nonneg by (auto simp: parse_part_def Let_def split: if_splits option.splits)

lemma parse_parts_length: "parse_parts ps = Some ns \<Longrightarrow> length ns = length ps"
  by (induction ps arbitrary: ns) (auto split: option.splits)

lemma parse_parts_part: "parse_parts ps = Some ns \<Longrightarrow> p \<in> set ps \<Longrightarrow> \<exists>n. parse_part p = Some n"
  by (induction ps arbitrary: ns) (auto split: option.splits)

lemma parse_parts_bound: "parse_parts ps = Some ns \<Longrightarrow> \<forall>n \<in> set ns. 0 \<le> n \<and> n < 2 ^ 32"
  using parse_part_bound by (induction ps arbitrary: ns) (fastforce split: option.splits)+

lemma numeric_plain:
  assumes "parse_parts (split_on CHR ''.'' t) = Some nums" "c \<in> set odd_chars"
  shows "c \<notin> set t"
proof
  assume c: "c \<in> set t"
  have "c \<noteq> CHR ''.''" using assms(2) by (auto simp: odd_chars_def)
  with c obtain p where p: "p \<in> set (split_on CHR ''.'' t)" "c \<in> set p"
    using in_split_acc [of c t "CHR ''.''" "[]"] by (auto simp: split_on_def)
  obtain n where "parse_part p = Some n"
    using parse_parts_part [OF assms(1) p(1)] by blast
  with parse_part_plain [OF this assms(2)] p(2) show False by blast
qed


lemma lower_colon: "to_lower [c] = '':'' \<Longrightarrow> c = CHR '':''"
proof (rule ccontr)
  assume l: "to_lower [c] = '':''" and n: "c \<noteq> CHR '':''"
  then have b: "65 \<le> (of_char c :: nat)" "(of_char c :: nat) \<le> 90" and e: "char_of ((of_char c :: nat) + 32) = CHR '':''"
    by (auto simp: to_lower_def split: if_splits)
  from e have "(of_char (char_of ((of_char c :: nat) + 32) :: char) :: nat) = of_char (CHR '':'')" by simp
  then have "((of_char c :: nat) + 32) mod 256 = 58" by (simp only: of_char_of) simp
  with b show False by simp
qed

lemma no_mapped_prefix: "CHR '':'' \<notin> set t \<Longrightarrow> \<not> starts_with (to_lower t) ''::ffff:''"
proof
  assume c: "CHR '':'' \<notin> set t" and s: "starts_with (to_lower t) ''::ffff:''"
  then obtain x r where "t = x # r" "to_lower [x] = '':''"
    by (cases t) (auto simp: starts_with_def to_lower_def)
  with lower_colon [of x] c show False by simp
qed

lemma split_on_length: "length (split_on c s) = Suc (length (filter (\<lambda>x. x = c) s))"
  by (simp add: split_on_def length_split_acc)

lemma quad_prefix_short: "length (split_on CHR ''.'' h) \<le> 4 \<Longrightarrow> quad_prefix h = None"
  by (simp add: quad_prefix_def Let_def)

lemma not_named:
  "CHR ''l'' \<notin> set s \<Longrightarrow>
   \<not> (s = ''localhost'' \<or> s = ''metadata.google.internal'' \<or> ends_with s ''.metadata.google.internal'')"
  using ends_withD [of s "''.metadata.google.internal''"] by auto

lemma split_acc_prefix: "c \<notin> set pre \<Longrightarrow> length (split_on c (pre @ t)) = length (split_on c t)"
  by (simp add: split_on_length) (auto simp: filter_empty_conv)

lemma mapped_plain: "CHR '':'' \<notin> set t \<Longrightarrow> mapped_v4 t = Inr t"
  by (simp add: mapped_v4_def no_mapped_prefix)

lemma mapped_prefix:
  assumes "CHR '':'' \<notin> set t" "CHR 0x0A \<notin> set t" "CHR 0x0D \<notin> set t" "t \<noteq> []"
  shows "mapped_v4 (''::ffff:'' @ t) = Inr t"
  using assms by (simp add: mapped_v4_def starts_with_def to_lower_def)

text \<open>The judgement of a host whose numbers have been read.\<close>

lemma read_host_exact:
  assumes "strip_host_brackets (to_lower hostname) = t \<or> strip_host_brackets (to_lower hostname) = ''::ffff:'' @ t"
    and "parse_parts (split_on CHR ''.'' t) = Some nums" and "aton nums = Some v"
  shows "is_blocked_destination hostname \<longleftrightarrow> never_dialled v"
proof -
  have plain: "CHR ''l'' \<notin> set t" "CHR '':'' \<notin> set t" "CHR 0x0A \<notin> set t" "CHR 0x0D \<notin> set t"
    using numeric_plain [OF assms(2)] by (simp_all add: odd_chars_def)
  have len: "1 \<le> length nums" "length nums \<le> 4"
    using assms(3) by (cases nums rule: aton.cases; simp)+
  have parts: "length (split_on CHR ''.'' t) = length nums"
    using parse_parts_length [OF assms(2)] by simp
  have t: "t \<noteq> []"
    using assms(2) by (auto simp: split_on_def parse_part_def starts_with_def to_lower_def)
  have os: "octets_of_parts nums = Some (octets v)"
    using octets_of_parts_aton [OF len parse_parts_bound [OF assms(2)]] assms(3) by simp
  have num: "parse_numeric_parts h = Some (octets v)" if "mapped_v4 h = Inr t" for h
    using that os assms(2) parts len by (auto simp: parse_numeric_parts_def Let_def)
  have v: "0 \<le> v"
    using assms(3) parse_parts_bound [OF assms(2)] by (cases nums rule: aton.cases) (auto split: if_splits)
  have judge: "is_blocked_destination hostname \<longleftrightarrow> blocked_octets (octets v)"
    if "strip_host_brackets (to_lower hostname) = pre @ t" "CHR ''.'' \<notin> set pre" "mapped_v4 (pre @ t) = Inr t"
      "CHR ''l'' \<notin> set pre" for pre
    using not_named [of "pre @ t"] plain(1) that(4) quad_prefix_short [of "pre @ t"] split_acc_prefix [OF that(2), of t] parts len(2)
      num [OF that(3)]
    by (simp add: is_blocked_destination_def that(1) Let_def)
  from assms(1) show ?thesis
  proof
    assume "strip_host_brackets (to_lower hostname) = t"
    with judge [of "[]"] mapped_plain [OF plain(2)] show ?thesis by (simp add: blocked_octets_range v)
  next
    assume "strip_host_brackets (to_lower hostname) = ''::ffff:'' @ t"
    with judge [of "''::ffff:''"] mapped_prefix [OF plain(2,3,4) t] show ?thesis by (simp add: blocked_octets_range v)
  qed
qed

subsection \<open>Numerals\<close>

text \<open>
  What a numeral denotes, apart from the code that reads it: the digits are written down from
  their values, most significant first, after the prefix of their radix. A numeral with a
  leading zero is octal, unless one of its digits shows that it is not.
\<close>

definition digit_char :: "nat \<Rightarrow> char" where
  "digit_char d = ''0123456789abcdef'' ! d"

fun numeral_value :: "int \<Rightarrow> nat list \<Rightarrow> int" where
  "numeral_value b [] = 0"
| "numeral_value b (d # ds) = int d * b ^ length ds + numeral_value b ds"

inductive denotes :: "string \<Rightarrow> int \<Rightarrow> bool" where
  hexadecimal: "ds \<noteq> [] \<Longrightarrow> \<forall>d \<in> set ds. d < 16 \<Longrightarrow> denotes (''0x'' @ map digit_char ds) (numeral_value 16 ds)"
| octal: "ds \<noteq> [] \<Longrightarrow> \<forall>d \<in> set ds. d < 8 \<Longrightarrow> denotes (''0'' @ map digit_char ds) (numeral_value 8 ds)"
| decimal: "ds \<noteq> [] \<Longrightarrow> \<forall>d \<in> set ds. d < 10 \<Longrightarrow> hd ds \<noteq> 0 \<or> ds = [0] \<or> (\<exists>d \<in> set ds. 8 \<le> d)
    \<Longrightarrow> denotes (map digit_char ds) (numeral_value 10 ds)"

lemma digit_facts:
  assumes "d < 16"
  shows "hex_val (digit_char d) = d" "is_hex (digit_char d)" "is_digit (digit_char d) \<longleftrightarrow> d < 10"
    "is_octal (digit_char d) \<longleftrightarrow> d < 8" "to_lower [digit_char d] = [digit_char d]"
    "digit_char d \<noteq> CHR ''x''" "digit_char d \<noteq> CHR ''.''" "digit_char d = CHR ''0'' \<longleftrightarrow> d = 0"
proof -
  have "list_all (\<lambda>d. hex_val (digit_char d) = d \<and> is_hex (digit_char d) \<and> (is_digit (digit_char d) \<longleftrightarrow> d < 10)
      \<and> (is_octal (digit_char d) \<longleftrightarrow> d < 8) \<and> to_lower [digit_char d] = [digit_char d] \<and> digit_char d \<noteq> CHR ''x''
      \<and> digit_char d \<noteq> CHR ''.'' \<and> (digit_char d = CHR ''0'' \<longleftrightarrow> d = 0)) [0..<16]"
    by code_simp
  moreover have "d \<in> set [0..<16]" using assms by simp
  ultimately show "hex_val (digit_char d) = d" "is_hex (digit_char d)" "is_digit (digit_char d) \<longleftrightarrow> d < 10"
    "is_octal (digit_char d) \<longleftrightarrow> d < 8" "to_lower [digit_char d] = [digit_char d]"
    "digit_char d \<noteq> CHR ''x''" "digit_char d \<noteq> CHR ''.''" "digit_char d = CHR ''0'' \<longleftrightarrow> d = 0"
    unfolding list_all_iff by blast+
qed

lemma radix_val_text: "\<forall>d \<in> set ds. d < 16 \<Longrightarrow> radix_val b (map digit_char ds) = numeral_value b ds"
proof -
  have "\<forall>d \<in> set ds. d < 16 \<Longrightarrow> foldl (\<lambda>n c. b * n + int (hex_val c)) n (map digit_char ds)
      = n * b ^ length ds + numeral_value b ds" for n
    by (induction ds arbitrary: n) (simp_all add: digit_facts(1) algebra_simps)
  from this [of 0] show "\<forall>d \<in> set ds. d < 16 \<Longrightarrow> ?thesis" by (simp add: radix_val_def)
qed

lemma digits_all:
  assumes "\<forall>d \<in> set ds. d < 16"
  shows "list_all is_hex (map digit_char ds)"
    "list_all is_octal (map digit_char ds) \<longleftrightarrow> (\<forall>d \<in> set ds. d < 8)"
    "list_all is_digit (map digit_char ds) \<longleftrightarrow> (\<forall>d \<in> set ds. d < 10)"
    "CHR ''.'' \<notin> set (map digit_char ds)"
  using assms digit_facts by (auto simp: list_all_iff) metis+

lemma digits_not_hex: "\<forall>d \<in> set ds. d < 16 \<Longrightarrow> \<not> starts_with (to_lower (map digit_char ds)) ''0x''"
proof
  assume ds: "\<forall>d \<in> set ds. d < 16" and "starts_with (to_lower (map digit_char ds)) ''0x''"
  then obtain d e r where "ds = d # e # r" "to_lower [digit_char e] = ''x''"
    by (cases ds; cases "tl ds") (auto simp: starts_with_def to_lower_def)
  with ds digit_facts(5,6) [of e] show False by simp
qed

lemma parse_part_denotes:
  assumes "denotes p n" "n < 2 ^ 32"
  shows "parse_part p = Some n"
  using assms
proof cases
  case (hexadecimal ds)
  then show ?thesis
    using assms(2) radix_val_text [of ds 16] digits_all(1) [of ds]
    by (simp add: parse_part_def starts_with_def to_lower_def)
next
  case (octal ds)
  then have d: "\<forall>d \<in> set (0 # ds). d < 16" "\<forall>d \<in> set ds. d < 16" by auto
  have p: "p = map digit_char (0 # ds)" using octal(1) digit_facts(8) [of 0] by simp
  have "\<not> starts_with (to_lower p) ''0x''" unfolding p using d(1) by (rule digits_not_hex)
  then show ?thesis
    using octal assms(2) radix_val_text [OF d(2), of 8] digits_all(2) [OF d(2)]
    by (simp add: parse_part_def starts_with_def)
next
  case (decimal ds)
  then have d: "\<forall>d \<in> set ds. d < 16" by auto
  have h: "\<not> starts_with (to_lower p) ''0x''" unfolding decimal(1) using d by (rule digits_not_hex)
  have o: "\<not> (starts_with p ''0'' \<and> tl p \<noteq> [] \<and> list_all is_octal (tl p))"
  proof
    assume a: "starts_with p ''0'' \<and> tl p \<noteq> [] \<and> list_all is_octal (tl p)"
    obtain e r where ds: "ds = e # r" using decimal(3) by (cases ds) auto
    have "e = 0" "r \<noteq> []" using a d digit_facts(8) [of e] unfolding decimal(1) ds
      by (simp_all add: starts_with_def)
    moreover have "\<forall>d \<in> set r. d < 8"
      using a d digits_all(2) [of r] unfolding decimal(1) ds by simp
    ultimately show False using decimal(5) ds by auto
  qed
  have "list_all is_digit p" "p \<noteq> []" "radix_val 10 p = n"
    using decimal digits_all(3) [OF d] radix_val_text [OF d, of 10] by simp_all
  with h o assms(2) show ?thesis by (auto simp: parse_part_def)
qed

lemma denotes_dotless: "denotes p n \<Longrightarrow> CHR ''.'' \<notin> set p"
proof -
  assume "denotes p n"
  then obtain ds where "\<forall>d \<in> set ds. d < 16"
    and "p = ''0x'' @ map digit_char ds \<or> p = ''0'' @ map digit_char ds \<or> p = map digit_char ds"
    by cases fastforce+
  with digits_all(4) [of ds] show ?thesis by auto
qed

lemma dotless_parts: "list_all2 denotes parts nums \<Longrightarrow> \<forall>p \<in> set parts. CHR ''.'' \<notin> set p"
  by (induction rule: list_all2_induct) (simp_all add: denotes_dotless)

lemma aton_bound: "aton nums = Some v \<Longrightarrow> \<forall>n \<in> set nums. n < 2 ^ 32"
  by (cases nums rule: aton.cases) (auto split: if_splits)

lemma parse_parts_denotes:
  "list_all2 denotes parts nums \<Longrightarrow> \<forall>n \<in> set nums. n < 2 ^ 32 \<Longrightarrow> parse_parts parts = Some nums"
  by (induction rule: list_all2_induct) (simp_all add: parse_part_denotes)

text \<open>C19. The guard judges the address and not its spelling. Take a host of one to four numerals, each
  written in decimal, in octal after a \<open>0\<close> or in hexadecimal after \<open>0x\<close>, plain or in an IPv4-mapped
  IPv6 literal, with or without brackets and in any case. It is refused exactly when the address
  that its numerals denote, read as \<open>inet_aton\<close> reads them, lies in 0.0.0.0/8, 127.0.0.0/8 or
  169.254.0.0/16.\<close>

theorem ssrf_literal_exact:
  assumes "list_all2 denotes parts nums" and "aton nums = Some v"
    and "to_lower hostname \<in> {join ''.'' parts, ''['' @ join ''.'' parts @ '']'',
      ''::ffff:'' @ join ''.'' parts, ''[::ffff:'' @ join ''.'' parts @ '']''}"
  shows "is_blocked_destination hostname \<longleftrightarrow> never_dialled v"
proof (rule read_host_exact)
  define t where "t = join ''.'' parts"
  show "aton nums = Some v" by fact
  have "parts \<noteq> []" using assms(1,2) by auto
  moreover have "\<forall>p \<in> set parts. CHR ''.'' \<notin> set p"
    using assms(1) by (rule dotless_parts)
  ultimately have split: "split_on CHR ''.'' t = parts" unfolding t_def by (rule split_on_join)
  show read: "parse_parts (split_on CHR ''.'' t) = Some nums"
    unfolding split using assms(1) aton_bound [OF assms(2)] by (rule parse_parts_denotes)
  have "CHR ''['' \<notin> set t" "CHR '']'' \<notin> set t"
    using numeric_plain [OF read] by (simp_all add: odd_chars_def)
  with assms(3) show "strip_host_brackets (to_lower hostname) = t \<or> strip_host_brackets (to_lower hostname) = ''::ffff:'' @ t"
    unfolding t_def [symmetric] by (auto simp: strip_host_brackets_def Let_def starts_with_iff dest: last_in_set)
qed

lemma ssrf_literal_exact_witness:
  "is_blocked_destination ''0x7F.1'' \<and> is_blocked_destination ''[::FFFF:0177.0.0.1]'' \<and> \<not> is_blocked_destination ''192.168.1.10''"
proof -
  have h: "denotes ''0x7f'' 127" using hexadecimal [of "[7, 15]"] by (simp add: digit_char_def)
  have o: "denotes ''0177'' 127" using octal [of "[1, 7, 7]"] by (simp add: digit_char_def)
  have d: "denotes ''1'' 1" "denotes ''0'' 0" using decimal [of "[1]"] decimal [of "[0]"] by (simp_all add: digit_char_def)
  have w: "denotes ''192'' 192" "denotes ''168'' 168" "denotes ''10'' 10"
    using decimal [of "[1, 9, 2]"] decimal [of "[1, 6, 8]"] decimal [of "[1, 0]"] by (simp_all add: digit_char_def)
  have l: "to_lower ''0x7F.1'' = ''0x7f.1''" "to_lower ''[::FFFF:0177.0.0.1]'' = ''[::ffff:0177.0.0.1]''"
    "to_lower ''192.168.1.10'' = ''192.168.1.10''"
    by code_simp+
  have 1: "is_blocked_destination ''0x7F.1'' \<longleftrightarrow> never_dialled (127 * 2 ^ 24 + 1)"
    by (rule ssrf_literal_exact [where parts = "[''0x7f'', ''1'']" and nums = "[127, 1]"])
      (simp_all add: h d l)
  have 2: "is_blocked_destination ''[::FFFF:0177.0.0.1]'' \<longleftrightarrow> never_dialled (127 * 2 ^ 24 + 1)"
    by (rule ssrf_literal_exact [where parts = "[''0177'', ''0'', ''0'', ''1'']" and nums = "[127, 0, 0, 1]"])
      (simp_all add: o d l)
  have 3: "is_blocked_destination ''192.168.1.10'' \<longleftrightarrow> never_dialled (192 * 2 ^ 24 + 168 * 2 ^ 16 + 1 * 2 ^ 8 + 10)"
    by (rule ssrf_literal_exact [where parts = "[''192'', ''168'', ''1'', ''10'']" and nums = "[192, 168, 1, 10]"])
      (simp_all add: w d l)
  from 1 2 3 show ?thesis by (simp add: never_dialled_def)
qed

subsection \<open>Redirects\<close>

text \<open>
  \<open>Q k\<close> is any family of predicates of the world: a lookup keeps \<open>Q k\<close>, and one request to an
  address whose host has just passed the check, in the world that the check left, leads from
  \<open>Q k\<close> to \<open>Q (Suc k)\<close>.
\<close>

lemma assert_safe_host_keeps:
  assumes "\<And>h. keeps_pred P (net_lookup nt h)"
  shows "keeps_pred P (assert_safe_host nt h what)"
  unfolding assert_safe_host_def by (intro keeps assms)

lemma fetch_hops_steps:
  assumes lookups: "\<And>k h. keeps_pred (Q k) (net_lookup nt h)"
    and requests: "\<And>k a u s t. net_parse nt a = Some u
      \<Longrightarrow> assert_safe_host nt (url_hostname u) ''redirect target'' s = (Inr (), t)
      \<Longrightarrow> Q k t \<Longrightarrow> Q (Suc k) (snd (net_get nt a t))"
    and start: "Q k s"
  shows "\<exists>j \<le> n. Q (k + j) (snd (fetch_hops nt n a s))"
  using start
proof (induction n arbitrary: a k s)
  case 0
  then show ?case by (auto simp: throw_def)
next
  case (Suc n)
  show ?case
  proof (cases "net_parse nt a")
    case None
    with Suc.prems show ?thesis by (auto simp: throw_def intro: exI [of _ 0])
  next
    case (Some u)
    obtain r t where check: "assert_safe_host nt (url_hostname u) ''redirect target'' s = (r, t)" by fastforce
    have t: "Q k t"
      using keeps_predD [OF assert_safe_host_keeps [OF lookups] Suc.prems] check by (metis snd_conv)
    show ?thesis
    proof (cases r)
      case (Inl e)
      with t check Some show ?thesis by (auto simp: bind_def intro: exI [of _ 0])
    next
      case (Inr x)
      obtain res w where get: "net_get nt a t = (res, w)" by fastforce
      have w: "Q (k + 1) w" using requests [OF Some _ t] check Inr get by fastforce
      have more: "\<exists>j \<le> Suc n. Q (k + j) (snd (fetch_hops nt n b w))" for b
        using Suc.IH [OF w, of b] by (auto intro: exI [of _ "Suc _"])
      have one: "\<exists>j \<le> Suc n. Q (k + j) w" using w by (intro exI [of _ 1]) simp
      show ?thesis
        using check get Inr Some one more
        by (cases res) (simp_all add: bind_def comp_defs split: option.splits)
    qed
  qed
qed

text \<open>C20. A guarded fetch sends at most one request more than the redirects it may follow, and each
  goes to a host that passed the check in the world just before it: whatever \<open>Q k\<close> says after
  \<open>k\<close> such requests holds at the end for some \<open>k \<le> max_redirects + 1\<close>, whether the fetch returns
  or throws, whatever servers and resolvers answer.\<close>

theorem fetch_dials_checked_hosts:
  assumes "\<And>k h. keeps_pred (Q k) (net_lookup nt h)"
    and "\<And>k a u s t. net_parse nt a = Some u
      \<Longrightarrow> assert_safe_host nt (url_hostname u) ''redirect target'' s = (Inr (), t)
      \<Longrightarrow> Q k t \<Longrightarrow> Q (Suc k) (snd (net_get nt a t))"
    and "Q 0 s"
  shows "\<exists>k \<le> max_redirects + 1. Q k (snd (fetch_with_ssrf_guard nt address max_redirects s))"
  using fetch_hops_steps [where Q = Q and nt = nt and k = 0 and n = "Suc max_redirects", OF assms]
  by (simp add: fetch_with_ssrf_guard_def)

text \<open>A server at \<open>a.lan\<close> that redirects to the metadata service; the world lists the requests.\<close>

definition demo_net :: "string list net" where
  "demo_net = \<lparr> net_lookup = (\<lambda>h. ret [''192.168.1.9'']),
     net_get = (\<lambda>a w. (Inr \<lparr> hr_status = 302, hr_location = Some ''http://169.254.169.254'' \<rparr>, w @ [drop 7 a])),
     net_is_ip = (\<lambda>h. h \<noteq> [] \<and> is_digit (hd h)),
     net_parse = (\<lambda>a. if starts_with a ''http://'' then Some \<lparr> url_protocol = ''http:'', url_hostname = drop 7 a \<rparr> else None),
     net_resolve = (\<lambda>loc base. Some loc) \<rparr>"

lemma fetch_dials_checked_hosts_witness:
  "(\<exists>k \<le> 3 + 1. length (snd (fetch_with_ssrf_guard demo_net ''http://a.lan'' 3 [])) = k
      \<and> list_all (\<lambda>h. \<not> is_blocked_destination h) (snd (fetch_with_ssrf_guard demo_net ''http://a.lan'' 3 [])))
   \<and> snd (fetch_with_ssrf_guard demo_net ''http://a.lan'' 3 []) = [''a.lan'']"
proof
  show "\<exists>k \<le> 3 + 1. length (snd (fetch_with_ssrf_guard demo_net ''http://a.lan'' 3 [])) = k
      \<and> list_all (\<lambda>h. \<not> is_blocked_destination h) (snd (fetch_with_ssrf_guard demo_net ''http://a.lan'' 3 []))"
  proof (rule fetch_dials_checked_hosts)
    show "keeps_pred (\<lambda>w. length w = k \<and> list_all (\<lambda>h. \<not> is_blocked_destination h) w) (net_lookup demo_net h)" for k h
      by (simp add: demo_net_def keeps)
  next
    fix k a u s t
    assume u: "net_parse demo_net a = Some u"
      and ok: "assert_safe_host demo_net (url_hostname u) ''redirect target'' s = (Inr (), t)"
      and t: "length t = k \<and> list_all (\<lambda>h. \<not> is_blocked_destination h) t"
    from ok have "\<not> is_blocked_destination (url_hostname u)" by (auto simp: assert_safe_host_def throw_def)
    moreover from u have "url_hostname u = drop 7 a" by (auto simp: demo_net_def split: if_splits)
    ultimately show "length (snd (net_get demo_net a t)) = Suc k
        \<and> list_all (\<lambda>h. \<not> is_blocked_destination h) (snd (net_get demo_net a t))"
      using t by (simp add: demo_net_def)
  qed simp
  show "snd (fetch_with_ssrf_guard demo_net ''http://a.lan'' 3 []) = [''a.lan'']" by code_simp
qed

end
