(* ===== verification/Settings.thy ===== *)
theory Settings
  imports Policy Strings
begin

text \<open>
  The settings store (\<open>packages/core/src/services/settings.ts\<close>): rows with their at-rest form,
  reads that decrypt, writes that encrypt by the suffix of the key, the sentinel that keeps a
  secret, and the three typed projections. The cipher is a parameter; decrypting may throw.
\<close>

record setting_row =
  sg_key :: string
  sg_value :: string
  sg_encrypted :: bool
  sg_category :: string
  sg_updated :: time

definition setting_find :: "string \<Rightarrow> setting_row list \<Rightarrow> setting_row option" where
  "setting_find k t = table_find sg_key k t"

interpretation setting_table: keyed_table sg_key setting_find
  by unfold_locales (simp add: setting_find_def)

definition UNCHANGED_SENTINEL :: string where
  "UNCHANGED_SENTINEL = ''__UNCHANGED__''"

definition SECRET_KEY_SUFFIXES :: "string list" where
  "SECRET_KEY_SUFFIXES = [''token_secret'', ''token.secret'', ''db_password'', ''master_key'', ''session_key'',
     ''password'', ''.secret'']"

definition is_secret_key :: "string \<Rightarrow> bool" where
  "is_secret_key key \<longleftrightarrow> list_ex (ends_with key) SECRET_KEY_SUFFIXES"

subsection \<open>Reads\<close>

definition setting_get :: "(string \<Rightarrow> string res) \<Rightarrow> setting_row list \<Rightarrow> string \<Rightarrow> (string \<times> bool) option res" where
  "setting_get dec t key = (case setting_find key t of
       None \<Rightarrow> Inr None
     | Some r \<Rightarrow> rbind (if sg_encrypted r then dec (sg_value r) else Inr (sg_value r))
         (\<lambda>v. Inr (Some (v, sg_encrypted r))))"

definition get_plain :: "(string \<Rightarrow> string res) \<Rightarrow> setting_row list \<Rightarrow> string \<Rightarrow> string option res" where
  "get_plain dec t key = rbind (setting_get dec t key) (\<lambda>e. Inr (map_option fst e))"

text \<open>\<open>JSON.parse\<close> is a parameter, \<open>None\<close> when it throws.\<close>

definition get_json :: "(string \<Rightarrow> json option) \<Rightarrow> (string \<Rightarrow> string res) \<Rightarrow> setting_row list \<Rightarrow> string \<Rightarrow> json option res" where
  "get_json parse dec t key = rbind (get_plain dec t key) (\<lambda>raw. Inr (case raw of
       None \<Rightarrow> None | Some s \<Rightarrow> if s = [] then None else parse s))"

subsection \<open>Writes\<close>

definition setting_put :: "setting_row \<Rightarrow> setting_row list \<Rightarrow> setting_row list" where
  "setting_put r t = (case setting_find (sg_key r) t of
       None \<Rightarrow> t @ [r]
     | Some _ \<Rightarrow> table_update (\<lambda>x. sg_key x = sg_key r) (\<lambda>_. r) t)"

definition setting_set ::
  "(string \<Rightarrow> string) \<Rightarrow> time \<Rightarrow> string \<Rightarrow> string \<Rightarrow> bool option \<Rightarrow> string option \<Rightarrow> setting_row list \<Rightarrow> setting_row list" where
  "setting_set enc now key v encrypted category =
     (let secret = or_else encrypted (is_secret_key key)
      in setting_put \<lparr>sg_key = key, sg_value = (if secret then enc v else v), sg_encrypted = secret,
           sg_category = or_else category ''app'', sg_updated = now\<rparr>)"

definition set_secret_with_sentinel ::
  "(string \<Rightarrow> string) \<Rightarrow> (string \<Rightarrow> string res) \<Rightarrow> time \<Rightarrow> string \<Rightarrow> string \<Rightarrow> (setting_row list, unit) comp" where
  "set_secret_with_sentinel enc dec now key v t =
     (if v = UNCHANGED_SENTINEL
      then (case setting_get dec t key of
          Inl e \<Rightarrow> (Inl e, t)
        | Inr None \<Rightarrow> (Inl (err_validation (''No existing value for '' @ key)), t)
        | Inr (Some _) \<Rightarrow> (Inr (), t))
      else (Inr (), setting_set enc now key v (Some True) None t))"

subsection \<open>Projections\<close>

record proxmox_settings =
  pxs_url :: string
  pxs_token_id :: string
  pxs_token_secret :: string
  pxs_verify_ssl :: bool
  pxs_node :: "string option"
  pxs_storage :: "string option"
  pxs_network :: "string option"

record pbs_settings =
  pbs_url :: string
  pbs_token_id :: string
  pbs_token_secret :: string
  pbs_verify_ssl :: bool
  pbs_datastore :: "string option"

datatype guac_engine = Postgresql | Mariadb | Mysql

record guacamole_settings =
  gs_engine :: guac_engine
  gs_url :: string
  gs_public_url :: "string option"
  gs_db_host :: string
  gs_db_port :: json
  gs_db_name :: string
  gs_db_user :: string
  gs_db_password :: string
  gs_db_ssl :: bool

definition proxmox_projection :: "(string \<Rightarrow> string option res) \<Rightarrow> proxmox_settings option res" where
  "proxmox_projection get =
     rbind (get ''proxmox.url'') (\<lambda>address.
     if \<not> truthy address then Inr None else
     rbind (get ''proxmox.token_secret'') (\<lambda>secret.
     if secret = None then Inr None else
     rbind (get ''proxmox.token_id'') (\<lambda>tid.
     rbind (get ''proxmox.verify_ssl'') (\<lambda>ssl.
     rbind (get ''proxmox.default_node'') (\<lambda>node.
     rbind (get ''proxmox.default_storage'') (\<lambda>storage.
     rbind (get ''proxmox.default_network'') (\<lambda>network.
     Inr (Some \<lparr>pxs_url = the address, pxs_token_id = or_else tid [], pxs_token_secret = the secret,
       pxs_verify_ssl = (ssl \<noteq> Some ''false''), pxs_node = node, pxs_storage = storage, pxs_network = network\<rparr>))))))))"

definition pbs_projection :: "(string \<Rightarrow> string option res) \<Rightarrow> pbs_settings option res" where
  "pbs_projection get =
     rbind (get ''pbs.url'') (\<lambda>address.
     if \<not> truthy address then Inr None else
     rbind (get ''pbs.token_secret'') (\<lambda>secret.
     if secret = None then Inr None else
     rbind (get ''pbs.token_id'') (\<lambda>tid.
     rbind (get ''pbs.verify_ssl'') (\<lambda>ssl.
     rbind (get ''pbs.datastore'') (\<lambda>store.
     Inr (Some \<lparr>pbs_url = the address, pbs_token_id = or_else tid [], pbs_token_secret = the secret,
       pbs_verify_ssl = (ssl \<noteq> Some ''false''), pbs_datastore = store\<rparr>))))))"

definition engine_of :: "string \<Rightarrow> guac_engine" where
  "engine_of s = (if s = ''mariadb'' then Mariadb else if s = ''mysql'' then Mysql else Postgresql)"

definition guacamole_projection :: "(string \<Rightarrow> string option res) \<Rightarrow> guacamole_settings option res" where
  "guacamole_projection get =
     rbind (get ''guacamole.url'') (\<lambda>address.
     if \<not> truthy address then Inr None else
     rbind (get ''guacamole.db_password'') (\<lambda>pw.
     if pw = None then Inr None else
     rbind (get ''guacamole.db_engine'') (\<lambda>engine.
     rbind (get ''guacamole.public_url'') (\<lambda>public.
     rbind (get ''guacamole.db_host'') (\<lambda>h.
     rbind (get ''guacamole.db_port'') (\<lambda>port.
     rbind (get ''guacamole.db_name'') (\<lambda>name.
     rbind (get ''guacamole.db_user'') (\<lambda>user.
     rbind (get ''guacamole.db_ssl'') (\<lambda>ssl.
     Inr (Some \<lparr>gs_engine = engine_of (or_else engine ''postgresql''), gs_url = the address, gs_public_url = public,
       gs_db_host = or_else h [], gs_db_port = js_number (or_else port ''5432''), gs_db_name = or_else name [],
       gs_db_user = or_else user [], gs_db_password = the pw, gs_db_ssl = (ssl = Some ''true'')\<rparr>))))))))))"

subsection \<open>The store as a map\<close>

text \<open>
  The value a reader sees under each key: the projection that the code which only reads
  settings uses (\<open>settings\<close>).
\<close>

definition settings_view :: "(string \<Rightarrow> string res) \<Rightarrow> setting_row list \<Rightarrow> settings" where
  "settings_view dec t key = (case get_plain dec t key of Inl _ \<Rightarrow> None | Inr v \<Rightarrow> v)"

lemma setting_find_put:
  "setting_find k (setting_put r t) = (if k = sg_key r then Some r else setting_find k t)"
proof (cases "setting_find (sg_key r) t")
  case None
  then show ?thesis
    by (induction t) (auto simp: setting_put_def setting_find_def table_find_def split: if_splits)
next
  case (Some x)
  have "setting_find k (table_update (\<lambda>x. sg_key x = sg_key r) (\<lambda>_. r) t) =
      (if k = sg_key r then map_option (\<lambda>_. r) (setting_find k t) else setting_find k t)"
    by (induction t) (auto simp: setting_find_def table_find_def table_update_def)
  with Some show ?thesis by (simp add: setting_put_def)
qed

lemma setting_put_unique: "setting_table.unique t \<Longrightarrow> setting_table.unique (setting_put r t)"
proof (cases "setting_find (sg_key r) t")
  case None
  then show "setting_table.unique t \<Longrightarrow> ?thesis"
    using setting_table.unique_append by (simp add: setting_put_def)
next
  case (Some x)
  have "map sg_key (table_update (\<lambda>x. sg_key x = sg_key r) (\<lambda>_. r) t) = map sg_key t"
    by (simp add: table_update_def)
  then show "setting_table.unique t \<Longrightarrow> ?thesis"
    using Some by (simp add: setting_put_def setting_table.unique_def)
qed

end
