(* ===== verification/Settings_Props.thy ===== *)
theory Settings_Props
  imports Settings
begin

text \<open>
  The settings store is a map from keys to values whose secrets are encrypted at rest.
\<close>

datatype setting_write =
    Put string string "bool option" "string option"
  | PutSecret string string

fun run_write :: "(string \<Rightarrow> string) \<Rightarrow> (string \<Rightarrow> string res) \<Rightarrow> time \<Rightarrow> setting_write \<Rightarrow> setting_row list \<Rightarrow> setting_row list" where
  "run_write enc dec now (Put k v encrypted category) t = setting_set enc now k v encrypted category t"
| "run_write enc dec now (PutSecret k v) t = snd (set_secret_with_sentinel enc dec now k v t)"

fun map_write :: "setting_write \<Rightarrow> settings \<Rightarrow> settings" where
  "map_write (Put k v encrypted category) f = f(k \<mapsto> v)"
| "map_write (PutSecret k v) f = (if v = UNCHANGED_SENTINEL then f else f(k \<mapsto> v))"

text \<open>A write that names a secret key asks for the key to be stored in clear.\<close>

fun exposes :: "setting_write \<Rightarrow> bool" where
  "exposes (Put k v encrypted category) \<longleftrightarrow> is_secret_key k \<and> encrypted = Some False"
| "exposes (PutSecret k v) \<longleftrightarrow> False"

definition sealed :: "(string \<Rightarrow> string) \<Rightarrow> setting_row list \<Rightarrow> bool" where
  "sealed enc t \<longleftrightarrow> (\<forall>r \<in> set t. is_secret_key (sg_key r) \<longrightarrow> sg_encrypted r \<and> (\<exists>v. sg_value r = enc v))"

lemma view_set:
  assumes "\<forall>x. dec (enc x) = Inr x"
  shows "settings_view dec (setting_set enc now k v encrypted category t) = (settings_view dec t)(k \<mapsto> v)"
  using assms
  by (auto simp: settings_view_def get_plain_def setting_get_def setting_set_def Let_def setting_find_put)

lemma view_write:
  assumes "\<forall>x. dec (enc x) = Inr x"
  shows "settings_view dec (run_write enc dec now w t) = map_write w (settings_view dec t)"
  by (cases w)
    (auto simp: view_set [where enc = enc and dec = dec, OF assms] set_secret_with_sentinel_def split: sum.split option.split)

lemma sealed_set:
  assumes "sealed enc t" "\<not> (is_secret_key k \<and> encrypted = Some False)"
  shows "sealed enc (setting_set enc now k v encrypted category t)"
proof -
  have "is_secret_key k \<longrightarrow> or_else encrypted (is_secret_key k)"
    using assms(2) by (cases encrypted) auto
  with assms(1) show ?thesis
    by (auto simp: sealed_def setting_set_def setting_put_def Let_def split: option.split)
qed

lemma sealed_write: "sealed enc t \<Longrightarrow> \<not> exposes w \<Longrightarrow> sealed enc (run_write enc dec now w t)"
  by (cases w) (auto simp: sealed_set set_secret_with_sentinel_def split: sum.split option.split)

text \<open>C21. The settings store refines a map. With a cipher that inverts, any sequence of writes
  leaves readers exactly the values last written, where the sentinel changes nothing; keys stay
  unique, and as long as no write asks for clear text, every row under a secret key holds a
  cipher text.\<close>

theorem settings_store_refines_map:
  assumes "\<forall>x. dec (enc x) = Inr x"
  shows "settings_view dec (fold (run_write enc dec now) ws t) = fold map_write ws (settings_view dec t)
    \<and> (setting_table.unique t \<longrightarrow> setting_table.unique (fold (run_write enc dec now) ws t))
    \<and> (sealed enc t \<and> (\<forall>w \<in> set ws. \<not> exposes w) \<longrightarrow> sealed enc (fold (run_write enc dec now) ws t))"
proof (induction ws arbitrary: t)
  case (Cons w ws)
  have "setting_table.unique t \<longrightarrow> setting_table.unique (run_write enc dec now w t)"
    by (cases w) (auto simp: setting_set_def Let_def set_secret_with_sentinel_def setting_put_unique
        split: sum.split option.split)
  with Cons.IH [of "run_write enc dec now w t"] show ?case
    using view_write [where enc = enc and dec = dec, OF assms] sealed_write by auto
qed simp

lemma settings_store_refines_map_witness:
  "settings_view (\<lambda>c. Inr (rev c)) (fold (run_write rev (\<lambda>c. Inr (rev c)) 0)
      [Put ''pbs.token_secret'' ''abc'' None None, PutSecret ''pbs.token_secret'' UNCHANGED_SENTINEL] []) ''pbs.token_secret''
    = Some ''abc''
   \<and> sealed rev (fold (run_write rev (\<lambda>c. Inr (rev c)) 0)
      [Put ''pbs.token_secret'' ''abc'' None None, PutSecret ''pbs.token_secret'' UNCHANGED_SENTINEL] [])"
  using settings_store_refines_map [where enc = rev and dec = "\<lambda>c. Inr (rev c)" and t = "[]" and now = 0
      and ws = "[Put ''pbs.token_secret'' ''abc'' None None, PutSecret ''pbs.token_secret'' UNCHANGED_SENTINEL]"]
  by (simp add: sealed_def)

end
