(* ===== verification/Rotation.thy ===== *)
theory Rotation
  imports Pipeline Strings
begin

text \<open>
  Rotation of a guest password (\<open>packages/core/src/services/rotation.ts\<close>): the guest first, the
  vault second, a check of the new password and a rollback, then the Guacamole connections.

  The state is the one of the provisioning worker (of which a rotation uses the registry, the
  vault, the Guacamole tables, the audit log and the world). SSH commands and the guest agent
  are computations on the world; the host key policy of a connection is part of them.
\<close>

record ssh_run =
  sx_authenticated :: bool
  sx_detail :: string
  sx_output :: "string option"

record 'w rotation_api =
  ra_base :: "'w services"
  ra_run_ssh :: "string \<Rightarrow> string \<Rightarrow> string \<Rightarrow> string \<Rightarrow> ('w, ssh_run) comp"
  ra_agent_exec :: "string \<Rightarrow> int \<Rightarrow> string \<Rightarrow> int \<Rightarrow> ('w, int option \<times> string) comp"

text \<open>\<open>ra_run_ssh host user password command\<close>; \<open>ra_agent_exec\<close> gives the exit code and stderr.\<close>

record rotation_options =
  ro_password :: "string option"
  ro_username :: "string option"
  ro_verify :: "bool option"
  ro_force :: "bool option"

record rotation_result =
  rr_mechanism :: string
  rr_verified :: bool
  rr_details :: string
  rr_guac_synced :: bool

datatype attempt_result = Applied string | Refused string

subsection \<open>Quoting\<close>

definition has_line_break :: "string \<Rightarrow> bool" where
  "has_line_break s \<longleftrightarrow> CHR 0x0A \<in> set s \<or> CHR 0x0D \<in> set s"

definition shell_quote :: "string \<Rightarrow> string res" where
  "shell_quote v =
     (if has_line_break v
      then Inl (err_validation ''Value contains line breaks and cannot be safely quoted for shell use'')
      else Inr (concat (map (\<lambda>c. if c = CHR 0x27 then [CHR 0x27, CHR 0x5C, CHR 0x27, CHR 0x27] else [c]) v)))"

definition quote_windows_arg :: "string \<Rightarrow> string" where
  "quote_windows_arg v = [CHR 0x22] @ v @ [CHR 0x22]"

definition percent_wrapped :: "string \<Rightarrow> bool" where
  "percent_wrapped s \<longleftrightarrow> 2 \<le> length (filter (\<lambda>c. c = CHR ''%'') s)"

definition windows_username_error :: "string \<Rightarrow> string option" where
  "windows_username_error u =
     (if CHR 0x22 \<in> set u \<or> has_line_break u
      then Some ''username contains \" or line breaks, which cannot be passed to net user safely''
      else if percent_wrapped u \<or> list_ex (\<lambda>c. c \<in> set ''&|<>^'') u
      then Some ''username contains shell-significant characters that cmd.exe would interpret''
      else None)"

definition windows_password_error :: "string \<Rightarrow> string option" where
  "windows_password_error p =
     (if CHR 0x22 \<in> set p \<or> has_line_break p
      then Some ''password contains \" or line breaks, which cannot be passed to net user safely; choose another password''
      else if percent_wrapped p
      then Some ''password contains %-wrapping, which cmd.exe would expand; choose another password''
      else None)"

subsection \<open>Mechanisms\<close>

definition single_quoted :: "string \<Rightarrow> string" where
  "single_quoted s = [CHR 0x27] @ s @ [CHR 0x27]"

definition credential_line :: "string \<Rightarrow> string \<Rightarrow> string res" where
  "credential_line username password =
     rbind (shell_quote username) (\<lambda>u. rbind (shell_quote password) (\<lambda>p. Inr (u @ '':'' @ p)))"

definition ssh_command :: "string \<Rightarrow> string" where
  "ssh_command line = ''echo '' @ single_quoted line @ '' | sudo -n chpasswd 2>/dev/null || echo '' @ single_quoted line @ '' | chpasswd''"

text \<open>The pattern \<open>chpasswd: .*error\<close>, on one line of the output.\<close>

fun error_after_chpasswd :: "string \<Rightarrow> bool" where
  "error_after_chpasswd [] = False"
| "error_after_chpasswd (c # s) =
     ((starts_with (c # s) ''chpasswd: '' \<and> contains_str (drop 10 (c # s)) ''error'') \<or> error_after_chpasswd s)"

definition output_rejected :: "string \<Rightarrow> bool" where
  "output_rejected out \<longleftrightarrow> contains_str (to_lower out) ''permission denied'' \<or> contains_str (to_lower out) ''not in the sudoers''
     \<or> list_ex error_after_chpasswd (concat (map (split_on CHR 0x0D) (split_on CHR 0x0A (to_lower out))))"

definition rotate_via_ssh ::
  "'w rotation_api \<Rightarrow> string \<Rightarrow> string \<Rightarrow> string \<Rightarrow> string \<Rightarrow> ('w pstate, attempt_result) comp" where
  "rotate_via_ssh ra h username old new =
     bind (lift_res (credential_line username new)) (\<lambda>line.
     bind (world_call (ra_run_ssh ra h username old (ssh_command line))) (\<lambda>r.
     if \<not> sx_authenticated r then ret (Refused (''ssh: '' @ sx_detail r))
     else if \<not> truthy (sx_output r) \<or> output_rejected (the (sx_output r))
     then ret (Refused (''ssh-chpasswd rejected: '' @ (case sx_output r of None \<Rightarrow> ''no output'' | Some out \<Rightarrow> take 120 out)))
     else ret (Applied ''ssh-chpasswd'')))"

definition guest_command :: "string option \<Rightarrow> string \<Rightarrow> string \<Rightarrow> (string + string) res" where
  "guest_command os username password =
     (if os = Some ''windows''
      then (case (case windows_password_error password of Some p \<Rightarrow> Some p | None \<Rightarrow> windows_username_error username) of
          Some problem \<Rightarrow> Inr (Inl (''windows-args: '' @ problem))
        | None \<Rightarrow> Inr (Inr (''net user '' @ quote_windows_arg username @ '' '' @ quote_windows_arg password)))
      else rbind (credential_line username password) (\<lambda>line. Inr (Inr (''echo '' @ single_quoted line @ '' | chpasswd''))))"

definition exit_text :: "int option \<Rightarrow> string" where
  "exit_text c = (case c of None \<Rightarrow> ''null'' | Some n \<Rightarrow> int_str n)"

definition rotate_via_guest_agent ::
  "'w rotation_api \<Rightarrow> string \<Rightarrow> int \<Rightarrow> string \<Rightarrow> string \<Rightarrow> ('w pstate, attempt_result) comp" where
  "rotate_via_guest_agent ra node vmid username new =
     bind (gets (\<lambda>s. case find_by_id_key (reg (p_app s)) vmid node of None \<Rightarrow> None | Some v \<Rightarrow> v_os_type v)) (\<lambda>os.
     bind (lift_res (guest_command os username new)) (\<lambda>c. case c of
        Inl problem \<Rightarrow> ret (Refused problem)
      | Inr command \<Rightarrow>
         try_catch (bind (world_call (ra_agent_exec ra node vmid command 60000)) (\<lambda>r.
             ret (if fst r \<noteq> Some 0
                  then Refused (''guest-agent exit '' @ exit_text (fst r) @ '': '' @ take 120 (snd r))
                  else Applied ''guest-agent'')))
           (\<lambda>e. ret (Refused (''guest-agent: '' @ err_message e)))))"

text \<open>The first mechanism that reports success; one that throws or is refused leaves it to the next.\<close>

fun first_applied :: "('w pstate, attempt_result) comp list \<Rightarrow> ('w pstate, string option) comp" where
  "first_applied [] = ret None"
| "first_applied (a # rest) =
     bind (try_catch a (\<lambda>e. ret (Refused (err_message e)))) (\<lambda>r. case r of
        Applied m \<Rightarrow> ret (Some m)
      | Refused _ \<Rightarrow> first_applied rest)"

definition mechanisms ::
  "'w rotation_api \<Rightarrow> vm_row \<Rightarrow> string \<Rightarrow> string \<Rightarrow> string \<Rightarrow> ('w pstate, attempt_result) comp list" where
  "mechanisms ra vm username old new =
     (if v_os_type vm = Some ''windows'' then [rotate_via_guest_agent ra (v_node vm) (v_vmid vm) username new]
      else [rotate_via_ssh ra (the (v_ip vm)) username old new,
            rotate_via_guest_agent ra (v_node vm) (v_vmid vm) username new])"

subsection \<open>The rotation\<close>

definition rot_event ::
  "'w rotation_api \<Rightarrow> string \<times> string \<Rightarrow> string \<Rightarrow> (string \<times> json) list \<Rightarrow> ('w pstate, unit) comp" where
  "rot_event ra actor vm detail = modify (\<lambda>s. s\<lparr>p_audit := audit_record (p_now (ra_base ra) s)
     \<lparr>au_event = ''PASSWORD_ROTATED'', au_actor = Some (fst actor), au_actor_name = Some (snd actor), au_vm = Some vm,
      au_job = None, au_ip = None, au_detail = Some (JObj detail)\<rparr> (p_audit s)\<rparr>)"

definition set_rot_status :: "'w rotation_api \<Rightarrow> string \<Rightarrow> cred_status \<Rightarrow> ('w pstate, unit) comp" where
  "set_rot_status ra vm st = on_creds (ra_base ra) (\<lambda>_. cred_set_status vm st)"

definition store_old :: "'w rotation_api \<Rightarrow> string \<Rightarrow> string \<Rightarrow> string \<Rightarrow> cred_status \<Rightarrow> ('w pstate, unit) comp" where
  "store_old ra vm username old st =
     bind (world_call (sv_new_id (ra_base ra))) (\<lambda>nid.
     on_creds (ra_base ra) (\<lambda>now t. snd (cred_store (sv_encrypt (ra_base ra)) now nid vm username old st t)))"

definition claim :: "'w rotation_api \<Rightarrow> string \<Rightarrow> bool \<Rightarrow> string \<times> string \<Rightarrow> ('w pstate, unit) comp" where
  "claim ra vm force actor =
     bind (\<lambda>s. case try_claim_rotation vm (p_creds s) of (b, t) \<Rightarrow> (Inr b, s\<lparr>p_creds := t\<rparr>)) (\<lambda>claimed.
     if claimed then ret ()
     else if force then andthen (set_rot_status ra vm CredRotating)
       (rot_event ra actor vm [(''result'', JStr ''forced-retry-after-stuck-claim'')])
     else throw (err_conflict ''A credential rotation is already in progress for this VM''))"

definition msg_restored :: "string \<Rightarrow> string" where
  "msg_restored d = ''New credential failed verification ('' @ d @ ''). The previous credential was restored.''"

definition msg_unconfirmed :: string where
  "msg_unconfirmed = ''New credential failed verification and automatic rollback could not be confirmed. The stored credential may not match the guest - reset the password out-of-band and update the vault.''"

definition try_restore :: "'w rotation_api \<Rightarrow> string \<Rightarrow> string \<Rightarrow> string \<Rightarrow> string \<Rightarrow> ('w pstate, string option) comp" where
  "try_restore ra h username old new =
     try_catch (bind (rotate_via_ssh ra h username new old) (\<lambda>r. ret (case r of
         Applied _ \<Rightarrow> None | Refused m \<Rightarrow> Some m))) (\<lambda>e. ret (Some (err_message e)))"

definition confirm_restore :: "'w rotation_api \<Rightarrow> string \<Rightarrow> string \<Rightarrow> string \<Rightarrow> string option \<Rightarrow> ('w pstate, bool) comp" where
  "confirm_restore ra h username old problem =
     (if problem \<noteq> None then ret False
      else bind (world_call (sv_probe_ssh (ra_base ra) (Some h) username old)) (\<lambda>r. ret (ssh_authenticated r)))"

definition close_rollback ::
  "'w rotation_api \<Rightarrow> string \<times> string \<Rightarrow> string \<Rightarrow> cred_row \<Rightarrow> string \<Rightarrow> string \<Rightarrow> string option \<Rightarrow> bool
   \<Rightarrow> ('w pstate, 'a) comp" where
  "close_rollback ra actor vm existing old why problem restored =
     bind (store_old ra vm (cr_username existing) old (if restored then CredVerified else CredFailed)) (\<lambda>_.
     bind (rot_event ra actor vm
       (if restored then [(''result'', JStr ''rolled-back''), (''reason'', JStr (''verification failed: '' @ why))]
        else [(''result'', JStr ''rollback-failed''), (''reason'', JStr (''verification failed: '' @ why @ ''; rollback ''
                @ or_else problem ''could not be confirmed''))])) (\<lambda>_.
     throw (err_external ''Guest'' (if restored then msg_restored why else msg_unconfirmed))))"

text \<open>The branch after a failed check: it always throws.\<close>

definition rollback ::
  "'w rotation_api \<Rightarrow> string \<times> string \<Rightarrow> string \<Rightarrow> string \<Rightarrow> cred_row \<Rightarrow> string \<Rightarrow> string \<Rightarrow> string \<Rightarrow> string
   \<Rightarrow> ('w pstate, 'a) comp" where
  "rollback ra actor vm h existing username old new why =
     bind (try_restore ra h username old new) (\<lambda>problem.
     bind (confirm_restore ra h username old problem) (\<lambda>restored.
     close_rollback ra actor vm existing old why problem restored))"

definition check_new ::
  "'w rotation_api \<Rightarrow> string \<times> string \<Rightarrow> string \<Rightarrow> vm_row \<Rightarrow> cred_row \<Rightarrow> string \<Rightarrow> string \<Rightarrow> string
   \<Rightarrow> ('w pstate, bool) comp" where
  "check_new ra actor i vm existing username old new =
     (if v_os_type vm = Some ''windows'' then world_call (sv_probe_tcp (ra_base ra) (v_ip vm) 3389)
      else bind (world_call (sv_probe_ssh (ra_base ra) (v_ip vm) username new)) (\<lambda>r.
           if ssh_authenticated r then ret True
           else rollback ra actor i (the (v_ip vm)) existing username old new (ssh_detail r)))"

definition sync_guacamole :: "'w rotation_api \<Rightarrow> string \<Rightarrow> string \<Rightarrow> ('w pstate, string option) comp" where
  "sync_guacamole ra vm new =
     try_catch (bind (world_call (sv_guac_db (ra_base ra))) (\<lambda>_.
         bind (on_guac (update_connection_password (sv_encrypt (ra_base ra)) vm new)) (\<lambda>_. ret None)))
       (\<lambda>e. ret (Some (err_message e)))"

definition details_text :: "bool \<Rightarrow> bool \<Rightarrow> string" where
  "details_text windows synced =
     (if windows then ''Transport-level check only; RDP authentication is verified when opened'' else ''SSH authentication verified'')
     @ (if synced then [] else ''. WARNING: the Guacamole connection password was NOT updated - remote sessions will fail until it is resynced.'')"

definition msg_not_applied :: string where
  "msg_not_applied = ''Failed to apply the new password on the guest. The previous credential remains in use. Reasons: all mechanisms failed''"

definition after_claim ::
  "'w rotation_api \<Rightarrow> string \<times> string \<Rightarrow> string \<Rightarrow> vm_row \<Rightarrow> cred_row \<Rightarrow> string \<Rightarrow> string \<Rightarrow> string \<Rightarrow> bool
   \<Rightarrow> ('w pstate, rotation_result) comp" where
  "after_claim ra actor i vm existing username old new check =
     bind (try_catch (world_call (sv_client (ra_base ra)))
        (\<lambda>e. andthen (set_rot_status ra i (cr_status existing)) (throw e))) (\<lambda>_.
     bind (first_applied (mechanisms ra vm username old new)) (\<lambda>applied. case applied of
        None \<Rightarrow> bind (set_rot_status ra i (cr_status existing)) (\<lambda>_.
          bind (rot_event ra actor i [(''result'', JStr ''failed''), (''mechanism'', JStr ''none-applied'')]) (\<lambda>_.
          throw (err_external ''Guest'' msg_not_applied)))
      | Some mechanism \<Rightarrow>
          bind (if check then check_new ra actor i vm existing username old new else ret False) (\<lambda>verified.
          bind (\<lambda>s. case cred_rotate (sv_encrypt (ra_base ra)) (p_now (ra_base ra) s) i username new (p_creds s) of
             (r, t) \<Rightarrow> (r, s\<lparr>p_creds := t\<rparr>)) (\<lambda>_.
          bind (if verified then on_creds (ra_base ra) (\<lambda>now. mark_rotated_success now i)
                else set_rot_status ra i CredProvisioned) (\<lambda>_.
          bind (sync_guacamole ra i new) (\<lambda>problem.
          bind (rot_event ra actor i [(''result'', JStr (if problem = None then ''success'' else ''success-guac-pending'')),
             (''mechanism'', JStr mechanism), (''verified'', JBool verified), (''guacSynced'', JBool (problem = None)),
             (''guacError'', json_opt problem)]) (\<lambda>_.
          ret \<lparr>rr_mechanism = mechanism, rr_verified = verified,
               rr_details = details_text (v_os_type vm = Some ''windows'') (problem = None),
               rr_guac_synced = (problem = None)\<rparr>)))))))"

definition rotate_vm_credential ::
  "'w rotation_api \<Rightarrow> string \<Rightarrow> rotation_options \<Rightarrow> string \<times> string \<Rightarrow> ('w pstate, rotation_result) comp" where
  "rotate_vm_credential ra i opts actor =
     bind (\<lambda>s. (require_by_id (reg (p_app s)) i, s)) (\<lambda>vm.
     bind (gets (\<lambda>s. cred_of i (p_creds s))) (\<lambda>row. case row of
        None \<Rightarrow> throw (err_not_found ''No credential stored for this VM'')
      | Some existing \<Rightarrow>
     if \<not> truthy (v_ip vm)
     then throw (err_validation ''VM has no known IP address. Credential rotation requires a reachable guest.'')
     else if v_status vm \<noteq> VmRunning \<and> v_os_type vm = Some ''linux''
     then throw (err_validation ''VM must be running to rotate a credential online'')
     else
       let username = or_else (ro_username opts) (cr_username existing);
           force = (ro_force opts = Some True) in
       bind (lift_res (sv_decrypt (ra_base ra) (cr_cipher existing))) (\<lambda>old.
       bind (case ro_password opts of Some p \<Rightarrow> ret p | None \<Rightarrow> world_call (sv_new_password (ra_base ra))) (\<lambda>new.
       if cr_status existing = CredRotating \<and> \<not> force
       then throw (err_conflict ''A credential rotation is already in progress for this VM'')
       else bind (claim ra i force actor) (\<lambda>_.
         after_claim ra actor i vm existing username old new (ro_verify opts \<noteq> Some False))))))"

end
