(* ===== verification/Rotation_Props.thy ===== *)
theory Rotation_Props
  imports Rotation Worker_Demo
begin

text \<open>
  What a rotation leaves in the vault on every outcome, that no password or user name leaves
  the quotes of the shell command, and the case in which guest and vault come apart.
\<close>

subsection \<open>What leaves the vault alone\<close>

definition quiet :: "('w pstate, 'a) comp \<Rightarrow> bool" where
  "quiet m \<longleftrightarrow> (\<forall>s. p_creds (snd (m s)) = p_creds s)"

named_theorems quiet \<open>computations that do not touch the vault\<close>

lemma quietD: "quiet m \<Longrightarrow> m s = (r, t) \<Longrightarrow> p_creds t = p_creds s"
  by (auto simp: quiet_def dest: spec [of _ s])

lemma quiet_basic [quiet]:
  "quiet (ret x)" "quiet (throw e)" "quiet (gets f)" "quiet (lift_res r)" "quiet (world_call m)" "quiet (on_guac g)"
  "quiet (rot_event ra actor vm d)"
  by (simp_all add: quiet_def comp_defs world_call_def on_guac_def rot_event_def split: prod.split)

lemma quiet_bind [quiet]: "quiet m \<Longrightarrow> (\<And>x. quiet (f x)) \<Longrightarrow> quiet (bind m f)"
  by (auto simp: quiet_def bind_def split: prod.split sum.split) (metis snd_conv)+

lemma quiet_try [quiet]: "quiet m \<Longrightarrow> (\<And>e. quiet (h e)) \<Longrightarrow> quiet (try_catch m h)"
  by (auto simp: quiet_def try_catch_def split: prod.split sum.split) (metis snd_conv)+

lemma quiet_if [quiet]: "quiet m \<Longrightarrow> quiet n \<Longrightarrow> quiet (if b then m else n)"
  by simp

lemma quiet_option [quiet]: "quiet m \<Longrightarrow> (\<And>y. quiet (f y)) \<Longrightarrow> quiet (case x of None \<Rightarrow> m | Some y \<Rightarrow> f y)"
  by (cases x) auto

lemma quiet_sum [quiet]: "(\<And>a. quiet (f a)) \<Longrightarrow> (\<And>b. quiet (g b)) \<Longrightarrow> quiet (case x of Inl a \<Rightarrow> f a | Inr b \<Rightarrow> g b)"
  by (cases x) auto

lemma quiet_attempt [quiet]: "(\<And>a. quiet (f a)) \<Longrightarrow> (\<And>b. quiet (g b)) \<Longrightarrow> quiet (case x of Applied a \<Rightarrow> f a | Refused b \<Rightarrow> g b)"
  by (cases x) auto

lemma quiet_ssh [quiet]: "quiet (rotate_via_ssh ra h u old new)"
  unfolding rotate_via_ssh_def by (intro quiet)

lemma quiet_agent [quiet]: "quiet (rotate_via_guest_agent ra node vmid u new)"
  unfolding rotate_via_guest_agent_def by (intro quiet)

lemma quiet_first [quiet]: "\<forall>a \<in> set as. quiet a \<Longrightarrow> quiet (first_applied as)"
  by (induction as) (auto intro!: quiet)

lemma quiet_mechanisms [quiet]: "\<forall>a \<in> set (mechanisms ra vm u old new). quiet a"
  by (simp add: mechanisms_def quiet)

lemma quiet_sync [quiet]: "quiet (sync_guacamole ra vm new)"
  unfolding sync_guacamole_def by (intro quiet)

subsection \<open>The rollback\<close>

text \<open>The vault after a rotation that did not succeed: the row it found, back in its former state.\<close>

definition put_back ::
  "'w rotation_api \<Rightarrow> string \<Rightarrow> cred_row \<Rightarrow> string \<Rightarrow> cred_row list \<Rightarrow> cred_row list \<Rightarrow> bool" where
  "put_back ra i existing old t t' \<longleftrightarrow> t' = t \<or> t' = cred_set_status i (cr_status existing) t
     \<or> (\<exists>now nid st. t' = snd (cred_store (sv_encrypt (ra_base ra)) now nid i (cr_username existing) old st t))"

lemma store_old_run:
  assumes "store_old ra i (cr_username existing) old st s = (r, t)"
  shows "put_back ra i existing old (p_creds s) (p_creds t)"
proof -
  obtain x w where id: "sv_new_id (ra_base ra) (p_world s) = (x, w)" by fastforce
  show ?thesis
  proof (cases x)
    case (Inl e)
    with assms id show ?thesis by (auto simp: store_old_def bind_def world_call_def put_back_def)
  next
    case (Inr nid)
    with assms id have "p_creds t = snd (cred_store (sv_encrypt (ra_base ra)) (p_now (ra_base ra) (s\<lparr>p_world := w\<rparr>)) nid i
        (cr_username existing) old st (p_creds s))"
      by (auto simp: store_old_def bind_def world_call_def on_creds_def modify_def)
    then show ?thesis unfolding put_back_def by blast
  qed
qed

lemma quiet_restore [quiet]: "quiet (try_restore ra h u old new)" "quiet (confirm_restore ra h u old problem)"
  unfolding try_restore_def confirm_restore_def by (intro quiet)+

lemma close_rollback_run:
  assumes "close_rollback ra actor i existing old why problem restored s = (r, t)"
  shows "(\<exists>e. r = Inl e) \<and> put_back ra i existing old (p_creds s) (p_creds t)"
proof -
  obtain x u where st: "store_old ra i (cr_username existing) old (if restored then CredVerified else CredFailed) s = (x, u)"
    by fastforce
  have "(\<exists>e. r = Inl e) \<and> p_creds t = p_creds u"
    using assms st unfolding close_rollback_def
    by (cases x) (auto simp: bind_def throw_def rot_event_def modify_def)
  with store_old_run [OF st] show ?thesis by simp
qed

lemma rollback_run:
  assumes "rollback ra actor i h existing u old new why s = (r, t)"
  shows "(\<exists>e. r = Inl e) \<and> put_back ra i existing old (p_creds s) (p_creds t)"
proof (cases r)
  case (Inr x)
  with assms obtain p s1 b s2 where
    "close_rollback ra actor i existing old why p b s2 = (Inr x, t)"
    by (auto simp: rollback_def bind_Inr_iff)
  with close_rollback_run show ?thesis by blast
next
  case (Inl e)
  from assms Inl consider "try_restore ra h u old new s = (Inl e, t)"
    | p s1 where "try_restore ra h u old new s = (Inr p, s1)" "confirm_restore ra h u old p s1 = (Inl e, t)"
    | p s1 b s2 where "try_restore ra h u old new s = (Inr p, s1)" "confirm_restore ra h u old p s1 = (Inr b, s2)"
        "close_rollback ra actor i existing old why p b s2 = (r, t)"
    by (simp add: rollback_def bind_Inl_iff) blast
  then have "put_back ra i existing old (p_creds s) (p_creds t)"
  proof cases
    case 1
    show ?thesis using quietD [OF quiet_restore(1) 1] by (simp add: put_back_def)
  next
    case 2
    with quietD [OF quiet_restore(1) 2(1)] quietD [OF quiet_restore(2) 2(2)] show ?thesis by (simp add: put_back_def)
  next
    case 3
    with quietD [OF quiet_restore(1) 3(1)] quietD [OF quiet_restore(2) 3(2)] close_rollback_run [OF 3(3)]
    show ?thesis by simp
  qed
  with Inl show ?thesis by simp
qed

text \<open>What a check that passes has seen.\<close>

definition seen_working :: "'w rotation_api \<Rightarrow> vm_row \<Rightarrow> string \<Rightarrow> string \<Rightarrow> bool" where
  "seen_working ra vm u new \<longleftrightarrow>
     (if v_os_type vm = Some ''windows''
      then \<exists>w w'. sv_probe_tcp (ra_base ra) (v_ip vm) 3389 w = (Inr True, w')
      else \<exists>w w' r. sv_probe_ssh (ra_base ra) (v_ip vm) u new w = (Inr r, w') \<and> ssh_authenticated r)"

lemma check_new_run:
  assumes "check_new ra actor i vm existing u old new s = (r, t)"
  shows "case r of Inl e \<Rightarrow> put_back ra i existing old (p_creds s) (p_creds t)
    | Inr b \<Rightarrow> p_creds t = p_creds s \<and> (b \<longrightarrow> seen_working ra vm u new)"
proof (cases "v_os_type vm = Some ''windows''")
  case True
  with assms have probe: "sv_probe_tcp (ra_base ra) (v_ip vm) 3389 (p_world s) = (r, p_world t)" "p_creds t = p_creds s"
    by (auto simp: check_new_def world_call_def split: prod.splits)
  then have "r = Inr True \<Longrightarrow> seen_working ra vm u new"
    unfolding seen_working_def using True by auto
  with probe(2) show ?thesis by (cases r) (auto simp: put_back_def)
next
  case False
  obtain r1 w where p: "sv_probe_ssh (ra_base ra) (v_ip vm) u new (p_world s) = (r1, w)" by fastforce
  show ?thesis
  proof (cases r1)
    case (Inl e)
    with assms False p show ?thesis
      by (auto simp: check_new_def bind_def world_call_def put_back_def)
  next
    case (Inr x)
    show ?thesis
    proof (cases "ssh_authenticated x")
      case True
      with assms False p Inr have "r = Inr True" "p_creds t = p_creds s"
        by (auto simp: check_new_def bind_def world_call_def ret_def)
      moreover have "seen_working ra vm u new"
        using False p Inr True unfolding seen_working_def by metis
      ultimately show ?thesis by simp
    next
      case no: False
      with assms False p Inr have "rollback ra actor i (the (v_ip vm)) existing u old new (ssh_detail x) (s\<lparr>p_world := w\<rparr>) = (r, t)"
        by (simp add: check_new_def bind_def world_call_def)
      from rollback_run [OF this] show ?thesis by auto
    qed
  qed
qed

subsection \<open>The vault after a rotation\<close>

lemma cred_of_set_status:
  "cred_of v (cred_set_status i st t) = (if v = i then map_option (\<lambda>r. r\<lparr>cr_status := st\<rparr>) (cred_of v t) else cred_of v t)"
  by (simp add: cred_set_status_def cred_table.lookup_update cred_table.lookup_update_other)

text \<open>Both passwords are the one the row held when it was claimed.\<close>

definition still_opens :: "'w rotation_api \<Rightarrow> string \<Rightarrow> string \<Rightarrow> string \<Rightarrow> cred_row list \<Rightarrow> bool" where
  "still_opens ra i u old t \<longleftrightarrow>
     (\<exists>r. cred_of i t = Some r \<and> sv_decrypt (ra_base ra) (cr_cipher r) = Inr old \<and> cr_username r = u)"

lemma put_back_opens:
  assumes "put_back ra i existing old t t'" "creds_wf t" "still_opens ra i (cr_username existing) old t"
    and "\<forall>p. sv_decrypt (ra_base ra) (sv_encrypt (ra_base ra) p) = Inr p"
  shows "still_opens ra i (cr_username existing) old t' \<and> (\<forall>v. v \<noteq> i \<longrightarrow> cred_of v t' = cred_of v t)"
proof -
  from assms(1) consider "t' = t" | "t' = cred_set_status i (cr_status existing) t"
    | now nid st where "t' = snd (cred_store (sv_encrypt (ra_base ra)) now nid i (cr_username existing) old st t)"
    unfolding put_back_def by blast
  then show ?thesis
  proof cases
    case 3
    have "still_opens ra i (cr_username existing) old t'"
      using cred_store_lookup(1) [OF assms(2), of i "sv_encrypt (ra_base ra)" now nid "cr_username existing" old st] assms(4) 3
      unfolding still_opens_def by fastforce
    then show ?thesis
      using cred_store_lookup(2) [OF assms(2)] 3 by blast
  qed (use assms(3) in \<open>auto simp: still_opens_def cred_of_set_status\<close>)
qed

text \<open>The vault after a rotation that succeeded.\<close>

definition renewed ::
  "'w rotation_api \<Rightarrow> string \<Rightarrow> string \<Rightarrow> string \<Rightarrow> bool \<Rightarrow> cred_row list \<Rightarrow> cred_row list \<Rightarrow> bool" where
  "renewed ra i u new verified t t' \<longleftrightarrow>
     (\<exists>r. cred_of i t' = Some r \<and> cr_cipher r = sv_encrypt (ra_base ra) new \<and> cr_username r = u
        \<and> cr_status r = (if verified then CredVerified else CredProvisioned))
     \<and> (\<forall>v. v \<noteq> i \<longrightarrow> cred_of v t' = cred_of v t)"

lemma cred_rotate_run:
  assumes "creds_wf t" "cred_of i t = Some r"
  shows "\<exists>x. cred_rotate enc now i u new t = (Inr (), snd (cred_rotate enc now i u new t))
      \<and> cred_of i (snd (cred_rotate enc now i u new t)) = Some x \<and> cr_cipher x = enc new \<and> cr_username x = u
      \<and> (\<forall>v. v \<noteq> i \<longrightarrow> cred_of v (snd (cred_rotate enc now i u new t)) = cred_of v t)"
proof -
  define t1 where "t1 = cred_update_row enc now (cr_id r) u new CredRotating t"
  have wf: "creds_wf t1" unfolding t1_def by (rule creds_wf_ops(1) [OF assms(1)])
  have one: "cred_of v t1 = (if v = i then Some (r\<lparr>cr_username := u, cr_cipher := enc new, cr_key := key_id_of (enc new),
      cr_status := CredRotating, cr_verified := cr_verified r\<rparr>) else cred_of v t)" for v
    unfolding t1_def by (simp add: cred_of_update_row [OF assms])
  have "snd (cred_rotate enc now i u new t) = table_update (\<lambda>x. cr_id x = cr_id r) (\<lambda>x. x\<lparr>cr_rotated := Some now\<rparr>) t1"
    using assms(2) by (simp add: cred_rotate_def t1_def)
  also have "\<dots> = table_update (\<lambda>x. cr_vm x = i) (\<lambda>x. x\<lparr>cr_rotated := Some now\<rparr>) t1"
  proof -
    have "cred_of i t1 = Some (r\<lparr>cr_username := u, cr_cipher := enc new, cr_key := key_id_of (enc new),
      cr_status := CredRotating, cr_verified := cr_verified r\<rparr>)" by (simp only: one if_True simp_thms)
    from same_cred_row [OF wf this] have "x \<in> set t1 \<Longrightarrow> cr_id x = cr_id r \<longleftrightarrow> cr_vm x = i" for x by simp
    then show ?thesis by (simp add: table_update_def)
  qed
  finally have t2: "snd (cred_rotate enc now i u new t) = table_update (\<lambda>x. cr_vm x = i) (\<lambda>x. x\<lparr>cr_rotated := Some now\<rparr>) t1" .
  have "fst (cred_rotate enc now i u new t) = Inr ()"
    using assms(2) by (simp add: cred_rotate_def)
  with t2 one show ?thesis
    by (simp add: prod_eq_iff cred_table.lookup_update cred_table.lookup_update_other)
qed

lemma after_claim_run:
  assumes run: "after_claim ra actor i vm existing u old new check s = (r, t)"
    and wf: "creds_wf (p_creds s)" and row: "cred_of i (p_creds s) = Some row"
  shows "case r of Inl e \<Rightarrow> put_back ra i existing old (p_creds s) (p_creds t)
    | Inr res \<Rightarrow> renewed ra i u new (rr_verified res) (p_creds s) (p_creds t) \<and> (rr_verified res \<longrightarrow> seen_working ra vm u new)"
proof -
  define restoring where "restoring = (\<lambda>t :: 'a pstate. put_back ra i existing old (p_creds s) (p_creds t))"
  have status: "restoring (snd (set_rot_status ra i (cr_status existing) s'))" if "p_creds s' = p_creds s" for s'
    using that by (simp add: restoring_def put_back_def set_rot_status_def on_creds_def modify_def)
  obtain r0 s0 where client: "world_call (sv_client (ra_base ra)) s = (r0, s0)" by fastforce
  have c0: "p_creds s0 = p_creds s" using client by (auto simp: world_call_def split: prod.splits)
  obtain r1 s1 where first: "first_applied (mechanisms ra vm u old new) s0 = (r1, s1)" by fastforce
  have c1: "p_creds s1 = p_creds s" using quietD [OF quiet_first [OF quiet_mechanisms] first] c0 by simp
  consider (unreachable) e where "r0 = Inl e" | (thrown) e where "r0 = Inr ()" "r1 = Inl e"
    | (none) "r0 = Inr ()" "r1 = Inr None" | (applied) m where "r0 = Inr ()" "r1 = Inr (Some m)"
    by (cases r0; cases r1; auto)
  then show ?thesis
  proof cases
    case (unreachable e)
    have "(\<exists>e. r = Inl e) \<and> t = snd (set_rot_status ra i (cr_status existing) s0)"
      using run client unreachable
      by (auto simp: after_claim_def bind_def try_catch_def andthen_def throw_def set_rot_status_def on_creds_def modify_def)
    with status [OF c0] show ?thesis by (auto simp: restoring_def)
  next
    case (thrown e)
    with run client first c1 show ?thesis
      by (auto simp: after_claim_def bind_def try_catch_def put_back_def)
  next
    case none
    have "(\<exists>e. r = Inl e) \<and> p_creds t = p_creds (snd (set_rot_status ra i (cr_status existing) s1))"
      using run client first none
      by (auto simp: after_claim_def bind_def try_catch_def throw_def set_rot_status_def on_creds_def modify_def rot_event_def)
    with status [OF c1] show ?thesis by (auto simp: restoring_def)
  next
    case (applied m)
    obtain b s2 where checked: "(if check then check_new ra actor i vm existing u old new else ret False) s1 = (b, s2)"
      by fastforce
    have c2: "case b of Inl e \<Rightarrow> put_back ra i existing old (p_creds s) (p_creds s2)
      | Inr v \<Rightarrow> p_creds s2 = p_creds s \<and> (v \<longrightarrow> seen_working ra vm u new)"
      using checked check_new_run [of ra actor i vm existing u old new s1 b s2] c1
      by (cases check) (auto simp: ret_def split: sum.splits)
    show ?thesis
    proof (cases b)
      case (Inl e)
      with run client first applied checked have "(\<exists>e. r = Inl e) \<and> t = s2"
        by (auto simp: after_claim_def bind_def try_catch_def)
      with c2 Inl show ?thesis by auto
    next
      case (Inr v)
      with c2 have c3: "p_creds s2 = p_creds s" by simp
      define enc where "enc = sv_encrypt (ra_base ra)"
      define now where "now = p_now (ra_base ra) s2"
      define c where "c = snd (cred_rotate enc now i u new (p_creds s))"
      from cred_rotate_run [OF wf row, of enc now u new] obtain x
        where rot: "cred_rotate enc now i u new (p_creds s2) = (Inr (), c)" "cred_of i c = Some x" "cr_cipher x = enc new"
          "cr_username x = u" "\<forall>v. v \<noteq> i \<longrightarrow> cred_of v c = cred_of v (p_creds s)"
        unfolding c3 c_def by blast
      define s3 where "s3 = s2\<lparr>p_creds := c\<rparr>"
      obtain q s4 where mark: "(if v then on_creds (ra_base ra) (\<lambda>now. mark_rotated_success now i)
          else set_rot_status ra i CredProvisioned) s3 = (q, s4)" by fastforce
      have q: "q = Inr ()" and c4: "\<exists>now. p_creds s4 = (if v then mark_rotated_success now i c else cred_set_status i CredProvisioned c)"
        using mark by (auto simp: s3_def on_creds_def modify_def set_rot_status_def split: if_splits)
      obtain g s5 where sync: "sync_guacamole ra i new s4 = (g, s5)" by fastforce
      have c5: "p_creds s5 = p_creds s4" using quietD [OF quiet_sync sync] .
      obtain problem where g: "g = Inr problem"
        using sync by (auto simp: sync_guacamole_def try_catch_def ret_def split: prod.splits sum.splits)
      have "(\<exists>res. r = Inr res \<and> rr_verified res = v) \<and> p_creds t = p_creds s5"
        using run client first applied checked Inr rot(1) mark q sync g
        by (auto simp: after_claim_def bind_def try_catch_def enc_def now_def s3_def rot_event_def modify_def ret_def)
      moreover have "renewed ra i u new v (p_creds s) (p_creds s4)"
        using c4 rot unfolding renewed_def
        by (auto simp: mark_rotated_success_def cred_set_status_def cred_table.lookup_update cred_table.lookup_update_other enc_def)
      ultimately show ?thesis using c2 Inr c5 by auto
    qed
  qed
qed

lemma cred_of_update:
  "(\<And>r. cr_vm (f r) = cr_vm r) \<Longrightarrow> cred_of v (table_update P f t) = map_option (\<lambda>r. if P r then f r else r) (cred_of v t)"
  by (induction t) (auto simp: cred_of_def table_find_def table_update_def)

lemma claim_run:
  assumes "claim ra i force actor s = (r, t)"
  shows "(still_opens ra i u old (p_creds s) \<longrightarrow> still_opens ra i u old (p_creds t))
    \<and> (\<forall>v. v \<noteq> i \<longrightarrow> cred_of v (p_creds t) = cred_of v (p_creds s)) \<and> (creds_wf (p_creds s) \<longrightarrow> creds_wf (p_creds t))"
proof -
  define c where "c = snd (try_claim_rotation i (p_creds s))"
  have "p_creds t = c \<or> p_creds t = cred_set_status i CredRotating c"
    using assms by (auto simp: claim_def bind_def c_def ret_def throw_def andthen_def set_rot_status_def on_creds_def
        modify_def rot_event_def split: prod.splits if_splits)
  moreover have "cred_of v c = map_option (\<lambda>r. if claimable i r then r\<lparr>cr_status := CredRotating\<rparr> else r) (cred_of v (p_creds s))" for v
    by (simp add: c_def try_claim_rotation_def cred_of_update)
  moreover have "map_option (\<lambda>r. if claimable i r then r\<lparr>cr_status := CredRotating\<rparr> else r) (cred_of v (p_creds s))
      = cred_of v (p_creds s)" if "v \<noteq> i" for v
    using cred_table.lookup_SomeD [of v "p_creds s"] that by (cases "cred_of v (p_creds s)") (auto simp: claimable_def)
  ultimately show ?thesis
    using creds_wf_ops(4,5) unfolding c_def [symmetric]
    by (auto simp: still_opens_def cred_of_set_status c_def option.map_ident_strong)
qed

text \<open>C22. The vault never claims a password that the guest was not seen to accept. With a cipher
  that inverts, and whatever the guest, Proxmox and Guacamole do: a rotation that throws leaves
  the row decrypting to the old password under the old user name; one that returns has
  replaced it by the new password, in the state VERIFIED only if a check with that password
  (for Windows, of the RDP port) has just succeeded. No other machine's credential changes.\<close>

theorem rotation_vault_exact:
  assumes "creds_wf (p_creds s)" and "\<forall>p. sv_decrypt (ra_base ra) (sv_encrypt (ra_base ra) p) = Inr p"
    and "cred_of i (p_creds s) = Some existing" and "sv_decrypt (ra_base ra) (cr_cipher existing) = Inr old"
    and "rotate_vm_credential ra i opts actor s = (r, t)"
  shows "(\<forall>v. v \<noteq> i \<longrightarrow> cred_of v (p_creds t) = cred_of v (p_creds s)) \<and> (case r of
      Inl e \<Rightarrow> still_opens ra i (cr_username existing) old (p_creds t)
    | Inr res \<Rightarrow> \<exists>new vm. (\<forall>p. ro_password opts = Some p \<longrightarrow> new = p) \<and> require_by_id (reg (p_app s)) i = Inr vm
        \<and> renewed ra i (or_else (ro_username opts) (cr_username existing)) new (rr_verified res) (p_creds s) (p_creds t)
        \<and> (rr_verified res \<longrightarrow> seen_working ra vm (or_else (ro_username opts) (cr_username existing)) new))"
proof (cases "require_by_id (reg (p_app s)) i")
  case (Inl e)
  with assms show ?thesis by (auto simp: rotate_vm_credential_def bind_def still_opens_def)
next
  case vm: (Inr vm)
  have open0: "still_opens ra i (cr_username existing) old (p_creds s)" using assms(3,4) by (simp add: still_opens_def)
  define u where "u = or_else (ro_username opts) (cr_username existing)"
  define gen :: "('a pstate, string) comp" where
    "gen = (case ro_password opts of Some p \<Rightarrow> ret p | None \<Rightarrow> world_call (sv_new_password (ra_base ra)))"
  have gen: "p_creds s1 = p_creds s \<and> (\<forall>p new. ro_password opts = Some p \<longrightarrow> x = Inr new \<longrightarrow> new = p)" if "gen s = (x, s1)" for x s1
    using that by (auto simp: gen_def ret_def world_call_def split: option.splits prod.splits)
  have early: ?thesis if "\<exists>e. r = Inl e" "p_creds t = p_creds s"
    using that open0 by auto
  consider (early) "(\<exists>e. r = Inl e) \<and> p_creds t = p_creds s"
    | (claim) e new s1 where "gen s = (Inr new, s1)" "claim ra i (ro_force opts = Some True) actor s1 = (Inl e, t)" "r = Inl e"
    | (rest) new s1 s2 where "gen s = (Inr new, s1)" "claim ra i (ro_force opts = Some True) actor s1 = (Inr (), s2)"
        "after_claim ra actor i vm existing u old new (ro_verify opts \<noteq> Some False) s2 = (r, t)"
  proof -
    obtain x s1 where g: "gen s = (x, s1)" by fastforce
    obtain y s2 where c: "claim ra i (ro_force opts = Some True) actor s1 = (y, s2)" by fastforce
    from assms(5) show thesis
      using early claim rest g c gen [OF g] vm assms(3,4)
      unfolding rotate_vm_credential_def gen_def [symmetric] u_def
      by (cases x; cases y) (auto simp: bind_def gets_def throw_def lift_res_def Let_def split: if_splits)
  qed
  then show ?thesis
  proof cases
    case early
    then show ?thesis using open0 by auto
  next
    case (claim e new s1)
    with claim_run [OF claim(2), of "cr_username existing" old] gen [OF claim(1)] open0 show ?thesis by simp
  next
    case (rest new s1 s2)
    have c: "still_opens ra i (cr_username existing) old (p_creds s2)" "creds_wf (p_creds s2)"
      "\<forall>v. v \<noteq> i \<longrightarrow> cred_of v (p_creds s2) = cred_of v (p_creds s)"
      using claim_run [OF rest(2), of "cr_username existing" old] gen [OF rest(1)] open0 assms(1) by auto
    from c(1) obtain row where row: "cred_of i (p_creds s2) = Some row" by (auto simp: still_opens_def)
    note final = after_claim_run [OF rest(3) c(2) row]
    show ?thesis
    proof (cases r)
      case (Inl e)
      with final put_back_opens [OF _ c(2,1) assms(2)] c(3) show ?thesis by auto
    next
      case (Inr res)
      with final c(3) gen [OF rest(1)] vm show ?thesis
        by (auto simp: renewed_def u_def)
    qed
  qed
qed

definition demo_machine :: vm_row where
  "demo_machine = \<lparr>v_id = demo_vm, v_vmid = 101, v_node = ''pve'', v_name = ''web'', v_status = VmRunning,
     v_os_type = Some ''linux'', v_os_name = None, v_ip = Some ''10.0.0.7'', v_created_by = Some demo_user,
     v_template = None, v_created_at = 0, v_deleted_at = None, v_privacy = False, v_isolated = False,
     v_class = ''server'', v_start_on_boot = False, v_ip_static = False\<rparr>"

definition demo_secret :: cred_row where
  "demo_secret = \<lparr>cr_id = ''c1'', cr_vm = demo_vm, cr_username = ''deploy'', cr_cipher = ''k1:old'', cr_key = ''k1'',
     cr_status = CredVerified, cr_created = 0, cr_verified = Some 0, cr_rotated = None\<rparr>"

definition demo_vault :: "int pstate" where
  "demo_vault = (demo_state True)\<lparr>p_creds := [demo_secret],
     p_app := (p_app (demo_state True))\<lparr>reg := (reg (p_app (demo_state True)))\<lparr>vms := [demo_machine]\<rparr>\<rparr>\<rparr>"

text \<open>
  A guest without agent whose account has the password \<open>old\<close> in the world 0 and \<open>newpass\<close> in
  every other; its \<open>chpasswd\<close> says nothing, or an empty line when \<open>chatty\<close>.
\<close>

definition demo_guest :: "bool \<Rightarrow> int rotation_api" where
  "demo_guest chatty = \<lparr>
     ra_base = (demo_services False)\<lparr>sv_probe_ssh := (\<lambda>ip u p w.
        (Inr \<lparr>ssh_authenticated = (p = (if w = 0 then ''old'' else ''newpass'')), ssh_detail = [], ssh_output = []\<rparr>, w))\<rparr>,
     ra_run_ssh = (\<lambda>h u p cmd w. if p = (if w = 0 then ''old'' else ''newpass'')
        then (Inr \<lparr>sx_authenticated = True, sx_detail = ''command executed'',
          sx_output = Some (if chatty then [CHR 0x0A] else [])\<rparr>, 1)
        else (Inr \<lparr>sx_authenticated = False, sx_detail = ''authentication failed'', sx_output = None\<rparr>, w)),
     ra_agent_exec = (\<lambda>n v cmd t. throw (err_external ''Proxmox'' ''QEMU guest agent is not running''))\<rparr>"

definition demo_options :: rotation_options where
  "demo_options = \<lparr>ro_password = Some ''newpass'', ro_username = None, ro_verify = None, ro_force = None\<rparr>"

lemma demo_vault_holds: "creds_wf (p_creds demo_vault)" "cred_of demo_vm (p_creds demo_vault) = Some demo_secret"
  by (simp add: demo_vault_def demo_state_def creds_wf_def cred_table.unique_def)
    (simp add: demo_vault_def cred_of_def table_find_def demo_secret_def)

lemma demo_cipher: "\<forall>p. sv_decrypt (ra_base (demo_guest c)) (sv_encrypt (ra_base (demo_guest c)) p) = Inr p"
  "sv_decrypt (ra_base (demo_guest c)) (cr_cipher demo_secret) = Inr ''old''"
  by (simp_all add: demo_guest_def demo_services_def demo_secret_def)

lemma demo_probe:
  "ssh_authenticated (projr (fst (sv_probe_ssh (ra_base (demo_guest c)) ip u p w))) \<longleftrightarrow> p = (if w = 0 then ''old'' else ''newpass'')"
  by (simp add: demo_guest_def)

lemma rotation_vault_exact_witness:
  "case rotate_vm_credential (demo_guest True) demo_vm demo_options (demo_user, ''ada'') demo_vault of (r, t) \<Rightarrow>
     (\<exists>res. r = Inr res \<and> rr_verified res \<and> renewed (demo_guest True) demo_vm ''deploy'' ''newpass'' True [demo_secret] (p_creds t))"
proof -
  obtain r t where run: "rotate_vm_credential (demo_guest True) demo_vm demo_options (demo_user, ''ada'') demo_vault = (r, t)"
    by fastforce
  have "case fst (rotate_vm_credential (demo_guest True) demo_vm demo_options (demo_user, ''ada'') demo_vault) of
      Inl e \<Rightarrow> False | Inr res \<Rightarrow> rr_verified res"
    by code_simp
  then obtain res where res: "r = Inr res" "rr_verified res"
    using run by (auto split: sum.splits)
  have "p_creds demo_vault = [demo_secret]" by (simp add: demo_vault_def)
  with rotation_vault_exact [OF demo_vault_holds(1) demo_cipher(1) demo_vault_holds(2) demo_cipher(2) run] res run
  show ?thesis by (auto simp: demo_options_def demo_secret_def)
qed

subsection \<open>The shell line\<close>

text \<open>
  How a shell reads a word: \<open>True\<close> inside single quotes, where every character stands for
  itself; outside, a backslash quotes the next character. Any other text outside the quotes
  is refused, so a value is the whole text as one quoted word.
\<close>

fun sh_word :: "bool \<Rightarrow> string \<Rightarrow> string option" where
  "sh_word True [] = None"
| "sh_word False [] = Some []"
| "sh_word True (c # s) = (if c = CHR 0x27 then sh_word False s else map_option (Cons c) (sh_word True s))"
| "sh_word False (c # s) =
     (if c = CHR 0x27 then sh_word True s
      else if c = CHR 0x5C then (case s of [] \<Rightarrow> None | d # t \<Rightarrow>
          if d = CHR 0x0A then None else map_option (Cons d) (sh_word False t))
      else None)"

lemma sh_word_quoted:
  "shell_quote v = Inr q \<Longrightarrow> sh_word True (q @ rest) = map_option (append v) (sh_word True rest)"
proof -
  assume "shell_quote v = Inr q"
  then have q: "q = concat (map (\<lambda>c. if c = CHR 0x27 then [CHR 0x27, CHR 0x5C, CHR 0x27, CHR 0x27] else [c]) v)"
    by (simp add: shell_quote_def split: if_splits)
  show ?thesis
    unfolding q by (induction v) (auto simp: option.map_comp o_def option.map_ident)
qed

text \<open>C23. No user name or password leaves the quotes: whenever a line for \<open>chpasswd\<close> is built, a
  shell reads the quoted text as one word whose value is the user name, a colon and the
  password, character by character, and \<open>chpasswd\<close> reads it as one line.\<close>

theorem shell_line_exact:
  assumes "credential_line username password = Inr line"
  shows "sh_word False (single_quoted line) = Some (username @ '':'' @ password)
    \<and> \<not> has_line_break (username @ '':'' @ password)"
proof -
  from assms obtain u p where u: "shell_quote username = Inr u" and p: "shell_quote password = Inr p"
    and line: "line = u @ '':'' @ p"
    by (auto simp: credential_line_def rbind_Inr_iff)
  have "\<not> has_line_break username" "\<not> has_line_break password"
    using u p by (auto simp: shell_quote_def split: if_splits)
  then have "\<not> has_line_break (username @ '':'' @ password)"
    by (simp add: has_line_break_def)
  moreover have "sh_word False (single_quoted line) = Some (username @ '':'' @ password)"
    using sh_word_quoted [OF u, of "'':'' @ p @ [CHR 0x27]"] sh_word_quoted [OF p, of "[CHR 0x27]"]
    by (simp add: single_quoted_def line)
  ultimately show ?thesis by simp
qed

lemma shell_line_exact_witness:
  "\<exists>line. credential_line ''bob'' [CHR 0x27, CHR '';'', CHR ''x''] = Inr line
     \<and> sh_word False (single_quoted line) = Some (''bob:'' @ [CHR 0x27, CHR '';'', CHR ''x''])"
proof -
  obtain line where l: "credential_line ''bob'' [CHR 0x27, CHR '';'', CHR ''x''] = Inr line"
    by (auto simp: credential_line_def shell_quote_def has_line_break_def)
  from shell_line_exact [OF l] l show ?thesis by simp
qed

subsection \<open>A silent success\<close>

text \<open>The SSH mechanism reports a refusal whenever the command printed nothing, which is what
  \<open>chpasswd\<close> prints when it has changed the password, and keeps the world in which the command
  has run.\<close>

theorem silent_chpasswd_is_refused:
  assumes "credential_line username new = Inr line"
    and "ra_run_ssh ra h username old (ssh_command line) (p_world s) = (Inr res, w)"
    and "sx_authenticated res" and "sx_output res = Some []"
  shows "rotate_via_ssh ra h username old new s = (Inr (Refused ''ssh-chpasswd rejected: ''), s\<lparr>p_world := w\<rparr>)"
  using assms
  by (simp add: rotate_via_ssh_def bind_def lift_res_def world_call_def ret_def truthy_def)

text \<open>
  On such a guest without agent the rotation throws, the vault keeps the old password as
  VERIFIED, and only the new password opens the guest.
\<close>

lemma silent_chpasswd_is_refused_witness:
  "(\<exists>s. rotate_via_ssh (demo_guest False) ''10.0.0.7'' ''deploy'' ''old'' ''newpass'' demo_vault
        = (Inr (Refused ''ssh-chpasswd rejected: ''), s) \<and> p_world s = 1)
   \<and> (case rotate_vm_credential (demo_guest False) demo_vm demo_options (demo_user, ''ada'') demo_vault of (r, t) \<Rightarrow>
        \<not> is_ok r \<and> map cr_cipher (p_creds t) = [''k1:old''] \<and> map cr_status (p_creds t) = [CredVerified]
        \<and> ssh_authenticated (projr (fst (sv_probe_ssh (ra_base (demo_guest False)) None ''deploy'' ''newpass'' (p_world t))))
        \<and> \<not> ssh_authenticated (projr (fst (sv_probe_ssh (ra_base (demo_guest False)) None ''deploy'' ''old'' (p_world t)))))"
proof
  obtain line where line: "credential_line ''deploy'' ''newpass'' = Inr line"
    by (auto simp: credential_line_def shell_quote_def has_line_break_def)
  have "p_world demo_vault = 0" by (simp add: demo_vault_def demo_state_def)
  then have ran: "ra_run_ssh (demo_guest False) ''10.0.0.7'' ''deploy'' ''old'' (ssh_command line) (p_world demo_vault)
      = (Inr \<lparr>sx_authenticated = True, sx_detail = ''command executed'', sx_output = Some []\<rparr>, 1)"
    by (simp add: demo_guest_def)
  show "\<exists>s. rotate_via_ssh (demo_guest False) ''10.0.0.7'' ''deploy'' ''old'' ''newpass'' demo_vault
        = (Inr (Refused ''ssh-chpasswd rejected: ''), s) \<and> p_world s = 1"
    using silent_chpasswd_is_refused [OF line ran] by simp
  show "case rotate_vm_credential (demo_guest False) demo_vm demo_options (demo_user, ''ada'') demo_vault of (r, t) \<Rightarrow>
        \<not> is_ok r \<and> map cr_cipher (p_creds t) = [''k1:old''] \<and> map cr_status (p_creds t) = [CredVerified]
        \<and> ssh_authenticated (projr (fst (sv_probe_ssh (ra_base (demo_guest False)) None ''deploy'' ''newpass'' (p_world t))))
        \<and> \<not> ssh_authenticated (projr (fst (sv_probe_ssh (ra_base (demo_guest False)) None ''deploy'' ''old'' (p_world t))))"
  proof -
    define m where "m = rotate_vm_credential (demo_guest False) demo_vm demo_options (demo_user, ''ada'') demo_vault"
    have "\<not> is_ok (fst m)"
      unfolding m_def by code_simp
    moreover have "map cr_cipher (p_creds (snd m)) = [''k1:old'']"
      unfolding m_def by code_simp
    moreover have "map cr_status (p_creds (snd m)) = [CredVerified]"
      unfolding m_def by code_simp
    moreover have "p_world (snd m) = 1"
      unfolding m_def by code_simp
    ultimately show ?thesis
      by (simp add: m_def [symmetric] case_prod_beta demo_probe)
  qed
qed

end
