(* ===== verification/Homelab.thy ===== *)
theory Homelab
  imports Pipeline Strings
begin

text \<open>
  The homelab extras (\<open>packages/core/src/services/homelab.ts\<close>): power schedules and their
  ticker, share links, the port scan, and the connection health snapshots.

  Local time is a parameter (\<open>getHours()\<close> and its relatives depend on the time zone of the
  process); Proxmox, the hash of a token, probes and diagnostics are parameters too. Numbers
  that come from a request are \<open>json\<close> numbers.
\<close>

subsection \<open>Timetables\<close>

record local_time =
  lt_year :: int
  lt_month :: int
  lt_date :: int
  lt_day :: int
  lt_hours :: int
  lt_minutes :: int

text \<open>The columns that power and backup schedules share.\<close>

record timetable =
  tt_minute :: int
  tt_hour :: int
  tt_days :: string
  tt_enabled :: bool
  tt_last_run :: "time option"

definition msg_days :: string where
  "msg_days = ''days must be '' @ [CHR 0x27, CHR ''*'', CHR 0x27] @ '' or comma-separated weekday numbers 0-6''"

definition weekday :: "string \<Rightarrow> int option" where
  "weekday p = (if trim p = [] then None else
     case js_number (trim p) of JNum n \<Rightarrow> if 0 \<le> n \<and> n \<le> 6 then Some n else None | _ \<Rightarrow> None)"

text \<open>\<open>None\<close> is every day.\<close>

definition parse_schedule_days :: "string \<Rightarrow> int list option res" where
  "parse_schedule_days days =
     (if trim days = ''*'' then Inr None
      else let parts = map weekday (split_on CHR '','' days) in
        if list_ex (\<lambda>p. p = None) parts then Inl (err_validation msg_days)
        else Inr (Some (sort (dedup (map the parts)))))"

definition same_minute :: "local_time \<Rightarrow> local_time \<Rightarrow> bool" where
  "same_minute a b \<longleftrightarrow> lt_year a = lt_year b \<and> lt_month a = lt_month b \<and> lt_date a = lt_date b
     \<and> lt_hours a = lt_hours b \<and> lt_minutes a = lt_minutes b"

definition schedule_due_now :: "(time \<Rightarrow> local_time) \<Rightarrow> 'x timetable_scheme \<Rightarrow> time \<Rightarrow> bool res" where
  "schedule_due_now local s now =
     (if \<not> tt_enabled s then Inr False
      else if lt_minutes (local now) \<noteq> tt_minute s \<or> lt_hours (local now) \<noteq> tt_hour s then Inr False
      else rbind (parse_schedule_days (tt_days s)) (\<lambda>days.
        if days \<noteq> None \<and> lt_day (local now) \<notin> set (the days) then Inr False
        else Inr (case tt_last_run s of None \<Rightarrow> True | Some l \<Rightarrow> \<not> same_minute (local l) (local now))))"

definition number_in :: "json \<Rightarrow> int \<Rightarrow> int \<Rightarrow> bool" where
  "number_in v lo hi \<longleftrightarrow> (case v of JNum n \<Rightarrow> lo \<le> n \<and> n \<le> hi | _ \<Rightarrow> False)"

definition number_of :: "json \<Rightarrow> int" where
  "number_of v = (case v of JNum n \<Rightarrow> n | _ \<Rightarrow> 0)"

subsection \<open>Power schedules\<close>

definition SCHEDULE_ACTIONS :: "string list" where
  "SCHEDULE_ACTIONS = [''start'', ''stop'', ''restart'']"

record power_schedule = timetable +
  ps_id :: string
  ps_vm :: string
  ps_action :: string
  ps_created_by :: "string option"
  ps_created_at :: time

record schedule_input =
  si_vm :: string
  si_action :: string
  si_minute :: json
  si_hour :: json
  si_days :: "string option"
  si_created_by :: "string option"

definition list_schedules :: "power_schedule list \<Rightarrow> power_schedule list" where
  "list_schedules t = sort_key tt_hour (sort_key tt_minute t)"

definition check_schedule :: "schedule_input \<Rightarrow> string res" where
  "check_schedule si =
     (if si_action si \<notin> set SCHEDULE_ACTIONS
      then Inl (err_validation (''action must be one of: '' @ join '', '' SCHEDULE_ACTIONS))
      else if \<not> number_in (si_minute si) 0 59 then Inl (err_validation ''minute must be 0-59'')
      else if \<not> number_in (si_hour si) 0 23 then Inl (err_validation ''hour must be 0-23'')
      else let days = or_else (si_days si) ''*'' in rbind (parse_schedule_days days) (\<lambda>_. Inr days))"

definition create_schedule :: "time \<Rightarrow> string \<Rightarrow> schedule_input \<Rightarrow> (power_schedule list, power_schedule) comp" where
  "create_schedule now nid si t =
     (case check_schedule si of
        Inl e \<Rightarrow> (Inl e, t)
      | Inr days \<Rightarrow>
         if list_ex (\<lambda>r. ps_id r = nid) t then (Inl (pg_error ''duplicate key value violates unique constraint''), t)
         else let row = \<lparr>tt_minute = number_of (si_minute si), tt_hour = number_of (si_hour si), tt_days = days,
                tt_enabled = True, tt_last_run = None, ps_id = nid, ps_vm = si_vm si, ps_action = si_action si,
                ps_created_by = si_created_by si, ps_created_at = now\<rparr>
              in (Inr row, t @ [row]))"

definition delete_schedule :: "string \<Rightarrow> power_schedule list \<Rightarrow> bool \<times> power_schedule list" where
  "delete_schedule i t = (list_ex (\<lambda>r. ps_id r = i) t, table_delete (\<lambda>r. ps_id r = i) t)"

definition set_schedule_enabled :: "string \<Rightarrow> bool \<Rightarrow> power_schedule list \<Rightarrow> power_schedule list" where
  "set_schedule_enabled i b t = table_update (\<lambda>r. ps_id r = i) (\<lambda>r. r\<lparr>tt_enabled := b\<rparr>) t"

record 'w power_api =
  pw_clock :: "'w \<Rightarrow> time"
  pw_client :: "('w, unit) comp"
  pw_start :: "string \<Rightarrow> int \<Rightarrow> ('w, string) comp"
  pw_stop :: "string \<Rightarrow> int \<Rightarrow> int \<Rightarrow> ('w, string) comp"
  pw_reboot :: "string \<Rightarrow> int \<Rightarrow> ('w, string) comp"
  pw_wait :: "string \<Rightarrow> string \<Rightarrow> int \<Rightarrow> ('w, unit) comp"

record 'w power_state =
  po_reg :: vm_db
  po_schedules :: "power_schedule list"
  po_audit :: audit_log
  po_world :: 'w

definition on_power :: "('w, 'a) comp \<Rightarrow> ('w power_state, 'a) comp" where
  "on_power m s = (case m (po_world s) of (r, w) \<Rightarrow> (r, s\<lparr>po_world := w\<rparr>))"

definition power_event :: "'w power_api \<Rightarrow> string \<Rightarrow> (string \<times> json) list \<Rightarrow> ('w power_state, unit) comp" where
  "power_event pw vm detail = modify (\<lambda>s. s\<lparr>po_audit := audit_record (pw_clock pw (po_world s))
     \<lparr>au_event = ''SCHEDULE_RUN'', au_actor = None, au_actor_name = None, au_vm = Some vm, au_job = None, au_ip = None,
      au_detail = Some (JObj detail)\<rparr> (po_audit s)\<rparr>)"

definition run_action :: "'w power_api \<Rightarrow> vm_row \<Rightarrow> string \<Rightarrow> ('w, unit) comp" where
  "run_action pw vm action =
     bind (if action = ''start'' then pw_start pw (v_node vm) (v_vmid vm)
           else if action = ''stop'' then pw_stop pw (v_node vm) (v_vmid vm) 60
           else pw_reboot pw (v_node vm) (v_vmid vm)) (\<lambda>upid.
     do_when (upid \<noteq> []) (pw_wait pw (v_node vm) upid 120000))"

definition schedule_detail :: "power_schedule \<Rightarrow> string \<Rightarrow> (string \<times> json) list" where
  "schedule_detail s result = [(''scheduleId'', JStr (ps_id s)), (''action'', JStr (ps_action s)), (''result'', JStr result)]"

definition run_schedule :: "'w power_api \<Rightarrow> power_schedule \<Rightarrow> ('w power_state, bool) comp" where
  "run_schedule pw s =
     bind (modify (\<lambda>st. st\<lparr>po_schedules := table_update (\<lambda>r. ps_id r = ps_id s)
        (\<lambda>r. r\<lparr>tt_last_run := Some (pw_clock pw (po_world st))\<rparr>) (po_schedules st)\<rparr>)) (\<lambda>_.
     try_catch
       (bind (\<lambda>st. (require_by_id (po_reg st) (ps_vm s), st)) (\<lambda>vm.
        bind (on_power (pw_client pw)) (\<lambda>_.
        bind (on_power (run_action pw vm (ps_action s))) (\<lambda>_.
        bind (power_event pw (v_id vm) (schedule_detail s ''ok'')) (\<lambda>_. ret True)))))
       (\<lambda>e. bind (power_event pw (ps_vm s) (schedule_detail s ''failed'' @ [(''error'', JStr (err_message e))])) (\<lambda>_. ret False)))"

fun run_each :: "'w power_api \<Rightarrow> (time \<Rightarrow> local_time) \<Rightarrow> time \<Rightarrow> power_schedule list \<Rightarrow> nat \<times> nat
    \<Rightarrow> ('w power_state, nat \<times> nat) comp" where
  "run_each pw local now [] c = ret c"
| "run_each pw local now (s # rest) c =
     bind (lift_res (schedule_due_now local s now)) (\<lambda>due.
     if \<not> due then run_each pw local now rest c
     else bind (run_schedule pw s) (\<lambda>ok. run_each pw local now rest (Suc (fst c), if ok then snd c else Suc (snd c))))"

definition run_due_schedules :: "'w power_api \<Rightarrow> (time \<Rightarrow> local_time) \<Rightarrow> time \<Rightarrow> ('w power_state, nat \<times> nat) comp" where
  "run_due_schedules pw local now =
     bind (gets (\<lambda>st. list_schedules (po_schedules st))) (\<lambda>rows. run_each pw local now rows (0, 0))"

subsection \<open>Share links\<close>

record link_row =
  ln_id :: string
  ln_vm :: string
  ln_protocol :: string
  ln_hash :: string
  ln_expires :: time
  ln_max_uses :: "int option"
  ln_uses :: int
  ln_revoked :: "time option"
  ln_created_by :: "string option"
  ln_created_at :: time

definition link_of :: "string \<Rightarrow> link_row list \<Rightarrow> link_row option" where
  "link_of i t = table_find ln_id i t"

interpretation link_table: keyed_table ln_id link_of
  by unfold_locales (simp add: link_of_def)

text \<open>The schema of the route admits whole minutes only, so a fraction is refused here.\<close>

definition create_share_link ::
  "(string \<Rightarrow> string) \<Rightarrow> time \<Rightarrow> string \<Rightarrow> string \<Rightarrow> string \<Rightarrow> string \<Rightarrow> json \<Rightarrow> json option \<Rightarrow> string option
   \<Rightarrow> (link_row list, link_row \<times> string) comp" where
  "create_share_link hash now nid token vm protocol minutes max_uses creator t =
     (if \<not> number_in minutes 5 10080
      then (Inl (err_validation ''expiresInMinutes must be 5-10080 (5 minutes to 7 days)''), t)
      else if (case max_uses of None \<Rightarrow> False | Some JNull \<Rightarrow> False | Some (JNum n) \<Rightarrow> n < 1 | Some _ \<Rightarrow> True)
      then (Inl (err_validation ''maxUses must be a positive integer''), t)
      else if list_ex (\<lambda>r. ln_id r = nid \<or> ln_hash r = hash token) t
      then (Inl (pg_error ''duplicate key value violates unique constraint''), t)
      else let row = \<lparr>ln_id = nid, ln_vm = vm, ln_protocol = protocol, ln_hash = hash token,
             ln_expires = now + number_of minutes * 60 * 1000,
             ln_max_uses = (case max_uses of Some (JNum n) \<Rightarrow> Some n | _ \<Rightarrow> None), ln_uses = 0, ln_revoked = None,
             ln_created_by = creator, ln_created_at = now\<rparr>
           in (Inr (row, token), t @ [row]))"

definition list_share_links :: "string option option \<Rightarrow> link_row list \<Rightarrow> link_row list" where
  "list_share_links creator t = sort_key (\<lambda>r. - ln_created_at r)
     (case creator of None \<Rightarrow> t | Some c \<Rightarrow> filter (\<lambda>r. c \<noteq> None \<and> ln_created_by r = c) t)"

definition revoke_share_link :: "time \<Rightarrow> string \<Rightarrow> link_row list \<Rightarrow> bool \<times> link_row list" where
  "revoke_share_link now i t =
     (list_ex (\<lambda>r. ln_id r = i \<and> ln_revoked r = None) t,
      table_update (\<lambda>r. ln_id r = i \<and> ln_revoked r = None) (\<lambda>r. r\<lparr>ln_revoked := Some now\<rparr>) t)"

text \<open>The comparison that does not stop at the first difference.\<close>

definition char_diff :: "string \<Rightarrow> string \<Rightarrow> nat" where
  "char_diff wanted candidate = foldl (\<lambda>d p. or d (xor (of_char (fst p)) (of_char (snd p)))) 0 (zip wanted candidate)"

definition same_text :: "string \<Rightarrow> string \<Rightarrow> bool" where
  "same_text wanted candidate \<longleftrightarrow> length candidate = length wanted \<and> char_diff wanted candidate = 0"

definition open_link :: "time \<Rightarrow> link_row \<Rightarrow> bool" where
  "open_link now r \<longleftrightarrow> ln_revoked r = None \<and> ln_expires r > now"

text \<open>
  A redemption is two statements: the selection, and the update that counts the use. What
  another request does between them is seen by the update only.
\<close>

definition redeem_select :: "(string \<Rightarrow> string) \<Rightarrow> time \<Rightarrow> string \<Rightarrow> link_row list \<Rightarrow> link_row option" where
  "redeem_select hash now token t =
     (if token = [] \<or> length token > 256 then None
      else case find (\<lambda>r. same_text (hash token) (ln_hash r)) (filter (open_link now) t) of
          None \<Rightarrow> None
        | Some r \<Rightarrow> (case ln_max_uses r of None \<Rightarrow> Some r | Some m \<Rightarrow> if ln_uses r \<ge> m then None else Some r))"

definition usable :: "link_row \<Rightarrow> bool" where
  "usable r \<longleftrightarrow> (case ln_max_uses r of None \<Rightarrow> True | Some m \<Rightarrow> ln_uses r < m)"

definition redeem_count :: "string \<Rightarrow> link_row list \<Rightarrow> link_row option \<times> link_row list" where
  "redeem_count i t =
     (let t' = table_update (\<lambda>r. ln_id r = i \<and> usable r) (\<lambda>r. r\<lparr>ln_uses := ln_uses r + 1\<rparr>) t
      in (if list_ex (\<lambda>r. ln_id r = i \<and> usable r) t then link_of i t' else None, t'))"

definition redeem_share_link ::
  "(string \<Rightarrow> string) \<Rightarrow> time \<Rightarrow> string \<Rightarrow> link_row list \<Rightarrow> link_row option \<times> link_row list" where
  "redeem_share_link hash now token t = (case redeem_select hash now token t of
       None \<Rightarrow> (None, t)
     | Some r \<Rightarrow> redeem_count (ln_id r) t)"

subsection \<open>The port scan\<close>

definition KNOWN_SERVICE_PORTS :: "(nat \<times> string) list" where
  "KNOWN_SERVICE_PORTS = [(22, ''SSH''), (80, ''HTTP''), (443, ''HTTPS''), (1883, ''MQTT''), (3000, ''Web UI''),
     (3001, ''Web UI''), (3306, ''MySQL/MariaDB''), (3389, ''RDP''), (5000, ''Web UI''), (5432, ''PostgreSQL''),
     (5900, ''VNC''), (6379, ''Redis''), (8000, ''Web UI''), (8006, ''Proxmox VE''), (8080, ''Web UI (alt)''),
     (8096, ''Jellyfin''), (8123, ''Home Assistant''), (8443, ''HTTPS (alt)''), (9000, ''Portainer''),
     (9090, ''Cockpit/Prometheus'')]"

definition service_name :: "nat \<Rightarrow> string" where
  "service_name port = or_else (map_of KNOWN_SERVICE_PORTS port) ''Unknown''"

text \<open>
  The scan is a pool of workers over one queue. A worker takes the next port, probes it, and
  records it when it answers; the steps of the workers interleave in any order. The state is
  the queue, the ports under probe by worker, and what was found.
\<close>

record scan =
  sc_queue :: "nat list"
  sc_workers :: "nat option list"
  sc_found :: "(nat \<times> string) list"

definition scan_start :: "nat \<Rightarrow> nat list \<Rightarrow> scan" where
  "scan_start concurrency ports =
     \<lparr>sc_queue = ports, sc_workers = replicate (min concurrency (length ports)) None, sc_found = []\<rparr>"

inductive scan_step :: "(nat \<Rightarrow> bool) \<Rightarrow> scan \<Rightarrow> scan \<Rightarrow> bool" for answers where
  take: "w < length (sc_workers s) \<Longrightarrow> sc_workers s ! w = None \<Longrightarrow> sc_queue s = p # rest \<Longrightarrow>
     scan_step answers s (s\<lparr>sc_queue := rest, sc_workers := (sc_workers s)[w := Some p]\<rparr>)"
| hit: "w < length (sc_workers s) \<Longrightarrow> sc_workers s ! w = Some p \<Longrightarrow> answers p \<Longrightarrow>
     scan_step answers s (s\<lparr>sc_workers := (sc_workers s)[w := None], sc_found := sc_found s @ [(p, service_name p)]\<rparr>)"
| miss: "w < length (sc_workers s) \<Longrightarrow> sc_workers s ! w = Some p \<Longrightarrow> \<not> answers p \<Longrightarrow>
     scan_step answers s (s\<lparr>sc_workers := (sc_workers s)[w := None]\<rparr>)"

definition scan_result :: "scan \<Rightarrow> (nat \<times> string) list" where
  "scan_result s = sort_key fst (sc_found s)"

record service_row =
  sc_vm :: string
  sc_port :: nat
  sc_service :: string

definition store_vm_services :: "string \<Rightarrow> (nat \<times> string) list \<Rightarrow> service_row list \<Rightarrow> service_row list" where
  "store_vm_services vm found t =
     fold (\<lambda>f t. if list_ex (\<lambda>r. sc_vm r = vm \<and> sc_port r = fst f) t then t
        else t @ [\<lparr>sc_vm = vm, sc_port = fst f, sc_service = snd f\<rparr>]) found (table_delete (\<lambda>r. sc_vm r = vm) t)"

definition list_vm_services :: "string \<Rightarrow> service_row list \<Rightarrow> (nat \<times> string) list" where
  "list_vm_services vm t = map (\<lambda>r. (sc_port r, sc_service r)) (sort_key sc_port (filter (\<lambda>r. sc_vm r = vm) t))"

subsection \<open>Connection health\<close>

record health_row =
  he_vm :: string
  he_protocol :: string
  he_reachable :: bool
  he_authenticated :: "bool option"
  he_detail :: string
  he_checked :: time

definition store_connection_health :: "health_row \<Rightarrow> health_row list \<Rightarrow> health_row list" where
  "store_connection_health h t =
     (let row = h\<lparr>he_detail := take 500 (he_detail h)\<rparr>;
          hits = (\<lambda>r. he_vm r = he_vm h \<and> he_protocol r = he_protocol h)
      in if list_ex hits t then table_update hits (\<lambda>_. row) t else t @ [row])"

definition list_connection_health :: "string list \<Rightarrow> health_row list \<Rightarrow> health_row list" where
  "list_connection_health ids t = sort_key (\<lambda>r. - he_checked r) (filter (\<lambda>r. he_vm r \<in> set ids) t)"

text \<open>The diagnostics of one protocol either give a result or throw.\<close>

definition health_of :: "time \<Rightarrow> string \<Rightarrow> string \<Rightarrow> (bool \<times> bool option \<times> string) res \<Rightarrow> health_row" where
  "health_of now vm protocol r = (case r of
       Inl e \<Rightarrow> \<lparr>he_vm = vm, he_protocol = protocol, he_reachable = False, he_authenticated = None,
         he_detail = err_message e, he_checked = now\<rparr>
     | Inr (reachable, authenticated, detail) \<Rightarrow> \<lparr>he_vm = vm, he_protocol = protocol, he_reachable = reachable,
         he_authenticated = authenticated, he_detail = detail, he_checked = now\<rparr>)"

fun check_protocols ::
  "time \<Rightarrow> (string \<Rightarrow> string \<Rightarrow> (bool \<times> bool option \<times> string) res) \<Rightarrow> string \<Rightarrow> string list \<Rightarrow> health_row list
   \<Rightarrow> health_row list \<times> health_row list" where
  "check_protocols now test vm [] t = ([], t)"
| "check_protocols now test vm (p # ps) t =
     (let h = health_of now vm p (test vm p); (out, t') = check_protocols now test vm ps (store_connection_health h t)
      in (h # out, t'))"

definition check_vm_health ::
  "time \<Rightarrow> (string \<Rightarrow> string \<Rightarrow> (bool \<times> bool option \<times> string) res) \<Rightarrow> guac_state \<Rightarrow> string \<Rightarrow> health_row list
   \<Rightarrow> health_row list \<times> health_row list" where
  "check_vm_health now test g vm t =
     check_protocols now test vm (dedup (map gc_protocol (filter (\<lambda>r. gc_vm r = vm) (gs_conns g)))) t"

end
