(* ===== verification/Homelab_Props.thy ===== *)
theory Homelab_Props
  imports Homelab "HOL-Library.Multiset"
begin

text \<open>
  Schedules stay well typed, so the ticker never stops at one of them and asks for exactly
  what those that are due name; share links are used at
  most as often as they allow under any interleaving; the port scan ends with the same result
  whatever the order of its workers.
\<close>

subsection \<open>Well-typed timetables\<close>

definition timed :: "'x timetable_scheme \<Rightarrow> bool" where
  "timed r \<longleftrightarrow> 0 \<le> tt_minute r \<and> tt_minute r \<le> 59 \<and> 0 \<le> tt_hour r \<and> tt_hour r \<le> 23
     \<and> is_ok (parse_schedule_days (tt_days r))"

lemma timed_stable [simp]:
  "timed (r\<lparr>tt_last_run := l\<rparr>) = timed r" "timed (r\<lparr>tt_enabled := b\<rparr>) = timed r"
  by (simp_all add: timed_def)

definition well_typed :: "power_schedule \<Rightarrow> bool" where
  "well_typed r \<longleftrightarrow> timed r \<and> ps_action r \<in> set SCHEDULE_ACTIONS"

lemma well_typed_stable [simp]:
  "well_typed (r\<lparr>tt_last_run := l\<rparr>) = well_typed r" "well_typed (r\<lparr>tt_enabled := b\<rparr>) = well_typed r"
  by (simp_all add: well_typed_def)

lemma number_in_of: "number_in v lo hi \<Longrightarrow> lo \<le> number_of v \<and> number_of v \<le> hi"
  by (cases v) (auto simp: number_in_def number_of_def)

lemma check_schedule_typed:
  assumes "check_schedule si = Inr days"
  shows "si_action si \<in> set SCHEDULE_ACTIONS" "number_in (si_minute si) 0 59" "number_in (si_hour si) 0 23"
    "is_ok (parse_schedule_days days)"
  using assms by (auto simp: check_schedule_def Let_def rbind_Inr_iff is_ok_iff split: if_splits)

lemma create_typed:
  assumes "\<forall>r \<in> set t. well_typed r"
  shows "\<forall>r \<in> set (snd (create_schedule now nid si t)). well_typed r"
  using assms check_schedule_typed [of si] number_in_of
  by (auto simp: create_schedule_def well_typed_def timed_def Let_def split: sum.split)

lemma sort_days:
  assumes "parse_schedule_days days = Inr (Some ds)"
  shows "sorted ds \<and> distinct ds \<and> set ds \<subseteq> {0..6}"
proof -
  define parts where "parts = map weekday (split_on CHR '','' days)"
  from assms have "\<not> list_ex (\<lambda>p. p = None) parts" and ds: "ds = sort (dedup (map the parts))"
    by (auto simp: parse_schedule_days_def Let_def parts_def split: if_splits)
  then have "\<forall>p \<in> set parts. \<exists>n. p = Some n" by (auto simp: list_ex_iff intro: option.exhaust)
  moreover have "weekday x = Some n \<Longrightarrow> n \<in> {0..6}" for x n
    by (auto simp: weekday_def split: if_splits json.splits)
  ultimately have "\<forall>p \<in> set parts. the p \<in> {0..6}" by (fastforce simp: parts_def)
  then show ?thesis unfolding ds by auto
qed

definition fires :: "(time \<Rightarrow> local_time) \<Rightarrow> time \<Rightarrow> 'x timetable_scheme \<Rightarrow> bool" where
  "fires local now s \<longleftrightarrow> schedule_due_now local s now = Inr True"

lemma due_total: "timed s \<Longrightarrow> schedule_due_now local s now = Inr (fires local now s)"
proof -
  assume "timed s"
  then have "is_ok (schedule_due_now local s now)"
    by (cases "parse_schedule_days (tt_days s)") (auto simp: timed_def schedule_due_now_def)
  then show ?thesis by (auto simp: fires_def is_ok_iff)
qed

text \<open>
  When a schedule is due, read off its columns: it is enabled, the clock shows its minute and its
  hour, its days are \<open>*\<close> or name the weekday, and it has not run in this minute.
\<close>

definition on_day :: "string \<Rightarrow> int \<Rightarrow> bool" where
  "on_day days d \<longleftrightarrow> trim days = ''*'' \<or> (\<exists>p \<in> set (split_on CHR '','' days). trim p \<noteq> [] \<and> js_number (trim p) = JNum d)"

definition due_at :: "(time \<Rightarrow> local_time) \<Rightarrow> time \<Rightarrow> 'x timetable_scheme \<Rightarrow> bool" where
  "due_at local now s \<longleftrightarrow> tt_enabled s \<and> tt_minute s = lt_minutes (local now) \<and> tt_hour s = lt_hours (local now)
     \<and> on_day (tt_days s) (lt_day (local now)) \<and> (case tt_last_run s of None \<Rightarrow> True | Some l \<Rightarrow> \<not> same_minute (local l) (local now))"

lemma on_day_iff:
  assumes "parse_schedule_days days = Inr ds"
  shows "on_day days d \<longleftrightarrow> (ds = None \<or> d \<in> set (the ds))"
proof (cases "trim days = ''*''")
  case True
  with assms show ?thesis by (simp add: parse_schedule_days_def on_day_def)
next
  case False
  let ?ps = "split_on CHR '','' days"
  from assms False have "None \<notin> weekday ` set ?ps" and ds: "ds = Some (sort (dedup (map (the \<circ> weekday) ?ps)))"
    by (auto simp: parse_schedule_days_def Let_def list_ex_iff split: if_splits)
  then have all: "\<forall>p \<in> set ?ps. \<exists>n. weekday p = Some n" by (metis imageI not_None_eq)
  have "weekday p = Some d \<longleftrightarrow> trim p \<noteq> [] \<and> js_number (trim p) = JNum d" if "p \<in> set ?ps" for p
    using all that by (auto simp: weekday_def split: if_splits json.splits)
  moreover have "d \<in> set (the ds) \<longleftrightarrow> (\<exists>p \<in> set ?ps. weekday p = Some d)"
    using all by (force simp: ds)
  ultimately show ?thesis using False ds by (auto simp: on_day_def)
qed

lemma fires_due: "timed s \<Longrightarrow> fires local now s \<longleftrightarrow> due_at local now s"
proof -
  assume "timed s"
  then obtain ds where ds: "parse_schedule_days (tt_days s) = Inr ds" by (auto simp: timed_def is_ok_iff)
  then show ?thesis
    using on_day_iff [OF ds, of "lt_day (local now)"]
    by (auto simp: fires_def schedule_due_now_def due_at_def split: option.split)
qed

lemma filter_due: "\<forall>s \<in> set t. timed s \<Longrightarrow> filter (fires local now) t = filter (due_at local now) t"
  using fires_due by (intro filter_cong) auto

text \<open>The table of schedules after a step of the ticker is the old one with stamps.\<close>

definition stamped :: "power_schedule list \<Rightarrow> power_schedule list \<Rightarrow> bool" where
  "stamped t t' \<longleftrightarrow> (\<forall>r' \<in> set t'. \<exists>r \<in> set t. \<exists>l. r' = r\<lparr>tt_last_run := l\<rparr>)"

lemma stamped_refl: "stamped t t"
  unfolding stamped_def
proof
  fix r assume "r \<in> set t"
  moreover have "r = r\<lparr>tt_last_run := tt_last_run r\<rparr>" by simp
  ultimately show "\<exists>r' \<in> set t. \<exists>l. r = r'\<lparr>tt_last_run := l\<rparr>" by blast
qed

lemma stamped_trans: "stamped a b \<Longrightarrow> stamped b c \<Longrightarrow> stamped a c"
  unfolding stamped_def
proof
  fix r assume ab: "\<forall>r' \<in> set b. \<exists>r \<in> set a. \<exists>l. r' = r\<lparr>tt_last_run := l\<rparr>"
    and bc: "\<forall>r' \<in> set c. \<exists>r \<in> set b. \<exists>l. r' = r\<lparr>tt_last_run := l\<rparr>" and r: "r \<in> set c"
  from bc r obtain y l where y: "y \<in> set b" "r = y\<lparr>tt_last_run := l\<rparr>" by blast
  from ab y(1) obtain x k where "x \<in> set a" "y = x\<lparr>tt_last_run := k\<rparr>" by blast
  with y(2) show "\<exists>x \<in> set a. \<exists>l. r = x\<lparr>tt_last_run := l\<rparr>" by (intro bexI [of _ x] exI [of _ l]) simp_all
qed

lemma stamped_typed: "stamped t t' \<Longrightarrow> \<forall>r \<in> set t. well_typed r \<Longrightarrow> \<forall>r \<in> set t'. well_typed r"
  by (fastforce simp: stamped_def)

text \<open>A stamp of the current minute keeps a schedule from firing again.\<close>

lemma stamped_silent: "same_minute (local l) (local now) \<Longrightarrow> \<not> fires local now (r\<lparr>tt_last_run := Some l\<rparr>)"
  by (auto simp: fires_def schedule_due_now_def rbind_Inr_iff split: if_splits)

definition awaits :: "(time \<Rightarrow> local_time) \<Rightarrow> time \<Rightarrow> power_schedule list \<Rightarrow> power_schedule list \<Rightarrow> bool" where
  "awaits local now rows t \<longleftrightarrow> (\<forall>r \<in> set t. fires local now r \<longrightarrow> (\<exists>s \<in> set rows. fires local now s \<and> ps_id s = ps_id r))"

lemma run_schedule_run:
  "\<exists>ok st'. run_schedule pw s st = (Inr ok, st') \<and> po_reg st' = po_reg st
     \<and> po_schedules st' = table_update (\<lambda>r. ps_id r = ps_id s)
        (\<lambda>r. r\<lparr>tt_last_run := Some (pw_clock pw (po_world st))\<rparr>) (po_schedules st)"
  by (auto simp: run_schedule_def bind_def try_catch_def modify_def on_power_def power_event_def ret_def
      split: prod.split sum.split)

lemma stamped_update: "stamped t (table_update P (\<lambda>r. r\<lparr>tt_last_run := l\<rparr>) t)"
  using stamped_refl [of t] by (auto simp: stamped_def)

lemma run_each_run:
  assumes "\<forall>s \<in> set rows. timed s"
  shows "\<exists>st' f. run_each pw local now rows c st = (Inr (fst c + length (filter (fires local now) rows), f), st')
    \<and> f \<le> snd c + length (filter (fires local now) rows) \<and> stamped (po_schedules st) (po_schedules st')
    \<and> ((\<forall>w. same_minute (local (pw_clock pw w)) (local now)) \<and> awaits local now rows (po_schedules st)
        \<longrightarrow> awaits local now [] (po_schedules st'))"
  using assms
proof (induction rows arbitrary: c st)
  case Nil
  then show ?case using stamped_refl by (cases c) (auto simp: ret_def)
next
  case (Cons s rows)
  show ?case
  proof (cases "fires local now s")
    case False
    then have "awaits local now (s # rows) t \<longleftrightarrow> awaits local now rows t" for t by (auto simp: awaits_def)
    with False Cons show ?thesis by (simp add: bind_def lift_res_def due_total)
  next
    case True
    obtain ok st1 where s: "run_schedule pw s st = (Inr ok, st1)"
      "po_schedules st1 = table_update (\<lambda>r. ps_id r = ps_id s)
         (\<lambda>r. r\<lparr>tt_last_run := Some (pw_clock pw (po_world st))\<rparr>) (po_schedules st)"
      using run_schedule_run by blast
    have stamp: "stamped (po_schedules st) (po_schedules st1)"
      unfolding s(2) by (rule stamped_update)
    have silent: "awaits local now rows (po_schedules st1)"
      if "\<forall>w. same_minute (local (pw_clock pw w)) (local now)" "awaits local now (s # rows) (po_schedules st)"
      using that stamped_silent [of local "pw_clock pw (po_world st)" now] unfolding s(2) awaits_def by fastforce
    from Cons.IH [of "(Suc (fst c), if ok then snd c else Suc (snd c))" st1] Cons.prems obtain st' f where
      "run_each pw local now rows (Suc (fst c), if ok then snd c else Suc (snd c)) st1
         = (Inr (Suc (fst c) + length (filter (fires local now) rows), f), st')"
      "f \<le> (if ok then snd c else Suc (snd c)) + length (filter (fires local now) rows)"
      "stamped (po_schedules st1) (po_schedules st')"
      "(\<forall>w. same_minute (local (pw_clock pw w)) (local now)) \<and> awaits local now rows (po_schedules st1)
        \<longrightarrow> awaits local now [] (po_schedules st')" by auto
    with s(1) silent True Cons.prems stamped_trans [OF stamp] show ?thesis
      by (auto simp: bind_def lift_res_def due_total split: if_splits)
  qed
qed

text \<open>The services with a record of the power actions that reach Proxmox.\<close>

datatype power_call = Started string int | Stopped string int int | Rebooted string int

definition beside :: "('w, 'a) comp \<Rightarrow> ('w \<times> power_call list, 'a) comp" where
  "beside m s = (case m (fst s) of (r, w) \<Rightarrow> (r, (w, snd s)))"

definition noted :: "power_call \<Rightarrow> ('w, 'a) comp \<Rightarrow> ('w \<times> power_call list, 'a) comp" where
  "noted c m s = (case m (fst s) of (r, w) \<Rightarrow> (r, (w, snd s @ [c])))"

definition watched :: "'w power_api \<Rightarrow> ('w \<times> power_call list) power_api" where
  "watched pw = \<lparr> pw_clock = (\<lambda>s. pw_clock pw (fst s)), pw_client = beside (pw_client pw),
     pw_start = (\<lambda>n v. noted (Started n v) (pw_start pw n v)),
     pw_stop = (\<lambda>n v t. noted (Stopped n v t) (pw_stop pw n v t)),
     pw_reboot = (\<lambda>n v. noted (Rebooted n v) (pw_reboot pw n v)),
     pw_wait = (\<lambda>n u t. beside (pw_wait pw n u t)) \<rparr>"

text \<open>What a schedule asks of its machine.\<close>

definition asked :: "string \<Rightarrow> vm_row \<Rightarrow> power_call option" where
  "asked action vm = map_of [(''start'', Started (v_node vm) (v_vmid vm)), (''stop'', Stopped (v_node vm) (v_vmid vm) 60),
     (''restart'', Rebooted (v_node vm) (v_vmid vm))] action"

definition served :: "vm_db \<Rightarrow> power_schedule \<Rightarrow> power_call list \<Rightarrow> bool" where
  "served db s calls \<longleftrightarrow> (case find_by_id db (ps_vm s) of
       None \<Rightarrow> calls = []
     | Some vm \<Rightarrow> calls = [] \<or> (\<exists>c. asked (ps_action s) vm = Some c \<and> calls = [c]))"

lemma action_watched:
  assumes "a \<in> set SCHEDULE_ACTIONS"
  shows "\<exists>c r w. asked a vm = Some c \<and> run_action (watched pw) vm a s = (r, (w, snd s @ [c]))"
  using assms
  by (auto simp: SCHEDULE_ACTIONS_def asked_def run_action_def watched_def noted_def beside_def bind_def do_when_def ret_def
      split: prod.split sum.split)

lemma run_schedule_watched:
  assumes "ps_action s \<in> set SCHEDULE_ACTIONS"
  shows "\<exists>ok st' calls e. run_schedule (watched pw) s st = (Inr ok, st') \<and> po_reg st' = po_reg st
    \<and> snd (po_world st') = snd (po_world st) @ calls \<and> served (po_reg st) s calls \<and> (calls = [] \<longrightarrow> \<not> ok)
    \<and> po_audit st' = po_audit st @ [e] \<and> au_vm (snd e) = Some (ps_vm s)"
proof -
  define st1 where "st1 = st\<lparr>po_schedules := table_update (\<lambda>r. ps_id r = ps_id s)
        (\<lambda>r. r\<lparr>tt_last_run := Some (pw_clock (watched pw) (po_world st))\<rparr>) (po_schedules st)\<rparr>"
  have st1: "po_reg st1 = po_reg st" "po_world st1 = po_world st" "po_audit st1 = po_audit st" by (simp_all add: st1_def)
  note run = run_schedule_def bind_def try_catch_def modify_def power_event_def audit_record_def ret_def on_power_def
  show ?thesis
  proof (cases "find_by_id (po_reg st) (ps_vm s)")
    case None
    then show ?thesis by (auto simp: run require_by_id_def served_def)
  next
    case (Some vm)
    have id: "v_id vm = ps_vm s"
      using Some vm_table.lookup_SomeD by (auto simp: find_by_id_def live_opt_def split: if_splits option.splits)
    obtain rc w1 where client: "pw_client (watched pw) (po_world st) = (rc, w1)" and w1: "snd w1 = snd (po_world st)"
      by (cases "pw_client pw (fst (po_world st))") (simp add: watched_def beside_def)
    obtain c r w where act: "asked (ps_action s) vm = Some c" "run_action (watched pw) vm (ps_action s) w1 = (r, (w, snd w1 @ [c]))"
      using action_watched [OF assms, of vm pw w1] by blast
    show ?thesis
      using Some id client w1 act by (cases rc; cases r) (auto simp: run require_by_id_def served_def)
  qed
qed

lemma run_each_watched:
  assumes "\<forall>s \<in> set rows. well_typed s"
  shows "\<exists>n f st' blocks new. run_each (watched pw) local now rows c st = (Inr (n, f), st') \<and> po_reg st' = po_reg st
    \<and> snd (po_world st') = snd (po_world st) @ concat blocks
    \<and> list_all2 (served (po_reg st)) (filter (fires local now) rows) blocks
    \<and> snd c + length (filter (\<lambda>b. b = []) blocks) \<le> f
    \<and> po_audit st' = po_audit st @ new \<and> map (\<lambda>e. au_vm (snd e)) new = map (\<lambda>s. Some (ps_vm s)) (filter (fires local now) rows)"
  using assms
proof (induction rows arbitrary: c st)
  case Nil
  show ?case by (cases c) (auto simp: ret_def intro!: exI [of _ "[]"])
next
  case (Cons s rows)
  then have s: "timed s" "ps_action s \<in> set SCHEDULE_ACTIONS" by (auto simp: well_typed_def)
  show ?case
  proof (cases "fires local now s")
    case False
    with Cons s show ?thesis by (simp add: bind_def lift_res_def due_total)
  next
    case True
    obtain ok st1 calls e where one: "run_schedule (watched pw) s st = (Inr ok, st1)" "po_reg st1 = po_reg st"
      "snd (po_world st1) = snd (po_world st) @ calls" "served (po_reg st) s calls" "calls = [] \<longrightarrow> \<not> ok"
      "po_audit st1 = po_audit st @ [e]" "au_vm (snd e) = Some (ps_vm s)"
      using run_schedule_watched [OF s(2)] by blast
    define c1 where "c1 = (Suc (fst c), if ok then snd c else Suc (snd c))"
    obtain n f st' blocks new where rest: "run_each (watched pw) local now rows c1 st1 = (Inr (n, f), st')"
      "po_reg st' = po_reg st" "snd (po_world st') = snd (po_world st1) @ concat blocks"
      "list_all2 (served (po_reg st)) (filter (fires local now) rows) blocks"
      "snd c1 + length (filter (\<lambda>b. b = []) blocks) \<le> f" "po_audit st' = po_audit st1 @ new"
      "map (\<lambda>e. au_vm (snd e)) new = map (\<lambda>s. Some (ps_vm s)) (filter (fires local now) rows)"
      using Cons.IH [of c1 st1] Cons.prems one(2) by auto
    have "run_each (watched pw) local now (s # rows) c st = (Inr (n, f), st')"
      using one(1) rest(1) True s(1) by (simp add: bind_def lift_res_def due_total c1_def)
    with one rest True show ?thesis
      by (intro exI [of _ n] exI [of _ f] exI [of _ st'] exI [of _ "calls # blocks"] exI [of _ "e # new"])
        (auto simp: c1_def split: if_splits)
  qed
qed

text \<open>The writers of the table.\<close>

datatype schedule_write = NewSchedule time string schedule_input | DropSchedule string | Enable string bool

fun write_schedule :: "schedule_write \<Rightarrow> power_schedule list \<Rightarrow> power_schedule list" where
  "write_schedule (NewSchedule now nid si) t = snd (create_schedule now nid si t)"
| "write_schedule (DropSchedule i) t = snd (delete_schedule i t)"
| "write_schedule (Enable i b) t = set_schedule_enabled i b t"

lemma write_typed: "\<forall>r \<in> set t. well_typed r \<Longrightarrow> \<forall>r \<in> set (write_schedule w t). well_typed r"
  using create_typed by (cases w) (auto simp: delete_schedule_def set_schedule_enabled_def)

lemma write_all_typed: "\<forall>r \<in> set t. well_typed r \<Longrightarrow> \<forall>r \<in> set (fold write_schedule ws t). well_typed r"
proof (induction ws arbitrary: t)
  case (Cons w ws)
  from Cons.IH [OF write_typed [OF Cons.prems]] show ?case by simp
qed simp

lemma sorted_rows: "mset (list_schedules t) = mset t" "set (list_schedules t) = set t"
  by (simp_all add: list_schedules_def)

text \<open>A pass of the ticker, without a word about the services.\<close>

lemma pass_run:
  assumes "\<forall>r \<in> set (po_schedules st). well_typed r"
  shows "\<exists>f st'. run_due_schedules pw local now st
      = (Inr (length (filter (due_at local now) (list_schedules (po_schedules st))), f), st')
    \<and> (\<forall>r \<in> set (po_schedules st'). well_typed r)
    \<and> ((\<forall>w. same_minute (local (pw_clock pw w)) (local now)) \<longrightarrow> filter (due_at local now) (po_schedules st') = [])"
proof -
  let ?rows = "list_schedules (po_schedules st)"
  have timed: "\<forall>s \<in> set ?rows. timed s" using assms by (auto simp: well_typed_def sorted_rows)
  from run_each_run [OF timed, of pw local now "(0, 0)" st] obtain f st' where
    run: "run_each pw local now ?rows (0, 0) st = (Inr (length (filter (fires local now) ?rows), f), st')"
    and stamps: "stamped (po_schedules st) (po_schedules st')"
    and silent: "(\<forall>w. same_minute (local (pw_clock pw w)) (local now)) \<and> awaits local now ?rows (po_schedules st)
        \<longrightarrow> awaits local now [] (po_schedules st')"
    by auto
  have typed: "\<forall>r \<in> set (po_schedules st'). well_typed r" by (rule stamped_typed [OF stamps assms])
  then have "filter (due_at local now) (po_schedules st') = filter (fires local now) (po_schedules st')"
    by (intro filter_due [symmetric]) (simp add: well_typed_def)
  moreover have "awaits local now ?rows (po_schedules st)" by (auto simp: awaits_def sorted_rows)
  ultimately have "(\<forall>w. same_minute (local (pw_clock pw w)) (local now)) \<longrightarrow> filter (due_at local now) (po_schedules st') = []"
    using silent by (auto simp: awaits_def filter_empty_conv)
  with run typed show ?thesis
    by (auto simp: run_due_schedules_def bind_def gets_def filter_due [OF timed])
qed

text \<open>C24. Every schedule in the table is well typed after any sequence of writes: a known action, a
  minute and an hour of the clock, weekdays that parse. So a pass of the ticker never stops at a
  schedule, whatever Proxmox does. It runs the schedules that are due (enabled, at this minute and
  hour, on this weekday, not yet run in this minute), in the order of the listing, and no other.
  For each of them Proxmox is asked for the start, the stop (with 60 seconds of grace) or the
  reboot that the schedule names, of the machine it names, once, or for nothing when that machine
  is not registered or no client is to be had, which counts as failed; and one audit row is
  written about its machine. The table stays well typed, and when the clock stays within the
  minute during the pass, no schedule is due in that minute any more.\<close>

theorem schedules_never_block_the_ticker:
  assumes "\<forall>r \<in> set t. well_typed r"
  shows "(\<forall>r \<in> set (fold write_schedule ws t). well_typed r)
    \<and> (\<forall>st. po_schedules st = fold write_schedule ws t \<longrightarrow> (\<exists>failed st' blocks new.
        run_due_schedules (watched pw) local now st
          = (Inr (length (filter (due_at local now) (list_schedules (po_schedules st))), failed), st')
        \<and> snd (po_world st') = snd (po_world st) @ concat blocks
        \<and> list_all2 (served (po_reg st)) (filter (due_at local now) (list_schedules (po_schedules st))) blocks
        \<and> length (filter (\<lambda>b. b = []) blocks) \<le> failed
        \<and> po_audit st' = po_audit st @ new
        \<and> map (\<lambda>e. au_vm (snd e)) new = map (\<lambda>s. Some (ps_vm s)) (filter (due_at local now) (list_schedules (po_schedules st)))
        \<and> po_reg st' = po_reg st \<and> (\<forall>r \<in> set (po_schedules st'). well_typed r)
        \<and> ((\<forall>w. same_minute (local (pw_clock pw w)) (local now)) \<longrightarrow> filter (due_at local now) (po_schedules st') = [])))"
proof -
  note typed = write_all_typed [OF assms, of ws]
  have "\<exists>failed st' blocks new.
        run_due_schedules (watched pw) local now st
          = (Inr (length (filter (due_at local now) (list_schedules (po_schedules st))), failed), st')
        \<and> snd (po_world st') = snd (po_world st) @ concat blocks
        \<and> list_all2 (served (po_reg st)) (filter (due_at local now) (list_schedules (po_schedules st))) blocks
        \<and> length (filter (\<lambda>b. b = []) blocks) \<le> failed
        \<and> po_audit st' = po_audit st @ new
        \<and> map (\<lambda>e. au_vm (snd e)) new = map (\<lambda>s. Some (ps_vm s)) (filter (due_at local now) (list_schedules (po_schedules st)))
        \<and> po_reg st' = po_reg st \<and> (\<forall>r \<in> set (po_schedules st'). well_typed r)
        \<and> ((\<forall>w. same_minute (local (pw_clock pw w)) (local now)) \<longrightarrow> filter (due_at local now) (po_schedules st') = [])"
    if st: "po_schedules st = fold write_schedule ws t" for st
  proof -
    have st_typed: "\<forall>r \<in> set (po_schedules st). well_typed r" using typed st by simp
    then have rows: "\<forall>s \<in> set (list_schedules (po_schedules st)). well_typed s" by (simp add: sorted_rows)
    then have due: "filter (fires local now) (list_schedules (po_schedules st))
        = filter (due_at local now) (list_schedules (po_schedules st))"
      by (intro filter_due) (simp add: well_typed_def)
    have "pw_clock (watched pw) w = pw_clock pw (fst w)" for w by (simp add: watched_def)
    then have clock: "(\<forall>w. same_minute (local (pw_clock (watched pw) w)) (local now))
        \<longleftrightarrow> (\<forall>w. same_minute (local (pw_clock pw w)) (local now))" by auto
    from run_each_watched [OF rows, of pw local now "(0, 0)" st] obtain n f st' blocks new where
      r: "run_each (watched pw) local now (list_schedules (po_schedules st)) (0, 0) st = (Inr (n, f), st')" "po_reg st' = po_reg st"
      "snd (po_world st') = snd (po_world st) @ concat blocks"
      "list_all2 (served (po_reg st)) (filter (due_at local now) (list_schedules (po_schedules st))) blocks"
      "length (filter (\<lambda>b. b = []) blocks) \<le> f" "po_audit st' = po_audit st @ new"
      "map (\<lambda>e. au_vm (snd e)) new = map (\<lambda>s. Some (ps_vm s)) (filter (due_at local now) (list_schedules (po_schedules st)))"
      unfolding due by auto
    then have run: "run_due_schedules (watched pw) local now st = (Inr (n, f), st')"
      by (simp add: run_due_schedules_def bind_def gets_def)
    from pass_run [OF st_typed, of "watched pw" local now, unfolded clock run] r run show ?thesis by auto
  qed
  with typed show ?thesis by blast
qed

definition demo_table :: "power_schedule list" where
  "demo_table = [\<lparr>tt_minute = 30, tt_hour = 7, tt_days = ''1,5'', tt_enabled = True, tt_last_run = None,
     ps_id = ''s1'', ps_vm = v_id sample_vm, ps_action = ''start'', ps_created_by = None, ps_created_at = 0\<rparr>]"

definition demo_power :: "unit power_api" where
  "demo_power = \<lparr> pw_clock = (\<lambda>_. 0), pw_client = ret (), pw_start = (\<lambda>n v. ret ''UPID:1''), pw_stop = (\<lambda>n v t. ret []),
     pw_reboot = (\<lambda>n v. ret []), pw_wait = (\<lambda>n u t. ret ()) \<rparr>"

definition monday :: local_time where
  "monday = \<lparr>lt_year = 2024, lt_month = 4, lt_date = 6, lt_day = 1, lt_hours = 7, lt_minutes = 30\<rparr>"

text \<open>On a Monday at half past seven the sample machine is started, and not a second time.\<close>

lemma schedules_never_block_the_ticker_witness:
  "\<exists>failed st'. run_due_schedules (watched demo_power) (\<lambda>_. monday) 0
       \<lparr>po_reg = sample_vms, po_schedules = demo_table, po_audit = [], po_world = ((), [])\<rparr> = (Inr (1, failed), st')
     \<and> length (po_audit st') = 1 \<and> filter (due_at (\<lambda>_. monday) 0) (po_schedules st') = []"
proof -
  define st :: "(unit \<times> power_call list) power_state" where
    "st = \<lparr>po_reg = sample_vms, po_schedules = demo_table, po_audit = [], po_world = ((), [])\<rparr>"
  have "\<forall>r \<in> set demo_table. well_typed r"
    by (simp add: demo_table_def well_typed_def timed_def SCHEDULE_ACTIONS_def) code_simp
  note ticker = schedules_never_block_the_ticker [OF this, of "[]" demo_power "\<lambda>_. monday" 0]
  have due: "filter (due_at (\<lambda>_. monday) 0) (list_schedules demo_table) = demo_table" by code_simp
  have st: "po_schedules st = fold write_schedule [] demo_table" "po_schedules st = demo_table" "po_audit st = []" by (simp_all add: st_def)
  have len: "length demo_table = 1" by (simp add: demo_table_def)
  have minute: "same_minute monday monday" by (simp add: same_minute_def)
  from ticker [THEN conjunct2, rule_format, OF st(1)] show ?thesis
    unfolding st(2,3) due len st_def [symmetric] using minute len by (auto dest: map_eq_imp_length_eq)
qed

text \<open>
  The claim does not exclude a second ticker: two passes that have read the rows before either
  has stamped them run every due schedule twice.
\<close>

lemma overlapping_tickers_fire_twice:
  assumes "\<forall>s \<in> set rows. timed s"
  shows "\<exists>f st1 g st2. run_each pw local now rows (0, 0) st = (Inr (length (filter (fires local now) rows), f), st1)
    \<and> run_each pw local now rows (0, 0) st1 = (Inr (length (filter (fires local now) rows), g), st2)"
proof -
  from run_each_run [OF assms, of pw local now "(0, 0)" st] obtain f st1 where
    "run_each pw local now rows (0, 0) st = (Inr (length (filter (fires local now) rows), f), st1)" by auto
  moreover from run_each_run [OF assms, of pw local now "(0, 0)" st1] obtain g st2 where
    "run_each pw local now rows (0, 0) st1 = (Inr (length (filter (fires local now) rows), g), st2)" by auto
  ultimately show ?thesis by blast
qed

subsection \<open>The comparison of tokens\<close>

lemma xor_zero_iff: "xor a b = (0 :: nat) \<longleftrightarrow> a = b"
proof
  assume z: "xor a b = 0"
  have "a = xor (xor a b) b" by (simp add: xor.assoc)
  also have "\<dots> = b" by (simp add: z)
  finally show "a = b" .
qed simp

lemma char_diff_zero:
  "foldl (\<lambda>d p. or d (xor (of_char (fst p)) (of_char (snd p)))) d ps = (0 :: nat)
     \<longleftrightarrow> d = 0 \<and> (\<forall>p \<in> set ps. fst p = (snd p :: char))"
proof (induction ps arbitrary: d)
  case (Cons p ps)
  have "or d (xor (of_char (fst p)) (of_char (snd p))) = 0 \<longleftrightarrow> d = 0 \<and> fst p = snd p"
    unfolding or_eq_0_iff xor_zero_iff of_char_eq_iff ..
  then show ?case
    unfolding foldl_Cons Cons.IH by (metis list.set_intros(1) list.set_intros(2) set_ConsD)
qed simp

lemma same_text_iff: "same_text wanted candidate \<longleftrightarrow> candidate = wanted"
proof
  assume s: "same_text wanted candidate"
  then have len: "length wanted = length candidate" by (simp add: same_text_def)
  have eq: "\<forall>p \<in> set (zip wanted candidate). fst p = snd p"
    using s by (simp add: same_text_def char_diff_def char_diff_zero)
  show "candidate = wanted"
  proof (rule nth_equalityI)
    fix i assume i: "i < length candidate"
    then have "zip wanted candidate ! i \<in> set (zip wanted candidate)" by (intro nth_mem) (simp add: len)
    with eq i len show "candidate ! i = wanted ! i" by fastforce
  qed (simp add: len)
next
  assume "candidate = wanted"
  then show "same_text wanted candidate"
    by (auto simp: same_text_def char_diff_def char_diff_zero set_zip)
qed

subsection \<open>Share links under any interleaving\<close>

text \<open>
  The table, the redemptions between their two statements, and those that were granted. A
  redemption remembers the link its token selected.
\<close>

record link_world =
  lw_links :: "link_row list"
  lw_pending :: "(string \<times> string) list"
  lw_granted :: "(string \<times> string) list"

inductive link_step :: "(string \<Rightarrow> string) \<Rightarrow> link_world \<Rightarrow> link_world \<Rightarrow> bool" for hash where
  create: "create_share_link hash now nid token vm protocol minutes max_uses creator (lw_links s) = (r, t) \<Longrightarrow>
     link_step hash s (s\<lparr>lw_links := t\<rparr>)"
| revoke: "link_step hash s (s\<lparr>lw_links := snd (revoke_share_link now i (lw_links s))\<rparr>)"
| select: "redeem_select hash now token (lw_links s) = Some r \<Longrightarrow>
     link_step hash s (s\<lparr>lw_pending := lw_pending s @ [(token, ln_id r)]\<rparr>)"
| grant: "lw_pending s = before @ (token, i) # after \<Longrightarrow> redeem_count i (lw_links s) = (Some r, t) \<Longrightarrow>
     link_step hash s (s\<lparr>lw_links := t, lw_pending := before @ after, lw_granted := lw_granted s @ [(token, i)]\<rparr>)"
| refuse: "lw_pending s = before @ (token, i) # after \<Longrightarrow> redeem_count i (lw_links s) = (None, t) \<Longrightarrow>
     link_step hash s (s\<lparr>lw_links := t, lw_pending := before @ after\<rparr>)"

text \<open>How often the redemptions of a link were granted.\<close>

definition grants :: "string \<Rightarrow> (string \<times> string) list \<Rightarrow> nat" where
  "grants i g = length (filter (\<lambda>p. snd p = i) g)"

definition counted :: "(string \<times> string) list \<Rightarrow> link_row \<Rightarrow> bool" where
  "counted g r \<longleftrightarrow> ln_uses r = int (grants (ln_id r) g) \<and> (\<forall>m. ln_max_uses r = Some m \<longrightarrow> ln_uses r \<le> m)"

definition known :: "(string \<Rightarrow> string) \<Rightarrow> link_row list \<Rightarrow> string \<times> string \<Rightarrow> bool" where
  "known hash t p \<longleftrightarrow> (\<exists>r \<in> set t. ln_id r = snd p \<and> ln_hash r = hash (fst p))"

definition links_ok :: "(string \<Rightarrow> string) \<Rightarrow> link_world \<Rightarrow> bool" where
  "links_ok hash s \<longleftrightarrow> link_table.unique (lw_links s) \<and> (\<forall>r \<in> set (lw_links s). counted (lw_granted s) r)
     \<and> (\<forall>p \<in> set (lw_pending s) \<union> set (lw_granted s). known hash (lw_links s) p)"

lemma links_okD:
  "links_ok hash s \<Longrightarrow> p \<in> set (lw_granted s) \<Longrightarrow> \<exists>r \<in> set (lw_links s). ln_id r = snd p \<and> ln_hash r = hash (fst p)"
  unfolding links_ok_def known_def by blast

lemma known_update:
  assumes "known hash t p" "\<And>r. ln_id (f r) = ln_id r" "\<And>r. ln_hash (f r) = ln_hash r"
  shows "known hash (table_update P f t) p"
proof -
  from assms(1) obtain r where "r \<in> set t" "ln_id r = snd p" "ln_hash r = hash (fst p)" by (auto simp: known_def)
  then show ?thesis
    unfolding known_def by (intro bexI [of _ "if P r then f r else r"]) (auto simp: assms)
qed

lemma known_append: "known hash t p \<Longrightarrow> known hash (t @ u) p"
  by (auto simp: known_def)

lemma redeem_select_found:
  assumes "redeem_select hash now token t = Some r"
  shows "r \<in> set t \<and> ln_hash r = hash token \<and> ln_revoked r = None \<and> ln_expires r > now \<and> usable r"
proof -
  from assms obtain x where x: "find (\<lambda>r. same_text (hash token) (ln_hash r)) (filter (open_link now) t) = Some x"
    and r: "r = x" "usable x"
    by (auto simp: redeem_select_def usable_def split: if_splits option.splits)
  from find_Some_in [OF x] have "x \<in> set t" "open_link now x" "ln_hash x = hash token"
    by (auto simp: same_text_iff)
  with r show ?thesis by (simp add: open_link_def)
qed

lemma redeem_count_run:
  assumes "redeem_count i t = (res, t')"
  shows "t' = table_update (\<lambda>r. ln_id r = i \<and> usable r) (\<lambda>r. r\<lparr>ln_uses := ln_uses r + 1\<rparr>) t
     \<and> (res \<noteq> None \<longleftrightarrow> (\<exists>r \<in> set t. ln_id r = i \<and> usable r))"
proof -
  have t': "t' = table_update (\<lambda>r. ln_id r = i \<and> usable r) (\<lambda>r. r\<lparr>ln_uses := ln_uses r + 1\<rparr>) t"
    using assms by (simp add: redeem_count_def Let_def)
  have "map ln_id t' = map ln_id t" unfolding t' by (simp add: table_update_def)
  then have "ln_id ` set t' = ln_id ` set t" by (metis set_map)
  then have "link_of i t' = None \<longleftrightarrow> i \<notin> ln_id ` set t" by (simp add: link_table.lookup_None_iff)
  moreover have "res = (if \<exists>r \<in> set t. ln_id r = i \<and> usable r then link_of i t' else None)"
    using assms t' by (auto simp: redeem_count_def Let_def list_ex_iff)
  ultimately show ?thesis using t' by auto
qed

lemma links_ok_step:
  assumes "link_step hash s s'" "links_ok hash s"
  shows "links_ok hash s'"
  using assms
proof (cases rule: link_step.cases)
  case (create now nid token vm protocol minutes max_uses creator r t)
  from create(2) consider "t = lw_links s"
    | row where "t = lw_links s @ [row]" "link_of (ln_id row) (lw_links s) = None" "ln_uses row = 0"
        "\<forall>m. ln_max_uses row = Some m \<longrightarrow> 0 < m"
    by (fastforce simp: create_share_link_def Let_def list_ex_iff link_table.lookup_None_iff
        split: if_splits option.splits json.splits)
  then show ?thesis
  proof cases
    case 1
    with create(1) assms(2) show ?thesis by simp
  next
    case (2 row)
    have "snd p \<noteq> ln_id row" if "p \<in> set (lw_granted s)" for p
    proof -
      from links_okD [OF assms(2) that] obtain x where "x \<in> set (lw_links s)" "ln_id x = snd p" by blast
      then have "snd p \<in> ln_id ` set (lw_links s)" by (metis imageI)
      with 2(2) show ?thesis by (metis link_table.lookup_None_iff)
    qed
    then have "counted (lw_granted s) row"
      using 2(3,4) by (fastforce simp: counted_def grants_def filter_empty_conv)
    with create(1) assms(2) 2 show ?thesis
      using link_table.unique_append known_append by (auto simp: links_ok_def)
  qed
next
  case (revoke now i)
  have "counted g (r\<lparr>ln_revoked := x\<rparr>) = counted g r" for g r x by (simp add: counted_def)
  with revoke assms(2) show ?thesis
    by (auto simp: links_ok_def revoke_share_link_def link_table.unique_update intro!: known_update)
next
  case (select now token r)
  with assms(2) redeem_select_found [OF select(2)] show ?thesis
    by (auto simp: links_ok_def known_def)
next
  case (grant before token i after r t)
  note count = redeem_count_run [OF grant(3)]
  have u: "link_table.unique (lw_links s)" using assms(2) by (simp add: links_ok_def)
  have t: "t = table_update (\<lambda>r. ln_id r = i) (\<lambda>r. r\<lparr>ln_uses := ln_uses r + 1\<rparr>) (lw_links s)"
  proof -
    from count obtain x where x: "x \<in> set (lw_links s)" "ln_id x = i" "usable x" by auto
    have "y \<in> set (lw_links s) \<Longrightarrow> ln_id y = i \<Longrightarrow> usable y" for y
      using link_table.lookup_unique [OF u] x by (metis option.inject)
    with count show ?thesis by (auto simp: table_update_def)
  qed
  have usable: "y \<in> set (lw_links s) \<Longrightarrow> ln_id y = i \<Longrightarrow> usable y" for y
    using count link_table.lookup_unique [OF u] by (metis option.distinct(1) option.inject)
  have rows: "counted (lw_granted s @ [(token, i)]) x" if "x \<in> set t" for x
  proof -
    from that t obtain y where y: "y \<in> set (lw_links s)" "x = (if ln_id y = i then y\<lparr>ln_uses := ln_uses y + 1\<rparr> else y)" by auto
    then have "counted (lw_granted s) y" using assms(2) by (simp add: links_ok_def)
    with y usable [OF y(1)] show ?thesis by (auto simp: counted_def grants_def usable_def)
  qed
  have "known hash t p" if "p \<in> set (lw_pending s) \<union> set (lw_granted s)" for p
    unfolding t by (rule known_update) (use assms(2) that in \<open>auto simp: links_ok_def\<close>)
  moreover have "link_table.unique t" unfolding t by (rule link_table.unique_update [OF u]) simp
  ultimately show ?thesis
    using rows grant(1,2) by (auto simp: links_ok_def)
next
  case (refuse before token i after t)
  note count = redeem_count_run [OF refuse(3)]
  then have "t = lw_links s"
    by (auto simp: table_update_def intro!: map_idI)
  with refuse assms(2) show ?thesis by (auto simp: links_ok_def)
qed

inductive link_runs :: "(string \<Rightarrow> string) \<Rightarrow> link_world \<Rightarrow> bool" for hash where
  none: "link_runs hash \<lparr>lw_links = [], lw_pending = [], lw_granted = []\<rparr>"
| more: "link_runs hash s \<Longrightarrow> link_step hash s s' \<Longrightarrow> link_runs hash s'"

lemma link_runs_ok: "link_runs hash s \<Longrightarrow> links_ok hash s"
  by (induction rule: link_runs.induct)
    (simp add: links_ok_def link_table.unique_def, rule links_ok_step)

text \<open>C25. A share link is never used more often than it allows, however the two statements of any
  number of redemptions, revocations and creations interleave: its use count is the number of
  redemptions granted for it and stays under its limit, and each grant went to a request whose
  token has the hash stored with that link.\<close>

theorem share_link_uses_are_bounded:
  assumes "link_runs hash s" and "r \<in> set (lw_links s)"
  shows "ln_uses r = int (grants (ln_id r) (lw_granted s))
    \<and> (\<forall>m. ln_max_uses r = Some m \<longrightarrow> int (grants (ln_id r) (lw_granted s)) \<le> m)
    \<and> (\<forall>token. (token, ln_id r) \<in> set (lw_granted s) \<longrightarrow> ln_hash r = hash token)"
proof -
  have ok: "links_ok hash s" using link_runs_ok [OF assms(1)] .
  then have "counted (lw_granted s) r"
    using assms(2) by (simp add: links_ok_def)
  moreover have "ln_hash r = hash token" if g: "(token, ln_id r) \<in> set (lw_granted s)" for token
  proof -
    from links_okD [OF ok g] obtain x where x: "x \<in> set (lw_links s)" "ln_id x = ln_id r" "ln_hash x = hash token"
      by auto
    from ok have "link_table.unique (lw_links s)" by (simp add: links_ok_def)
    with x assms(2) show ?thesis
      using link_table.lookup_unique by (metis option.inject)
  qed
  ultimately show ?thesis by (auto simp: counted_def)
qed

definition demo_link :: link_row where
  "demo_link = \<lparr>ln_id = ''k1'', ln_vm = ''v1'', ln_protocol = ''ssh'', ln_hash = ''secret'', ln_expires = 300000,
     ln_max_uses = Some 1, ln_uses = 0, ln_revoked = None, ln_created_by = None, ln_created_at = 0\<rparr>"

text \<open>Two redemptions select the link, it is revoked, and one of them is granted still.\<close>

definition revoked_world :: link_world where
  "revoked_world = \<lparr>lw_links = [demo_link\<lparr>ln_revoked := Some 7\<rparr>],
     lw_pending = [(''secret'', ''k1''), (''secret'', ''k1'')], lw_granted = []\<rparr>"

definition raced_world :: link_world where
  "raced_world = \<lparr>lw_links = [demo_link\<lparr>ln_uses := 1, ln_revoked := Some 7\<rparr>], lw_pending = [(''secret'', ''k1'')],
     lw_granted = [(''secret'', ''k1'')]\<rparr>"

lemma revoked_world_runs: "link_runs (\<lambda>t. t) revoked_world"
proof -
  let ?w = "\<lambda>l p. \<lparr>lw_links = l, lw_pending = p, lw_granted = []\<rparr> :: link_world"
  have "create_share_link (\<lambda>t. t) 0 ''k1'' ''secret'' ''v1'' ''ssh'' (JNum 5) (Some (JNum 1)) None [] = (Inr (demo_link, ''secret''), [demo_link])"
    by (simp add: create_share_link_def number_in_def number_of_def demo_link_def Let_def)
  with link_runs.more [OF link_runs.none link_step.create, of "\<lambda>t. t"] have "link_runs (\<lambda>t. t) (?w [demo_link] [])"
    by fastforce
  from link_runs.more [OF this link_step.select [where now = 5 and token = "''secret''" and r = demo_link]]
  have "link_runs (\<lambda>t. t) (?w [demo_link] [(''secret'', ''k1'')])"
    by (simp add: redeem_select_def demo_link_def open_link_def same_text_iff)
  from link_runs.more [OF this link_step.select [where now = 6 and token = "''secret''" and r = demo_link]]
  have "link_runs (\<lambda>t. t) (?w [demo_link] [(''secret'', ''k1''), (''secret'', ''k1'')])"
    by (simp add: redeem_select_def demo_link_def open_link_def same_text_iff)
  from link_runs.more [OF this link_step.revoke [where now = 7 and i = "''k1''"]]
  show ?thesis
    by (simp add: revoke_share_link_def demo_link_def table_update_def revoked_world_def)
qed

lemma raced_step: "link_step (\<lambda>t. t) revoked_world raced_world"
  using link_step.grant [where s = revoked_world and hash = "\<lambda>t. t" and before = "[]" and token = "''secret''" and i = "''k1''"
      and after = "[(''secret'', ''k1'')]" and r = "demo_link\<lparr>ln_revoked := Some 7, ln_uses := 1\<rparr>"
      and t = "[demo_link\<lparr>ln_revoked := Some 7, ln_uses := 1\<rparr>]"]
  by (simp add: redeem_count_def demo_link_def usable_def table_update_def link_of_def table_find_def raced_world_def
      revoked_world_def)

lemma share_link_uses_are_bounded_witness: "int (grants ''k1'' (lw_granted raced_world)) \<le> 1"
  using share_link_uses_are_bounded [OF link_runs.more [OF revoked_world_runs raced_step], of "hd (lw_links raced_world)"]
  by (simp add: raced_world_def demo_link_def)

text \<open>So a revocation does not stop a redemption that has passed its first statement.\<close>

lemma revocation_can_come_too_late:
  "\<exists>s s'. link_runs (\<lambda>t. t) s \<and> link_step (\<lambda>t. t) s s' \<and> (\<forall>r \<in> set (lw_links s). ln_revoked r \<noteq> None)
     \<and> length (lw_granted s') = Suc (length (lw_granted s))"
  using revoked_world_runs raced_step
  by (intro exI [of _ revoked_world] exI [of _ raced_world]) (simp add: revoked_world_def raced_world_def)

subsection \<open>The port scan\<close>

fun busy :: "nat option list \<Rightarrow> nat multiset" where
  "busy [] = {#}"
| "busy (None # ws) = busy ws"
| "busy (Some p # ws) = add_mset p (busy ws)"

lemma busy_take: "w < length ws \<Longrightarrow> ws ! w = None \<Longrightarrow> busy (ws[w := Some p]) = add_mset p (busy ws)"
proof (induction ws arbitrary: w)
  case (Cons x ws)
  then show ?case by (cases w; cases x) auto
qed simp

lemma busy_release: "w < length ws \<Longrightarrow> ws ! w = Some p \<Longrightarrow> busy ws = add_mset p (busy (ws[w := None]))"
proof (induction ws arbitrary: w)
  case (Cons x ws)
  then show ?case by (cases w; cases x) auto
qed simp

lemma size_busy: "size (busy ws) \<le> length ws"
  by (induction ws rule: busy.induct) auto

lemma busy_idle: "busy (replicate n None) = {#}"
  by (induction n) auto

lemma all_idle: "busy ws = {#} \<longleftrightarrow> (\<forall>w < length ws. ws ! w = None)"
proof (induction ws rule: busy.induct)
  case (2 ws)
  then show ?case by (auto simp: less_Suc_eq_0_disj)
qed auto

definition scan_work :: "scan \<Rightarrow> nat" where
  "scan_work s = 2 * length (sc_queue s) + size (busy (sc_workers s))"

lemma scan_progress: "scan_step answers s s' \<Longrightarrow> scan_work s' < scan_work s"
proof (induction rule: scan_step.induct)
  case (take w s p rest)
  then show ?case by (simp add: scan_work_def busy_take [OF take(1,2)])
next
  case (hit w s p)
  then show ?case by (simp add: scan_work_def busy_release [OF hit(1,2)])
next
  case (miss w s p)
  then show ?case by (simp add: scan_work_def busy_release [OF miss(1,2)])
qed

definition scan_ok :: "(nat \<Rightarrow> bool) \<Rightarrow> nat \<Rightarrow> nat list \<Rightarrow> scan \<Rightarrow> bool" where
  "scan_ok answers n ports s \<longleftrightarrow> length (sc_workers s) = n
     \<and> filter_mset answers (mset (sc_queue s) + busy (sc_workers s)) + mset (map fst (sc_found s)) = filter_mset answers (mset ports)
     \<and> sc_found s = map (\<lambda>p. (p, service_name p)) (map fst (sc_found s))"

lemma scan_ok_step: "scan_step answers s s' \<Longrightarrow> scan_ok answers n ports s \<Longrightarrow> scan_ok answers n ports s'"
proof (induction rule: scan_step.induct)
  case (take w s p rest)
  then show ?case by (auto simp: scan_ok_def busy_take)
next
  case (hit w s p)
  then show ?case by (auto simp: scan_ok_def busy_release [OF hit(1,2)] union_assoc)
next
  case (miss w s p)
  then show ?case by (auto simp: scan_ok_def busy_release [OF miss(1,2)])
qed

lemma scan_ok_runs:
  "rtranclp (scan_step answers) (scan_start c ports) s \<Longrightarrow> scan_ok answers (min c (length ports)) ports s"
proof (induction rule: rtranclp_induct)
  case base
  then show ?case by (simp add: scan_ok_def scan_start_def busy_idle)
next
  case (step s s')
  then show ?case by (blast intro: scan_ok_step)
qed

lemma stuck_scan:
  assumes "\<nexists>s'. scan_step answers s s'" "0 < length (sc_workers s)"
  shows "sc_queue s = [] \<and> busy (sc_workers s) = {#}"
proof -
  have idle: "sc_workers s ! w = None" if "w < length (sc_workers s)" for w
    using assms(1) that scan_step.hit [OF that] scan_step.miss [OF that] by (cases "sc_workers s ! w") blast+
  moreover have "sc_queue s = []"
    using assms scan_step.take [of 0 s] idle [of 0] by (cases "sc_queue s") auto
  ultimately show ?thesis by (simp add: all_idle)
qed

lemma insort_named: "insort_key fst (p, f p) (map (\<lambda>p. (p, f p)) ys) = map (\<lambda>p. (p, f p)) (insort p ys)"
  by (induction ys) auto

lemma sort_named: "sort_key fst (map (\<lambda>p. (p, f p)) xs) = map (\<lambda>p. (p, f p)) (sort xs)"
  by (induction xs) (simp_all add: insort_named)

text \<open>C26. Every scan ends, with the same answer in whatever order its workers take ports and probes
  return: no run goes on for ever, at most \<open>concurrency\<close> probes are open at a time, and when no
  worker has anything left to do the result lists exactly the ports that answer, in order, each
  with the name of its service.\<close>

theorem port_scan_ends_the_same:
  assumes "0 < concurrency" and "rtranclp (scan_step answers) (scan_start concurrency ports) s"
  shows "wfP (\<lambda>b a. scan_step answers a b) \<and> size (busy (sc_workers s)) \<le> concurrency
    \<and> ((\<nexists>s'. scan_step answers s s') \<longrightarrow>
        scan_result s = map (\<lambda>p. (p, service_name p)) (sort (filter answers ports)))"
proof (intro conjI impI)
  have "{(b, a). scan_step answers a b} \<subseteq> measure scan_work"
    using scan_progress by auto
  then show "wfP (\<lambda>b a. scan_step answers a b)"
    unfolding wfp_def by (rule wf_subset [OF wf_measure])
  have ok: "scan_ok answers (min concurrency (length ports)) ports s" using scan_ok_runs [OF assms(2)] .
  then show "size (busy (sc_workers s)) \<le> concurrency"
    using size_busy [of "sc_workers s"] by (simp add: scan_ok_def)
  assume stuck: "\<nexists>s'. scan_step answers s s'"
  have "mset (map fst (sc_found s)) = mset (filter answers ports)"
  proof (cases ports)
    case Nil
    with ok show ?thesis by (simp add: scan_ok_def)
  next
    case (Cons p ps)
    with ok assms(1) stuck_scan [OF stuck] show ?thesis by (simp add: scan_ok_def)
  qed
  then have "sort (map fst (sc_found s)) = sort (filter answers ports)"
    by (metis mset_sort properties_for_sort sorted_sort)
  then show "scan_result s = map (\<lambda>p. (p, service_name p)) (sort (filter answers ports))"
    using ok sort_named [of service_name "map fst (sc_found s)"] by (simp add: scan_ok_def scan_result_def)
qed

lemma port_scan_ends_the_same_witness:
  "scan_result \<lparr>sc_queue = [], sc_workers = [None], sc_found = [(22, ''SSH'')]\<rparr> = [(22, ''SSH'')]"
proof -
  let ?a = "\<lambda>p. p = (22 :: nat)"
  let ?s1 = "\<lparr>sc_queue = [], sc_workers = [Some 22], sc_found = []\<rparr>"
  let ?s2 = "\<lparr>sc_queue = [], sc_workers = [None], sc_found = [(22, service_name 22)]\<rparr>"
  have "scan_step ?a (scan_start 8 [22]) ?s1"
    using scan_step.take [of 0 "scan_start 8 [22]" 22 "[]" ?a] by (simp add: scan_start_def)
  moreover have "scan_step ?a ?s1 ?s2"
    using scan_step.hit [of 0 ?s1 22 ?a] by simp
  ultimately have run: "rtranclp (scan_step ?a) (scan_start 8 [22]) ?s2"
    by (meson rtranclp.rtrancl_into_rtrancl rtranclp.rtrancl_refl)
  have "\<nexists>s'. scan_step ?a ?s2 s'"
    by (auto elim: scan_step.cases)
  with port_scan_ends_the_same [OF _ run] show ?thesis
    by (simp add: service_name_def KNOWN_SERVICE_PORTS_def)
qed

end
