(* ===== verification/Alerts.thy ===== *)
theory Alerts
  imports Ssrf Settings
begin

text \<open>
  Notifications of administrators and users: the bell (\<open>services/notifications.ts\<close>), the webhook
  guard and its transport (the end of \<open>services/threats.ts\<close>), and Gotify (\<open>services/gotify.ts\<close>).

  The bell is a table of rows. HTTP, DNS, the URL parser are the record \<open>net\<close> of the request
  guard. Settings are read through a function from keys to results.
\<close>

subsection \<open>The bell\<close>

definition ADMIN_AUDIENCE :: string where
  "ADMIN_AUDIENCE = ''admins''"

definition NOTIFICATION_KINDS :: "string list" where
  "NOTIFICATION_KINDS = [''threat'', ''ticket'', ''registration'', ''user'', ''backup'', ''system'']"

record bell_row =
  nt_id :: string
  nt_audience :: string
  nt_kind :: string
  nt_title :: string
  nt_body :: "string option"
  nt_link :: "string option"
  nt_read :: "time option"
  nt_created :: time

record notify_input =
  ni_audience :: string
  ni_kind :: string
  ni_title :: string
  ni_body :: "string option"
  ni_link :: "string option"

definition assert_valid_audience :: "string \<Rightarrow> unit res" where
  "assert_valid_audience a = guard (a = ADMIN_AUDIENCE \<or> is_uuid a)
     (err_validation (''audience must be '' @ [CHR 0x27] @ ''admins'' @ [CHR 0x27] @ '' or a user id''))"

definition check_note :: "notify_input \<Rightarrow> unit res" where
  "check_note n =
     rbind (assert_valid_audience (ni_audience n)) (\<lambda>_.
     rbind (guard (ni_kind n \<in> set NOTIFICATION_KINDS)
       (err_validation (''kind must be one of: '' @ join '', '' NOTIFICATION_KINDS))) (\<lambda>_.
     guard (trim (ni_title n) \<noteq> [] \<and> length (ni_title n) \<le> 160) (err_validation ''title must be 1-160 characters'')))"

definition notify_one :: "time \<Rightarrow> string \<Rightarrow> notify_input \<Rightarrow> (bell_row list, bell_row) comp" where
  "notify_one now nid n t =
     (case check_note n of
        Inl e \<Rightarrow> (Inl e, t)
      | Inr _ \<Rightarrow>
         if list_ex (\<lambda>r. nt_id r = nid) t then (Inl (pg_error ''duplicate key value violates unique constraint''), t)
         else let row = \<lparr>nt_id = nid, nt_audience = ni_audience n, nt_kind = ni_kind n, nt_title = trim (ni_title n),
                nt_body = map_option (take 2000) (ni_body n), nt_link = map_option (take 512) (ni_link n),
                nt_read = None, nt_created = now\<rparr>
              in (Inr row, t @ [row]))"

text \<open>Each item comes with the identifier drawn for its row.\<close>

fun notify_all :: "time \<Rightarrow> (string \<times> notify_input) list \<Rightarrow> (bell_row list, bell_row list) comp" where
  "notify_all now [] = ret []"
| "notify_all now ((nid, n) # items) = bind (notify_one now nid n) (\<lambda>r. bind (notify_all now items) (\<lambda>rs. ret (r # rs)))"

record viewer =
  vw_user :: string
  vw_admin :: bool

definition audience_filter :: "viewer \<Rightarrow> bell_row \<Rightarrow> bool" where
  "audience_filter v r \<longleftrightarrow>
     (if vw_admin v then nt_audience r = ADMIN_AUDIENCE \<or> nt_audience r = vw_user v else nt_audience r = vw_user v)"

definition READ_RETENTION_MS :: int where
  "READ_RETENTION_MS = 90 * 24 * 3600 * 1000"

definition list_notifications :: "time \<Rightarrow> viewer \<Rightarrow> int \<Rightarrow> bell_row list \<Rightarrow> bell_row list \<times> bell_row list" where
  "list_notifications now v limit t =
     (take (nat (min (max limit 1) 50)) (sort_key (\<lambda>r. - nt_created r) (filter (audience_filter v) t)),
      table_delete (\<lambda>r. case nt_read r of None \<Rightarrow> False | Some d \<Rightarrow> d < now - READ_RETENTION_MS) t)"

definition unread_notification_count :: "viewer \<Rightarrow> bell_row list \<Rightarrow> nat" where
  "unread_notification_count v t = length (filter (\<lambda>r. audience_filter v r \<and> nt_read r = None) t)"

definition mark_where :: "time \<Rightarrow> (bell_row \<Rightarrow> bool) \<Rightarrow> bell_row list \<Rightarrow> nat \<times> bell_row list" where
  "mark_where now P t = (length (filter P t), table_update P (\<lambda>r. r\<lparr>nt_read := Some now\<rparr>) t)"

definition mark_notifications_read ::
  "time \<Rightarrow> viewer \<Rightarrow> string list option \<Rightarrow> bool \<Rightarrow> bell_row list \<Rightarrow> nat \<times> bell_row list" where
  "mark_notifications_read now v ids every t =
     (if every then mark_where now (\<lambda>r. audience_filter v r \<and> nt_read r = None) t
      else let wanted = take 100 (filter is_uuid (dedup (or_else ids []))) in
        if wanted = [] then (0, t)
        else mark_where now (\<lambda>r. audience_filter v r \<and> nt_id r \<in> set wanted \<and> nt_read r = None) t)"

subsection \<open>The webhook guard\<close>

text \<open>\<open>None\<close> is the early \<open>return true\<close> for a mapped address that cannot be read.\<close>

definition webhook_v4 :: "string \<Rightarrow> string option" where
  "webhook_v4 host =
     (let rest = drop 7 host in
      if starts_with host ''::ffff:'' \<and> rest \<noteq> [] \<and> CHR 0x0A \<notin> set rest \<and> CHR 0x0D \<notin> set rest
      then (if CHR '':'' \<in> set rest
            then (case split_on CHR '':'' rest of
                [a, b] \<Rightarrow> (if hex_group a \<and> hex_group b
                   then Some (join ''.'' (map int_str
                     (octets_of (or (push_bit 16 (word_of_int (radix_val 16 a))) (word_of_int (radix_val 16 b))))))
                   else None)
              | _ \<Rightarrow> None)
            else Some rest)
      else Some host)"

definition webhook_numeric :: "string \<Rightarrow> int list option" where
  "webhook_numeric v4 =
     (let parts = split_on CHR ''.'' v4 in
      if length parts < 1 \<or> length parts > 4 then None
      else case parse_parts parts of None \<Rightarrow> None | Some nums \<Rightarrow> octets_of_parts nums)"

definition is_blocked_webhook_host :: "string \<Rightarrow> bool" where
  "is_blocked_webhook_host hostname =
     (let host = strip_host_brackets (to_lower hostname) in
      if host = ''localhost'' \<or> host = ''metadata.google.internal'' \<or> ends_with host ''.metadata.google.internal'' then True
      else if (case quad_prefix host of None \<Rightarrow> False | Some os \<Rightarrow> list_all (\<lambda>n. n \<le> 255) os \<and> blocked_octets os) then True
      else case webhook_v4 host of
          None \<Rightarrow> True
        | Some v4 \<Rightarrow> (case webhook_numeric v4 of
            Some os \<Rightarrow> blocked_octets os
          | None \<Rightarrow> CHR '':'' \<in> set host \<and>
              (host = ''::1'' \<or> host = ''::'' \<or> starts_with host ''fe80:'' \<or> starts_with host ''fc'' \<or> starts_with host ''fd'')))"

definition assert_safe_webhook_url :: "(string \<Rightarrow> url option) \<Rightarrow> string \<Rightarrow> string res" where
  "assert_safe_webhook_url parse raw =
     (case parse (trim raw) of
        None \<Rightarrow> Inl (err_validation ''Webhook URL must be a valid http(s) URL'')
      | Some u \<Rightarrow>
         if url_protocol u \<noteq> ''http:'' \<and> url_protocol u \<noteq> ''https:''
         then Inl (err_validation ''Webhook URL must use http or https'')
         else if is_blocked_webhook_host (url_hostname u)
         then Inl (err_validation ''Webhook URL must not target loopback, link-local, or cloud metadata endpoints'')
         else Inr (trim raw))"

definition response_ok :: "int \<Rightarrow> bool" where
  "response_ok st \<longleftrightarrow> 200 \<le> st \<and> st \<le> 299"

text \<open>\<open>resolve_safely\<close>: every address of the host must be safe; the two messages are the caller's.\<close>

definition resolve_safely ::
  "'w net \<Rightarrow> string \<Rightarrow> (app_error \<Rightarrow> app_error) \<Rightarrow> app_error \<Rightarrow> ('w, unit) comp" where
  "resolve_safely nt h failed blocked =
     bind (try_catch (net_lookup nt h) (\<lambda>e. throw (failed e))) (\<lambda>addresses.
     if addresses = [] \<or> list_ex is_blocked_webhook_host addresses then throw blocked else ret ())"

fun post_hops :: "'w net \<Rightarrow> nat \<Rightarrow> string \<Rightarrow> ('w, unit) comp" where
  "post_hops nt 0 current = throw (plain_error ''Webhook redirect limit exceeded'')"
| "post_hops nt (Suc n) current =
     bind (net_get nt current) (\<lambda>res.
     if \<not> is_redirect (hr_status res)
     then (if response_ok (hr_status res) then ret ()
           else throw (plain_error (''Webhook POST failed with status '' @ int_str (hr_status res))))
     else case hr_location res of
        None \<Rightarrow> throw (plain_error ''Webhook redirect without Location'')
      | Some loc \<Rightarrow> if loc = [] then throw (plain_error ''Webhook redirect without Location'') else
         (case net_resolve nt loc current of
            None \<Rightarrow> throw (plain_error ''Invalid URL'')
          | Some next \<Rightarrow> (case net_parse nt next of
              None \<Rightarrow> throw (plain_error ''Invalid URL'')
            | Some nu \<Rightarrow>
               if url_protocol nu \<noteq> ''https:'' \<or> is_blocked_webhook_host (url_hostname nu)
               then throw (plain_error ''Webhook redirect target refused'')
               else bind (resolve_safely nt (url_hostname nu) (\<lambda>e. plain_error (err_message e))
                      (plain_error ''Webhook redirect target resolves to a blocked address'')) (\<lambda>_.
                    post_hops nt n next))))"

definition default_post :: "'w net \<Rightarrow> string \<Rightarrow> ('w, unit) comp" where
  "default_post nt address =
     (case net_parse nt address of
        None \<Rightarrow> throw (plain_error ''Invalid URL'')
      | Some u \<Rightarrow>
         bind (resolve_safely nt (url_hostname u) (\<lambda>_. plain_error ''Webhook hostname does not resolve'')
           (plain_error ''Webhook hostname resolves to a blocked address'')) (\<lambda>_.
         post_hops nt 2 address))"

subsection \<open>Gotify\<close>

definition GOTIFY_DEFAULT_PRIORITY :: int where
  "GOTIFY_DEFAULT_PRIORITY = 5"

definition normalize_gotify_base :: "string \<Rightarrow> string" where
  "normalize_gotify_base raw = strip_trailing_slashes (trim raw)"

definition clamp_gotify_priority :: "json \<Rightarrow> int" where
  "clamp_gotify_priority raw =
     (case (case raw of JStr s \<Rightarrow> js_number s | v \<Rightarrow> v) of
        JNum n \<Rightarrow> if n < 0 \<or> n > 10 then GOTIFY_DEFAULT_PRIORITY else n
      | _ \<Rightarrow> GOTIFY_DEFAULT_PRIORITY)"

definition stored_priority :: "string option \<Rightarrow> json" where
  "stored_priority p = (case p of None \<Rightarrow> JNum GOTIFY_DEFAULT_PRIORITY | Some s \<Rightarrow> JStr s)"

definition blank :: "string option \<Rightarrow> bool" where
  "blank s \<longleftrightarrow> (case s of None \<Rightarrow> True | Some v \<Rightarrow> trim v = [])"

record gotify_config =
  go_enabled :: bool
  go_url :: "string option"
  go_has_token :: bool
  go_priority :: int

definition get_gotify_config :: "(string \<Rightarrow> string option res) \<Rightarrow> gotify_config res" where
  "get_gotify_config get =
     rbind (get ''notifications.gotify_enabled'') (\<lambda>enabled.
     rbind (get ''notifications.gotify_url'') (\<lambda>address.
     rbind (get ''notifications.gotify_token'') (\<lambda>token.
     rbind (get ''notifications.gotify_priority'') (\<lambda>priority.
     Inr \<lparr>go_enabled = (or_else enabled ''false'' = ''true''),
       go_url = (if blank address then None else Some (normalize_gotify_base (the address))),
       go_has_token = (\<not> blank token), go_priority = clamp_gotify_priority (stored_priority priority)\<rparr>))))"

text \<open>\<open>encodeURIComponent\<close> of a text of Latin-1 characters, which become one or two UTF-8 bytes.\<close>

definition hex_digit :: "nat \<Rightarrow> char" where
  "hex_digit n = (if n < 10 then char_of (48 + n) else char_of (55 + n))"

definition percent_byte :: "nat \<Rightarrow> string" where
  "percent_byte b = [CHR ''%'', hex_digit (b div 16), hex_digit (b mod 16)]"

definition uri_plain :: "char \<Rightarrow> bool" where
  "uri_plain c \<longleftrightarrow> is_digit c \<or> (65 \<le> (of_char c :: nat) \<and> (of_char c :: nat) \<le> 90)
     \<or> (97 \<le> (of_char c :: nat) \<and> (of_char c :: nat) \<le> 122) \<or> c \<in> set (''-_.!~*()'' @ [CHR 0x27])"

definition encode_uri_component :: "string \<Rightarrow> string" where
  "encode_uri_component s = concat (map (\<lambda>c.
     if uri_plain c then [c]
     else let n = (of_char c :: nat) in
       if n < 128 then percent_byte n else percent_byte (192 + n div 64) @ percent_byte (128 + n mod 64)) s)"

record gotify_message =
  gm_title :: string
  gm_message :: string
  gm_priority :: "json option"

definition gotify_post :: "'w net \<Rightarrow> string \<Rightarrow> ('w, unit) comp" where
  "gotify_post nt address = bind (fetch_with_ssrf_guard nt address 1) (\<lambda>res.
     if response_ok (hr_status res) then ret ()
     else throw (plain_error (''Gotify POST failed with status '' @ int_str (hr_status res))))"

definition gotify_body :: "gotify_message \<Rightarrow> string option \<Rightarrow> json" where
  "gotify_body msg stored = JObj [
     (''title'', JStr (let t = take 200 (trim (gm_title msg)) in if t = [] then ''ProxVM notification'' else t)),
     (''message'', JStr (take 4000 (gm_message msg))),
     (''priority'', JNum (case gm_priority msg of Some p \<Rightarrow> clamp_gotify_priority p
        | None \<Rightarrow> clamp_gotify_priority (stored_priority stored)))]"

definition send_gotify_message ::
  "(string \<Rightarrow> url option) \<Rightarrow> (string \<Rightarrow> json \<Rightarrow> ('w, unit) comp) \<Rightarrow> (string \<Rightarrow> string option res) \<Rightarrow> gotify_message
   \<Rightarrow> ('w, bool) comp" where
  "send_gotify_message parse post get msg =
     bind (lift_res (get ''notifications.gotify_enabled'')) (\<lambda>enabled.
     bind (lift_res (get ''notifications.gotify_url'')) (\<lambda>address.
     bind (lift_res (get ''notifications.gotify_token'')) (\<lambda>token.
     bind (lift_res (get ''notifications.gotify_priority'')) (\<lambda>priority.
     if or_else enabled ''false'' \<noteq> ''true'' then ret False
     else if blank address \<or> blank token then ret False
     else bind (lift_res (assert_safe_webhook_url parse (the address))) (\<lambda>safe.
          bind (post (normalize_gotify_base safe @ ''/message?token='' @ encode_uri_component (trim (the token)))
            (gotify_body msg priority)) (\<lambda>_. ret True))))))"

text \<open>The two channels of an alert to the administrators; neither failure is seen by the caller.\<close>

definition alert_admins ::
  "time \<Rightarrow> string \<Rightarrow> (string \<Rightarrow> url option) \<Rightarrow> (string \<Rightarrow> json \<Rightarrow> ('w, unit) comp) \<Rightarrow> (string \<Rightarrow> string option res)
   \<Rightarrow> string option \<Rightarrow> string \<Rightarrow> string option \<Rightarrow> string option \<Rightarrow> json option \<Rightarrow> (bell_row list \<times> 'w) \<Rightarrow> bell_row list \<times> 'w" where
  "alert_admins now nid parse post get kind title body link priority st =
     (snd (notify_one now nid \<lparr>ni_audience = ADMIN_AUDIENCE, ni_kind = or_else kind ''system'', ni_title = title,
        ni_body = body, ni_link = link\<rparr> (fst st)),
      snd (send_gotify_message parse post get
        \<lparr>gm_title = title, gm_message = or_else body title, gm_priority = priority\<rparr> (snd st)))"

end
