(* ===== verification/Alerts_Props.thy ===== *)
theory Alerts_Props
  imports Alerts
begin

text \<open>
  The two copies of the destination guard compared, who sees which notification, and when
  Gotify is called at all.
\<close>

subsection \<open>Lower case\<close>

lemma lower_char: "to_lower (to_lower [c]) = to_lower [c]"
proof (cases "65 \<le> (of_char c :: nat) \<and> (of_char c :: nat) \<le> 90")
  case True
  then have "(of_char (char_of ((of_char c :: nat) + 32) :: char) :: nat) = of_char c + 32"
    by (simp only: of_char_of) simp
  with True show ?thesis by (simp add: to_lower_def)
qed (auto simp: to_lower_def)

lemma to_lower_fixed_iff: "to_lower s = s \<longleftrightarrow> (\<forall>c \<in> set s. to_lower [c] = [c])"
  by (induction s) (auto simp: to_lower_def)

lemma to_lower_idem: "to_lower (to_lower s) = to_lower s"
  by (induction s) (use lower_char in \<open>simp_all add: to_lower_def\<close>)

lemma set_strip: "set (strip_host_brackets s) \<subseteq> set s"
proof -
  have "set (tl s) \<subseteq> set s" by (cases s) auto
  then show ?thesis by (auto simp: strip_host_brackets_def Let_def dest: in_set_butlastD)
qed

lemma host_is_lower: "to_lower (strip_host_brackets (to_lower h)) = strip_host_brackets (to_lower h)"
proof -
  have "\<forall>c \<in> set (to_lower h). to_lower [c] = [c]"
    using to_lower_idem by (rule to_lower_fixed_iff [THEN iffD1])
  with set_strip [of "to_lower h"] show ?thesis
    by (intro to_lower_fixed_iff [THEN iffD2]) blast
qed

subsection \<open>The two guards\<close>

lemma mapped_cases:
  assumes "to_lower host = host"
  shows "webhook_v4 host = (case mapped_v4 host of Inl _ \<Rightarrow> None | Inr v4 \<Rightarrow> Some v4)"
    and "mapped_v4 host = Inl os \<Longrightarrow> os = [127, 0, 0, 1]"
  by (auto simp: webhook_v4_def mapped_v4_def assms Let_def split: list.splits if_splits)

lemma numeric_cases:
  "parse_numeric_parts host = (case mapped_v4 host of Inl os \<Rightarrow> Some os | Inr v4 \<Rightarrow> webhook_numeric v4)"
  by (cases "mapped_v4 host") (simp_all add: parse_numeric_parts_def webhook_numeric_def Let_def)

lemma mapped_is_v6: "starts_with host ''::ffff:'' \<Longrightarrow> CHR '':'' \<in> set host"
  by (auto simp: starts_with_iff)

text \<open>The webhook guard refuses nothing that the request guard allows, and the two differ on one
  shape of host only: an IPv4-mapped IPv6 text whose tail is no IPv4 address in any notation
  and has no colon, which the request guard refuses and the webhook guard lets pass.\<close>

theorem webhook_guard_differs_exactly:
  "is_blocked_destination h \<longleftrightarrow> is_blocked_webhook_host h
     \<or> (starts_with (strip_host_brackets (to_lower h)) ''::ffff:''
        \<and> parse_numeric_parts (strip_host_brackets (to_lower h)) = None)"
proof -
  define host where "host = strip_host_brackets (to_lower h)"
  have low: "to_lower host = host" unfolding host_def by (rule host_is_lower)
  note cases = mapped_cases [OF low]
  have local: "blocked_octets [127, 0, 0, 1]" by (simp add: blocked_octets_def)
  show ?thesis
  proof (cases "mapped_v4 host")
    case (Inl os)
    with cases local show ?thesis
      by (simp add: is_blocked_destination_def is_blocked_webhook_host_def host_def [symmetric] numeric_cases Let_def)
  next
    case (Inr v4)
    with cases mapped_is_v6 [of host] show ?thesis
      by (auto simp: is_blocked_destination_def is_blocked_webhook_host_def host_def [symmetric] numeric_cases Let_def
          blocked_v6_def split: option.split)
  qed
qed

lemma guards_disagree: "is_blocked_destination ''::ffff:1.2.3.4.5'' \<and> \<not> is_blocked_webhook_host ''::ffff:1.2.3.4.5''"
  by code_simp

subsection \<open>Who sees what\<close>

lemma listing_is_scoped:
  assumes "r \<in> set (fst (list_notifications now v limit t))"
  shows "r \<in> set t \<and> (nt_audience r = vw_user v \<or> (vw_admin v \<and> nt_audience r = ADMIN_AUDIENCE))"
    and "length (fst (list_notifications now v limit t)) \<le> 50"
proof -
  have "r \<in> set (sort_key (\<lambda>r. - nt_created r) (filter (audience_filter v) t))"
    using assms by (auto simp: list_notifications_def dest: in_set_takeD)
  then show "r \<in> set t \<and> (nt_audience r = vw_user v \<or> (vw_admin v \<and> nt_audience r = ADMIN_AUDIENCE))"
    by (auto simp: audience_filter_def split: if_splits)
qed (simp add: list_notifications_def)

lemma marking_is_scoped:
  "snd (mark_notifications_read now v ids every t)
     = map (\<lambda>r. if audience_filter v r \<and> nt_read r = None
           \<and> (every \<or> nt_id r \<in> set (take 100 (filter is_uuid (dedup (or_else ids [])))))
         then r\<lparr>nt_read := Some now\<rparr> else r) t"
  by (auto simp: mark_notifications_read_def mark_where_def table_update_def Let_def intro!: map_idI [symmetric])

end
