(* ===== verification/Backups.thy ===== *)
theory Backups
  imports Worker Homelab Alerts
begin

text \<open>
  Backups (\<open>packages/core/src/services/backups.ts\<close>): timetables, the runs with their states
  PENDING, RUNNING, OK and FAILED, the three phases of the minute ticker, and the snapshots that
  the backup server reports.

  Proxmox, the backup server and the delivery of messages are the record \<open>backup_api\<close>, over a
  world of any type. Times of day come from the timetables of the homelab theory.
\<close>

definition BACKUP_MODES :: "string list" where
  "BACKUP_MODES = [''snapshot'', ''suspend'', ''stop'']"

datatype backup_kind = KindBackup | KindPrune

datatype backup_status = BkPending | BkRunning | BkOk | BkFailed

definition MAX_ACTIVE_BACKUP_RUNS :: nat where
  "MAX_ACTIVE_BACKUP_RUNS = 3"

record backup_schedule = timetable +
  bs_id :: string
  bs_vm :: string
  bs_mode :: string
  bs_storage :: string
  bs_datastore :: "string option"
  bs_keep :: "int option"
  bs_created_by :: "string option"
  bs_created_at :: time

record backup_run =
  br_id :: string
  br_vm :: string
  br_schedule :: "string option"
  br_kind :: backup_kind
  br_mode :: string
  br_storage :: string
  br_datastore :: "string option"
  br_keep :: "int option"
  br_status :: backup_status
  br_upid :: "string option"
  br_error :: "string option"
  br_created_by :: "string option"
  br_created_at :: time
  br_started :: "time option"
  br_finished :: "time option"

subsection \<open>Timetables\<close>

record backup_input =
  bi_vm :: string
  bi_mode :: "string option"
  bi_storage :: string
  bi_datastore :: "string option"
  bi_minute :: json
  bi_hour :: json
  bi_days :: "string option"
  bi_keep :: "json option"
  bi_created_by :: "string option"

definition name_char :: "char \<Rightarrow> bool" where
  "name_char c \<longleftrightarrow> is_digit c \<or> (65 \<le> (of_char c :: nat) \<and> (of_char c :: nat) \<le> 90)
     \<or> (97 \<le> (of_char c :: nat) \<and> (of_char c :: nat) \<le> 122) \<or> c \<in> set ''_.-''"

definition storage_name :: "string \<Rightarrow> bool" where
  "storage_name s \<longleftrightarrow> 1 \<le> length s \<and> length s \<le> 128 \<and> list_all name_char s"

text \<open>The validated columns: mode, storage, datastore, minute, hour, days, number of backups kept.\<close>

definition keep_of :: "json option \<Rightarrow> int option res" where
  "keep_of k = (case k of None \<Rightarrow> Inr None | Some JNull \<Rightarrow> Inr None | Some v \<Rightarrow>
     if number_in v 1 365 then Inr (Some (number_of v)) else Inl (err_validation ''keepLast must be 1-365 or omitted''))"

definition validate_backup_schedule_input ::
  "backup_input \<Rightarrow> (string \<times> string \<times> string option \<times> int \<times> int \<times> string \<times> int option) res" where
  "validate_backup_schedule_input bi =
     (let mode = or_else (bi_mode bi) ''snapshot''; store = map_option trim (bi_datastore bi); days = or_else (bi_days bi) ''*'' in
      rbind (guard (mode \<in> set BACKUP_MODES) (err_validation (''mode must be one of: '' @ join '', '' BACKUP_MODES))) (\<lambda>_.
      rbind (guard (storage_name (bi_storage bi))
        (err_validation ''storage must be a valid Proxmox storage ID (letters, digits, _ . -)'')) (\<lambda>_.
      rbind (guard (case store of None \<Rightarrow> True | Some d \<Rightarrow> storage_name d)
        (err_validation ''datastore must be a valid PBS datastore name'')) (\<lambda>_.
      rbind (guard (number_in (bi_minute bi) 0 59) (err_validation ''minute must be 0-59'')) (\<lambda>_.
      rbind (guard (number_in (bi_hour bi) 0 23) (err_validation ''hour must be 0-23'')) (\<lambda>_.
      rbind (parse_schedule_days days) (\<lambda>_.
      rbind (keep_of (bi_keep bi)) (\<lambda>keep.
      Inr (mode, bi_storage bi, store, number_of (bi_minute bi), number_of (bi_hour bi), days, keep)))))))))"

definition list_backup_schedules :: "string option \<Rightarrow> backup_schedule list \<Rightarrow> backup_schedule list" where
  "list_backup_schedules vm t = sort_key tt_hour (sort_key tt_minute
     (if truthy vm then filter (\<lambda>r. Some (bs_vm r) = vm) t else t))"

definition get_backup_schedule :: "string \<Rightarrow> backup_schedule list \<Rightarrow> backup_schedule option" where
  "get_backup_schedule i t = table_find bs_id i t"

interpretation backup_schedule_table: keyed_table bs_id get_backup_schedule
  by unfold_locales (simp add: get_backup_schedule_def)

definition create_backup_schedule ::
  "time \<Rightarrow> string \<Rightarrow> backup_input \<Rightarrow> (backup_schedule list, backup_schedule) comp" where
  "create_backup_schedule now nid bi t =
     (case validate_backup_schedule_input bi of
        Inl e \<Rightarrow> (Inl e, t)
      | Inr (mode, storage, store, minute, hour, days, keep) \<Rightarrow>
         if get_backup_schedule nid t \<noteq> None
         then (Inl (pg_error ''duplicate key value violates unique constraint''), t)
         else let row = \<lparr>tt_minute = minute, tt_hour = hour, tt_days = days, tt_enabled = True, tt_last_run = None,
                bs_id = nid, bs_vm = bi_vm bi, bs_mode = mode, bs_storage = storage, bs_datastore = store, bs_keep = keep,
                bs_created_by = bi_created_by bi, bs_created_at = now\<rparr>
              in (Inr row, t @ [row]))"

definition delete_backup_schedule :: "string \<Rightarrow> backup_schedule list \<Rightarrow> bool \<times> backup_schedule list" where
  "delete_backup_schedule i t = (list_ex (\<lambda>r. bs_id r = i) t, table_delete (\<lambda>r. bs_id r = i) t)"

text \<open>Deleting a timetable sets the references of its runs to null.\<close>

definition detach_runs :: "string \<Rightarrow> backup_run list \<Rightarrow> backup_run list" where
  "detach_runs i t = table_update (\<lambda>r. br_schedule r = Some i) (\<lambda>r. r\<lparr>br_schedule := None\<rparr>) t"

definition set_backup_schedule_enabled :: "string \<Rightarrow> bool \<Rightarrow> backup_schedule list \<Rightarrow> backup_schedule list" where
  "set_backup_schedule_enabled i b t = table_update (\<lambda>r. bs_id r = i) (\<lambda>r. r\<lparr>tt_enabled := b\<rparr>) t"

subsection \<open>Runs\<close>

definition list_backup_runs :: "string option \<Rightarrow> int option \<Rightarrow> backup_run list \<Rightarrow> backup_run list" where
  "list_backup_runs vm limit t = take (nat (min (max (or_else limit 50) 1) 200))
     (sort_key (\<lambda>r. - br_created_at r) (if truthy vm then filter (\<lambda>r. Some (br_vm r) = vm) t else t))"

definition get_backup_run :: "string \<Rightarrow> backup_run list \<Rightarrow> backup_run option" where
  "get_backup_run i t = table_find br_id i t"

interpretation run_table: keyed_table br_id get_backup_run
  by unfold_locales (simp add: get_backup_run_def)

definition active :: "backup_run \<Rightarrow> bool" where
  "active r \<longleftrightarrow> br_status r = BkPending \<or> br_status r = BkRunning"

definition active_backup_run_count :: "string \<Rightarrow> backup_run list \<Rightarrow> nat" where
  "active_backup_run_count vm t = length (filter (\<lambda>r. br_vm r = vm \<and> active r) t)"

record run_input =
  rn_vm :: string
  rn_schedule :: "string option"
  rn_kind :: "backup_kind option"
  rn_mode :: "string option"
  rn_storage :: "string option"
  rn_datastore :: "string option"
  rn_keep :: "int option"
  rn_created_by :: "string option"

definition create_backup_run :: "time \<Rightarrow> string \<Rightarrow> run_input \<Rightarrow> (backup_run list, backup_run) comp" where
  "create_backup_run now nid n t =
     (if active_backup_run_count (rn_vm n) t \<ge> MAX_ACTIVE_BACKUP_RUNS
      then (Inl (err_conflict (''Too many queued or running backups for this VM (max '' @ nat_str MAX_ACTIVE_BACKUP_RUNS
         @ ''). Wait for one to finish.'')), t)
      else if get_backup_run nid t \<noteq> None
      then (Inl (pg_error ''duplicate key value violates unique constraint''), t)
      else let row = \<lparr>br_id = nid, br_vm = rn_vm n, br_schedule = rn_schedule n, br_kind = or_else (rn_kind n) KindBackup,
             br_mode = or_else (rn_mode n) ''snapshot'', br_storage = or_else (rn_storage n) [], br_datastore = rn_datastore n,
             br_keep = rn_keep n, br_status = BkPending, br_upid = None, br_error = None, br_created_by = rn_created_by n,
             br_created_at = now, br_started = None, br_finished = None\<rparr>
           in (Inr row, t @ [row]))"

definition claim_pending_backup_run :: "time \<Rightarrow> string \<Rightarrow> backup_run list \<Rightarrow> backup_run option \<times> backup_run list" where
  "claim_pending_backup_run now i t =
     (let t' = table_update (\<lambda>r. br_id r = i \<and> br_status r = BkPending)
        (\<lambda>r. r\<lparr>br_status := BkRunning, br_started := Some now\<rparr>) t
      in (if list_ex (\<lambda>r. br_id r = i \<and> br_status r = BkPending) t then get_backup_run i t' else None, t'))"

definition fail_backup_run :: "time \<Rightarrow> string \<Rightarrow> string \<Rightarrow> backup_run list \<Rightarrow> backup_run list" where
  "fail_backup_run now i e t = table_update (\<lambda>r. br_id r = i)
     (\<lambda>r. r\<lparr>br_status := BkFailed, br_error := Some e, br_finished := Some now\<rparr>) t"

definition complete_backup_run :: "time \<Rightarrow> string \<Rightarrow> backup_run list \<Rightarrow> backup_run list" where
  "complete_backup_run now i t = table_update (\<lambda>r. br_id r = i)
     (\<lambda>r. r\<lparr>br_status := BkOk, br_finished := Some now\<rparr>) t"

definition set_upid :: "string \<Rightarrow> string \<Rightarrow> backup_run list \<Rightarrow> backup_run list" where
  "set_upid i upid t = table_update (\<lambda>r. br_id r = i) (\<lambda>r. r\<lparr>br_upid := Some upid\<rparr>) t"

subsection \<open>The ticker\<close>

record 'w backup_api =
  ba_clock :: "'w \<Rightarrow> time"
  ba_id :: "('w, string) comp"
  ba_settings :: "string \<Rightarrow> ('w, string option) comp"
  ba_proxmox :: "('w, unit) comp"
  ba_pbs :: "('w, bool) comp"
  ba_vzdump :: "string \<Rightarrow> int \<Rightarrow> string \<Rightarrow> string \<Rightarrow> ('w, string) comp"
  ba_groups :: "string \<Rightarrow> ('w, json list) comp"
  ba_prune :: "string \<Rightarrow> string \<Rightarrow> int \<Rightarrow> ('w, string) comp"
  ba_task :: "string \<Rightarrow> string \<Rightarrow> ('w, string \<times> string option) comp"
  ba_pbs_task :: "string \<Rightarrow> ('w, string \<times> string option) comp"
  ba_gotify :: "string \<Rightarrow> string \<Rightarrow> ('w, unit) comp"

text \<open>\<open>ba_pbs\<close> returns whether a backup server is configured; the two task calls give status and exit status.\<close>

record 'w backup_state =
  bk_app :: app_db
  bk_scheds :: "backup_schedule list"
  bk_runs :: "backup_run list"
  bk_audit :: audit_log
  bk_notes :: "bell_row list"
  bk_world :: 'w

definition bk_now :: "'w backup_api \<Rightarrow> 'w backup_state \<Rightarrow> time" where
  "bk_now ba s = ba_clock ba (bk_world s)"

definition outside :: "('w, 'a) comp \<Rightarrow> ('w backup_state, 'a) comp" where
  "outside m s = (case m (bk_world s) of (r, w) \<Rightarrow> (r, s\<lparr>bk_world := w\<rparr>))"

definition on_runs :: "(backup_run list \<Rightarrow> 'a res \<times> backup_run list) \<Rightarrow> ('w backup_state, 'a) comp" where
  "on_runs f s = (case f (bk_runs s) of (r, t) \<Rightarrow> (r, s\<lparr>bk_runs := t\<rparr>))"

definition set_runs :: "'w backup_api \<Rightarrow> (time \<Rightarrow> backup_run list \<Rightarrow> backup_run list) \<Rightarrow> ('w backup_state, unit) comp" where
  "set_runs ba f = modify (\<lambda>s. s\<lparr>bk_runs := f (bk_now ba s) (bk_runs s)\<rparr>)"

definition new_run :: "'w backup_api \<Rightarrow> run_input \<Rightarrow> ('w backup_state, backup_run) comp" where
  "new_run ba n = bind (outside (ba_id ba)) (\<lambda>nid. \<lambda>s. on_runs (create_backup_run (bk_now ba s) nid n) s)"

text \<open>The name of the actor is looked up in the accounts; nothing when there is none.\<close>

definition bk_event ::
  "'w backup_api \<Rightarrow> string \<Rightarrow> string option \<Rightarrow> string \<Rightarrow> (string \<times> json) list \<Rightarrow> ('w backup_state, unit) comp" where
  "bk_event ba ev actor vm detail = modify (\<lambda>s. s\<lparr>bk_audit := audit_record (bk_now ba s)
     \<lparr>au_event = ev, au_actor = actor,
      au_actor_name = (if truthy actor then map_option u_username (find_user (bk_app s) (bk_now ba s) (the actor)) else None),
      au_vm = Some vm, au_job = None, au_ip = None, au_detail = Some (JObj detail)\<rparr> (bk_audit s)\<rparr>)"

definition creator_may_run_backups :: "app_db \<Rightarrow> time \<Rightarrow> string option \<Rightarrow> bool" where
  "creator_may_run_backups db now creator \<longleftrightarrow> truthy creator
     \<and> may db now (the creator) (find_user db now (the creator)) ''vm.manage''"

definition schedule_busy :: "string \<Rightarrow> backup_run list \<Rightarrow> bool" where
  "schedule_busy i t \<longleftrightarrow> list_ex (\<lambda>r. br_schedule r = Some i \<and> active r) t"

definition input_of :: "backup_schedule \<Rightarrow> run_input" where
  "input_of s = \<lparr>rn_vm = bs_vm s, rn_schedule = Some (bs_id s), rn_kind = Some KindBackup, rn_mode = Some (bs_mode s),
     rn_storage = Some (bs_storage s), rn_datastore = bs_datastore s, rn_keep = bs_keep s, rn_created_by = bs_created_by s\<rparr>"

text \<open>One due timetable: whether a run was queued.\<close>

definition queue_due :: "'w backup_api \<Rightarrow> backup_schedule \<Rightarrow> ('w backup_state, bool) comp" where
  "queue_due ba s =
     bind (modify (\<lambda>st. st\<lparr>bk_scheds := table_update (\<lambda>r. bs_id r = bs_id s)
        (\<lambda>r. r\<lparr>tt_last_run := Some (bk_now ba st)\<rparr>) (bk_scheds st)\<rparr>)) (\<lambda>_.
     bind (gets (\<lambda>st. creator_may_run_backups (bk_app st) (bk_now ba st) (bs_created_by s))) (\<lambda>ok.
     if \<not> ok then bind (bk_event ba ''BACKUP_SKIPPED'' (bs_created_by s) (bs_vm s)
         [(''scheduleId'', JStr (bs_id s)), (''reason'', JStr ''creator no longer authorized'')]) (\<lambda>_. ret False)
     else bind (gets (\<lambda>st. schedule_busy (bs_id s) (bk_runs st))) (\<lambda>busy.
     if busy then ret False
     else try_catch (bind (new_run ba (input_of s)) (\<lambda>_. ret True)) (\<lambda>e. ret False))))"

fun queue_each :: "'w backup_api \<Rightarrow> (time \<Rightarrow> local_time) \<Rightarrow> time \<Rightarrow> backup_schedule list \<Rightarrow> nat \<times> nat
    \<Rightarrow> ('w backup_state, nat \<times> nat) comp" where
  "queue_each ba local now [] c = ret c"
| "queue_each ba local now (s # rest) c =
     bind (lift_res (schedule_due_now local s now)) (\<lambda>due.
     if \<not> due then queue_each ba local now rest c
     else bind (queue_due ba s) (\<lambda>ok.
       queue_each ba local now rest (if ok then (Suc (fst c), snd c) else (fst c, Suc (snd c)))))"

definition run_due_backup_schedules ::
  "'w backup_api \<Rightarrow> (time \<Rightarrow> local_time) \<Rightarrow> time \<Rightarrow> ('w backup_state, nat \<times> nat) comp" where
  "run_due_backup_schedules ba local now =
     bind (gets (\<lambda>st. list_backup_schedules None (bk_scheds st))) (\<lambda>rows. queue_each ba local now rows (0, 0))"

subsection \<open>Backup groups\<close>

definition prefixed_id :: "int \<Rightarrow> string" where
  "prefixed_id vmid = ''vm/'' @ int_str vmid"

definition group_belongs_to_vm :: "json \<Rightarrow> int \<Rightarrow> bool" where
  "group_belongs_to_vm g vmid \<longleftrightarrow> json_field g ''backup-id'' = JStr (prefixed_id vmid)
     \<or> (json_field g ''backup-id'' = JStr (int_str vmid)
        \<and> (json_field g ''backup-type'' = JUndefined \<or> json_field g ''backup-type'' = JStr ''vm''))"

text \<open>An object (an array has none of the fields) that is not null.\<close>

definition is_object :: "json \<Rightarrow> bool" where
  "is_object g \<longleftrightarrow> (case g of JObj _ \<Rightarrow> True | JArr _ \<Rightarrow> True | _ \<Rightarrow> False)"

fun resolve_from :: "string option \<Rightarrow> json list \<Rightarrow> int \<Rightarrow> string option" where
  "resolve_from bare [] vmid = bare"
| "resolve_from bare (g # gs) vmid =
     (if \<not> is_object g then resolve_from bare gs vmid
      else if json_field g ''backup-id'' = JStr (prefixed_id vmid) then Some (prefixed_id vmid)
      else if bare = None \<and> group_belongs_to_vm g vmid
      then resolve_from (case json_field g ''backup-id'' of JStr i \<Rightarrow> Some i | _ \<Rightarrow> None) gs vmid
      else resolve_from bare gs vmid)"

definition resolve_vm_backup_id :: "json list \<Rightarrow> int \<Rightarrow> string option" where
  "resolve_vm_backup_id gs vmid = resolve_from None gs vmid"

subsection \<open>Starting runs\<close>

definition external_missing :: app_error where
  "external_missing = err_external ''PBS'' ''Proxmox Backup Server is not configured''"

definition find_vm :: "string \<Rightarrow> ('w backup_state, vm_row) comp" where
  "find_vm i = (\<lambda>s. (require_by_id (reg (bk_app s)) i, s))"

definition datastore_of :: "'w backup_api \<Rightarrow> string option \<Rightarrow> ('w backup_state, string option) comp" where
  "datastore_of ba d = (case d of Some v \<Rightarrow> ret (Some v) | None \<Rightarrow> outside (ba_settings ba ''pbs.datastore''))"

definition start_prune :: "'w backup_api \<Rightarrow> backup_run \<Rightarrow> vm_row \<Rightarrow> ('w backup_state, string) comp" where
  "start_prune ba run vm =
     bind (outside (ba_pbs ba)) (\<lambda>there.
     if \<not> there then throw external_missing else
     bind (datastore_of ba (br_datastore run)) (\<lambda>store.
     if \<not> truthy store then throw (err_validation ''No PBS datastore configured for this prune'')
     else case br_keep run of
        None \<Rightarrow> throw (err_validation ''Prune requires keepLast'')
      | Some keep \<Rightarrow>
         bind (outside (ba_groups ba (the store))) (\<lambda>gs.
         case resolve_vm_backup_id gs (v_vmid vm) of
            None \<Rightarrow> throw (err_validation ''No snapshots found for this VM - nothing to prune'')
          | Some i \<Rightarrow> if i = [] then throw (err_validation ''No snapshots found for this VM - nothing to prune'')
              else outside (ba_prune ba (the store) i keep))))"

definition start_backup :: "'w backup_api \<Rightarrow> backup_run \<Rightarrow> vm_row \<Rightarrow> ('w backup_state, string) comp" where
  "start_backup ba run vm =
     bind (outside (ba_proxmox ba)) (\<lambda>_.
     bind (outside (ba_vzdump ba (v_node vm) (v_vmid vm) (br_storage run) (br_mode run))) (\<lambda>upid.
     if upid = [] then throw (err_external ''Proxmox'' ''Backup task did not return a UPID'') else ret upid))"

definition kind_str :: "backup_kind \<Rightarrow> string" where
  "kind_str k = (case k of KindBackup \<Rightarrow> ''backup'' | KindPrune \<Rightarrow> ''prune'')"

definition run_detail :: "backup_run \<Rightarrow> (string \<times> json) list" where
  "run_detail run = [(''runId'', JStr (br_id run)), (''scheduleId'', json_opt (br_schedule run)),
     (''kind'', JStr (kind_str (br_kind run)))]"

definition start_run :: "'w backup_api \<Rightarrow> backup_run \<Rightarrow> ('w backup_state, unit) comp" where
  "start_run ba run =
     bind (gets (\<lambda>st. creator_may_run_backups (bk_app st) (bk_now ba st) (br_created_by run))) (\<lambda>ok.
     if \<not> ok then throw (err_forbidden ''creator no longer authorized to run backups'') else
     bind (find_vm (br_vm run)) (\<lambda>vm.
     bind (if br_kind run = KindPrune then start_prune ba run vm else start_backup ba run vm) (\<lambda>upid.
     bind (set_runs ba (\<lambda>_. set_upid (br_id run) upid)) (\<lambda>_.
     bk_event ba ''BACKUP_STARTED'' (br_created_by run) (br_vm run)
       (run_detail run @ [(''mode'', if br_kind run = KindBackup then JStr (br_mode run) else JUndefined)])))))"

definition run_failed :: "'w backup_api \<Rightarrow> backup_run \<Rightarrow> app_error \<Rightarrow> ('w backup_state, unit) comp" where
  "run_failed ba run e =
     bind (set_runs ba (\<lambda>now. fail_backup_run now (br_id run) (err_message e))) (\<lambda>_.
     bk_event ba ''BACKUP_FINISHED'' (br_created_by run) (br_vm run)
       (run_detail run @ [(''result'', JStr ''failed''), (''error'', JStr (err_message e))]))"

definition claim_run :: "'w backup_api \<Rightarrow> string \<Rightarrow> ('w backup_state, backup_run option) comp" where
  "claim_run ba i s = on_runs (\<lambda>t. case claim_pending_backup_run (bk_now ba s) i t of (r, t') \<Rightarrow> (Inr r, t')) s"

fun execute_each :: "'w backup_api \<Rightarrow> string list \<Rightarrow> nat \<times> nat \<Rightarrow> ('w backup_state, nat \<times> nat) comp" where
  "execute_each ba [] c = ret c"
| "execute_each ba (i # rest) c =
     bind (claim_run ba i) (\<lambda>claimed. case claimed of
        None \<Rightarrow> execute_each ba rest c
      | Some run \<Rightarrow>
         bind (try_catch (bind (start_run ba run) (\<lambda>_. ret True))
           (\<lambda>e. bind (run_failed ba run e) (\<lambda>_. ret False))) (\<lambda>ok.
         execute_each ba rest (if ok then (Suc (fst c), snd c) else (fst c, Suc (snd c)))))"

definition execute_pending_backups :: "'w backup_api \<Rightarrow> ('w backup_state, nat \<times> nat) comp" where
  "execute_pending_backups ba =
     bind (gets (\<lambda>st. map br_id (take 20 (sort_key br_created_at (filter (\<lambda>r. br_status r = BkPending) (bk_runs st)))))) (\<lambda>ids.
     execute_each ba ids (0, 0))"

subsection \<open>Finishing runs\<close>

text \<open>\<open>None\<close> while the task runs, then whether it ended well and with which status.\<close>

definition poll_run :: "'w backup_api \<Rightarrow> backup_run \<Rightarrow> ('w backup_state, (bool \<times> string) option) comp" where
  "poll_run ba run =
     (if \<not> truthy (br_upid run) then throw (plain_error ''Backup task has no UPID'') else
      bind (if br_kind run = KindPrune
            then bind (outside (ba_pbs ba)) (\<lambda>there.
               if \<not> there then throw external_missing else outside (ba_pbs_task ba (the (br_upid run))))
            else bind (find_vm (br_vm run)) (\<lambda>vm.
               bind (outside (ba_proxmox ba)) (\<lambda>_. outside (ba_task ba (v_node vm) (the (br_upid run)))))) (\<lambda>st.
      ret (if fst st = ''stopped''
           then Some (\<not> truthy (snd st) \<or> snd st = Some ''OK'', or_else (snd st) ''OK'') else None)))"

definition prune_input :: "backup_run \<Rightarrow> run_input" where
  "prune_input run = \<lparr>rn_vm = br_vm run, rn_schedule = br_schedule run, rn_kind = Some KindPrune, rn_mode = Some (br_mode run),
     rn_storage = Some (br_storage run), rn_datastore = br_datastore run, rn_keep = br_keep run,
     rn_created_by = br_created_by run\<rparr>"

definition run_succeeded :: "'w backup_api \<Rightarrow> backup_run \<Rightarrow> string \<Rightarrow> ('w backup_state, unit) comp" where
  "run_succeeded ba run status =
     bind (set_runs ba (\<lambda>now. complete_backup_run now (br_id run))) (\<lambda>_.
     bind (bk_event ba (if br_kind run = KindPrune then ''BACKUP_PRUNED'' else ''BACKUP_FINISHED'') (br_created_by run) (br_vm run)
       (run_detail run @ [(''result'', JStr ''ok''), (''status'', JStr status)])) (\<lambda>_.
     if br_kind run = KindBackup \<and> br_keep run \<noteq> None
     then try_catch (bind (new_run ba (prune_input run)) (\<lambda>_. ret ())) (\<lambda>e. ret ())
     else ret ()))"

definition failure_title :: "backup_run \<Rightarrow> string" where
  "failure_title run = ''Backup '' @ kind_str (br_kind run) @ '' failed''"

definition failure_note :: "backup_run \<Rightarrow> string \<Rightarrow> string \<Rightarrow> notify_input" where
  "failure_note run message audience = \<lparr>ni_audience = audience, ni_kind = ''backup'', ni_title = failure_title run,
     ni_body = Some (take 300 message), ni_link = Some ''/backups''\<rparr>"

definition failure_audiences :: "backup_run \<Rightarrow> string list" where
  "failure_audiences run = (if truthy (br_created_by run) \<and> br_created_by run \<noteq> Some ADMIN_AUDIENCE
     then [ADMIN_AUDIENCE, the (br_created_by run)] else [ADMIN_AUDIENCE])"

fun send_notes :: "'w backup_api \<Rightarrow> notify_input list \<Rightarrow> ('w backup_state, unit) comp" where
  "send_notes ba [] = ret ()"
| "send_notes ba (n # rest) =
     bind (outside (ba_id ba)) (\<lambda>nid.
     bind (\<lambda>s. case notify_one (bk_now ba s) nid n (bk_notes s) of (r, t) \<Rightarrow> (r, s\<lparr>bk_notes := t\<rparr>)) (\<lambda>_.
     send_notes ba rest))"

definition report_failure :: "'w backup_api \<Rightarrow> backup_run \<Rightarrow> string \<Rightarrow> ('w backup_state, unit) comp" where
  "report_failure ba run message =
     bind (try_catch (send_notes ba (map (failure_note run message) (failure_audiences run))) (\<lambda>e. ret ())) (\<lambda>_.
     try_catch (outside (ba_gotify ba (failure_title run) (take 300 message))) (\<lambda>e. ret ()))"

text \<open>One running run: \<open>None\<close> while its task runs, else whether it succeeded.\<close>

definition finalize_run :: "'w backup_api \<Rightarrow> backup_run \<Rightarrow> ('w backup_state, bool option) comp" where
  "finalize_run ba run =
     try_catch
       (bind (poll_run ba run) (\<lambda>st. case st of
          None \<Rightarrow> ret None
        | Some (ok, status) \<Rightarrow>
           if ok then bind (run_succeeded ba run status) (\<lambda>_. ret (Some True))
           else throw (plain_error (''Task ended with status: '' @ (if status = [] then ''unknown'' else status)))))
       (\<lambda>e. bind (run_failed ba run e) (\<lambda>_. bind (report_failure ba run (err_message e)) (\<lambda>_. ret (Some False))))"

fun finalize_each :: "'w backup_api \<Rightarrow> backup_run list \<Rightarrow> nat \<times> nat \<Rightarrow> ('w backup_state, nat \<times> nat) comp" where
  "finalize_each ba [] c = ret c"
| "finalize_each ba (run # rest) c =
     bind (finalize_run ba run) (\<lambda>r.
     finalize_each ba rest (case r of None \<Rightarrow> c | Some True \<Rightarrow> (Suc (fst c), snd c) | Some False \<Rightarrow> (fst c, Suc (snd c))))"

text \<open>\<open>ORDER BY started_at ASC NULLS FIRST\<close>\<close>

definition started_rank :: "backup_run \<Rightarrow> int" where
  "started_rank r = (if br_started r = None then 0 else 1)"

definition started_time :: "backup_run \<Rightarrow> time" where
  "started_time r = or_else (br_started r) 0"

definition finalize_backup_runs :: "'w backup_api \<Rightarrow> ('w backup_state, nat \<times> nat) comp" where
  "finalize_backup_runs ba =
     bind (gets (\<lambda>st. take 20 (sort_key started_rank (sort_key started_time
        (filter (\<lambda>r. br_status r = BkRunning) (bk_runs st)))))) (\<lambda>rows.
     finalize_each ba rows (0, 0))"

definition run_backup_pass ::
  "'w backup_api \<Rightarrow> (time \<Rightarrow> local_time) \<Rightarrow> time \<Rightarrow> ('w backup_state, nat \<times> nat \<times> nat \<times> nat) comp" where
  "run_backup_pass ba local now =
     bind (try_catch (run_due_backup_schedules ba local now) (\<lambda>e. ret (0, 0))) (\<lambda>due.
     bind (try_catch (execute_pending_backups ba) (\<lambda>e. ret (0, 0))) (\<lambda>exec.
     bind (try_catch (finalize_backup_runs ba) (\<lambda>e. ret (0, 0))) (\<lambda>fin.
     ret (fst due, fst exec, fst fin, snd exec + snd fin))))"

subsection \<open>Snapshots\<close>

text \<open>
  Adding two numbers of a report and printing one as a date are parameters: \<open>add\<close>, and \<open>fmt\<close>,
  which throws on a number that is no date.
\<close>

fun text_less :: "string \<Rightarrow> string \<Rightarrow> bool" where
  "text_less [] t = (t \<noteq> [])"
| "text_less (c # s) [] = False"
| "text_less (c # s) (d # t) =
     ((of_char c :: nat) < of_char d \<or> ((of_char c :: nat) = of_char d \<and> text_less s t))"

record group_entry =
  ge_count :: json
  ge_last :: "string option"
  ge_type :: json

definition is_number :: "json \<Rightarrow> bool" where
  "is_number v \<longleftrightarrow> (case v of JNum _ \<Rightarrow> True | JFrac \<Rightarrow> True | _ \<Rightarrow> False)"

definition group_stamp :: "(json \<Rightarrow> string res) \<Rightarrow> json \<Rightarrow> string option res" where
  "group_stamp fmt v = (if is_number v then rbind (fmt v) (\<lambda>s. Inr (Some s))
     else Inr (case v of JStr s \<Rightarrow> Some s | _ \<Rightarrow> None))"

definition later_stamp :: "string option \<Rightarrow> string option \<Rightarrow> string option" where
  "later_stamp stamp prev = (if truthy stamp \<and> (\<not> truthy prev \<or> text_less (the prev) (the stamp)) then stamp else prev)"

fun fold_groups ::
  "(json \<Rightarrow> json \<Rightarrow> json) \<Rightarrow> (json \<Rightarrow> string res) \<Rightarrow> (string \<times> group_entry) list \<Rightarrow> json list \<Rightarrow> (string \<times> group_entry) list res" where
  "fold_groups add fmt m [] = Inr m"
| "fold_groups add fmt m (g # gs) = (case json_field g ''backup-id'' of
       JStr i \<Rightarrow>
         (let e = or_else (map_of m i) \<lparr>ge_count = JNum 0, ge_last = None, ge_type = json_field g ''backup-type''\<rparr>;
              n = json_field g ''backup-count''
          in rbind (group_stamp fmt (json_field g ''last-backup'')) (\<lambda>stamp.
             fold_groups add fmt (AList.update i (e\<lparr>ge_count := add (ge_count e) (if is_number n then n else JNum 1),
                ge_last := later_stamp stamp (ge_last e)\<rparr>) m) gs))
     | _ \<Rightarrow> fold_groups add fmt m gs)"

definition last_of :: "string option \<Rightarrow> string option \<Rightarrow> string option" where
  "last_of a b = (case (truthy a, truthy b) of
       (True, True) \<Rightarrow> if text_less (the b) (the a) then a else b
     | (True, False) \<Rightarrow> a | (False, True) \<Rightarrow> b | _ \<Rightarrow> None)"

definition match_vm ::
  "(json \<Rightarrow> json \<Rightarrow> json) \<Rightarrow> (string \<times> group_entry) list \<Rightarrow> int \<Rightarrow> (json \<times> string option) option" where
  "match_vm add m vmid =
     (let direct = map_of m (prefixed_id vmid);
          bare = (case map_of m (int_str vmid) of None \<Rightarrow> None
            | Some e \<Rightarrow> if ge_type e = JUndefined \<or> ge_type e = JStr ''vm'' then Some e else None);
          count = (\<lambda>x. case x of None \<Rightarrow> JNum 0 | Some e \<Rightarrow> ge_count e);
          stamp = (\<lambda>x. case x of None \<Rightarrow> None | Some e \<Rightarrow> ge_last e)
      in if direct = None \<and> bare = None then None
         else Some (add (count direct) (count bare), last_of (stamp direct) (stamp bare)))"

definition match_snapshots_to_vms ::
  "(json \<Rightarrow> json \<Rightarrow> json) \<Rightarrow> (json \<Rightarrow> string res) \<Rightarrow> json list \<Rightarrow> (string \<times> int) list
   \<Rightarrow> (string \<times> json \<times> string option) list res" where
  "match_snapshots_to_vms add fmt gs vs = rbind (fold_groups add fmt [] (take 500 gs)) (\<lambda>m.
     Inr (fold (\<lambda>v out. case match_vm add m (snd v) of None \<Rightarrow> out | Some x \<Rightarrow> AList.update (fst v) x out) vs []))"

record overview_row =
  ov_vm :: string
  ov_schedules :: nat
  ov_enabled :: nat
  ov_last_run :: "(backup_status \<times> backup_kind \<times> time) option"
  ov_last_snapshot :: "string option"
  ov_snapshots :: "json option"

definition overview_of ::
  "backup_schedule list \<Rightarrow> backup_run list \<Rightarrow> (string \<times> json \<times> string option) list \<Rightarrow> string \<Rightarrow> overview_row" where
  "overview_of scheds runs matches vm =
     (let mine = filter (\<lambda>s. bs_vm s = vm) scheds; snap = map_of matches vm in
      \<lparr>ov_vm = vm, ov_schedules = length mine, ov_enabled = length (filter tt_enabled mine),
       ov_last_run = map_option (\<lambda>r. (br_status r, br_kind r, br_created_at r)) (find (\<lambda>r. br_vm r = vm) runs),
       ov_last_snapshot = (case snap of None \<Rightarrow> None | Some x \<Rightarrow> snd x), ov_snapshots = map_option fst snap\<rparr>)"

text \<open>A failure of the backup server leaves the snapshots of the overview empty.\<close>

definition get_backup_overview ::
  "(json \<Rightarrow> json \<Rightarrow> json) \<Rightarrow> (json \<Rightarrow> string res) \<Rightarrow> 'w backup_api \<Rightarrow> (string \<times> int) list \<Rightarrow> ('w backup_state, overview_row list) comp" where
  "get_backup_overview add fmt ba vs =
     bind (gets (\<lambda>s. list_backup_schedules None (bk_scheds s))) (\<lambda>scheds.
     bind (gets (\<lambda>s. list_backup_runs None (Some 200) (bk_runs s))) (\<lambda>runs.
     bind (try_catch
        (bind (outside (ba_pbs ba)) (\<lambda>there.
         bind (outside (ba_settings ba ''pbs.datastore'')) (\<lambda>store.
         if there \<and> truthy store
         then bind (outside (ba_groups ba (the store))) (\<lambda>gs. lift_res (match_snapshots_to_vms add fmt gs vs))
         else ret [])))
        (\<lambda>e. ret [])) (\<lambda>matches.
     ret (map (\<lambda>v. overview_of scheds runs matches (fst v)) vs))))"

definition snapshot_of :: "(json \<Rightarrow> string res) \<Rightarrow> json \<Rightarrow> (json \<times> string option \<times> json option \<times> string option) res" where
  "snapshot_of fmt g = rbind (group_stamp fmt (json_field g ''last-backup'')) (\<lambda>stamp.
     Inr (json_field g ''backup-id'',
       (case json_field g ''backup-type'' of JStr t \<Rightarrow> Some t | _ \<Rightarrow> None),
       (if is_number (json_field g ''backup-count'') then Some (json_field g ''backup-count'') else None), stamp))"

fun snapshots_from ::
  "(json \<Rightarrow> string res) \<Rightarrow> int \<Rightarrow> json list \<Rightarrow> (json \<times> string option \<times> json option \<times> string option) list res" where
  "snapshots_from fmt vmid [] = Inr []"
| "snapshots_from fmt vmid (g # gs) =
     (if is_object g \<and> group_belongs_to_vm g vmid
      then rbind (snapshot_of fmt g) (\<lambda>x. rbind (snapshots_from fmt vmid gs) (\<lambda>xs. Inr (x # xs)))
      else snapshots_from fmt vmid gs)"

definition list_vm_snapshots ::
  "(json \<Rightarrow> string res) \<Rightarrow> 'w backup_api \<Rightarrow> string \<Rightarrow> string option
   \<Rightarrow> ('w backup_state, (json \<times> string option \<times> json option \<times> string option) list) comp" where
  "list_vm_snapshots fmt ba i datastore =
     bind (find_vm i) (\<lambda>vm.
     bind (outside (ba_pbs ba)) (\<lambda>there.
     if \<not> there then throw external_missing else
     bind (datastore_of ba datastore) (\<lambda>store.
     if \<not> truthy store then throw (err_validation ''No PBS datastore configured'')
     else bind (outside (ba_groups ba (the store))) (\<lambda>gs.
          lift_res (snapshots_from fmt (v_vmid vm) (take 200 gs))))))"

end
