(* ===== verification/Backups_Props.thy ===== *)
theory Backups_Props
  imports Backups Homelab_Props Rotation_Props
begin

text \<open>
  Backup runs move forward only, at most three are active per machine, nothing is started for
  a creator who has lost the right, and a prune addresses the machine's own group.
\<close>

subsection \<open>Rows of runs\<close>

definition finished :: "backup_run \<Rightarrow> bool" where
  "finished r \<longleftrightarrow> br_status r = BkOk \<or> br_status r = BkFailed"

lemma finished_iff: "finished r \<longleftrightarrow> \<not> active r"
  by (cases "br_status r") (auto simp: finished_def active_def)

definition row_ok :: "backup_run \<Rightarrow> bool" where
  "row_ok r \<longleftrightarrow> (br_started r = None \<longleftrightarrow> br_status r = BkPending) \<and> (br_finished r \<noteq> None \<longleftrightarrow> finished r)
     \<and> (br_error r \<noteq> None \<longleftrightarrow> br_status r = BkFailed) \<and> (br_upid r \<noteq> None \<longrightarrow> br_status r \<noteq> BkPending)"

text \<open>What may become of a row: its request columns stay, a pending one may start or wait, a
  running one may go on or finish, a finished one stays as it is (its timetable may be deleted).\<close>

definition same_request :: "backup_run \<Rightarrow> backup_run \<Rightarrow> bool" where
  "same_request r r' \<longleftrightarrow> br_id r' = br_id r \<and> br_vm r' = br_vm r \<and> br_kind r' = br_kind r \<and> br_mode r' = br_mode r
     \<and> br_storage r' = br_storage r \<and> br_datastore r' = br_datastore r \<and> br_keep r' = br_keep r
     \<and> br_created_by r' = br_created_by r \<and> br_created_at r' = br_created_at r
     \<and> (br_schedule r' = br_schedule r \<or> br_schedule r' = None)"

definition forward :: "backup_run \<Rightarrow> backup_run \<Rightarrow> bool" where
  "forward r r' \<longleftrightarrow> same_request r r' \<and> (case br_status r of
       BkPending \<Rightarrow> True
     | BkRunning \<Rightarrow> br_status r' \<noteq> BkPending \<and> br_started r' = br_started r
     | _ \<Rightarrow> r'\<lparr>br_schedule := br_schedule r\<rparr> = r)"

lemma forward_refl: "forward r r"
  by (cases "br_status r") (auto simp: forward_def same_request_def)

lemma forward_trans: "forward a b \<Longrightarrow> forward b c \<Longrightarrow> forward a c"
proof -
  assume ab: "forward a b" and bc: "forward b c"
  have req: "same_request a c" using ab bc by (auto simp: forward_def same_request_def)
  show ?thesis
  proof (cases "br_status a")
    case BkPending
    with req show ?thesis by (simp add: forward_def)
  next
    case BkRunning
    with ab have b: "br_status b \<noteq> BkPending" "br_started b = br_started a" by (auto simp: forward_def)
    have "br_status c \<noteq> BkPending \<and> br_started c = br_started b"
    proof (cases "br_status b")
      case BkRunning
      with bc show ?thesis by (auto simp: forward_def)
    next
      case BkOk
      with bc have "c\<lparr>br_schedule := br_schedule b\<rparr> = b" by (simp add: forward_def)
      then have "br_status c = br_status b \<and> br_started c = br_started b"
        by (metis backup_run.select_convs(9,14) backup_run.surjective backup_run.update_convs(3))
      with BkOk show ?thesis by simp
    next
      case BkFailed
      with bc have "c\<lparr>br_schedule := br_schedule b\<rparr> = b" by (simp add: forward_def)
      then have "br_status c = br_status b \<and> br_started c = br_started b"
        by (metis backup_run.select_convs(9,14) backup_run.surjective backup_run.update_convs(3))
      with BkFailed show ?thesis by simp
    qed (use b in simp)
    with req b BkRunning show ?thesis by (simp add: forward_def)
  next
    case BkOk
    with ab have a: "b\<lparr>br_schedule := br_schedule a\<rparr> = a" by (simp add: forward_def)
    then have "br_status b = BkOk" using BkOk
      by (metis backup_run.select_convs(9) backup_run.surjective backup_run.update_convs(3))
    with bc have "c\<lparr>br_schedule := br_schedule b\<rparr> = b" by (simp add: forward_def)
    then have "c\<lparr>br_schedule := br_schedule a\<rparr> = a" using a by (metis backup_run.surjective backup_run.update_convs(3))
    with req BkOk show ?thesis by (simp add: forward_def)
  next
    case BkFailed
    with ab have a: "b\<lparr>br_schedule := br_schedule a\<rparr> = a" by (simp add: forward_def)
    then have "br_status b = BkFailed" using BkFailed
      by (metis backup_run.select_convs(9) backup_run.surjective backup_run.update_convs(3))
    with bc have "c\<lparr>br_schedule := br_schedule b\<rparr> = b" by (simp add: forward_def)
    then have "c\<lparr>br_schedule := br_schedule a\<rparr> = a" using a by (metis backup_run.surjective backup_run.update_convs(3))
    with req BkFailed show ?thesis by (simp add: forward_def)
  qed
qed

definition runs_ok :: "backup_run list \<Rightarrow> bool" where
  "runs_ok t \<longleftrightarrow> run_table.unique t \<and> (\<forall>r \<in> set t. row_ok r)
     \<and> (\<forall>vm. active_backup_run_count vm t \<le> MAX_ACTIVE_BACKUP_RUNS)"

definition onward :: "backup_run list \<Rightarrow> backup_run list \<Rightarrow> bool" where
  "onward t t' \<longleftrightarrow> (\<forall>r \<in> set t. \<exists>r' \<in> set t'. forward r r')"

lemma onward_refl: "onward t t"
  using forward_refl by (auto simp: onward_def)

lemma onward_trans: "onward a b \<Longrightarrow> onward b c \<Longrightarrow> onward a c"
  unfolding onward_def by (meson forward_trans)

text \<open>\<open>kept t0 t\<close>: the table \<open>t\<close> is sound and lies ahead of \<open>t0\<close>.\<close>

definition kept :: "backup_run list \<Rightarrow> backup_run list \<Rightarrow> bool" where
  "kept t0 t \<longleftrightarrow> runs_ok t \<and> onward t0 t"

definition running :: "string \<Rightarrow> backup_run list \<Rightarrow> bool" where
  "running i t \<longleftrightarrow> (\<exists>r \<in> set t. br_id r = i \<and> br_status r = BkRunning)"

subsection \<open>Writing the table\<close>

lemma active_count_update:
  assumes "\<And>r. r \<in> set t \<Longrightarrow> P r \<Longrightarrow> br_vm (f r) = br_vm r \<and> (active (f r) \<longrightarrow> active r)"
  shows "active_backup_run_count vm (table_update P f t) \<le> active_backup_run_count vm t"
  using assms
proof (induction t)
  case (Cons r t)
  then have "active_backup_run_count vm (table_update P f t) \<le> active_backup_run_count vm t" by simp
  with Cons.prems [of r] show ?case
    by (auto simp: active_backup_run_count_def table_update_def)
qed (simp add: active_backup_run_count_def table_update_def)

lemma kept_update:
  assumes "kept t0 t"
    and "\<And>r. br_id (f r) = br_id r"
    and "\<And>r. r \<in> set t \<Longrightarrow> P r \<Longrightarrow> row_ok r \<Longrightarrow> row_ok (f r) \<and> forward r (f r) \<and> (active (f r) \<longrightarrow> active r)"
  shows "kept t0 (table_update P f t)"
proof -
  have ok: "run_table.unique t" "\<forall>r \<in> set t. row_ok r" "\<forall>vm. active_backup_run_count vm t \<le> MAX_ACTIVE_BACKUP_RUNS" "onward t0 t"
    using assms(1) by (auto simp: kept_def runs_ok_def)
  have f: "row_ok (f r)" "forward r (f r)" "active (f r) \<longrightarrow> active r" "br_vm (f r) = br_vm r" if "r \<in> set t" "P r" for r
    using assms(3) [OF that] ok(2) that by (auto simp: forward_def same_request_def)
  have "onward t (table_update P f t)"
    unfolding onward_def
  proof
    fix r assume r: "r \<in> set t"
    show "\<exists>r' \<in> set (table_update P f t). forward r r'"
      using r f(2) [OF r] forward_refl [of r] by (cases "P r") force+
  qed
  then have "onward t0 (table_update P f t)" using ok(4) onward_trans by blast
  moreover have "active_backup_run_count vm (table_update P f t) \<le> MAX_ACTIVE_BACKUP_RUNS" for vm
    using active_count_update [of t P f vm] f ok(3) le_trans by blast
  moreover have "run_table.unique (table_update P f t)" by (rule run_table.unique_update [OF ok(1) assms(2)])
  moreover have "\<forall>r \<in> set (table_update P f t). row_ok r" using ok(2) f(1) by auto
  ultimately show ?thesis by (simp add: kept_def runs_ok_def)
qed

lemma the_running:
  assumes "kept t0 t" "running i t" "r \<in> set t" "br_id r = i"
  shows "br_status r = BkRunning"
proof -
  from assms(2) obtain x where x: "x \<in> set t" "br_id x = i" "br_status x = BkRunning" by (auto simp: running_def)
  have "run_table.unique t" using assms(1) by (simp add: kept_def runs_ok_def)
  with x assms(3,4) have "x = r" using run_table.lookup_unique by (metis option.inject)
  with x(3) show ?thesis by simp
qed

lemma kept_running_update:
  assumes "kept t0 t" "running i t" "\<And>r. br_id (f r) = br_id r"
    and "\<And>r. br_status r = BkRunning \<Longrightarrow> row_ok r \<Longrightarrow> row_ok (f r) \<and> forward r (f r)"
  shows "kept t0 (table_update (\<lambda>r. br_id r = i) f t)"
proof (rule kept_update [OF assms(1)])
  fix r assume r: "r \<in> set t" "br_id r = i" "row_ok r"
  then have st: "br_status r = BkRunning" using the_running [OF assms(1,2)] by blast
  then have "active r" by (simp add: active_def)
  with assms(4) [OF st r(3)] show "row_ok (f r) \<and> forward r (f r) \<and> (active (f r) \<longrightarrow> active r)" by simp
qed (rule assms(3))

lemma kept_fail: "kept t0 t \<Longrightarrow> running i t \<Longrightarrow> kept t0 (fail_backup_run now i e t)"
  unfolding fail_backup_run_def
  by (rule kept_running_update) (simp_all add: row_ok_def finished_def forward_def same_request_def)

lemma kept_complete: "kept t0 t \<Longrightarrow> running i t \<Longrightarrow> kept t0 (complete_backup_run now i t)"
  unfolding complete_backup_run_def
  by (rule kept_running_update) (simp_all add: row_ok_def finished_def forward_def same_request_def)

lemma kept_upid: "kept t0 t \<Longrightarrow> running i t \<Longrightarrow> kept t0 (set_upid i upid t)"
  unfolding set_upid_def
  by (rule kept_running_update) (simp_all add: row_ok_def finished_def forward_def same_request_def)

lemma running_update:
  assumes "running j t" "\<And>r. br_id (f r) = br_id r"
    and "\<And>r. P r \<Longrightarrow> br_id r = j \<Longrightarrow> br_status r = BkRunning \<Longrightarrow> br_status (f r) = BkRunning"
  shows "running j (table_update P f t)"
proof -
  from assms(1) obtain r where "r \<in> set t" "br_id r = j" "br_status r = BkRunning" by (auto simp: running_def)
  then show ?thesis
    unfolding running_def by (intro bexI [of _ "if P r then f r else r"]) (auto simp: assms)
qed

lemma kept_claim:
  assumes "kept t0 t" "claim_pending_backup_run now i t = (x, t')"
  shows "kept t0 t' \<and> (case x of None \<Rightarrow> True | Some r \<Rightarrow> br_id r = i \<and> running i t')"
proof -
  have t': "t' = table_update (\<lambda>r. br_id r = i \<and> br_status r = BkPending) (\<lambda>r. r\<lparr>br_status := BkRunning, br_started := Some now\<rparr>) t"
    using assms(2) by (simp add: claim_pending_backup_run_def Let_def)
  have "kept t0 t'"
    unfolding t' using assms(1)
    by (rule kept_update) (auto simp: row_ok_def finished_def active_def forward_def same_request_def)
  moreover have "br_id r = i \<and> running i t'" if "x = Some r" for r
  proof -
    from assms(2) that have hit: "\<exists>r \<in> set t. br_id r = i \<and> br_status r = BkPending" and r: "get_backup_run i t' = Some r"
      using t' by (auto simp: claim_pending_backup_run_def Let_def list_ex_iff split: if_splits)
    from hit obtain y where "y \<in> set t" "br_id y = i" "br_status y = BkPending" by blast
    then have "running i t'"
      unfolding t' running_def by (intro bexI [of _ "y\<lparr>br_status := BkRunning, br_started := Some now\<rparr>"]) auto
    with run_table.lookup_SomeD [OF r] show ?thesis by simp
  qed
  ultimately show ?thesis by (auto split: option.split)
qed

lemma kept_create:
  assumes "kept t0 t" "create_backup_run now nid n t = (x, t')"
  shows "kept t0 t'"
proof (cases "t' = t")
  case False
  with assms(2) obtain row where row: "t' = t @ [row]" "get_backup_run (br_id row) t = None" "row_ok row" "br_vm row = rn_vm n"
    and few: "active_backup_run_count (rn_vm n) t < MAX_ACTIVE_BACKUP_RUNS"
    by (fastforce simp: create_backup_run_def Let_def row_ok_def finished_def split: if_splits)
  have ok: "run_table.unique t" "\<forall>r \<in> set t. row_ok r" "\<forall>vm. active_backup_run_count vm t \<le> MAX_ACTIVE_BACKUP_RUNS" "onward t0 t"
    using assms(1) by (auto simp: kept_def runs_ok_def)
  have "onward t t'" using forward_refl row(1) by (auto simp: onward_def)
  then have "onward t0 t'" using ok(4) onward_trans by blast
  moreover have "active_backup_run_count vm t' \<le> MAX_ACTIVE_BACKUP_RUNS" for vm
    using ok(3) [THEN spec, of vm] few row(1,4) by (auto simp: active_backup_run_count_def)
  ultimately show ?thesis
    using row(1,3) ok run_table.unique_append [OF ok(1) row(2)] by (auto simp: kept_def runs_ok_def)
qed (use assms(1) in simp)

lemma kept_detach: "kept t0 t \<Longrightarrow> kept t0 (detach_runs i t)"
  unfolding detach_runs_def
  by (rule kept_update) (auto simp: row_ok_def finished_def active_def forward_def same_request_def split: backup_status.split)

lemma running_stays:
  "running j t \<Longrightarrow> j \<noteq> i \<Longrightarrow> running j (fail_backup_run now i e t)"
  "running j t \<Longrightarrow> j \<noteq> i \<Longrightarrow> running j (complete_backup_run now i t)"
  "running j t \<Longrightarrow> running j (set_upid i upid t)"
  "running j t \<Longrightarrow> running j (snd (create_backup_run now nid n t))"
  by (simp_all add: fail_backup_run_def complete_backup_run_def set_upid_def running_update)
    (auto simp: running_def create_backup_run_def Let_def)

subsection \<open>The phases of the ticker\<close>

text \<open>Steps that do not write the table of runs keep whatever holds of it.\<close>

abbreviation keeps_runs :: "(backup_run list \<Rightarrow> bool) \<Rightarrow> ('w backup_state, 'a) comp \<Rightarrow> bool" where
  "keeps_runs P m \<equiv> keeps_pred (\<lambda>s. P (bk_runs s)) m"

lemma keeps_runs_quiet [keeps]:
  "keeps_runs P (outside m)" "keeps_runs P (bk_event ba ev actor vm d)" "keeps_runs P (find_vm i)"
  by (simp_all add: keeps_pred_def outside_def bk_event_def modify_def find_vm_def split: prod.split)

lemma keeps_runs_notes [keeps]: "keeps_runs P (send_notes ba ns)"
proof (induction ns)
  case (Cons n ns)
  have "keeps_runs P (\<lambda>s. case notify_one (bk_now ba s) nid n (bk_notes s) of (r, t) \<Rightarrow> (r, s\<lparr>bk_notes := t\<rparr>))" for nid
    by (simp add: keeps_pred_def split: prod.split)
  with Cons show ?case by (auto intro!: keeps)
qed (simp add: keeps)

lemma keeps_runs_store [keeps]: "keeps_runs P (datastore_of ba d)"
  unfolding datastore_of_def by (intro keeps)

lemma keeps_runs_start [keeps]: "keeps_runs P (start_prune ba run vm)" "keeps_runs P (start_backup ba run vm)"
  unfolding start_prune_def start_backup_def by (intro keeps)+

definition busy_with :: "backup_run list \<Rightarrow> string set \<Rightarrow> backup_run list \<Rightarrow> bool" where
  "busy_with t0 is t \<longleftrightarrow> kept t0 t \<and> (\<forall>i \<in> is. running i t)"

lemma keeps_new_run [keeps]: "keeps_runs (busy_with t0 is) (new_run ba n)"
proof -
  have "keeps_runs (busy_with t0 is) (\<lambda>s. on_runs (create_backup_run (bk_now ba s) nid n) s)" for nid
    unfolding keeps_pred_def on_runs_def busy_with_def
  proof (intro allI impI)
    fix s :: "'a backup_state"
    assume k: "kept t0 (bk_runs s) \<and> (\<forall>i \<in> is. running i (bk_runs s))"
    obtain x t' where c: "create_backup_run (bk_now ba s) nid n (bk_runs s) = (x, t')" by fastforce
    have "kept t0 t'" using kept_create [OF _ c] k by blast
    moreover have "\<forall>i \<in> is. running i t'"
      using running_stays(4) [of _ "bk_runs s" "bk_now ba s" nid n] c k by auto
    ultimately show "kept t0 (bk_runs (snd (case create_backup_run (bk_now ba s) nid n (bk_runs s) of (r, t) \<Rightarrow> (r, s\<lparr>bk_runs := t\<rparr>))))
        \<and> (\<forall>i \<in> is. running i (bk_runs (snd (case create_backup_run (bk_now ba s) nid n (bk_runs s) of (r, t) \<Rightarrow> (r, s\<lparr>bk_runs := t\<rparr>)))))"
      using c by simp
  qed
  then show ?thesis unfolding new_run_def by (intro keeps)
qed

lemma keeps_upid [keeps]: "i \<in> is \<Longrightarrow> keeps_runs (busy_with t0 is) (set_runs ba (\<lambda>_. set_upid i upid))"
  by (auto simp: keeps_pred_def set_runs_def modify_def busy_with_def intro: kept_upid running_stays(3))

lemma keeps_start_run: "br_id run \<in> is \<Longrightarrow> keeps_runs (busy_with t0 is) (start_run ba run)"
  unfolding start_run_def by (intro keeps)

lemma keeps_queue_due [keeps]: "keeps_runs (busy_with t0 is) (queue_due ba s)"
proof -
  have "keeps_runs (busy_with t0 is) (modify (\<lambda>st. st\<lparr>bk_scheds := table_update P (f st) (bk_scheds st)\<rparr>))"
    for P and f :: "'a backup_state \<Rightarrow> backup_schedule \<Rightarrow> backup_schedule"
    by (simp add: keeps_pred_def modify_def)
  then show ?thesis unfolding queue_due_def by (intro keeps)
qed

lemma keeps_queue_each [keeps]: "keeps_runs (busy_with t0 is) (queue_each ba local now rows c)"
  by (induction rows arbitrary: c) (auto intro!: keeps)

lemma keeps_due: "keeps_runs (busy_with t0 is) (run_due_backup_schedules ba local now)"
  unfolding run_due_backup_schedules_def by (intro keeps)

text \<open>A failed run ends the claim on its row.\<close>

lemma run_failed_run:
  assumes "busy_with t0 (insert (br_id run) is) (bk_runs s)" "br_id run \<notin> is"
  shows "busy_with t0 is (bk_runs (snd (run_failed ba run e s)))"
proof -
  have "bk_runs (snd (run_failed ba run e s)) = fail_backup_run (bk_now ba s) (br_id run) (err_message e) (bk_runs s)"
    by (simp add: run_failed_def bind_def set_runs_def modify_def bk_event_def)
  with assms show ?thesis
    by (auto simp: busy_with_def intro: kept_fail running_stays(1))
qed

lemma keeps_execute_each: "keeps_runs (busy_with t0 {}) (execute_each ba ids c)"
proof (induction ids arbitrary: c)
  case (Cons i ids)
  show ?case
    unfolding keeps_pred_def
  proof (intro allI impI)
    fix s :: "'a backup_state"
    assume b: "busy_with t0 {} (bk_runs s)"
    obtain x t where claim: "claim_pending_backup_run (bk_now ba s) i (bk_runs s) = (x, t)" by fastforce
    have k: "kept t0 t \<and> (case x of None \<Rightarrow> True | Some r \<Rightarrow> br_id r = i \<and> running i t)"
      using kept_claim [OF _ claim] b by (simp add: busy_with_def)
    have run: "claim_run ba i s = (Inr x, s\<lparr>bk_runs := t\<rparr>)"
      by (simp add: claim_run_def on_runs_def claim)
    show "busy_with t0 {} (bk_runs (snd (execute_each ba (i # ids) c s)))"
    proof (cases x)
      case None
      with run k Cons.IH show ?thesis by (simp add: bind_def keeps_pred_def busy_with_def)
    next
      case (Some r)
      define m where "m = try_catch (bind (start_run ba r) (\<lambda>_. ret True)) (\<lambda>e. bind (run_failed ba r e) (\<lambda>_. ret False))"
      obtain y u where start: "start_run ba r (s\<lparr>bk_runs := t\<rparr>) = (y, u)" by fastforce
      have held: "busy_with t0 {br_id r} (bk_runs u)"
        using keeps_predD [OF keeps_start_run [of r "{br_id r}" t0 ba], of "s\<lparr>bk_runs := t\<rparr>"] start k Some
        by (simp add: busy_with_def)
      have "busy_with t0 {} (bk_runs (snd (m (s\<lparr>bk_runs := t\<rparr>))))"
      proof (cases y)
        case (Inl e)
        with start run_failed_run [OF held, of ba e] show ?thesis
          by (simp add: m_def try_catch_def bind_def ret_def split: prod.split sum.split)
            (metis snd_conv)
      next
        case (Inr z)
        with start held show ?thesis by (simp add: m_def try_catch_def bind_def ret_def busy_with_def)
      qed
      moreover have "execute_each ba (i # ids) c s = bind m (\<lambda>ok. execute_each ba ids
          (if ok then (Suc (fst c), snd c) else (fst c, Suc (snd c)))) (s\<lparr>bk_runs := t\<rparr>)"
        using run Some by (simp add: bind_def m_def)
      ultimately show ?thesis
        using Cons.IH by (auto simp: bind_def keeps_pred_def split: prod.split sum.split)
    qed
  qed
qed (simp add: keeps)

lemma keeps_pending: "keeps_runs (busy_with t0 {}) (execute_pending_backups ba)"
  unfolding execute_pending_backups_def by (intro keeps keeps_execute_each)

lemma keeps_poll [keeps]: "keeps_runs P (poll_run ba run)"
  unfolding poll_run_def by (intro keeps)

lemma keeps_report [keeps]: "keeps_runs P (report_failure ba run e)"
  unfolding report_failure_def by (intro keeps)

lemma run_succeeded_run:
  assumes "busy_with t0 (insert (br_id run) is) (bk_runs s)" "br_id run \<notin> is"
  shows "\<exists>t. run_succeeded ba run status s = (Inr (), t) \<and> busy_with t0 is (bk_runs t)"
proof -
  define s1 where "s1 = snd (set_runs ba (\<lambda>now. complete_backup_run now (br_id run)) s)"
  have b1: "busy_with t0 is (bk_runs s1)"
    using assms by (auto simp: s1_def set_runs_def modify_def busy_with_def intro: kept_complete running_stays(2))
  define ev where "ev = bk_event ba (if br_kind run = KindPrune then ''BACKUP_PRUNED'' else ''BACKUP_FINISHED'') (br_created_by run)
      (br_vm run) (run_detail run @ [(''result'', JStr ''ok''), (''status'', JStr status)])"
  define s2 where "s2 = snd (ev s1)"
  have b2: "busy_with t0 is (bk_runs s2)"
    using b1 by (simp add: s2_def ev_def bk_event_def modify_def)
  define last where "last = (if br_kind run = KindBackup \<and> br_keep run \<noteq> None
     then try_catch (bind (new_run ba (prune_input run)) (\<lambda>_. ret ())) (\<lambda>e. ret ()) else ret ())"
  have "run_succeeded ba run status s = last s2"
    by (simp add: run_succeeded_def last_def bind_def set_runs_def modify_def bk_event_def s1_def s2_def ev_def)
  moreover have "keeps_runs (busy_with t0 is) last" unfolding last_def by (intro keeps)
  moreover have "\<exists>t. last s2 = (Inr (), t)"
    by (auto simp: last_def try_catch_def bind_def ret_def split: prod.split sum.split)
  ultimately show ?thesis using keeps_predD b2 by fastforce
qed

lemma finalize_run_run:
  assumes "busy_with t0 (insert (br_id run) is) (bk_runs s)" "br_id run \<notin> is"
  shows "busy_with t0 is (bk_runs (snd (finalize_run ba run s)))"
proof -
  obtain x s1 where poll: "poll_run ba run s = (x, s1)" by fastforce
  have b1: "busy_with t0 (insert (br_id run) is) (bk_runs s1)"
    using keeps_predD [OF keeps_poll [of "busy_with t0 (insert (br_id run) is)" ba run], of s] assms(1) poll by simp
  have fail: "busy_with t0 is (bk_runs (snd (bind (run_failed ba run e) (\<lambda>_. bind (report_failure ba run (err_message e))
      (\<lambda>_. ret (Some False))) s1)))" for e
  proof -
    have "keeps_runs (busy_with t0 is) (bind (report_failure ba run (err_message e)) (\<lambda>_. ret (Some False)))"
      by (intro keeps)
    moreover obtain y u where "run_failed ba run e s1 = (y, u)" by fastforce
    ultimately show ?thesis
      using run_failed_run [OF b1 assms(2), of ba e] by (cases y) (auto simp: bind_def keeps_pred_def)
  qed
  show ?thesis
  proof (cases x)
    case (Inl e)
    with poll fail show ?thesis by (simp add: finalize_run_def try_catch_def bind_def)
  next
    case (Inr st)
    show ?thesis
    proof (cases st)
      case None
      with poll Inr b1 show ?thesis by (simp add: finalize_run_def try_catch_def bind_def ret_def busy_with_def)
    next
      case (Some p)
      obtain ok status where p: "p = (ok, status)" by fastforce
      show ?thesis
      proof (cases ok)
        case True
        from run_succeeded_run [OF b1 assms(2), of ba status] obtain t
          where "run_succeeded ba run status s1 = (Inr (), t)" "busy_with t0 is (bk_runs t)" by blast
        with True p Some Inr poll show ?thesis by (simp add: finalize_run_def try_catch_def bind_def ret_def)
      next
        case False
        with p Some Inr poll fail show ?thesis by (simp add: finalize_run_def try_catch_def bind_def throw_def)
      qed
    qed
  qed
qed

lemma finalize_each_run:
  assumes "busy_with t0 (br_id ` set rows) (bk_runs s)" "distinct (map br_id rows)"
  shows "busy_with t0 {} (bk_runs (snd (finalize_each ba rows c s)))"
  using assms
proof (induction rows arbitrary: c s)
  case Nil
  then show ?case by (simp add: ret_def)
next
  case (Cons run rows)
  obtain x u where run: "finalize_run ba run s = (x, u)" by fastforce
  have b: "busy_with t0 (br_id ` set rows) (bk_runs u)"
    using finalize_run_run [of t0 run "br_id ` set rows" s ba] Cons.prems run by auto
  show ?case
  proof (cases x)
    case (Inl e)
    with run b show ?thesis by (simp add: bind_def busy_with_def)
  next
    case (Inr r)
    with run Cons.IH [OF b] Cons.prems(2) show ?thesis by (simp add: bind_def)
  qed
qed

lemma keeps_finalize: "keeps_runs (busy_with t0 {}) (finalize_backup_runs ba)"
  unfolding keeps_pred_def
proof (intro allI impI)
  fix s :: "'a backup_state"
  assume b: "busy_with t0 {} (bk_runs s)"
  define rows where "rows = take 20 (sort_key started_rank (sort_key started_time
        (filter (\<lambda>r. br_status r = BkRunning) (bk_runs s))))"
  have sub: "set rows \<subseteq> {r \<in> set (bk_runs s). br_status r = BkRunning}"
    using set_take_subset [of 20] by (fastforce simp: rows_def)
  have "distinct (map br_id (bk_runs s))" using b by (simp add: busy_with_def kept_def runs_ok_def run_table.unique_def)
  then have "distinct (map br_id (sort_key started_rank (sort_key started_time (filter (\<lambda>r. br_status r = BkRunning) (bk_runs s)))))"
    by (simp add: distinct_map inj_on_def)
  then have "distinct (map br_id rows)"
    unfolding rows_def by (metis distinct_take take_map)
  moreover have "busy_with t0 (br_id ` set rows) (bk_runs s)"
    using b sub by (auto simp: busy_with_def running_def)
  ultimately show "busy_with t0 {} (bk_runs (snd (finalize_backup_runs ba s)))"
    using finalize_each_run by (simp add: finalize_backup_runs_def bind_def gets_def rows_def [symmetric])
qed

lemma keeps_pass: "keeps_runs (busy_with t0 {}) (run_backup_pass ba local now)"
  unfolding run_backup_pass_def by (intro keeps keeps_due keeps_pending keeps_finalize)

text \<open>What the routes and the ticker do to the table of runs.\<close>

datatype run_event = Trigger time string run_input | Detach string

fun apply_event :: "run_event \<Rightarrow> 'w backup_state \<Rightarrow> 'w backup_state" where
  "apply_event (Trigger now nid n) s = s\<lparr>bk_runs := snd (create_backup_run now nid n (bk_runs s))\<rparr>"
| "apply_event (Detach i) s = s\<lparr>bk_scheds := snd (delete_backup_schedule i (bk_scheds s)), bk_runs := detach_runs i (bk_runs s)\<rparr>"

inductive backup_history :: "'w backup_api \<Rightarrow> (time \<Rightarrow> local_time) \<Rightarrow> 'w backup_state \<Rightarrow> 'w backup_state \<Rightarrow> bool"
  for ba local where
  start: "backup_history ba local s s"
| event: "backup_history ba local s u \<Longrightarrow> backup_history ba local s (apply_event e u)"
| tick: "backup_history ba local s u \<Longrightarrow> backup_history ba local s (snd (run_backup_pass ba local now u))"
| elsewhere: "backup_history ba local s u \<Longrightarrow> bk_runs v = bk_runs u \<Longrightarrow> backup_history ba local s v"

lemma history_kept: "backup_history ba local s u \<Longrightarrow> runs_ok (bk_runs s) \<Longrightarrow> kept (bk_runs s) (bk_runs u)"
proof (induction rule: backup_history.induct)
  case (start s)
  then show ?case by (simp add: kept_def onward_refl)
next
  case (event s u e)
  then show ?case
    using kept_create [OF _ prod.collapse [symmetric]] kept_detach by (cases e) auto
next
  case (tick s u now)
  then show ?case
    using keeps_predD [OF keeps_pass, of "bk_runs s" u ba local now] by (simp add: busy_with_def)
qed auto

text \<open>C27. Backup runs move forward only. Over any history of ticker passes, triggers, deleted
  timetables and anything else that leaves the table of runs alone, whatever Proxmox and the
  backup server answer: no run is lost; its request never changes; PENDING becomes RUNNING and
  RUNNING becomes OK or FAILED, never back, and a finished row never changes again; times,
  error and task id agree with the state; and no machine ever has more than three active runs.\<close>

theorem backup_runs_move_forward:
  assumes "backup_history ba local s u" and "runs_ok (bk_runs s)"
  shows "runs_ok (bk_runs u) \<and> onward (bk_runs s) (bk_runs u)"
  using history_kept [OF assms] by (simp add: kept_def)

text \<open>A pass over one pending run whose task does not come back at once.\<close>

definition quiet_backups :: "int backup_api" where
  "quiet_backups = \<lparr>ba_clock = (\<lambda>w. w), ba_id = ret ''n1'', ba_settings = (\<lambda>k. ret None), ba_proxmox = ret (), ba_pbs = ret False,
     ba_vzdump = (\<lambda>n v st m. ret ''UPID''), ba_groups = (\<lambda>d. ret []), ba_prune = (\<lambda>d i k. ret ''UPID''),
     ba_task = (\<lambda>n u. ret (''running'', None)), ba_pbs_task = (\<lambda>u. ret (''running'', None)), ba_gotify = (\<lambda>t m. ret ())\<rparr>"

definition pending_run :: backup_run where
  "pending_run = \<lparr>br_id = ''r1'', br_vm = demo_vm, br_schedule = None, br_kind = KindBackup, br_mode = ''snapshot'',
     br_storage = ''local'', br_datastore = None, br_keep = Some 3, br_status = BkPending, br_upid = None, br_error = None,
     br_created_by = Some demo_user, br_created_at = 0, br_started = None, br_finished = None\<rparr>"

definition demo_backups :: "bool \<Rightarrow> int backup_state" where
  "demo_backups admin = \<lparr>bk_app = (p_app (demo_state admin))\<lparr>reg := (reg (p_app (demo_state admin)))\<lparr>vms := [demo_machine]\<rparr>\<rparr>,
     bk_scheds = [], bk_runs = [pending_run], bk_audit = [], bk_notes = [], bk_world = 5\<rparr>"

lemma backup_runs_move_forward_witness:
  "onward [pending_run] (bk_runs (snd (run_backup_pass quiet_backups (\<lambda>t. undefined) 0 (demo_backups True))))"
proof -
  have ok: "runs_ok (bk_runs (demo_backups True))"
    by (simp add: demo_backups_def runs_ok_def run_table.unique_def row_ok_def finished_def pending_run_def
        active_backup_run_count_def MAX_ACTIVE_BACKUP_RUNS_def)
  have "backup_history quiet_backups (\<lambda>t. undefined) (demo_backups True)
      (snd (run_backup_pass quiet_backups (\<lambda>t. undefined) 0 (demo_backups True)))"
    by (rule backup_history.tick [OF backup_history.start])
  from backup_runs_move_forward [OF this ok] show ?thesis
    by (simp add: demo_backups_def)
qed

subsection \<open>The right of the creator\<close>

lemma unauthorized_start:
  "\<not> creator_may_run_backups (bk_app s) (bk_now ba s) (br_created_by run) \<Longrightarrow>
   start_run ba run s = (Inl (err_forbidden ''creator no longer authorized to run backups''), s)"
  by (simp add: start_run_def bind_def gets_def throw_def)

lemma get_after_claim:
  assumes "run_table.unique t" "get_backup_run i t = Some run" "br_status run = BkPending"
  shows "claim_pending_backup_run now i t = (Some (run\<lparr>br_status := BkRunning, br_started := Some now\<rparr>),
    table_update (\<lambda>r. br_id r = i) (\<lambda>r. r\<lparr>br_status := BkRunning, br_started := Some now\<rparr>) t)"
proof -
  have run: "run \<in> set t" "br_id run = i" using run_table.lookup_SomeD [OF assms(2)] by auto
  have one: "r = run" if "r \<in> set t" "br_id r = i" for r
    using run_table.lookup_unique [OF assms(1) that(1)] that(2) assms(2) by simp
  have "table_update (\<lambda>r. br_id r = i \<and> br_status r = BkPending) f t = table_update (\<lambda>r. br_id r = i) f t" for f
    using one assms(3) by (auto simp: table_update_def)
  moreover have "list_ex (\<lambda>r. br_id r = i \<and> br_status r = BkPending) t"
    using run assms(3) by (auto simp: list_ex_iff)
  ultimately show ?thesis
    using run_table.lookup_update [of "\<lambda>r. r\<lparr>br_status := BkRunning, br_started := Some now\<rparr>" i t] assms(2)
    by (simp add: claim_pending_backup_run_def Let_def)
qed

text \<open>C28. No backup runs for a creator who has lost the right. When the creator of a run has no
  account any more, is deactivated, or holds \<open>vm.manage\<close> neither by role nor by any live grant,
  executing the pending run calls nothing outside and ends it as FAILED, and a due timetable of
  such a creator queues nothing; every other run stays as it was.\<close>

theorem backups_need_an_authorized_creator:
  assumes "run_table.unique (bk_runs s)" and "get_backup_run i (bk_runs s) = Some run" and "br_status run = BkPending"
    and "\<not> creator_may_run_backups (bk_app s) (bk_now ba s) (br_created_by run)"
    and "bs_created_by sch = br_created_by run"
  shows "(\<exists>u. execute_each ba [i] c s = (Inr (fst c, Suc (snd c)), u) \<and> bk_world u = bk_world s \<and> bk_app u = bk_app s
      \<and> get_backup_run i (bk_runs u) = Some (run\<lparr>br_status := BkFailed, br_started := Some (bk_now ba s),
          br_error := Some ''creator no longer authorized to run backups'', br_finished := Some (bk_now ba s)\<rparr>)
      \<and> (\<forall>j. j \<noteq> i \<longrightarrow> get_backup_run j (bk_runs u) = get_backup_run j (bk_runs s)))
    \<and> (\<exists>v. queue_due ba sch s = (Inr False, v) \<and> bk_world v = bk_world s \<and> bk_runs v = bk_runs s)"
proof
  have i: "br_id run = i" using run_table.lookup_SomeD [OF assms(2)] by simp
  define t1 where "t1 = table_update (\<lambda>r. br_id r = i) (\<lambda>r. r\<lparr>br_status := BkRunning, br_started := Some (bk_now ba s)\<rparr>) (bk_runs s)"
  define r1 where "r1 = run\<lparr>br_status := BkRunning, br_started := Some (bk_now ba s)\<rparr>"
  define s1 where "s1 = s\<lparr>bk_runs := t1\<rparr>"
  have same: "bk_now ba s1 = bk_now ba s" "bk_app s1 = bk_app s" "bk_world s1 = bk_world s" "bk_runs s1 = t1" "br_id r1 = i"
    by (simp_all add: s1_def bk_now_def r1_def i)
  have claim: "claim_run ba i s = (Inr (Some r1), s1)"
    using get_after_claim [OF assms(1,2,3), of "bk_now ba s"] by (simp add: claim_run_def on_runs_def s1_def t1_def r1_def)
  have refused: "start_run ba r1 s1 = (Inl (err_forbidden ''creator no longer authorized to run backups''), s1)"
    by (rule unauthorized_start) (use assms(4) same in \<open>simp add: r1_def\<close>)
  obtain u where failed: "run_failed ba r1 (err_forbidden ''creator no longer authorized to run backups'') s1 = (Inr (), u)"
    and u: "bk_runs u = fail_backup_run (bk_now ba s) i ''creator no longer authorized to run backups'' t1"
      "bk_world u = bk_world s" "bk_app u = bk_app s"
    using same by (auto simp: run_failed_def bind_def set_runs_def modify_def bk_event_def err_forbidden_def)
  have "execute_each ba [i] c s = (Inr (fst c, Suc (snd c)), u)"
    by (simp add: bind_def claim try_catch_def refused failed ret_def)
  moreover have "get_backup_run j (bk_runs u) = (if j = i then Some (run\<lparr>br_status := BkFailed, br_started := Some (bk_now ba s),
          br_error := Some ''creator no longer authorized to run backups'', br_finished := Some (bk_now ba s)\<rparr>)
        else get_backup_run j (bk_runs s))" for j
    using assms(2) by (simp add: u(1) fail_backup_run_def t1_def run_table.lookup_update run_table.lookup_update_other)
  ultimately show "\<exists>u. execute_each ba [i] c s = (Inr (fst c, Suc (snd c)), u) \<and> bk_world u = bk_world s \<and> bk_app u = bk_app s
      \<and> get_backup_run i (bk_runs u) = Some (run\<lparr>br_status := BkFailed, br_started := Some (bk_now ba s),
          br_error := Some ''creator no longer authorized to run backups'', br_finished := Some (bk_now ba s)\<rparr>)
      \<and> (\<forall>j. j \<noteq> i \<longrightarrow> get_backup_run j (bk_runs u) = get_backup_run j (bk_runs s))"
    using u by auto
  show "\<exists>v. queue_due ba sch s = (Inr False, v) \<and> bk_world v = bk_world s \<and> bk_runs v = bk_runs s"
    using assms(4,5) by (auto simp: queue_due_def bind_def modify_def gets_def bk_event_def ret_def bk_now_def)
qed

lemma backups_need_an_authorized_creator_witness:
  "\<exists>u. execute_each quiet_backups [''r1''] (0, 0) (demo_backups False) = (Inr (0, 1), u) \<and> bk_world u = 5"
proof -
  have 1: "run_table.unique (bk_runs (demo_backups False))" "get_backup_run ''r1'' (bk_runs (demo_backups False)) = Some pending_run"
    "br_status pending_run = BkPending"
    by (simp_all add: demo_backups_def run_table.unique_def get_backup_run_def table_find_def pending_run_def)
  have 2: "\<not> creator_may_run_backups (bk_app (demo_backups False)) (bk_now quiet_backups (demo_backups False)) (br_created_by pending_run)"
    by code_simp
  define sch :: backup_schedule where "sch = \<lparr>tt_minute = 0, tt_hour = 0, tt_days = ''*'', tt_enabled = True, tt_last_run = None,
     bs_id = ''b1'', bs_vm = demo_vm, bs_mode = ''snapshot'', bs_storage = ''local'', bs_datastore = None, bs_keep = None,
     bs_created_by = Some demo_user, bs_created_at = 0\<rparr>"
  have 3: "bs_created_by sch = br_created_by pending_run" by (simp add: sch_def pending_run_def)
  from backups_need_an_authorized_creator [OF 1 2 3, of "(0, 0)"] show ?thesis
    by (auto simp: demo_backups_def)
qed

subsection \<open>The group of a machine\<close>

lemma resolve_from_exact:
  "resolve_from bare gs vmid =
     (if \<exists>g \<in> set gs. is_object g \<and> json_field g ''backup-id'' = JStr (prefixed_id vmid) then Some (prefixed_id vmid)
      else if bare = None \<and> (\<exists>g \<in> set gs. is_object g \<and> group_belongs_to_vm g vmid) then Some (int_str vmid)
      else bare)"
proof (induction bare gs vmid rule: resolve_from.induct)
  case (2 bare g gs vmid)
  show ?case
  proof (cases "is_object g")
    case False
    with 2 show ?thesis by auto
  next
    case True
    have "group_belongs_to_vm g vmid \<Longrightarrow> json_field g ''backup-id'' \<noteq> JStr (prefixed_id vmid) \<Longrightarrow>
        json_field g ''backup-id'' = JStr (int_str vmid)"
      by (auto simp: group_belongs_to_vm_def)
    with True 2 show ?thesis by (auto split: if_splits)
  qed
qed simp

text \<open>A prune addresses the machine's own group: the prefixed one when the server lists it, else
  the bare number when a group of that number is typed as a VM or not typed, and otherwise
  nothing is pruned. Entries that are no objects and groups of other types never count.\<close>

theorem prune_group_exact:
  "resolve_vm_backup_id gs vmid =
     (if \<exists>g \<in> set gs. is_object g \<and> json_field g ''backup-id'' = JStr (prefixed_id vmid) then Some (prefixed_id vmid)
      else if \<exists>g \<in> set gs. is_object g \<and> json_field g ''backup-id'' = JStr (int_str vmid)
           \<and> json_field g ''backup-type'' \<in> {JUndefined, JStr ''vm''} then Some (int_str vmid)
      else None)"
  unfolding resolve_vm_backup_id_def resolve_from_exact by (auto simp: group_belongs_to_vm_def)

subsection \<open>Runs that end too early\<close>

text \<open>
  A poll that throws (the host does not answer for a moment) ends the run as FAILED, whatever
  its task does; so does a run that was claimed by a process that died before it stored the
  task's identifier.
\<close>

lemma poll_error_fails_run:
  assumes "poll_run ba run s = (Inl e, s1)"
  shows "bk_runs (snd (finalize_run ba run s)) = fail_backup_run (bk_now ba s1) (br_id run) (err_message e) (bk_runs s1)"
proof -
  obtain u where u: "run_failed ba run e s1 = (Inr (), u)"
    "bk_runs u = fail_backup_run (bk_now ba s1) (br_id run) (err_message e) (bk_runs s1)"
    by (simp add: run_failed_def bind_def set_runs_def modify_def bk_event_def)
  have "keeps_runs (\<lambda>t. t = bk_runs u) (bind (report_failure ba run (err_message e)) (\<lambda>_. ret (Some False)))"
    by (intro keeps)
  then have "bk_runs (snd (bind (report_failure ba run (err_message e)) (\<lambda>_. ret (Some False)) u)) = bk_runs u"
    by (simp add: keeps_pred_def)
  with assms u show ?thesis by (simp add: finalize_run_def try_catch_def bind_def)
qed

lemma crashed_start_fails_run: "br_upid run = None \<Longrightarrow> poll_run ba run s = (Inl (plain_error ''Backup task has no UPID''), s)"
  by (simp add: poll_run_def truthy_def throw_def)

end
