(* ===== verification/Usage.thy ===== *)
theory Usage
  imports Users Settings
begin

text \<open>
  Metering, tickets and the announcement (\<open>packages/core/src/services/usage.ts\<close>; its quotas are
  in \<open>Users\<close> and \<open>Jobs\<close>). Times are milliseconds. The code adds up seconds as floating-point
  numbers and rounds hours to two decimals; here the sums are exact integers of milliseconds and
  hours are hundredths, rounded half up.
\<close>

subsection \<open>Power periods\<close>

record power_period =
  pp_id :: string
  pp_vm :: string
  pp_started :: time
  pp_ended :: "time option"

definition open_of :: "string \<Rightarrow> power_period \<Rightarrow> bool" where
  "open_of vm p \<longleftrightarrow> pp_vm p = vm \<and> pp_ended p = None"

definition open_power_period :: "time \<Rightarrow> string \<Rightarrow> string \<Rightarrow> power_period list \<Rightarrow> power_period \<times> power_period list" where
  "open_power_period now nid vm t = (case sort_key (\<lambda>p. - pp_started p) (filter (open_of vm) t) of
       p # _ \<Rightarrow> (p, t)
     | [] \<Rightarrow> (let p = \<lparr>pp_id = nid, pp_vm = vm, pp_started = now, pp_ended = None\<rparr> in (p, t @ [p])))"

definition close_power_period :: "time \<Rightarrow> string \<Rightarrow> power_period list \<Rightarrow> nat \<times> power_period list" where
  "close_power_period now vm t =
     (length (filter (open_of vm) t), table_update (open_of vm) (\<lambda>p. p\<lparr>pp_ended := Some now\<rparr>) t)"

datatype power_change = PowerOpened | PowerClosed | PowerUnchanged

definition reconcile_vm_power :: "time \<Rightarrow> string \<Rightarrow> string \<Rightarrow> bool \<Rightarrow> power_period list \<Rightarrow> power_change \<times> power_period list" where
  "reconcile_vm_power now nid vm running t =
     (let has_open = list_ex (open_of vm) t in
      if running \<and> \<not> has_open then (PowerOpened, snd (open_power_period now nid vm t))
      else if \<not> running \<and> has_open then (PowerClosed, snd (close_power_period now vm t))
      else (PowerUnchanged, t))"

subsection \<open>Months\<close>

text \<open>The pattern \<open>\<and>(\d{4})-(0[1-9]|1[0-2])$\<close>.\<close>

definition parse_month :: "string \<Rightarrow> (nat \<times> nat) option" where
  "parse_month s = (case split_on CHR ''-'' s of
       [y, m] \<Rightarrow> if length y = 4 \<and> length m = 2 \<and> list_all is_digit (y @ m) \<and> 1 \<le> digits_val m \<and> digits_val m \<le> 12
                 then Some (digits_val y, digits_val m) else None
     | _ \<Rightarrow> None)"

text \<open>
  \<open>Date.UTC(y, m)\<close>: the days before a month of the Gregorian calendar, in milliseconds since
  1970. Month 12 is January of the next year. (\<open>Date.UTC\<close> reads years below 100 as 19xx.)
\<close>

definition leap :: "int \<Rightarrow> bool" where
  "leap y \<longleftrightarrow> (y mod 4 = 0 \<and> y mod 100 \<noteq> 0) \<or> y mod 400 = 0"

definition days_before_year :: "int \<Rightarrow> int" where
  "days_before_year y = 365 * (y - 1970) + ((y - 1) div 4 - 1969 div 4) - ((y - 1) div 100 - 1969 div 100)
     + ((y - 1) div 400 - 1969 div 400)"

definition days_before_month :: "bool \<Rightarrow> nat \<Rightarrow> int" where
  "days_before_month leap_year m =
     [0, 31, 59, 90, 120, 151, 181, 212, 243, 273, 304, 334] ! m + (if leap_year \<and> 2 \<le> m then 1 else 0)"

definition full_year :: "nat \<Rightarrow> int" where
  "full_year y = (if y < 100 then int y + 1900 else int y)"

definition date_utc :: "nat \<Rightarrow> nat \<Rightarrow> time" where
  "date_utc y m = (let year = full_year y + int (m div 12); month = m mod 12
     in 86400000 * (days_before_year year + days_before_month (leap year) month))"

definition month_bounds :: "string \<Rightarrow> (time \<times> time) res" where
  "month_bounds s = (case parse_month s of
       None \<Rightarrow> Inl (err_validation ''month must be YYYY-MM'')
     | Some (y, m) \<Rightarrow> Inr (date_utc y (m - 1), date_utc y m))"

definition period_end :: "time \<Rightarrow> power_period \<Rightarrow> time" where
  "period_end now p = (case pp_ended p of None \<Rightarrow> now | Some e \<Rightarrow> e)"

definition overlap :: "time \<Rightarrow> time \<Rightarrow> time \<Rightarrow> time \<Rightarrow> int" where
  "overlap a b s e = max 0 (min e b - max s a)"

definition in_month :: "time \<Rightarrow> time \<Rightarrow> power_period \<Rightarrow> bool" where
  "in_month a b p \<longleftrightarrow> pp_started p < b \<and> (case pp_ended p of None \<Rightarrow> True | Some e \<Rightarrow> a < e)"

text \<open>The rows of the join: a period whose machine has a row (deleted ones included).\<close>

definition month_rows :: "vm_row list \<Rightarrow> time \<Rightarrow> time \<Rightarrow> power_period list \<Rightarrow> power_period list" where
  "month_rows vs a b t = filter (\<lambda>p. in_month a b p \<and> vm_by_id (pp_vm p) vs \<noteq> None) t"

definition add_time :: "string \<Rightarrow> int \<Rightarrow> (string \<times> int) list \<Rightarrow> (string \<times> int) list" where
  "add_time vm ms m = AList.update vm (or_else (map_of m vm) 0 + ms) m"

definition month_totals :: "time \<Rightarrow> time \<Rightarrow> time \<Rightarrow> power_period list \<Rightarrow> (string \<times> int) list" where
  "month_totals now a b rows = fold (\<lambda>p m.
     let ms = overlap a b (pp_started p) (period_end now p) in if ms \<le> 0 then m else add_time (pp_vm p) ms m) rows []"

definition hundredths :: "int \<Rightarrow> int" where
  "hundredths ms = (ms + 18000) div 36000"

definition vm_name_of :: "vm_row list \<Rightarrow> string \<Rightarrow> string" where
  "vm_name_of vs i = (case vm_by_id i vs of None \<Rightarrow> [] | Some v \<Rightarrow> v_name v)"

text \<open>\<open>ord\<close> orders the rows of the query as the collation of the database does.\<close>

definition monthly_usage ::
  "(power_period list \<Rightarrow> power_period list) \<Rightarrow> time \<Rightarrow> vm_row list \<Rightarrow> power_period list \<Rightarrow> string
   \<Rightarrow> (string \<times> string \<times> int) list res" where
  "monthly_usage ord now vs t month = rbind (month_bounds month) (\<lambda>(a, b).
     Inr (sort_key (\<lambda>r. - snd (snd r)) (map (\<lambda>(i, ms). (i, vm_name_of vs i, hundredths ms))
       (month_totals now a b (ord (month_rows vs a b t))))))"

definition day_ms :: int where
  "day_ms = 86400000"

definition day_total :: "time \<Rightarrow> time \<Rightarrow> time \<Rightarrow> power_period list \<Rightarrow> nat \<Rightarrow> int" where
  "day_total now a b rows d = (let day = a + int d * day_ms
     in sum_list (map (\<lambda>p. overlap day (min (day + day_ms) b) (pp_started p) (period_end now p)) rows))"

definition days_of :: "time \<Rightarrow> time \<Rightarrow> nat" where
  "days_of a b = nat ((b - a) div day_ms)"

definition two_digits :: "nat \<Rightarrow> string" where
  "two_digits n = (if n < 10 then CHR ''0'' # nat_str n else nat_str n)"

definition daily_usage :: "time \<Rightarrow> vm_row list \<Rightarrow> power_period list \<Rightarrow> string \<Rightarrow> (string \<times> int) list res" where
  "daily_usage now vs t month = rbind (month_bounds month) (\<lambda>(a, b).
     Inr (map (\<lambda>d. (month @ ''-'' @ two_digits (Suc d), hundredths (day_total now a b (month_rows vs a b t) d)))
       [0..<days_of a b]))"

subsection \<open>Tickets\<close>

datatype ticket_status = TicketOpen | TicketAnswered | TicketClosed

record ticket =
  tk_id :: string
  tk_user :: string
  tk_title :: string
  tk_body :: string
  tk_status :: ticket_status
  tk_created :: time
  tk_updated :: time
  tk_closed :: "time option"
  tk_closed_by :: "string option"

definition create_ticket :: "time \<Rightarrow> string \<Rightarrow> string \<Rightarrow> string \<Rightarrow> string \<Rightarrow> (ticket list, ticket) comp" where
  "create_ticket now nid user title body t =
     (let ct = trim title; cb = trim body in
      if length ct < 1 \<or> length ct > 120 then (Inl (err_validation ''Title must be 1-120 characters''), t)
      else if length cb < 1 \<or> length cb > 4000 then (Inl (err_validation ''Body must be 1-4000 characters''), t)
      else let r = \<lparr>tk_id = nid, tk_user = user, tk_title = ct, tk_body = cb, tk_status = TicketOpen, tk_created = now,
             tk_updated = now, tk_closed = None, tk_closed_by = None\<rparr> in (Inr r, t @ [r]))"

definition list_tickets :: "user_row list \<Rightarrow> string option \<Rightarrow> ticket_status option \<Rightarrow> int option \<Rightarrow> ticket list \<Rightarrow> ticket list" where
  "list_tickets us user st limit t =
     take (nat (min (max (or_else limit 100) 1) 500)) (sort_key (\<lambda>r. - tk_created r)
       (filter (\<lambda>r. user_by_id (tk_user r) us \<noteq> None \<and> (truthy user \<longrightarrow> tk_user r = the user)
          \<and> (st \<noteq> None \<longrightarrow> Some (tk_status r) = st)) t))"

definition set_ticket_status :: "time \<Rightarrow> string \<Rightarrow> ticket_status \<Rightarrow> string \<Rightarrow> (ticket list, ticket) comp" where
  "set_ticket_status now i st actor t =
     (let t' = table_update (\<lambda>r. tk_id r = i) (\<lambda>r. r\<lparr>tk_status := st, tk_updated := now,
          tk_closed := (if st = TicketClosed then Some now else None),
          tk_closed_by := (if st = TicketClosed then Some actor else None)\<rparr>) t
      in case find (\<lambda>r. tk_id r = i) t' of
           None \<Rightarrow> (Inl (err_not_found ''Ticket not found''), t')
         | Some r \<Rightarrow> (Inr r, t'))"

subsection \<open>The announcement\<close>

definition get_announcement :: "(string \<Rightarrow> string res) \<Rightarrow> setting_row list \<Rightarrow> (string \<times> bool) option res" where
  "get_announcement dec t =
     rbind (get_plain dec t ''app.announcement_text'') (\<lambda>text.
     rbind (get_plain dec t ''app.announcement_level'') (\<lambda>level.
     Inr (case text of
         None \<Rightarrow> None
       | Some s \<Rightarrow> if trim s = [] then None else Some (take 500 s, level = Some ''warn''))))"

definition set_announcement :: "(string \<Rightarrow> string) \<Rightarrow> time \<Rightarrow> string option \<Rightarrow> bool \<Rightarrow> setting_row list \<Rightarrow> setting_row list" where
  "set_announcement enc now text warn t =
     setting_set enc now ''app.announcement_level'' (if warn then ''warn'' else ''info'') None (Some ''system'')
       (setting_set enc now ''app.announcement_text'' (take 500 (trim (or_else text []))) None (Some ''system'') t)"

end
