(* ===== verification/Usage_Props.thy ===== *)
theory Usage_Props
  imports Usage "HOL-Library.Multiset"
begin

text \<open>
  What holds of the meters: every bound of a month is the start of a day, the daily and the
  monthly meter account for the same milliseconds, their reports agree up to rounding, and a machine has one open period at most.
\<close>

subsection \<open>Months are whole days\<close>

lemma year_grows: "days_before_year y + 364 \<le> days_before_year (y + 1)"
proof -
  have "(y - 1) div 4 \<le> y div 4" "y div 100 \<le> (y - 1) div 100 + 1" "(y - 1) div 400 \<le> y div 400"
    by (simp_all add: zdiv_mono1)
  then show ?thesis by (simp add: days_before_year_def)
qed

lemma month_grows: "m < 11 \<Longrightarrow> days_before_month l m \<le> days_before_month l (Suc m)"
proof -
  assume "m < 11"
  then have "m = 0 \<or> m = 1 \<or> m = 2 \<or> m = 3 \<or> m = 4 \<or> m = 5 \<or> m = 6 \<or> m = 7 \<or> m = 8 \<or> m = 9 \<or> m = 10" by arith
  then show ?thesis by (elim disjE) (simp_all add: days_before_month_def)
qed

lemma day_steps: "x \<le> y \<Longrightarrow> 86400000 * x \<le> 86400000 * y \<and> day_ms dvd 86400000 * y - 86400000 * (x :: int)"
proof -
  have "86400000 * y - 86400000 * x = day_ms * (y - x)" unfolding day_ms_def by (rule right_diff_distrib [symmetric])
  then have "day_ms dvd 86400000 * y - 86400000 * x" by simp
  then show "x \<le> y \<Longrightarrow> ?thesis" by simp
qed

lemma date_utc_step:
  assumes "1 \<le> m" and "m \<le> 12"
  shows "date_utc y (m - 1) \<le> date_utc y m \<and> day_ms dvd date_utc y m - date_utc y (m - 1)"
proof (cases "m = 12")
  case True
  have "days_before_month (leap (full_year y)) 11 \<le> 335" "days_before_month (leap (full_year y + 1)) 0 = 0"
    by (simp_all add: days_before_month_def)
  then have le: "days_before_year (full_year y) + days_before_month (leap (full_year y)) 11
      \<le> days_before_year (full_year y + 1) + days_before_month (leap (full_year y + 1)) 0"
    using year_grows [of "full_year y"] by linarith
  have "date_utc y (m - 1) = 86400000 * (days_before_year (full_year y) + days_before_month (leap (full_year y)) 11)"
    "date_utc y m = 86400000 * (days_before_year (full_year y + 1) + days_before_month (leap (full_year y + 1)) 0)"
    by (simp_all add: date_utc_def Let_def True)
  with day_steps [OF le] show ?thesis by simp
next
  case False
  with assms have m: "m < 12" "m - 1 < 11" "Suc (m - 1) = m" by auto
  then have le: "days_before_year (full_year y) + days_before_month (leap (full_year y)) (m - 1)
      \<le> days_before_year (full_year y) + days_before_month (leap (full_year y)) m"
    using month_grows [of "m - 1" "leap (full_year y)"] by simp
  have "date_utc y (m - 1) = 86400000 * (days_before_year (full_year y) + days_before_month (leap (full_year y)) (m - 1))"
    "date_utc y m = 86400000 * (days_before_year (full_year y) + days_before_month (leap (full_year y)) m)"
    using m by (simp_all add: date_utc_def Let_def)
  with day_steps [OF le] show ?thesis by simp
qed

lemma whole_days:
  assumes "month_bounds month = Inr (a, b)"
  shows "b = a + int (days_of a b) * day_ms"
proof -
  from assms obtain y m where m: "parse_month month = Some (y, m)" and a: "a = date_utc y (m - 1)" and b: "b = date_utc y m"
    by (auto simp: month_bounds_def split: option.splits)
  then have "1 \<le> m" "m \<le> 12" by (auto simp: parse_month_def split: list.splits if_splits)
  from date_utc_step [OF this] have "a \<le> b" "day_ms dvd b - a" by (simp_all add: a b)
  then show ?thesis by (auto simp: days_of_def day_ms_def)
qed

subsection \<open>The meters agree\<close>

lemma overlap_add: "a \<le> c \<Longrightarrow> c \<le> b \<Longrightarrow> overlap a c s e + overlap c b s e = overlap a b s e"
  unfolding overlap_def by linarith

lemma overlap_days:
  "sum_list (map (\<lambda>d. overlap (a + int d * day_ms) (a + int (Suc d) * day_ms) s e) [0..<n]) = overlap a (a + int n * day_ms) s e"
proof (induction n)
  case 0
  show ?case by (simp add: overlap_def)
next
  case (Suc n)
  have "overlap a (a + int n * day_ms) s e + overlap (a + int n * day_ms) (a + int (Suc n) * day_ms) s e
      = overlap a (a + int (Suc n) * day_ms) s e"
    by (rule overlap_add) (simp_all add: day_ms_def)
  with Suc.IH show ?case by simp
qed

lemma sum_swap: "sum_list (map (\<lambda>d. sum_list (map (\<lambda>p. f p d) ps)) ds) = (\<Sum>p\<leftarrow>ps. (\<Sum>d\<leftarrow>ds. f p d :: int))"
  by (induction ds) (simp_all add: sum_list_addf)

lemma day_totals:
  assumes "b = a + int n * day_ms"
  shows "sum_list (map (day_total now a b rows) [0..<n]) = (\<Sum>p\<leftarrow>rows. overlap a b (pp_started p) (period_end now p))"
proof -
  have "int (Suc d) * day_ms \<le> int n * day_ms" if "d < n" for d
    using that by (simp add: day_ms_def)
  then have day: "min (a + int d * day_ms + day_ms) b = a + int (Suc d) * day_ms" if "d < n" for d
    using that assms by (simp add: algebra_simps min_def)
  have "day_total now a b rows d = (\<Sum>p\<leftarrow>rows. overlap (a + int d * day_ms) (a + int (Suc d) * day_ms)
      (pp_started p) (period_end now p))" if "d < n" for d
    by (simp only: day_total_def Let_def day [OF that])
  then have "map (day_total now a b rows) [0..<n] = map (\<lambda>d. \<Sum>p\<leftarrow>rows. overlap (a + int d * day_ms) (a + int (Suc d) * day_ms)
      (pp_started p) (period_end now p)) [0..<n]"
    by simp
  then show ?thesis by (simp only: sum_swap overlap_days assms)
qed

lemma sum_add_time: "sum_list (map snd (add_time vm ms m)) = sum_list (map snd m) + ms"
proof -
  have "sum_list (map snd (AList.update vm (or_else (map_of m vm) 0 + x) m)) = sum_list (map snd m) + x" for x
    by (induction m) auto
  then show ?thesis by (simp add: add_time_def)
qed

lemma add_time_of: "or_else (map_of (add_time vm ms m) i) 0 = or_else (map_of m i) 0 + (if i = vm then ms else 0)"
  by (simp add: add_time_def update_conv')

lemma overlap_nonneg: "0 \<le> overlap a b s e"
  by (simp add: overlap_def)

definition meter :: "time \<Rightarrow> time \<Rightarrow> time \<Rightarrow> power_period \<Rightarrow> (string \<times> int) list \<Rightarrow> (string \<times> int) list" where
  "meter now a b p m = (let ms = overlap a b (pp_started p) (period_end now p) in if ms \<le> 0 then m else add_time (pp_vm p) ms m)"

lemma meter_sum: "sum_list (map snd (meter now a b p m)) = sum_list (map snd m) + overlap a b (pp_started p) (period_end now p)"
  using overlap_nonneg [of a b "pp_started p" "period_end now p"] by (simp add: meter_def Let_def sum_add_time)

lemma meter_of: "or_else (map_of (meter now a b p m) i) 0
    = or_else (map_of m i) 0 + (if pp_vm p = i then overlap a b (pp_started p) (period_end now p) else 0)"
  using overlap_nonneg [of a b "pp_started p" "period_end now p"] by (simp add: meter_def Let_def add_time_of)

lemma month_totals_meter: "month_totals now a b rows = fold (meter now a b) rows []"
  by (simp add: month_totals_def meter_def [abs_def])

lemma month_sum: "sum_list (map snd (fold (meter now a b) rows m))
    = sum_list (map snd m) + (\<Sum>p\<leftarrow>rows. overlap a b (pp_started p) (period_end now p))"
  by (induction rows arbitrary: m) (simp_all add: meter_sum)

lemma month_of: "or_else (map_of (fold (meter now a b) rows m) i) 0 = or_else (map_of m i) 0
    + (\<Sum>p\<leftarrow>filter (\<lambda>p. pp_vm p = i) rows. overlap a b (pp_started p) (period_end now p))"
  by (induction rows arbitrary: m) (simp_all add: meter_of)

subsection \<open>The reports\<close>

lemma totals_distinct: "distinct (map fst m) \<Longrightarrow> distinct (map fst (fold (meter now a b) rows m))"
  by (induction rows arbitrary: m) (simp_all add: meter_def Let_def add_time_def distinct_update)

lemma update_sub: "set (AList.update k v m) \<subseteq> insert (k, v) (set m)"
  by (induction m) auto

lemma totals_positive:
  "\<forall>e \<in> set m. 0 < snd e \<Longrightarrow> \<forall>e \<in> set (fold (meter now a b) rows m). 0 < snd e"
proof (induction rows arbitrary: m)
  case (Cons p rows)
  have old: "0 \<le> or_else (map_of m i) 0" for i
    using Cons.prems map_of_SomeD [of m i] by (cases "map_of m i") fastforce+
  define x where "x = or_else (map_of m (pp_vm p)) 0 + overlap a b (pp_started p) (period_end now p)"
  have "\<forall>e \<in> set (AList.update (pp_vm p) x m). 0 < snd e" if "0 < x"
    using update_sub [of "pp_vm p" x m] Cons.prems that by fastforce
  moreover have "0 < x" if "0 < overlap a b (pp_started p) (period_end now p)"
    unfolding x_def using old that by (rule add_nonneg_pos)
  ultimately have "\<forall>e \<in> set (meter now a b p m). 0 < snd e"
    using Cons.prems by (simp add: meter_def Let_def add_time_def not_le x_def)
  from Cons.IH [OF this] show ?case by simp
qed simp

text \<open>The milliseconds a machine was powered between two times, over the whole table.\<close>

definition powered :: "time \<Rightarrow> time \<Rightarrow> time \<Rightarrow> vm_row list \<Rightarrow> power_period list \<Rightarrow> string \<Rightarrow> int" where
  "powered now a b vs t i = (if vm_by_id i vs = None then 0
     else \<Sum>p\<leftarrow>filter (\<lambda>p. pp_vm p = i) t. overlap a b (pp_started p) (period_end now p))"

lemma out_of_month: "\<not> in_month a b p \<Longrightarrow> overlap a b (pp_started p) (period_end now p) = 0"
  by (auto simp: in_month_def overlap_def period_end_def split: option.splits)

lemma rows_powered:
  "(\<Sum>p\<leftarrow>filter (\<lambda>p. pp_vm p = i) (month_rows vs a b t). overlap a b (pp_started p) (period_end now p)) = powered now a b vs t i"
proof (induction t)
  case (Cons p t)
  then show ?case
    using out_of_month [of a b p now] by (auto simp: month_rows_def powered_def)
qed (simp add: month_rows_def powered_def)

lemma rounding: "\<bar>36000 * hundredths x - x\<bar> \<le> 18000"
proof -
  have "x + 18000 = 36000 * hundredths x + (x + 18000) mod 36000" unfolding hundredths_def by simp
  moreover have "0 \<le> (x + 18000) mod 36000" "(x + 18000) mod 36000 < 36000" by simp_all
  ultimately show ?thesis unfolding abs_le_iff by linarith
qed

lemma rounding_sum: "\<bar>36000 * (\<Sum>x\<leftarrow>xs. hundredths x) - sum_list xs\<bar> \<le> 18000 * int (length xs)"
proof (induction xs)
  case (Cons x xs)
  with rounding [of x] show ?case by (simp add: algebra_simps)
qed simp

lemma rounded_gap:
  assumes "\<bar>36000 * p - x\<bar> \<le> 18000 * n" "\<bar>36000 * q - x\<bar> \<le> 18000 * (k :: int)"
  shows "2 * \<bar>p - q\<bar> \<le> n + k"
proof -
  have "36000 * p - x \<le> 18000 * n" "x - 36000 * p \<le> 18000 * n" "36000 * q - x \<le> 18000 * k" "x - 36000 * q \<le> 18000 * k"
    using assms by (simp_all add: abs_le_iff)
  then have "18000 * (2 * (p - q)) \<le> 18000 * (n + k)" "18000 * (2 * (q - p)) \<le> 18000 * (n + k)"
    by (simp_all add: algebra_simps)
  then have "2 * (p - q) \<le> n + k" "2 * (q - p) \<le> n + k" by (simp_all only: mult_le_cancel_left_pos)
  then show ?thesis by (simp add: abs_if)
qed

lemma sum_permuted: "mset xs = mset ys \<Longrightarrow> (\<Sum>p\<leftarrow>xs. f p :: int) = (\<Sum>p\<leftarrow>ys. f p)"
  by (metis mset_map sum_mset_sum_list)

lemma month_total_iff:
  assumes "mset rows = mset (month_rows vs a b t)"
  shows "(i, x) \<in> set (month_totals now a b rows) \<longleftrightarrow> x = powered now a b vs t i \<and> 0 < x"
proof -
  let ?m = "month_totals now a b rows"
  have d: "distinct (map fst ?m)" unfolding month_totals_meter by (rule totals_distinct) simp
  have pos: "\<forall>e \<in> set ?m. 0 < snd e" unfolding month_totals_meter by (rule totals_positive) simp
  have "mset (filter (\<lambda>p. pp_vm p = i) rows) = mset (filter (\<lambda>p. pp_vm p = i) (month_rows vs a b t))"
    using assms by (simp add: mset_filter)
  then have of: "or_else (map_of ?m i) 0 = powered now a b vs t i"
    unfolding month_totals_meter month_of rows_powered [symmetric] by (simp add: sum_permuted)
  have "(i, x) \<in> set ?m \<longleftrightarrow> map_of ?m i = Some x" using d by simp
  then show ?thesis using of pos by (cases "map_of ?m i") auto
qed

lemma distinct_keys_sort: "distinct (map f (sort_key g xs)) = distinct (map f xs)"
  by (metis mset_map mset_sort distinct_count_atmost_1 mset_eq_imp_distinct_iff)

lemma sorted_desc: "sorted_wrt (\<lambda>x y. f y \<le> (f x :: int)) (sort_key (\<lambda>r. - f r) xs)"
  using sorted_sort_key [of "\<lambda>r. - f r" xs] by (simp add: sorted_map)

lemma sum_keys_sort: "(\<Sum>e\<leftarrow>sort_key g xs. f e) = (\<Sum>e\<leftarrow>xs. f e :: int)"
  by (rule sum_permuted) simp

lemma day_total_all:
  assumes "b = a + int n * day_ms" "d < n"
  shows "day_total now a b (month_rows vs a b t) d = (\<Sum>p\<leftarrow>filter (\<lambda>p. vm_by_id (pp_vm p) vs \<noteq> None) t.
      overlap (a + int d * day_ms) (a + int (Suc d) * day_ms) (pp_started p) (period_end now p))"
proof -
  have "int (Suc d) * day_ms \<le> int n * day_ms" using assms(2) by (simp add: day_ms_def)
  then have day: "min (a + int d * day_ms + day_ms) b = a + int (Suc d) * day_ms"
    and inside: "a \<le> a + int d * day_ms" "a + int (Suc d) * day_ms \<le> b"
    using assms(1) by (simp_all add: algebra_simps min_def day_ms_def)
  have "overlap (a + int d * day_ms) (a + int (Suc d) * day_ms) (pp_started p) (period_end now p) = 0"
    if "\<not> in_month a b p" for p
    using that inside by (auto simp: in_month_def overlap_def period_end_def split: option.splits)
  then show ?thesis
    unfolding day_total_def Let_def day by (induction t) (auto simp: month_rows_def)
qed

text \<open>C29. The two usage reports say what the power periods say, and agree up to rounding. For every
  month the parser accepts, whatever order the database gives the rows: the daily report has one
  entry per day of the month, the hours of the fleet within that day to the nearest hundredth; the
  monthly report lists, longest first, each machine that was powered in the month exactly once,
  with its name and its hours within the month to the nearest hundredth; and the sums of the two
  reports differ by at most half a hundredth of an hour per entry.\<close>

theorem daily_and_monthly_usage_agree:
  assumes "month_bounds month = Inr (a, b)" and "\<And>rows. mset (ord rows) = mset rows"
  shows "\<exists>daily monthly. daily_usage now vs t month = Inr daily \<and> monthly_usage ord now vs t month = Inr monthly
    \<and> map snd daily = map (\<lambda>d. hundredths (\<Sum>p\<leftarrow>filter (\<lambda>p. vm_by_id (pp_vm p) vs \<noteq> None) t.
        overlap (a + int d * day_ms) (a + int (Suc d) * day_ms) (pp_started p) (period_end now p))) [0..<days_of a b]
    \<and> b = a + int (length daily) * day_ms
    \<and> distinct (map fst monthly) \<and> sorted_wrt (\<lambda>x y. snd (snd y) \<le> snd (snd x)) monthly
    \<and> (\<forall>i name h. (i, name, h) \<in> set monthly \<longleftrightarrow>
         0 < powered now a b vs t i \<and> name = vm_name_of vs i \<and> h = hundredths (powered now a b vs t i))
    \<and> 2 * \<bar>(\<Sum>e\<leftarrow>daily. snd e) - (\<Sum>e\<leftarrow>monthly. snd (snd e))\<bar> \<le> int (length daily + length monthly)"
proof -
  define rows where "rows = month_rows vs a b t"
  define totals where "totals = month_totals now a b (ord rows)"
  define days where "days = map (day_total now a b rows) [0..<days_of a b]"
  define daily where "daily = map (\<lambda>d. (month @ ''-'' @ two_digits (Suc d), hundredths (day_total now a b rows d))) [0..<days_of a b]"
  define monthly where "monthly = sort_key (\<lambda>r. - snd (snd r)) (map (\<lambda>(i, ms). (i, vm_name_of vs i, hundredths ms)) totals)"
  have b: "b = a + int (days_of a b) * day_ms" by (rule whole_days [OF assms(1)])
  have m: "mset (ord rows) = mset (month_rows vs a b t)" using assms(2) by (simp add: rows_def)
  have runs: "daily_usage now vs t month = Inr daily" "monthly_usage ord now vs t month = Inr monthly"
    by (simp_all add: daily_usage_def monthly_usage_def assms(1) daily_def monthly_def rows_def totals_def)
  have snds: "map snd daily = map hundredths days" by (simp add: daily_def days_def)
  have day: "day_total now a b rows d = (\<Sum>p\<leftarrow>filter (\<lambda>p. vm_by_id (pp_vm p) vs \<noteq> None) t.
      overlap (a + int d * day_ms) (a + int (Suc d) * day_ms) (pp_started p) (period_end now p))" if "d < days_of a b" for d
    unfolding rows_def using b that by (rule day_total_all)
  have entries: "(i, name, h) \<in> set monthly \<longleftrightarrow>
      0 < powered now a b vs t i \<and> name = vm_name_of vs i \<and> h = hundredths (powered now a b vs t i)" for i name h
    using month_total_iff [OF m, of i _ now] by (force simp: monthly_def totals_def)
  have "distinct (map fst totals)"
    unfolding totals_def month_totals_meter by (rule totals_distinct) simp
  moreover have "map fst (map (\<lambda>(i, ms). (i, vm_name_of vs i, hundredths ms)) totals) = map fst totals" by (simp add: case_prod_beta)
  ultimately have dist: "distinct (map fst monthly)"
    by (simp only: monthly_def distinct_keys_sort)
  have sums: "(\<Sum>e\<leftarrow>monthly. snd (snd e)) = (\<Sum>x\<leftarrow>map snd totals. hundredths x)" "length monthly = length totals"
    by (simp_all add: monthly_def sum_keys_sort case_prod_beta comp_def)
  have "sum_list days = sum_list (map snd totals)"
    using day_totals [OF b, of now rows] month_sum [of now a b "ord rows" "[]"] sum_permuted [OF assms(2) [of rows]]
    by (simp add: days_def totals_def month_totals_meter)
  then have "2 * \<bar>(\<Sum>x\<leftarrow>days. hundredths x) - (\<Sum>x\<leftarrow>map snd totals. hundredths x)\<bar> \<le> int (length days + length totals)"
    using rounded_gap [OF rounding_sum [of days], of _ "int (length totals)"] rounding_sum [of "map snd totals"] by simp
  then have close: "2 * \<bar>(\<Sum>e\<leftarrow>daily. snd e) - (\<Sum>e\<leftarrow>monthly. snd (snd e))\<bar> \<le> int (length daily + length monthly)"
    unfolding sums snds by (simp add: daily_def days_def)
  have "map snd daily = map (\<lambda>d. hundredths (\<Sum>p\<leftarrow>filter (\<lambda>p. vm_by_id (pp_vm p) vs \<noteq> None) t.
        overlap (a + int d * day_ms) (a + int (Suc d) * day_ms) (pp_started p) (period_end now p))) [0..<days_of a b]"
    unfolding snds days_def using day by simp
  moreover have "sorted_wrt (\<lambda>x y. snd (snd y) \<le> snd (snd x)) monthly"
    unfolding monthly_def by (rule sorted_desc)
  moreover have "b = a + int (length daily) * day_ms" using b by (simp add: daily_def)
  ultimately show ?thesis using runs entries dist close by blast
qed

definition demo_periods :: "power_period list" where
  "demo_periods = [\<lparr>pp_id = ''p'', pp_vm = v_id sample_vm, pp_started = 1709164800000, pp_ended = Some 1709171200000\<rparr>]"

text \<open>A period that starts on the leap day of 2024: 6400 seconds of February.\<close>

lemma daily_and_monthly_usage_agree_witness:
  "\<exists>daily monthly. daily_usage 0 [sample_vm] demo_periods ''2024-02'' = Inr daily
     \<and> monthly_usage id 0 [sample_vm] demo_periods ''2024-02'' = Inr monthly
     \<and> length daily = 29 \<and> (v_id sample_vm, ''web'', 178) \<in> set monthly
     \<and> 2 * \<bar>(\<Sum>e\<leftarrow>daily. snd e) - (\<Sum>e\<leftarrow>monthly. snd (snd e))\<bar> \<le> int (length daily + length monthly)"
proof -
  have bounds: "month_bounds ''2024-02'' = Inr (1706745600000, 1709251200000)" by code_simp
  have ord: "mset (id rows) = mset rows" for rows :: "power_period list" by simp
  have time: "powered 0 1706745600000 1709251200000 [sample_vm] demo_periods (v_id sample_vm) = 6400000"
    "vm_name_of [sample_vm] (v_id sample_vm) = ''web''" "hundredths 6400000 = 178"
    by code_simp+
  obtain daily monthly where run: "daily_usage 0 [sample_vm] demo_periods ''2024-02'' = Inr daily"
      "monthly_usage id 0 [sample_vm] demo_periods ''2024-02'' = Inr monthly"
    and len: "(1709251200000 :: int) = 1706745600000 + int (length daily) * day_ms"
    and rows: "\<forall>i name h. (i, name, h) \<in> set monthly \<longleftrightarrow> 0 < powered 0 1706745600000 1709251200000 [sample_vm] demo_periods i
      \<and> name = vm_name_of [sample_vm] i \<and> h = hundredths (powered 0 1706745600000 1709251200000 [sample_vm] demo_periods i)"
    and close: "2 * \<bar>(\<Sum>e\<leftarrow>daily. snd e) - (\<Sum>e\<leftarrow>monthly. snd (snd e))\<bar> \<le> int (length daily + length monthly)"
    using daily_and_monthly_usage_agree [where ord = id, OF bounds ord, of 0 "[sample_vm]" demo_periods] by blast
  have "length daily = 29" using len by (simp add: day_ms_def)
  moreover have "(v_id sample_vm, ''web'', 178) \<in> set monthly"
    unfolding rows [rule_format] time by simp
  ultimately show ?thesis using run close by blast
qed

subsection \<open>Open periods\<close>

definition one_open :: "power_period list \<Rightarrow> bool" where
  "one_open t \<longleftrightarrow> (\<forall>vm. length (filter (open_of vm) t) \<le> 1)"

lemma one_open_close: "one_open t \<Longrightarrow> one_open (snd (close_power_period now vm t))"
proof -
  have "length (filter (open_of i) (table_update (open_of vm) (\<lambda>p. p\<lparr>pp_ended := Some now\<rparr>) t)) \<le> length (filter (open_of i) t)" for i
    by (induction t) (auto simp: table_update_def open_of_def)
  then show "one_open t \<Longrightarrow> one_open (snd (close_power_period now vm t))"
    unfolding one_open_def close_power_period_def snd_conv by (meson order_trans)
qed

lemma one_open_open: "one_open t \<Longrightarrow> one_open (snd (open_power_period now nid vm t))"
  by (auto simp: one_open_def open_power_period_def open_of_def Let_def split: list.split)
    (metis (no_types, lifting) length_0_conv length_sort order_refl)+

lemma one_open_reconcile: "one_open t \<Longrightarrow> one_open (snd (reconcile_vm_power now nid vm running t))"
  by (simp add: reconcile_vm_power_def Let_def one_open_open one_open_close)

end
