(* ===== verification/Drift.thy ===== *)
theory Drift
  imports Pipeline Usage Auth
begin

text \<open>
  Ground-truth drift (\<open>packages/core/src/services/drift.ts\<close>): the pure detectors, the findings and
  their lifecycle, one detection pass, and the remediations.

  The state adds findings, per-machine bookkeeping and power periods to the state of the worker.
  What a pass collects (\<open>detected\<close>, \<open>unrefined\<close>, \<open>probed\<close>) is part of the state, because it
  survives an exception inside the check of one machine. The row of the cluster listing is what
  \<open>ProxmoxClient.clusterResources\<close> builds; numbers of a configuration are integers, and a value
  that is none counts as unreadable.
\<close>

datatype drift_dimension = DimDeleted | DimHw | DimConfig | DimIp | DimGuac | DimCredential

datatype drift_severity = SevCritical | SevHigh | SevMedium | SevLow

datatype drift_status = DriftOpen | DriftAcknowledged | DriftResolved

definition CREDENTIAL_PROBE_COOLDOWN_MS :: int where
  "CREDENTIAL_PROBE_COOLDOWN_MS = 86400000"

definition MAX_CREDENTIAL_PROBES_PER_PASS :: nat where
  "MAX_CREDENTIAL_PROBES_PER_PASS = 10"

record detected =
  dt_fingerprint :: string
  dt_dimension :: drift_dimension
  dt_severity :: drift_severity
  dt_vm :: "string option"
  dt_connection :: "string option"
  dt_title :: string
  dt_summary :: string
  dt_detail :: "(string \<times> json) list"

record live_resource =
  lr_vmid :: int
  lr_node :: string
  lr_name :: "string option"
  lr_status :: string

record hw_snapshot =
  hs_cores :: "int option"
  hs_memory :: "int option"
  hs_net :: "string option"

subsection \<open>The cluster listing\<close>

record cluster_row =
  cl_vmid :: "int option"
  cl_node :: string
  cl_name :: "string option"
  cl_status :: string
  cl_type :: "string option"
  cl_template :: bool

text \<open>\<open>cl_vmid\<close> is \<open>None\<close> for a value that is no number. The flag says whether it is a template.\<close>

definition normalize_resources :: "cluster_row list \<Rightarrow> (live_resource \<times> bool) list" where
  "normalize_resources rows = List.map_filter (\<lambda>r. case cl_vmid r of
       None \<Rightarrow> None
     | Some i \<Rightarrow> if cl_type r = Some ''lxc'' then None
         else Some (\<lparr>lr_vmid = i, lr_node = cl_node r, lr_name = cl_name r, lr_status = cl_status r\<rparr>, cl_template r)) rows"

definition all_qemu_resources :: "cluster_row list \<Rightarrow> live_resource list" where
  "all_qemu_resources rows = map fst (normalize_resources rows)"

definition findable_resources :: "cluster_row list \<Rightarrow> live_resource list" where
  "findable_resources rows = map fst (filter (\<lambda>r. \<not> snd r) (normalize_resources rows))"

definition live_of :: "int \<Rightarrow> live_resource list \<Rightarrow> live_resource option" where
  "live_of vmid rs = find (\<lambda>r. lr_vmid r = vmid) rs"

text \<open>\<open>deleted / recorded \<ge> 0.2\<close> on whole numbers.\<close>

definition cluster_view_looks_degraded :: "nat \<Rightarrow> nat \<Rightarrow> bool" where
  "cluster_view_looks_degraded recorded deleted \<longleftrightarrow> \<not> recorded < 5 \<and> deleted \<ge> 3 \<and> 5 * deleted \<ge> recorded"

subsection \<open>Detectors\<close>

definition msg_deleted :: string where
  "msg_deleted = ''The record is active in ProxVM but no guest with that vmid exists anywhere in the cluster (templates excluded). The guest was deleted out-of-band. Decommission the record to drop it and its Guacamole connections.''"

definition deleted_finding :: "vm_row \<Rightarrow> detected" where
  "deleted_finding v = \<lparr>dt_fingerprint = ''deleted:'' @ v_id v, dt_dimension = DimDeleted, dt_severity = SevHigh,
     dt_vm = Some (v_id v), dt_connection = None, dt_title = ''VM \"'' @ v_name v @ ''\" no longer exists in Proxmox'',
     dt_summary = msg_deleted, dt_detail = [(''vmid'', JNum (v_vmid v)), (''lastKnownNode'', JStr (v_node v))]\<rparr>"

definition detect_deleted_vms :: "vm_row list \<Rightarrow> live_resource list \<Rightarrow> detected list" where
  "detect_deleted_vms recorded live =
     map deleted_finding (filter (\<lambda>v. v_vmid v \<notin> set (map lr_vmid live)) recorded)"

definition renamed_finding :: "vm_row \<Rightarrow> live_resource \<Rightarrow> detected" where
  "renamed_finding v lr = \<lparr>dt_fingerprint = ''config:'' @ v_id v @ '':name'', dt_dimension = DimConfig,
     dt_severity = SevLow, dt_vm = Some (v_id v), dt_connection = None,
     dt_title = ''VM \"'' @ v_name v @ ''\" was renamed out-of-band'',
     dt_summary = ''Proxmox reports the name as \"'' @ or_else (lr_name lr) ''?'' @ ''\" while ProxVM records \"'' @ v_name v
       @ ''\". Adopt to sync the record, or rename it back.'',
     dt_detail = [(''field'', JStr ''name''), (''recorded'', JStr (v_name v)), (''live'', json_opt (lr_name lr))]\<rparr>"

definition moved_finding :: "vm_row \<Rightarrow> live_resource \<Rightarrow> detected" where
  "moved_finding v lr = \<lparr>dt_fingerprint = ''config:'' @ v_id v @ '':node'', dt_dimension = DimConfig,
     dt_severity = SevMedium, dt_vm = Some (v_id v), dt_connection = None,
     dt_title = ''VM \"'' @ v_name v @ ''\" moved to node \"'' @ lr_node lr @ ''\"'',
     dt_summary = ''ProxVM records node \"'' @ v_node v @ ''\"; the guest now lives on \"'' @ lr_node lr
       @ ''\". If this was a manual Proxmox migration, adopt to sync.'',
     dt_detail = [(''field'', JStr ''node''), (''recorded'', JStr (v_node v)), (''live'', JStr (lr_node lr))]\<rparr>"

definition renamed :: "vm_row \<Rightarrow> live_resource \<Rightarrow> bool" where
  "renamed v lr \<longleftrightarrow> to_lower (or_else (lr_name lr) []) \<noteq> to_lower (v_name v) \<and> v_name v \<noteq> []"

text \<open>A \<open>Map\<close> by machine number: of two rows with one number the last counts.\<close>

definition config_of :: "live_resource list \<Rightarrow> vm_row \<Rightarrow> detected list" where
  "config_of live v = (case live_of (v_vmid v) (rev live) of
       None \<Rightarrow> []
     | Some lr \<Rightarrow> (if renamed v lr then [renamed_finding v lr] else [])
         @ (if lr_node lr \<noteq> v_node v then [moved_finding v lr] else []))"

definition detect_config_drift :: "vm_row list \<Rightarrow> live_resource list \<Rightarrow> detected list" where
  "detect_config_drift recorded live = concat (map (config_of live) recorded)"

text \<open>\<open>JSON.stringify\<close> is a parameter.\<close>

definition canon_net :: "(json \<Rightarrow> string) \<Rightarrow> json \<Rightarrow> string option" where
  "canon_net str net = (case net of JUndefined \<Rightarrow> None | JNull \<Rightarrow> None | JArr [] \<Rightarrow> None | v \<Rightarrow> Some (str v))"

text \<open>\<open>String(v)\<close> of a number, a text or null.\<close>

definition text_of :: "json \<Rightarrow> string" where
  "text_of v = (case v of JNum n \<Rightarrow> int_str n | JStr s \<Rightarrow> s | _ \<Rightarrow> ''null'')"

definition hw_finding :: "string \<Rightarrow> string \<Rightarrow> string \<times> json \<times> json \<Rightarrow> detected" where
  "hw_finding i name x = (case x of (field, recorded, live) \<Rightarrow>
     \<lparr>dt_fingerprint = ''hw:'' @ i @ '':'' @ field, dt_dimension = DimHw, dt_severity = SevMedium, dt_vm = Some i,
      dt_connection = None, dt_title = ''Hardware changed on VM \"'' @ name @ ''\" ('' @ field @ '')'',
      dt_summary = field @ '' changed out-of-band: '' @ text_of recorded @ '' -> '' @ text_of live
        @ ''. If the change was deliberate, adopt to record the new baseline; otherwise revert it in Proxmox.'',
      dt_detail = [(''field'', JStr field), (''recorded'', recorded), (''live'', live)]\<rparr>)"

definition detect_hardware_drift ::
  "(json \<Rightarrow> string) \<Rightarrow> string \<Rightarrow> string \<Rightarrow> hw_snapshot option \<Rightarrow> int \<Rightarrow> int \<Rightarrow> json \<Rightarrow> detected list" where
  "detect_hardware_drift str i name stored cores memory net = (case stored of
       None \<Rightarrow> []
     | Some h \<Rightarrow> (case (hs_cores h, hs_memory h) of
          (Some c, Some m) \<Rightarrow>
            map (hw_finding i name) (filter (\<lambda>(f, r, l). text_of r \<noteq> text_of l)
              [(''cores'', JNum c, JNum cores), (''memoryMb'', JNum m, JNum memory),
               (''net'', json_opt (hs_net h), json_opt (canon_net str net))])
        | _ \<Rightarrow> []))"

definition ip_finding :: "vm_row \<Rightarrow> string \<Rightarrow> string \<Rightarrow> detected" where
  "ip_finding v ip live = \<lparr>dt_fingerprint = ''ip:'' @ v_id v, dt_dimension = DimIp, dt_severity = SevMedium,
     dt_vm = Some (v_id v), dt_connection = None, dt_title = ''IP changed on VM \"'' @ v_name v @ ''\"'',
     dt_summary = ''The guest agent reports '' @ live @ '' while ProxVM records '' @ ip
       @ ''. Re-sync to update the record and Guacamole connection endpoints.'',
     dt_detail = [(''recorded'', JStr ip), (''live'', JStr live)]\<rparr>"

definition detect_ip_drift :: "vm_row \<Rightarrow> string option \<Rightarrow> detected list" where
  "detect_ip_drift v live =
     (if \<not> truthy (v_ip v) \<or> v_ip_static v then []
      else if \<not> truthy live then []
      else if live = v_ip v then []
      else [ip_finding v (the (v_ip v)) (the live)])"

definition msg_orphan :: string where
  "msg_orphan = ''This connection record points at a VM that no longer exists in ProxVM (deleted or decommissioned). Delete it to clean up the real Guacamole database entry.''"

definition orphan_finding :: "guac_conn_row \<Rightarrow> detected" where
  "orphan_finding c = \<lparr>dt_fingerprint = ''guac:'' @ gc_id c, dt_dimension = DimGuac, dt_severity = SevLow,
     dt_vm = Some (gc_vm c), dt_connection = Some (gc_id c),
     dt_title = ''Orphaned Guacamole connection \"'' @ gc_name c @ ''\"'', dt_summary = msg_orphan,
     dt_detail = [(''connectionRecordId'', JStr (gc_id c)), (''guacConnectionName'', JStr (gc_name c))]\<rparr>"

definition detect_orphan_guac :: "guac_conn_row list \<Rightarrow> string list \<Rightarrow> detected list" where
  "detect_orphan_guac conns known = map orphan_finding (filter (\<lambda>c. gc_vm c \<notin> set known) conns)"

subsection \<open>State\<close>

record finding =
  fd_id :: string
  fd_fingerprint :: string
  fd_dimension :: drift_dimension
  fd_severity :: drift_severity
  fd_vm :: "string option"
  fd_connection :: "string option"
  fd_title :: string
  fd_summary :: string
  fd_detail :: "(string \<times> json) list"
  fd_status :: drift_status
  fd_occurrences :: nat
  fd_first_seen :: time
  fd_last_seen :: time
  fd_ack :: "(time \<times> string) option"
  fd_resolved :: "(time \<times> string) option"
  fd_remediated :: "(time \<times> string) option"

text \<open>The pairs are the columns \<open>acknowledged_at/by\<close>, \<open>resolved_at/reason\<close>, \<open>remediated_at/by\<close>, which are written together.\<close>

record vm_state =
  vs_vm :: string
  vs_probe :: "time option"
  vs_probe_ok :: "time option"
  vs_cores :: "int option"
  vs_memory :: "int option"
  vs_net :: "string option"
  vs_snapshot :: "time option"

type_synonym unrefined = "(string \<times> drift_dimension list) list"

record pass_acc =
  pa_detected :: "detected list"
  pa_unrefined :: unrefined
  pa_probed :: "string list"

record 'w drift_state =
  ds_base :: "'w pstate"
  ds_findings :: "finding list"
  ds_states :: "vm_state list"
  ds_periods :: "power_period list"
  ds_pass :: pass_acc

datatype probe_status = Authenticated | AuthFailed | ConnectionFailed

record 'w drift_api =
  da_base :: "'w services"
  da_cluster :: "('w, cluster_row list) comp"
  da_config :: "string \<Rightarrow> int \<Rightarrow> ('w, json) comp"
  da_probe :: "string \<Rightarrow> string \<Rightarrow> string \<Rightarrow> ('w, probe_status \<times> string) comp"
  da_json :: "json \<Rightarrow> string"
  da_iso :: "time \<Rightarrow> string"

definition on_base :: "('w pstate, 'a) comp \<Rightarrow> ('w drift_state, 'a) comp" where
  "on_base m s = (case m (ds_base s) of (r, b) \<Rightarrow> (r, s\<lparr>ds_base := b\<rparr>))"

definition d_world :: "('w, 'a) comp \<Rightarrow> ('w drift_state, 'a) comp" where
  "d_world m = on_base (world_call m)"

definition d_now :: "'w drift_api \<Rightarrow> 'w drift_state \<Rightarrow> time" where
  "d_now da s = p_now (da_base da) (ds_base s)"

definition finding_of :: "string \<Rightarrow> finding list \<Rightarrow> finding option" where
  "finding_of fp t = table_find fd_fingerprint fp t"

interpretation finding_table: keyed_table fd_fingerprint finding_of
  by unfold_locales (simp add: finding_of_def)

definition finding_by_id :: "string \<Rightarrow> finding list \<Rightarrow> finding option" where
  "finding_by_id i t = table_find fd_id i t"

interpretation finding_ids: keyed_table fd_id finding_by_id
  by unfold_locales (simp add: finding_by_id_def)

definition state_of :: "string \<Rightarrow> vm_state list \<Rightarrow> vm_state option" where
  "state_of vm t = table_find vs_vm vm t"

interpretation state_table: keyed_table vs_vm state_of
  by unfold_locales (simp add: state_of_def)

definition blank_state :: "string \<Rightarrow> vm_state" where
  "blank_state vm = \<lparr>vs_vm = vm, vs_probe = None, vs_probe_ok = None, vs_cores = None, vs_memory = None, vs_net = None,
     vs_snapshot = None\<rparr>"

text \<open>The columns of a patch are those that \<open>f\<close> changes.\<close>

definition upsert_vm_state :: "string \<Rightarrow> (vm_state \<Rightarrow> vm_state) \<Rightarrow> vm_state list \<Rightarrow> vm_state list" where
  "upsert_vm_state vm f t = (case state_of vm t of
       None \<Rightarrow> t @ [f (blank_state vm)]
     | Some _ \<Rightarrow> table_update (\<lambda>r. vs_vm r = vm) f t)"

definition set_state :: "string \<Rightarrow> (vm_state \<Rightarrow> vm_state) \<Rightarrow> ('w drift_state, unit) comp" where
  "set_state vm f = modify (\<lambda>s. s\<lparr>ds_states := upsert_vm_state vm f (ds_states s)\<rparr>)"

definition mark_unrefined :: "string \<Rightarrow> drift_dimension list \<Rightarrow> unrefined \<Rightarrow> unrefined" where
  "mark_unrefined vm dims m =
     (let current = or_else (map_of m vm) [] in AList.update vm (current @ filter (\<lambda>d. d \<notin> set current) dims) m)"

subsection \<open>The lifecycle of a finding\<close>

definition live_finding :: "finding \<Rightarrow> bool" where
  "live_finding f \<longleftrightarrow> fd_status f \<noteq> DriftResolved"

definition first_finding :: "time \<Rightarrow> string \<Rightarrow> detected \<Rightarrow> finding" where
  "first_finding now nid d = \<lparr>fd_id = nid, fd_fingerprint = dt_fingerprint d, fd_dimension = dt_dimension d,
     fd_severity = dt_severity d, fd_vm = dt_vm d, fd_connection = dt_connection d, fd_title = dt_title d,
     fd_summary = dt_summary d, fd_detail = dt_detail d, fd_status = DriftOpen, fd_occurrences = 1, fd_first_seen = now,
     fd_last_seen = now, fd_ack = None, fd_resolved = None, fd_remediated = None\<rparr>"

text \<open>A resolved row opens again; an open or acknowledged one keeps its state.\<close>

definition refresh_finding :: "time \<Rightarrow> detected \<Rightarrow> finding \<Rightarrow> finding" where
  "refresh_finding now d f = f\<lparr>fd_severity := dt_severity d, fd_title := dt_title d, fd_summary := dt_summary d,
     fd_detail := dt_detail d, fd_last_seen := now,
     fd_status := (if fd_status f = DriftResolved then DriftOpen else fd_status f),
     fd_occurrences := (if fd_status f = DriftResolved then fd_occurrences f + 1 else fd_occurrences f),
     fd_resolved := (if fd_status f = DriftResolved then None else fd_resolved f)\<rparr>"

definition apply_one :: "'w drift_api \<Rightarrow> time \<Rightarrow> detected \<Rightarrow> ('w drift_state, bool) comp" where
  "apply_one da now d =
     bind (gets (\<lambda>s. finding_of (dt_fingerprint d) (ds_findings s))) (\<lambda>prior. case prior of
        None \<Rightarrow> bind (d_world (sv_new_id (da_base da))) (\<lambda>nid.
          bind (gets (\<lambda>s. finding_by_id nid (ds_findings s))) (\<lambda>taken.
          if taken \<noteq> None then throw (pg_error ''duplicate key value violates unique constraint'')
          else bind (modify (\<lambda>s. s\<lparr>ds_findings := ds_findings s @ [first_finding (d_now da s) nid d]\<rparr>)) (\<lambda>_. ret True)))
      | Some _ \<Rightarrow> bind (modify (\<lambda>s. s\<lparr>ds_findings :=
            table_update (\<lambda>f. fd_fingerprint f = dt_fingerprint d) (refresh_finding now d) (ds_findings s)\<rparr>)) (\<lambda>_. ret False))"

fun apply_each :: "'w drift_api \<Rightarrow> time \<Rightarrow> detected list \<Rightarrow> ('w drift_state, bool list) comp" where
  "apply_each da now [] = ret []"
| "apply_each da now (d # ds) =
     bind (apply_one da now d) (\<lambda>new. bind (apply_each da now ds) (\<lambda>rest. ret (new # rest)))"

record apply_opts =
  ap_exempt :: "string list"
  ap_unrefined :: unrefined
  ap_resolve_stale :: bool

definition kept_open :: "detected list \<Rightarrow> apply_opts \<Rightarrow> finding \<Rightarrow> bool" where
  "kept_open ds opts f \<longleftrightarrow> fd_fingerprint f \<in> set (map dt_fingerprint ds)
     \<or> (case fd_vm f of None \<Rightarrow> False | Some v \<Rightarrow> v \<in> set (ap_exempt opts)
          \<or> fd_dimension f \<in> set (or_else (map_of (ap_unrefined opts) v) []))"

definition stale :: "detected list \<Rightarrow> apply_opts \<Rightarrow> finding \<Rightarrow> bool" where
  "stale ds opts f \<longleftrightarrow> live_finding f \<and> \<not> kept_open ds opts f"

definition auto_resolve :: "time \<Rightarrow> finding \<Rightarrow> finding" where
  "auto_resolve now f = f\<lparr>fd_status := DriftResolved, fd_resolved := Some (now, ''auto'')\<rparr>"

record apply_counts =
  ac_created :: nat
  ac_updated :: nat
  ac_resolved :: nat
  ac_new :: "string list"

definition apply_findings :: "'w drift_api \<Rightarrow> time \<Rightarrow> detected list \<Rightarrow> apply_opts \<Rightarrow> ('w drift_state, apply_counts) comp" where
  "apply_findings da now ds opts =
     bind (apply_each da now ds) (\<lambda>news.
     let created = length (filter id news); updated = length (filter Not news);
         fps = map (dt_fingerprint \<circ> fst) (filter snd (zip ds news)) in
     if \<not> ap_resolve_stale opts
     then ret \<lparr>ac_created = created, ac_updated = updated, ac_resolved = 0, ac_new = fps\<rparr>
     else bind (gets (\<lambda>s. length (filter (stale ds opts) (ds_findings s)))) (\<lambda>n.
          bind (modify (\<lambda>s. s\<lparr>ds_findings := table_update (stale ds opts) (auto_resolve now) (ds_findings s)\<rparr>)) (\<lambda>_.
          ret \<lparr>ac_created = created, ac_updated = updated, ac_resolved = n, ac_new = fps\<rparr>)))"

definition severity_rank :: "drift_severity \<Rightarrow> nat" where
  "severity_rank s = (case s of SevCritical \<Rightarrow> 0 | SevHigh \<Rightarrow> 1 | SevMedium \<Rightarrow> 2 | SevLow \<Rightarrow> 3)"

definition list_drift_findings :: "drift_status option \<Rightarrow> int option \<Rightarrow> finding list \<Rightarrow> finding list" where
  "list_drift_findings st limit t =
     take (nat (min (max (or_else limit 200) 1) 1000))
       (sort_key (severity_rank \<circ> fd_severity) (sort_key (\<lambda>f. - fd_last_seen f)
         (filter (\<lambda>f. case st of Some x \<Rightarrow> fd_status f = x | None \<Rightarrow> live_finding f) t)))"

subsection \<open>One pass\<close>

record pass_result =
  ps_counts :: apply_counts
  ps_exempted :: nat
  ps_live :: bool
  ps_skipped :: "string option"

definition no_counts :: apply_counts where
  "no_counts = \<lparr>ac_created = 0, ac_updated = 0, ac_resolved = 0, ac_new = []\<rparr>"

definition summary_json :: "'w drift_api \<Rightarrow> time \<Rightarrow> pass_result \<Rightarrow> json" where
  "summary_json da now r = JObj [(''at'', JStr (da_iso da now)), (''created'', JNum (int (ac_created (ps_counts r)))),
     (''updated'', JNum (int (ac_updated (ps_counts r)))), (''resolved'', JNum (int (ac_resolved (ps_counts r)))),
     (''exempted'', JNum (int (ps_exempted r))), (''liveChecked'', JBool (ps_live r)), (''skipped'', json_opt (ps_skipped r))]"

definition save_summary :: "'w drift_api \<Rightarrow> time \<Rightarrow> pass_result \<Rightarrow> ('w drift_state, unit) comp" where
  "save_summary da now r = on_base (modify (\<lambda>b. b\<lparr>p_settings :=
     (p_settings b)(''drift.last_run'' := Some (da_json da (summary_json da now r)))\<rparr>))"

definition skip_pass :: "'w drift_api \<Rightarrow> time \<Rightarrow> string \<Rightarrow> ('w drift_state, pass_result) comp" where
  "skip_pass da now reason =
     (let r = \<lparr>ps_counts = no_counts, ps_exempted = 0, ps_live = False, ps_skipped = Some reason\<rparr>
      in if reason = ''disabled'' then ret r else bind (save_summary da now r) (\<lambda>_. ret r))"

definition on_pass :: "(pass_acc \<Rightarrow> pass_acc) \<Rightarrow> ('w drift_state, unit) comp" where
  "on_pass f = modify (\<lambda>s. s\<lparr>ds_pass := f (ds_pass s)\<rparr>)"

definition found :: "detected list \<Rightarrow> ('w drift_state, unit) comp" where
  "found ds = on_pass (\<lambda>a. a\<lparr>pa_detected := pa_detected a @ ds\<rparr>)"

definition unrefine :: "string \<Rightarrow> drift_dimension list \<Rightarrow> ('w drift_state, unit) comp" where
  "unrefine vm dims = on_pass (\<lambda>a. a\<lparr>pa_unrefined := mark_unrefined vm dims (pa_unrefined a)\<rparr>)"

text \<open>A positive number of cores or megabytes.\<close>

definition usable_number :: "json \<Rightarrow> int option" where
  "usable_number v = (case json_number v of JNum n \<Rightarrow> if 0 < n then Some n else None | _ \<Rightarrow> None)"

definition set_hardware :: "'w drift_api \<Rightarrow> time \<Rightarrow> int \<Rightarrow> int \<Rightarrow> json \<Rightarrow> vm_state \<Rightarrow> vm_state" where
  "set_hardware da now cores memory net r = r\<lparr>vs_cores := Some cores, vs_memory := Some memory,
     vs_net := canon_net (da_json da) net, vs_snapshot := Some now\<rparr>"

definition snapshot_of_state :: "vm_state \<Rightarrow> hw_snapshot" where
  "snapshot_of_state r = \<lparr>hs_cores = vs_cores r, hs_memory = vs_memory r, hs_net = vs_net r\<rparr>"

definition check_hardware :: "'w drift_api \<Rightarrow> time \<Rightarrow> vm_row \<Rightarrow> live_resource \<Rightarrow> ('w drift_state, unit) comp" where
  "check_hardware da now v lr =
     bind (d_world (sv_client (da_base da))) (\<lambda>_.
     bind (d_world (da_config da (lr_node lr) (v_vmid v))) (\<lambda>cfg.
     bind (gets (\<lambda>s. state_of (v_id v) (ds_states s))) (\<lambda>st.
     case (usable_number (json_field cfg ''cores''), usable_number (json_field cfg ''memory'')) of
        (Some cores, Some memory) \<Rightarrow>
          (let ds = detect_hardware_drift (da_json da) (v_id v) (v_name v) (map_option snapshot_of_state st)
                cores memory (json_field cfg ''net'')
           in bind (found ds) (\<lambda>_.
              do_when (ds = []) (set_state (v_id v) (set_hardware da now cores memory (json_field cfg ''net'')))))
      | _ \<Rightarrow> unrefine (v_id v) [DimHw])))"

definition both_running :: "vm_row \<Rightarrow> live_resource \<Rightarrow> bool" where
  "both_running v lr \<longleftrightarrow> v_status v = VmRunning \<and> lr_status lr = ''running''"

definition check_ip :: "'w drift_api \<Rightarrow> vm_row \<Rightarrow> live_resource \<Rightarrow> ('w drift_state, unit) comp" where
  "check_ip da v lr =
     (if \<not> both_running v lr then unrefine (v_id v) [DimIp]
      else bind (d_world (sv_client (da_base da))) (\<lambda>_.
           bind (d_world (sv_guest_ips (da_base da) (lr_node lr) (v_vmid v))) (\<lambda>agent.
           case (case agent of None \<Rightarrow> None | Some a \<Rightarrow> select_usable_ipv4 (ag_ipv4s a)) of
              None \<Rightarrow> unrefine (v_id v) [DimIp]
            | Some ip \<Rightarrow> found (detect_ip_drift v (Some ip)))))"

definition stamp_probe :: "time \<Rightarrow> time option \<Rightarrow> vm_state \<Rightarrow> vm_state" where
  "stamp_probe now ok r = r\<lparr>vs_probe := Some now, vs_probe_ok := ok\<rparr>"

definition credential_finding :: "vm_row \<Rightarrow> string \<Rightarrow> string \<Rightarrow> detected" where
  "credential_finding v username detail = \<lparr>dt_fingerprint = ''credential:'' @ v_id v, dt_dimension = DimCredential,
     dt_severity = SevHigh, dt_vm = Some (v_id v), dt_connection = None,
     dt_title = ''Credential rejected on VM \"'' @ v_name v @ ''\"'',
     dt_summary = ''SSH authentication at '' @ the (v_ip v) @ '' was REJECTED for \"'' @ username
       @ ''\" (not frozen/transport issue): the stored credential no longer works and remote sessions will fail. Rotate the credential, then verify.'',
     dt_detail = [(''mechanism'', JStr ''ssh''), (''host'', JStr (the (v_ip v))), (''probeDetail'', JStr (take 200 detail))]\<rparr>"

text \<open>The findings of the probe, and whether it could decide.\<close>

definition probe_outcome ::
  "'w drift_api \<Rightarrow> vm_row \<Rightarrow> cred_row \<Rightarrow> time \<Rightarrow> ('w drift_state, detected list \<times> bool) comp" where
  "probe_outcome da v cred now =
     bind (lift_res (sv_decrypt (da_base da) (cr_cipher cred))) (\<lambda>pw.
     bind (d_world (da_probe da (the (v_ip v)) (cr_username cred) pw)) (\<lambda>r. case fst r of
        Authenticated \<Rightarrow>
          bind (on_base (on_creds (da_base da) (\<lambda>t. mark_verified t (v_id v)))) (\<lambda>_.
          bind (set_state (v_id v) (stamp_probe now (Some now))) (\<lambda>_. ret ([], True)))
      | AuthFailed \<Rightarrow> bind (set_state (v_id v) (stamp_probe now None)) (\<lambda>_.
          ret ([credential_finding v (cr_username cred) (snd r)], True))
      | ConnectionFailed \<Rightarrow> bind (set_state (v_id v) (stamp_probe now None)) (\<lambda>_. ret ([], False))))"

definition probe_credential :: "'w drift_api \<Rightarrow> vm_row \<Rightarrow> time \<Rightarrow> ('w drift_state, detected list \<times> bool) comp" where
  "probe_credential da v now =
     bind (gets (\<lambda>s. cred_of (v_id v) (p_creds (ds_base s)))) (\<lambda>c. case c of
        None \<Rightarrow> ret ([], True)
      | Some cred \<Rightarrow> try_catch (probe_outcome da v cred now)
          (\<lambda>e. bind (set_state (v_id v) (stamp_probe now None)) (\<lambda>_. ret ([], False))))"

definition check_credential :: "'w drift_api \<Rightarrow> time \<Rightarrow> vm_row \<Rightarrow> live_resource \<Rightarrow> ('w drift_state, unit) comp" where
  "check_credential da now v lr =
     (if \<not> (both_running v lr \<and> v_os_type v = Some ''linux'' \<and> truthy (v_ip v)) then unrefine (v_id v) [DimCredential]
      else bind (gets (\<lambda>s. case state_of (v_id v) (ds_states s) of None \<Rightarrow> 0 | Some r \<Rightarrow> or_else (vs_probe r) 0)) (\<lambda>last_probe.
           bind (gets (\<lambda>s. length (pa_probed (ds_pass s)))) (\<lambda>n.
           if now - last_probe < CREDENTIAL_PROBE_COOLDOWN_MS then unrefine (v_id v) [DimCredential]
           else if n < MAX_CREDENTIAL_PROBES_PER_PASS
           then bind (on_pass (\<lambda>a. a\<lparr>pa_probed := pa_probed a @ [v_id v]\<rparr>)) (\<lambda>_.
                bind (probe_credential da v now) (\<lambda>r.
                bind (found (fst r)) (\<lambda>_. do_when (\<not> snd r) (unrefine (v_id v) [DimCredential]))))
           else unrefine (v_id v) [DimCredential])))"

definition per_vm :: "drift_dimension list" where
  "per_vm = [DimHw, DimIp, DimCredential]"

definition check_vm :: "'w drift_api \<Rightarrow> time \<Rightarrow> live_resource list \<Rightarrow> vm_row \<Rightarrow> ('w drift_state, unit) comp" where
  "check_vm da now resources v = (case live_of (v_vmid v) resources of
       None \<Rightarrow> unrefine (v_id v) per_vm
     | Some lr \<Rightarrow> try_catch (bind (check_hardware da now v lr) (\<lambda>_. bind (check_ip da v lr) (\<lambda>_. check_credential da now v lr)))
         (\<lambda>e. unrefine (v_id v) per_vm))"

definition check_deletions :: "vm_row list \<Rightarrow> live_resource list \<Rightarrow> ('w drift_state, unit) comp" where
  "check_deletions active live =
     (let gone = detect_deleted_vms active live in
      if cluster_view_looks_degraded (length active) (length gone) then for_each active (\<lambda>v. unrefine (v_id v) per_vm)
      else found gone)"

definition enabled_setting :: "settings \<Rightarrow> bool" where
  "enabled_setting st \<longleftrightarrow> (case st ''drift.enabled'' of None \<Rightarrow> False | Some v \<Rightarrow> to_lower (trim v) = ''true'')"

definition checked_pass :: "'w drift_api \<Rightarrow> time \<Rightarrow> cluster_row list \<Rightarrow> ('w drift_state, pass_result) comp" where
  "checked_pass da now rows =
     bind (gets (\<lambda>s. list_vms (reg (p_app (ds_base s))) False)) (\<lambda>recorded.
     bind (gets (\<lambda>s. active_job_vm_ids (p_ledger (ds_base s)))) (\<lambda>exempt.
     let active = filter (\<lambda>v. v_id v \<notin> set exempt) recorded;
         exempted = length (filter (\<lambda>v. v_id v \<in> set exempt) recorded) in
     bind (on_pass (\<lambda>_. \<lparr>pa_detected = detect_config_drift active (findable_resources rows), pa_unrefined = [], pa_probed = []\<rparr>)) (\<lambda>_.
     bind (check_deletions active (all_qemu_resources rows)) (\<lambda>_.
     bind (for_each active (check_vm da now (findable_resources rows))) (\<lambda>_.
     bind (gets (\<lambda>s. gs_conns (p_guac (ds_base s)))) (\<lambda>conns.
     bind (found (detect_orphan_guac conns (map v_id recorded))) (\<lambda>_.
     bind (gets ds_pass) (\<lambda>acc.
     bind (apply_findings da now (pa_detected acc) \<lparr>ap_exempt = exempt, ap_unrefined = pa_unrefined acc, ap_resolve_stale = True\<rparr>) (\<lambda>counts.
     let r = \<lparr>ps_counts = counts, ps_exempted = exempted, ps_live = True, ps_skipped = None\<rparr> in
     bind (save_summary da now r) (\<lambda>_. ret r))))))))))"

definition run_drift_pass :: "'w drift_api \<Rightarrow> time \<Rightarrow> ('w drift_state, pass_result) comp" where
  "run_drift_pass da now =
     bind (gets (\<lambda>s. enabled_setting (p_settings (ds_base s)))) (\<lambda>on.
     if \<not> on then skip_pass da now ''disabled''
     else bind (try_catch (bind (d_world (sv_client (da_base da))) (\<lambda>_. bind (d_world (da_cluster da)) (\<lambda>rows. ret (Inr rows))))
            (\<lambda>e. ret (Inl e))) (\<lambda>r. case r of
          Inl e \<Rightarrow> skip_pass da now (if err_code e = CONFIGURATION_ERROR then ''unconfigured'' else ''proxmox_down'')
        | Inr rows \<Rightarrow> checked_pass da now rows))"

subsection \<open>The summary of the last pass\<close>

record last_run =
  lr_at :: string
  lr_created :: json
  lr_updated :: json
  lr_resolved :: json
  lr_exempted :: json
  lr_live :: bool
  lr_skipped :: "string option"

definition count_field :: "json \<Rightarrow> string \<Rightarrow> json" where
  "count_field raw k = (case json_field raw k of JUndefined \<Rightarrow> JNum 0 | JNull \<Rightarrow> JNum 0 | v \<Rightarrow> json_number v)"

definition get_drift_last_run :: "(string \<Rightarrow> json option) \<Rightarrow> settings \<Rightarrow> last_run option" where
  "get_drift_last_run parse st = (case (case st ''drift.last_run'' of None \<Rightarrow> None | Some s \<Rightarrow> if s = [] then None else parse s) of
       None \<Rightarrow> None
     | Some raw \<Rightarrow> (case json_field raw ''at'' of
          JStr t \<Rightarrow> Some \<lparr>lr_at = t, lr_created = count_field raw ''created'', lr_updated = count_field raw ''updated'',
            lr_resolved = count_field raw ''resolved'', lr_exempted = count_field raw ''exempted'',
            lr_live = (json_field raw ''liveChecked'' = JBool True),
            lr_skipped = (case json_field raw ''skipped'' of JStr s \<Rightarrow> Some s | _ \<Rightarrow> None)\<rparr>
        | _ \<Rightarrow> None))"

subsection \<open>Remediation\<close>

text \<open>The actor is a user id and a name; \<open>apps/api/src/routes/drift.ts\<close> fills them into every audit event.\<close>

definition drift_event :: "'w drift_api \<Rightarrow> string \<times> string \<Rightarrow> string \<Rightarrow> (string \<times> json) list \<Rightarrow> ('w drift_state, unit) comp" where
  "drift_event da actor ev detail = on_base (modify (\<lambda>b. b\<lparr>p_audit := audit_record (p_now (da_base da) b)
     \<lparr>au_event = ev, au_actor = Some (fst actor), au_actor_name = Some (snd actor), au_vm = None, au_job = None,
      au_ip = None, au_detail = Some (JObj detail)\<rparr> (p_audit b)\<rparr>))"

definition resolve_finding :: "time \<Rightarrow> string \<Rightarrow> finding \<Rightarrow> finding" where
  "resolve_finding now actor f = f\<lparr>fd_status := DriftResolved, fd_resolved := Some (now, ''manual''),
     fd_remediated := Some (now, actor)\<rparr>"

definition set_resolved :: "time \<Rightarrow> string \<times> string \<Rightarrow> finding \<Rightarrow> ('w drift_state, unit) comp" where
  "set_resolved now actor f = modify (\<lambda>s. s\<lparr>ds_findings :=
     table_update (\<lambda>x. fd_fingerprint x = fd_fingerprint f) (resolve_finding now (fst actor)) (ds_findings s)\<rparr>)"

definition msg_active_job :: string where
  "msg_active_job = ''VM has an active provisioning job; drift remediation is refused until it finishes''"

definition assert_no_active_job :: "string \<Rightarrow> ('w drift_state, unit) comp" where
  "assert_no_active_job vm = bind (gets (\<lambda>s. active_jobs_for_vm (p_ledger (ds_base s)) vm)) (\<lambda>js.
     if js \<noteq> [] then throw (err_conflict msg_active_job) else ret ())"

definition active_finding :: "string \<Rightarrow> ('w drift_state, finding) comp" where
  "active_finding i = bind (gets (\<lambda>s. finding_by_id i (ds_findings s))) (\<lambda>r. case r of
        None \<Rightarrow> throw (err_not_found ''Drift finding not found'')
      | Some f \<Rightarrow> if fd_status f = DriftResolved then throw (err_conflict ''Finding already resolved'') else ret f)"

definition vm_record :: "string \<Rightarrow> ('w drift_state, vm_row) comp" where
  "vm_record i s = (require_by_id (reg (p_app (ds_base s))) i, s)"

definition msg_reappeared :: string where
  "msg_reappeared = ''A guest with this vmid exists again; the finding is stale (auto-resolves on the next pass)''"

definition msg_incomplete :: "nat \<Rightarrow> nat \<Rightarrow> string" where
  "msg_incomplete vanished tracked = ''The Proxmox cluster view looks incomplete ('' @ nat_str vanished @ '' of '' @ nat_str tracked
     @ '' tracked guests are missing); decommission is refused until the cluster view is whole again''"

definition vanished_from :: "vm_row list \<Rightarrow> live_resource list \<Rightarrow> nat" where
  "vanished_from tracked guests = length (filter (\<lambda>t. v_vmid t \<notin> set (map lr_vmid guests)) tracked)"

text \<open>The last part of a decommission: from here on nothing refuses any more.\<close>

definition tear_down :: "'w drift_api \<Rightarrow> vm_row \<Rightarrow> ('w drift_state, bool \<times> nat) comp" where
  "tear_down da v =
     bind (try_catch (bind (d_world (sv_guac_db (da_base da))) (\<lambda>_.
         bind (on_base (on_guac (delete_vm_resources (v_id v)))) (\<lambda>_. ret True))) (\<lambda>e. ret False)) (\<lambda>cleaned.
     bind (on_base (modify (\<lambda>b. b\<lparr>p_creds := cred_delete (v_id v) (p_creds b)\<rparr>))) (\<lambda>_.
     bind (modify (\<lambda>s. s\<lparr>ds_periods := snd (close_power_period (d_now da s) (v_id v) (ds_periods s))\<rparr>)) (\<lambda>_.
     bind (\<lambda>s. on_base (on_reg (modify (soft_delete (d_now da s) (v_id v)))) s) (\<lambda>_.
     bind (on_base (on_reg (\<lambda>d. case revoke_all_access (v_id v) (iam d) of (n, i) \<Rightarrow> (Inr n, d\<lparr>iam := i\<rparr>)))) (\<lambda>n.
     ret (cleaned, n))))))"

definition decommission_drift_vm :: "'w drift_api \<Rightarrow> string \<Rightarrow> string \<times> string \<Rightarrow> time \<Rightarrow> ('w drift_state, unit) comp" where
  "decommission_drift_vm da i actor now =
     bind (active_finding i) (\<lambda>f.
     if fd_dimension f \<noteq> DimDeleted \<or> \<not> truthy (fd_vm f)
     then throw (err_conflict ''Decommission applies only to deleted-VM findings'')
     else bind (gets (\<lambda>s. find_by_id (reg (p_app (ds_base s))) (the (fd_vm f)))) (\<lambda>found_vm. case found_vm of
        None \<Rightarrow> throw (err_not_found ''VM record not found'')
      | Some v \<Rightarrow>
     bind (assert_no_active_job (v_id v)) (\<lambda>_.
     bind (d_world (sv_client (da_base da))) (\<lambda>_.
     bind (d_world (da_cluster da)) (\<lambda>rows.
     let guests = all_qemu_resources rows in
     if v_vmid v \<in> set (map lr_vmid guests) then throw (err_conflict msg_reappeared)
     else bind (gets (\<lambda>s. list_vms (reg (p_app (ds_base s))) False)) (\<lambda>tracked.
     if cluster_view_looks_degraded (length tracked) (vanished_from tracked guests)
     then throw (err_conflict (msg_incomplete (vanished_from tracked guests) (length tracked)))
     else bind (tear_down da v) (\<lambda>r.
          bind (set_resolved now actor f) (\<lambda>_.
          drift_event da actor ''DRIFT_REMEDIATED'' [(''action'', JStr ''decommission''), (''findingId'', JStr (fd_id f)),
            (''fingerprint'', JStr (fd_fingerprint f)), (''vmId'', JStr (v_id v)), (''vmName'', JStr (v_name v)),
            (''vmid'', JNum (v_vmid v)), (''guacCleanupAttempted'', JBool (fst r)), (''revokedGrants'', JNum (int (snd r)))]))))))))"

definition dimension_str :: "drift_dimension \<Rightarrow> string" where
  "dimension_str d = (case d of DimDeleted \<Rightarrow> ''deleted'' | DimHw \<Rightarrow> ''hw'' | DimConfig \<Rightarrow> ''config'' | DimIp \<Rightarrow> ''ip''
     | DimGuac \<Rightarrow> ''guac'' | DimCredential \<Rightarrow> ''credential'')"

definition adopt_config :: "finding \<Rightarrow> vm_row \<Rightarrow> live_resource \<Rightarrow> ('w drift_state, unit) comp" where
  "adopt_config f v lr =
     (let field = (case map_of (fd_detail f) ''field'' of Some (JStr s) \<Rightarrow> s | _ \<Rightarrow> []); name = or_else (lr_name lr) [] in
      if field = ''name''
      then (if name = [] then throw (err_conflict ''Proxmox reports no name for this guest; there is nothing to adopt'')
            else do_when (to_lower name \<noteq> to_lower (v_name v)) (on_base (on_reg (modify (update_name (v_id v) name)))))
      else if field = ''node'' then do_when (lr_node lr \<noteq> v_node v) (on_base (on_reg (update_node (v_id v) (lr_node lr))))
      else throw (err_validation (''Unknown config drift field \"'' @ field @ ''\"'')))"

definition bump_hardware_snapshot ::
  "'w drift_api \<Rightarrow> string \<Rightarrow> json \<Rightarrow> json \<Rightarrow> json \<Rightarrow> ('w drift_state, bool) comp" where
  "bump_hardware_snapshot da vm cores memory net = (case (usable_number cores, usable_number memory) of
       (Some c, Some m) \<Rightarrow> bind (gets (d_now da)) (\<lambda>now. bind (set_state vm (set_hardware da now c m net)) (\<lambda>_. ret True))
     | _ \<Rightarrow> ret False)"

definition msg_partial_hardware :: string where
  "msg_partial_hardware = ''Proxmox reported an incomplete hardware configuration for this guest; refusing to record it as the baseline''"

definition adopt_hardware :: "'w drift_api \<Rightarrow> vm_row \<Rightarrow> live_resource \<Rightarrow> ('w drift_state, unit) comp" where
  "adopt_hardware da v lr =
     bind (d_world (da_config da (lr_node lr) (v_vmid v))) (\<lambda>cfg.
     bind (bump_hardware_snapshot da (v_id v) (json_field cfg ''cores'') (json_field cfg ''memory'') (json_field cfg ''net'')) (\<lambda>wrote.
     if wrote then ret () else throw (err_conflict msg_partial_hardware)))"

definition adopt_drift_finding :: "'w drift_api \<Rightarrow> string \<Rightarrow> string \<times> string \<Rightarrow> time \<Rightarrow> ('w drift_state, unit) comp" where
  "adopt_drift_finding da i actor now =
     bind (active_finding i) (\<lambda>f.
     if \<not> truthy (fd_vm f) then throw (err_conflict ''Finding has no VM target'')
     else if fd_dimension f \<noteq> DimConfig \<and> fd_dimension f \<noteq> DimHw
     then throw (err_conflict ''Adopt applies to config and hardware findings'')
     else bind (vm_record (the (fd_vm f))) (\<lambda>v.
     bind (assert_no_active_job (v_id v)) (\<lambda>_.
     bind (d_world (sv_client (da_base da))) (\<lambda>_.
     bind (d_world (da_cluster da)) (\<lambda>rows. case live_of (v_vmid v) (findable_resources rows) of
        None \<Rightarrow> throw (err_conflict ''The guest is no longer present in Proxmox; the finding is stale'')
      | Some lr \<Rightarrow>
     bind (if fd_dimension f = DimConfig then adopt_config f v lr else adopt_hardware da v lr) (\<lambda>_.
     bind (set_resolved now actor f) (\<lambda>_.
     drift_event da actor ''DRIFT_REMEDIATED'' [(''action'', JStr ''adopt''), (''findingId'', JStr (fd_id f)),
       (''fingerprint'', JStr (fd_fingerprint f)), (''dimension'', JStr (dimension_str (fd_dimension f))),
       (''vmId'', JStr (v_id v)), (''vmName'', JStr (v_name v))])))))))"

definition msg_static :: string where
  "msg_static = ''This VM has a statically assigned address; re-syncing would overwrite the operator's assignment''"

definition live_node :: "'w drift_api \<Rightarrow> vm_row \<Rightarrow> ('w drift_state, string) comp" where
  "live_node da v = try_catch (bind (d_world (da_cluster da)) (\<lambda>rows.
       ret (case live_of (v_vmid v) (findable_resources rows) of None \<Rightarrow> v_node v | Some lr \<Rightarrow> lr_node lr)))
     (\<lambda>e. ret (v_node v))"

definition write_ip :: "'w drift_api \<Rightarrow> vm_row \<Rightarrow> string \<Rightarrow> ('w drift_state, nat) comp" where
  "write_ip da v ip =
     bind (on_base (on_reg (update_ip (v_id v) (Some ip) (Some (v_ip_static v))))) (\<lambda>_.
     bind (gets (\<lambda>s. list_connection_records (p_guac (ds_base s)) (v_id v))) (\<lambda>records.
     if records = [] then ret 0
     else bind (d_world (sv_guac_db (da_base da))) (\<lambda>_. on_base (on_guac (update_connection_hostname (v_id v) ip)))))"

definition resync_event :: "finding \<Rightarrow> vm_row \<Rightarrow> (string \<times> json) list" where
  "resync_event f v = [(''action'', JStr ''resync_ip''), (''findingId'', JStr (fd_id f)), (''vmId'', JStr (v_id v)),
     (''vmName'', JStr (v_name v))]"

definition resync_drift_ip :: "'w drift_api \<Rightarrow> string \<Rightarrow> string \<times> string \<Rightarrow> time \<Rightarrow> ('w drift_state, string) comp" where
  "resync_drift_ip da i actor now =
     bind (active_finding i) (\<lambda>f.
     if fd_dimension f \<noteq> DimIp \<or> \<not> truthy (fd_vm f) then throw (err_conflict ''IP re-sync applies only to IP findings'')
     else bind (vm_record (the (fd_vm f))) (\<lambda>v.
     bind (assert_no_active_job (v_id v)) (\<lambda>_.
     if v_ip_static v then throw (err_conflict msg_static)
     else bind (d_world (sv_client (da_base da))) (\<lambda>_.
     bind (live_node da v) (\<lambda>node.
     bind (d_world (sv_guest_ips (da_base da) node (v_vmid v))) (\<lambda>agent. case agent of
        None \<Rightarrow> throw (err_external ''Guest'' ''Guest agent is not reachable; cannot re-sync the IP (stopping nothing, changing nothing)'')
      | Some a \<Rightarrow> (case select_usable_ipv4 (ag_ipv4s a) of
          None \<Rightarrow> throw (err_external ''Guest'' ''The guest agent reported no usable IPv4 address; nothing to re-sync'')
        | Some ip \<Rightarrow>
            if Some ip = v_ip v
            then bind (set_resolved now actor f) (\<lambda>_.
                 bind (drift_event da actor ''DRIFT_REMEDIATED'' (resync_event f v @ [(''note'', JStr ''already_correct'')])) (\<lambda>_. ret ip))
            else bind (write_ip da v ip) (\<lambda>n.
                 bind (set_resolved now actor f) (\<lambda>_.
                 bind (drift_event da actor ''DRIFT_REMEDIATED'' (resync_event f v @
                   [(''from'', json_opt (v_ip v)), (''to'', JStr ip), (''guacEndpointsUpdated'', JNum (int n))])) (\<lambda>_. ret ip))))))))))"

definition delete_orphan_drift_connection :: "'w drift_api \<Rightarrow> string \<Rightarrow> string \<times> string \<Rightarrow> time \<Rightarrow> ('w drift_state, unit) comp" where
  "delete_orphan_drift_connection da i actor now =
     bind (active_finding i) (\<lambda>f.
     if fd_dimension f \<noteq> DimGuac \<or> \<not> truthy (fd_connection f)
     then throw (err_conflict ''Orphan deletion applies only to Guacamole orphan findings'')
     else bind (gets (\<lambda>s. if truthy (fd_vm f) then find_by_id (reg (p_app (ds_base s))) (the (fd_vm f)) else None)) (\<lambda>v.
     if v \<noteq> None then throw (err_conflict ''The VM record is live again; this orphan finding is stale (auto-resolves on the next pass)'')
     else bind (d_world (sv_guac_db (da_base da))) (\<lambda>_.
     bind (on_base (on_guac (\<lambda>g. case delete_connection_record (the (fd_connection f)) g of (d, g') \<Rightarrow> (Inr d, g')))) (\<lambda>gone.
     if \<not> gone then throw (err_not_found ''Connection record already removed (auto-resolves on the next pass)'')
     else bind (set_resolved now actor f) (\<lambda>_.
          drift_event da actor ''DRIFT_REMEDIATED'' [(''action'', JStr ''delete_orphan_connection''), (''findingId'', JStr (fd_id f)),
            (''connectionRecordId'', json_opt (fd_connection f)), (''vmId'', json_opt (fd_vm f))])))))"

definition acknowledge :: "time \<Rightarrow> string \<Rightarrow> finding \<Rightarrow> finding" where
  "acknowledge now actor f = f\<lparr>fd_status := DriftAcknowledged, fd_ack := Some (now, actor)\<rparr>"

definition acknowledge_drift_finding :: "'w drift_api \<Rightarrow> string \<Rightarrow> string \<times> string \<Rightarrow> time \<Rightarrow> ('w drift_state, unit) comp" where
  "acknowledge_drift_finding da i actor now =
     bind (active_finding i) (\<lambda>f.
     if fd_status f = DriftAcknowledged then ret ()
     else bind (modify (\<lambda>s. s\<lparr>ds_findings := table_update (\<lambda>x. fd_id x = fd_id f) (acknowledge now (fst actor)) (ds_findings s)\<rparr>)) (\<lambda>_.
          drift_event da actor ''DRIFT_FINDING_ACKNOWLEDGED'' [(''findingId'', JStr (fd_id f)),
            (''fingerprint'', JStr (fd_fingerprint f)), (''dimension'', JStr (dimension_str (fd_dimension f))),
            (''vmId'', json_opt (fd_vm f))]))"

subsection \<open>The route\<close>

text \<open>\<open>apps/api/src/routes/drift.ts\<close>; \<open>user\<close> is the account the session of the request stands for.\<close>

datatype remediation = Adopt | ResyncIp | Decommission | DeleteOrphan

definition permitted :: "'w drift_api \<Rightarrow> user_with_roles option \<Rightarrow> string \<Rightarrow> ('w drift_state, user_with_roles) comp" where
  "permitted da user p s = (require_permission (p_app (ds_base s)) (d_now da s) user [p], s)"

definition assert_finding_visible :: "'w drift_api \<Rightarrow> user_with_roles \<Rightarrow> string \<Rightarrow> ('w drift_state, unit) comp" where
  "assert_finding_visible da u i =
     bind (gets (\<lambda>s. finding_by_id i (ds_findings s))) (\<lambda>r. case r of
        None \<Rightarrow> throw (err_not_found ''Drift finding not found'')
      | Some f \<Rightarrow> bind (gets (\<lambda>s.
            if truthy (fd_vm f)
            then fst (visible_to (reg (p_app (ds_base s))) (d_now da s) (u_id u) (map role_name_of (u_roles u)) (the (fd_vm f)))
            else ADMIN \<in> set (u_roles u) \<or> OPERATOR \<in> set (u_roles u))) (\<lambda>ok.
          if ok then ret () else throw (err_not_found ''Drift finding not found'')))"

definition target_vm :: "string \<Rightarrow> ('w drift_state, vm_row) comp" where
  "target_vm i = bind (gets (\<lambda>s. finding_by_id i (ds_findings s))) (\<lambda>r.
     case (case r of None \<Rightarrow> None | Some f \<Rightarrow> if truthy (fd_vm f) then fd_vm f else None) of
        None \<Rightarrow> throw (err_not_found ''Drift finding not found'')
      | Some vm \<Rightarrow> vm_record vm)"

definition remediate_route ::
  "'w drift_api \<Rightarrow> user_with_roles option \<Rightarrow> string \<Rightarrow> remediation \<Rightarrow> string option \<Rightarrow> ('w drift_state, unit) comp" where
  "remediate_route da user i action confirm =
     bind (permitted da user ''drift.manage'') (\<lambda>u.
     bind (assert_finding_visible da u i) (\<lambda>_.
     bind (gets (d_now da)) (\<lambda>now.
     let actor = (u_id u, u_username u) in case action of
        Adopt \<Rightarrow> adopt_drift_finding da i actor now
      | ResyncIp \<Rightarrow> bind (resync_drift_ip da i actor now) (\<lambda>_. ret ())
      | DeleteOrphan \<Rightarrow> delete_orphan_drift_connection da i actor now
      | Decommission \<Rightarrow>
          bind (permitted da user ''vm.delete'') (\<lambda>_.
          bind (permitted da user ''guac.manage'') (\<lambda>_.
          bind (target_vm i) (\<lambda>v.
          if confirm \<noteq> Some (''DECOMMISSION '' @ v_name v)
          then throw (err_validation (''Confirmation text must be exactly: DECOMMISSION '' @ v_name v))
          else decommission_drift_vm da i actor now))))))"

definition acknowledge_route :: "'w drift_api \<Rightarrow> user_with_roles option \<Rightarrow> string \<Rightarrow> ('w drift_state, unit) comp" where
  "acknowledge_route da user i =
     bind (permitted da user ''drift.manage'') (\<lambda>u.
     bind (assert_finding_visible da u i) (\<lambda>_.
     bind (gets (d_now da)) (\<lambda>now. acknowledge_drift_finding da i (u_id u, u_username u) now)))"

end
