(* ===== verification/Drift_Demo.thy ===== *)
theory Drift_Demo
  imports Drift Worker_Demo
begin

text \<open>
  Five recorded machines, one finding, and a Proxmox that knows no guest: the instance on which
  the properties of drift are exercised.
\<close>

definition recorded_vm :: "string \<Rightarrow> int \<Rightarrow> vm_row" where
  "recorded_vm i n = \<lparr>v_id = i, v_vmid = n, v_node = ''pve'', v_name = i, v_status = VmRunning, v_os_type = None,
     v_os_name = None, v_ip = None, v_created_by = None, v_template = None, v_created_at = 0, v_deleted_at = None,
     v_privacy = False, v_isolated = False, v_class = ''server'', v_start_on_boot = False, v_ip_static = False\<rparr>"

definition demo_finding :: finding where
  "demo_finding = \<lparr>fd_id = ''f1'', fd_fingerprint = ''ip:v1'', fd_dimension = DimIp, fd_severity = SevMedium,
     fd_vm = Some ''v1'', fd_connection = None, fd_title = [], fd_summary = [], fd_detail = [], fd_status = DriftOpen,
     fd_occurrences = 1, fd_first_seen = 0, fd_last_seen = 0, fd_ack = None, fd_resolved = None, fd_remediated = None\<rparr>"

definition gone_finding :: finding where
  "gone_finding = demo_finding\<lparr>fd_id := ''f2'', fd_fingerprint := ''deleted:v1'', fd_dimension := DimDeleted\<rparr>"

definition demo_drift_api :: "int drift_api" where
  "demo_drift_api = \<lparr>da_base = demo_services True, da_cluster = ret [], da_config = (\<lambda>n v. ret JNull),
     da_probe = (\<lambda>h u p. ret (ConnectionFailed, [])), da_json = (\<lambda>j. []), da_iso = (\<lambda>t. [])\<rparr>"

definition demo_fleet :: "vm_row list" where
  "demo_fleet = [recorded_vm ''v1'' 101, recorded_vm ''v2'' 102, recorded_vm ''v3'' 103, recorded_vm ''v4'' 104,
     recorded_vm ''v5'' 105]"

definition demo_drift :: "finding list \<Rightarrow> int drift_state" where
  "demo_drift fs = \<lparr>ds_base = (demo_state True)\<lparr>p_app := (p_app (demo_state True))\<lparr>reg := (reg (p_app (demo_state True)))
       \<lparr>vms := demo_fleet\<rparr>\<rparr>\<rparr>, ds_findings = fs, ds_states = [], ds_periods = [],
     ds_pass = \<lparr>pa_detected = [], pa_unrefined = [], pa_probed = []\<rparr>\<rparr>"

end
