(* ===== verification/Drift_Props.thy ===== *)
theory Drift_Props
  imports Drift_Demo
begin

text \<open>
  What holds of drift findings: the lifecycle of a row over any history, and the exact effect of
  applying a detection.
\<close>

subsection \<open>Rows\<close>

definition finding_ok :: "finding \<Rightarrow> bool" where
  "finding_ok f \<longleftrightarrow> (fd_resolved f \<noteq> None \<longleftrightarrow> fd_status f = DriftResolved) \<and> 1 \<le> fd_occurrences f
     \<and> (fd_status f = DriftAcknowledged \<longrightarrow> fd_ack f \<noteq> None)"

definition findings_ok :: "finding list \<Rightarrow> bool" where
  "findings_ok t \<longleftrightarrow> finding_table.unique t \<and> finding_ids.unique t \<and> (\<forall>f \<in> set t. finding_ok f)"

text \<open>What may become of a row: it stays the same finding, is counted up when it opens again, and a
  resolved one stays as it is until then.\<close>

definition same_finding :: "finding \<Rightarrow> finding \<Rightarrow> bool" where
  "same_finding f f' \<longleftrightarrow> fd_id f' = fd_id f \<and> fd_fingerprint f' = fd_fingerprint f \<and> fd_dimension f' = fd_dimension f
     \<and> fd_vm f' = fd_vm f \<and> fd_connection f' = fd_connection f \<and> fd_first_seen f' = fd_first_seen f"

definition evolves :: "finding \<Rightarrow> finding \<Rightarrow> bool" where
  "evolves f f' \<longleftrightarrow> same_finding f f' \<and> fd_occurrences f \<le> fd_occurrences f'
     \<and> (fd_remediated f \<noteq> None \<longrightarrow> fd_remediated f' \<noteq> None) \<and> (fd_ack f \<noteq> None \<longrightarrow> fd_ack f' \<noteq> None)
     \<and> (fd_status f = DriftResolved \<and> fd_occurrences f' = fd_occurrences f \<longrightarrow> f' = f)"

lemma evolves_refl: "evolves f f"
  by (simp add: evolves_def same_finding_def)

lemma evolves_trans:
  assumes "evolves a b" and "evolves b c"
  shows "evolves a c"
proof -
  have "c = a" if "fd_status a = DriftResolved" "fd_occurrences c = fd_occurrences a"
  proof -
    have "fd_occurrences b = fd_occurrences a" using assms that by (auto simp: evolves_def)
    with assms that show ?thesis by (auto simp: evolves_def)
  qed
  with assms show ?thesis by (auto simp: evolves_def same_finding_def)
qed

definition evolved :: "finding list \<Rightarrow> finding list \<Rightarrow> bool" where
  "evolved t t' \<longleftrightarrow> (\<forall>f \<in> set t. \<exists>f' \<in> set t'. evolves f f')"

definition kept :: "finding list \<Rightarrow> finding list \<Rightarrow> bool" where
  "kept t0 t \<longleftrightarrow> findings_ok t \<and> evolved t0 t"

lemma evolved_refl: "evolved t t"
  using evolves_refl by (auto simp: evolved_def)

lemma evolved_trans: "evolved a b \<Longrightarrow> evolved b c \<Longrightarrow> evolved a c"
  unfolding evolved_def by (meson evolves_trans)

lemma findings_kept_update:
  assumes "kept t0 t" and "\<And>f. f \<in> set t \<Longrightarrow> P f \<Longrightarrow> evolves f (g f) \<and> finding_ok (g f)"
    and "\<And>f. fd_id (g f) = fd_id f" and "\<And>f. fd_fingerprint (g f) = fd_fingerprint f"
  shows "kept t0 (table_update P g t)"
proof -
  have ok: "findings_ok t" using assms(1) by (simp add: kept_def)
  have "evolves f (if P f then g f else f)" if "f \<in> set t" for f
    using assms(2) that evolves_refl by auto
  then have "evolved t (table_update P g t)"
    unfolding evolved_def set_table_update by blast
  then have "evolved t0 (table_update P g t)"
    using assms(1) evolved_trans by (auto simp: kept_def)
  moreover have "findings_ok (table_update P g t)"
    using ok assms(2) finding_table.unique_update [of t g P] finding_ids.unique_update [of t g P]
    by (auto simp: findings_ok_def assms(3,4))
  ultimately show ?thesis by (simp add: kept_def)
qed

lemma kept_append:
  assumes "kept t0 t" and "finding_of (fd_fingerprint f) t = None" and "finding_by_id (fd_id f) t = None" and "finding_ok f"
  shows "kept t0 (t @ [f])"
proof -
  have "evolved t0 (t @ [f])"
    using assms(1) by (auto simp: kept_def evolved_def)
  moreover have "findings_ok (t @ [f])"
    using assms finding_table.unique_append finding_ids.unique_append by (auto simp: kept_def findings_ok_def)
  ultimately show ?thesis by (simp add: kept_def)
qed

lemma kept_refresh: "kept t0 t \<Longrightarrow> kept t0 (table_update P (refresh_finding now d) t)"
  by (rule findings_kept_update) (auto simp: kept_def findings_ok_def finding_ok_def evolves_def same_finding_def refresh_finding_def)

lemma kept_auto: "kept t0 t \<Longrightarrow> kept t0 (table_update (stale ds opts) (auto_resolve now) t)"
  by (rule findings_kept_update) (auto simp: kept_def findings_ok_def finding_ok_def evolves_def same_finding_def auto_resolve_def
      stale_def live_finding_def)

subsection \<open>Steps that keep the findings\<close>

definition fk :: "finding list \<Rightarrow> 'w drift_state \<Rightarrow> bool" where
  "fk t0 s \<longleftrightarrow> kept t0 (ds_findings s)"

text \<open>Computations that do not touch the findings.\<close>

definition calm :: "('w drift_state, 'a) comp \<Rightarrow> bool" where
  "calm m \<longleftrightarrow> (\<forall>s. ds_findings (snd (m s)) = ds_findings s)"

named_theorems calm_rules \<open>computations that do not touch the findings\<close>

lemma calmD: "calm m \<Longrightarrow> m s = (r, t) \<Longrightarrow> ds_findings t = ds_findings s"
  by (auto simp: calm_def dest: spec [of _ s])

lemma calm_basic [calm_rules]:
  "calm (ret x)" "calm (throw e)" "calm (gets f)" "calm (lift_res r)" "calm (on_base b)" "calm (d_world w)"
  "calm (set_state vm g)" "calm (on_pass h)" "calm (found ds)" "calm (unrefine vm dims)" "calm (vm_record i)"
  "calm (drift_event da actor ev detail)"
  by (simp_all add: calm_def comp_defs on_base_def d_world_def set_state_def on_pass_def found_def unrefine_def
      vm_record_def drift_event_def split: prod.split)

lemma calm_periods [calm_rules]: "calm (modify (\<lambda>s. s\<lparr>ds_periods := p s\<rparr>))"
  by (simp add: calm_def modify_def)

lemma calm_bind [calm_rules]: "calm m \<Longrightarrow> (\<And>x. calm (f x)) \<Longrightarrow> calm (bind m f)"
  by (auto simp: calm_def bind_def split: prod.split sum.split) (metis snd_conv)+

lemma calm_try [calm_rules]: "calm m \<Longrightarrow> (\<And>e. calm (h e)) \<Longrightarrow> calm (try_catch m h)"
  by (auto simp: calm_def try_catch_def split: prod.split sum.split) (metis snd_conv)+

lemma calm_if [calm_rules]: "(b \<Longrightarrow> calm m) \<Longrightarrow> (\<not> b \<Longrightarrow> calm n) \<Longrightarrow> calm (if b then m else n)"
  by simp

lemma calm_when [calm_rules]: "calm m \<Longrightarrow> calm (do_when b m)"
  by (simp add: do_when_def calm_rules)

lemma calm_option [calm_rules]: "calm m \<Longrightarrow> (\<And>y. calm (f y)) \<Longrightarrow> calm (case x of None \<Rightarrow> m | Some y \<Rightarrow> f y)"
  by (cases x) auto

lemma calm_for_each [calm_rules]: "(\<And>x. calm (f x)) \<Longrightarrow> calm (for_each xs f)"
  by (induction xs) (auto intro!: calm_rules)

lemma calm_let [calm_rules]: "(\<And>x. calm (f x)) \<Longrightarrow> calm (let x = y in f x)"
  by simp

lemma calm_on_base_now [calm_rules]: "calm (\<lambda>s. on_base (m s) s)"
  by (simp add: calm_def on_base_def split: prod.split)

lemma calm_checks [calm_rules]:
  "calm (check_hardware da now v lr)" "calm (check_ip da v lr)" "calm (probe_credential da v now)"
proof -
  show "calm (check_hardware da now v lr)"
    unfolding check_hardware_def by (auto intro!: calm_rules split: prod.split option.split)
  show "calm (check_ip da v lr)"
    unfolding check_ip_def by (auto intro!: calm_rules)
  have "calm (probe_outcome da v cred now)" for cred
    unfolding probe_outcome_def by (auto intro!: calm_rules split: probe_status.split)
  then show "calm (probe_credential da v now)"
    unfolding probe_credential_def by (auto intro!: calm_rules)
qed

lemma calm_vm [calm_rules]:
  "calm (check_credential da now v lr)" "calm (check_vm da now resources v)" "calm (check_deletions active live)"
  "calm (save_summary da now r)" "calm (skip_pass da now reason)"
  unfolding check_vm_def check_credential_def check_deletions_def save_summary_def skip_pass_def
  by (auto intro!: calm_rules)

lemma calm_keeps: "calm m \<Longrightarrow> keeps_pred (fk t0) m"
  by (simp add: calm_def keeps_pred_def fk_def)

lemma keeps_apply_one: "keeps_pred (fk t0) (apply_one da now d)"
  unfolding keeps_pred_def
proof (intro allI impI)
  fix s :: "'a drift_state"
  assume k: "fk t0 s"
  show "fk t0 (snd (apply_one da now d s))"
  proof (cases "finding_of (dt_fingerprint d) (ds_findings s)")
    case (Some f)
    with k kept_refresh show ?thesis by (simp add: apply_one_def comp_defs fk_def)
  next
    case None
    obtain r u where w: "d_world (sv_new_id (da_base da)) s = (r, u)" by fastforce
    have same: "ds_findings u = ds_findings s" using calmD [OF calm_basic(6) w] .
    have "kept t0 (ds_findings u @ [first_finding (d_now da u) nid d])" if "finding_by_id nid (ds_findings u) = None" for nid
      using kept_append [of t0 "ds_findings u" "first_finding (d_now da u) nid d"] k None that same
      by (simp add: fk_def first_finding_def finding_ok_def)
    with k same show ?thesis
      by (cases r) (auto simp: apply_one_def bind_def gets_def None w modify_def ret_def throw_def fk_def)
  qed
qed

lemma keeps_apply_each: "keeps_pred (fk t0) (apply_each da now ds)"
  by (induction ds) (auto intro!: keeps keeps_apply_one)

lemma keeps_apply: "keeps_pred (fk t0) (apply_findings da now ds opts)"
  unfolding apply_findings_def Let_def
  by (intro keeps keeps_apply_each keeps_pred_modify) (auto simp: fk_def kept_auto)

lemma keeps_case_sum: "(\<And>e. keeps_pred P (f e)) \<Longrightarrow> (\<And>x. keeps_pred P (g x)) \<Longrightarrow>
    keeps_pred P (case r of Inl e \<Rightarrow> f e | Inr x \<Rightarrow> g x)"
  by (cases r) auto

lemma keeps_drift_pass: "keeps_pred (fk t0) (run_drift_pass da now)"
  unfolding run_drift_pass_def checked_pass_def Let_def
  by (intro keeps keeps_case_sum keeps_apply calm_keeps calm_rules)

subsection \<open>Remediations keep the findings\<close>

text \<open>Between the check that a finding is active and its resolution nothing else writes findings.\<close>

definition holding :: "finding list \<Rightarrow> finding \<Rightarrow> 'w drift_state \<Rightarrow> bool" where
  "holding t0 f s \<longleftrightarrow> kept t0 (ds_findings s) \<and> f \<in> set (ds_findings s) \<and> live_finding f"

definition settles :: "finding list \<Rightarrow> finding \<Rightarrow> ('w drift_state, 'a) comp \<Rightarrow> bool" where
  "settles t0 f m \<longleftrightarrow> (\<forall>s. holding t0 f s \<longrightarrow> fk t0 (snd (m s)))"

named_theorems settles_rules \<open>computations that end in a state of kept findings\<close>

lemma settles_calm: "calm m \<Longrightarrow> settles t0 f m"
  by (simp add: settles_def calm_def holding_def fk_def)

lemma settles_bind [settles_rules]: "calm m \<Longrightarrow> (\<And>x. settles t0 f (g x)) \<Longrightarrow> settles t0 f (bind m g)"
  unfolding settles_def
proof (intro allI impI)
  fix s :: "'a drift_state"
  assume m: "calm m" and g: "\<And>x. \<forall>s. holding t0 f s \<longrightarrow> fk t0 (snd (g x s))" and h: "holding t0 f s"
  obtain r u where run: "m s = (r, u)" by fastforce
  have "holding t0 f u" using calmD [OF m run] h by (simp add: holding_def)
  with g run show "fk t0 (snd (bind m g s))"
    by (cases r) (auto simp: bind_def holding_def fk_def)
qed

lemma settles_if [settles_rules]:
  "settles t0 f m \<Longrightarrow> settles t0 f n \<Longrightarrow> settles t0 f (if b then m else n)"
  by simp

lemma settles_option [settles_rules]:
  "settles t0 f m \<Longrightarrow> (\<And>y. settles t0 f (g y)) \<Longrightarrow> settles t0 f (case x of None \<Rightarrow> m | Some y \<Rightarrow> g y)"
  by (cases x) auto

lemma settles_let [settles_rules]: "(\<And>x. settles t0 f (g x)) \<Longrightarrow> settles t0 f (let x = y in g x)"
  by simp

lemma settles_throw [settles_rules]: "settles t0 f (throw e)" "settles t0 f (ret x)"
  by (auto intro!: settles_calm calm_rules)

lemma held_row: "holding t0 f s \<Longrightarrow> x \<in> set (ds_findings s) \<Longrightarrow> fd_fingerprint x = fd_fingerprint f \<or> fd_id x = fd_id f \<Longrightarrow> x = f"
  using finding_table.lookup_unique finding_ids.lookup_unique
  by (auto simp: holding_def kept_def findings_ok_def) (metis option.inject)+

lemma settles_resolved [settles_rules]:
  assumes "\<And>x. calm (g x)"
  shows "settles t0 f (bind (set_resolved now actor f) g)"
  unfolding settles_def
proof (intro allI impI)
  fix s :: "'a drift_state"
  assume h: "holding t0 f s"
  let ?t = "table_update (\<lambda>x. fd_fingerprint x = fd_fingerprint f) (resolve_finding now (fst actor)) (ds_findings s)"
  have "kept t0 ?t"
  proof (rule findings_kept_update)
    show "kept t0 (ds_findings s)" using h by (simp add: holding_def)
    fix x assume "x \<in> set (ds_findings s)" "fd_fingerprint x = fd_fingerprint f"
    with held_row [OF h] h have "x = f" "live_finding x" "finding_ok x" by (auto simp: holding_def kept_def findings_ok_def)
    then show "evolves x (resolve_finding now (fst actor) x) \<and> finding_ok (resolve_finding now (fst actor) x)"
      by (auto simp: evolves_def same_finding_def resolve_finding_def finding_ok_def live_finding_def)
  qed (auto simp: resolve_finding_def)
  with calm_keeps [OF assms, of t0] show "fk t0 (snd (bind (set_resolved now actor f) g s))"
    by (simp add: bind_def set_resolved_def modify_def keeps_pred_def fk_def)
qed

lemma keeps_active:
  assumes "\<And>f. settles t0 f (g f)"
  shows "keeps_pred (fk t0) (bind (active_finding i) g)"
  unfolding keeps_pred_def
proof (intro allI impI)
  fix s :: "'a drift_state"
  assume k: "fk t0 s"
  show "fk t0 (snd (bind (active_finding i) g s))"
  proof (cases "finding_by_id i (ds_findings s)")
    case None
    with k show ?thesis by (simp add: active_finding_def comp_defs)
  next
    case (Some f)
    with k finding_ids.lookup_SomeD [OF Some] assms [of f] show ?thesis
      by (auto simp: active_finding_def comp_defs settles_def holding_def fk_def live_finding_def)
  qed
qed

lemma calm_parts [calm_rules]:
  "calm (assert_no_active_job vm)" "calm (adopt_config f v lr)" "calm (adopt_hardware da v lr)" "calm (live_node da v)"
  "calm (write_ip da v ip)" "calm (tear_down da v)"
proof -
  show "calm (assert_no_active_job vm)" "calm (live_node da v)" "calm (write_ip da v ip)"
    unfolding assert_no_active_job_def live_node_def write_ip_def by (auto intro!: calm_rules)
  show "calm (adopt_config f v lr)"
    unfolding adopt_config_def Let_def by (auto intro!: calm_rules)
  have "calm (bump_hardware_snapshot da vm a b c)" for vm a b c
    unfolding bump_hardware_snapshot_def by (auto intro!: calm_rules split: prod.split option.split)
  then show "calm (adopt_hardware da v lr)"
    unfolding adopt_hardware_def by (auto intro!: calm_rules)
  show "calm (tear_down da v)"
    unfolding tear_down_def by (intro calm_rules)
qed

lemma keeps_acknowledge: "keeps_pred (fk t0) (acknowledge_drift_finding da i actor now)"
proof -
  have marked: "settles t0 f (bind (modify (\<lambda>s. s\<lparr>ds_findings := table_update (\<lambda>x. fd_id x = fd_id f) (acknowledge now u) (ds_findings s)\<rparr>)) g)"
    if "\<And>x. calm (g x)" for f u and g :: "unit \<Rightarrow> ('a drift_state, unit) comp"
    unfolding settles_def
  proof (intro allI impI)
    fix s :: "'a drift_state"
    assume h: "holding t0 f s"
    have "kept t0 (table_update (\<lambda>x. fd_id x = fd_id f) (acknowledge now u) (ds_findings s))"
    proof (rule findings_kept_update)
      show "kept t0 (ds_findings s)" using h by (simp add: holding_def)
      fix x assume "x \<in> set (ds_findings s)" "fd_id x = fd_id f"
      with held_row [OF h] h have "x = f" "live_finding x" "finding_ok x" by (auto simp: holding_def kept_def findings_ok_def)
      then show "evolves x (acknowledge now u x) \<and> finding_ok (acknowledge now u x)"
        by (auto simp: evolves_def same_finding_def acknowledge_def finding_ok_def live_finding_def)
    qed (auto simp: acknowledge_def)
    with calm_keeps [OF that, of t0] show "fk t0 (snd (bind (modify (\<lambda>s. s\<lparr>ds_findings :=
        table_update (\<lambda>x. fd_id x = fd_id f) (acknowledge now u) (ds_findings s)\<rparr>)) g s))"
      by (simp add: bind_def modify_def keeps_pred_def fk_def)
  qed
  show ?thesis
    unfolding acknowledge_drift_finding_def by (intro keeps_active settles_if settles_throw marked calm_rules)
qed

lemma keeps_remedies:
  "keeps_pred (fk t0) (decommission_drift_vm da i actor now)"
  "keeps_pred (fk t0) (adopt_drift_finding da i actor now)"
  "keeps_pred (fk t0) (resync_drift_ip da i actor now)"
  "keeps_pred (fk t0) (delete_orphan_drift_connection da i actor now)"
  unfolding decommission_drift_vm_def adopt_drift_finding_def resync_drift_ip_def delete_orphan_drift_connection_def
  by (intro keeps_active settles_rules calm_rules)+

lemma keeps_route: "keeps_pred (fk t0) (remediate_route da user i action confirm)"
proof -
  have "keeps_pred (fk t0) (permitted da user p)" for p
    by (simp add: keeps_pred_def permitted_def)
  moreover have "keeps_pred (fk t0) (assert_finding_visible da u i)" "keeps_pred (fk t0) (target_vm i)" for u
    unfolding assert_finding_visible_def target_vm_def by (auto intro!: keeps calm_keeps calm_rules)
  ultimately show ?thesis
    unfolding remediate_route_def Let_def
    by (auto intro!: keeps keeps_remedies split: remediation.split)
qed

inductive drift_history :: "'w drift_api \<Rightarrow> 'w drift_state \<Rightarrow> 'w drift_state \<Rightarrow> bool" for da where
  start: "drift_history da s s"
| tick: "drift_history da s u \<Longrightarrow> drift_history da s (snd (run_drift_pass da now u))"
| remedy: "drift_history da s u \<Longrightarrow> drift_history da s (snd (remediate_route da user i action confirm u))"
| note_it: "drift_history da s u \<Longrightarrow> drift_history da s (snd (acknowledge_drift_finding da i actor now u))"
| elsewhere: "drift_history da s u \<Longrightarrow> ds_findings v = ds_findings u \<Longrightarrow> drift_history da s v"

lemma drift_history_kept: "drift_history da s u \<Longrightarrow> findings_ok (ds_findings s) \<Longrightarrow> fk (ds_findings s) u"
proof (induction rule: drift_history.induct)
  case (start s)
  then show ?case by (simp add: fk_def kept_def evolved_refl)
next
  case (elsewhere s u v)
  then show ?case by (simp add: fk_def)
qed (auto intro: keeps_predD [OF keeps_drift_pass] keeps_predD [OF keeps_route] keeps_predD [OF keeps_acknowledge])

text \<open>C30. The history of a finding is never lost. Over any sequence of passes, remediations,
  acknowledgements and anything else that leaves the table of findings alone, whatever Proxmox,
  the guests and Guacamole answer: there is one row per fingerprint, no row disappears or becomes
  another finding, a row has a resolution exactly when it is RESOLVED, an acknowledgement or a
  remediation once recorded stays recorded, and a resolved row only changes when the drift is
  detected again, which counts it up.\<close>

theorem drift_findings_lifecycle:
  assumes "drift_history da s u" and "findings_ok (ds_findings s)"
  shows "findings_ok (ds_findings u) \<and> evolved (ds_findings s) (ds_findings u)"
  using drift_history_kept [OF assms] by (simp add: fk_def kept_def)

lemma demo_findings_ok: "findings_ok [demo_finding]"
  by (simp add: findings_ok_def finding_ok_def finding_table.unique_def finding_ids.unique_def demo_finding_def)

lemma drift_findings_lifecycle_witness:
  "\<exists>f. finding_of ''ip:v1'' (ds_findings (snd (acknowledge_drift_finding demo_drift_api ''f1'' (''u'', ''ada'') 7
        (demo_drift [demo_finding])))) = Some f \<and> evolves demo_finding f \<and> fd_ack f = Some (7, ''u'')"
proof -
  let ?s = "demo_drift [demo_finding]"
  let ?t = "snd (acknowledge_drift_finding demo_drift_api ''f1'' (''u'', ''ada'') 7 ?s)"
  have run: "ds_findings ?t = [acknowledge 7 ''u'' demo_finding]"
    by (simp add: acknowledge_drift_finding_def active_finding_def comp_defs finding_by_id_def table_find_def
        demo_finding_def drift_event_def on_base_def table_update_def demo_drift_def)
  have "drift_history demo_drift_api ?s ?t" using drift_history.note_it [OF drift_history.start] .
  from drift_findings_lifecycle [OF this] demo_findings_ok run have "evolves demo_finding (acknowledge 7 ''u'' demo_finding)"
    by (simp add: evolved_def demo_drift_def)
  with run show ?thesis
    by (simp add: finding_of_def table_find_def acknowledge_def demo_finding_def)
qed

subsection \<open>Applying a detection\<close>

lemma finding_of_map:
  "(\<And>f. fd_fingerprint (g f) = fd_fingerprint f) \<Longrightarrow>
   finding_of fp (table_update P g t) = map_option (\<lambda>f. if P f then g f else f) (finding_of fp t)"
  by (induction t) (auto simp: finding_of_def table_find_def table_update_def)

lemma finding_of_append:
  "finding_of fp (t @ [f]) = (case finding_of fp t of None \<Rightarrow> if fd_fingerprint f = fp then Some f else None | Some x \<Rightarrow> Some x)"
  by (induction t) (auto simp: finding_of_def table_find_def)

lemma apply_one_new:
  assumes "apply_one da now d s = (r, u)" and "finding_of (dt_fingerprint d) (ds_findings s) = None"
  shows "(\<exists>e. r = Inl e \<and> ds_findings u = ds_findings s)
    \<or> (\<exists>n i. r = Inr True \<and> ds_findings u = ds_findings s @ [first_finding n i d])"
proof -
  obtain x w where run: "d_world (sv_new_id (da_base da)) s = (x, w)" by fastforce
  have "ds_findings w = ds_findings s" using calmD [OF calm_basic(6) run] .
  with assms run show ?thesis
    by (cases x, auto simp: apply_one_def bind_def gets_def modify_def ret_def throw_def split: if_splits) blast+
qed

lemma apply_one_known:
  assumes "apply_one da now d s = (r, u)" and "finding_of (dt_fingerprint d) (ds_findings s) = Some f"
  shows "r = Inr False \<and> ds_findings u = table_update (\<lambda>f. fd_fingerprint f = dt_fingerprint d) (refresh_finding now d) (ds_findings s)"
  using assms by (auto simp: apply_one_def comp_defs)

lemma refresh_key: "fd_fingerprint (refresh_finding now d f) = fd_fingerprint f"
  by (simp add: refresh_finding_def)

lemma resolve_key: "fd_fingerprint (auto_resolve now f) = fd_fingerprint f"
  by (simp add: auto_resolve_def)

lemma apply_one_other:
  assumes "apply_one da now d s = (r, u)" and "fp \<noteq> dt_fingerprint d"
  shows "finding_of fp (ds_findings u) = finding_of fp (ds_findings s)"
proof (cases "finding_of (dt_fingerprint d) (ds_findings s)")
  case None
  from apply_one_new [OF assms(1) None] assms(2) show ?thesis
    by (auto simp: finding_of_append first_finding_def split: option.split)
next
  case (Some f)
  have "finding_of fp (ds_findings u)
      = map_option (\<lambda>f. if fd_fingerprint f = dt_fingerprint d then refresh_finding now d f else f) (finding_of fp (ds_findings s))"
    using apply_one_known [OF assms(1) Some] finding_of_map [OF refresh_key] by simp
  with assms(2) show ?thesis
    by (cases "finding_of fp (ds_findings s)") (auto dest!: finding_table.lookup_SomeD)
qed

lemma apply_one_self:
  assumes "apply_one da now d s = (Inr b, u)"
  shows "b = (finding_of (dt_fingerprint d) (ds_findings s) = None)
    \<and> (case finding_of (dt_fingerprint d) (ds_findings s) of
         None \<Rightarrow> \<exists>n i. finding_of (dt_fingerprint d) (ds_findings u) = Some (first_finding n i d)
       | Some f \<Rightarrow> finding_of (dt_fingerprint d) (ds_findings u) = Some (refresh_finding now d f))"
proof (cases "finding_of (dt_fingerprint d) (ds_findings s)")
  case None
  from apply_one_new [OF assms(1) None] None show ?thesis
    by (auto simp: finding_of_append first_finding_def)
next
  case (Some f)
  then have "fd_fingerprint f = dt_fingerprint d" using finding_table.lookup_SomeD by blast
  with apply_one_known [OF assms Some] Some show ?thesis
    by (simp add: finding_of_map [OF refresh_key])
qed

lemma apply_each_other:
  assumes "apply_each da now ds s = (r, u)" and "fp \<notin> set (map dt_fingerprint ds)"
  shows "finding_of fp (ds_findings u) = finding_of fp (ds_findings s)"
  using assms
proof (induction ds arbitrary: s r u)
  case (Cons d ds)
  obtain x w where one: "apply_one da now d s = (x, w)" by fastforce
  have w: "finding_of fp (ds_findings w) = finding_of fp (ds_findings s)"
    using apply_one_other [OF one] Cons.prems(2) by simp
  show ?case
  proof (cases x)
    case (Inl e)
    with one w Cons.prems(1) show ?thesis by (auto simp: bind_def)
  next
    case (Inr b)
    obtain y z where rest: "apply_each da now ds w = (y, z)" by fastforce
    from Cons.IH [OF rest] Cons.prems one rest Inr w show ?thesis
      by (cases y) (auto simp: bind_def ret_def)
  qed
qed (simp add: ret_def)

lemma apply_each_exact:
  assumes "apply_each da now ds s = (Inr news, u)" and "distinct (map dt_fingerprint ds)"
  shows "news = map (\<lambda>d. finding_of (dt_fingerprint d) (ds_findings s) = None) ds
    \<and> (\<forall>d \<in> set ds. case finding_of (dt_fingerprint d) (ds_findings s) of
         None \<Rightarrow> \<exists>n i. finding_of (dt_fingerprint d) (ds_findings u) = Some (first_finding n i d)
       | Some f \<Rightarrow> finding_of (dt_fingerprint d) (ds_findings u) = Some (refresh_finding now d f))"
  using assms
proof (induction ds arbitrary: s news)
  case (Cons d ds)
  from Cons.prems(1) obtain b w rest where one: "apply_one da now d s = (Inr b, w)"
    and each: "apply_each da now ds w = (Inr rest, u)" and news: "news = b # rest"
    by (auto simp: run_iffs)
  have fresh: "dt_fingerprint d \<notin> set (map dt_fingerprint ds)" using Cons.prems(2) by simp
  have others: "finding_of (dt_fingerprint x) (ds_findings w) = finding_of (dt_fingerprint x) (ds_findings s)" if "x \<in> set ds" for x
    by (rule apply_one_other [OF one]) (use fresh that in \<open>metis imageI list.set_map\<close>)
  have IH: "rest = map (\<lambda>d. finding_of (dt_fingerprint d) (ds_findings w) = None) ds"
    "\<forall>d \<in> set ds. case finding_of (dt_fingerprint d) (ds_findings w) of
         None \<Rightarrow> \<exists>n i. finding_of (dt_fingerprint d) (ds_findings u) = Some (first_finding n i d)
       | Some f \<Rightarrow> finding_of (dt_fingerprint d) (ds_findings u) = Some (refresh_finding now d f)"
    using Cons.IH [OF each] Cons.prems(2) by auto
  have "finding_of (dt_fingerprint d) (ds_findings u) = finding_of (dt_fingerprint d) (ds_findings w)"
    using apply_each_other [OF each fresh] .
  with apply_one_self [OF one] IH others news show ?case by auto
qed (simp add: ret_def)

lemma zip_filter_map: "filter snd (zip ds (map P ds)) = map (\<lambda>d. (d, True)) (filter P ds)"
  by (induction ds) auto

lemma count_bools: "length (filter id bs) + length (filter Not bs) = length bs"
  by (induction bs) auto

text \<open>What one detection does to the table of findings, exactly: a fingerprint seen for the first
  time gets an open row; a known one is refreshed, and opened again if it was resolved; a live
  row that was not reproduced is resolved unless its machine is exempt or its dimension could
  not be checked; every other row stays as it is. The reported new fingerprints are those without
  a row before, and every detection is counted once.\<close>

theorem detection_applied_exactly:
  assumes "apply_findings da now ds opts s = (Inr c, t)" and "distinct (map dt_fingerprint ds)"
  shows "(\<forall>d \<in> set ds. case finding_of (dt_fingerprint d) (ds_findings s) of
         None \<Rightarrow> \<exists>n i. finding_of (dt_fingerprint d) (ds_findings t) = Some (first_finding n i d)
       | Some f \<Rightarrow> finding_of (dt_fingerprint d) (ds_findings t) = Some (refresh_finding now d f))
    \<and> (\<forall>fp. fp \<notin> set (map dt_fingerprint ds) \<longrightarrow> finding_of fp (ds_findings t) =
         map_option (\<lambda>f. if ap_resolve_stale opts \<and> stale ds opts f then auto_resolve now f else f) (finding_of fp (ds_findings s)))
    \<and> ac_new c = map dt_fingerprint (filter (\<lambda>d. finding_of (dt_fingerprint d) (ds_findings s) = None) ds)
    \<and> ac_created c + ac_updated c = length ds"
proof -
  from assms(1) obtain news u where each: "apply_each da now ds s = (Inr news, u)"
    by (auto simp: apply_findings_def bind_Inr_iff)
  note exact = apply_each_exact [OF each assms(2)]
  let ?g = "\<lambda>f. if ap_resolve_stale opts \<and> stale ds opts f then auto_resolve now f else f"
  have t: "finding_of fp (ds_findings t) = map_option ?g (finding_of fp (ds_findings u))" for fp
  proof (cases "ap_resolve_stale opts")
    case True
    with assms(1) each have "ds_findings t = table_update (stale ds opts) (auto_resolve now) (ds_findings u)"
      by (auto simp: apply_findings_def comp_defs Let_def)
    with True finding_of_map [OF resolve_key] show ?thesis by simp
  next
    case False
    with assms(1) each have "t = u" by (auto simp: apply_findings_def comp_defs Let_def)
    with False show ?thesis by (simp add: option.map_ident)
  qed
  have c: "ac_new c = map (dt_fingerprint \<circ> fst) (filter snd (zip ds news))"
    "ac_created c = length (filter id news)" "ac_updated c = length (filter Not news)"
    using assms(1) each by (auto simp: apply_findings_def comp_defs Let_def split: if_splits)
  have seen: "\<not> stale ds opts f" if "d \<in> set ds" "finding_of (dt_fingerprint d) (ds_findings u) = Some f" for d f
    using that finding_table.lookup_SomeD [OF that(2)] by (auto simp: stale_def kept_open_def)
  have "case finding_of (dt_fingerprint d) (ds_findings s) of
         None \<Rightarrow> \<exists>n i. finding_of (dt_fingerprint d) (ds_findings t) = Some (first_finding n i d)
       | Some f \<Rightarrow> finding_of (dt_fingerprint d) (ds_findings t) = Some (refresh_finding now d f)" if d: "d \<in> set ds" for d
  proof (cases "finding_of (dt_fingerprint d) (ds_findings s)")
    case None
    with exact d obtain n i where "finding_of (dt_fingerprint d) (ds_findings u) = Some (first_finding n i d)" by fastforce
    with None t seen [OF d this] show ?thesis by auto
  next
    case (Some f)
    with exact d have "finding_of (dt_fingerprint d) (ds_findings u) = Some (refresh_finding now d f)" by fastforce
    with Some t seen [OF d this] show ?thesis by auto
  qed
  moreover have "news = map (\<lambda>d. finding_of (dt_fingerprint d) (ds_findings s) = None) ds" using exact by blast
  ultimately show ?thesis
    using t apply_each_other [OF each] c count_bools [of news] by (auto simp: zip_filter_map o_def)
qed

definition demo_detected :: detected where
  "demo_detected = \<lparr>dt_fingerprint = ''ip:v1'', dt_dimension = DimIp, dt_severity = SevHigh, dt_vm = Some ''v1'',
     dt_connection = None, dt_title = ''again'', dt_summary = [], dt_detail = []\<rparr>"

definition resolving :: apply_opts where
  "resolving = \<lparr>ap_exempt = [], ap_unrefined = [], ap_resolve_stale = True\<rparr>"

lemma detection_applied_exactly_witness:
  "finding_of ''ip:v1'' (ds_findings (snd (apply_findings demo_drift_api 9 [demo_detected] resolving (demo_drift [demo_finding]))))
     = Some (refresh_finding 9 demo_detected demo_finding)"
proof -
  let ?s = "demo_drift [demo_finding]"
  have prior: "finding_of (dt_fingerprint demo_detected) (ds_findings ?s) = Some demo_finding"
    by (simp add: finding_of_def table_find_def demo_detected_def demo_finding_def demo_drift_def)
  then have "is_ok (fst (apply_findings demo_drift_api 9 [demo_detected] resolving ?s))"
    by (simp add: apply_findings_def apply_one_def comp_defs Let_def)
  then obtain c t where run: "apply_findings demo_drift_api 9 [demo_detected] resolving ?s = (Inr c, t)"
    by (metis is_ok_iff prod.collapse)
  with detection_applied_exactly [OF run] prior show ?thesis
    by (simp add: demo_detected_def)
qed

end
