(* ===== verification/Drift_Gates.thy ===== *)
theory Drift_Gates
  imports Drift_Props
begin

text \<open>
  The gates of drift: what a pass does on a partial view of the cluster, and what a decommission
  requires and leaves behind.
\<close>

subsection \<open>A partial view of the cluster\<close>

text \<open>What the checks of one machine collect: no deletion, and marks of per-machine dimensions only.\<close>

definition is_deletion :: "detected \<Rightarrow> bool" where
  "is_deletion d \<longleftrightarrow> starts_with (dt_fingerprint d) ''deleted:''"

definition no_deletions :: "'w drift_state \<Rightarrow> bool" where
  "no_deletions s \<longleftrightarrow> (\<forall>d \<in> set (pa_detected (ds_pass s)). \<not> is_deletion d)
     \<and> (\<forall>x \<in> set (pa_unrefined (ds_pass s)). set (snd x) \<subseteq> set per_vm)"

text \<open>The marks of a machine stay once they are set.\<close>

definition marked_for :: "string \<Rightarrow> 'w drift_state \<Rightarrow> bool" where
  "marked_for vm s \<longleftrightarrow> set per_vm \<subseteq> set (or_else (map_of (pa_unrefined (ds_pass s)) vm) [])"

definition watching :: "string list \<Rightarrow> 'w drift_state \<Rightarrow> bool" where
  "watching ids s \<longleftrightarrow> no_deletions s \<and> (\<forall>vm \<in> set ids. marked_for vm s)"

lemma watching_same: "ds_pass t = ds_pass s \<Longrightarrow> watching ids s \<Longrightarrow> watching ids t"
  by (simp add: watching_def no_deletions_def marked_for_def)

lemma keeps_quiet:
  "keeps_pred (watching ids) (on_base b)" "keeps_pred (watching ids) (d_world w)" "keeps_pred (watching ids) (set_state vm g)"
  by (auto simp: keeps_pred_def on_base_def d_world_def set_state_def modify_def split: prod.split intro: watching_same)

lemma keeps_found: "(\<And>d. d \<in> set ds \<Longrightarrow> \<not> is_deletion d) \<Longrightarrow> keeps_pred (watching ids) (found ds)"
  by (auto simp: keeps_pred_def found_def on_pass_def modify_def watching_def no_deletions_def marked_for_def)

lemma keeps_probed: "keeps_pred (watching ids) (on_pass (\<lambda>a. a\<lparr>pa_probed := f a\<rparr>))"
  by (auto simp: keeps_pred_def on_pass_def modify_def watching_def no_deletions_def marked_for_def)

lemma map_of_mark: "map_of (mark_unrefined vm dims m) w =
    (if w = vm then Some (or_else (map_of m vm) [] @ filter (\<lambda>d. d \<notin> set (or_else (map_of m vm) [])) dims) else map_of m w)"
  by (simp add: mark_unrefined_def Let_def update_conv')

lemma set_mark: "x \<in> set (mark_unrefined vm dims m) \<Longrightarrow> x \<in> set m \<or> (set (snd x) \<subseteq> set (or_else (map_of m vm) []) \<union> set dims)"
proof -
  assume "x \<in> set (mark_unrefined vm dims m)"
  then have "x \<in> set m \<or> x = (vm, or_else (map_of m vm) [] @ filter (\<lambda>d. d \<notin> set (or_else (map_of m vm) [])) dims)"
    unfolding mark_unrefined_def Let_def by (induction m) (auto split: if_splits)
  then show ?thesis by auto
qed

lemma keeps_unrefine: "set dims \<subseteq> set per_vm \<Longrightarrow> keeps_pred (watching ids) (unrefine vm dims)"
  unfolding keeps_pred_def
proof (intro allI impI)
  fix s :: "'a drift_state"
  assume dims: "set dims \<subseteq> set per_vm" and w: "watching ids s"
  let ?m = "pa_unrefined (ds_pass s)"
  have old: "set (or_else (map_of ?m vm) []) \<subseteq> set per_vm"
  proof (cases "map_of ?m vm")
    case (Some a)
    have "\<forall>x \<in> set ?m. set (snd x) \<subseteq> set per_vm" using w by (simp add: watching_def no_deletions_def)
    from bspec [OF this map_of_SomeD [OF Some]] Some show ?thesis by simp
  qed simp
  have "\<forall>x \<in> set ?m. set (snd x) \<subseteq> set per_vm" using w by (simp add: watching_def no_deletions_def)
  then have m: "\<forall>x \<in> set (mark_unrefined vm dims ?m). set (snd x) \<subseteq> set per_vm"
    using set_mark old dims by blast
  have "\<forall>i \<in> set ids. set per_vm \<subseteq> set (or_else (map_of ?m i) [])"
    using w by (simp add: watching_def marked_for_def)
  then have "\<forall>i \<in> set ids. set per_vm \<subseteq> set (or_else (map_of (mark_unrefined vm dims ?m) i) [])"
    by (auto simp: map_of_mark)
  with m w show "watching ids (snd (unrefine vm dims s))"
    by (simp add: unrefine_def on_pass_def modify_def watching_def no_deletions_def marked_for_def)
qed

lemma keeps_bind_result:
  "keeps_pred P m \<Longrightarrow> (\<And>s x t. m s = (Inr x, t) \<Longrightarrow> keeps_pred P (g x)) \<Longrightarrow> keeps_pred P (bind m g)"
  unfolding keeps_pred_def bind_def by (fastforce split: prod.splits sum.splits)

lemma other_fingerprints:
  "\<not> starts_with (''config:'' @ x) ''deleted:''" "\<not> starts_with (''hw:'' @ x) ''deleted:''"
  "\<not> starts_with (''ip:'' @ x) ''deleted:''" "\<not> starts_with (''guac:'' @ x) ''deleted:''"
  "\<not> starts_with (''credential:'' @ x) ''deleted:''" "starts_with (''deleted:'' @ x) ''deleted:''"
  by (simp_all add: starts_with_def)

lemma findings_of_detectors:
  "d \<in> set (detect_config_drift vs live) \<Longrightarrow> \<not> is_deletion d"
  "d \<in> set (detect_hardware_drift str i n st c m net) \<Longrightarrow> \<not> is_deletion d"
  "d \<in> set (detect_ip_drift v ip) \<Longrightarrow> \<not> is_deletion d"
  "d \<in> set (detect_orphan_guac conns known) \<Longrightarrow> \<not> is_deletion d"
  by (auto simp: detect_config_drift_def config_of_def renamed_finding_def moved_finding_def detect_hardware_drift_def
      hw_finding_def detect_ip_drift_def ip_finding_def detect_orphan_guac_def orphan_finding_def is_deletion_def
      other_fingerprints [simplified] split: option.splits if_splits)

lemma keeps_probe: "keeps_pred (watching ids) (probe_credential da v now)"
proof -
  have "keeps_pred (watching ids) (probe_outcome da v cred now)" for cred
    unfolding probe_outcome_def by (auto intro!: keeps keeps_quiet split: probe_status.split)
  then show ?thesis
    unfolding probe_credential_def by (auto intro!: keeps keeps_quiet)
qed

lemma probe_found: "probe_credential da v now s = (Inr r, t) \<Longrightarrow> d \<in> set (fst r) \<Longrightarrow> \<not> is_deletion d"
  by (auto simp: probe_credential_def probe_outcome_def run_iffs try_catch_def lift_res_def credential_finding_def is_deletion_def
      other_fingerprints [simplified] split: option.splits prod.splits sum.splits probe_status.splits)
    (metis probe_status.exhaust)

lemma keeps_check_vm: "keeps_pred (watching ids) (check_vm da now resources v)"
proof -
  have "keeps_pred (watching ids) (check_hardware da now v lr)" for lr
    unfolding check_hardware_def Let_def
    by (auto intro!: keeps keeps_quiet keeps_found keeps_unrefine dest: findings_of_detectors simp: per_vm_def
        split: option.split prod.split)
  moreover have "keeps_pred (watching ids) (check_ip da v lr)" for lr
    unfolding check_ip_def
    by (auto intro!: keeps keeps_quiet keeps_found keeps_unrefine dest: findings_of_detectors simp: per_vm_def)
  moreover have "keeps_pred (watching ids) (check_credential da now v lr)" for lr
    unfolding check_credential_def
    by (intro keeps keeps_probed keeps_unrefine keeps_bind_result [OF keeps_probe] keeps_found)
      (auto simp: per_vm_def dest: probe_found)
  ultimately show ?thesis
    unfolding check_vm_def by (intro keeps keeps_unrefine) auto
qed

lemma watching_marked: "watching ids s \<Longrightarrow> watching (i # ids) (snd (unrefine i per_vm s))"
  using keeps_predD [OF keeps_unrefine [of per_vm ids i], of s]
  by (auto simp: watching_def marked_for_def unrefine_def on_pass_def modify_def map_of_mark)

lemma watching_all_marked:
  "watching ids s \<Longrightarrow> for_each vs (\<lambda>v. unrefine (v_id v) per_vm) s = (r, t) \<Longrightarrow> watching (map v_id (rev vs) @ ids) t"
proof (induction vs arbitrary: ids s)
  case (Cons v vs)
  obtain x u where u: "unrefine (v_id v) per_vm s = (x, u)" by fastforce
  then have x: "x = Inr ()" by (simp add: unrefine_def on_pass_def modify_def)
  have "watching (v_id v # ids) u" using watching_marked [OF Cons.prems(1), of "v_id v"] u by simp
  from Cons.IH [OF this] Cons.prems(2) u x show ?case by (simp add: andthen_def bind_def)
qed (simp add: ret_def)

lemma live_refreshed: "live_finding (refresh_finding now d f)" "fd_vm (refresh_finding now d f) = fd_vm f"
  "fd_dimension (refresh_finding now d f) = fd_dimension f"
  by (simp_all add: live_finding_def refresh_finding_def)

lemma apply_one_live:
  assumes "apply_one da now d s = (x, u)" and "finding_of fp (ds_findings s) = Some f" and "live_finding f"
  shows "\<exists>f'. finding_of fp (ds_findings u) = Some f' \<and> live_finding f' \<and> fd_vm f' = fd_vm f \<and> fd_dimension f' = fd_dimension f"
proof (cases "fp = dt_fingerprint d")
  case True
  with assms apply_one_known [OF assms(1)] apply_one_self [of da now d s] live_refreshed show ?thesis
    by (cases x) fastforce+
next
  case False
  with apply_one_other [OF assms(1)] assms(2,3) show ?thesis by simp
qed

lemma apply_each_live:
  assumes "apply_each da now ds s = (Inr news, u)" and "finding_of fp (ds_findings s) = Some f" and "live_finding f"
  shows "\<exists>f'. finding_of fp (ds_findings u) = Some f' \<and> live_finding f' \<and> fd_vm f' = fd_vm f \<and> fd_dimension f' = fd_dimension f"
  using assms
proof (induction ds arbitrary: s f news)
  case (Cons d ds)
  from Cons.prems(1) obtain b w rest where one: "apply_one da now d s = (Inr b, w)"
    and each: "apply_each da now ds w = (Inr rest, u)"
    by (auto simp: run_iffs)
  from apply_one_live [OF one Cons.prems(2,3)] Cons.IH [OF each] show ?case by fastforce
qed (simp add: ret_def)

lemma applied_stale:
  assumes "apply_findings da now ds opts s = (Inr c, t)" and "ap_resolve_stale opts"
  obtains news u where "apply_each da now ds s = (Inr news, u)"
    and "\<And>fp. finding_of fp (ds_findings t) = map_option (\<lambda>f. if stale ds opts f then auto_resolve now f else f) (finding_of fp (ds_findings u))"
proof -
  from assms(1) obtain news u where each: "apply_each da now ds s = (Inr news, u)"
    by (auto simp: apply_findings_def bind_Inr_iff)
  with assms have "ds_findings t = table_update (stale ds opts) (auto_resolve now) (ds_findings u)"
    by (auto simp: apply_findings_def comp_defs Let_def)
  with finding_of_map [OF resolve_key] that [OF each] show thesis by simp
qed

definition checked_machines :: "'w drift_state \<Rightarrow> vm_row list" where
  "checked_machines s = filter (\<lambda>v. v_id v \<notin> set (active_job_vm_ids (p_ledger (ds_base s)))) (list_vms (reg (p_app (ds_base s))) False)"

definition degraded_view :: "cluster_row list \<Rightarrow> 'w drift_state \<Rightarrow> bool" where
  "degraded_view rows s \<longleftrightarrow> cluster_view_looks_degraded (length (checked_machines s))
     (length (detect_deleted_vms (checked_machines s) (all_qemu_resources rows)))"

text \<open>What a pass on a degraded view applies: the marks of every checked machine, and no deletion.\<close>

lemma degraded_pass:
  assumes "checked_pass da now rows s = (Inr r, t)" and "degraded_view rows s"
  obtains u c w where "watching (map v_id (checked_machines s)) u" and "ds_findings u = ds_findings s"
    and "apply_findings da now (pa_detected (ds_pass u))
      \<lparr>ap_exempt = active_job_vm_ids (p_ledger (ds_base s)), ap_unrefined = pa_unrefined (ds_pass u), ap_resolve_stale = True\<rparr> u = (Inr c, w)"
    and "ds_findings t = ds_findings w"
proof -
  let ?active = "checked_machines s"
  let ?start = "on_pass (\<lambda>_. \<lparr>pa_detected = detect_config_drift ?active (findable_resources rows), pa_unrefined = [], pa_probed = []\<rparr>)
    :: ('a drift_state, unit) comp"
  note active = checked_machines_def [of s, symmetric]
  from assms(1) obtain s1 s2 s3 conns u c w x where steps: "?start s = (Inr (), s1)"
      "check_deletions ?active (all_qemu_resources rows) s1 = (Inr (), s2)"
      "for_each ?active (check_vm da now (findable_resources rows)) s2 = (Inr (), s3)"
      "found (detect_orphan_guac conns (map v_id (list_vms (reg (p_app (ds_base s))) False))) s3 = (Inr (), u)"
    and applied: "apply_findings da now (pa_detected (ds_pass u))
      \<lparr>ap_exempt = active_job_vm_ids (p_ledger (ds_base s)), ap_unrefined = pa_unrefined (ds_pass u), ap_resolve_stale = True\<rparr> u = (Inr c, w)"
    and saved: "save_summary da now x w = (Inr (), t)"
    unfolding checked_pass_def Let_def by (auto simp: run_iffs active)
  have "watching [] s1"
    using steps(1) findings_of_detectors(1) [of _ ?active "findable_resources rows"]
    by (auto simp: on_pass_def modify_def watching_def no_deletions_def)
  moreover have "for_each ?active (\<lambda>v. unrefine (v_id v) per_vm) s1 = (Inr (), s2)"
    using steps(2) assms(2) by (simp add: check_deletions_def degraded_view_def)
  ultimately have "watching (map v_id (rev ?active) @ []) s2" by (rule watching_all_marked)
  then have "watching (map v_id ?active) s2" by (simp add: watching_def)
  then have "watching (map v_id ?active) (snd (for_each ?active (check_vm da now (findable_resources rows)) s2))"
    by (rule keeps_predD [OF keeps_pred_for_each [OF keeps_check_vm]])
  then have "watching (map v_id ?active) s3" using steps(3) by simp
  from keeps_predD [OF keeps_found this, of "detect_orphan_guac conns (map v_id (list_vms (reg (p_app (ds_base s))) False))"]
  have "watching (map v_id ?active) u" using steps(4) findings_of_detectors(4) by auto
  moreover have "ds_findings s1 = ds_findings s" using steps(1) by (auto simp: on_pass_def modify_def)
  moreover have "ds_findings s2 = ds_findings s1" by (rule calmD [OF calm_vm(3) steps(2)])
  moreover have "ds_findings s3 = ds_findings s2" by (rule calmD [OF calm_for_each [OF calm_vm(2)] steps(3)])
  moreover have "ds_findings u = ds_findings s3" by (rule calmD [OF calm_basic(9) steps(4)])
  moreover have "ds_findings t = ds_findings w" by (rule calmD [OF calm_vm(4) saved])
  ultimately show thesis using that [OF _ _ applied] by simp
qed

text \<open>A pass that took the view of the cluster for partial (at least three guests and a fifth of
  the checked machines missing) keeps every live finding about hardware, address or credential of a
  checked machine. It does resolve every live deletion finding of a machine without an active
  job, although this is the view that cannot tell whether the guest is back.\<close>

theorem partial_view_resolves_deletions:
  assumes "checked_pass da now rows s = (Inr r, t)" and "degraded_view rows s"
  shows "(\<forall>fp f v. finding_of fp (ds_findings s) = Some f \<and> live_finding f \<and> fd_vm f = Some (v_id v)
        \<and> v \<in> set (checked_machines s) \<and> fd_dimension f \<in> set per_vm \<longrightarrow>
      (\<exists>f'. finding_of fp (ds_findings t) = Some f' \<and> live_finding f'))
    \<and> (\<forall>i f. finding_of (''deleted:'' @ i) (ds_findings s) = Some f \<and> live_finding f \<and> fd_vm f = Some i
        \<and> fd_dimension f = DimDeleted \<and> i \<notin> set (active_job_vm_ids (p_ledger (ds_base s))) \<longrightarrow>
      finding_of (''deleted:'' @ i) (ds_findings t) = Some (auto_resolve now f))"
proof -
  from degraded_pass [OF assms] obtain u c w where u: "watching (map v_id (checked_machines s)) u"
    and same: "ds_findings u = ds_findings s" "ds_findings t = ds_findings w"
    and applied: "apply_findings da now (pa_detected (ds_pass u))
      \<lparr>ap_exempt = active_job_vm_ids (p_ledger (ds_base s)), ap_unrefined = pa_unrefined (ds_pass u), ap_resolve_stale = True\<rparr> u = (Inr c, w)" .
  let ?ds = "pa_detected (ds_pass u)" and ?m = "pa_unrefined (ds_pass u)"
  let ?o = "\<lparr>ap_exempt = active_job_vm_ids (p_ledger (ds_base s)), ap_unrefined = ?m, ap_resolve_stale = True\<rparr>"
  from applied_stale [OF applied] obtain news x where each: "apply_each da now ?ds u = (Inr news, x)"
    and t: "\<And>fp. finding_of fp (ds_findings t) = map_option (\<lambda>f. if stale ?ds ?o f then auto_resolve now f else f) (finding_of fp (ds_findings x))"
    using same(2) by auto
  have "\<exists>f'. finding_of fp (ds_findings t) = Some f' \<and> live_finding f'"
    if f: "finding_of fp (ds_findings s) = Some f" "live_finding f" "fd_vm f = Some (v_id v)"
      "v \<in> set (checked_machines s)" "fd_dimension f \<in> set per_vm" for fp f v
  proof -
    from apply_each_live [OF each, of fp f] same f obtain g where g: "finding_of fp (ds_findings x) = Some g" "live_finding g"
      "fd_vm g = fd_vm f" "fd_dimension g = fd_dimension f" by auto
    have "set per_vm \<subseteq> set (or_else (map_of ?m (v_id v)) [])" using u f(4) by (simp add: watching_def marked_for_def)
    with g f have "\<not> stale ?ds ?o g" by (auto simp: stale_def kept_open_def)
    with g t show ?thesis by simp
  qed
  moreover have "finding_of (''deleted:'' @ i) (ds_findings t) = Some (auto_resolve now f)"
    if f: "finding_of (''deleted:'' @ i) (ds_findings s) = Some f" "live_finding f" "fd_vm f = Some i"
      "fd_dimension f = DimDeleted" "i \<notin> set (active_job_vm_ids (p_ledger (ds_base s)))" for i f
  proof -
    have none: "''deleted:'' @ i \<notin> set (map dt_fingerprint ?ds)"
      using u other_fingerprints(6) [of i] by (auto simp: watching_def no_deletions_def is_deletion_def)
    have fp: "fd_fingerprint f = ''deleted:'' @ i" using f(1) finding_table.lookup_SomeD by blast
    have "DimDeleted \<notin> set (or_else (map_of ?m i) [])"
    proof (cases "map_of ?m i")
      case (Some a)
      have "\<forall>x \<in> set ?m. set (snd x) \<subseteq> set per_vm" using u by (simp add: watching_def no_deletions_def)
      from bspec [OF this map_of_SomeD [OF Some]] Some show ?thesis by (auto simp: per_vm_def)
    qed simp
    with none fp f have "stale ?ds ?o f" by (simp add: stale_def kept_open_def)
    with apply_each_other [OF each none] same f t show ?thesis by simp
  qed
  ultimately show ?thesis by blast
qed

text \<open>With no guest at all and no connection the pass asks nobody and cannot fail.\<close>

definition untouched :: "'w pstate \<Rightarrow> 'w drift_state \<Rightarrow> bool" where
  "untouched b s \<longleftrightarrow> ds_base s = b \<and> pa_detected (ds_pass s) = []"

lemma for_each_runs:
  assumes "\<And>x s. P s \<Longrightarrow> \<exists>t. f x s = (Inr (), t) \<and> P t" and "P s"
  shows "\<exists>t. for_each xs f s = (Inr (), t) \<and> P t"
  using assms(2)
proof (induction xs arbitrary: s)
  case (Cons x xs)
  from assms(1) [OF Cons.prems] obtain u where "f x s = (Inr (), u)" "P u" by blast
  with Cons.IH show ?case by (simp add: bind_def)
qed (simp add: ret_def)

lemma unrefine_runs: "untouched b s \<Longrightarrow> \<exists>t. unrefine vm dims s = (Inr (), t) \<and> untouched b t"
  by (simp add: untouched_def unrefine_def on_pass_def modify_def)

lemma nothing_listed: "findable_resources [] = []" "all_qemu_resources [] = []" "live_of n [] = None"
    "detect_config_drift vs [] = []" "detect_orphan_guac [] known = []"
  by (simp_all add: findable_resources_def all_qemu_resources_def normalize_resources_def live_of_def
      detect_config_drift_def config_of_def detect_orphan_guac_def map_filter_def)

lemma empty_pass:
  assumes "degraded_view [] s" and "gs_conns (p_guac (ds_base s)) = []"
  shows "is_ok (fst (checked_pass da now [] s))"
proof -
  let ?active = "checked_machines s" and ?b = "ds_base s"
  let ?s1 = "s\<lparr>ds_pass := \<lparr>pa_detected = [], pa_unrefined = [], pa_probed = []\<rparr>\<rparr>"
  have "untouched ?b ?s1" by (simp add: untouched_def)
  then obtain s2 where s2: "check_deletions ?active [] ?s1 = (Inr (), s2)" "untouched ?b s2"
    using assms(1) for_each_runs [where P = "untouched ?b", OF unrefine_runs]
    by (fastforce simp: check_deletions_def degraded_view_def nothing_listed)
  then obtain s3 where s3: "for_each ?active (check_vm da now []) s2 = (Inr (), s3)" "untouched ?b s3"
    using for_each_runs [where P = "untouched ?b" and f = "check_vm da now []"] unrefine_runs
    by (fastforce simp: check_vm_def nothing_listed)
  then have "gs_conns (p_guac (ds_base s3)) = []" "pa_detected (ds_pass s3) = []"
    using assms(2) by (simp_all add: untouched_def)
  with s2(1) s3(1) show ?thesis
    by (simp add: checked_pass_def Let_def checked_machines_def nothing_listed bind_def gets_def on_pass_def modify_def found_def
        apply_findings_def ret_def save_summary_def on_base_def)
qed

lemma partial_view_resolves_deletions_witness:
  "finding_of ''deleted:v1'' (ds_findings (snd (checked_pass demo_drift_api 9 [] (demo_drift [demo_finding, gone_finding]))))
     = Some (auto_resolve 9 gone_finding)"
proof -
  let ?s = "demo_drift [demo_finding, gone_finding]"
  have view: "degraded_view [] ?s" by code_simp
  have "gs_conns (p_guac (ds_base ?s)) = []" by (simp add: demo_drift_def demo_state_def)
  from empty_pass [OF view this] obtain r t where run: "checked_pass demo_drift_api 9 [] ?s = (Inr r, t)"
    by (metis is_ok_iff prod.collapse)
  note holds = conjunct2 [OF partial_view_resolves_deletions [OF run view]]
  have "finding_of (''deleted:'' @ ''v1'') (ds_findings ?s) = Some gone_finding" by code_simp
  moreover have "live_finding gone_finding \<and> fd_vm gone_finding = Some ''v1'' \<and> fd_dimension gone_finding = DimDeleted"
    by code_simp
  moreover have "''v1'' \<notin> set (active_job_vm_ids (p_ledger (ds_base ?s)))" by code_simp
  ultimately have "finding_of (''deleted:'' @ ''v1'') (ds_findings t) = Some (auto_resolve 9 gone_finding)"
    using holds by blast
  with run show ?thesis by simp
qed

subsection \<open>Decommissioning\<close>

definition only_world :: "'w drift_state \<Rightarrow> 'w drift_state \<Rightarrow> bool" where
  "only_world s t \<longleftrightarrow> (\<exists>w. t = s\<lparr>ds_base := (ds_base s)\<lparr>p_world := w\<rparr>\<rparr>)"

lemma world_only: "d_world m s = (r, t) \<Longrightarrow> only_world s t"
  by (auto simp: d_world_def on_base_def world_call_def only_world_def split: prod.splits)

lemma only_world_trans: "only_world a b \<Longrightarrow> only_world b c \<Longrightarrow> only_world a c"
  by (auto simp: only_world_def)

lemma only_world_refl: "only_world s s"
  unfolding only_world_def by (rule exI [of _ "p_world (ds_base s)"]) simp

lemma only_world_reads: "only_world s t \<Longrightarrow> ds_findings t = ds_findings s \<and> p_app (ds_base t) = p_app (ds_base s)
    \<and> p_ledger (ds_base t) = p_ledger (ds_base s)"
  by (auto simp: only_world_def)

definition gone_from :: "vm_row \<Rightarrow> 'w drift_state \<Rightarrow> bool" where
  "gone_from v s \<longleftrightarrow> find_by_id (reg (p_app (ds_base s))) (v_id v) = None
     \<and> cred_of (v_id v) (p_creds (ds_base s)) = None
     \<and> \<not> list_ex (open_of (v_id v)) (ds_periods s)
     \<and> v_id v \<notin> set (map va_vm (vm_access (iam (reg (p_app (ds_base s))))))
     \<and> v_id v \<notin> set (map gva_vm (group_vm_access (iam (reg (p_app (ds_base s))))))"

lemma soft_deleted: "find_by_id (soft_delete now i db) i = None"
proof -
  have found: "vm_by_id i (table_update (\<lambda>r. v_id r = i) f t) = map_option f (vm_by_id i t)"
    if "\<And>r. v_id (f r) = v_id r" for f t
    using that by (induction t) (auto simp: vm_by_id_def table_find_def table_update_def)
  show ?thesis
    by (cases "vm_by_id i (vms db)") (simp_all add: soft_delete_def update_vm_def found find_by_id_def live_opt_def vm_live_def)
qed

lemma soft_delete_iam: "iam (soft_delete now i db) = iam db" "find_by_id (db\<lparr>iam := a\<rparr>) j = find_by_id db j"
  by (simp_all add: soft_delete_def update_vm_def find_by_id_def)

lemma nothing_open: "\<not> list_ex (open_of vm) (snd (close_power_period now vm t))"
  by (induction t) (auto simp: close_power_period_def table_update_def open_of_def)

lemma credential_deleted: "cred_of vm (cred_delete vm t) = None"
  by (induction t) (auto simp: cred_of_def cred_delete_def table_find_def table_delete_def)

lemma torn_down: "\<exists>x t. tear_down da v s = (Inr x, t) \<and> gone_from v t \<and> ds_findings t = ds_findings s"
proof -
  let ?clean = "try_catch (bind (d_world (sv_guac_db (da_base da))) (\<lambda>_.
         bind (on_base (on_guac (delete_vm_resources (v_id v)))) (\<lambda>_. ret True))) (\<lambda>e. ret False)"
  obtain y u where clean: "?clean s = (y, u)" by fastforce
  then obtain b where y: "y = Inr b" by (auto simp: try_catch_def ret_def split: prod.splits sum.splits)
  have same: "ds_findings u = ds_findings s"
    by (rule calmD [where m = ?clean, OF _ clean]) (intro calm_rules)
  show ?thesis
    by (simp add: tear_down_def bind_def [of ?clean] clean y)
      (auto simp: comp_defs on_base_def on_reg_def gone_from_def same soft_deleted nothing_open credential_deleted
        revoke_all_access_def table_delete_def soft_delete_iam)
qed

definition absent_from :: "cluster_row list \<Rightarrow> vm_row \<Rightarrow> 'w drift_state \<Rightarrow> bool" where
  "absent_from rows v s \<longleftrightarrow> v_vmid v \<notin> set (map lr_vmid (all_qemu_resources rows))
     \<and> \<not> cluster_view_looks_degraded (length (list_vms (reg (p_app (ds_base s))) False))
         (vanished_from (list_vms (reg (p_app (ds_base s))) False) (all_qemu_resources rows))"

definition may_decommission :: "string \<Rightarrow> finding \<Rightarrow> vm_row \<Rightarrow> 'w drift_state \<Rightarrow> bool" where
  "may_decommission i f v s \<longleftrightarrow> finding_by_id i (ds_findings s) = Some f \<and> live_finding f \<and> fd_dimension f = DimDeleted
     \<and> truthy (fd_vm f) \<and> find_by_id (reg (p_app (ds_base s))) (the (fd_vm f)) = Some v
     \<and> active_jobs_for_vm (p_ledger (ds_base s)) (v_id v) = []"

text \<open>The run up to the point of no return, as one computation.\<close>

definition decommission_check :: "'w drift_api \<Rightarrow> string \<Rightarrow> ('w drift_state, finding \<times> vm_row) comp" where
  "decommission_check da i =
     bind (active_finding i) (\<lambda>f.
     if fd_dimension f \<noteq> DimDeleted \<or> \<not> truthy (fd_vm f)
     then throw (err_conflict ''Decommission applies only to deleted-VM findings'')
     else bind (gets (\<lambda>s. find_by_id (reg (p_app (ds_base s))) (the (fd_vm f)))) (\<lambda>found_vm. case found_vm of
        None \<Rightarrow> throw (err_not_found ''VM record not found'')
      | Some v \<Rightarrow>
     bind (assert_no_active_job (v_id v)) (\<lambda>_.
     bind (d_world (sv_client (da_base da))) (\<lambda>_.
     bind (d_world (da_cluster da)) (\<lambda>rows.
     if v_vmid v \<in> set (map lr_vmid (all_qemu_resources rows)) then throw (err_conflict msg_reappeared)
     else bind (gets (\<lambda>s. list_vms (reg (p_app (ds_base s))) False)) (\<lambda>tracked.
     if cluster_view_looks_degraded (length tracked) (vanished_from tracked (all_qemu_resources rows))
     then throw (err_conflict (msg_incomplete (vanished_from tracked (all_qemu_resources rows)) (length tracked)))
     else ret (f, v)))))))"

lemma decommission_split:
  "decommission_drift_vm da i actor now = bind (decommission_check da i) (\<lambda>(f, v).
     bind (tear_down da v) (\<lambda>r.
     bind (set_resolved now actor f) (\<lambda>_.
     drift_event da actor ''DRIFT_REMEDIATED'' [(''action'', JStr ''decommission''), (''findingId'', JStr (fd_id f)),
       (''fingerprint'', JStr (fd_fingerprint f)), (''vmId'', JStr (v_id v)), (''vmName'', JStr (v_name v)),
       (''vmid'', JNum (v_vmid v)), (''guacCleanupAttempted'', JBool (fst r)), (''revokedGrants'', JNum (int (snd r)))])))"
proof -
  have cases: "bind (if b then throw e else m) g = (if b then throw e else bind m g)"
    "bind (case x of None \<Rightarrow> throw e | Some y \<Rightarrow> n y) g = (case x of None \<Rightarrow> throw e | Some y \<Rightarrow> bind (n y) g)"
    "bind (ret (f, v)) h = h (f, v)" for b e m g x n f v and h :: "finding \<times> vm_row \<Rightarrow> ('a drift_state, unit) comp"
    by (auto simp: bind_def throw_def ret_def split: option.split)
  show ?thesis
    by (simp only: decommission_drift_vm_def decommission_check_def Let_def bind_assoc cases prod.case)
qed

lemma check_refused: "only_world s (snd (decommission_check da i s))"
proof -
  have quiet: "keeps_pred (only_world s) (d_world m)" for m :: "('a, 'b) comp"
    unfolding keeps_pred_def by (metis only_world_trans surjective_pairing world_only)
  have "keeps_pred (only_world s) (decommission_check da i)"
    unfolding decommission_check_def active_finding_def assert_no_active_job_def
    by (intro keeps quiet)
  from keeps_predD [OF this only_world_refl] show ?thesis .
qed

lemma check_passed:
  assumes "decommission_check da i s = (Inr (f, v), t)"
  shows "may_decommission i f v s \<and> only_world s t \<and> (\<exists>rows u w. da_cluster da u = (Inr rows, w) \<and> absent_from rows v s)"
proof -
  from assms have f: "may_decommission i f v s"
    by (auto simp: decommission_check_def active_finding_def assert_no_active_job_def run_iffs may_decommission_def
        live_finding_def throw_def split: if_splits option.splits)
  from assms obtain a b rows c where steps: "d_world (sv_client (da_base da)) s = (Inr a, b)"
      "d_world (da_cluster da) b = (Inr rows, c)"
    and absent: "absent_from rows v c"
    by (auto simp: decommission_check_def active_finding_def assert_no_active_job_def run_iffs
        throw_def absent_from_def split: if_splits option.splits)
  have "only_world s c"
    using world_only [OF steps(1)] world_only [OF steps(2)] by (rule only_world_trans)
  with absent have "absent_from rows v s" by (simp add: absent_from_def only_world_reads)
  moreover have "\<exists>u w. da_cluster da u = (Inr rows, w)"
    using steps(2) by (auto simp: d_world_def on_base_def world_call_def split: prod.splits)
  ultimately show ?thesis using f check_refused [of s da i] assms by auto
qed

lemma finding_known: "f \<in> set t \<Longrightarrow> \<exists>g. finding_of (fd_fingerprint f) t = Some g"
  by (induction t) (auto simp: finding_of_def table_find_def)

text \<open>C31. A decommission that refuses has changed nothing but the outside world it asked. One that
  succeeds had an unresolved deletion finding of a live record without active job, and a listing
  read during the call that lacks the guest without looking partial; afterwards the record, the
  stored credential, every grant and the open power period of the machine are gone and the finding
  is resolved. Once the teardown has begun nothing can fail, not even an unreachable Guacamole.\<close>

theorem decommission_only_the_vanished:
  "case decommission_drift_vm da i actor now s of
     (Inl e, t) \<Rightarrow> only_world s t
   | (Inr _, t) \<Rightarrow> \<exists>f v rows u w. may_decommission i f v s \<and> da_cluster da u = (Inr rows, w) \<and> absent_from rows v s
       \<and> gone_from v t
       \<and> (\<exists>g. finding_of (fd_fingerprint f) (ds_findings t) = Some (resolve_finding now (fst actor) g))"
proof -
  obtain x b where check: "decommission_check da i s = (x, b)" by fastforce
  show ?thesis
  proof (cases x)
    case (Inl e)
    with check check_refused [of s da i] show ?thesis by (simp add: decommission_split bind_def)
  next
    case (Inr p)
    obtain f v where p: "p = (f, v)" by fastforce
    note ok = check_passed [OF check [unfolded Inr p]]
    obtain y c where tear: "tear_down da v b = (Inr y, c)" and gone: "gone_from v c" and same: "ds_findings c = ds_findings b"
      using torn_down by blast
    have "f \<in> set (ds_findings s)" using ok finding_ids.lookup_SomeD by (auto simp: may_decommission_def)
    then obtain g where g: "finding_of (fd_fingerprint f) (ds_findings c) = Some g"
      using finding_known ok same only_world_reads by metis
    then have key: "fd_fingerprint g = fd_fingerprint f" using finding_table.lookup_SomeD by blast
    let ?rows = "table_update (\<lambda>x. fd_fingerprint x = fd_fingerprint f) (resolve_finding now (fst actor)) (ds_findings c)"
    obtain t where t: "decommission_drift_vm da i actor now s = (Inr (), t)" and rows: "ds_findings t = ?rows"
      and left: "gone_from v t"
      using gone by (simp add: decommission_split bind_def check Inr p tear set_resolved_def drift_event_def on_base_def
          modify_def gone_from_def)
    have "finding_of (fd_fingerprint f) (ds_findings t) = Some (resolve_finding now (fst actor) g)"
      using g key by (simp add: rows finding_of_map resolve_finding_def)
    with ok left show ?thesis unfolding t prod.case sum.case by blast
  qed
qed

subsection \<open>The network is never compared\<close>

text \<open>
  The pass reads the field \<open>net\<close> of a configuration; the pipeline writes and reads \<open>net0\<close> and its
  successors. Without a field \<open>net\<close> the stored value stays empty and no network change is found.
\<close>

lemma network_never_compared:
  assumes "json_field cfg ''net'' = JUndefined" and "vs_net st = None"
  shows "vs_net (set_hardware da now c m (json_field cfg ''net'') st) = None
    \<and> (\<forall>d \<in> set (detect_hardware_drift str i n (Some (snapshot_of_state st)) c m (json_field cfg ''net'')).
         dt_fingerprint d \<noteq> ''hw:'' @ i @ '':net'')"
  using assms
  by (auto simp: set_hardware_def canon_net_def detect_hardware_drift_def snapshot_of_state_def hw_finding_def json_opt_def
      text_of_def split: option.splits if_splits)

end
