(* ===== verification/Site.thy ===== *)
theory Site
  imports Drift Homelab Policy Firewall
begin

text \<open>
  The HTTP routes of machines (\<open>apps/api/src/routes/vms.ts\<close>), first part: the gate every route
  passes, power, cloning, templates, migration, edits and deletion. A route is a computation on
  the state of the whole site; its argument \<open>user\<close> is the account the session stands for
  (\<open>plugins/auth\<close>), and a body is the parsed one, \<open>None\<close> where its schema refuses it. A reply
  with an error status is a thrown error. The address of the client in audit rows is not kept.

  The clock is read off the world, so it stands still between two calls of other systems.

  The statements on the database of the application are taken to succeed, except where a route
  writes several of them one after another without a transaction: \<open>sa_store\<close> is the answer of the
  database to such a statement, and \<open>sa_unlink\<close> the answer of Guacamole's database to the removal
  of a connection; the statement takes effect when the answer is no error.
\<close>

record 'w site =
  si_drift :: "'w drift_state"
  si_schedules :: "power_schedule list"
  si_links :: "link_row list"

record 'w site_api =
  sa_drift :: "'w drift_api"
  sa_power :: "'w power_api"
  sa_fw :: "'w px_firewall"
  sa_shutdown :: "string \<Rightarrow> int \<Rightarrow> ('w, string) comp"
  sa_remove :: "string \<Rightarrow> int \<Rightarrow> ('w, string) comp"
  sa_make_template :: "string \<Rightarrow> int \<Rightarrow> ('w, string) comp"
  sa_migrate :: "string \<Rightarrow> int \<Rightarrow> string \<Rightarrow> bool \<Rightarrow> ('w, string) comp"
  sa_task_status :: "string \<Rightarrow> string \<Rightarrow> ('w, string \<times> string option) comp"
  sa_iso :: "time \<Rightarrow> string"
  sa_store :: "('w, unit) comp"
  sa_unlink :: "string \<Rightarrow> ('w, unit) comp"

definition sa_base :: "'w site_api \<Rightarrow> 'w services" where
  "sa_base sa = da_base (sa_drift sa)"

definition on_drift :: "('w drift_state, 'a) comp \<Rightarrow> ('w site, 'a) comp" where
  "on_drift m s = (case m (si_drift s) of (r, d) \<Rightarrow> (r, s\<lparr>si_drift := d\<rparr>))"

definition at_base :: "('w pstate, 'a) comp \<Rightarrow> ('w site, 'a) comp" where
  "at_base m = on_drift (on_base m)"

definition at_reg :: "(vm_db, 'a) comp \<Rightarrow> ('w site, 'a) comp" where
  "at_reg m = at_base (on_reg m)"

definition at_iam :: "(iam_db \<Rightarrow> iam_db) \<Rightarrow> ('w site, unit) comp" where
  "at_iam f = at_reg (modify (\<lambda>d. d\<lparr>iam := f (iam d)\<rparr>))"

definition call :: "('w, 'a) comp \<Rightarrow> ('w site, 'a) comp" where
  "call m = on_drift (d_world m)"

definition base_of :: "'w site \<Rightarrow> 'w pstate" where
  "base_of s = ds_base (si_drift s)"

definition db_of :: "'w site \<Rightarrow> vm_db" where
  "db_of s = reg (p_app (base_of s))"

definition now_of :: "'w site_api \<Rightarrow> 'w site \<Rightarrow> time" where
  "now_of sa s = p_now (sa_base sa) (base_of s)"

text \<open>The firewall functions run on a pair of registry and world.\<close>

definition on_host :: "('w host, 'a) comp \<Rightarrow> ('w site, 'a) comp" where
  "on_host m = at_base (\<lambda>b. case m \<lparr>hdb = reg (p_app b), world = p_world b\<rparr> of
     (r, h) \<Rightarrow> (r, b\<lparr>p_app := (p_app b)\<lparr>reg := hdb h\<rparr>, p_world := world h\<rparr>))"

subsection \<open>The gate\<close>

definition authed :: "user_with_roles option \<Rightarrow> ('w site, user_with_roles) comp" where
  "authed user = lift_res (require_auth user)"

definition allowed :: "'w site_api \<Rightarrow> user_with_roles option \<Rightarrow> string list \<Rightarrow> ('w site, user_with_roles) comp" where
  "allowed sa user ps s = (require_permission (p_app (base_of s)) (now_of sa s) user ps, s)"

definition sees :: "'w site_api \<Rightarrow> user_with_roles \<Rightarrow> string \<Rightarrow> 'w site \<Rightarrow> bool" where
  "sees sa u vm s = fst (visible_to (db_of s) (now_of sa s) (u_id u) (map role_name_of (u_roles u)) vm)"

definition msg_forbidden :: string where
  "msg_forbidden = ''You do not have permission to perform this action''"

definition must_see :: "'w site_api \<Rightarrow> user_with_roles option \<Rightarrow> string \<Rightarrow> string \<Rightarrow> ('w site, user_with_roles) comp" where
  "must_see sa user vm msg = bind (authed user) (\<lambda>u. bind (gets (sees sa u vm)) (\<lambda>ok.
     if ok then ret u else throw (err_forbidden msg)))"

definition the_vm :: "string \<Rightarrow> ('w site, vm_row) comp" where
  "the_vm i s = (require_by_id (db_of s) i, s)"

definition granted :: "'w site_api \<Rightarrow> user_with_roles \<Rightarrow> vm_row \<Rightarrow> 'w site \<Rightarrow> bool" where
  "granted sa u v s = has_access_or_owns (db_of s) (now_of sa s) (v_id v) (u_id u)"

definition msg_flagged :: string where
  "msg_flagged = ''This VM is privacy-flagged and you have no grant for it''"

definition privacy_gate :: "'w site_api \<Rightarrow> user_with_roles \<Rightarrow> vm_row \<Rightarrow> string \<Rightarrow> ('w site, unit) comp" where
  "privacy_gate sa u v msg = bind (gets (granted sa u v)) (\<lambda>ok.
     if v_privacy v \<and> \<not> ok then throw (err_forbidden msg) else ret ())"

definition parsed :: "'b option \<Rightarrow> ('w site, 'b) comp" where
  "parsed body = (case body of None \<Rightarrow> throw (err_validation ''Invalid request'') | Some b \<Rightarrow> ret b)"

definition site_event ::
  "'w site_api \<Rightarrow> user_with_roles option \<Rightarrow> string \<Rightarrow> string option \<Rightarrow> (string \<times> json) list option \<Rightarrow> ('w site, unit) comp" where
  "site_event sa u ev vm detail = at_base (modify (\<lambda>b. b\<lparr>p_audit := audit_record (p_now (sa_base sa) b)
     \<lparr>au_event = ev, au_actor = map_option u_id u, au_actor_name = map_option u_username u, au_vm = vm, au_job = None,
      au_ip = None, au_detail = map_option JObj detail\<rparr> (p_audit b)\<rparr>))"

definition await :: "'w site_api \<Rightarrow> string \<Rightarrow> string \<Rightarrow> int \<Rightarrow> ('w site, unit) comp" where
  "await sa node upid ms = do_when (upid \<noteq> []) (call (pw_wait (sa_power sa) node upid ms))"

subsection \<open>Power\<close>

definition set_power :: "vm_row \<Rightarrow> vm_status \<Rightarrow> ('w site, unit) comp" where
  "set_power v st = at_reg (modify (update_status (v_id v) st))"

definition start_route :: "'w site_api \<Rightarrow> user_with_roles option \<Rightarrow> string \<Rightarrow> ('w site, unit) comp" where
  "start_route sa user i =
     bind (must_see sa user i msg_forbidden) (\<lambda>_.
     bind (allowed sa user [''vm.manage'', ''vm.start'']) (\<lambda>u.
     bind (the_vm i) (\<lambda>v.
     bind (call (sv_client (sa_base sa))) (\<lambda>_.
     bind (call (pw_start (sa_power sa) (v_node v) (v_vmid v))) (\<lambda>upid.
     bind (await sa (v_node v) upid 120000) (\<lambda>_.
     bind (set_power v VmRunning) (\<lambda>_.
     site_event sa (Some u) ''VM_STARTED'' (Some (v_id v)) None)))))))"

text \<open>A body that does not parse counts as one without \<open>force\<close>.\<close>

definition stop_route :: "'w site_api \<Rightarrow> user_with_roles option \<Rightarrow> string \<Rightarrow> bool option option \<Rightarrow> ('w site, unit) comp" where
  "stop_route sa user i body =
     bind (must_see sa user i msg_forbidden) (\<lambda>_.
     bind (allowed sa user [''vm.manage'', ''vm.stop'']) (\<lambda>u.
     bind (the_vm i) (\<lambda>v.
     let hard = (body = Some (Some True)) in
     bind (call (sv_client (sa_base sa))) (\<lambda>_.
     bind (call (if hard then pw_stop (sa_power sa) (v_node v) (v_vmid v) 30 else sa_shutdown sa (v_node v) (v_vmid v))) (\<lambda>upid.
     bind (await sa (v_node v) upid 120000) (\<lambda>_.
     bind (set_power v VmStopped) (\<lambda>_.
     site_event sa (Some u) ''VM_STOPPED'' (Some (v_id v))
       (Some [(''mode'', JStr (if hard then ''hard'' else ''graceful''))]))))))))"

definition restart_route :: "'w site_api \<Rightarrow> user_with_roles option \<Rightarrow> string \<Rightarrow> ('w site, unit) comp" where
  "restart_route sa user i =
     bind (must_see sa user i msg_forbidden) (\<lambda>_.
     bind (allowed sa user [''vm.manage'', ''vm.restart'']) (\<lambda>u.
     bind (the_vm i) (\<lambda>v.
     bind (call (sv_client (sa_base sa))) (\<lambda>_.
     bind (call (pw_reboot (sa_power sa) (v_node v) (v_vmid v))) (\<lambda>upid.
     bind (await sa (v_node v) upid 180000) (\<lambda>_.
     site_event sa (Some u) ''VM_RESTARTED'' (Some (v_id v)) None))))))"

subsection \<open>Cloning and templates\<close>

definition quota_of :: "user_with_roles \<Rightarrow> 'w site \<Rightarrow> int option" where
  "quota_of u s = (if ADMIN \<in> set (u_roles u) then None else get_user_quota (p_app (base_of s)) (u_id u))"

definition load_of :: "'w site_api \<Rightarrow> user_with_roles \<Rightarrow> 'w site \<Rightarrow> nat" where
  "load_of sa u s = count_provision_load (db_of s) (p_ledger (base_of s)) (now_of sa s) (u_id u)"

definition over_quota :: "'w site_api \<Rightarrow> user_with_roles \<Rightarrow> 'w site \<Rightarrow> bool" where
  "over_quota sa u s \<longleftrightarrow> (case quota_of u s of None \<Rightarrow> False | Some q \<Rightarrow> int (load_of sa u s) \<ge> q)"

definition deny_quota :: "'w site_api \<Rightarrow> user_with_roles \<Rightarrow> string \<Rightarrow> ('w site, 'a) comp" where
  "deny_quota sa u action = bind (gets (\<lambda>s. or_else (quota_of u s) 0)) (\<lambda>q.
     bind (site_event sa (Some u) ''QUOTA_DENIED'' None (Some [(''quota'', JNum q), (''action'', JStr action)])) (\<lambda>_.
     throw (err_forbidden (''VM limit reached ('' @ int_str q @ ''). Contact your administrator to raise your quota.''))))"

record clone_body =
  cb_name :: string
  cb_target :: "string option"
  cb_storage :: "string option"

definition clone_vmid :: "'w site_api \<Rightarrow> string \<Rightarrow> ('w site, int) comp" where
  "clone_vmid sa node =
     bind (gets (\<lambda>s. list_vmids_by_node (db_of s) node)) (\<lambda>taken.
     bind (call (sv_next_vmid (sa_base sa))) (\<lambda>v.
     case next_free 1000 (\<lambda>x. x \<in> set taken) v of
        None \<Rightarrow> throw (err_conflict (''No free VM ID found on node '' @ node @ ''.''))
      | Some w \<Rightarrow> ret w))"

text \<open>What happens once the quota let the request pass.\<close>

definition clone_now :: "'w site_api \<Rightarrow> user_with_roles \<Rightarrow> string \<Rightarrow> clone_body option \<Rightarrow> ('w site, vm_row) comp" where
  "clone_now sa u i body =
     bind (parsed body) (\<lambda>b.
     bind (the_vm i) (\<lambda>v.
     let node = or_else (cb_target b) (v_node v) in
     bind (call (sv_client (sa_base sa))) (\<lambda>_.
     bind (clone_vmid sa node) (\<lambda>n.
     bind (call (sv_clone (sa_base sa) \<lparr>co_node = v_node v, co_template = v_vmid v, co_new = n, co_name = cb_name b,
        co_full = True, co_storage = cb_storage b, co_target = cb_target b\<rparr>)) (\<lambda>upid.
     bind (await sa (v_node v) upid 900000) (\<lambda>_.
     bind (call (sv_new_id (sa_base sa))) (\<lambda>nid.
     bind (gets (now_of sa)) (\<lambda>now.
     bind (at_reg (vms_create now nid \<lparr>cv_vmid = n, cv_node = node, cv_name = cb_name b, cv_status = Some VmStopped,
        cv_os_type = v_os_type v, cv_ip = None, cv_created_by = Some (u_id u), cv_template = None\<rparr>)) (\<lambda>r.
     bind (at_iam (set_access (v_id r) (u_id u) None None None)) (\<lambda>_.
     bind (site_event sa (Some u) ''VM_CLONED'' (Some (v_id r)) (Some [(''sourceVmId'', JStr (v_id v)),
        (''sourceVmid'', JNum (v_vmid v)), (''newVmid'', JNum n), (''target'', JStr node)])) (\<lambda>_. ret r)))))))))))"

definition clone_route :: "'w site_api \<Rightarrow> user_with_roles option \<Rightarrow> string \<Rightarrow> clone_body option \<Rightarrow> ('w site, vm_row) comp" where
  "clone_route sa user i body =
     bind (must_see sa user i msg_forbidden) (\<lambda>_.
     bind (allowed sa user [''vm.create'']) (\<lambda>u.
     bind (gets (over_quota sa u)) (\<lambda>over.
     if over then deny_quota sa u ''clone'' else clone_now sa u i body)))"

definition template_of_vm :: "string \<Rightarrow> string \<Rightarrow> vm_row \<Rightarrow> template_row" where
  "template_of_vm nid name v = (let windows = (v_os_type v = Some ''windows'') in
     \<lparr>tp_id = nid, tp_name = name, tp_node = v_node v, tp_vmid = v_vmid v, tp_os = (if windows then Windows else Linux),
      tp_method = (if windows then CloudbaseInit else CloudInit), tp_cloud_init = True, tp_agent_required = True, tp_cpu = 2,
      tp_ram = 2048, tp_disk = 20, tp_protocols = [if windows then RDP else SSH]\<rparr>)"

definition make_template_route ::
  "'w site_api \<Rightarrow> user_with_roles option \<Rightarrow> string \<Rightarrow> string option \<Rightarrow> ('w site, template_row) comp" where
  "make_template_route sa user i body =
     bind (must_see sa user i msg_forbidden) (\<lambda>_.
     bind (allowed sa user [''templates.manage'']) (\<lambda>u.
     bind (parsed body) (\<lambda>name.
     bind (the_vm i) (\<lambda>v.
     if v_status v = VmRunning then throw (err_validation ''Stop the VM before converting it into a template'')
     else bind (call (sv_client (sa_base sa))) (\<lambda>_.
     bind (call (sa_make_template sa (v_node v) (v_vmid v))) (\<lambda>upid.
     bind (await sa (v_node v) upid 600000) (\<lambda>_.
     bind (call (sv_new_id (sa_base sa))) (\<lambda>nid.
     bind (at_base (\<lambda>b. case register (template_of_vm nid name v) (p_templates b) of
        (r, t) \<Rightarrow> (r, b\<lparr>p_templates := t\<rparr>))) (\<lambda>t.
     bind (site_event sa (Some u) ''TEMPLATE_CREATED'' None (Some [(''name'', JStr name), (''vmid'', JNum (v_vmid v)),
        (''node'', JStr (v_node v)), (''sourceVmId'', JStr (v_id v))])) (\<lambda>_. ret t))))))))))"

subsection \<open>Migration\<close>

definition disk_slot :: "string \<Rightarrow> bool" where
  "disk_slot k \<longleftrightarrow> list_ex (\<lambda>p. starts_with k p \<and> drop (length p) k \<noteq> [] \<and> list_all is_digit (drop (length p) k))
     [''ide'', ''scsi'', ''sata'']"

text \<open>\<open>media=cdrom\<close> anywhere, and \<open>local:\<close> at the start or behind a comma.\<close>

definition local_media :: "string \<times> cfg_value \<Rightarrow> bool" where
  "local_media x \<longleftrightarrow> disk_slot (fst x) \<and> (case snd x of CfgNum _ \<Rightarrow> False
     | CfgStr v \<Rightarrow> contains_str v ''media=cdrom'' \<and> (starts_with v ''local:'' \<or> contains_str v '',local:''))"

fun eject :: "'w site_api \<Rightarrow> vm_row \<Rightarrow> string list \<Rightarrow> string list \<Rightarrow> ('w site, string list) comp" where
  "eject sa v [] acc = ret acc"
| "eject sa v (k # ks) acc =
     bind (try_catch (bind (call (sv_update_config (sa_base sa) (v_node v) (v_vmid v) [(k, CfgStr ''none,media=cdrom'')]))
         (\<lambda>_. ret True)) (\<lambda>e. ret False)) (\<lambda>ok.
     if ok then eject sa v ks (acc @ [k]) else ret acc)"

record migration =
  mg_upid :: string
  mg_node :: string
  mg_online :: bool
  mg_detached :: "string list"

definition migrate_route ::
  "'w site_api \<Rightarrow> user_with_roles option \<Rightarrow> string \<Rightarrow> (string \<times> bool option) option \<Rightarrow> ('w site, migration) comp" where
  "migrate_route sa user i body =
     bind (must_see sa user i msg_forbidden) (\<lambda>_.
     bind (allowed sa user [''vm.manage'']) (\<lambda>_.
     bind (parsed body) (\<lambda>(target, online_wish).
     bind (the_vm i) (\<lambda>v.
     if target = v_node v then throw (err_validation ''Target node must differ from the current node'')
     else bind (call (sv_client (sa_base sa))) (\<lambda>_.
     let online = or_else online_wish (v_status v = VmRunning) in
     bind (try_catch (call (sv_config (sa_base sa) (v_node v) (v_vmid v))) (\<lambda>e. ret [])) (\<lambda>config.
     bind (eject sa v (map fst (filter local_media config)) []) (\<lambda>detached.
     bind (call (sa_migrate sa (v_node v) (v_vmid v) target online)) (\<lambda>upid.
     ret \<lparr>mg_upid = upid, mg_node = target, mg_online = online, mg_detached = detached\<rparr>))))))))"

datatype migration_state = MgDone string "string list" | MgRunning string | MgError string string

record migration_query =
  mq_upid :: string
  mq_target :: string
  mq_online :: "bool option"
  mq_detached :: "string option"

definition detached_of :: "migration_query \<Rightarrow> string list" where
  "detached_of q = (if truthy (mq_detached q) then filter (\<lambda>p. p \<noteq> []) (split_on CHR '','' (the (mq_detached q))) else [])"

definition migration_status_route ::
  "'w site_api \<Rightarrow> user_with_roles option \<Rightarrow> string \<Rightarrow> migration_query option \<Rightarrow> ('w site, migration_state) comp" where
  "migration_status_route sa user i query =
     bind (must_see sa user i msg_forbidden) (\<lambda>_.
     bind (allowed sa user [''vm.manage'']) (\<lambda>u.
     bind (parsed query) (\<lambda>q.
     bind (the_vm i) (\<lambda>v.
     if v_node v = mq_target q then ret (MgDone (v_node v) [])
     else bind (call (sv_client (sa_base sa))) (\<lambda>_.
     bind (call (sa_task_status sa (v_node v) (mq_upid q))) (\<lambda>(status, exit).
     if status \<noteq> ''stopped'' then ret (MgRunning (mq_upid q))
     else if or_else exit [] \<noteq> [] \<and> exit \<noteq> Some ''OK'' then ret (MgError (or_else exit []) (mq_upid q))
     else bind (at_reg (update_node (v_id v) (mq_target q))) (\<lambda>_.
          bind (site_event sa (Some u) ''VM_MIGRATED'' (Some (v_id v)) (Some [(''from'', JStr (v_node v)),
            (''to'', JStr (mq_target q)), (''online'', JBool (or_else (mq_online q) (v_status v = VmRunning))),
            (''withLocalDisks'', JBool True), (''detachedIso'', JArr (map JStr (detached_of q))),
            (''upid'', JStr (mq_upid q))])) (\<lambda>_.
          ret (MgDone (mq_target q) (detached_of q))))))))))"

end
