(* ===== verification/Sharing.thy ===== *)
theory Sharing
  imports Site
begin

text \<open>
  The HTTP routes of machines (\<open>apps/api/src/routes/vms.ts\<close>), second part: who may use a machine
  (grants, invitations, revocations, the privacy flag), what may switch it off (its class and its
  schedules), share links, edits and deletion.
\<close>

subsection \<open>Grants\<close>

text \<open>The protocols of a row as the code gets them: a list of strings, or nothing.\<close>

definition stored_protocols :: "json \<Rightarrow> string list option" where
  "stored_protocols v = (case v of
       JArr vs \<Rightarrow> Some (List.map_filter (\<lambda>x. case x of JStr p \<Rightarrow> Some p | _ \<Rightarrow> None) vs)
     | _ \<Rightarrow> None)"

definition direct_entry :: "string \<Rightarrow> access_entry list \<Rightarrow> access_entry option" where
  "direct_entry uid es = find (\<lambda>e. ae_group e = None \<and> ae_user e = uid) es"

definition entries_of :: "'w site_api \<Rightarrow> string \<Rightarrow> 'w site \<Rightarrow> access_entry list" where
  "entries_of sa vm s = list_access_entries (iam (db_of s)) (now_of sa s) vm"

text \<open>\<open>gb_expires\<close> is a date, or \<open>Some None\<close> for one that does not denote a time.\<close>

record grant_body =
  gb_user :: "string option"
  gb_username :: "string option"
  gb_protocols :: "string list option"
  gb_expires :: "time option option"

definition grant_body_ok :: "grant_body \<Rightarrow> bool" where
  "grant_body_ok b \<longleftrightarrow> (gb_user b \<noteq> None \<or> gb_username b \<noteq> None)
     \<and> (case gb_user b of None \<Rightarrow> True | Some i \<Rightarrow> is_uuid i)
     \<and> (case gb_username b of None \<Rightarrow> True | Some n \<Rightarrow> 1 \<le> length n \<and> length n \<le> 128)
     \<and> (case gb_protocols b of None \<Rightarrow> True | Some ps \<Rightarrow> set ps \<subseteq> set KNOWN_PROTOCOLS \<and> length ps \<le> 3)"

definition grant_target :: "'w site_api \<Rightarrow> grant_body \<Rightarrow> ('w site, user_with_roles) comp" where
  "grant_target sa b = bind (gets (\<lambda>s. case gb_user b of
        Some i \<Rightarrow> find_user (p_app (base_of s)) (now_of sa s) i
      | None \<Rightarrow> find_user_by_username (p_app (base_of s)) (now_of sa s) (or_else (gb_username b) []))) (\<lambda>t. case t of
     None \<Rightarrow> throw (err_not_found ''User not found'') | Some u \<Rightarrow> ret u)"

definition future :: "'w site_api \<Rightarrow> time option \<Rightarrow> ('w site, time) comp" where
  "future sa e = bind (gets (now_of sa)) (\<lambda>now. case e of
     Some t \<Rightarrow> if t \<le> now then throw (err_validation ''expiresAt must be a future date-time'') else ret t
   | None \<Rightarrow> throw (err_validation ''expiresAt must be a future date-time''))"

definition reconcile_access :: "'w site_api \<Rightarrow> string \<Rightarrow> string \<Rightarrow> ('w site, string list option) comp" where
  "reconcile_access sa uid vm =
     bind (gets (now_of sa)) (\<lambda>now.
     bind (gets (\<lambda>s. iam (db_of s))) (\<lambda>db.
     bind (call (sv_guac_db (sa_base sa))) (\<lambda>_.
     at_base (on_guac (reconcile_user_vm_guac_access db now uid vm)))))"

definition protocols_event :: "string list option \<Rightarrow> json" where
  "protocols_event p = (case p of None \<Rightarrow> JNull | Some ps \<Rightarrow> JArr (map JStr ps))"

definition expires_event :: "'w site_api \<Rightarrow> time option \<Rightarrow> json" where
  "expires_event sa e = json_opt (map_option (sa_iso sa) e)"

definition temporary_event :: "'w site_api \<Rightarrow> user_with_roles \<Rightarrow> string \<Rightarrow> user_with_roles \<Rightarrow> time option \<Rightarrow> string list option
    \<Rightarrow> ('w site, unit) comp" where
  "temporary_event sa u vm target expires protocols = do_when (expires \<noteq> None)
     (site_event sa (Some u) ''TEMPORARY_ACCESS_GRANTED'' (Some vm) (Some [(''targetUserId'', JStr (u_id target)),
        (''username'', JStr (u_username target)), (''expiresAt'', expires_event sa expires),
        (''protocols'', protocols_event protocols)]))"

definition grant_failed :: "'w site_api \<Rightarrow> user_with_roles \<Rightarrow> string \<Rightarrow> user_with_roles \<Rightarrow> app_error \<Rightarrow> ('w site, 'a) comp" where
  "grant_failed sa u vm target e =
     bind (at_iam (revoke_access vm (u_id target))) (\<lambda>_.
     bind (site_event sa (Some u) ''VM_ACCESS_GRANTED'' (Some vm) (Some [(''targetUserId'', JStr (u_id target)),
       (''username'', JStr (u_username target)), (''guacSynced'', JBool False), (''error'', JStr (err_message e))])) (\<lambda>_.
     throw e))"

definition msg_direct_grant :: string where
  "msg_direct_grant = ''This VM is privacy-flagged: access management requires a direct grant''"

definition direct_gate :: "'w site_api \<Rightarrow> user_with_roles \<Rightarrow> vm_row \<Rightarrow> ('w site, unit) comp" where
  "direct_gate sa u v = bind (gets (\<lambda>s. has_access (iam (db_of s)) (now_of sa s) (v_id v) (u_id u))) (\<lambda>ok.
     if v_privacy v \<and> \<not> ok then throw (err_forbidden msg_direct_grant) else ret ())"

definition grant_route ::
  "'w site_api \<Rightarrow> user_with_roles option \<Rightarrow> string \<Rightarrow> grant_body option \<Rightarrow> ('w site, bool \<times> string list option) comp" where
  "grant_route sa user i body =
     bind (allowed sa user [''vm.edit'']) (\<lambda>u.
     bind (the_vm i) (\<lambda>v.
     bind (direct_gate sa u v) (\<lambda>_.
     bind (parsed (Option.bind body (\<lambda>b. if grant_body_ok b then Some b else None))) (\<lambda>b.
     bind (grant_target sa b) (\<lambda>target.
     bind (gets (\<lambda>s. direct_entry (u_id target) (entries_of sa (v_id v) s))) (\<lambda>old.
     bind (gets (\<lambda>s. case old of None \<Rightarrow> False | Some e \<Rightarrow> is_live (ae_expires e) (now_of sa s))) (\<lambda>live.
     let protocols = (case gb_protocols b of Some ps \<Rightarrow> Some (dedup ps)
           | None \<Rightarrow> (case old of None \<Rightarrow> None | Some e \<Rightarrow> stored_protocols (ae_protocols e))) in
     bind (case gb_expires b of
         None \<Rightarrow> ret (case old of None \<Rightarrow> None | Some e \<Rightarrow> ae_expires e)
       | Some e \<Rightarrow> bind (future sa e) (\<lambda>t. ret (Some t))) (\<lambda>expires.
     bind (at_iam (replace_access (v_id v) (u_id target) protocols expires (Some (u_id u)))) (\<lambda>_.
     bind (try_catch (reconcile_access sa (u_id target) (v_id v)) (grant_failed sa u (v_id v) target)) (\<lambda>effective.
     bind (site_event sa (Some u) ''VM_ACCESS_GRANTED'' (Some (v_id v)) (Some [(''targetUserId'', JStr (u_id target)),
       (''username'', JStr (u_username target)), (''guacSynced'', JBool True), (''protocols'', protocols_event effective),
       (''expiresAt'', expires_event sa expires), (''alreadyAssigned'', JBool live)])) (\<lambda>_.
     bind (temporary_event sa u (v_id v) target expires effective) (\<lambda>_.
     ret (\<not> live, effective)))))))))))))"

subsection \<open>Invitations\<close>

definition MAX_DELEGATED_INVITE_MS :: int where
  "MAX_DELEGATED_INVITE_MS = 24 * 3600 * 1000"

definition invite_is_free :: "'w site_api \<Rightarrow> user_with_roles \<Rightarrow> vm_row \<Rightarrow> 'w site \<Rightarrow> bool" where
  "invite_is_free sa u v s \<longleftrightarrow> map_has (permissions (resolve_effective_access (iam (db_of s)) (now_of sa s) (u_id u))) ''vm.edit''
     \<or> v_created_by v = Some (u_id u)"

definition own_protocols :: "'w site_api \<Rightarrow> user_with_roles \<Rightarrow> string \<Rightarrow> 'w site \<Rightarrow> string list option" where
  "own_protocols sa u vm s = allowed_protocols (resolve_effective_access (iam (db_of s)) (now_of sa s) (u_id u)) vm"

text \<open>What a mere grantee may hand on: the protocols and the end of the invitation.\<close>

definition delegated_scope ::
  "'w site_api \<Rightarrow> user_with_roles \<Rightarrow> string \<Rightarrow> grant_body \<Rightarrow> ('w site, string list option \<times> time option) comp" where
  "delegated_scope sa u vm b = (case gb_expires b of
       None \<Rightarrow> throw (err_forbidden ''Delegated invites require an expiry within 24 hours; managers may grant permanent access'')
     | Some e \<Rightarrow>
         bind (future sa e) (\<lambda>t.
         bind (gets (now_of sa)) (\<lambda>now.
         if t - now > MAX_DELEGATED_INVITE_MS
         then throw (err_forbidden ''Delegated invites last at most 24 hours; managers may grant longer access'')
         else bind (gets (own_protocols sa u vm)) (\<lambda>own. case own of
            None \<Rightarrow> ret (map_option dedup (gb_protocols b), Some t)
          | Some ps \<Rightarrow>
             (if ps = [] then throw (err_forbidden ''You have no protocol access on this VM to delegate'')
              else let wanted = or_else (map_option dedup (gb_protocols b)) ps;
                       outside = filter (\<lambda>p. p \<notin> set ps) wanted in
                if outside \<noteq> []
                then throw (err_forbidden (''You cannot delegate protocol(s) you do not hold: '' @ join '', '' outside))
                else ret (Some wanted, Some t))))))"

definition free_scope :: "'w site_api \<Rightarrow> grant_body \<Rightarrow> ('w site, string list option \<times> time option) comp" where
  "free_scope sa b = (case gb_expires b of
       None \<Rightarrow> ret (map_option dedup (gb_protocols b), None)
     | Some e \<Rightarrow> bind (future sa e) (\<lambda>t. ret (map_option dedup (gb_protocols b), Some t)))"

text \<open>Guacamole follows where it can; the row stays either way.\<close>

definition invite_sync ::
  "'w site_api \<Rightarrow> string \<Rightarrow> string \<Rightarrow> string list option \<Rightarrow> ('w site, string list option \<times> string option) comp" where
  "invite_sync sa uid vm protocols =
     try_catch (bind (reconcile_access sa uid vm) (\<lambda>effective. ret (effective, None)))
       (\<lambda>e. ret (protocols, Some (err_message e)))"

definition invite_route ::
  "'w site_api \<Rightarrow> user_with_roles option \<Rightarrow> string \<Rightarrow> grant_body option \<Rightarrow> ('w site, string list option) comp" where
  "invite_route sa user i body =
     bind (authed user) (\<lambda>u.
     bind (the_vm i) (\<lambda>v.
     bind (gets (granted sa u v)) (\<lambda>ok.
     if \<not> ok then throw (err_forbidden ''Only someone with access to this VM can invite others'')
     else bind (parsed (Option.bind body (\<lambda>b. if grant_body_ok b then Some b else None))) (\<lambda>b.
     bind (grant_target sa b) (\<lambda>target.
     bind (gets (\<lambda>s. has_access (iam (db_of s)) (now_of sa s) (v_id v) (u_id target))) (\<lambda>has.
     if has then throw (err_conflict ''That user already has access; ask a manager to adjust it'')
     else bind (gets (invite_is_free sa u v)) (\<lambda>free.
     bind (if free then free_scope sa b else delegated_scope sa u (v_id v) b) (\<lambda>(protocols, expires).
     bind (at_iam (replace_access (v_id v) (u_id target) protocols expires (Some (u_id u)))) (\<lambda>_.
     bind (invite_sync sa (u_id target) (v_id v) protocols) (\<lambda>(effective, failure).
     bind (site_event sa (Some u) ''VM_ACCESS_GRANTED'' (Some (v_id v)) (Some ([(''targetUserId'', JStr (u_id target)),
       (''username'', JStr (u_username target)), (''guacSynced'', JBool (failure = None))]
       @ (case failure of None \<Rightarrow> [] | Some m \<Rightarrow> if m = [] then [] else [(''guacError'', JStr m)])
       @ [(''protocols'', protocols_event effective), (''expiresAt'', expires_event sa expires), (''invited'', JBool True)]))) (\<lambda>_.
     bind (temporary_event sa u (v_id v) target expires effective) (\<lambda>_.
     ret effective))))))))))))"

subsection \<open>Revocation\<close>

definition revoke_event ::
  "'w site_api \<Rightarrow> user_with_roles \<Rightarrow> string \<Rightarrow> string \<Rightarrow> string option \<Rightarrow> bool \<Rightarrow> (string \<times> json) list \<Rightarrow> ('w site, unit) comp" where
  "revoke_event sa u vm uid name synced extra = site_event sa (Some u) ''VM_ACCESS_REVOKED'' (Some vm)
     (Some ([(''targetUserId'', JStr uid), (''username'', json_opt name), (''guacSynced'', JBool synced)] @ extra))"

definition revoke_remote :: "'w site_api \<Rightarrow> string \<Rightarrow> string \<Rightarrow> ('w site, unit) comp" where
  "revoke_remote sa vm uid = bind (call (sv_guac_db (sa_base sa))) (\<lambda>_. at_base (on_guac (revoke_vm_access vm uid)))"

definition own_invite :: "'w site_api \<Rightarrow> user_with_roles \<Rightarrow> vm_row \<Rightarrow> string \<Rightarrow> 'w site \<Rightarrow> bool" where
  "own_invite sa u v uid s \<longleftrightarrow> list_ex (\<lambda>e. ae_group e = None \<and> ae_user e = uid \<and> ae_created_by e = Some (u_id u))
     (entries_of sa (v_id v) s) \<and> granted sa u v s"

definition revoke_route ::
  "'w site_api \<Rightarrow> user_with_roles option \<Rightarrow> string \<Rightarrow> string \<Rightarrow> ('w site, bool) comp" where
  "revoke_route sa user i uid =
     bind (authed user) (\<lambda>u.
     bind (the_vm i) (\<lambda>v.
     if \<not> is_uuid uid then throw (err_validation ''userId must be a valid UUID'')
     else bind (gets (own_invite sa u v uid)) (\<lambda>own.
     bind (if own then ret () else bind (allowed sa user [''vm.edit'']) (\<lambda>_. privacy_gate sa u v msg_direct_grant)) (\<lambda>_.
     bind (gets (\<lambda>s. has_access (iam (db_of s)) (now_of sa s) (v_id v) uid)) (\<lambda>assigned.
     bind (gets (\<lambda>s. map_option u_username (find_user (p_app (base_of s)) (now_of sa s) uid))) (\<lambda>name.
     bind (gets (\<lambda>s. find_user_record (p_guac (base_of s)) uid)) (\<lambda>account.
     if \<not> assigned \<and> account = None then ret False
     else bind (try_catch (revoke_remote sa (v_id v) uid)
            (\<lambda>e. bind (revoke_event sa u (v_id v) uid name False [(''error'', JStr (err_message e))]) (\<lambda>_. throw e))) (\<lambda>_.
          bind (at_iam (revoke_access (v_id v) uid)) (\<lambda>_.
          bind (do_when assigned (revoke_event sa u (v_id v) uid name True [])) (\<lambda>_.
          ret assigned))))))))))"

end
