(* ===== verification/Vm_Edits.thy ===== *)
theory Vm_Edits
  imports Sharing Worker
begin

text \<open>
  The HTTP routes of machines (\<open>apps/api/src/routes/vms.ts\<close>), third part: flags, addresses, size,
  schedules, share links, bulk actions and deletion.
\<close>

subsection \<open>Flags\<close>

definition privacy_route ::
  "'w site_api \<Rightarrow> user_with_roles option \<Rightarrow> string \<Rightarrow> bool option \<Rightarrow> ('w site, unit) comp" where
  "privacy_route sa user i body =
     bind (authed user) (\<lambda>u.
     bind (the_vm i) (\<lambda>v.
     bind (parsed body) (\<lambda>enabled.
     bind (\<lambda>s. (assert_may_change_privacy (db_of s) (now_of sa s) v (u_id u) (map role_name_of (u_roles u)) enabled, s)) (\<lambda>ok.
     bind (at_reg (modify (set_privacy_flag (v_id v) enabled))) (\<lambda>_.
     site_event sa (Some u) (if enabled then ''PRIVACY_ENABLED'' else ''PRIVACY_DISABLED'') (Some (v_id v))
       (Some [(''granted'', JBool ok)]))))))"

text \<open>The class is set on the registry with the schedules as they are now.\<close>

definition schedule_view :: "power_schedule list \<Rightarrow> schedule_row list" where
  "schedule_view t = map (\<lambda>r. \<lparr>sch_vm = ps_vm r, sch_enabled = tt_enabled r\<rparr>) t"

definition with_schedules :: "(vm_db, 'a) comp \<Rightarrow> ('w site, 'a) comp" where
  "with_schedules m = bind (gets (\<lambda>s. schedule_view (si_schedules s))) (\<lambda>t. at_reg (\<lambda>d. m (d\<lparr>schedules := t\<rparr>)))"

definition class_route ::
  "'w site_api \<Rightarrow> user_with_roles option \<Rightarrow> string \<Rightarrow> vm_class option \<Rightarrow> ('w site, bool) comp" where
  "class_route sa user i body =
     bind (allowed sa user [''vm.edit'']) (\<lambda>u.
     bind (the_vm i) (\<lambda>v.
     bind (privacy_gate sa u v msg_flagged) (\<lambda>_.
     bind (parsed body) (\<lambda>c.
     bind (with_schedules (set_vm_class (v_id v) c)) (\<lambda>changed.
     bind (do_when changed (site_event sa (Some u) ''VM_EDITED'' (Some (v_id v)) (Some [(''vmClass'', JStr (vm_class_str c))]))) (\<lambda>_.
     ret changed))))))"

definition boot_route ::
  "'w site_api \<Rightarrow> user_with_roles option \<Rightarrow> string \<Rightarrow> bool option \<Rightarrow> ('w site, unit) comp" where
  "boot_route sa user i body =
     bind (allowed sa user [''vm.edit'']) (\<lambda>u.
     bind (the_vm i) (\<lambda>v.
     bind (privacy_gate sa u v msg_flagged) (\<lambda>_.
     bind (parsed body) (\<lambda>enabled.
     bind (call (sv_client (sa_base sa))) (\<lambda>_.
     bind (on_host (apply_start_on_boot (sa_fw sa) v enabled)) (\<lambda>_.
     site_event sa (Some u) ''VM_START_ON_BOOT_CHANGED'' (Some (v_id v)) (Some [(''enabled'', JBool enabled)])))))))"

subsection \<open>Addresses\<close>

text \<open>The only error of \<open>updateIp\<close> is the unique violation.\<close>

definition ip_route :: "'w site_api \<Rightarrow> user_with_roles option \<Rightarrow> string \<Rightarrow> string option \<Rightarrow> ('w site, string) comp" where
  "ip_route sa user i body =
     bind (allowed sa user [''vm.edit'']) (\<lambda>u.
     bind (the_vm i) (\<lambda>v.
     bind (privacy_gate sa u v msg_flagged) (\<lambda>_.
     bind (parsed body) (\<lambda>ip.
     bind (\<lambda>s. (validate_ip_override (p_settings (base_of s)) (db_of s) ip (ADMIN \<in> set (u_roles u)) (Some (v_id v)), s)) (\<lambda>_.
     bind (try_catch (at_reg (update_ip (v_id v) (Some ip) (Some True)))
       (\<lambda>e. throw (err_conflict (''IP address '' @ ip @ '' is already recorded on another VM'')))) (\<lambda>_.
     bind (site_event sa (Some u) ''VM_EDITED'' (Some (v_id v)) (Some [(''ipOverride'', JStr ip)])) (\<lambda>_. ret ip)))))))"

datatype detection = Detected string | NotDetected string

definition os_of_guest :: "'w site_api \<Rightarrow> vm_row \<Rightarrow> ('w site, unit) comp" where
  "os_of_guest sa v = (if truthy (v_os_name v) then ret ()
     else bind (call (sv_os_info (sa_base sa) (v_node v) (v_vmid v))) (\<lambda>os.
       do_when (truthy os) (at_reg (modify (update_os_info (v_id v) os)))))"

definition detect_ip_route ::
  "'w site_api \<Rightarrow> user_with_roles option \<Rightarrow> string \<Rightarrow> ('w site, detection) comp" where
  "detect_ip_route sa user i =
     bind (allowed sa user [''vm.edit'']) (\<lambda>u.
     bind (the_vm i) (\<lambda>v.
     bind (privacy_gate sa u v msg_flagged) (\<lambda>_.
     bind (call (sv_client (sa_base sa))) (\<lambda>_.
     bind (try_catch (bind (call (sv_status (sa_base sa) (v_node v) (v_vmid v))) (\<lambda>st. ret (st = ''running'')))
        (\<lambda>e. ret (v_status v = VmRunning))) (\<lambda>running.
     if \<not> running then ret (NotDetected ''VM is not running'')
     else bind (call (sv_guest_ips (sa_base sa) (v_node v) (v_vmid v))) (\<lambda>agent. case agent of
        None \<Rightarrow> ret (NotDetected ''QEMU Guest Agent is not reachable (is it installed and running in the guest?)'')
      | Some a \<Rightarrow> (case select_usable_ipv4 (ag_ipv4s a) of
          None \<Rightarrow> ret (NotDetected ''Guest agent reported no usable LAN IPv4 address'')
        | Some ip \<Rightarrow>
            bind (try_catch (bind (at_reg (update_ip (v_id v) (Some ip) None)) (\<lambda>_. ret True)) (\<lambda>e. ret False)) (\<lambda>written.
            if \<not> written then ret (NotDetected (''Guest reports '' @ ip @ '', but that address is already recorded on another VM''))
            else bind (os_of_guest sa v) (\<lambda>_. ret (Detected ip))))))))))"

subsection \<open>Size and assignment\<close>

record edit_body =
  eb_cpu :: "int option"
  eb_ram :: "int option"
  eb_users :: "string list option"

definition within_ceilings :: "'w site_api \<Rightarrow> user_with_roles \<Rightarrow> edit_body \<Rightarrow> ('w site, unit) comp" where
  "within_ceilings sa u b = (if ADMIN \<in> set (u_roles u) then ret ()
     else bind (\<lambda>s. (get_provision_ceilings (p_settings (base_of s)), s)) (\<lambda>c.
       if (case (eb_cpu b, max_cpu c) of (Some n, Some m) \<Rightarrow> n > m | _ \<Rightarrow> False)
       then throw (err_validation (''CPU request ('' @ int_str (the (eb_cpu b)) @ '') exceeds the configured maximum (''
              @ int_str (the (max_cpu c)) @ '')''))
       else if (case (eb_ram b, max_ram c) of (Some n, Some m) \<Rightarrow> n > m | _ \<Rightarrow> False)
       then throw (err_validation (''RAM request ('' @ int_str (the (eb_ram b)) @ '' MB) exceeds the configured maximum (''
              @ int_str (the (max_ram c)) @ '' MB)''))
       else ret ()))"

definition resize :: "'w site_api \<Rightarrow> user_with_roles \<Rightarrow> vm_row \<Rightarrow> edit_body \<Rightarrow> ('w site, unit) comp" where
  "resize sa u v b = (if eb_cpu b = None \<and> eb_ram b = None then ret ()
     else bind (within_ceilings sa u b) (\<lambda>_.
       bind (call (sv_client (sa_base sa))) (\<lambda>_.
       bind (call (sv_update_config (sa_base sa) (v_node v) (v_vmid v)
          ((case eb_cpu b of None \<Rightarrow> [] | Some n \<Rightarrow> [(''cores'', CfgNum n)])
           @ (case eb_ram b of None \<Rightarrow> [] | Some n \<Rightarrow> [(''memory'', CfgNum n)])))) (\<lambda>upid.
       bind (await sa (v_node v) upid 120000) (\<lambda>_.
       try_catch (bind (call (da_config (sa_drift sa) (v_node v) (v_vmid v))) (\<lambda>live.
           bind (on_drift (bump_hardware_snapshot (sa_drift sa) (v_id v) (json_field live ''cores'') (json_field live ''memory'')
             (json_field live ''net''))) (\<lambda>_. ret ()))) (\<lambda>e. ret ()))))))"

definition live_direct :: "access_entry list \<Rightarrow> time \<Rightarrow> string list" where
  "live_direct es now = map ae_user (filter (\<lambda>e. ae_group e = None \<and> is_live (ae_expires e) now) es)"

definition sync_grant ::
  "'w site_api \<Rightarrow> string \<Rightarrow> user_with_roles \<Rightarrow> ('w site, string list) comp" where
  "sync_grant sa vm target =
     bind (call (sv_guac_db (sa_base sa))) (\<lambda>_.
     bind (at_base (guac_user (sa_base sa) (u_id target) (u_username target))) (\<lambda>_.
     bind (at_base (on_guac (grant_vm_access vm (u_id target)))) (\<lambda>_.
     gets (\<lambda>s. map gc_protocol (list_connection_records (p_guac (base_of s)) vm)))))"

definition assign_one ::
  "'w site_api \<Rightarrow> user_with_roles \<Rightarrow> vm_row \<Rightarrow> access_entry list \<Rightarrow> string
   \<Rightarrow> ('w site, unit) comp" where
  "assign_one sa u v es uid =
     bind (gets (\<lambda>s. find_user (p_app (base_of s)) (now_of sa s) uid)) (\<lambda>t. case t of
        None \<Rightarrow> ret ()
      | Some target \<Rightarrow>
         bind (sync_grant sa (v_id v) target) (\<lambda>protocols.
         let scope = merge_grant_scope (map_option (\<lambda>e. (ae_protocols e, ae_expires e)) (direct_entry (u_id target) es)) (JNull, None) in
         bind (at_iam (replace_access (v_id v) (u_id target) (stored_protocols (fst scope)) (snd scope) (Some (u_id u)))) (\<lambda>_.
         site_event sa (Some u) ''VM_ACCESS_GRANTED'' (Some (v_id v)) (Some [(''targetUserId'', JStr (u_id target)),
           (''username'', JStr (u_username target)), (''guacSynced'', JBool True), (''protocols'', JArr (map JStr protocols))]))))"

definition unassign_one :: "'w site_api \<Rightarrow> user_with_roles \<Rightarrow> vm_row \<Rightarrow> access_entry \<Rightarrow> ('w site, unit) comp" where
  "unassign_one sa u v e =
     bind (at_base (on_guac (revoke_vm_access (v_id v) (ae_user e)))) (\<lambda>_.
     bind (at_iam (revoke_access (v_id v) (ae_user e))) (\<lambda>_.
     site_event sa (Some u) ''VM_ACCESS_REVOKED'' (Some (v_id v)) (Some [(''targetUserId'', JStr (ae_user e)),
       (''guacSynced'', JBool True)])))"

definition assign ::
  "'w site_api \<Rightarrow> user_with_roles \<Rightarrow> vm_row \<Rightarrow> string list \<Rightarrow> ('w site, unit) comp" where
  "assign sa u v ids =
     bind (gets (entries_of sa (v_id v))) (\<lambda>es.
     bind (gets (\<lambda>s. live_direct es (now_of sa s))) (\<lambda>live.
     bind (call (sv_guac_db (sa_base sa))) (\<lambda>_.
     bind (for_each (filter (\<lambda>i. i \<notin> set live) ids) (assign_one sa u v es)) (\<lambda>_.
     for_each (filter (\<lambda>e. ae_group e = None \<and> ae_user e \<notin> set ids) es) (unassign_one sa u v)))))"

definition edit_route ::
  "'w site_api \<Rightarrow> user_with_roles option \<Rightarrow> string \<Rightarrow> edit_body option
   \<Rightarrow> ('w site, unit) comp" where
  "edit_route sa user i body =
     bind (must_see sa user i msg_forbidden) (\<lambda>_.
     bind (allowed sa user [''vm.edit'']) (\<lambda>u.
     bind (the_vm i) (\<lambda>v.
     bind (parsed body) (\<lambda>b.
     bind (resize sa u v b) (\<lambda>_.
     bind (case eb_users b of None \<Rightarrow> ret () | Some ids \<Rightarrow> assign sa u v ids) (\<lambda>_.
     site_event sa (Some u) ''VM_EDITED'' (Some (v_id v)) (Some
       ((case eb_cpu b of None \<Rightarrow> [] | Some n \<Rightarrow> [(''cpu'', JNum n)])
        @ (case eb_ram b of None \<Rightarrow> [] | Some n \<Rightarrow> [(''ramMb'', JNum n)])))))))))"

subsection \<open>Deletion\<close>

definition gone_already :: "string \<Rightarrow> bool" where
  "gone_already m \<longleftrightarrow> list_ex (contains_str (to_lower m)) [''does not exist'', ''not found'', ''404'']"

definition destroy_guest :: "'w site_api \<Rightarrow> vm_row \<Rightarrow> ('w site, unit) comp" where
  "destroy_guest sa v =
     bind (call (sv_status (sa_base sa) (v_node v) (v_vmid v))) (\<lambda>st.
     bind (do_when (st = ''running'') (bind (call (pw_stop (sa_power sa) (v_node v) (v_vmid v) 60)) (\<lambda>upid.
        await sa (v_node v) upid 180000))) (\<lambda>_.
     bind (call (sa_remove sa (v_node v) (v_vmid v))) (\<lambda>upid. await sa (v_node v) upid 180000)))"

definition msg_not_deleted :: string where
  "msg_not_deleted = ''Proxmox VM deletion failed, nothing was removed from ProxVM records: ''"

text \<open>A statement that the database may refuse.\<close>

definition stored :: "'w site_api \<Rightarrow> ('w site, 'a) comp \<Rightarrow> ('w site, 'a) comp" where
  "stored sa m = bind (call (sa_store sa)) (\<lambda>_. m)"

text \<open>\<open>deleteVmResources\<close> (\<open>services/guacamole.ts\<close>) where either database may fail at any connection.\<close>

definition drop_connection :: "'w site_api \<Rightarrow> guac_conn_row \<Rightarrow> ('w site, unit) comp" where
  "drop_connection sa r =
     bind (gets (\<lambda>s. is_connection_name_shared (p_guac (base_of s)) r)) (\<lambda>shared.
     bind (try_catch (do_when (\<not> shared) (bind (call (sa_unlink sa (gc_name r))) (\<lambda>_.
              at_base (on_guac (Guac.remote (\<lambda>g. snd (delete_connection (gc_name r) g)))))))
            (\<lambda>e. throw (err_external ''Guacamole'' (''Failed to delete Guacamole connection: '' @ err_message e)))) (\<lambda>_.
     stored sa (at_base (on_guac (modify (\<lambda>s. s\<lparr>gs_conns := table_delete (\<lambda>x. gc_id x = gc_id r) (gs_conns s)\<rparr>))))))"

definition drop_connections :: "'w site_api \<Rightarrow> string \<Rightarrow> ('w site, unit) comp" where
  "drop_connections sa vm =
     bind (gets (\<lambda>s. list_connection_records (p_guac (base_of s)) vm)) (\<lambda>records. for_each records (drop_connection sa))"

definition clean_guac :: "'w site_api \<Rightarrow> vm_row \<Rightarrow> ('w site, unit) comp" where
  "clean_guac sa v =
     try_catch (bind (call (sv_guac_db (sa_base sa))) (\<lambda>_. drop_connections sa (v_id v)))
       (\<lambda>e. throw (AppError GUACAMOLE_ERROR (''Proxmox VM was deleted but Guacamole cleanup failed: '' @ err_message e) 502))"

text \<open>Four statements, one after another and in no transaction.\<close>

definition forget_credential :: "vm_row \<Rightarrow> ('w site, unit) comp" where
  "forget_credential v = at_base (modify (\<lambda>b. b\<lparr>p_creds := cred_delete (v_id v) (p_creds b)\<rparr>))"

definition forget_power :: "'w site_api \<Rightarrow> vm_row \<Rightarrow> ('w site, unit) comp" where
  "forget_power sa v = bind (gets (now_of sa)) (\<lambda>now.
     on_drift (modify (\<lambda>d. d\<lparr>ds_periods := snd (close_power_period now (v_id v) (ds_periods d))\<rparr>)))"

definition forget_record :: "'w site_api \<Rightarrow> vm_row \<Rightarrow> ('w site, unit) comp" where
  "forget_record sa v = bind (gets (now_of sa)) (\<lambda>now. at_reg (modify (soft_delete now (v_id v))))"

definition forget_grants :: "vm_row \<Rightarrow> ('w site, nat) comp" where
  "forget_grants v = at_reg (\<lambda>d. case revoke_all_access (v_id v) (iam d) of (n, a) \<Rightarrow> (Inr n, d\<lparr>iam := a\<rparr>))"

definition forget_vm :: "'w site_api \<Rightarrow> user_with_roles \<Rightarrow> vm_row \<Rightarrow> ('w site, unit) comp" where
  "forget_vm sa u v =
     bind (stored sa (forget_credential v)) (\<lambda>_.
     bind (stored sa (forget_power sa v)) (\<lambda>_.
     bind (stored sa (forget_record sa v)) (\<lambda>_.
     bind (stored sa (forget_grants v)) (\<lambda>n.
     stored sa (site_event sa (Some u) ''VM_DELETED'' (Some (v_id v)) (Some [(''vmid'', JNum (v_vmid v)),
       (''node'', JStr (v_node v)), (''removedAccess'', JNum (int n))]))))))"

definition delete_route ::
  "'w site_api \<Rightarrow> user_with_roles option \<Rightarrow> string \<Rightarrow> string option \<Rightarrow> ('w site, unit) comp" where
  "delete_route sa user i body =
     bind (allowed sa user [''vm.delete'']) (\<lambda>u.
     bind (the_vm i) (\<lambda>v.
     bind (privacy_gate sa u v msg_flagged) (\<lambda>_.
     bind (parsed body) (\<lambda>confirm.
     if confirm \<noteq> ''DELETE '' @ v_name v
     then throw (err_validation (''Confirmation text must be exactly: DELETE '' @ v_name v))
     else bind (call (sv_client (sa_base sa))) (\<lambda>_.
     bind (try_catch (destroy_guest sa v) (\<lambda>e. if gone_already (err_message e) then ret ()
        else throw (AppError PROXMOX_ERROR (msg_not_deleted @ err_message e) 502))) (\<lambda>_.
     bind (clean_guac sa v) (\<lambda>_.
     forget_vm sa u v)))))))"

end
