(* ===== verification/Vm_Bulk.thy ===== *)
theory Vm_Bulk
  imports Vm_Edits Settings
begin

text \<open>
  The HTTP routes of machines (\<open>apps/api/src/routes/vms.ts\<close>), fourth part: the bulk actions. An
  item that fails becomes an entry of the answer. The entry permission is asked once; whether
  the account may touch a machine is asked per machine, before any action runs.
\<close>

datatype bulk_action = BulkStart | BulkStop | BulkRestart | BulkPrivacy | BulkClass | BulkIsolation | BulkBoot

record bulk_body =
  bb_ids :: "string list"
  bb_action :: bulk_action
  bb_enabled :: "bool option"
  bb_class :: "vm_class option"
  bb_allow_from :: "string option"
  bb_dns_to :: "string option"
  bb_internet :: "bool option"

record bulk_result =
  br_vm :: string
  br_ok :: bool
  br_error :: "string option"
  br_private :: "bool option"
  br_granted :: "bool option"
  br_class :: "string option"
  br_rules :: "nat option"

definition bulk_ok :: "string \<Rightarrow> bulk_result" where
  "bulk_ok i = \<lparr>br_vm = i, br_ok = True, br_error = None, br_private = None, br_granted = None, br_class = None, br_rules = None\<rparr>"

definition bulk_fail :: "string \<Rightarrow> string \<Rightarrow> bulk_result" where
  "bulk_fail i m = (bulk_ok i)\<lparr>br_ok := False, br_error := Some m\<rparr>"

definition bulk_body_ok :: "bulk_body \<Rightarrow> bool" where
  "bulk_body_ok b \<longleftrightarrow> 1 \<le> length (bb_ids b) \<and> length (bb_ids b) \<le> 50 \<and> list_all is_uuid (bb_ids b)
     \<and> (case bb_allow_from b of None \<Rightarrow> True | Some x \<Rightarrow> length x \<le> 128)
     \<and> (case bb_dns_to b of None \<Rightarrow> True | Some x \<Rightarrow> length x \<le> 128)"

fun action_name :: "bulk_action \<Rightarrow> string" where
  "action_name BulkStart = ''start''"
| "action_name BulkStop = ''stop''"
| "action_name BulkRestart = ''restart''"
| "action_name BulkPrivacy = ''privacy''"
| "action_name BulkClass = ''class''"
| "action_name BulkIsolation = ''isolation''"
| "action_name BulkBoot = ''start-on-boot''"

definition dquoted :: "string \<Rightarrow> string" where
  "dquoted s = [CHR 0x22] @ s @ [CHR 0x22]"

definition bulk_target :: "bulk_body \<Rightarrow> ('w site, unit) comp" where
  "bulk_target b = (
     if bb_action b \<in> {BulkPrivacy, BulkIsolation, BulkBoot} \<and> bb_enabled b = None
     then throw (err_validation (''The '' @ dquoted (action_name (bb_action b)) @ '' action requires an explicit '' @ dquoted ''enabled'' @ '' target''))
     else if bb_action b = BulkClass \<and> bb_class b = None
     then throw (err_validation (''The '' @ dquoted ''class'' @ '' action requires an explicit '' @ dquoted ''vmClass'' @ '' target''))
     else ret ())"

fun bulk_permissions :: "bulk_action \<Rightarrow> string list option" where
  "bulk_permissions BulkPrivacy = None"
| "bulk_permissions BulkStart = Some [''vm.manage'', ''vm.start'']"
| "bulk_permissions BulkStop = Some [''vm.manage'', ''vm.stop'']"
| "bulk_permissions BulkRestart = Some [''vm.manage'', ''vm.restart'']"
| "bulk_permissions _ = Some [''vm.edit'']"

definition bulk_entry :: "'w site_api \<Rightarrow> user_with_roles option \<Rightarrow> bulk_action \<Rightarrow> ('w site, user_with_roles) comp" where
  "bulk_entry sa user a = (case bulk_permissions a of None \<Rightarrow> authed user | Some ps \<Rightarrow> allowed sa user ps)"

text \<open>The batch functions of the services give one answer per machine and never throw.\<close>

definition batch :: "('s \<Rightarrow> 'a \<times> 's) \<Rightarrow> ('s, 'a) comp" where
  "batch f s = (case f s of (x, t) \<Rightarrow> (Inr x, t))"

fun collect :: "('x \<Rightarrow> ('s, 'b) comp) \<Rightarrow> 'x list \<Rightarrow> ('s, 'b list) comp" where
  "collect f [] = ret []"
| "collect f (x # xs) = bind (f x) (\<lambda>y. bind (collect f xs) (\<lambda>ys. ret (y # ys)))"

definition privacy_answer ::
  "'w site_api \<Rightarrow> user_with_roles \<Rightarrow> bool \<Rightarrow> string \<times> bool res \<Rightarrow> ('w site, bulk_result) comp" where
  "privacy_answer sa u enabled x = (case snd x of
       Inl e \<Rightarrow> ret (bulk_fail (fst x) (err_message e))
     | Inr g \<Rightarrow> bind (site_event sa (Some u) (if enabled then ''PRIVACY_ENABLED'' else ''PRIVACY_DISABLED'') (Some (fst x))
           (Some [(''bulk'', JBool True), (''granted'', JBool g)])) (\<lambda>_.
         ret ((bulk_ok (fst x))\<lparr>br_private := Some enabled, br_granted := Some g\<rparr>)))"

definition bulk_privacy ::
  "'w site_api \<Rightarrow> user_with_roles \<Rightarrow> string list \<Rightarrow> bool \<Rightarrow> ('w site, bulk_result list) comp" where
  "bulk_privacy sa u ids enabled =
     bind (gets (now_of sa)) (\<lambda>now.
     bind (at_reg (batch (bulk_set_privacy now ids enabled (u_id u) (map role_name_of (u_roles u))))) (\<lambda>items.
     collect (privacy_answer sa u enabled) items))"

definition class_answer ::
  "'w site_api \<Rightarrow> user_with_roles \<Rightarrow> vm_class \<Rightarrow> string \<times> bool res \<Rightarrow> ('w site, bulk_result) comp" where
  "class_answer sa u c x = (case snd x of
       Inl e \<Rightarrow> ret (bulk_fail (fst x) (err_message e))
     | Inr changed \<Rightarrow> bind (do_when changed (site_event sa (Some u) ''VM_EDITED'' (Some (fst x))
           (Some [(''vmClass'', JStr (vm_class_str c)), (''bulk'', JBool True)]))) (\<lambda>_.
         ret ((bulk_ok (fst x))\<lparr>br_class := Some (vm_class_str c)\<rparr>)))"

definition bulk_class ::
  "'w site_api \<Rightarrow> user_with_roles \<Rightarrow> string list \<Rightarrow> vm_class \<Rightarrow> ('w site, bulk_result list) comp" where
  "bulk_class sa u ids c = bind (with_schedules (batch (bulk_set_vm_class ids c))) (collect (class_answer sa u c))"

text \<open>
  \<open>sa_host\<close> is the host name of a URL, \<open>None\<close> where the constructor of \<open>URL\<close> throws.
\<close>

definition guacd_host_from_settings :: "(string \<Rightarrow> string option) \<Rightarrow> string option \<Rightarrow> string option" where
  "guacd_host_from_settings host url = (if \<not> truthy url then None
     else case host (the url) of None \<Rightarrow> None
        | Some h \<Rightarrow> if to_lower (trim h) = [] then None else Some (to_lower (trim h)))"

definition guac_address :: "'w site \<Rightarrow> string option res" where
  "guac_address s = rbind (guacamole_projection (\<lambda>k. Inr (p_settings (base_of s) k))) (\<lambda>g. Inr (map_option gs_url g))"

definition isolation_opts :: "(string \<Rightarrow> string option) \<Rightarrow> bulk_body \<Rightarrow> ('w site, isolation_options) comp" where
  "isolation_opts host b = bind (\<lambda>s. (guac_address s, s)) (\<lambda>address.
     ret \<lparr>io_allow_from = (if truthy (map_option trim (bb_allow_from b)) then map_option trim (bb_allow_from b)
            else guacd_host_from_settings host address),
       io_inbound_ports = None,
       io_dns_to = (if truthy (map_option trim (bb_dns_to b)) then map_option trim (bb_dns_to b) else None),
       io_internet = bb_internet b, io_extra = []\<rparr>)"

definition isolation_answer ::
  "'w site_api \<Rightarrow> user_with_roles \<Rightarrow> bool \<Rightarrow> isolation_options \<Rightarrow> string \<times> nat res \<Rightarrow> ('w site, bulk_result) comp" where
  "isolation_answer sa u enabled opts x = (case snd x of
       Inl e \<Rightarrow> bind (site_event sa (Some u) ''VM_FIREWALL_CHANGED'' (Some (fst x)) (Some [(''isolated'', JBool enabled),
           (''bulk'', JBool True), (''applied'', JBool False), (''error'', JStr (err_message e))])) (\<lambda>_.
         ret (bulk_fail (fst x) (err_message e)))
     | Inr n \<Rightarrow> bind (site_event sa (Some u) ''VM_FIREWALL_CHANGED'' (Some (fst x)) (Some [(''isolated'', JBool enabled),
           (''bulk'', JBool True), (''applied'', JBool True), (''rules'', JNum (int n)),
           (''allowFrom'', json_opt (io_allow_from opts))])) (\<lambda>_.
         ret ((bulk_ok (fst x))\<lparr>br_rules := Some n\<rparr>)))"

text \<open>Without a Proxmox client every authorized machine gets the error of the client.\<close>

definition with_client ::
  "'w site_api \<Rightarrow> string list \<Rightarrow> bulk_result list \<Rightarrow> ('w site, bulk_result list) comp
   \<Rightarrow> ('w site, bulk_result list \<times> bool) comp" where
  "with_client sa authorized refused go =
     bind (try_catch (bind (call (sv_client (sa_base sa))) (\<lambda>_. ret None)) (\<lambda>e. ret (Some e))) (\<lambda>failure. case failure of
        Some e \<Rightarrow> ret (map (\<lambda>i. bulk_fail i (err_message e)) authorized @ refused, False)
      | None \<Rightarrow> bind go (\<lambda>rs. ret (rs, True)))"

definition bulk_isolation ::
  "'w site_api \<Rightarrow> (string \<Rightarrow> string option) \<Rightarrow> user_with_roles \<Rightarrow> bulk_body \<Rightarrow> string list \<Rightarrow> bool \<Rightarrow> bulk_result list
   \<Rightarrow> ('w site, bulk_result list \<times> bool) comp" where
  "bulk_isolation sa host u b ids enabled refused =
     bind (isolation_opts host b) (\<lambda>opts.
     with_client sa ids refused
       (bind (on_host (batch (bulk_set_isolation (sa_fw sa) ids enabled (Some opts))))
         (collect (isolation_answer sa u enabled opts))))"

definition boot_answer ::
  "'w site_api \<Rightarrow> user_with_roles \<Rightarrow> bool \<Rightarrow> string \<times> unit res \<Rightarrow> ('w site, bulk_result) comp" where
  "boot_answer sa u enabled x = (case snd x of
       Inl e \<Rightarrow> ret (bulk_fail (fst x) (err_message e))
     | Inr _ \<Rightarrow> bind (site_event sa (Some u) ''VM_START_ON_BOOT_CHANGED'' (Some (fst x))
           (Some [(''enabled'', JBool enabled), (''bulk'', JBool True)])) (\<lambda>_. ret (bulk_ok (fst x))))"

definition bulk_boot ::
  "'w site_api \<Rightarrow> user_with_roles \<Rightarrow> string list \<Rightarrow> bool \<Rightarrow> bulk_result list \<Rightarrow> ('w site, bulk_result list \<times> bool) comp" where
  "bulk_boot sa u ids enabled refused = with_client sa ids refused
     (bind (on_host (batch (bulk_set_start_on_boot (sa_fw sa) ids enabled))) (collect (boot_answer sa u enabled)))"

definition power_now :: "'w site_api \<Rightarrow> user_with_roles \<Rightarrow> bulk_action \<Rightarrow> string \<Rightarrow> ('w site, unit) comp" where
  "power_now sa u a i =
     bind (the_vm i) (\<lambda>v.
     bind (call (sv_client (sa_base sa))) (\<lambda>_.
     if a = BulkStart then
       bind (call (pw_start (sa_power sa) (v_node v) (v_vmid v))) (\<lambda>upid.
       bind (await sa (v_node v) upid 120000) (\<lambda>_.
       bind (set_power v VmRunning) (\<lambda>_. site_event sa (Some u) ''VM_STARTED'' (Some (v_id v)) None)))
     else if a = BulkStop then
       bind (call (sa_shutdown sa (v_node v) (v_vmid v))) (\<lambda>upid.
       bind (await sa (v_node v) upid 120000) (\<lambda>_.
       bind (set_power v VmStopped) (\<lambda>_. site_event sa (Some u) ''VM_STOPPED'' (Some (v_id v)) None)))
     else
       bind (call (pw_reboot (sa_power sa) (v_node v) (v_vmid v))) (\<lambda>upid.
       bind (await sa (v_node v) upid 180000) (\<lambda>_.
       site_event sa (Some u) ''VM_RESTARTED'' (Some (v_id v)) None))))"

definition power_answer :: "'w site_api \<Rightarrow> user_with_roles \<Rightarrow> bulk_action \<Rightarrow> string \<Rightarrow> ('w site, bulk_result) comp" where
  "power_answer sa u a i = try_catch (bind (power_now sa u a i) (\<lambda>_. ret (bulk_ok i))) (\<lambda>e. ret (bulk_fail i (err_message e)))"

definition msg_no_access :: string where
  "msg_no_access = ''No access to this VM''"

text \<open>The answers in the order the caller asked; \<open>byId\<close> keeps the last answer of a machine.\<close>

definition in_order :: "string list \<Rightarrow> bulk_result list \<Rightarrow> bulk_result list" where
  "in_order ids rs = map (\<lambda>i. or_else (find (\<lambda>r. br_vm r = i) (rev rs)) (bulk_fail i ''not processed'')) ids"

definition bulk_run ::
  "'w site_api \<Rightarrow> (string \<Rightarrow> string option) \<Rightarrow> user_with_roles \<Rightarrow> bulk_body \<Rightarrow> string list \<Rightarrow> bulk_result list
   \<Rightarrow> ('w site, bulk_result list \<times> bool) comp" where
  "bulk_run sa host u b ids refused = (case bb_action b of
       BulkClass \<Rightarrow> bind (bulk_class sa u ids (or_else (bb_class b) ServerClass)) (\<lambda>rs. ret (rs, True))
     | BulkIsolation \<Rightarrow> bulk_isolation sa host u b ids (or_else (bb_enabled b) False) refused
     | BulkBoot \<Rightarrow> bulk_boot sa u ids (or_else (bb_enabled b) False) refused
     | a \<Rightarrow> bind (collect (power_answer sa u a) ids) (\<lambda>rs. ret (rs, True)))"

definition bulk_route ::
  "'w site_api \<Rightarrow> (string \<Rightarrow> string option) \<Rightarrow> user_with_roles option \<Rightarrow> bulk_body option
   \<Rightarrow> ('w site, bulk_result list) comp" where
  "bulk_route sa host user body =
     bind (parsed (Option.bind body (\<lambda>b. if bulk_body_ok b then Some b else None))) (\<lambda>b.
     bind (bulk_target b) (\<lambda>_.
     bind (bulk_entry sa user (bb_action b)) (\<lambda>u.
     let ids = dedup (bb_ids b) in
     if bb_action b = BulkPrivacy then bulk_privacy sa u ids (or_else (bb_enabled b) False)
     else
       bind (gets (\<lambda>s. filter (\<lambda>i. sees sa u i s) ids)) (\<lambda>authorized.
       let refused = map (\<lambda>i. bulk_fail i msg_no_access) (filter (\<lambda>i. i \<notin> set authorized) ids) in
       bind (bulk_run sa host u b authorized refused) (\<lambda>(rs, whole).
       ret (if whole then in_order ids (rs @ refused) else rs))))))"

end
