(* ===== verification/Launch.thy ===== *)
theory Launch
  imports Vm_Bulk
begin

text \<open>
  Opening a session on a machine: the launch URLs (\<open>guacamole/api.ts\<close>), the minting of a token
  (\<open>GuacamoleService.launch\<close>), the start of a stopped machine (\<open>services/launch.ts\<close>), the
  launch and deletion routes of \<open>apps/api/src/routes/guacamole.ts\<close>, and the redemption of a
  share link (\<open>GET /s/:token\<close> in \<open>apps/api/src/routes/vms.ts\<close>). Strings are the bytes of their
  UTF-8 text.
\<close>

subsection \<open>Launch URLs\<close>

text \<open>Base64, with the padding that \<open>Buffer\<close> writes.\<close>

definition B64 :: string where
  "B64 = ''ABCDEFGHIJKLMNOPQRSTUVWXYZabcdefghijklmnopqrstuvwxyz0123456789+/''"

fun sextets :: "nat list \<Rightarrow> nat list" where
  "sextets [] = []"
| "sextets [a] = [a div 4, (a mod 4) * 16]"
| "sextets [a, b] = [a div 4, (a mod 4) * 16 + b div 16, (b mod 16) * 4]"
| "sextets (a # b # c # r) =
     [a div 4, (a mod 4) * 16 + b div 16, (b mod 16) * 4 + c div 64, c mod 64] @ sextets r"

definition base64 :: "string \<Rightarrow> string" where
  "base64 s = map (\<lambda>n. B64 ! n) (sextets (map of_char s))
     @ (case length s mod 3 of 0 \<Rightarrow> [] | Suc 0 \<Rightarrow> ''=='' | _ \<Rightarrow> ''='')"

fun strip_pad_rev :: "string \<Rightarrow> string" where
  "strip_pad_rev [] = []"
| "strip_pad_rev (c # cs) = (if c = CHR ''='' then strip_pad_rev cs else c # cs)"

definition encode_client_identifier :: "string \<Rightarrow> string \<Rightarrow> string \<Rightarrow> string" where
  "encode_client_identifier identifier source kind =
     (let raw = base64 (join [CHR 0x00] [identifier, kind, source]);
          bare = rev (strip_pad_rev (rev raw))
      in join ''_'' (split_on CHR ''/'' (join ''-'' (split_on CHR ''+'' bare))))"

definition unreserved :: "char \<Rightarrow> bool" where
  "unreserved c \<longleftrightarrow> (let n = (of_char c :: nat) in is_digit c \<or> (97 \<le> n \<and> n \<le> 122) \<or> (65 \<le> n \<and> n \<le> 90)
     \<or> c \<in> set ''-_.!~*()'' \<or> n = 39)"

definition uri_component :: "string \<Rightarrow> string" where
  "uri_component s = concat (map (\<lambda>c. if unreserved c then [c]
     else [CHR 0x25, ''0123456789ABCDEF'' ! (of_char c div 16), ''0123456789ABCDEF'' ! (of_char c mod 16)]) s)"

definition build_client_launch_url :: "string \<Rightarrow> string \<Rightarrow> string \<Rightarrow> string \<Rightarrow> string" where
  "build_client_launch_url url identifier token source =
     strip_trailing_slashes url @ ''/#/client/'' @ encode_client_identifier identifier source ''c'' @ ''?token='' @ uri_component token"

definition build_login_url :: "string \<Rightarrow> string" where
  "build_login_url url = strip_trailing_slashes url @ ''/''"

subsection \<open>Minting a token\<close>

text \<open>
  The REST client of Guacamole. \<open>ga_tokens\<close> is the reply to a login, an error when the request
  does not get through: the status, whether it is a success, the text of the reply and its JSON.
  \<open>ga_connections\<close> lists identifiers and names. \<open>ga_store\<close> is the answer of the application's
  database to a statement on the table of tokens, which takes effect when it is no error.
\<close>

record 'w guac_api =
  ga_tokens :: "string \<Rightarrow> string \<Rightarrow> ('w, int \<times> bool \<times> string \<times> json) comp"
  ga_connections :: "string \<Rightarrow> string \<Rightarrow> ('w, (string \<times> string) list) comp"
  ga_delete :: "string \<Rightarrow> ('w, unit) comp"
  ga_store :: "('w, unit) comp"

text \<open>
  Whether a value counts as true, and \<open>String\<close> of it. The model keeps no digits of a number that is
  not whole, so such a number has one fixed text.
\<close>

fun counts_as_true :: "json \<Rightarrow> bool" where
  "counts_as_true JUndefined = False"
| "counts_as_true JNull = False"
| "counts_as_true (JBool b) = b"
| "counts_as_true (JNum n) = (n \<noteq> 0)"
| "counts_as_true (JStr s) = (s \<noteq> [])"
| "counts_as_true _ = True"

fun js_text :: "json \<Rightarrow> string" where
  "js_text JUndefined = ''undefined''"
| "js_text JNull = ''null''"
| "js_text (JBool b) = (if b then ''true'' else ''false'')"
| "js_text (JNum n) = int_str n"
| "js_text JFrac = ''0.5''"
| "js_text (JStr s) = s"
| "js_text (JArr vs) = join '','' (map (\<lambda>v. if v = JNull \<or> v = JUndefined then [] else js_text v) vs)"
| "js_text (JObj _) = ''[object Object]''"

definition text_field :: "json \<Rightarrow> string \<Rightarrow> string option" where
  "text_field v k = (if counts_as_true (json_field v k) then Some (js_text (json_field v k)) else None)"

definition guac_error :: "string \<Rightarrow> app_error" where
  "guac_error m = AppError INTERNAL_ERROR m 500"

definition msg_no_token :: string where
  "msg_no_token = ''Guacamole returned an unrecognized token response. Ensure the Guacamole version supports /api/tokens (1.4+).''"

definition request_token :: "'w guac_api \<Rightarrow> string \<Rightarrow> string \<Rightarrow> ('w, string \<times> string) comp" where
  "request_token ga name password =
     bind (try_catch (ga_tokens ga name password) (\<lambda>e. throw (guac_error ''Cannot reach the Guacamole web application.'')))
       (\<lambda>(status, ok, body, payload).
     if \<not> ok then throw (guac_error (''Guacamole rejected the login (HTTP '' @ int_str status @ ''): '' @ take 300 body))
     else case (text_field payload ''authToken'', text_field payload ''username'', text_field payload ''dataSource'') of
         (Some token, Some _, Some source) \<Rightarrow> ret (token, source)
       | _ \<Rightarrow> throw (guac_error msg_no_token))"

definition find_connection_identifier :: "'w guac_api \<Rightarrow> string \<Rightarrow> string \<Rightarrow> string \<Rightarrow> ('w, string option) comp" where
  "find_connection_identifier ga token source name =
     bind (ga_connections ga token source) (\<lambda>cs. ret (map_option fst (find (\<lambda>c. snd c = name) cs)))"

datatype launch_mode = Direct | Login

record launch_result =
  lr_url :: string
  lr_mode :: launch_mode
  lr_detail :: "string option"

text \<open>A token that cannot be retired at Guacamole loses its row all the same.\<close>

definition retire_tokens :: "'w services \<Rightarrow> 'w guac_api \<Rightarrow> string \<Rightarrow> ('w pstate, unit) comp" where
  "retire_tokens sv ga session =
     bind (world_call (ga_store ga)) (\<lambda>_.
     bind (gets (\<lambda>s. filter (\<lambda>t. gt_session t = session) (gs_tokens (p_guac s)))) (\<lambda>rows.
     bind (for_each rows (\<lambda>t. try_catch (bind (lift_res (sv_decrypt sv (gt_token t))) (\<lambda>x. world_call (ga_delete ga x)))
        (\<lambda>e. ret ()))) (\<lambda>_.
     bind (world_call (ga_store ga)) (\<lambda>_.
     on_guac (modify (\<lambda>g. g\<lparr>gs_tokens := table_delete (\<lambda>t. gt_session t = session) (gs_tokens g)\<rparr>))))))"

definition keep_token :: "'w services \<Rightarrow> 'w guac_api \<Rightarrow> string \<Rightarrow> string \<Rightarrow> ('w pstate, unit) comp" where
  "keep_token sv ga session token =
     bind (world_call (ga_store ga)) (\<lambda>_. on_guac (modify (track_session_token (sv_encrypt sv) session token)))"

definition login_instead :: "string \<Rightarrow> string \<Rightarrow> launch_result" where
  "login_instead url detail = \<lparr>lr_url = build_login_url url, lr_mode = Login, lr_detail = Some detail\<rparr>"

text \<open>
  \<open>url\<close> is the public URL where there is one, the configured one otherwise. Neither the retirement
  of the old tokens nor the record of the new one can make a launch fail.
\<close>

definition within :: "string option \<Rightarrow> (string \<Rightarrow> ('w pstate, unit) comp) \<Rightarrow> ('w pstate, unit) comp" where
  "within session f = (if truthy session then try_catch (f (the session)) (\<lambda>e. ret ()) else ret ())"

definition msg_not_in_source :: "guac_conn_row \<Rightarrow> string" where
  "msg_not_in_source c = ''Guacamole connection \"'' @ gc_name c @ ''\" could not be found in the Guacamole data source.''"

definition mint :: "'w services \<Rightarrow> 'w guac_api \<Rightarrow> string option \<Rightarrow> string \<Rightarrow> guac_conn_row \<Rightarrow> guac_user_row \<Rightarrow> string
    \<Rightarrow> ('w pstate, launch_result) comp" where
  "mint sv ga session url c u password =
     bind (within session (retire_tokens sv ga)) (\<lambda>_.
     bind (world_call (request_token ga (gu_name u) password)) (\<lambda>(token, source).
     bind (if source = [] then ret None
           else try_catch (world_call (find_connection_identifier ga token source (gc_name c))) (\<lambda>e. ret None)) (\<lambda>found.
     let identifier = (if truthy found then found else gc_identifier c) in
     if \<not> truthy identifier then ret (login_instead url (msg_not_in_source c))
     else bind (within session (\<lambda>i. keep_token sv ga i token)) (\<lambda>_.
          ret \<lparr>lr_url = build_client_launch_url url (the identifier) token source, lr_mode = Direct, lr_detail = None\<rparr>))))"

definition launch ::
  "'w services \<Rightarrow> 'w guac_api option \<Rightarrow> string \<Rightarrow> string \<Rightarrow> string \<Rightarrow> string option \<Rightarrow> string option \<Rightarrow> string option
   \<Rightarrow> ('w pstate, launch_result) comp" where
  "launch sv api vm uid guac_url public protocol session =
     bind (gets (\<lambda>s. find_connection_record (p_guac s) vm protocol)) (\<lambda>con. case con of
        None \<Rightarrow> throw (err_not_found ''No Guacamole connection exists for this VM'')
      | Some c \<Rightarrow>
     bind (gets (\<lambda>s. find_user_record (p_guac s) uid)) (\<lambda>user. case user of
        None \<Rightarrow> throw (err_validation ''You do not have a Guacamole account yet'')
      | Some u \<Rightarrow>
     bind (lift_res (sv_decrypt sv (gu_password u))) (\<lambda>password.
     let url = (if truthy public then the public else guac_url) in
     case api of
        None \<Rightarrow> ret (login_instead url ''Guacamole API client is not available.'')
      | Some ga \<Rightarrow> try_catch (mint sv ga session url c u password) (\<lambda>e. ret (login_instead url (err_message e))))))"

subsection \<open>Routes\<close>

definition start_vm_for_launch_if_stopped :: "'w site_api \<Rightarrow> vm_row \<Rightarrow> ('w site, bool) comp" where
  "start_vm_for_launch_if_stopped sa v =
     bind (call (sv_status (sa_base sa) (v_node v) (v_vmid v))) (\<lambda>st.
     if to_lower st \<noteq> ''stopped'' then ret False
     else bind (call (pw_start (sa_power sa) (v_node v) (v_vmid v))) (\<lambda>upid.
          bind (await sa (v_node v) upid 120000) (\<lambda>_. ret True)))"

text \<open>
  What the routes get from the context: the REST client when Guacamole is configured, and the
  settings. \<open>session\<close> is the session of the request.
\<close>

definition guac_setup :: "'w site \<Rightarrow> guacamole_settings option res" where
  "guac_setup s = guacamole_projection (\<lambda>k. Inr (p_settings (base_of s) k))"

definition open_session ::
  "'w site_api \<Rightarrow> 'w guac_api \<Rightarrow> vm_row \<Rightarrow> string \<Rightarrow> string \<Rightarrow> string option \<Rightarrow> ('w site, launch_result) comp" where
  "open_session sa ga v uid protocol session =
     bind (\<lambda>s. (guac_setup s, s)) (\<lambda>g.
     at_base (launch (sa_base sa) (map_option (\<lambda>_. ga) g) (v_id v) uid (case g of None \<Rightarrow> [] | Some x \<Rightarrow> gs_url x)
       (case g of None \<Rightarrow> None | Some x \<Rightarrow> gs_public_url x) (Some protocol) session))"

definition msg_no_launch :: string where
  "msg_no_launch = ''You do not have permission to launch this Guacamole connection''"

text \<open>A refusal because the access has ended first removes what is left of it.\<close>

definition drop_expired :: "'w site_api \<Rightarrow> user_with_roles \<Rightarrow> string \<Rightarrow> ('w site, unit) comp" where
  "drop_expired sa u i =
     bind (try_catch (revoke_remote sa i (u_id u)) (\<lambda>e. ret ())) (\<lambda>_.
     bind (at_iam (revoke_access i (u_id u))) (\<lambda>_.
     site_event sa (Some u) ''TEMPORARY_ACCESS_EXPIRED'' (Some i) (Some [(''during'', JStr ''launch'')])))"

text \<open>\<open>None\<close> stands for every protocol, like \<open>null\<close> in the code.\<close>

definition launch_scope ::
  "'w site_api \<Rightarrow> user_with_roles \<Rightarrow> string \<Rightarrow> string option \<Rightarrow> ('w site, string list option) comp" where
  "launch_scope sa u i protocol =
     bind (gets (\<lambda>s. snd (visible_to (db_of s) (now_of sa s) (u_id u) (map role_name_of (u_roles u)) i))) (\<lambda>private.
     if (ADMIN \<in> set (u_roles u) \<or> OPERATOR \<in> set (u_roles u)) \<and> \<not> private then ret None
     else bind (gets (\<lambda>s. check_access (iam (db_of s)) (now_of sa s) u
             \<lparr>opt_permission = None, opt_vm = Some i, opt_protocol = protocol\<rparr>)) (\<lambda>verdict.
          if \<not> ac_allowed verdict
          then bind (do_when (ac_reason verdict = AccessExpired) (drop_expired sa u i)) (\<lambda>_. throw (err_forbidden msg_no_launch))
          else gets (own_protocols sa u i)))"

definition no_connection :: "string list \<Rightarrow> string" where
  "no_connection ps = ''No Guacamole connection exists for this VM for the permitted protocol(s): ''
     @ (if join '', '' ps = [] then ''none'' else join '', '' ps)"

definition pick_protocol :: "string option \<Rightarrow> guac_conn_row list \<Rightarrow> guac_conn_row list \<Rightarrow> string res" where
  "pick_protocol wish records usable_rows =
     (if truthy wish \<and> \<not> list_ex (\<lambda>r. Some (gc_protocol r) = wish) usable_rows
      then Inl (err_not_found (if records = [] then ''No Guacamole connection exists for this VM''
             else no_connection (map gc_protocol usable_rows)))
      else if usable_rows = [] then Inl (err_not_found ''No Guacamole connection exists for this VM'')
      else Inr (or_else wish (gc_protocol (hd usable_rows))))"

definition mode_str :: "launch_mode \<Rightarrow> string" where
  "mode_str m = (case m of Direct \<Rightarrow> ''direct'' | Login \<Rightarrow> ''login'')"

definition launch_event ::
  "'w site_api \<Rightarrow> user_with_roles \<Rightarrow> string \<Rightarrow> launch_result \<Rightarrow> string \<Rightarrow> bool \<Rightarrow> ('w site, unit) comp" where
  "launch_event sa u vm r protocol started = site_event sa (Some u) ''GUAC_LAUNCHED'' (Some vm)
     (Some [(''mode'', JStr (mode_str (lr_mode r))), (''detail'', json_opt (lr_detail r)), (''protocol'', JStr protocol),
       (''autoStarted'', JBool started)])"

definition auto_start ::
  "'w site_api \<Rightarrow> user_with_roles option \<Rightarrow> vm_row \<Rightarrow> (string \<times> json) list \<Rightarrow> ('w site, bool) comp" where
  "auto_start sa actor v detail =
     bind (call (sv_client (sa_base sa))) (\<lambda>_.
     bind (start_vm_for_launch_if_stopped sa v) (\<lambda>started.
     bind (do_when started (bind (set_power v VmRunning) (\<lambda>_.
        site_event sa actor ''VM_AUTO_STARTED'' (Some (v_id v)) (Some detail)))) (\<lambda>_. ret started)))"

definition launch_route ::
  "'w site_api \<Rightarrow> 'w guac_api \<Rightarrow> user_with_roles option \<Rightarrow> string option \<Rightarrow> string \<Rightarrow> string option option
   \<Rightarrow> ('w site, launch_result) comp" where
  "launch_route sa ga user session i body =
     bind (allowed sa user [''guac.launch'']) (\<lambda>u.
     bind (parsed body) (\<lambda>wish.
     bind (launch_scope sa u i wish) (\<lambda>scope.
     bind (the_vm i) (\<lambda>v.
     bind (call (sv_guac_db (sa_base sa))) (\<lambda>_.
     bind (at_base (guac_user (sa_base sa) (u_id u) (u_username u))) (\<lambda>_.
     bind (at_base (on_guac (grant_vm_access (v_id v) (u_id u)))) (\<lambda>_.
     bind (gets (\<lambda>s. list_connection_records (p_guac (base_of s)) (v_id v))) (\<lambda>records.
     let usable_rows = (case scope of None \<Rightarrow> records | Some ps \<Rightarrow> filter (\<lambda>r. gc_protocol r \<in> set ps) records) in
     bind (lift_res (pick_protocol wish records usable_rows)) (\<lambda>protocol.
     bind (auto_start sa (Some u) v [(''reason'', JStr ''guacamole_launch''), (''protocol'', JStr protocol)]) (\<lambda>started.
     bind (open_session sa ga v (u_id u) protocol session) (\<lambda>r.
     bind (launch_event sa u (v_id v) r protocol started) (\<lambda>_. ret r))))))))))))"

definition delete_connections_route ::
  "'w site_api \<Rightarrow> user_with_roles option \<Rightarrow> string \<Rightarrow> string option \<Rightarrow> ('w site, unit) comp" where
  "delete_connections_route sa user i body =
     bind (allowed sa user [''guac.manage'']) (\<lambda>u.
     bind (the_vm i) (\<lambda>v.
     bind (privacy_gate sa u v msg_flagged) (\<lambda>_.
     bind (parsed body) (\<lambda>confirm.
     if confirm \<noteq> ''DELETE '' @ v_name v
     then throw (err_validation (''Confirmation text must be exactly: DELETE '' @ v_name v))
     else bind (call (sv_guac_db (sa_base sa))) (\<lambda>_.
     bind (at_base (on_guac (delete_vm_resources (v_id v)))) (\<lambda>_.
     site_event sa (Some u) ''GUAC_CONNECTION_DELETED'' (Some (v_id v)) (Some [(''vmName'', JStr (v_name v))])))))))"

subsection \<open>Redeeming a share link\<close>

text \<open>The replies of status 410; their code is a text of its own, which is not among the error codes.\<close>

definition err_gone :: "string \<Rightarrow> app_error" where
  "err_gone m = AppError NOT_FOUND m 410"

definition on_links :: "(link_row list \<Rightarrow> 'a \<times> link_row list) \<Rightarrow> ('w site, 'a) comp" where
  "on_links f s = (case f (si_links s) of (x, t) \<Rightarrow> (Inr x, s\<lparr>si_links := t\<rparr>))"

definition redeem_route ::
  "'w site_api \<Rightarrow> 'w guac_api \<Rightarrow> (string \<Rightarrow> string) \<Rightarrow> string \<Rightarrow> ('w site, string) comp" where
  "redeem_route sa ga hash token =
     bind (gets (now_of sa)) (\<lambda>now.
     bind (on_links (redeem_share_link hash now token)) (\<lambda>link. case link of
        None \<Rightarrow> throw (err_gone ''This share link is invalid, expired, revoked, or used up.'')
      | Some l \<Rightarrow>
     bind (the_vm (ln_vm l)) (\<lambda>v.
     bind (auto_start sa None v [(''reason'', JStr ''share_redeem''), (''protocol'', JStr (ln_protocol l)),
        (''shareId'', JStr (ln_id l))]) (\<lambda>started.
     bind (gets (\<lambda>s. case ln_created_by l of None \<Rightarrow> None | Some c \<Rightarrow>
        if c = [] \<or> find_user_record (p_guac (base_of s)) c = None then None else Some c)) (\<lambda>creator. case creator of
        None \<Rightarrow> throw (err_gone ''This share link is no longer usable.'')
      | Some c \<Rightarrow>
     bind (open_session sa ga v c (ln_protocol l) None) (\<lambda>r.
     if lr_mode r \<noteq> Direct
     then throw (AppError GUACAMOLE_ERROR ''Guacamole direct launch is unavailable right now.'' 502)
     else bind (site_event sa None ''SHARE_REDEEMED'' (Some (v_id v)) (Some [(''shareId'', JStr (ln_id l)),
        (''protocol'', JStr (ln_protocol l)), (''autoStarted'', JBool started)])) (\<lambda>_. ret (lr_url r))))))))"

end
