(* ===== verification/Vm_Plans.thy ===== *)
theory Vm_Plans
  imports Launch
begin

text \<open>
  The HTTP routes of machines (\<open>apps/api/src/routes/vms.ts\<close>), fifth part: power schedules, share
  links, the lists a user sees, and the scan for services.
\<close>

subsection \<open>Schedules\<close>

definition on_schedules :: "(power_schedule list, 'a) comp \<Rightarrow> ('w site, 'a) comp" where
  "on_schedules m s = (case m (si_schedules s) of (r, t) \<Rightarrow> (r, s\<lparr>si_schedules := t\<rparr>))"

definition list_schedules_route :: "'w site_api \<Rightarrow> user_with_roles option \<Rightarrow> ('w site, power_schedule list) comp" where
  "list_schedules_route sa user =
     bind (allowed sa user [''vm.manage'']) (\<lambda>u.
     gets (\<lambda>s. let t = list_schedules (si_schedules s) in
       if is_admin (Some u) then t else filter (\<lambda>r. sees sa u (ps_vm r) s) t))"

definition schedule_body_ok :: "schedule_input \<Rightarrow> bool" where
  "schedule_body_ok b \<longleftrightarrow> is_uuid (si_vm b) \<and> si_action b \<in> set SCHEDULE_ACTIONS \<and> number_in (si_hour b) 0 23
     \<and> number_in (si_minute b) 0 59 \<and> (case si_days b of None \<Rightarrow> True | Some d \<Rightarrow> length d \<le> 32)"

definition must_see_vm :: "'w site_api \<Rightarrow> user_with_roles \<Rightarrow> string \<Rightarrow> ('w site, unit) comp" where
  "must_see_vm sa u vm = bind (gets (sees sa u vm)) (\<lambda>ok. if ok then ret () else throw (err_forbidden msg_no_access))"

definition msg_user_class :: string where
  "msg_user_class = ''A user-class VM may not have an enabled schedule: idle auto-shutdown and the schedule would fight over its power state.''"

definition msg_move_first :: string where
  "msg_move_first = '' Move the VM to the server class first, or switch the VM class endpoint refuses the other way round.''"

definition create_schedule_route ::
  "'w site_api \<Rightarrow> user_with_roles option \<Rightarrow> schedule_input option \<Rightarrow> ('w site, power_schedule) comp" where
  "create_schedule_route sa user body =
     bind (allowed sa user [''vm.manage'']) (\<lambda>u.
     bind (parsed (Option.bind body (\<lambda>b. if schedule_body_ok b then Some b else None))) (\<lambda>b.
     bind (must_see_vm sa u (si_vm b)) (\<lambda>_.
     bind (the_vm (si_vm b)) (\<lambda>v.
     if vm_class_of v = UserClass then throw (err_validation (msg_user_class @ msg_move_first))
     else bind (call (sv_new_id (sa_base sa))) (\<lambda>nid.
     bind (gets (now_of sa)) (\<lambda>now.
     bind (on_schedules (create_schedule now nid (b\<lparr>si_created_by := Some (u_id u)\<rparr>))) (\<lambda>r.
     bind (site_event sa (Some u) ''SCHEDULE_CREATED'' (Some (si_vm b)) (Some [(''scheduleId'', JStr (ps_id r)),
       (''action'', JStr (si_action b)), (''hour'', si_hour b), (''minute'', si_minute b), (''days'', JStr (tt_days r))])) (\<lambda>_.
     ret r))))))))"

definition the_schedule :: "string \<Rightarrow> ('w site, power_schedule) comp" where
  "the_schedule i = bind (gets (\<lambda>s. find (\<lambda>r. ps_id r = i) (list_schedules (si_schedules s)))) (\<lambda>r. case r of
       None \<Rightarrow> throw (err_not_found ''Schedule not found'') | Some x \<Rightarrow> ret x)"

definition delete_schedule_route ::
  "'w site_api \<Rightarrow> user_with_roles option \<Rightarrow> string \<Rightarrow> ('w site, unit) comp" where
  "delete_schedule_route sa user i =
     bind (allowed sa user [''vm.manage'']) (\<lambda>u.
     bind (the_schedule i) (\<lambda>r.
     bind (must_see_vm sa u (ps_vm r)) (\<lambda>_.
     bind (on_schedules (batch (delete_schedule i))) (\<lambda>_.
     site_event sa (Some u) ''SCHEDULE_DELETED'' (Some (ps_vm r)) (Some [(''scheduleId'', JStr i)])))))"

definition enable_schedule_route ::
  "'w site_api \<Rightarrow> user_with_roles option \<Rightarrow> string \<Rightarrow> bool option \<Rightarrow> ('w site, unit) comp" where
  "enable_schedule_route sa user i body =
     bind (allowed sa user [''vm.manage'']) (\<lambda>u.
     bind (parsed body) (\<lambda>enabled.
     bind (the_schedule i) (\<lambda>r.
     bind (must_see_vm sa u (ps_vm r)) (\<lambda>_.
     bind (gets (\<lambda>s. case find_by_id (db_of s) (ps_vm r) of None \<Rightarrow> False | Some v \<Rightarrow> vm_class_of v = UserClass)) (\<lambda>clash.
     if enabled \<and> clash then throw (err_validation msg_user_class)
     else on_schedules (modify (set_schedule_enabled i enabled)))))))"

subsection \<open>Share links\<close>

definition create_link_route ::
  "'w site_api \<Rightarrow> (string \<Rightarrow> string) \<Rightarrow> ('w, string) comp \<Rightarrow> user_with_roles option \<Rightarrow> string
   \<Rightarrow> (string \<times> int \<times> int option) option \<Rightarrow> ('w site, link_row \<times> string) comp" where
  "create_link_route sa hash new_token user i body =
     bind (must_see sa user i msg_forbidden) (\<lambda>_.
     bind (allowed sa user [''vm.edit'']) (\<lambda>u.
     bind (parsed (Option.bind body (\<lambda>(p, m, n). if p \<in> set KNOWN_PROTOCOLS \<and> 5 \<le> m \<and> m \<le> 10080
        \<and> (case n of None \<Rightarrow> True | Some k \<Rightarrow> 1 \<le> k \<and> k \<le> 1000) then Some (p, m, n) else None))) (\<lambda>(protocol, minutes, uses).
     bind (the_vm i) (\<lambda>v.
     bind (gets (\<lambda>s. list_ex (\<lambda>r. gc_protocol r = protocol) (list_connection_records (p_guac (base_of s)) (v_id v)))) (\<lambda>known.
     if \<not> known then throw (err_not_found (''No Guacamole connection exists for this VM for protocol '' @ protocol))
     else bind (call (sv_new_id (sa_base sa))) (\<lambda>nid.
     bind (call new_token) (\<lambda>token.
     bind (gets (now_of sa)) (\<lambda>now.
     bind (\<lambda>s. case create_share_link hash now nid token (v_id v) protocol (JNum minutes) (map_option JNum uses)
         (Some (u_id u)) (si_links s) of (r, t) \<Rightarrow> (r, s\<lparr>si_links := t\<rparr>)) (\<lambda>(l, t).
     bind (site_event sa (Some u) ''SHARE_CREATED'' (Some (v_id v)) (Some [(''shareId'', JStr (ln_id l)),
       (''protocol'', JStr protocol), (''expiresAt'', expires_event sa (Some (ln_expires l))),
       (''maxUses'', case ln_max_uses l of None \<Rightarrow> JNull | Some n \<Rightarrow> JNum n)])) (\<lambda>_. ret (l, t)))))))))))"

definition list_links_route :: "'w site_api \<Rightarrow> user_with_roles option \<Rightarrow> ('w site, link_row list) comp" where
  "list_links_route sa user =
     bind (allowed sa user [''vm.edit'']) (\<lambda>u.
     gets (\<lambda>s. list_share_links (if is_admin (Some u) then None else Some (Some (u_id u))) (si_links s)))"

definition revoke_link_route ::
  "'w site_api \<Rightarrow> user_with_roles option \<Rightarrow> string \<Rightarrow> ('w site, unit) comp" where
  "revoke_link_route sa user i =
     bind (allowed sa user [''vm.edit'']) (\<lambda>u.
     bind (gets (\<lambda>s. link_of i (si_links s))) (\<lambda>link. case link of
        None \<Rightarrow> throw (err_not_found ''Share link not found'')
      | Some l \<Rightarrow>
     if \<not> is_admin (Some u) \<and> ln_created_by l \<noteq> Some (u_id u)
     then throw (err_forbidden ''Only the creator or an administrator can revoke this link'')
     else bind (gets (now_of sa)) (\<lambda>now.
     bind (on_links (revoke_share_link now i)) (\<lambda>_.
     site_event sa (Some u) ''SHARE_REVOKED'' (Some (ln_vm l)) (Some [(''shareId'', JStr i)])))))"

subsection \<open>Lists\<close>

text \<open>
  The machines the lists show. A privileged account gets every machine but the flagged ones it
  has no grant for; every other account gets the machines assigned to it.
\<close>

definition privileged :: "user_with_roles \<Rightarrow> bool" where
  "privileged u \<longleftrightarrow> ADMIN \<in> set (u_roles u) \<or> OPERATOR \<in> set (u_roles u)"

definition listed :: "'w site_api \<Rightarrow> user_with_roles \<Rightarrow> 'w site \<Rightarrow> vm_row list" where
  "listed sa u s = (if privileged u
     then filter (\<lambda>v. \<not> v_privacy v \<or> granted sa u v s) (list_vms (db_of s) False)
     else list_assigned_to_user (db_of s) (now_of sa s) (u_id u))"

definition health_route ::
  "'w site_api \<Rightarrow> health_row list \<Rightarrow> user_with_roles option \<Rightarrow> ('w site, health_row list) comp" where
  "health_route sa health user = bind (authed user) (\<lambda>u.
     gets (\<lambda>s. list_connection_health (map v_id (listed sa u s)) health))"

definition connections_route :: "'w site_api \<Rightarrow> user_with_roles option \<Rightarrow> ('w site, (vm_row \<times> guac_conn_row) list) comp" where
  "connections_route sa user = bind (authed user) (\<lambda>u.
     gets (\<lambda>s. concat (map (\<lambda>v. map (\<lambda>r. (v, r)) (list_connection_records (p_guac (base_of s)) (v_id v))) (listed sa u s))))"

definition vm_services_route ::
  "'w site_api \<Rightarrow> service_row list \<Rightarrow> user_with_roles option \<Rightarrow> ('w site, (string \<times> (nat \<times> string) list) list) comp" where
  "vm_services_route sa table user = bind (allowed sa user [''vm.read'']) (\<lambda>u.
     gets (\<lambda>s. filter (\<lambda>x. snd x \<noteq> []) (map (\<lambda>v. (v_id v, list_vm_services (v_id v) table)) (listed sa u s))))"

end
