(* ===== verification/Site_Frame.thy ===== *)
theory Site_Frame
  imports Vm_Plans
begin

text \<open>
  What the building blocks of the routes change: the registry, the mirror of Guacamole, the audit
  log or the outside world, each on its own and nothing else.
\<close>

definition with_base :: "('w pstate \<Rightarrow> 'w pstate) \<Rightarrow> 'w site \<Rightarrow> 'w site" where
  "with_base f s = s\<lparr>si_drift := (si_drift s)\<lparr>ds_base := f (base_of s)\<rparr>\<rparr>"

definition with_db :: "vm_db \<Rightarrow> 'w site \<Rightarrow> 'w site" where
  "with_db d = with_base (\<lambda>b. b\<lparr>p_app := (p_app b)\<lparr>reg := d\<rparr>\<rparr>)"

lemma base_of_with [simp]: "base_of (with_base f s) = f (base_of s)"
  by (simp add: base_of_def with_base_def)

lemma with_base_rest [simp]:
  "si_schedules (with_base f s) = si_schedules s" "si_links (with_base f s) = si_links s"
  "with_base f (with_base g s) = with_base (\<lambda>b. f (g b)) s"
  by (simp_all add: with_base_def base_of_def)

lemma db_of_with [simp]: "db_of (with_db d s) = d"
  by (simp add: db_of_def with_db_def)

lemma base_of_with_db: "base_of (with_db d s) = (base_of s)\<lparr>p_app := (p_app (base_of s))\<lparr>reg := d\<rparr>\<rparr>"
  by (simp add: with_db_def)

lemma now_of_with_db [simp]: "now_of sa (with_db d s) = now_of sa s"
  by (simp add: now_of_def p_now_def with_db_def)

lemma at_base_run: "at_base m s = (fst (m (base_of s)), with_base (\<lambda>_. snd (m (base_of s))) s)"
  by (simp add: at_base_def on_drift_def on_base_def base_of_def with_base_def split: prod.splits)

lemma at_reg_run: "at_reg m s = (fst (m (db_of s)), with_db (snd (m (db_of s))) s)"
  by (simp add: at_reg_def at_base_run on_reg_def db_of_def with_db_def with_base_def split: prod.splits)

lemma at_iam_run: "at_iam f s = (Inr (), with_db ((db_of s)\<lparr>iam := f (iam (db_of s))\<rparr>) s)"
  by (simp add: at_iam_def at_reg_run comp_defs)

text \<open>One audit row is all that an event adds.\<close>

definition logged :: "'w site_api \<Rightarrow> user_with_roles option \<Rightarrow> string \<Rightarrow> string option \<Rightarrow> (string \<times> json) list option
    \<Rightarrow> 'w site \<Rightarrow> 'w site" where
  "logged sa u ev vm detail s = snd (site_event sa u ev vm detail s)"

lemma site_event_run: "site_event sa u ev vm detail s = (Inr (), logged sa u ev vm detail s)"
  by (simp add: logged_def site_event_def at_base_run comp_defs)

lemma logged_keeps [simp]:
  "db_of (logged sa u ev vm detail s) = db_of s"
  "p_guac (base_of (logged sa u ev vm detail s)) = p_guac (base_of s)"
  "p_app (base_of (logged sa u ev vm detail s)) = p_app (base_of s)"
  "p_world (base_of (logged sa u ev vm detail s)) = p_world (base_of s)"
  "p_creds (base_of (logged sa u ev vm detail s)) = p_creds (base_of s)"
  "p_ledger (base_of (logged sa u ev vm detail s)) = p_ledger (base_of s)"
  "p_settings (base_of (logged sa u ev vm detail s)) = p_settings (base_of s)"
  "now_of sb (logged sa u ev vm detail s) = now_of sb s"
  "si_schedules (logged sa u ev vm detail s) = si_schedules s"
  "si_links (logged sa u ev vm detail s) = si_links s"
  by (simp_all add: logged_def site_event_def at_base_run comp_defs db_of_def now_of_def p_now_def)

text \<open>A call of another system changes the world only.\<close>

definition with_world :: "'w \<Rightarrow> 'w site \<Rightarrow> 'w site" where
  "with_world w = with_base (\<lambda>b. b\<lparr>p_world := w\<rparr>)"

lemma call_run: "call m s = (fst (m (p_world (base_of s))), with_world (snd (m (p_world (base_of s)))) s)"
  by (simp add: call_def on_drift_def d_world_def on_base_def world_call_def with_world_def with_base_def base_of_def
      split: prod.splits)

lemma with_world_keeps [simp]:
  "db_of (with_world w s) = db_of s"
  "p_guac (base_of (with_world w s)) = p_guac (base_of s)"
  "p_creds (base_of (with_world w s)) = p_creds (base_of s)"
  "p_app (base_of (with_world w s)) = p_app (base_of s)"
  "p_settings (base_of (with_world w s)) = p_settings (base_of s)"
  "si_schedules (with_world w s) = si_schedules s"
  "si_links (with_world w s) = si_links s"
  by (simp_all add: with_world_def db_of_def)

text \<open>Errors and results of the two ways to combine computations.\<close>

lemma bind_passes: "m s = (Inr x, t) \<Longrightarrow> bind m f s = f x t"
  by (simp add: bind_def)

lemma bind_stops: "m s = (Inl e, t) \<Longrightarrow> bind m f s = (Inl e, t)"
  by (simp add: bind_def)

lemma bind_gets_run: "bind (gets g) f s = f (g s) s"
  by (simp add: bind_def gets_def)

lemma bind_guard: "bind (if c then throw e else ret ()) f s = (if c then (Inl e, s) else f () s)"
  by (simp add: comp_defs)

end
