(* ===== verification/Site_Gates.thy ===== *)
theory Site_Gates
  imports Site_Frame Drift_Demo Vms_Props
begin

text \<open>
  Who may do what to a machine over HTTP: each of nineteen requests about one machine is turned
  down, with nothing changed, unless its gate lets it pass, and no gate lets anyone but a grantee
  or the owner near a machine with the privacy flag, except that an administrator may switch the
  flag itself.
\<close>

subsection \<open>Computations that only look\<close>

definition turned_down :: "('s, 'a) comp \<Rightarrow> 's \<Rightarrow> bool" where
  "turned_down m s \<longleftrightarrow> (\<exists>e. m s = (Inl e, s))"

definition looks_only :: "('s, 'a) comp \<Rightarrow> bool" where
  "looks_only m \<longleftrightarrow> (\<forall>s. snd (m s) = s)"

lemma turned_down_bind:
  assumes "looks_only m" and "\<And>x. m s = (Inr x, s) \<Longrightarrow> turned_down (f x) s"
  shows "turned_down (bind m f) s"
proof (cases "m s")
  case (Pair r t)
  with assms(1) have "t = s" by (auto simp: looks_only_def dest: spec [of _ s])
  with Pair assms(2) show ?thesis by (cases r) (auto simp: turned_down_def bind_def)
qed

lemma looks_then: "looks_only m \<Longrightarrow> (\<And>e. Q (Inl e, s)) \<Longrightarrow> (\<And>x. m s = (Inr x, s) \<Longrightarrow> Q (f x s)) \<Longrightarrow> Q (bind m f s)"
  by (cases "m s"; cases "fst (m s)") (auto simp: bind_def looks_only_def dest: spec [of _ s])

lemma looks_only_bind: "looks_only m \<Longrightarrow> (\<And>x. looks_only (f x)) \<Longrightarrow> looks_only (bind m f)"
  by (simp add: looks_only_def bind_def split: prod.split sum.split) (metis snd_conv)

lemma looks_only_basic:
  "looks_only (gets g)" "looks_only (ret x)" "looks_only (throw e)" "looks_only (lift_res r)"
  by (simp_all add: looks_only_def comp_defs)

lemma looks_only_gates:
  "looks_only (authed user)" "looks_only (allowed sa user ps)" "looks_only (the_vm i)" "looks_only (parsed body)"
  "looks_only (must_see sa user vm msg)" "looks_only (privacy_gate sa u v msg)" "looks_only (direct_gate sa u v)"
  by (auto simp: looks_only_def authed_def allowed_def the_vm_def parsed_def must_see_def privacy_gate_def direct_gate_def
      comp_defs split: option.splits prod.splits sum.splits if_splits)

subsection \<open>Requests\<close>

text \<open>
  The requests about one machine that \<open>vms.ts\<close> answers with a change, and the deletion of its
  connections (\<open>guacamole.ts\<close>). The launch of a session is not among them: its refusal has effects
  of its own (\<open>drop_expired\<close>). Requests that only read are not modelled.
\<close>

datatype vm_request =
    AskStart | AskStop "bool option option" | AskRestart | AskClone "clone_body option" | AskTemplate "string option"
  | AskMigrate "(string \<times> bool option) option" | AskMigration "migration_query option" | AskEdit "edit_body option"
  | AskLink "(string \<times> int \<times> int option) option" | AskClass "vm_class option" | AskBoot "bool option"
  | AskIp "string option" | AskDetect | AskDelete "string option" | AskGrant "grant_body option" | AskUnlink "string option"
  | AskPrivacy "bool option" | AskInvite "grant_body option" | AskRevoke string

definition silently :: "('s, 'a) comp \<Rightarrow> ('s, unit) comp" where
  "silently m = bind m (\<lambda>_. ret ())"

fun perform ::
  "'w site_api \<Rightarrow> (string \<Rightarrow> string) \<Rightarrow> ('w, string) comp \<Rightarrow> user_with_roles option \<Rightarrow> string \<Rightarrow> vm_request
   \<Rightarrow> ('w site, unit) comp" where
  "perform sa hash tok user i AskStart = start_route sa user i"
| "perform sa hash tok user i (AskStop b) = stop_route sa user i b"
| "perform sa hash tok user i AskRestart = restart_route sa user i"
| "perform sa hash tok user i (AskClone b) = silently (clone_route sa user i b)"
| "perform sa hash tok user i (AskTemplate b) = silently (make_template_route sa user i b)"
| "perform sa hash tok user i (AskMigrate b) = silently (migrate_route sa user i b)"
| "perform sa hash tok user i (AskMigration q) = silently (migration_status_route sa user i q)"
| "perform sa hash tok user i (AskEdit b) = edit_route sa user i b"
| "perform sa hash tok user i (AskLink b) = silently (create_link_route sa hash tok user i b)"
| "perform sa hash tok user i (AskClass b) = silently (class_route sa user i b)"
| "perform sa hash tok user i (AskBoot b) = boot_route sa user i b"
| "perform sa hash tok user i (AskIp b) = silently (ip_route sa user i b)"
| "perform sa hash tok user i AskDetect = silently (detect_ip_route sa user i)"
| "perform sa hash tok user i (AskDelete b) = delete_route sa user i b"
| "perform sa hash tok user i (AskGrant b) = silently (grant_route sa user i b)"
| "perform sa hash tok user i (AskUnlink b) = delete_connections_route sa user i b"
| "perform sa hash tok user i (AskPrivacy b) = privacy_route sa user i b"
| "perform sa hash tok user i (AskInvite b) = silently (invite_route sa user i b)"
| "perform sa hash tok user i (AskRevoke uid) = silently (revoke_route sa user i uid)"

text \<open>The permissions of which one is needed, and whether the gate asks if the machine is visible.\<close>

fun wanted :: "vm_request \<Rightarrow> string list" where
  "wanted AskStart = [''vm.manage'', ''vm.start'']"
| "wanted (AskStop _) = [''vm.manage'', ''vm.stop'']"
| "wanted AskRestart = [''vm.manage'', ''vm.restart'']"
| "wanted (AskClone _) = [''vm.create'']"
| "wanted (AskTemplate _) = [''templates.manage'']"
| "wanted (AskMigrate _) = [''vm.manage'']"
| "wanted (AskMigration _) = [''vm.manage'']"
| "wanted (AskDelete _) = [''vm.delete'']"
| "wanted (AskUnlink _) = [''guac.manage'']"
| "wanted _ = [''vm.edit'']"

fun by_sight :: "vm_request \<Rightarrow> bool" where
  "by_sight (AskClass _) = False"
| "by_sight (AskBoot _) = False"
| "by_sight (AskIp _) = False"
| "by_sight AskDetect = False"
| "by_sight (AskDelete _) = False"
| "by_sight (AskGrant _) = False"
| "by_sight (AskUnlink _) = False"
| "by_sight _ = True"

fun of_grants :: "vm_request \<Rightarrow> bool" where
  "of_grants (AskGrant _) = True"
| "of_grants _ = False"

definition permits :: "'w site_api \<Rightarrow> user_with_roles \<Rightarrow> string list \<Rightarrow> 'w site \<Rightarrow> bool" where
  "permits sa u ps s \<longleftrightarrow> is_ok (require_permission (p_app (base_of s)) (now_of sa s) (Some u) ps)"

definition manages :: "'w site_api \<Rightarrow> user_with_roles \<Rightarrow> 'w site \<Rightarrow> bool" where
  "manages sa u s \<longleftrightarrow> map_has (permissions (resolve_effective_access (iam (db_of s)) (now_of sa s) (u_id u))) ''vm.edit''"

text \<open>
  The gate of a request in closed form. The flag, invitations and revocations have rules of their
  own; the others want a permission, and sight of the machine or the privacy rule.
\<close>

definition common_gate :: "'w site_api \<Rightarrow> user_with_roles \<Rightarrow> string \<Rightarrow> vm_request \<Rightarrow> 'w site \<Rightarrow> bool" where
  "common_gate sa u i rq s \<longleftrightarrow> permits sa u (wanted rq) s \<and>
     (if by_sight rq then sees sa u i s
      else case find_by_id (db_of s) i of
          None \<Rightarrow> False
        | Some v \<Rightarrow> \<not> v_privacy v \<or> (if of_grants rq then has_access (iam (db_of s)) (now_of sa s) (v_id v) (u_id u)
             else granted sa u v s))"

definition gate_passes :: "'w site_api \<Rightarrow> user_with_roles \<Rightarrow> string \<Rightarrow> vm_request \<Rightarrow> 'w site \<Rightarrow> bool" where
  "gate_passes sa u i rq s \<longleftrightarrow> (case rq of
       AskPrivacy b \<Rightarrow> (\<exists>v. find_by_id (db_of s) i = Some v \<and> (granted sa u v s \<or> ADMIN \<in> set (u_roles u))
         \<and> (b = Some False \<longrightarrow> v_created_by v = Some (u_id u) \<or> ADMIN \<in> set (u_roles u) \<or> manages sa u s))
     | AskInvite b \<Rightarrow> (\<exists>v. find_by_id (db_of s) i = Some v \<and> granted sa u v s)
     | AskRevoke uid \<Rightarrow> (\<exists>v. find_by_id (db_of s) i = Some v
         \<and> (own_invite sa u v uid s \<or> permits sa u [''vm.edit''] s \<and> (\<not> v_privacy v \<or> granted sa u v s)))
     | _ \<Rightarrow> common_gate sa u i rq s)"

lemma allowed_passes: "allowed sa (Some u) ps s = (Inr x, s) \<Longrightarrow> x = u \<and> permits sa u ps s"
  by (auto simp: allowed_def permits_def require_permission_def is_ok_def Let_def split: if_splits)

lemma not_allowed: "\<not> permits sa u ps s \<Longrightarrow> turned_down (allowed sa (Some u) ps) s"
  by (cases "require_permission (p_app (base_of s)) (now_of sa s) (Some u) ps")
     (auto simp: allowed_def permits_def turned_down_def is_ok_def)

lemma must_see_passes:
  "must_see sa (Some u) i msg s = (if sees sa u i s then (Inr u, s) else (Inl (err_forbidden msg), s))"
  by (simp add: must_see_def authed_def require_auth_def comp_defs)

lemma the_vm_passes: "the_vm i s = (Inr v, s) \<Longrightarrow> find_by_id (db_of s) i = Some v"
  by (auto simp: the_vm_def require_by_id_def split: option.splits)

lemma sight_gate:
  assumes "\<not> (permits sa u ps s \<and> sees sa u i s)"
  shows "turned_down (bind (must_see sa (Some u) i msg) (\<lambda>_. bind (allowed sa (Some u) ps) f)) s"
  using assms
  by (intro turned_down_bind looks_only_gates)
     (auto simp: must_see_passes turned_down_def bind_def not_allowed [unfolded turned_down_def]
       dest!: not_allowed split: if_splits)

lemma flag_gate:
  assumes "\<not> (permits sa u ps s \<and> (case find_by_id (db_of s) i of None \<Rightarrow> False
     | Some v \<Rightarrow> \<not> v_privacy v \<or> granted sa u v s))"
  shows "turned_down (bind (allowed sa (Some u) ps) (\<lambda>w. bind (the_vm i) (\<lambda>v.
     bind (privacy_gate sa w v msg) (\<lambda>_. f w v)))) s"
proof (intro turned_down_bind looks_only_gates)
  fix w v x
  assume w: "allowed sa (Some u) ps s = (Inr w, s)" and v: "the_vm i s = (Inr v, s)"
    and x: "privacy_gate sa w v msg s = (Inr x, s)"
  from assms allowed_passes [OF w] the_vm_passes [OF v] x have False
    by (auto simp: privacy_gate_def comp_defs split: if_splits)
  then show "turned_down (f w v) s" ..
qed

lemma grant_gate:
  assumes "\<not> (permits sa u ps s \<and> (case find_by_id (db_of s) i of None \<Rightarrow> False
     | Some v \<Rightarrow> \<not> v_privacy v \<or> has_access (iam (db_of s)) (now_of sa s) (v_id v) (u_id u)))"
  shows "turned_down (bind (allowed sa (Some u) ps) (\<lambda>w. bind (the_vm i) (\<lambda>v.
     bind (direct_gate sa w v) (\<lambda>_. f w v)))) s"
proof (intro turned_down_bind looks_only_gates)
  fix w v x
  assume w: "allowed sa (Some u) ps s = (Inr w, s)" and v: "the_vm i s = (Inr v, s)"
    and x: "direct_gate sa w v s = (Inr x, s)"
  from assms allowed_passes [OF w] the_vm_passes [OF v] x have False
    by (auto simp: direct_gate_def comp_defs split: if_splits)
  then show "turned_down (f w v) s" ..
qed

lemma turned_down_silently: "turned_down m s \<Longrightarrow> turned_down (silently m) s"
  by (auto simp: silently_def turned_down_def bind_def)

lemma not_the_vm: "find_by_id (db_of s) i = None \<Longrightarrow> turned_down (the_vm i) s"
  by (simp add: turned_down_def the_vm_def require_by_id_def)

lemma role_names: "''ADMIN'' \<in> role_name_of ` A \<longleftrightarrow> ADMIN \<in> A"
proof -
  have "list_all (\<lambda>r. (role_name_of r = ''ADMIN'') = (r = ADMIN)) [ADMIN, OPERATOR, USER, GUEST]" by code_simp
  then have "role_name_of r = ''ADMIN'' \<longleftrightarrow> r = ADMIN" for r by (cases r) simp_all
  then show ?thesis by (metis image_iff)
qed

lemma privacy_shut:
  assumes "\<not> gate_passes sa u i (AskPrivacy body) s"
  shows "turned_down (privacy_route sa (Some u) i body) s"
  unfolding privacy_route_def
proof (rule turned_down_bind [OF looks_only_gates(1)], rule turned_down_bind [OF looks_only_gates(3)],
    rule turned_down_bind [OF looks_only_gates(4)], rule turned_down_bind)
  fix w v enabled ok
  assume w: "authed (Some u) s = (Inr w, s)" and v: "the_vm i s = (Inr v, s)" and e: "parsed body s = (Inr enabled, s)"
    and ok: "(assert_may_change_privacy (db_of s) (now_of sa s) v (u_id w) (map role_name_of (u_roles w)) enabled, s) = (Inr ok, s)"
  have "w = u" using w by (simp add: authed_def require_auth_def comp_defs)
  moreover have "body = Some enabled" using e by (auto simp: parsed_def comp_defs split: option.splits)
  ultimately have False
    using assms the_vm_passes [OF v] ok
    by (auto simp: gate_passes_def assert_may_change_privacy_def granted_def manages_def role_names Let_def
        simp del: image_iff split: if_splits)
  then show "turned_down f s" for f :: "('a site, unit) comp" ..
qed (simp add: looks_only_def)

lemma invite_shut:
  assumes "\<not> gate_passes sa u i (AskInvite body) s"
  shows "turned_down (invite_route sa (Some u) i body) s"
  unfolding invite_route_def
proof (intro turned_down_bind looks_only_gates looks_only_basic)
  fix w v ok
  assume w: "authed (Some u) s = (Inr w, s)" and v: "the_vm i s = (Inr v, s)" and ok: "gets (granted sa w v) s = (Inr ok, s)"
  have "w = u" using w by (simp add: authed_def require_auth_def comp_defs)
  with assms the_vm_passes [OF v] ok have "\<not> ok" by (auto simp: gate_passes_def gets_def)
  then show "turned_down (if \<not> ok then throw (err_forbidden ''Only someone with access to this VM can invite others'') else f) s" for f
    by (simp add: turned_down_def throw_def)
qed

lemma revoke_gate_shut:
  assumes "\<not> (permits sa u [''vm.edit''] s \<and> (\<not> v_privacy v \<or> granted sa u v s))"
  shows "turned_down (bind (allowed sa (Some u) [''vm.edit'']) (\<lambda>_. privacy_gate sa u v msg)) s"
proof (intro turned_down_bind looks_only_gates)
  fix w assume w: "allowed sa (Some u) [''vm.edit''] s = (Inr w, s)"
  from assms allowed_passes [OF w] show "turned_down (privacy_gate sa u v msg) s"
    by (auto simp: privacy_gate_def turned_down_def comp_defs)
qed

lemma turned_down_first: "turned_down m s \<Longrightarrow> turned_down (bind m f) s"
  by (auto simp: turned_down_def bind_def)

lemma revoke_shut:
  assumes "\<not> gate_passes sa u i (AskRevoke uid) s"
  shows "turned_down (revoke_route sa (Some u) i uid) s"
proof -
  have inner: "turned_down (if \<not> is_uuid uid then throw e
     else bind (gets (own_invite sa w v uid)) (\<lambda>own.
       bind (if own then ret () else bind (allowed sa (Some u) [''vm.edit'']) (\<lambda>_. privacy_gate sa w v msg_direct_grant)) f)) s"
    if w: "authed (Some u) s = (Inr w, s)" and v: "the_vm i s = (Inr v, s)" for w v f e
  proof (cases "is_uuid uid")
    case True
    have w': "w = u" using w by (simp add: authed_def require_auth_def comp_defs)
    have no: "\<not> own_invite sa u v uid s" "\<not> (permits sa u [''vm.edit''] s \<and> (\<not> v_privacy v \<or> granted sa u v s))"
      using assms the_vm_passes [OF v] by (auto simp: gate_passes_def)
    from turned_down_first [OF revoke_gate_shut [OF no(2), of msg_direct_grant], of f] True no(1) show ?thesis
      unfolding w' by (auto simp: turned_down_def bind_def [where m = "gets g" for g] gets_def)
  qed (simp add: turned_down_def throw_def)
  show ?thesis
    unfolding revoke_route_def
    by (intro turned_down_bind looks_only_gates inner)
qed

lemma common_shut:
  assumes "\<not> common_gate sa u i rq s" "gate_passes sa u i rq s \<longleftrightarrow> common_gate sa u i rq s"
  shows "turned_down (perform sa hash tok (Some u) i rq) s"
  using assms
  by (cases rq)
     (auto simp: common_gate_def start_route_def stop_route_def restart_route_def clone_route_def make_template_route_def
       migrate_route_def migration_status_route_def edit_route_def create_link_route_def class_route_def boot_route_def
       ip_route_def detect_ip_route_def delete_route_def grant_route_def delete_connections_route_def
       intro!: turned_down_silently sight_gate flag_gate grant_gate privacy_shut invite_shut revoke_shut split: option.splits)

lemma own_rules:
  "(\<exists>b. rq = AskPrivacy b) \<or> (\<exists>b. rq = AskInvite b) \<or> (\<exists>uid. rq = AskRevoke uid)
   \<or> gate_passes sa u i rq s = common_gate sa u i rq s"
  by (cases rq) (simp_all add: gate_passes_def)

lemma shut_gate: "\<not> gate_passes sa u i rq s \<Longrightarrow> turned_down (perform sa hash tok (Some u) i rq) s"
  using own_rules [of rq sa u i s] common_shut [of sa u i rq s hash tok]
  by (auto intro!: turned_down_silently privacy_shut invite_shut revoke_shut)

lemma open_gate_respects_flag:
  assumes "gate_passes sa u i rq s" and v: "find_by_id (db_of s) i = Some v" and "v_privacy v"
  shows "granted sa u v s \<or> (\<exists>b. rq = AskPrivacy b) \<and> ADMIN \<in> set (u_roles u)"
proof -
  have "v_id v = i" using find_by_id_Some [OF v] by simp
  then have "common_gate sa u i rq s \<Longrightarrow> granted sa u v s"
    using assms(2,3) by (auto simp: common_gate_def sees_def visible_to_def granted_def has_access_or_owns_def Let_def split: if_splits)
  with assms show ?thesis
    by (cases rq) (auto simp: gate_passes_def own_invite_def)
qed

lemma no_session:
  "allowed sa None ps s = (Inl (err_unauthorized ''Authentication required''), s)"
  "must_see sa None i msg s = (Inl (err_unauthorized ''Authentication required''), s)"
  "authed None s = (Inl (err_unauthorized ''Authentication required''), s)"
  by (simp_all add: allowed_def require_permission_def must_see_def authed_def require_auth_def comp_defs)

lemma no_session_no_entry: "turned_down (perform sa hash tok None i rq) s"
  by (cases rq)
     (simp_all add: start_route_def stop_route_def restart_route_def clone_route_def make_template_route_def
       migrate_route_def migration_status_route_def edit_route_def create_link_route_def class_route_def boot_route_def
       ip_route_def detect_ip_route_def delete_route_def grant_route_def delete_connections_route_def
       privacy_route_def invite_route_def revoke_route_def silently_def turned_down_def bind_def no_session)

subsection \<open>The property\<close>

text \<open>A site with one machine, flagged or not, and an account with the permission to edit and nothing else.\<close>

definition demo_site_api :: "int site_api" where
  "demo_site_api = \<lparr>sa_drift = demo_drift_api, sa_power = \<lparr>pw_clock = (\<lambda>w. w), pw_client = ret (), pw_start = (\<lambda>n v. ret []),
     pw_stop = (\<lambda>n v t. ret []), pw_reboot = (\<lambda>n v. ret []), pw_wait = (\<lambda>n u ms. ret ())\<rparr>, sa_fw = \<lparr>px_cluster_fw = ret JNull,
       px_rules = (\<lambda>n v. ret []), px_set_fw = (\<lambda>n v o'. ret ()), px_create_rule = (\<lambda>n v r p. ret ()),
       px_delete_rule = (\<lambda>n v p. ret ()), px_set_onboot = (\<lambda>n v b. ret ())\<rparr>,
     sa_shutdown = (\<lambda>n v. ret []), sa_remove = (\<lambda>n v. ret []), sa_make_template = (\<lambda>n v. ret []),
     sa_migrate = (\<lambda>n v t b. ret []), sa_task_status = (\<lambda>n u. ret (''stopped'', Some ''OK'')), sa_iso = (\<lambda>t. []),
     sa_store = ret (), sa_unlink = (\<lambda>n. ret ())\<rparr>"

definition site_vm :: "bool \<Rightarrow> vm_row" where
  "site_vm private = (recorded_vm demo_vm 101)\<lparr>v_privacy := private\<rparr>"

definition demo_site :: "bool \<Rightarrow> int site" where
  "demo_site private = \<lparr>si_drift = (demo_drift [])\<lparr>ds_base := (demo_state False)\<lparr>p_app := (p_app (demo_state False))
       \<lparr>reg := \<lparr>vms = [site_vm private], schedules = [], iam = (demo_iam False)\<lparr>user_permissions :=
         [\<lparr>up_user = demo_user, up_permission = ''vm.edit'', up_expires = None\<rparr>]\<rparr>\<rparr>\<rparr>\<rparr>\<rparr>,
     si_schedules = [], si_links = []\<rparr>"

definition ada :: "role list \<Rightarrow> user_with_roles" where
  "ada rs = \<lparr>u_id = demo_user, u_username = ''ada'', u_email = None, u_active = True, u_roles = rs\<rparr>"

text \<open>C32. Each of these requests about one machine is turned down without any effect when no account
  is behind it, and when its gate in closed form does not pass: start, stop, restart, clone,
  template, migration and its status, edit, share link, class, start on boot, address and its
  detection, deletion, grant, invitation, revocation, privacy flag, and deletion of the
  connections. And no gate passes for a machine with the privacy flag, whatever the roles, unless
  the account has a grant for it or owns it, with one exception: an administrator may switch the
  flag off (or on) without any grant.\<close>

theorem vm_routes_are_gated:
  "turned_down (perform sa hash tok None i rq) s
   \<and> (gate_passes sa u i rq s \<or> turned_down (perform sa hash tok (Some u) i rq) s)
   \<and> (\<forall>v. find_by_id (db_of s) i = Some v \<longrightarrow> v_privacy v \<longrightarrow> gate_passes sa u i rq s \<longrightarrow>
        granted sa u v s \<or> (\<exists>b. rq = AskPrivacy b) \<and> ADMIN \<in> set (u_roles u))"
  using no_session_no_entry shut_gate open_gate_respects_flag by blast

lemma demo_site_reads:
  "db_of (demo_site b) = \<lparr>vms = [site_vm b], schedules = [], iam = (demo_iam False)\<lparr>user_permissions :=
     [\<lparr>up_user = demo_user, up_permission = ''vm.edit'', up_expires = None\<rparr>]\<rparr>\<rparr>"
  "now_of demo_site_api (demo_site b) = 0"
  by (simp_all add: db_of_def base_of_def demo_site_def now_of_def sa_base_def demo_site_api_def demo_drift_api_def
      demo_services_def p_now_def demo_state_def)

lemma demo_site_vm: "find_by_id (db_of (demo_site b)) demo_vm = Some (site_vm b)"
proof -
  have "is_uuid demo_vm" by code_simp
  then show ?thesis
    by (simp add: demo_site_reads find_by_id_def vm_by_id_def table_find_def site_vm_def recorded_vm_def live_opt_def vm_live_def)
qed

lemma demo_site_no_access: "\<not> has_access (iam (db_of (demo_site b))) 0 demo_vm uid"
  by (simp add: demo_site_reads has_access_def direct_grant_def group_grant_def demo_iam_def sample_db_def)

lemma demo_site_not_granted: "\<not> granted demo_site_api (ada rs) (site_vm b) (demo_site b)"
  using demo_site_vm [of b] demo_site_no_access [of b "u_id (ada rs)"]
  by (simp add: granted_def has_access_or_owns_def demo_site_reads(2) site_vm_def recorded_vm_def)

theorem vm_routes_are_gated_witness:
  "find_by_id (db_of (demo_site True)) demo_vm = Some (site_vm True) \<and> v_privacy (site_vm True)
   \<and> turned_down (perform demo_site_api (\<lambda>x. x) (ret []) (Some (ada [ADMIN])) demo_vm (AskDelete (Some ''DELETE x''))) (demo_site True)"
proof -
  have p: "v_privacy (site_vm True)" by (simp add: site_vm_def)
  have "\<not> gate_passes demo_site_api (ada [ADMIN]) demo_vm (AskDelete (Some ''DELETE x'')) (demo_site True)"
    using vm_routes_are_gated [of demo_site_api "\<lambda>x. x" "ret []" demo_vm "AskDelete (Some ''DELETE x'')" "demo_site True" "ada [ADMIN]"]
      demo_site_vm [of True] p demo_site_not_granted by blast
  with vm_routes_are_gated [of demo_site_api "\<lambda>x. x" "ret []" demo_vm "AskDelete (Some ''DELETE x'')" "demo_site True" "ada [ADMIN]"]
    demo_site_vm [of True] p show ?thesis by blast
qed

text \<open>
  The gates without sight are weaker than the others: an account that may edit machines changes
  the class of one it is not allowed to see.
\<close>

lemma demo_may_edit: "require_permission (p_app (base_of (demo_site b))) 0 (Some (ada [])) [''vm.edit''] = Inr (ada [])"
proof -
  have "map_has (permissions (resolve_effective_access ((demo_iam False)\<lparr>user_permissions :=
     [\<lparr>up_user = demo_user, up_permission = ''vm.edit'', up_expires = None\<rparr>]\<rparr>) 0 demo_user)) ''vm.edit''"
    by code_simp
  then show ?thesis
    using demo_site_reads(1) [of b]
    by (simp add: require_permission_def has_permission_def ada_def db_of_def)
qed

lemma demo_site_vm_reg: "require_by_id ((db_of (demo_site b))\<lparr>schedules := t\<rparr>) (v_id (site_vm b)) = Inr (site_vm b)"
proof -
  have "find_by_id (d\<lparr>schedules := t\<rparr>) i = find_by_id d i" for d i
    by (simp add: find_by_id_def)
  moreover have "v_id (site_vm b) = demo_vm" by (simp add: site_vm_def recorded_vm_def)
  ultimately show ?thesis using demo_site_vm [of b] by (simp add: require_by_id_def)
qed

lemma demo_schedules: "enabled_schedules ((db_of (demo_site b))\<lparr>schedules := schedule_view (si_schedules (demo_site b))\<rparr>) i = 0"
  by (simp add: enabled_schedules_def demo_site_def schedule_view_def)

lemma edited_without_sight:
  "\<not> sees demo_site_api (ada []) demo_vm (demo_site False)
   \<and> fst (class_route demo_site_api (Some (ada [])) demo_vm (Some UserClass) (demo_site False)) = Inr True"
proof
  show "\<not> sees demo_site_api (ada []) demo_vm (demo_site False)"
    using demo_site_no_access [of False demo_user] demo_site_vm [of False]
    by (simp add: sees_def visible_to_def demo_site_reads(2) ada_def site_vm_def recorded_vm_def)
  have a: "allowed demo_site_api (Some (ada [])) [''vm.edit''] (demo_site False) = (Inr (ada []), demo_site False)"
    using demo_may_edit by (simp add: allowed_def demo_site_reads(2))
  have v: "the_vm demo_vm (demo_site False) = (Inr (site_vm False), demo_site False)"
    using demo_site_vm by (simp add: the_vm_def require_by_id_def)
  have p: "privacy_gate demo_site_api (ada []) (site_vm False) msg_flagged (demo_site False) = (Inr (), demo_site False)"
    by (simp add: privacy_gate_def comp_defs site_vm_def)
  have c: "vm_class_of (site_vm False) = ServerClass"
    by (simp add: vm_class_of_def site_vm_def recorded_vm_def)
  show "fst (class_route demo_site_api (Some (ada [])) demo_vm (Some UserClass) (demo_site False)) = Inr True"
    using a v p c
    by (simp add: class_route_def bind_def parsed_def comp_defs with_schedules_def at_reg_run set_vm_class_def
        demo_site_vm_reg site_event_run demo_schedules)
qed

text \<open>
  The exception: an administrator without a grant clears the flag and sees the machine then.
\<close>

lemma administrators_clear_the_flag:
  "\<not> granted demo_site_api (ada [ADMIN]) (site_vm True) (demo_site True)
   \<and> \<not> sees demo_site_api (ada [ADMIN]) demo_vm (demo_site True)
   \<and> fst (privacy_route demo_site_api (Some (ada [ADMIN])) demo_vm (Some False) (demo_site True)) = Inr ()
   \<and> sees demo_site_api (ada [ADMIN]) demo_vm (snd (privacy_route demo_site_api (Some (ada [ADMIN])) demo_vm (Some False) (demo_site True)))"
proof (intro conjI)
  show "\<not> granted demo_site_api (ada [ADMIN]) (site_vm True) (demo_site True)" by (rule demo_site_not_granted)
  show "\<not> sees demo_site_api (ada [ADMIN]) demo_vm (demo_site True)" by code_simp
  show "fst (privacy_route demo_site_api (Some (ada [ADMIN])) demo_vm (Some False) (demo_site True)) = Inr ()" by code_simp
  show "sees demo_site_api (ada [ADMIN]) demo_vm (snd (privacy_route demo_site_api (Some (ada [ADMIN])) demo_vm (Some False) (demo_site True)))"
    by code_simp
qed

end
