(* ===== verification/Sharing_Props.thy ===== *)
theory Sharing_Props
  imports Site_Gates
begin

text \<open>
  Grants and invitations: what an invitation can hand on, and what a grant writes, or leaves
  behind when Guacamole does not follow.
\<close>

subsection \<open>What touches the registry\<close>

text \<open>\<open>same_db d\<close>: the registry, grants included, is \<open>d\<close>.\<close>

abbreviation same_db :: "vm_db \<Rightarrow> 'w site \<Rightarrow> bool" where
  "same_db d \<equiv> \<lambda>s. db_of s = d"

lemma same_db_blocks [keeps]:
  "keeps_pred (same_db d) (call m)"
  "keeps_pred (same_db d) (at_base (on_guac g))"
  "keeps_pred (same_db d) (site_event sa u ev vm detail)"
  "keeps_pred (same_db d) (allowed sa user ps)"
  "keeps_pred (same_db d) (authed user)"
  "keeps_pred (same_db d) (the_vm i)"
  "keeps_pred (same_db d) (parsed b)"
  by (simp_all add: keeps_pred_def call_run at_base_run site_event_run on_guac_def db_of_def looks_only_gates [unfolded looks_only_def]
      split: prod.splits)

lemma same_db_reconcile [keeps]: "keeps_pred (same_db d) (reconcile_access sa uid vm)"
  unfolding reconcile_access_def by (intro keeps)

lemma same_db_sync [keeps]: "keeps_pred (same_db d) (invite_sync sa uid vm p)"
  unfolding invite_sync_def by (intro keeps)

lemma same_db_temporary [keeps]: "keeps_pred (same_db d) (temporary_event sa u vm target e p)"
  unfolding temporary_event_def by (intro keeps)

lemma db_kept: "keeps_pred (same_db (db_of s)) m \<Longrightarrow> m s = (r, t) \<Longrightarrow> db_of t = db_of s"
  using keeps_predD [of "same_db (db_of s)" m s] by simp

subsection \<open>The scope of an invitation\<close>

lemma future_Inr: "future sa e s = (Inr x, t) \<longleftrightarrow> e = Some x \<and> now_of sa s < x \<and> t = s"
  by (auto simp: future_def comp_defs split: option.splits if_splits)

lemma parsed_Inr: "parsed body s = (Inr b, t) \<longleftrightarrow> body = Some b \<and> t = s"
  by (auto simp: parsed_def comp_defs split: option.splits)

lemma grant_target_looks: "grant_target sa b s = (Inr x, t) \<Longrightarrow> t = s"
  by (auto simp: grant_target_def comp_defs split: option.splits)

lemma bind_authed: "bind (authed (Some u)) f s = f u s"
  by (simp add: authed_def require_auth_def comp_defs)

lemma free_scope_looks: "free_scope sa b s = (r, t) \<Longrightarrow> t = s"
  by (auto simp: free_scope_def future_def comp_defs split: option.splits if_splits)

lemma delegated_scope_looks: "delegated_scope sa u vm b s = (r, t) \<Longrightarrow> t = s"
  by (auto simp: delegated_scope_def future_def comp_defs Let_def split: option.splits if_splits)

lemma delegated_scope_exact:
  assumes "delegated_scope sa u vm b s = (Inr (p, e), t)"
  shows "\<exists>x. e = Some x \<and> now_of sa s < x \<and> x \<le> now_of sa s + MAX_DELEGATED_INVITE_MS
    \<and> (case own_protocols sa u vm s of None \<Rightarrow> True | Some ps \<Rightarrow> ps \<noteq> [] \<and> (\<exists>q. p = Some q \<and> set q \<subseteq> set ps))"
  using assms
  by (auto simp: delegated_scope_def future_def comp_defs Let_def filter_empty_conv split: option.splits if_splits)

lemma scope_of_invitation:
  assumes "(if free then free_scope sa b else delegated_scope sa u vm b) s = (Inr (p, e), t)"
  shows "t = s \<and> (free \<or> (\<exists>x. e = Some x \<and> now_of sa s < x \<and> x \<le> now_of sa s + MAX_DELEGATED_INVITE_MS
    \<and> (case own_protocols sa u vm s of None \<Rightarrow> True | Some ps \<Rightarrow> ps \<noteq> [] \<and> (\<exists>q. p = Some q \<and> set q \<subseteq> set ps))))"
proof (cases free)
  case True
  with assms free_scope_looks show ?thesis by fastforce
next
  case False
  with assms have d: "delegated_scope sa u vm b s = (Inr (p, e), t)" by simp
  from delegated_scope_exact [OF d] delegated_scope_looks [OF d] show ?thesis by blast
qed

text \<open>The last part of an invitation: the row, then Guacamole and the audit log.\<close>

definition invite_tail ::
  "'w site_api \<Rightarrow> user_with_roles \<Rightarrow> string \<Rightarrow> user_with_roles \<Rightarrow> string list option \<times> time option
   \<Rightarrow> ('w site, string list option) comp" where
  "invite_tail sa u vm target = (\<lambda>(protocols, expires).
     bind (at_iam (replace_access vm (u_id target) protocols expires (Some (u_id u)))) (\<lambda>_.
     bind (invite_sync sa (u_id target) vm protocols) (\<lambda>(effective, failure).
     bind (site_event sa (Some u) ''VM_ACCESS_GRANTED'' (Some vm) (Some ([(''targetUserId'', JStr (u_id target)),
       (''username'', JStr (u_username target)), (''guacSynced'', JBool (failure = None))]
       @ (case failure of None \<Rightarrow> [] | Some m \<Rightarrow> if m = [] then [] else [(''guacError'', JStr m)])
       @ [(''protocols'', protocols_event effective), (''expiresAt'', expires_event sa expires), (''invited'', JBool True)]))) (\<lambda>_.
     bind (temporary_event sa u vm target expires effective) (\<lambda>_.
     ret effective)))))"

lemma invite_tail_db:
  assumes "invite_tail sa u vm target (p, e) s = (r, t)"
  shows "db_of t = (db_of s)\<lparr>iam := replace_access vm (u_id target) p e (Some (u_id u)) (iam (db_of s))\<rparr>"
proof -
  let ?s = "with_db ((db_of s)\<lparr>iam := replace_access vm (u_id target) p e (Some (u_id u)) (iam (db_of s))\<rparr>) s"
  let ?rest = "bind (invite_sync sa (u_id target) vm p) (\<lambda>(effective, failure).
     bind (site_event sa (Some u) ''VM_ACCESS_GRANTED'' (Some vm) (Some ([(''targetUserId'', JStr (u_id target)),
       (''username'', JStr (u_username target)), (''guacSynced'', JBool (failure = None))]
       @ (case failure of None \<Rightarrow> [] | Some m \<Rightarrow> if m = [] then [] else [(''guacError'', JStr m)])
       @ [(''protocols'', protocols_event effective), (''expiresAt'', expires_event sa e), (''invited'', JBool True)]))) (\<lambda>_.
     bind (temporary_event sa u vm target e effective) (\<lambda>_. ret effective)))"
  have "?rest ?s = (r, t)"
    using assms by (simp add: invite_tail_def bind_passes [OF at_iam_run])
  moreover have "keeps_pred (same_db (db_of ?s)) ?rest"
    by (intro keeps) (auto intro!: keeps)
  ultimately show ?thesis
    using db_kept [of ?s ?rest r t] by simp
qed

text \<open>C33. An invitation that succeeds comes from someone with a grant for the machine or its owner,
  goes to an account without access, and changes one row of the grants and no other data of the
  registry. When the inviter neither manages machines nor owns this one, the row expires within
  the next 24 hours, and its protocols are protocols the inviter has.\<close>

theorem delegated_invites_are_confined:
  assumes "invite_route sa (Some u) i body s = (Inr effective, t)"
  shows "\<exists>v (target :: user_with_roles) p e. find_by_id (db_of s) i = Some v \<and> granted sa u v s
    \<and> \<not> has_access (iam (db_of s)) (now_of sa s) i (u_id target)
    \<and> db_of t = (db_of s)\<lparr>iam := replace_access i (u_id target) p e (Some (u_id u)) (iam (db_of s))\<rparr>
    \<and> (invite_is_free sa u v s \<or> (\<exists>x. e = Some x \<and> now_of sa s < x \<and> x \<le> now_of sa s + MAX_DELEGATED_INVITE_MS
        \<and> (case own_protocols sa u i s of None \<Rightarrow> True | Some ps \<Rightarrow> ps \<noteq> [] \<and> (\<exists>q. p = Some q \<and> set q \<subseteq> set ps))))"
proof -
  obtain v where v: "the_vm i s = (Inr v, s)"
    using assms looks_only_gates(3) [of i, unfolded looks_only_def]
    by (cases "the_vm i s") (auto simp: invite_route_def bind_Inr_iff authed_def require_auth_def lift_res_def the_vm_def)
  have i: "find_by_id (db_of s) i = Some v" and vi: "v_id v = i"
    using the_vm_passes [OF v] find_by_id_Some [OF the_vm_passes [OF v]] by simp_all
  from assms have "granted sa u v s" and r: "bind (parsed (Option.bind body (\<lambda>b. if grant_body_ok b then Some b else None))) (\<lambda>b.
     bind (grant_target sa b) (\<lambda>target.
     bind (gets (\<lambda>s. has_access (iam (db_of s)) (now_of sa s) (v_id v) (u_id target))) (\<lambda>has.
     if has then throw (err_conflict ''That user already has access; ask a manager to adjust it'')
     else bind (gets (invite_is_free sa u v)) (\<lambda>free.
     bind (if free then free_scope sa b else delegated_scope sa u (v_id v) b) (invite_tail sa u (v_id v) target))))) s
     = (Inr effective, t)"
    unfolding invite_route_def invite_tail_def [symmetric]
    by (simp_all add: bind_authed bind_passes [where m = "the_vm i" and s = s, OF v] bind_gets_run throw_def split: if_splits)
  then obtain b target where g: "granted sa u v s" and n: "\<not> has_access (iam (db_of s)) (now_of sa s) i (u_id target)"
    and run: "bind (if invite_is_free sa u v s then free_scope sa b else delegated_scope sa u i b)
      (invite_tail sa u i target) s = (Inr effective, t)"
    using vi by (auto simp: bind_Inr_iff [where m = "parsed bb" for bb] bind_Inr_iff [where m = "grant_target sa bb" for bb]
        parsed_Inr bind_gets_run throw_def dest!: grant_target_looks split: if_splits)
  from run obtain p e s1 where p: "(if invite_is_free sa u v s then free_scope sa b else delegated_scope sa u i b) s = (Inr (p, e), s1)"
    and tail: "invite_tail sa u i target (p, e) s1 = (Inr effective, t)"
    unfolding bind_Inr_iff by auto
  from scope_of_invitation [OF p] have s1: "s1 = s"
    and scope: "invite_is_free sa u v s \<or> (\<exists>x. e = Some x \<and> now_of sa s < x \<and> x \<le> now_of sa s + MAX_DELEGATED_INVITE_MS
        \<and> (case own_protocols sa u i s of None \<Rightarrow> True | Some ps \<Rightarrow> ps \<noteq> [] \<and> (\<exists>q. p = Some q \<and> set q \<subseteq> set ps)))"
    by auto
  show ?thesis
    using i g n scope invite_tail_db [OF tail [unfolded s1]] by blast
qed

subsection \<open>Grants\<close>

lemma revoke_after_replace: "revoke_access vm uid (replace_access vm uid p e c db) = revoke_access vm uid db"
proof (cases "access_row (vm, uid) (vm_access db)")
  case None
  then show ?thesis
    by (simp add: revoke_access_def replace_access_def upsert_access_def va_key_def table_delete_def)
next
  case (Some r)
  have "filter (\<lambda>r. (va_vm r, va_user r) \<noteq> (vm, uid)) (table_update (\<lambda>r. (va_vm r, va_user r) = (vm, uid)) (\<lambda>r. r\<lparr>va_protocols := x, va_expires := e,
      va_created_by := coalesce (va_created_by r) c\<rparr>) t) = filter (\<lambda>r. (va_vm r, va_user r) \<noteq> (vm, uid)) t" for x and t :: "vm_access_row list"
    by (induction t) (auto simp: table_update_def)
  with Some show ?thesis
    by (simp add: revoke_access_def replace_access_def upsert_access_def update_access_def va_key_def table_delete_def)
qed

text \<open>The last part of a grant: the row, then Guacamole, which takes the row away when it fails.\<close>

definition grant_tail ::
  "'w site_api \<Rightarrow> user_with_roles \<Rightarrow> string \<Rightarrow> user_with_roles \<Rightarrow> string list option \<Rightarrow> bool \<Rightarrow> time option
   \<Rightarrow> ('w site, bool \<times> string list option) comp" where
  "grant_tail sa u vm target protocols live = (\<lambda>expires.
     bind (at_iam (replace_access vm (u_id target) protocols expires (Some (u_id u)))) (\<lambda>_.
     bind (try_catch (reconcile_access sa (u_id target) vm) (grant_failed sa u vm target)) (\<lambda>effective.
     bind (site_event sa (Some u) ''VM_ACCESS_GRANTED'' (Some vm) (Some [(''targetUserId'', JStr (u_id target)),
       (''username'', JStr (u_username target)), (''guacSynced'', JBool True), (''protocols'', protocols_event effective),
       (''expiresAt'', expires_event sa expires), (''alreadyAssigned'', JBool live)])) (\<lambda>_.
     bind (temporary_event sa u vm target expires effective) (\<lambda>_.
     ret (\<not> live, effective))))))"

lemma grant_tail_cases:
  "case grant_tail sa u vm target p live e s of
     (Inr r, t) \<Rightarrow> fst r = (\<not> live)
       \<and> db_of t = (db_of s)\<lparr>iam := replace_access vm (u_id target) p e (Some (u_id u)) (iam (db_of s))\<rparr>
   | (Inl _, t) \<Rightarrow> db_of t = (db_of s)\<lparr>iam := revoke_access vm (u_id target) (iam (db_of s))\<rparr>"
proof -
  let ?d = "(db_of s)\<lparr>iam := replace_access vm (u_id target) p e (Some (u_id u)) (iam (db_of s))\<rparr>"
  let ?s = "with_db ?d s"
  obtain r t where rec: "reconcile_access sa (u_id target) vm ?s = (r, t)" by (cases "reconcile_access sa (u_id target) vm ?s")
  have t: "db_of t = ?d"
    using db_kept [OF same_db_reconcile rec] by simp
  show ?thesis
  proof (cases r)
    case (Inl x)
    with rec t show ?thesis
      by (simp add: grant_tail_def bind_passes [OF at_iam_run] bind_def [where m = "try_catch m h" for m h] try_catch_def
          grant_failed_def bind_passes [OF site_event_run] throw_def revoke_after_replace)
  next
    case (Inr x)
    have l: "db_of (logged sa (Some u) ev vm' detail t) = ?d" for ev vm' detail
      using t by simp
    show ?thesis
      using rec Inr l
      by (auto simp: grant_tail_def bind_passes [OF at_iam_run] bind_def [where m = "try_catch m h" for m h] try_catch_def
          bind_passes [OF site_event_run] temporary_event_def do_when_def bind_def site_event_run ret_def)
  qed
qed

text \<open>
  So when Guacamole cannot be reached, renewing a valid grant takes it away.
\<close>

lemma failed_grant_leaves_no_row:
  assumes "grant_tail sa u vm target p live e s = (Inl x, t)"
  shows "access_row (vm, u_id target) (vm_access (iam (db_of t))) = None"
  using grant_tail_cases [where sa = sa and u = u and vm = vm and target = target and p = p and live = live and e = e and s = s] assms
  by (simp add: revoke_access_def access_row_def table_find_def table_delete_def find_None_all va_key_def)

lemma looks_only_sharing:
  "looks_only (grant_target sa b)" "looks_only (future sa e)" "looks_only (gets g)" "looks_only (ret x)"
  by (auto simp: looks_only_def grant_target_def future_def comp_defs split: option.splits)

text \<open>A request to grant, read as a row of the table. \<open>old\<close> is the row there was before, valid or not.\<close>

definition names_account :: "grant_body \<Rightarrow> user_row \<Rightarrow> bool" where
  "names_account b r \<longleftrightarrow> (case gb_user b of Some i \<Rightarrow> us_id r = i | None \<Rightarrow> gb_username b = Some (us_username r))"

definition row_asked :: "grant_body \<Rightarrow> string \<Rightarrow> time \<Rightarrow> vm_access_row option \<Rightarrow> vm_access_row \<Rightarrow> bool" where
  "row_asked b granter now old r \<longleftrightarrow>
     (case gb_protocols b of
        Some ps \<Rightarrow> \<exists>qs. va_protocols r = JArr (map JStr qs) \<and> distinct qs \<and> set qs = set ps
      | None \<Rightarrow> va_protocols r = (case old of None \<Rightarrow> JNull | Some x \<Rightarrow> protocols_json (stored_protocols (va_protocols x))))
   \<and> (case gb_expires b of
        Some e \<Rightarrow> \<exists>time > now. e = Some time \<and> va_expires r = Some time
      | None \<Rightarrow> va_expires r = (case old of None \<Rightarrow> None | Some x \<Rightarrow> va_expires x))
   \<and> va_created_by r = (case old of None \<Rightarrow> Some granter | Some x \<Rightarrow> coalesce (va_created_by x) (Some granter))"

text \<open>Nothing but the row of one account for one machine differs.\<close>

definition only_row :: "string \<times> string \<Rightarrow> vm_db \<Rightarrow> vm_db \<Rightarrow> bool" where
  "only_row k d d' \<longleftrightarrow> d' = d\<lparr>iam := (iam d)\<lparr>vm_access := vm_access (iam d')\<rparr>\<rparr>
     \<and> filter (\<lambda>r. va_key r \<noteq> k) (vm_access (iam d')) = filter (\<lambda>r. va_key r \<noteq> k) (vm_access (iam d))"

lemma only_row_replace: "only_row (vm, uid) d (d\<lparr>iam := replace_access vm uid p e c (iam d)\<rparr>)"
proof -
  have "filter (\<lambda>r. va_key r \<noteq> (vm, uid)) (table_update (\<lambda>r. va_key r = (vm, uid)) (\<lambda>r. r\<lparr>va_protocols := x, va_expires := e,
      va_created_by := coalesce (va_created_by r) c\<rparr>) t) = filter (\<lambda>r. va_key r \<noteq> (vm, uid)) t" for x and t :: "vm_access_row list"
    by (induction t) (auto simp: table_update_def va_key_def)
  then show ?thesis
    by (auto simp: only_row_def replace_access_def upsert_access_def update_access_def va_key_def split: option.split)
qed

lemma only_row_revoke: "only_row (vm, uid) d (d\<lparr>iam := revoke_access vm uid (iam d)\<rparr>)"
  by (auto simp: only_row_def revoke_access_def table_delete_def va_key_def)

lemma row_replaced:
  "access_row (vm, uid) (vm_access (replace_access vm uid p e c db)) = Some (case access_row (vm, uid) (vm_access db) of
     None \<Rightarrow> \<lparr>va_vm = vm, va_user = uid, va_protocols = protocols_json p, va_expires = e, va_created_by = c\<rparr>
   | Some r \<Rightarrow> r\<lparr>va_protocols := protocols_json p, va_expires := e, va_created_by := coalesce (va_created_by r) c\<rparr>)"
proof (cases "access_row (vm, uid) (vm_access db)")
  case None
  let ?new = "\<lparr>va_vm = vm, va_user = uid, va_protocols = protocols_json p, va_expires = e, va_created_by = c\<rparr>"
  have k: "va_key ?new = (vm, uid)" by (simp add: va_key_def)
  from access_table.lookup_append_fresh [of ?new "vm_access db"] None show ?thesis
    by (simp add: replace_access_def upsert_access_def k)
next
  case (Some r)
  have "access_row (vm, uid) (table_update (\<lambda>r. va_key r = (vm, uid)) (\<lambda>r. r\<lparr>va_protocols := protocols_json p, va_expires := e,
      va_created_by := coalesce (va_created_by r) c\<rparr>) (vm_access db)) = map_option (\<lambda>r. r\<lparr>va_protocols := protocols_json p, va_expires := e,
      va_created_by := coalesce (va_created_by r) c\<rparr>) (access_row (vm, uid) (vm_access db))"
    by (rule access_table.lookup_update) (simp add: va_key_def)
  with Some show ?thesis
    by (simp add: replace_access_def upsert_access_def update_access_def va_key_def)
qed

lemma direct_entry_row:
  "direct_entry uid (list_access_entries db now vm) = map_option (\<lambda>r. \<lparr>ae_user = va_user r, ae_created_by = va_created_by r,
     ae_protocols = va_protocols r, ae_expires = va_expires r, ae_group = None\<rparr>) (access_row (vm, uid) (vm_access db))"
proof -
  define entry where "entry = (\<lambda>r :: vm_access_row. \<lparr>ae_user = va_user r, ae_created_by = va_created_by r,
     ae_protocols = va_protocols r, ae_expires = va_expires r, ae_group = None\<rparr>)"
  have rows: "find P (map entry (filter (\<lambda>r. va_vm r = vm) t) @ gs) = map_option entry (access_row (vm, uid) t)"
    if "P = (\<lambda>e. ae_group e = None \<and> ae_user e = uid)" "\<forall>g \<in> set gs. ae_group g \<noteq> None" for P gs and t :: "vm_access_row list"
    using that by (induction t) (auto simp: access_row_def table_find_def va_key_def entry_def find_None_iff)
  show ?thesis
    unfolding direct_entry_def list_access_entries_def entry_def [symmetric] by (rule rows) auto
qed

lemma grant_target_account:
  assumes "grant_target sa b s = (Inr x, t)" "grant_body_ok b"
  shows "\<exists>r \<in> set (users (p_app (base_of s))). us_id r = u_id x \<and> names_account b r"
proof (cases "gb_user b")
  case None
  with assms show ?thesis
    by (auto simp: grant_target_def grant_body_ok_def names_account_def find_user_by_username_def assemble_user_def comp_defs
        dest!: find_Some_in split: option.splits)
next
  case (Some i)
  with assms show ?thesis
    using user_table.lookup_SomeD
    by (fastforce simp: grant_target_def names_account_def find_user_def assemble_user_def comp_defs split: option.splits if_splits)
qed

text \<open>What a request to grant leaves behind.\<close>

definition grant_outcome :: "'w site_api \<Rightarrow> 'w site \<Rightarrow> string \<Rightarrow> string \<Rightarrow> grant_body option
    \<Rightarrow> (bool \<times> string list option) res \<times> 'w site \<Rightarrow> bool" where
  "grant_outcome sa s i granter body x = (case x of
     (Inr _, t) \<Rightarrow> \<exists>b account row. body = Some b \<and> account \<in> set (users (p_app (base_of s))) \<and> names_account b account
       \<and> only_row (i, us_id account) (db_of s) (db_of t)
       \<and> access_row (i, us_id account) (vm_access (iam (db_of t))) = Some row
       \<and> row_asked b granter (now_of sa s) (access_row (i, us_id account) (vm_access (iam (db_of s)))) row
   | (Inl _, t) \<Rightarrow> db_of t = db_of s \<or> (\<exists>b account. body = Some b \<and> account \<in> set (users (p_app (base_of s)))
       \<and> names_account b account \<and> only_row (i, us_id account) (db_of s) (db_of t)
       \<and> access_row (i, us_id account) (vm_access (iam (db_of t))) = None))"

lemma grant_look:
  "looks_only m \<Longrightarrow> (\<And>x. m s = (Inr x, s) \<Longrightarrow> grant_outcome sa s i g body (f x s)) \<Longrightarrow> grant_outcome sa s i g body (bind m f s)"
  by (rule looks_then [where Q = "grant_outcome sa s i g body"]) (simp_all add: grant_outcome_def)

text \<open>The scope that a request asks for.\<close>

definition scope_asked :: "grant_body \<Rightarrow> access_entry option \<Rightarrow> string list option" where
  "scope_asked b old = (case gb_protocols b of Some ps \<Rightarrow> Some (dedup ps)
     | None \<Rightarrow> (case old of None \<Rightarrow> None | Some e \<Rightarrow> stored_protocols (ae_protocols e)))"

definition end_asked :: "'w site_api \<Rightarrow> grant_body \<Rightarrow> access_entry option \<Rightarrow> ('w site, time option) comp" where
  "end_asked sa b old = (case gb_expires b of
     None \<Rightarrow> ret (case old of None \<Rightarrow> None | Some e \<Rightarrow> ae_expires e)
   | Some e \<Rightarrow> bind (future sa e) (\<lambda>t. ret (Some t)))"

lemma end_asked_looks: "looks_only (end_asked sa b old)"
  unfolding end_asked_def by (auto intro!: looks_only_bind looks_only_sharing split: option.splits)

lemma grant_tail_outcome:
  assumes target: "grant_target sa b s = (Inr target, s)" "grant_body_ok b" "body = Some b"
    and old: "old = direct_entry (u_id target) (entries_of sa i s)"
    and e: "end_asked sa b old s = (Inr e, s)"
  shows "grant_outcome sa s i (u_id u) body (grant_tail sa u i target (scope_asked b old) live e s)"
proof -
  obtain account where account: "account \<in> set (users (p_app (base_of s)))" "us_id account = u_id target" "names_account b account"
    using grant_target_account [OF target(1,2)] by blast
  let ?before = "access_row (i, u_id target) (vm_access (iam (db_of s)))"
  have old': "old = map_option (\<lambda>r. \<lparr>ae_user = va_user r, ae_created_by = va_created_by r,
     ae_protocols = va_protocols r, ae_expires = va_expires r, ae_group = None\<rparr>) ?before"
    unfolding old entries_of_def by (rule direct_entry_row)
  have asked: "row_asked b (u_id u) (now_of sa s) ?before (case ?before of
     None \<Rightarrow> \<lparr>va_vm = i, va_user = u_id target, va_protocols = protocols_json (scope_asked b old), va_expires = e,
       va_created_by = Some (u_id u)\<rparr>
   | Some r \<Rightarrow> r\<lparr>va_protocols := protocols_json (scope_asked b old), va_expires := e,
       va_created_by := coalesce (va_created_by r) (Some (u_id u))\<rparr>)"
    using e unfolding old' row_asked_def
    by (cases "gb_protocols b"; cases "gb_expires b"; cases ?before)
       (auto simp: scope_asked_def end_asked_def protocols_json_def comp_defs future_def split: option.splits if_splits)
  have gone: "access_row (i, u_id target) (vm_access (revoke_access i (u_id target) db)) = None" for db
    by (simp add: revoke_access_def access_row_def table_find_def table_delete_def find_None_all va_key_def)
  obtain r t where run: "grant_tail sa u i target (scope_asked b old) live e s = (r, t)" by fastforce
  note cases = grant_tail_cases [where sa = sa and u = u and vm = i and target = target and p = "scope_asked b old" and live = live
      and e = e and s = s, unfolded run]
  show ?thesis
  proof (cases r)
    case (Inl x)
    with cases have t: "db_of t = (db_of s)\<lparr>iam := revoke_access i (u_id target) (iam (db_of s))\<rparr>" by simp
    show ?thesis
      unfolding run grant_outcome_def Inl
      using target(3) account only_row_revoke [of i "u_id target" "db_of s"] gone by (auto simp: t)
  next
    case (Inr x)
    with cases have t: "db_of t = (db_of s)\<lparr>iam := replace_access i (u_id target) (scope_asked b old) e (Some (u_id u)) (iam (db_of s))\<rparr>"
      by simp
    show ?thesis
      unfolding run grant_outcome_def Inr
      using target(3) account asked only_row_replace [of i "u_id target" "db_of s" "scope_asked b old" e "Some (u_id u)"]
        row_replaced [of i "u_id target" "scope_asked b old" e "Some (u_id u)" "iam (db_of s)"]
      by (auto simp: t)
  qed
qed

text \<open>C34. A request to grant a machine does what its body says or leaves no access behind. When it
  succeeds, the account that the body names (by identifier, or else by user name) has a row for the
  machine with exactly the protocols of the body, without repetition, and exactly its expiry, a
  later instant; what the body leaves out is what the row of that account said before, or every
  protocol and no expiry where there was none. When it fails, either the registry is as it was or
  that account has no row of its own any more (Guacamole could not follow, even where there was a
  valid row before). No other row and nothing else in the registry changes.\<close>

theorem grant_is_exact_or_revoked:
  "grant_outcome sa s i (u_id u) body (grant_route sa (Some u) i body s)"
  unfolding grant_route_def grant_tail_def [symmetric] Let_def scope_asked_def [symmetric] end_asked_def [symmetric]
proof (intro grant_look looks_only_gates looks_only_sharing end_asked_looks)
  fix w v x b target old live e
  assume a: "allowed sa (Some u) [''vm.edit''] s = (Inr w, s)" and v: "the_vm i s = (Inr v, s)"
    and b: "parsed (Option.bind body (\<lambda>b. if grant_body_ok b then Some b else None)) s = (Inr b, s)"
    and target: "grant_target sa b s = (Inr target, s)"
    and old: "gets (\<lambda>s. direct_entry (u_id target) (entries_of sa (v_id v) s)) s = (Inr old, s)"
    and e: "end_asked sa b old s = (Inr e, s)"
  from a v have w: "w = u" and i: "v_id v = i"
    using allowed_passes find_by_id_Some [OF the_vm_passes [OF v]] by blast+
  from b have body: "body = Some b" "grant_body_ok b"
    by (auto simp: parsed_Inr bind_eq_Some_conv split: if_splits)
  have "old = direct_entry (u_id target) (entries_of sa i s)" using old by (simp add: gets_def i)
  from grant_tail_outcome [OF target body(2,1) this e]
  show "grant_outcome sa s i (u_id u) body (grant_tail sa w (v_id v) target (scope_asked b old) live e s)"
    unfolding w i .
qed

text \<open>A site where the account holds the machine for SSH until time 100, and a second account.\<close>

definition bob_id :: string where
  "bob_id = ''55555555-5555-5555-5555-555555555555''"

definition bob :: user_with_roles where
  "bob = (ada [])\<lparr>u_id := bob_id, u_username := ''bob''\<rparr>"

definition ada_row :: vm_access_row where
  "ada_row = \<lparr>va_vm = demo_vm, va_user = demo_user, va_protocols = JArr [JStr ''ssh''], va_expires = Some 100,
     va_created_by = None\<rparr>"

definition bob_row :: vm_access_row where
  "bob_row = \<lparr>va_vm = demo_vm, va_user = bob_id, va_protocols = JArr [JStr ''ssh''], va_expires = Some 5000,
     va_created_by = Some demo_user\<rparr>"

definition site_of :: "vm_access_row list \<Rightarrow> int \<Rightarrow> int site" where
  "site_of rows w = with_base (\<lambda>b. b\<lparr>p_app := \<lparr>users = [demo_account, demo_account\<lparr>us_id := bob_id, us_username := ''bob''\<rparr>],
     sessions = [], reg = \<lparr>vms = [site_vm True], schedules = [], iam = (demo_iam False)\<lparr>vm_access := rows\<rparr>\<rparr>\<rparr>, p_world := w\<rparr>)
     (demo_site True)"

abbreviation shared_site :: "int site" where
  "shared_site \<equiv> site_of [ada_row] 0"

definition invitation :: "string \<Rightarrow> time \<Rightarrow> grant_body" where
  "invitation uid e = \<lparr>gb_user = Some uid, gb_username = None, gb_protocols = None, gb_expires = Some (Some e)\<rparr>"

definition invited_site :: "int site" where
  "invited_site = snd (invite_route demo_site_api (Some (ada [])) demo_vm (Some (invitation bob_id 5000)) shared_site)"

lemma invitation_runs:
  "invite_route demo_site_api (Some (ada [])) demo_vm (Some (invitation bob_id 5000)) shared_site
   = (Inr (Some [''ssh'']), invited_site)"
proof -
  have "fst (invite_route demo_site_api (Some (ada [])) demo_vm (Some (invitation bob_id 5000)) shared_site) = Inr (Some [''ssh''])"
    by code_simp
  then show ?thesis by (simp add: invited_site_def prod_eq_iff)
qed

theorem delegated_invites_are_confined_witness:
  "invite_route demo_site_api (Some (ada [])) demo_vm (Some (invitation bob_id 5000)) shared_site
     = (Inr (Some [''ssh'']), invited_site)
   \<and> \<not> invite_is_free demo_site_api (ada []) (site_vm True) shared_site
   \<and> (\<exists>(target :: user_with_roles) p x. db_of invited_site = (db_of shared_site)\<lparr>iam :=
        replace_access demo_vm (u_id target) p (Some x) (Some (u_id (ada []))) (iam (db_of shared_site))\<rparr>
      \<and> x \<le> now_of demo_site_api shared_site + MAX_DELEGATED_INVITE_MS)"
proof -
  have f: "find_by_id (db_of shared_site) demo_vm = Some (site_vm True)"
    by code_simp
  have n: "\<not> invite_is_free demo_site_api (ada []) (site_vm True) shared_site"
    by code_simp
  from delegated_invites_are_confined [OF invitation_runs] f n invitation_runs show ?thesis by fastforce
qed

text \<open>
  The end of an invitation is not bounded by the end of the inviter's own access: Ada's access
  ends at 100, Bob whom she invited stays until 5000, and may let her in again before that.
\<close>

lemma invitations_chain:
  "vm_access (iam (db_of invited_site)) = [ada_row, bob_row]
   \<and> \<not> has_access (iam (db_of (site_of [ada_row, bob_row] 4000))) 4000 demo_vm demo_user
   \<and> fst (invite_route demo_site_api (Some bob) demo_vm (Some (invitation demo_user 80000)) (site_of [ada_row, bob_row] 4000))
     = Inr (Some [''ssh''])"
proof (intro conjI)
  show "vm_access (iam (db_of invited_site)) = [ada_row, bob_row]"
    by code_simp
  show "\<not> has_access (iam (db_of (site_of [ada_row, bob_row] 4000))) 4000 demo_vm demo_user"
    by code_simp
  show "fst (invite_route demo_site_api (Some bob) demo_vm (Some (invitation demo_user 80000)) (site_of [ada_row, bob_row] 4000))
     = Inr (Some [''ssh''])"
    by code_simp
qed

end
