(* ===== verification/Plan_Props.thy ===== *)
theory Plan_Props
  imports Site_Gates
begin

text \<open>
  Classes and timetables: a machine that the idle ticker may switch off has no enabled schedule,
  whichever of the routes for classes and schedules run, in whatever order, and whether or not
  they succeed.
\<close>

definition may_idle :: "'w site \<Rightarrow> string \<Rightarrow> bool" where
  "may_idle s i \<longleftrightarrow> (\<exists>v \<in> set (vms (db_of s)). vm_live v \<and> v_id v = i \<and> vm_class_of v = UserClass)"

definition plans_ok :: "'w site \<Rightarrow> bool" where
  "plans_ok s \<longleftrightarrow> vm_table.unique (vms (db_of s)) \<and> (\<forall>v \<in> set (vms (db_of s)). is_uuid (v_id v))
     \<and> distinct (map ps_id (si_schedules s))
     \<and> (\<forall>r \<in> set (si_schedules s). tt_enabled r \<longrightarrow> \<not> may_idle s (ps_vm r))"

lemma may_idle_found:
  assumes "plans_ok s"
  shows "may_idle s i \<longleftrightarrow> (case find_by_id (db_of s) i of None \<Rightarrow> False | Some v \<Rightarrow> vm_class_of v = UserClass)"
proof
  assume "may_idle s i"
  then obtain v where v: "v \<in> set (vms (db_of s))" "vm_live v" "v_id v = i" "vm_class_of v = UserClass"
    by (auto simp: may_idle_def)
  with assms have "find_by_id (db_of s) i = Some v"
    using find_by_id_live [of "db_of s" v] by (auto simp: plans_ok_def)
  with v show "case find_by_id (db_of s) i of None \<Rightarrow> False | Some v \<Rightarrow> vm_class_of v = UserClass" by simp
next
  assume "case find_by_id (db_of s) i of None \<Rightarrow> False | Some v \<Rightarrow> vm_class_of v = UserClass"
  then show "may_idle s i"
    by (auto simp: may_idle_def dest: find_by_id_Some split: option.splits)
qed

text \<open>States with the same registry and the same schedules are alike.\<close>

lemma plans_ok_alike: "db_of t = db_of s \<Longrightarrow> si_schedules t = si_schedules s \<Longrightarrow> plans_ok t = plans_ok s"
  by (simp add: plans_ok_def may_idle_def)

lemma plans_ok_kept [simp]:
  "plans_ok (with_world w s) = plans_ok s" "plans_ok (logged sa u ev vm detail s) = plans_ok s"
  by (rule plans_ok_alike; simp)+

lemma plans_ok_blocks [keeps]:
  "keeps_pred plans_ok (call m)" "keeps_pred plans_ok (site_event sa u ev vm detail)"
  "keeps_pred plans_ok (allowed sa user ps)" "keeps_pred plans_ok (must_see sa user i msg)"
  "keeps_pred plans_ok (the_vm i)" "keeps_pred plans_ok (parsed body)" "keeps_pred plans_ok (privacy_gate sa w v msg)"
  "keeps_pred plans_ok (authed user)"
  by (simp_all add: keeps_pred_def call_run site_event_run looks_only_gates [unfolded looks_only_def])

subsection \<open>Classes\<close>

definition unscheduled :: "'w site \<Rightarrow> string \<Rightarrow> bool" where
  "unscheduled s i \<longleftrightarrow> (\<forall>x \<in> set (si_schedules s). ps_vm x = i \<longrightarrow> \<not> tt_enabled x)"

lemma plans_ok_update:
  assumes ok: "plans_ok s" and f: "\<And>r. v_id (f r) = v_id r" "\<And>r. v_deleted_at (f r) = v_deleted_at r"
    and c: "\<And>r. vm_class_of (f r) = UserClass \<Longrightarrow> vm_class_of r = UserClass \<or> unscheduled s i"
    and d: "vms d = vms (db_of s)"
  shows "plans_ok (with_db (update_vm i f d) s)"
proof -
  have rows: "vms (db_of (with_db (update_vm i f d) s)) = table_update (\<lambda>r. v_id r = i) f (vms (db_of s))"
    by (simp add: update_vm_def d)
  have same: "si_schedules (with_db (update_vm i f d) s) = si_schedules s"
    by (simp add: with_db_def)
  have u: "vm_table.unique (table_update (\<lambda>r. v_id r = i) f (vms (db_of s)))"
    using ok f(1) vm_table.unique_update [of "vms (db_of s)" f] by (auto simp: plans_ok_def)
  have e: "may_idle s j \<or> (j = i \<and> unscheduled s i)" if "may_idle (with_db (update_vm i f d) s) j" for j
  proof -
    from that obtain v where v: "v \<in> set (vms (db_of s))"
      and new: "vm_live (if v_id v = i then f v else v)" "v_id (if v_id v = i then f v else v) = j"
        "vm_class_of (if v_id v = i then f v else v) = UserClass"
      unfolding may_idle_def rows table_update_def by auto
    show ?thesis
    proof (cases "v_id v = i")
      case True
      with new f have "vm_live v" "v_id v = j" "vm_class_of (f v) = UserClass" by (simp_all add: vm_live_def)
      with c [of v] v True show ?thesis by (auto simp: may_idle_def)
    next
      case False
      with new v show ?thesis by (auto simp: may_idle_def)
    qed
  qed
  have "\<not> may_idle (with_db (update_vm i f d) s) (ps_vm r)" if "r \<in> set (si_schedules s)" "tt_enabled r" for r
    using e [of "ps_vm r"] that ok by (auto simp: plans_ok_def unscheduled_def)
  moreover have "\<forall>v \<in> set (table_update (\<lambda>r. v_id r = i) f (vms (db_of s))). is_uuid (v_id v)"
    using ok f(1) by (auto simp: plans_ok_def table_update_def)
  ultimately show ?thesis
    using ok u unfolding plans_ok_def [of "with_db (update_vm i f d) s"] rows same by (simp add: plans_ok_def)
qed

lemma find_by_id_schedules: "find_by_id (d\<lparr>schedules := t\<rparr>) i = find_by_id d i"
  by (simp add: find_by_id_def)

lemma schedules_none: "enabled_schedules (d\<lparr>schedules := schedule_view t\<rparr>) i = 0 \<longleftrightarrow> (\<forall>x \<in> set t. ps_vm x = i \<longrightarrow> \<not> tt_enabled x)"
  by (auto simp: enabled_schedules_def schedule_view_def filter_empty_conv)

lemma plans_ok_class: "plans_ok s \<Longrightarrow> plans_ok (with_db (snd (set_vm_class i c ((db_of s)\<lparr>schedules := schedule_view (si_schedules s)\<rparr>))) s)"
  (is "_ \<Longrightarrow> plans_ok (with_db (snd (set_vm_class i c ?d)) s)")
proof -
  assume ok: "plans_ok s"
  have kept: "plans_ok (with_db ?d s)"
    using ok by (simp add: plans_ok_def may_idle_def) (simp add: with_db_def)
  have set: "plans_ok (with_db (update_vm i (\<lambda>r. r\<lparr>v_class := vm_class_str c\<rparr>) ?d) s)"
    if "c = UserClass \<Longrightarrow> vm_class_of vm \<noteq> UserClass \<Longrightarrow> enabled_schedules ?d i = 0" and "require_by_id ?d i = Inr vm" for vm
  proof (rule plans_ok_update [OF ok])
    fix r :: vm_row
    assume "vm_class_of (r\<lparr>v_class := vm_class_str c\<rparr>) = UserClass"
    then have "c = UserClass" by (cases c) (simp_all add: vm_class_of_def)
    show "vm_class_of r = UserClass \<or> unscheduled s i"
    proof (cases "vm_class_of vm = UserClass")
      case True
      from that(2) have "find_by_id (db_of s) i = Some vm"
        by (simp add: require_by_id_def find_by_id_schedules split: option.splits)
      with True ok have "may_idle s i" by (simp add: may_idle_found)
      with ok show ?thesis by (auto simp: plans_ok_def unscheduled_def)
    next
      case False
      with that(1) \<open>c = UserClass\<close> show ?thesis by (simp add: schedules_none unscheduled_def)
    qed
  qed simp_all
  show ?thesis
    using kept set by (auto simp: set_vm_class_def comp_defs split: sum.splits)
qed

lemma plans_ok_with_class [keeps]: "keeps_pred plans_ok (with_schedules (set_vm_class i c))"
  by (simp add: keeps_pred_def with_schedules_def bind_gets_run at_reg_run plans_ok_class)

lemma with_db_collapse: "with_db d (with_db d' s) = with_db d s" "si_schedules (with_db d s) = si_schedules s"
  by (simp_all add: with_db_def)

lemma plans_ok_bulk_class:
  "plans_ok s \<Longrightarrow> d = (db_of s)\<lparr>schedules := schedule_view (si_schedules s)\<rparr>
   \<Longrightarrow> plans_ok (with_db (snd (bulk (\<lambda>i. set_vm_class i c) ids d)) s)"
proof (induction ids arbitrary: s d)
  case Nil
  then show ?case by (simp add: plans_ok_def may_idle_def with_db_collapse)
next
  case (Cons i ids)
  let ?d = "snd (set_vm_class i c d)"
  have ok: "plans_ok (with_db ?d s)"
    using plans_ok_class [OF Cons.prems(1)] unfolding Cons.prems(2) .
  have "schedules ?d = schedules d"
    by (simp add: set_vm_class_def comp_defs update_vm_def split: sum.splits)
  then have "schedules ?d = schedule_view (si_schedules s)"
    by (simp add: Cons.prems(2))
  then have "?d = (db_of (with_db ?d s))\<lparr>schedules := schedule_view (si_schedules (with_db ?d s))\<rparr>"
    by (cases ?d) (simp add: with_db_collapse)
  then have "plans_ok (with_db (snd (bulk (\<lambda>i. set_vm_class i c) ids ?d)) (with_db ?d s))"
    by (rule Cons.IH [OF ok])
  then show ?case
    by (cases "set_vm_class i c d"; cases "bulk (\<lambda>i. set_vm_class i c) ids ?d") (simp add: Let_def with_db_collapse)
qed

lemma keeps_collect [keeps]: "(\<And>x. keeps_pred P (f x)) \<Longrightarrow> keeps_pred P (collect f xs)"
  by (induction xs) (simp_all add: keeps)

lemma plans_ok_bulk [keeps]: "keeps_pred plans_ok (with_schedules (batch (bulk_set_vm_class ids c)))"
proof -
  have "plans_ok s \<Longrightarrow> plans_ok (with_db (snd (bulk (\<lambda>i. set_vm_class i c) (dedup ids)
      ((db_of s)\<lparr>schedules := schedule_view (si_schedules s)\<rparr>))) s)" for s :: "'a site"
    by (rule plans_ok_bulk_class) simp_all
  then show ?thesis
    by (simp add: keeps_pred_def with_schedules_def bind_gets_run at_reg_run batch_def bulk_set_vm_class_def split: prod.splits)
      (metis snd_conv)
qed

lemma plans_ok_class_routes:
  "keeps_pred plans_ok (class_route sa user i body)" "keeps_pred plans_ok (bulk_class sa u ids c)"
  unfolding class_route_def bulk_class_def class_answer_def
  by (intro keeps | auto intro!: keeps split: sum.splits)+

subsection \<open>Schedules\<close>

lemma plans_ok_power: "keeps_pred plans_ok (set_power v st)"
proof -
  have "plans_ok s \<Longrightarrow> plans_ok (with_db (update_status (v_id v) st (db_of s)) s)" for s :: "'a site"
    unfolding update_status_def by (rule plans_ok_update) (simp_all add: vm_class_of_def)
  then show ?thesis by (simp add: keeps_pred_def set_power_def at_reg_run modify_def)
qed

lemma with_schedules_plans:
  assumes ok: "plans_ok s" and d: "distinct (map ps_id t)"
    and e: "\<And>r. r \<in> set t \<Longrightarrow> tt_enabled r \<Longrightarrow> r \<in> set (si_schedules s) \<or> \<not> may_idle s (ps_vm r)"
  shows "plans_ok (s\<lparr>si_schedules := t\<rparr>)"
proof -
  have db: "db_of (s\<lparr>si_schedules := t\<rparr>) = db_of s" by (simp add: db_of_def base_of_def)
  show ?thesis
    using ok d e by (auto simp: plans_ok_def may_idle_def db)
qed

lemma plans_ok_delete: "plans_ok s \<Longrightarrow> plans_ok (snd (on_schedules (batch (delete_schedule i)) s))"
  by (simp add: on_schedules_def batch_def delete_schedule_def)
     (rule with_schedules_plans, auto simp: plans_ok_def table_delete_def distinct_map_filter)

lemma plans_ok_enable:
  assumes ok: "plans_ok s" and r: "r \<in> set (si_schedules s)" "ps_id r = i" and c: "b \<Longrightarrow> \<not> may_idle s (ps_vm r)"
  shows "plans_ok (snd (on_schedules (modify (set_schedule_enabled i b)) s))"
proof -
  let ?t = "set_schedule_enabled i b (si_schedules s)"
  have "map ps_id ?t = map ps_id (si_schedules s)"
    by (simp add: set_schedule_enabled_def table_update_def)
  moreover have "x \<in> set (si_schedules s) \<or> \<not> may_idle s (ps_vm x)" if "x \<in> set ?t" "tt_enabled x" for x
  proof -
    from that(1) obtain y where y: "y \<in> set (si_schedules s)" "x = (if ps_id y = i then y\<lparr>tt_enabled := b\<rparr> else y)"
      by (auto simp: set_schedule_enabled_def table_update_def)
    show ?thesis
    proof (cases "ps_id y = i")
      case True
      with y(1) r ok have "y = r" by (auto simp: plans_ok_def distinct_map inj_on_def)
      with y True that(2) c show ?thesis by simp
    qed (use y in simp)
  qed
  ultimately show ?thesis
    using with_schedules_plans [OF ok, of ?t] ok
    by (simp add: on_schedules_def modify_def plans_ok_def)
qed

lemma plans_ok_create:
  assumes ok: "plans_ok s" and c: "\<not> may_idle s (si_vm b)"
  shows "plans_ok (snd (on_schedules (create_schedule now nid b) s))"
proof (cases "fst (create_schedule now nid b (si_schedules s))")
  case (Inl e)
  then show ?thesis
    using ok by (auto simp: on_schedules_def create_schedule_def Let_def split: sum.splits if_splits)
next
  case (Inr row)
  then have t: "snd (create_schedule now nid b (si_schedules s)) = si_schedules s @ [row]" and "ps_id row = nid"
    and v: "ps_vm row = si_vm b" and "nid \<notin> ps_id ` set (si_schedules s)"
    by (auto simp: create_schedule_def Let_def list_ex_iff split: sum.splits if_splits)
  then have "plans_ok (s\<lparr>si_schedules := si_schedules s @ [row]\<rparr>)"
    using ok c by (intro with_schedules_plans) (auto simp: plans_ok_def)
  with t show ?thesis
    by (auto simp: on_schedules_def split: prod.splits)
qed

text \<open>Through the gates: nothing happens between the check of the class and the write but a call outside.\<close>

abbreviation plans_after :: "'a res \<times> 'w site \<Rightarrow> bool" where
  "plans_after x \<equiv> plans_ok (snd x)"

lemma plans_look:
  "looks_only m \<Longrightarrow> plans_ok s \<Longrightarrow> (\<And>x. m s = (Inr x, s) \<Longrightarrow> plans_after (f x s)) \<Longrightarrow> plans_after (bind m f s)"
  by (rule looks_then [where Q = plans_after]) simp_all

lemma looks_only_plans: "looks_only (must_see_vm sa u vm)" "looks_only (the_schedule i)" "looks_only (gets g)" "looks_only (throw e)"
  by (auto simp: looks_only_def must_see_vm_def the_schedule_def comp_defs split: option.splits)

lemma plans_ok_bind: "plans_after (m s) \<Longrightarrow> (\<And>x. keeps_pred plans_ok (f x)) \<Longrightarrow> plans_after (bind m f s)"
  by (cases "m s"; cases "fst (m s)") (auto simp: bind_def keeps_pred_def)

lemma plans_ok_create_route: "plans_ok s \<Longrightarrow> plans_after (create_schedule_route sa user body s)"
  unfolding create_schedule_route_def
proof (intro plans_look looks_only_gates looks_only_plans)
  fix u and b :: schedule_input and x v
  assume ok: "plans_ok s" and v: "the_vm (si_vm b) s = (Inr v, s)"
  show "plans_after ((if vm_class_of v = UserClass then throw (err_validation (msg_user_class @ msg_move_first))
     else bind (call (sv_new_id (sa_base sa))) (\<lambda>nid. bind (gets (now_of sa)) (\<lambda>now.
     bind (on_schedules (create_schedule now nid (b\<lparr>si_created_by := Some (u_id u)\<rparr>))) (\<lambda>r.
     bind (site_event sa (Some u) ''SCHEDULE_CREATED'' (Some (si_vm b)) (Some [(''scheduleId'', JStr (ps_id r)),
       (''action'', JStr (si_action b)), (''hour'', si_hour b), (''minute'', si_minute b), (''days'', JStr (tt_days r))])) (\<lambda>_.
     ret r))))) s)"
  proof (cases "vm_class_of v = UserClass")
    case False
    obtain q w where c: "call (sv_new_id (sa_base sa)) s = (q, with_world w s)" by (simp add: call_run)
    have "\<not> may_idle s (si_vm b)"
      using False may_idle_found [OF ok] the_vm_passes [OF v] by simp
    then have n: "\<not> may_idle (with_world w s) (si_vm (b\<lparr>si_created_by := Some (u_id u)\<rparr>))"
      by (simp add: may_idle_def)
    show ?thesis
    proof (cases q)
      case (Inl e)
      with c ok False show ?thesis by (simp add: bind_def)
    next
      case (Inr nid)
      have "plans_after (bind (on_schedules (create_schedule now nid (b\<lparr>si_created_by := Some (u_id u)\<rparr>))) (\<lambda>r.
         bind (site_event sa (Some u) ''SCHEDULE_CREATED'' (Some (si_vm b)) (Some [(''scheduleId'', JStr (ps_id r)),
           (''action'', JStr (si_action b)), (''hour'', si_hour b), (''minute'', si_minute b), (''days'', JStr (tt_days r))])) (\<lambda>_.
         ret r)) (with_world w s))" for now
        using plans_ok_create [OF _ n] ok by (intro plans_ok_bind) (simp_all add: keeps)
      with c Inr False show ?thesis by (simp add: bind_def [where m = "call m" for m] bind_gets_run)
    qed
  qed (use ok in \<open>simp add: throw_def\<close>)
qed simp

lemma plans_ok_delete_route: "plans_ok s \<Longrightarrow> plans_after (delete_schedule_route sa user i s)"
  unfolding delete_schedule_route_def
  by (intro plans_look looks_only_gates looks_only_plans plans_ok_bind plans_ok_delete plans_ok_blocks)

lemma the_schedule_found: "the_schedule i s = (Inr r, s) \<Longrightarrow> r \<in> set (si_schedules s) \<and> ps_id r = i"
  by (auto simp: the_schedule_def comp_defs list_schedules_def dest: find_Some_in split: option.splits)

lemma plans_ok_enable_route: "plans_ok s \<Longrightarrow> plans_after (enable_schedule_route sa user i body s)"
  unfolding enable_schedule_route_def
proof (intro plans_look looks_only_gates looks_only_plans)
  fix enabled r clash
  assume ok: "plans_ok s" and r: "the_schedule i s = (Inr r, s)"
    and c: "gets (\<lambda>s. case find_by_id (db_of s) (ps_vm r) of None \<Rightarrow> False | Some v \<Rightarrow> vm_class_of v = UserClass) s = (Inr clash, s)"
  have "clash = may_idle s (ps_vm r)"
    using c may_idle_found [OF ok] by (simp add: gets_def)
  then show "plans_after ((if enabled \<and> clash then throw (err_validation msg_user_class)
     else on_schedules (modify (set_schedule_enabled i enabled))) s)"
    using plans_ok_enable [OF ok, of r i enabled] the_schedule_found [OF r] ok by (auto simp: throw_def)
qed simp_all

subsection \<open>The property\<close>

inductive plan_step :: "'w site_api \<Rightarrow> 'w site \<Rightarrow> 'w site \<Rightarrow> bool" for sa where
  set_class: "class_route sa user i body s = (r, t) \<Longrightarrow> plan_step sa s t"
| set_classes: "bulk_class sa u ids c s = (rs, t) \<Longrightarrow> plan_step sa s t"
| new_schedule: "create_schedule_route sa user b s = (q, t) \<Longrightarrow> plan_step sa s t"
| drop_schedule: "delete_schedule_route sa user i s = (x, t) \<Longrightarrow> plan_step sa s t"
| turn_schedule: "enable_schedule_route sa user i e s = (x, t) \<Longrightarrow> plan_step sa s t"
| start_vm: "start_route sa user i s = (x, t) \<Longrightarrow> plan_step sa s t"
| stop_vm: "stop_route sa user i h s = (x, t) \<Longrightarrow> plan_step sa s t"
| restart_vm: "restart_route sa user i s = (x, t) \<Longrightarrow> plan_step sa s t"

lemma plans_ok_power_routes:
  "keeps_pred plans_ok (start_route sa user i)" "keeps_pred plans_ok (stop_route sa user i h)"
  "keeps_pred plans_ok (restart_route sa user i)"
  unfolding start_route_def stop_route_def restart_route_def await_def Let_def
  by (intro keeps plans_ok_power)+

lemma keeps_run: "keeps_pred P m \<Longrightarrow> m s = (r, t) \<Longrightarrow> P s \<Longrightarrow> P t"
  by (metis keeps_predD snd_conv)

lemma plan_step_ok: "plan_step sa s t \<Longrightarrow> plans_ok s \<Longrightarrow> plans_ok t"
proof (induction rule: plan_step.induct)
  case (new_schedule user b s q t)
  then show ?case using plans_ok_create_route [of s sa user b] by simp
next
  case (drop_schedule user i s x t)
  then show ?case using plans_ok_delete_route [of s sa user i] by simp
next
  case (turn_schedule user i e s x t)
  then show ?case using plans_ok_enable_route [of s sa user i e] by simp
qed (blast intro: keeps_run [OF plans_ok_class_routes(1)] keeps_run [OF plans_ok_class_routes(2)]
    keeps_run [OF plans_ok_power_routes(1)] keeps_run [OF plans_ok_power_routes(2)] keeps_run [OF plans_ok_power_routes(3)])+

text \<open>C35. No machine that the idle ticker may switch off has an enabled schedule, whatever sequence
  of requests sets classes (one machine or many), creates, deletes, enables or disables schedules,
  and starts, stops or restarts machines, whoever sends them and whether or not they succeed.\<close>

theorem idle_machines_have_no_timetable:
  assumes "(plan_step sa)\<^sup>*\<^sup>* s t" and "plans_ok s"
  shows "plans_ok t"
  using assms by (induction rule: rtranclp_induct) (blast intro: plan_step_ok)+

theorem idle_machines_have_no_timetable_witness:
  "plans_ok (demo_site False)
   \<and> plans_ok (snd (class_route demo_site_api (Some (ada [])) demo_vm (Some UserClass) (demo_site False)))"
proof -
  have "is_uuid demo_vm" by code_simp
  moreover have "si_schedules (demo_site False) = []" by (simp add: demo_site_def)
  ultimately have ok: "plans_ok (demo_site False)"
    by (simp add: plans_ok_def demo_site_reads vm_table.unique_def site_vm_def recorded_vm_def)
  have "plan_step demo_site_api (demo_site False)
      (snd (class_route demo_site_api (Some (ada [])) demo_vm (Some UserClass) (demo_site False)))"
    by (rule plan_step.set_class [where user = "Some (ada [])" and i = demo_vm and body = "Some UserClass"
        and r = "fst (class_route demo_site_api (Some (ada [])) demo_vm (Some UserClass) (demo_site False))"]) simp
  then have "(plan_step demo_site_api)\<^sup>*\<^sup>* (demo_site False)
      (snd (class_route demo_site_api (Some (ada [])) demo_vm (Some UserClass) (demo_site False)))" ..
  from idle_machines_have_no_timetable [OF this ok] ok show ?thesis by blast
qed

end
