(* ===== verification/Launch_Props.thy ===== *)
theory Launch_Props
  imports Site_Gates Strings Guac_Props
begin

text \<open>
  Sessions: what the identifier in a launch URL says, the tokens of a session, and what a launch
  opens in Guacamole.
\<close>

subsection \<open>The identifier of a connection\<close>

text \<open>How the web client of Guacamole reads an identifier.\<close>

definition URL64 :: string where
  "URL64 = ''ABCDEFGHIJKLMNOPQRSTUVWXYZabcdefghijklmnopqrstuvwxyz0123456789-_''"

definition place :: "char \<Rightarrow> nat" where
  "place c = length (takeWhile (\<lambda>x. x \<noteq> c) URL64)"

fun octets :: "nat list \<Rightarrow> nat list" where
  "octets [] = []"
| "octets [a] = []"
| "octets [a, b] = [a * 4 + b div 16]"
| "octets [a, b, c] = [a * 4 + b div 16, (b mod 16) * 16 + c div 4]"
| "octets (a # b # c # d # r) = [a * 4 + b div 16, (b mod 16) * 16 + c div 4, (c mod 4) * 64 + d] @ octets r"

definition decode_client_identifier :: "string \<Rightarrow> string list" where
  "decode_client_identifier s = split_on CHR 0x00 (map char_of (octets (map place s)))"

lemma digits_of: "(r :: nat) < m \<Longrightarrow> (q * m + r) div m = q" "r < m \<Longrightarrow> (q * m + r) mod m = r"
  by simp_all

lemma first_octet: "(b :: nat) < 256 \<Longrightarrow> a div 4 * 4 + ((a mod 4) * 16 + b div 16) div 16 = a"
  by (simp add: digits_of)

lemma second_octet:
  "(b :: nat) < 256 \<Longrightarrow> c < 256 \<Longrightarrow> ((a mod 4) * 16 + b div 16) mod 16 * 16 + ((b mod 16) * 4 + c div 64) div 4 = b"
  by (simp add: digits_of)

lemma third_octet: "(c :: nat) < 256 \<Longrightarrow> ((b mod 16) * 4 + c div 64) mod 4 * 64 + c mod 64 = c"
  by (simp add: digits_of)

lemma octets_sextets: "\<forall>x \<in> set xs. x < 256 \<Longrightarrow> octets (sextets xs) = xs"
proof (induction xs rule: sextets.induct)
  case (2 a)
  then show ?case using first_octet [of 0 a] by simp
next
  case (3 a b)
  then show ?case using first_octet [of b a] second_octet [of b 0 a] by simp
next
  case (4 a b c r)
  then show ?case using first_octet [of b a] second_octet [of b c a] third_octet [of c b] by simp
qed simp

lemma sextets_bound: "\<forall>x \<in> set xs. x < 256 \<Longrightarrow> x \<in> set (sextets xs) \<Longrightarrow> x < 64"
  by (induction xs rule: sextets.induct) (auto simp: less_mult_imp_div_less)

lemma alphabet: "length B64 = 64" "CHR ''='' \<notin> set B64" "distinct URL64" "length URL64 = 64"
  "map (\<lambda>x. if x = CHR ''/'' then CHR ''_'' else x) (map (\<lambda>x. if x = CHR ''+'' then CHR ''-'' else x) B64) = URL64"
  by code_simp+

lemma takeWhile_upto: "distinct xs \<Longrightarrow> n < length xs \<Longrightarrow> takeWhile (\<lambda>x. x \<noteq> xs ! n) xs = take n xs"
  by (rule takeWhile_eq_take_P_nth) (auto simp: nth_eq_iff_index_eq)

lemma place_nth: "n < 64 \<Longrightarrow> place (URL64 ! n) = n"
  using alphabet(3,4) unfolding place_def by (simp add: takeWhile_upto)

lemma split_acc_not_Nil: "split_acc c acc s \<noteq> []"
  by (induction s arbitrary: acc) auto

lemma bytes_small: "\<forall>x \<in> set (map of_char s). x < (256 :: nat)"
  using nat_of_char_less_256 by auto

lemma join_split_acc:
  "c \<notin> set acc \<Longrightarrow> join [d] (split_acc c acc s) = acc @ map (\<lambda>x. if x = c then d else x) s"
proof (induction s arbitrary: acc)
  case (Cons x s)
  obtain y ys where "split_acc c [] s = y # ys"
    using split_acc_not_Nil [of c "[]" s] by (cases "split_acc c [] s") auto
  with Cons.prems Cons.IH [of "[]"] Cons.IH [of "acc @ [x]"] show ?case by simp
qed simp

lemma join_split: "join [d] (split_on c s) = map (\<lambda>x. if x = c then d else x) s"
  by (simp add: split_on_def join_split_acc)

lemma strip_pad: "strip_pad_rev (rev s) = rev s'" if "s' = s" "CHR ''='' \<notin> set s"
  using that by (cases "rev s") (auto simp: rev_swap)

lemma padding: "set (case n of 0 \<Rightarrow> [] | Suc 0 \<Rightarrow> ''=='' | _ \<Rightarrow> ''='') \<subseteq> {CHR ''=''}"
  by (cases n; cases "n - 1") auto

lemma text_of_bytes: "map char_of (map of_char s :: nat list) = s"
  by simp

lemma strip_padding: "CHR ''='' \<notin> set s \<Longrightarrow> set pad \<subseteq> {CHR ''=''} \<Longrightarrow> rev (strip_pad_rev (rev (s @ pad))) = s"
proof (induction pad rule: rev_induct)
  case Nil
  then show ?case using strip_pad [of s s] by simp
qed auto

lemma map_nth_map: "\<forall>n \<in> set ns. n < length xs \<Longrightarrow> map f (map (\<lambda>n. xs ! n) ns) = map (\<lambda>n. map f xs ! n) ns"
  by simp

lemma encoded_text:
  "encode_client_identifier identifier source kind =
     map (\<lambda>n. URL64 ! n) (sextets (map of_char (join [CHR 0x00] [identifier, kind, source])))"
proof -
  let ?ns = "sextets (map of_char (join [CHR 0x00] [identifier, kind, source]))"
  have b: "\<forall>n \<in> set ?ns. n < 64"
    using sextets_bound [OF bytes_small] by blast
  have "CHR ''='' \<notin> set (map (\<lambda>n. B64 ! n) ?ns)"
    using b alphabet(1,2) nth_mem [of _ B64] by fastforce
  then have bare: "rev (strip_pad_rev (rev (base64 (join [CHR 0x00] [identifier, kind, source])))) = map (\<lambda>n. B64 ! n) ?ns"
    unfolding base64_def by (rule strip_padding) (rule padding)
  have "map (\<lambda>x. if x = CHR ''/'' then CHR ''_'' else x) (map (\<lambda>x. if x = CHR ''+'' then CHR ''-'' else x) (map (\<lambda>n. B64 ! n) ?ns))
     = map (\<lambda>n. URL64 ! n) ?ns"
    unfolding alphabet(5) [symmetric] using b alphabet(1) by (simp add: map_nth_map)
  then show ?thesis
    by (simp only: encode_client_identifier_def Let_def bare join_split)
qed

text \<open>C36. The identifier in a launch URL is read back by the client of Guacamole as the connection,
  its kind and its data source, whatever bytes they consist of, as long as none of them is zero;
  it has no character that a URL would have to escape.\<close>

theorem client_identifier_roundtrip:
  assumes "CHR 0x00 \<notin> set identifier" and "CHR 0x00 \<notin> set kind" and "CHR 0x00 \<notin> set source"
  shows "decode_client_identifier (encode_client_identifier identifier source kind) = [identifier, kind, source]
    \<and> list_all unreserved (encode_client_identifier identifier source kind)"
proof
  let ?text = "join [CHR 0x00] [identifier, kind, source]"
  note small = bytes_small [of ?text]
  then have b: "\<forall>n \<in> set (sextets (map of_char ?text)). n < 64"
    using sextets_bound [OF small] by blast
  then have "map place (map (\<lambda>n. URL64 ! n) (sextets (map of_char ?text))) = sextets (map of_char ?text)"
    by (simp add: place_nth map_idI)
  then have "decode_client_identifier (encode_client_identifier identifier source kind) = split_on CHR 0x00 ?text"
    by (simp only: decode_client_identifier_def encoded_text octets_sextets [OF small] text_of_bytes)
  also have "\<dots> = [identifier, kind, source]"
    using split_on_join [of "[identifier, kind, source]" "CHR 0x00"] assms by simp
  finally show "decode_client_identifier (encode_client_identifier identifier source kind) = [identifier, kind, source]" .
  have "list_all unreserved URL64" by code_simp
  with b alphabet(4) show "list_all unreserved (encode_client_identifier identifier source kind)"
    by (simp add: encoded_text list_all_iff)
qed

theorem client_identifier_roundtrip_witness:
  "decode_client_identifier (encode_client_identifier ''14'' ''postgresql'' ''c'') = [''14'', ''c'', ''postgresql'']"
  using client_identifier_roundtrip [of "''14''" "''c''" "''postgresql''"] by simp

subsection \<open>The tokens of a session\<close>

abbreviation same_guac :: "guac_state \<Rightarrow> 'w pstate \<Rightarrow> bool" where
  "same_guac g \<equiv> \<lambda>s. p_guac s = g"

lemma same_guac_world [keeps]: "keeps_pred (same_guac g) (world_call m)"
  by (simp add: keeps_pred_def world_call_def split: prod.splits)

lemma for_each_never_fails:
  "(\<And>x s. x \<in> set xs \<Longrightarrow> is_ok (fst (f x s))) \<Longrightarrow> fst (for_each xs f s) = Inr ()"
proof (induction xs arbitrary: s)
  case (Cons x xs)
  then have "is_ok (fst (f x s))" by simp
  then obtain y t where "f x s = (Inr y, t)" by (cases "f x s"; cases "fst (f x s)") auto
  with Cons show ?case by (simp add: bind_def)
qed (simp add: comp_defs)

lemma world_call_guac: "world_call m s = (r, t) \<Longrightarrow> p_guac t = p_guac s"
  using keeps_predD [OF same_guac_world, of s "p_guac s" m] by simp

text \<open>Every statement on the table of tokens takes effect.\<close>

definition db_answers :: "'w guac_api \<Rightarrow> bool" where
  "db_answers ga \<longleftrightarrow> (\<forall>w. is_ok (fst (ga_store ga w)))"

lemma db_answers_run: "db_answers ga \<Longrightarrow> world_call (ga_store ga) s = (r, t) \<Longrightarrow> r = Inr ()"
  by (cases r) (auto simp: db_answers_def world_call_def is_ok_def dest: spec [of _ "p_world s"] split: prod.splits)

definition dropped :: "string \<Rightarrow> guac_state \<Rightarrow> guac_state" where
  "dropped i g = g\<lparr>gs_tokens := filter (\<lambda>x. gt_session x \<noteq> i) (gs_tokens g)\<rparr>"

lemma retire_tokens_run:
  assumes "retire_tokens sv ga i s = (r, t)"
  shows "(p_guac t = dropped i (p_guac s) \<and> r = Inr ()) \<or> (p_guac t = p_guac s \<and> \<not> db_answers ga)"
proof (cases "world_call (ga_store ga) s")
  case first: (Pair q s1)
  note g1 = world_call_guac [OF first]
  show ?thesis
  proof (cases q)
    case (Inl e)
    with assms first g1 db_answers_run [of ga s q s1] show ?thesis
      by (auto simp: retire_tokens_def bind_stops [where m = "world_call (ga_store ga)" and s = s])
  next
    case (Inr y)
    let ?rows = "filter (\<lambda>t. gt_session t = i) (gs_tokens (p_guac s1))"
    let ?f = "\<lambda>t. try_catch (bind (lift_res (sv_decrypt sv (gt_token t))) (\<lambda>x. world_call (ga_delete ga x))) (\<lambda>e. ret ())"
    have "keeps_pred (same_guac (p_guac s1)) (for_each ?rows ?f)"
      by (intro keeps)
    then have g: "p_guac (snd (for_each ?rows ?f s1)) = p_guac s1"
      by (rule keeps_predD [where P = "same_guac (p_guac s1)"]) simp
    have "fst (for_each ?rows ?f s1) = Inr ()"
      by (rule for_each_never_fails) (auto simp: comp_defs is_ok_def split: prod.splits sum.splits)
    then obtain u where u: "for_each ?rows ?f s1 = (Inr (), u)" by (cases "for_each ?rows ?f s1") auto
    have gu: "p_guac u = p_guac s" using g g1 unfolding u by simp
    let ?last = "bind (world_call (ga_store ga)) (\<lambda>_. on_guac (modify (\<lambda>g. g\<lparr>gs_tokens := table_delete (\<lambda>t. gt_session t = i) (gs_tokens g)\<rparr>)))"
    have run: "retire_tokens sv ga i s = ?last u"
      using first Inr
      by (simp add: retire_tokens_def bind_passes [where m = "world_call (ga_store ga)" and s = s] bind_gets_run
          bind_passes [where m = "for_each ?rows ?f" and s = s1, OF u])
    obtain q2 s2 where second: "world_call (ga_store ga) u = (q2, s2)" by fastforce
    from world_call_guac [OF second] gu have g2: "p_guac s2 = p_guac s" by simp
    show ?thesis
      using assms run second g2 db_answers_run [OF _ second]
      by (cases q2) (auto simp: bind_def on_guac_def modify_def dropped_def table_delete_def)
  qed
qed

lemma within_run:
  assumes "i \<noteq> []" "within (Some i) f s = (r, t)"
  shows "r = Inr () \<and> (\<exists>q. f i s = (q, t))"
proof -
  from assms(1) have "within (Some i) f = try_catch (f i) (\<lambda>e. ret ())"
    by (cases i) (simp_all add: within_def truthy_def)
  with assms(2) show ?thesis by (cases "f i s"; cases "fst (f i s)") (auto simp: try_catch_def ret_def)
qed

lemma keep_token_run:
  assumes "keep_token sv ga i token s = (r, t)"
  shows "p_guac t = track_session_token (sv_encrypt sv) i token (p_guac s) \<or> (p_guac t = p_guac s \<and> \<not> db_answers ga)"
proof (cases "world_call (ga_store ga) s")
  case (Pair q s1)
  with assms world_call_guac [OF Pair] db_answers_run [OF _ Pair] show ?thesis
    by (cases q) (auto simp: keep_token_def bind_def on_guac_def modify_def)
qed

text \<open>
  What a launch with a token client leaves of the mirror: the old tokens of the session are gone,
  and the token in the URL is there; each part may fail with the database only.
\<close>

definition launched ::
  "'w services \<Rightarrow> 'w guac_api \<Rightarrow> string \<Rightarrow> string \<Rightarrow> guac_state \<Rightarrow> launch_result \<Rightarrow> guac_state \<Rightarrow> bool" where
  "launched sv ga url i g x g' \<longleftrightarrow> (\<exists>g1. (g1 = dropped i g \<or> (g1 = g \<and> \<not> db_answers ga))
     \<and> (case lr_mode x of
          Login \<Rightarrow> g' = g1 \<and> lr_url x = build_login_url url
        | Direct \<Rightarrow> \<exists>token source identifier. lr_url x = build_client_launch_url url identifier token source \<and> identifier \<noteq> []
            \<and> (g' = g1\<lparr>gs_tokens := gs_tokens g1 @ [\<lparr>gt_session = i, gt_token = sv_encrypt sv token\<rparr>]\<rparr>
                \<or> (g' = g1 \<and> \<not> db_answers ga))))"

lemma launched_login:
  "g1 = dropped i g \<or> (g1 = g \<and> \<not> db_answers ga) \<Longrightarrow> launched sv ga url i g (login_instead url d) g1"
  by (auto simp: launched_def login_instead_def)

lemma launched_direct:
  assumes "g1 = dropped i g \<or> (g1 = g \<and> \<not> db_answers ga)" and "identifier \<noteq> []"
    and "g' = g1\<lparr>gs_tokens := gs_tokens g1 @ [\<lparr>gt_session = i, gt_token = sv_encrypt sv token\<rparr>]\<rparr> \<or> (g' = g1 \<and> \<not> db_answers ga)"
  shows "launched sv ga url i g \<lparr>lr_url = build_client_launch_url url identifier token source, lr_mode = Direct, lr_detail = d\<rparr> g'"
  unfolding launched_def launch_result.simps launch_mode.case using assms by blast

lemma mint_run:
  assumes run: "try_catch (mint sv ga (Some i) url c u password) (\<lambda>e. ret (login_instead url (err_message e))) s = (r, t)" and i: "i \<noteq> []"
  shows "\<exists>x. r = Inr x \<and> launched sv ga url i (p_guac s) x (p_guac t)"
proof -
  obtain s1 where s1: "within (Some i) (retire_tokens sv ga) s = (Inr (), s1)"
    and g1: "p_guac s1 = dropped i (p_guac s) \<or> (p_guac s1 = p_guac s \<and> \<not> db_answers ga)"
    using within_run [OF i, of "retire_tokens sv ga" s] retire_tokens_run [of sv ga i s]
    by (cases "within (Some i) (retire_tokens sv ga) s") blast
  obtain q s2 where s2: "world_call (request_token ga (gu_name u) password) s1 = (q, s2)" by fastforce
  note g2 = world_call_guac [OF s2]
  note first = mint_def bind_passes [where m = "within (Some i) (retire_tokens sv ga)" and s = s, OF s1]
  show ?thesis
  proof (cases q)
    case (Inl e)
    have "mint sv ga (Some i) url c u password s = (Inl e, s2)"
      by (simp add: first bind_stops [where m = "world_call (request_token ga (gu_name u) password)" and s = s1, OF s2 [unfolded Inl]])
    with run have "r = Inr (login_instead url (err_message e))" and "t = s2"
      by (simp_all add: try_catch_def ret_def)
    with g1 g2 show ?thesis by (auto intro!: launched_login)
  next
    case (Inr y)
    obtain token source where y: "y = (token, source)" by (cases y)
    let ?m = "if source = [] then ret None
      else try_catch (world_call (find_connection_identifier ga token source (gc_name c))) (\<lambda>e. ret None)"
    obtain found s3 where s3: "?m s2 = (Inr found, s3)"
      by (cases "world_call (find_connection_identifier ga token source (gc_name c)) s2";
          cases "fst (world_call (find_connection_identifier ga token source (gc_name c)) s2)"; cases "source = []")
        (simp_all add: try_catch_def ret_def)
    have "keeps_pred (same_guac (p_guac s2)) ?m" by (intro keeps)
    then have g3: "p_guac s3 = p_guac s2" using keeps_predD [of "same_guac (p_guac s2)" ?m s2] s3 by simp
    let ?id = "if truthy found then found else gc_identifier c"
    let ?url = "\<lparr>lr_url = build_client_launch_url url (the ?id) token source, lr_mode = Direct, lr_detail = None\<rparr>"
    have m: "mint sv ga (Some i) url c u password s = (if \<not> truthy ?id then ret (login_instead url (msg_not_in_source c))
        else bind (within (Some i) (\<lambda>i. keep_token sv ga i token)) (\<lambda>_. ret ?url)) s3"
      by (simp only: first bind_passes [where m = "world_call (request_token ga (gu_name u) password)" and s = s1, OF s2 [unfolded Inr y]]
          prod.case bind_passes [where m = ?m and s = s2, OF s3] Let_def)
    show ?thesis
    proof (cases "truthy ?id")
      case False
      with m have "mint sv ga (Some i) url c u password s = (Inr (login_instead url (msg_not_in_source c)), s3)"
        by (simp only: if_P not_False_eq_True ret_def)
      with run have "r = Inr (login_instead url (msg_not_in_source c))" "t = s3" by (simp_all add: try_catch_def)
      with g1 g2 g3 show ?thesis by (auto intro!: launched_login)
    next
      case True
      obtain s4 where s4: "within (Some i) (\<lambda>i. keep_token sv ga i token) s3 = (Inr (), s4)"
        and g4: "p_guac s4 = track_session_token (sv_encrypt sv) i token (p_guac s3) \<or> (p_guac s4 = p_guac s3 \<and> \<not> db_answers ga)"
        using within_run [OF i, of "\<lambda>i. keep_token sv ga i token" s3] keep_token_run [of sv ga i token s3]
        by (cases "within (Some i) (\<lambda>i. keep_token sv ga i token) s3") blast
      from True m have "mint sv ga (Some i) url c u password s = (Inr ?url, s4)"
        by (simp only: not_True_eq_False if_False bind_passes [where m = "within (Some i) (\<lambda>i. keep_token sv ga i token)" and s = s3, OF s4] ret_def)
      with run have rt: "r = Inr ?url" "t = s4" by (simp_all add: try_catch_def)
      have "the ?id \<noteq> []" using True by (auto simp: truthy_def split: option.splits)
      moreover have "p_guac t = (p_guac s1)\<lparr>gs_tokens := gs_tokens (p_guac s1) @ [\<lparr>gt_session = i, gt_token = sv_encrypt sv token\<rparr>]\<rparr>
          \<or> (p_guac t = p_guac s1 \<and> \<not> db_answers ga)"
        using g4 g3 g2 rt(2) by (auto simp: track_session_token_def)
      ultimately have "launched sv ga url i (p_guac s) ?url (p_guac t)"
        by (intro launched_direct [OF g1])
      with rt(1) show ?thesis by blast
    qed
  qed
qed

text \<open>C37. A launch within a session either fails with everything as it was, or returns. Without a
  client for Guacamole's REST interface the user is sent to the login page and nothing changes,
  old tokens included. With one, the tokens the session had are gone, and it has exactly the
  token in the URL it returned, or none when the user is sent to the login page; only where the
  application's database refuses a statement on the table of tokens do the old rows stay, or does
  the new token go unrecorded. The tokens of other sessions, the connections and the accounts are
  as before.\<close>

theorem one_token_per_session:
  assumes "launch sv api vm uid guac_url public protocol (Some i) s = (r, t)" and "i \<noteq> []"
  shows "case r of
      Inl _ \<Rightarrow> t = s
    | Inr x \<Rightarrow> (let url = (if truthy public then the public else guac_url) in case api of
          None \<Rightarrow> t = s \<and> lr_mode x = Login \<and> lr_url x = build_login_url url
        | Some ga \<Rightarrow> launched sv ga url i (p_guac s) x (p_guac t))"
proof (cases "find_connection_record (p_guac s) vm protocol")
  case None
  with assms show ?thesis by (auto simp: launch_def comp_defs)
next
  case c: (Some c)
  show ?thesis
  proof (cases "find_user_record (p_guac s) uid")
    case None
    with c assms show ?thesis by (auto simp: launch_def comp_defs)
  next
    case u: (Some u)
    show ?thesis
    proof (cases "sv_decrypt sv (gu_password u)")
      case (Inl e)
      with c u assms show ?thesis by (auto simp: launch_def comp_defs)
    next
      case (Inr password)
      show ?thesis
      proof (cases api)
        case None
        with c u Inr assms(1) show ?thesis
          by (auto simp: launch_def bind_gets_run bind_def [where m = "lift_res x" for x] lift_res_def Let_def ret_def login_instead_def)
      next
        case (Some ga)
        with c u Inr assms(1) have "try_catch (mint sv ga (Some i) (if truthy public then the public else guac_url) c u password)
            (\<lambda>e. ret (login_instead (if truthy public then the public else guac_url) (err_message e))) s = (r, t)"
          by (simp add: launch_def bind_gets_run bind_def [where m = "lift_res x" for x] lift_res_def Let_def)
        from mint_run [OF this assms(2)] Some show ?thesis by auto
      qed
    qed
  qed
qed

definition demo_guac_api :: "int guac_api" where
  "demo_guac_api = \<lparr>ga_tokens = (\<lambda>u p. ret (200, True, [], JObj [(''authToken'', JStr ''tok''), (''username'', JStr u),
       (''dataSource'', JStr ''pg'')])),
     ga_connections = (\<lambda>t d. ret [(''14'', ''web'')]), ga_delete = (\<lambda>t. ret ()), ga_store = ret ()\<rparr>"

definition demo_conn :: "string \<Rightarrow> guac_conn_row" where
  "demo_conn p = \<lparr>gc_id = p, gc_vm = demo_vm, gc_protocol = p, gc_hostname = [], gc_port = 22, gc_username = [], gc_password = [],
     gc_name = ''web-'' @ p, gc_identifier = Some ''14'', gc_status = ''ACTIVE''\<rparr>"

definition demo_guac :: guac_state where
  "demo_guac = \<lparr>gs_conns = [demo_conn ''ssh'', demo_conn ''rdp''],
     gs_users = [\<lparr>gu_user = demo_user, gu_name = ''px_ada'', gu_password = ''k1:pw'', gu_status = ''ACTIVE'', gu_direct = False\<rparr>],
     gs_tokens = [\<lparr>gt_session = ''sid'', gt_token = ''k1:old''\<rparr>, \<lparr>gt_session = ''other'', gt_token = ''k1:x''\<rparr>],
     gs_remote = \<lparr>g_entities = [], g_connections = [], g_perms = [], g_group_perms = [], g_next_id = 1\<rparr>\<rparr>"

definition launch_state :: "int pstate" where
  "launch_state = (demo_state True)\<lparr>p_guac := demo_guac\<rparr>"

theorem one_token_per_session_witness:
  "\<exists>x t. launch (demo_services True) (Some demo_guac_api) demo_vm demo_user ''http://g/'' None (Some ''ssh'') (Some ''sid'') launch_state
       = (Inr x, t) \<and> lr_mode x = Direct \<and> db_answers demo_guac_api
     \<and> length (filter (\<lambda>y. gt_session y = ''sid'') (gs_tokens (p_guac t))) = 1"
proof -
  let ?l = "launch (demo_services True) (Some demo_guac_api) demo_vm demo_user ''http://g/'' None (Some ''ssh'') (Some ''sid'') launch_state"
  have "(case fst ?l of Inl e \<Rightarrow> None | Inr x \<Rightarrow> Some (lr_mode x)) = Some Direct"
    by code_simp
  then obtain x t where l: "?l = (Inr x, t)" and d: "lr_mode x = Direct"
    by (cases ?l; cases "fst ?l") auto
  have a: "db_answers demo_guac_api" by (simp add: db_answers_def demo_guac_api_def ret_def is_ok_def)
  have "launched (demo_services True) demo_guac_api ''http://g/'' ''sid'' (p_guac launch_state) x (p_guac t)"
    using one_token_per_session [OF l] by (simp add: truthy_def)
  then have "length (filter (\<lambda>y. gt_session y = ''sid'') (gs_tokens (p_guac t))) = 1"
    using d a by (auto simp: launched_def dropped_def)
  with l d a show ?thesis by blast
qed

text \<open>
  What the launch route does before: it gives the account every connection of the machine, also
  the ones of protocols that its grants leave out.
\<close>

lemma grant_opens_every_protocol:
  assumes "guac_wf (gs_remote s)" and "find_user_record s uid = Some u" and "grant_vm_access vm uid s = (Inr y, s')"
    and "r \<in> set (list_connection_records s vm)"
  shows "can_open (gs_remote s') (gc_name r) (gu_name u)"
proof -
  have "for_each (list_connection_records s vm) (\<lambda>r. do_when True (remote_res (grant_connection_read (gc_name r) (gu_name u)))) s
      = (Inr y, s')"
    using assms(2,3) by (simp add: grant_vm_access_def bind_gets_run do_when_def)
  from grant_loop [OF assms(1) this] assms(4) show ?thesis by auto
qed

end
