(* ===== verification/Delete_Props.thy ===== *)
theory Delete_Props
  imports Site_Gates Drift_Gates
begin

text \<open>
  Deleting a machine over HTTP: no record goes before the guest is gone from Proxmox, the connections
  of the machine go first, one by one, and everything else goes then, one statement after another.
\<close>

text \<open>\<open>touched s g w\<close>: the state with another mirror of Guacamole and another world.\<close>

definition touched :: "'w site \<Rightarrow> guac_state \<Rightarrow> 'w \<Rightarrow> 'w site" where
  "touched s g w = with_base (\<lambda>b. b\<lparr>p_guac := g, p_world := w\<rparr>) s"

definition world_moved :: "'w site \<Rightarrow> 'w site \<Rightarrow> bool" where
  "world_moved s t \<longleftrightarrow> (\<exists>w. t = touched s (p_guac (base_of s)) w)"

definition outside_moved :: "'w site \<Rightarrow> 'w site \<Rightarrow> bool" where
  "outside_moved s t \<longleftrightarrow> (\<exists>g w. t = touched s g w)"

lemma touched_self: "s = touched s (p_guac (base_of s)) (p_world (base_of s))"
  by (simp add: touched_def with_base_def base_of_def)



lemma touched_run:
  "call m (touched s g w) = (fst (m w), touched s g (snd (m w)))"
  "at_base (on_guac f) (touched s g w) = (fst (f g), touched s (snd (f g)) w)"
  by (simp_all add: call_run at_base_run on_guac_def touched_def with_world_def with_base_def base_of_def split: prod.splits)


lemma outside_moved_blocks: "keeps_pred (outside_moved s) (call m)" "keeps_pred (outside_moved s) (at_base (on_guac f))"
  unfolding keeps_pred_def outside_moved_def by (metis touched_run snd_conv)+

lemma world_moved_outside: "world_moved s t \<Longrightarrow> outside_moved s t"
  by (auto simp: world_moved_def outside_moved_def)


subsection \<open>Cleaning Guacamole\<close>

text \<open>
  \<open>partly_unlinked rows g g'\<close>: the mirror \<open>g'\<close> is \<open>g\<close> without some of the rows, and Guacamole is
  without some of the connections these rows name; accounts and tokens are the same.
\<close>

definition partly_unlinked :: "guac_conn_row list \<Rightarrow> guac_state \<Rightarrow> guac_state \<Rightarrow> bool" where
  "partly_unlinked rows g g' \<longleftrightarrow> gs_users g' = gs_users g \<and> gs_tokens g' = gs_tokens g
     \<and> g_entities (gs_remote g') = g_entities (gs_remote g)
     \<and> (\<exists>ids \<subseteq> gc_id ` set rows. gs_conns g' = filter (\<lambda>x. gc_id x \<notin> ids) (gs_conns g))
     \<and> (\<exists>names \<subseteq> gc_name ` set rows.
          g_connections (gs_remote g') = filter (\<lambda>c. gcn_name c \<notin> names) (g_connections (gs_remote g)))"

lemma partly_refl: "partly_unlinked rows g g"
  unfolding partly_unlinked_def by (auto intro: exI [of _ "{}"])




definition unlinking :: "guac_conn_row list \<Rightarrow> 'w site \<Rightarrow> 'w site \<Rightarrow> bool" where
  "unlinking rows s t \<longleftrightarrow> (\<exists>g w. t = touched s g w \<and> partly_unlinked rows (p_guac (base_of s)) g)"

lemma unlinking_refl: "unlinking rows s s"
  unfolding unlinking_def using touched_self partly_refl by blast












subsection \<open>Forgetting the machine\<close>








lemma base_drift [simp]: "base_of (s\<lparr>si_drift := (si_drift s)\<lparr>ds_periods := x\<rparr>\<rparr>) = base_of s"
  by (simp add: base_of_def)

lemma touched_reads: "db_of (touched s g w) = db_of s" "ds_periods (si_drift (touched s g w)) = ds_periods (si_drift s)"
  by (simp_all add: touched_def db_of_def with_base_def base_of_def)









subsection \<open>The property\<close>






end
