(* ===== verification/Domains.thy ===== *)
theory Domains
  imports Alerts Audit_Log
begin

text \<open>
  Domains (\<open>packages/core/src/services/domains.ts\<close>): host names as they arrive in a header, the
  redirect of old hosts to the canonical one, the origins CORS accepts, the two rows of settings
  that hold the canonical host and its aliases, and the check of a candidate before a switch.

  Settings are the rows of the settings store; a write of a row may fail. \<open>JSON.parse\<close>, the
  environment, the cipher, the resolver and HTTP are fields of the record \<open>domain_api\<close>.
\<close>

unbundle bit_operations_syntax

subsection \<open>Addresses that are not public\<close>

text \<open>\<open>net.isIPv4\<close>: four decimal octets without leading zeros.\<close>

definition v4_octet :: "string \<Rightarrow> bool" where
  "v4_octet p \<longleftrightarrow> p \<noteq> [] \<and> list_all is_digit p \<and> length p \<le> 3 \<and> digits_val p \<le> 255 \<and> (length p = 1 \<or> hd p \<noteq> CHR ''0'')"

definition is_v4 :: "string \<Rightarrow> bool" where
  "is_v4 s \<longleftrightarrow> length (split_on CHR ''.'' s) = 4 \<and> list_all v4_octet (split_on CHR ''.'' s)"

definition v4_word :: "string \<Rightarrow> 32 word" where
  "v4_word s = word_of_int (foldl (\<lambda>acc p. acc * 256 + int (digits_val p)) 0 (split_on CHR ''.'' s))"

definition in_range :: "32 word \<Rightarrow> string \<Rightarrow> nat \<Rightarrow> bool" where
  "in_range n base prefix \<longleftrightarrow>
     (let mask = (if prefix = 0 then 0 else push_bit (32 - prefix) (- 1 :: 32 word))
      in n AND mask = v4_word base AND mask)"

definition non_public_v4 :: "(string \<times> nat) list" where
  "non_public_v4 = [(''127.0.0.0'', 8), (''0.0.0.0'', 8), (''10.0.0.0'', 8), (''172.16.0.0'', 12), (''192.168.0.0'', 16),
     (''169.254.0.0'', 16), (''192.0.2.0'', 24), (''198.51.100.0'', 24), (''203.0.113.0'', 24)]"

definition is_non_public_ip :: "(string \<Rightarrow> bool) \<Rightarrow> string \<Rightarrow> bool" where
  "is_non_public_ip is_ip ip =
     (if \<not> is_ip ip then False
      else if is_v4 ip then list_ex (\<lambda>r. in_range (v4_word ip) (fst r) (snd r)) non_public_v4
      else let l = to_lower ip in
        l = ''::1'' \<or> l = ''::'' \<or> starts_with l ''fe80:'' \<or> starts_with l ''fe80::'' \<or> starts_with l ''fc'' \<or> starts_with l ''fd'')"

subsection \<open>Host names\<close>

definition CANONICAL_KEY :: string where
  "CANONICAL_KEY = ''app.canonical_domain''"

definition ALIASES_KEY :: string where
  "ALIASES_KEY = ''app.domain_aliases''"

fun index_of :: "string \<Rightarrow> string \<Rightarrow> nat option" where
  "index_of p [] = (if p = [] then Some 0 else None)"
| "index_of p (c # s) = (if starts_with (c # s) p then Some 0 else map_option Suc (index_of p s))"

definition is_lower_alpha :: "char \<Rightarrow> bool" where
  "is_lower_alpha c \<longleftrightarrow> 97 \<le> (of_char c :: nat) \<and> (of_char c :: nat) \<le> 122"

definition scheme_char :: "char \<Rightarrow> bool" where
  "scheme_char c \<longleftrightarrow> is_lower_alpha c \<or> is_digit c \<or> c = CHR ''+'' \<or> c = CHR ''-'' \<or> c = CHR ''.''"

definition strip_url_scheme :: "string \<Rightarrow> string" where
  "strip_url_scheme v = (case index_of ''://'' v of
       None \<Rightarrow> v
     | Some i \<Rightarrow>
         if i = 0 then v
         else if \<not> is_lower_alpha (hd v) then v
         else if list_all scheme_char (tl (take i v)) then drop (i + 3) v else v)"

definition line_end :: "char \<Rightarrow> bool" where
  "line_end c \<longleftrightarrow> c = CHR 0x0A \<or> c = CHR 0x0D"

text \<open>The group of \<open>/^\[(.+)\](?::\d+)?$/\<close>.\<close>

definition bracketed :: "string \<Rightarrow> string option" where
  "bracketed v =
     (if starts_with v ''['' then
        (let r = rev (tl v); port = takeWhile is_digit r; body = drop (length port) r;
             inner = (if starts_with r '']'' then Some (rev (tl r))
                      else if port \<noteq> [] \<and> starts_with body '':]'' then Some (rev (drop 2 body)) else None)
         in case inner of
              None \<Rightarrow> None
            | Some x \<Rightarrow> if x = [] \<or> list_ex line_end x then None else Some x)
      else None)"

definition normalize_hostname :: "string \<Rightarrow> string" where
  "normalize_hostname raw =
     (let v1 = strip_url_scheme (to_lower (trim raw));
          v2 = hd (split_on CHR ''/'' v1);
          v3 = last (split_on CHR ''@'' v2);
          v4 = (case bracketed v3 of Some x \<Rightarrow> x | None \<Rightarrow> hd (split_on CHR '':'' v3))
      in if v4 \<noteq> [] \<and> last v4 = CHR ''.'' then butlast v4 else v4)"

definition is_hostname_char :: "char \<Rightarrow> bool" where
  "is_hostname_char c \<longleftrightarrow> is_lower_alpha c \<or> is_digit c"

definition is_valid_hostname_label :: "string \<Rightarrow> bool" where
  "is_valid_hostname_label l \<longleftrightarrow>
     \<not> (length l < 1 \<or> length l > 63) \<and> is_hostname_char (hd l) \<and> is_hostname_char (last l)
     \<and> list_all (\<lambda>c. is_hostname_char c \<or> c = CHR ''-'') (butlast (tl l))"

definition assert_valid_hostname :: "string \<Rightarrow> unit res" where
  "assert_valid_hostname h =
     guard (length h \<ge> 1 \<and> length h \<le> 253 \<and> CHR ''.'' \<in> set h \<and> list_all is_valid_hostname_label (split_on CHR ''.'' h))
       (err_validation ''Invalid domain name (use a bare hostname like app.example.com)'')"

subsection \<open>Redirects\<close>

record domain_config =
  dc_canonical :: "string option"
  dc_aliases :: "string list"

record redirect_request =
  rq_host :: "string option"
  rq_url :: string
  rq_method :: string

definition before_query :: "string \<Rightarrow> string" where
  "before_query u = hd (split_on CHR ''?'' u)"

definition query_of :: "string \<Rightarrow> string" where
  "query_of u = (case index_of ''?'' u of None \<Rightarrow> [] | Some i \<Rightarrow> drop i u)"

definition resolve_domain_redirect :: "redirect_request \<Rightarrow> domain_config \<Rightarrow> string option" where
  "resolve_domain_redirect q c =
     (if \<not> truthy (dc_canonical c) then None
      else let canonical = the (dc_canonical c); h = normalize_hostname (or_else (rq_host q) []) in
        if h = [] \<or> h = canonical then None
        else if h \<notin> set (dc_aliases c) then None
        else if rq_method q \<noteq> ''GET'' then None
        else let path = before_query (rq_url q) in
          if starts_with path ''/api/'' \<and> \<not> starts_with path ''/api/s/'' then None
          else Some (''https://'' @ canonical @ path @ query_of (rq_url q)))"

subsection \<open>The stored configuration\<close>

record cf_config =
  cc_token :: "string option"
  cc_zone :: "string option"
  cc_account :: "string option"
  cc_tunnel :: "string option"

record verification =
  ve_dns :: bool
  ve_https :: bool
  ve_detail :: string

record redis_row =
  rr_key :: string
  rr_value :: string
  rr_expires :: "time option"

record 'w dom_site =
  dm_rows :: "setting_row list"
  dm_redis :: "redis_row list"
  dm_audit :: audit_log
  dm_bell :: "bell_row list"
  dm_world :: 'w

text \<open>
  \<open>dx_writes key\<close> is whether the upsert of a settings row is accepted; \<open>dx_now\<close> is the time of
  the pass or request and \<open>dx_nid\<close> the identifier its notification would get. \<open>dx_fetch\<close> and
  the other calls of the rotation are described in the theory \<open>Rotate\<close>.
\<close>

record 'w domain_api =
  dx_now :: time
  dx_nid :: string
  dx_iso :: "time \<Rightarrow> string"
  dx_env :: "string \<Rightarrow> string"
  dx_enc :: "string \<Rightarrow> string"
  dx_dec :: "string \<Rightarrow> string res"
  dx_writes :: "string \<Rightarrow> bool"
  dx_parse :: "string \<Rightarrow> json option"
  dx_url :: "string \<Rightarrow> url option"
  dx_push :: "string \<Rightarrow> json \<Rightarrow> ('w, unit) comp"
  dx_redis :: "string \<Rightarrow> string \<Rightarrow> bool"
  dx_verify :: "string \<Rightarrow> ('w, verification) comp"
  dx_broker :: "string \<Rightarrow> string \<Rightarrow> ('w, int \<times> string) comp"

definition dom_get :: "('w, 'b) domain_api_scheme \<Rightarrow> string \<Rightarrow> ('w dom_site, string option) comp" where
  "dom_get dx key s = (get_plain (dx_dec dx) (dm_rows s) key, s)"

definition dom_set ::
  "('w, 'b) domain_api_scheme \<Rightarrow> string \<Rightarrow> string \<Rightarrow> bool option \<Rightarrow> string \<Rightarrow> ('w dom_site, unit) comp" where
  "dom_set dx key v secret category s =
     (if dx_writes dx key
      then (Inr (), s\<lparr>dm_rows := setting_set (dx_enc dx) (dx_now dx) key v secret (Some category) (dm_rows s)\<rparr>)
      else (Inl (pg_error ''the settings row cannot be written''), s))"

text \<open>\<open>JSON.stringify\<close> of an array of strings.\<close>

definition json_escape :: "char \<Rightarrow> string" where
  "json_escape c =
     (if c = CHR 0x22 then [CHR 0x5C, CHR 0x22]
      else if c = CHR 0x5C then [CHR 0x5C, CHR 0x5C]
      else if c = CHR 0x08 then [CHR 0x5C, CHR ''b'']
      else if c = CHR 0x09 then [CHR 0x5C, CHR ''t'']
      else if c = CHR 0x0A then [CHR 0x5C, CHR ''n'']
      else if c = CHR 0x0C then [CHR 0x5C, CHR ''f'']
      else if c = CHR 0x0D then [CHR 0x5C, CHR ''r'']
      else let n = (of_char c :: nat) in
        if n < 32 then [CHR 0x5C, CHR ''u'', CHR ''0'', CHR ''0'', to_lower [hex_digit (n div 16)] ! 0, to_lower [hex_digit (n mod 16)] ! 0]
        else [c])"

definition json_text :: "string \<Rightarrow> string" where
  "json_text s = CHR 0x22 # concat (map json_escape s) @ [CHR 0x22]"

definition json_texts :: "string list \<Rightarrow> string" where
  "json_texts xs = ''['' @ join '','' (map json_text xs) @ '']''"

fun text_items :: "json list \<Rightarrow> string list" where
  "text_items [] = []"
| "text_items (JStr s # vs) = s # text_items vs"
| "text_items (v # vs) = text_items vs"

definition parsed_aliases :: "(string \<Rightarrow> json option) \<Rightarrow> string option \<Rightarrow> string list" where
  "parsed_aliases parse stored = (case stored of
       None \<Rightarrow> []
     | Some v \<Rightarrow> (case parse v of
           Some (JArr raw) \<Rightarrow> filter (\<lambda>h. h \<noteq> []) (map normalize_hostname (text_items raw))
         | _ \<Rightarrow> []))"

definition non_empty :: "string \<Rightarrow> string option" where
  "non_empty s = (if s = [] then None else Some s)"

definition get_domain_config :: "('w, 'b) domain_api_scheme \<Rightarrow> ('w dom_site, domain_config \<times> string option) comp" where
  "get_domain_config dx =
     bind (dom_get dx CANONICAL_KEY) (\<lambda>canonical.
     bind (dom_get dx ALIASES_KEY) (\<lambda>aliases.
     bind (dom_get dx ''cloudflare.zone_id'') (\<lambda>zone.
     ret (\<lparr>dc_canonical = (case canonical of None \<Rightarrow> None | Some v \<Rightarrow> non_empty (normalize_hostname v)),
           dc_aliases = dedup (parsed_aliases (dx_parse dx) aliases)\<rparr>, zone))))"

definition set_canonical_domain :: "('w, 'b) domain_api_scheme \<Rightarrow> string \<Rightarrow> ('w dom_site, domain_config) comp" where
  "set_canonical_domain dx raw =
     (let h = normalize_hostname raw in
      bind (lift_res (assert_valid_hostname h)) (\<lambda>_.
      bind (get_domain_config dx) (\<lambda>c.
      let current = dc_canonical (fst c);
          kept = filter (\<lambda>a. a \<noteq> h) (dc_aliases (fst c));
          aliases = (if truthy current \<and> current \<noteq> Some h then kept @ [the current] else kept)
      in bind (dom_set dx CANONICAL_KEY h None ''system'') (\<lambda>_.
         bind (dom_set dx ALIASES_KEY (json_texts (dedup aliases)) None ''system'') (\<lambda>_.
         ret \<lparr>dc_canonical = Some h, dc_aliases = dedup aliases\<rparr>)))))"

definition get_allowed_web_origins :: "string option \<Rightarrow> domain_config \<Rightarrow> string list" where
  "get_allowed_web_origins env c =
     (let clean = strip_trailing_slashes (trim (or_else env []));
          hosts = filter (\<lambda>h. h \<noteq> []) (case dc_canonical c of None \<Rightarrow> dc_aliases c | Some h \<Rightarrow> h # dc_aliases c)
      in dedup ((if clean \<noteq> [] then [clean] else []) @ map (\<lambda>h. ''https://'' @ h) hosts))"

definition get_cloudflare_config :: "('w, 'b) domain_api_scheme \<Rightarrow> ('w dom_site, cf_config) comp" where
  "get_cloudflare_config dx =
     (let from_env = (\<lambda>key stored. case non_empty (trim (dx_env dx key)) of Some v \<Rightarrow> Some v | None \<Rightarrow> stored) in
      bind (dom_get dx ''cloudflare.api_token'') (\<lambda>token.
      bind (dom_get dx ''cloudflare.zone_id'') (\<lambda>zone.
      bind (dom_get dx ''cloudflare.account_id'') (\<lambda>account.
      bind (dom_get dx ''cloudflare.tunnel_id'') (\<lambda>tunnel.
      ret \<lparr>cc_token = from_env ''PROXVM_CLOUDFLARE_API_TOKEN'' token, cc_zone = from_env ''PROXVM_CLOUDFLARE_ZONE_ID'' zone,
           cc_account = from_env ''PROXVM_CLOUDFLARE_ACCOUNT_ID'' account,
           cc_tunnel = from_env ''PROXVM_CLOUDFLARE_TUNNEL_ID'' tunnel\<rparr>)))))"

definition add_domain_alias :: "('w, 'b) domain_api_scheme \<Rightarrow> string \<Rightarrow> ('w dom_site, domain_config) comp" where
  "add_domain_alias dx raw =
     (let h = normalize_hostname raw in
      bind (lift_res (assert_valid_hostname h)) (\<lambda>_.
      bind (get_domain_config dx) (\<lambda>c.
      if dc_canonical (fst c) = Some h
      then throw (err_validation (h @ '' is already the current domain - nothing to redirect''))
      else if h \<in> set (dc_aliases (fst c)) then ret (fst c)
      else bind (dom_set dx ALIASES_KEY (json_texts (dc_aliases (fst c) @ [h])) None ''system'') (\<lambda>_.
           ret \<lparr>dc_canonical = dc_canonical (fst c), dc_aliases = dc_aliases (fst c) @ [h]\<rparr>))))"

definition remove_domain_alias :: "('w, 'b) domain_api_scheme \<Rightarrow> string \<Rightarrow> ('w dom_site, domain_config) comp" where
  "remove_domain_alias dx raw =
     (let h = normalize_hostname raw in
      bind (get_domain_config dx) (\<lambda>c.
      let aliases = filter (\<lambda>a. a \<noteq> h) (dc_aliases (fst c)) in
      bind (dom_set dx ALIASES_KEY (json_texts aliases) None ''system'') (\<lambda>_.
      ret \<lparr>dc_canonical = dc_canonical (fst c), dc_aliases = aliases\<rparr>)))"

subsection \<open>The check before a switch\<close>

definition settled :: "('s, 'a) comp \<Rightarrow> ('s, 'a res) comp" where
  "settled m s = (case m s of (r, s') \<Rightarrow> (Inr r, s'))"

text \<open>\<open>dns_attempts n\<close> has \<open>n\<close> attempts left; only a failing lookup is tried again.\<close>

fun dns_attempts ::
  "(string \<Rightarrow> ('w, string list) comp) \<Rightarrow> (string \<Rightarrow> bool) \<Rightarrow> string \<Rightarrow> nat \<Rightarrow> string \<Rightarrow> ('w, bool \<times> string) comp" where
  "dns_attempts resolve is_ip fqdn 0 detail = ret (False, detail)"
| "dns_attempts resolve is_ip fqdn (Suc n) detail =
     bind (settled (resolve fqdn)) (\<lambda>r. case r of
         Inl e \<Rightarrow> dns_attempts resolve is_ip fqdn n (hd (split_on CHR '','' (err_message e)))
       | Inr addrs \<Rightarrow>
           let public = filter (\<lambda>a. \<not> is_non_public_ip is_ip a) addrs in
           if public \<noteq> [] then ret (True, nat_str (length public) @ '' public address(es) resolve'')
           else ret (False, if addrs \<noteq> [] then ''only non-public addresses resolve'' else ''no addresses returned''))"

fun https_attempts :: "'w net \<Rightarrow> string \<Rightarrow> nat \<Rightarrow> string \<Rightarrow> ('w, bool \<times> string) comp" where
  "https_attempts nt fqdn 0 detail = ret (False, detail)"
| "https_attempts nt fqdn (Suc n) detail =
     bind (settled (fetch_with_ssrf_guard nt (''https://'' @ fqdn @ ''/api/health/live'') 1)) (\<lambda>r. case r of
         Inl e \<Rightarrow> https_attempts nt fqdn n (take 120 (err_message e))
       | Inr res \<Rightarrow>
           if response_ok (hr_status res) then ret (True, ''login API reachable over TLS'')
           else https_attempts nt fqdn n (''HTTP '' @ int_str (hr_status res) @ '' from health endpoint''))"

definition verify_domain_reachability ::
  "'w net \<Rightarrow> (string \<Rightarrow> ('w, string list) comp) \<Rightarrow> string \<Rightarrow> ('w, verification) comp" where
  "verify_domain_reachability nt resolve fqdn =
     (if net_is_ip nt fqdn
      then ret \<lparr>ve_dns = False, ve_https = False, ve_detail = ''dns: IP literals are not valid domain names''\<rparr>
      else bind (dns_attempts resolve (net_is_ip nt) fqdn 4 []) (\<lambda>d.
           bind (if fst d then https_attempts nt fqdn 3 ''not probed'' else ret (False, ''not probed'')) (\<lambda>h.
           ret \<lparr>ve_dns = fst d, ve_https = fst h, ve_detail = ''dns: '' @ snd d @ ''; https: '' @ snd h\<rparr>)))"

end
