(* ===== verification/Domains_Props.thy ===== *)
theory Domains_Props
  imports Domains Settings_Props Ssrf_Props
begin

text \<open>
  What the domain settings promise: a valid host name is its own normal form, the redirect is
  decided exactly, the address test knows exactly its ranges, and over any history of switches,
  added and removed aliases no host that was ever reachable stops redirecting unless it was
  removed by name.
\<close>

subsection \<open>Texts without a separator\<close>

lemma split_on_plain: "c \<notin> set x \<Longrightarrow> split_on c x = [x]"
  by (simp add: split_on_def split_acc_plain)

lemma split_acc_chars: "x \<in> set s \<Longrightarrow> x = c \<or> (\<exists>p \<in> set (split_acc c acc s). x \<in> set p)"
proof (induction s arbitrary: acc)
  case (Cons y s)
  have keep: "x \<in> set acc \<Longrightarrow> \<exists>p \<in> set (split_acc c acc s). x \<in> set p" for x acc
  proof (induction s arbitrary: acc)
    case (Cons z s)
    then show ?case by (cases "z = c") auto
  qed auto
  from Cons keep [of x "acc @ [y]"] show ?case by (cases "y = c"; cases "x = y") auto
qed simp

lemma split_acc_nonempty: "split_acc c acc s \<noteq> []"
  by (induction c acc s rule: split_acc.induct) auto

lemma split_acc_ends: "last (split_acc c acc (s @ [c])) = []"
proof (induction s arbitrary: acc)
  case (Cons y s)
  then show ?case by (simp add: split_acc_nonempty)
qed simp

lemma index_of_chars: "index_of p s = Some i \<Longrightarrow> set p \<subseteq> set s"
proof (induction p s arbitrary: i rule: index_of.induct)
  case (2 p c s)
  show ?case
  proof (cases "starts_with (c # s) p")
    case True
    then obtain r where "c # s = p @ r" by (auto simp: starts_with_iff)
    then have "set (c # s) = set p \<union> set r" by simp
    then show ?thesis by blast
  next
    case False
    with 2 show ?thesis by auto
  qed
qed (simp split: if_splits)

lemma index_of_None: "x \<in> set p \<Longrightarrow> x \<notin> set s \<Longrightarrow> index_of p s = None"
  by (cases "index_of p s") (auto dest: index_of_chars)

subsection \<open>Valid host names\<close>

definition host_char :: "char \<Rightarrow> bool" where
  "host_char c \<longleftrightarrow> is_hostname_char c \<or> c = CHR ''-'' \<or> c = CHR ''.''"

definition valid_host :: "string \<Rightarrow> bool" where
  "valid_host h \<longleftrightarrow> is_ok (assert_valid_hostname h)"

lemma valid_host_iff: "assert_valid_hostname h = Inr u \<longleftrightarrow> valid_host h"
  by (simp add: valid_host_def assert_valid_hostname_def)

lemma valid_label_chars:
  assumes "is_valid_hostname_label l" "c \<in> set l" shows "host_char c"
proof -
  from assms(1) have l: "l \<noteq> []" by (auto simp: is_valid_hostname_label_def)
  then have "set l \<subseteq> {hd l, last l} \<union> set (butlast (tl l))"
  proof (cases "tl l")
    case (Cons b t)
    then have "set (tl l) = insert (last l) (set (butlast (tl l)))"
      by (metis append_butlast_last_id last_tl list.distinct(1) rotate1.simps(2) set_rotate1 set_append Un_insert_right sup_bot_right list.simps(15) list.set(1))
    with l show ?thesis by (cases l) auto
  qed (use l in \<open>cases l; auto\<close>)
  with assms show ?thesis
    by (auto simp: is_valid_hostname_label_def host_char_def list_all_iff)
qed

lemma valid_host_chars: "valid_host h \<Longrightarrow> c \<in> set h \<Longrightarrow> host_char c"
  using split_acc_chars [of c h "CHR ''.''" "[]"] valid_label_chars
  by (fastforce simp: valid_host_def assert_valid_hostname_def split_on_def list_all_iff host_char_def)

lemma valid_host_not_Nil: "valid_host h \<Longrightarrow> h \<noteq> []"
  by (auto simp: valid_host_def assert_valid_hostname_def)

lemma valid_host_last:
  assumes "valid_host h" shows "last h \<noteq> CHR ''.''"
proof
  assume "last h = CHR ''.''"
  then have "h = butlast h @ [CHR ''.'']"
    using valid_host_not_Nil [OF assms] append_butlast_last_id [of h] by simp
  then have "last (split_on CHR ''.'' h) = []"
    unfolding split_on_def by (metis split_acc_ends)
  moreover have "split_on CHR ''.'' h \<noteq> []" by (simp add: split_on_def split_acc_nonempty)
  ultimately have "[] \<in> set (split_on CHR ''.'' h)" by (metis last_in_set)
  with assms show False
    by (auto simp: valid_host_def assert_valid_hostname_def list_all_iff is_valid_hostname_label_def)
qed

lemma host_char_cases:
  assumes "host_char c"
  obtains "97 \<le> (of_char c :: nat)" "(of_char c :: nat) \<le> 122" | "48 \<le> (of_char c :: nat)" "(of_char c :: nat) \<le> 57"
    | "(of_char c :: nat) = 45" | "(of_char c :: nat) = 46"
  using assms by (auto simp: host_char_def is_hostname_char_def is_lower_alpha_def is_digit_def)

lemma host_char_plain:
  assumes "host_char c"
  shows "\<not> is_space c" "c \<notin> {CHR '':'', CHR ''/'', CHR ''@'', CHR ''[''}" "to_lower [c] = [c]"
proof -
  have n: "(97 \<le> (of_char c :: nat) \<and> (of_char c :: nat) \<le> 122) \<or> (48 \<le> (of_char c :: nat) \<and> (of_char c :: nat) \<le> 57)
      \<or> (of_char c :: nat) = 45 \<or> (of_char c :: nat) = 46"
    using assms by (auto simp: host_char_def is_hostname_char_def is_lower_alpha_def is_digit_def)
  then show "\<not> is_space c" "c \<notin> {CHR '':'', CHR ''/'', CHR ''@'', CHR ''[''}"
    by (auto simp: is_space_def)
  from n show "to_lower [c] = [c]" by (auto simp: to_lower_def)
qed

lemma lower_host: "(\<And>c. c \<in> set h \<Longrightarrow> host_char c) \<Longrightarrow> to_lower h = h"
proof (induction h)
  case (Cons c h)
  then have "to_lower [c] = [c]" "to_lower h = h" using host_char_plain(3) [of c] by auto
  then show ?case by (simp add: to_lower_def)
qed (simp add: to_lower_def)

lemma trim_host:
  assumes "\<And>c. c \<in> set h \<Longrightarrow> \<not> is_space c" shows "trim h = h"
proof -
  have d: "dropWhile is_space x = x" if "\<And>c. c \<in> set x \<Longrightarrow> \<not> is_space c" for x
    using that by (cases x) auto
  show ?thesis using d [of h] d [of "rev h"] assms by (simp add: trim_def)
qed

lemma normalize_plain:
  assumes c: "\<And>c. c \<in> set h \<Longrightarrow> host_char c" and "h \<noteq> []" "last h \<noteq> CHR ''.''"
  shows "normalize_hostname h = h"
proof -
  have none: "x \<notin> set h" if "x \<in> {CHR '':'', CHR ''/'', CHR ''@'', CHR ''[''}" for x
    using c host_char_plain(2) that by blast
  have t: "trim h = h" using trim_host c host_char_plain(1) by blast
  have s: "strip_url_scheme h = h"
    using index_of_None [of "CHR '':''" "''://''" h] none by (simp add: strip_url_scheme_def)
  have b: "bracketed h = None"
    using none [of "CHR ''[''"] assms(2) by (cases h) (auto simp: bracketed_def starts_with_def)
  show ?thesis using assms(3) none by (simp add: normalize_hostname_def t lower_host [OF c] s b split_on_plain)
qed

lemma normalize_valid: "valid_host h \<Longrightarrow> normalize_hostname h = h"
  using normalize_plain valid_host_chars valid_host_not_Nil valid_host_last by blast

subsection \<open>The redirect\<close>

lemma before_query_takeWhile: "before_query u = takeWhile (\<lambda>c. c \<noteq> CHR ''?'') u"
proof -
  have "hd (split_acc CHR ''?'' acc u) = acc @ takeWhile (\<lambda>c. c \<noteq> CHR ''?'') u" for acc
    by (induction u arbitrary: acc) auto
  then show ?thesis by (simp add: before_query_def split_on_def)
qed

lemma query_of_dropWhile: "query_of u = dropWhile (\<lambda>c. c \<noteq> CHR ''?'') u"
proof (induction u)
  case (Cons c u)
  show ?case
  proof (cases "c = CHR ''?''")
    case False
    then have "starts_with (c # u) ''?'' = False" by (simp add: starts_with_def)
    with Cons False show ?thesis by (auto simp: query_of_def split: option.splits)
  qed (simp add: query_of_def starts_with_def)
qed (simp add: query_of_def)

lemma path_and_query: "before_query u @ query_of u = u"
  by (simp add: before_query_takeWhile query_of_dropWhile)

definition redirectable :: "string \<Rightarrow> bool" where
  "redirectable u \<longleftrightarrow> \<not> starts_with (before_query u) ''/api/'' \<or> starts_with (before_query u) ''/api/s/''"

lemma redirect_iff:
  "resolve_domain_redirect q c = Some target \<longleftrightarrow>
     (\<exists>canonical. dc_canonical c = Some canonical \<and> canonical \<noteq> []
        \<and> normalize_hostname (or_else (rq_host q) []) \<in> set (dc_aliases c)
        \<and> normalize_hostname (or_else (rq_host q) []) \<notin> {[], canonical}
        \<and> rq_method q = ''GET'' \<and> redirectable (rq_url q) \<and> target = ''https://'' @ canonical @ rq_url q)"
  by (cases "dc_canonical c")
    (auto simp: resolve_domain_redirect_def truthy_def redirectable_def Let_def path_and_query)

subsection \<open>Reading back what was written\<close>

lemma plain_keys: "\<not> is_secret_key CANONICAL_KEY" "\<not> is_secret_key ALIASES_KEY" "CANONICAL_KEY \<noteq> ALIASES_KEY"
    "CANONICAL_KEY \<noteq> ''cloudflare.zone_id''" "ALIASES_KEY \<noteq> ''cloudflare.zone_id''"
  by code_simp+

lemma get_plain_set:
  assumes "\<not> is_secret_key k"
  shows "get_plain dec (setting_set enc now k v None category t) k' = (if k' = k then Inr (Some v) else get_plain dec t k')"
  using assms by (simp add: get_plain_def setting_get_def setting_set_def Let_def setting_find_put)

text \<open>\<open>JSON.parse\<close> reads back an array of host names that \<open>JSON.stringify\<close> wrote.\<close>

definition lossless :: "(string \<Rightarrow> json option) \<Rightarrow> bool" where
  "lossless parse \<longleftrightarrow> (\<forall>xs. list_all valid_host xs \<longrightarrow> parse (json_texts xs) = Some (JArr (map JStr xs)))"

definition domain_wf :: "domain_config \<Rightarrow> bool" where
  "domain_wf c \<longleftrightarrow> list_all valid_host (dc_aliases c) \<and> distinct (dc_aliases c)
     \<and> (\<forall>h. dc_canonical c = Some h \<longrightarrow> valid_host h \<and> h \<notin> set (dc_aliases c))"

definition known :: "domain_config \<Rightarrow> string \<Rightarrow> bool" where
  "known c h \<longleftrightarrow> dc_canonical c = Some h \<or> h \<in> set (dc_aliases c)"

definition config_of :: "('w, 'b) domain_api_scheme \<Rightarrow> 'w dom_site \<Rightarrow> (domain_config \<times> string option) res" where
  "config_of dx s = fst (get_domain_config dx s)"

lemma text_items_JStr: "text_items (map JStr xs) = xs"
  by (induction xs) auto

lemma aliases_read_back:
  assumes "lossless parse" "list_all valid_host xs"
  shows "parsed_aliases parse (Some (json_texts xs)) = xs"
proof -
  have "map normalize_hostname xs = xs"
    using assms(2) by (simp add: list_all_iff map_idI normalize_valid)
  moreover have "filter (\<lambda>h. h \<noteq> []) xs = xs"
    using assms(2) valid_host_not_Nil by (intro filter_True) (auto simp: list_all_iff)
  ultimately show ?thesis
    using assms by (simp add: parsed_aliases_def lossless_def text_items_JStr)
qed

lemma get_domain_config_run: "get_domain_config dx s = (config_of dx s, s)"
  by (simp add: config_of_def get_domain_config_def dom_get_def bind_def ret_def split: sum.splits)

lemma config_of_Inr:
  "config_of dx s = Inr (c, z) \<longleftrightarrow> (\<exists>canonical aliases.
     get_plain (dx_dec dx) (dm_rows s) CANONICAL_KEY = Inr canonical \<and> get_plain (dx_dec dx) (dm_rows s) ALIASES_KEY = Inr aliases
     \<and> get_plain (dx_dec dx) (dm_rows s) ''cloudflare.zone_id'' = Inr z
     \<and> c = \<lparr>dc_canonical = (case canonical of None \<Rightarrow> None | Some v \<Rightarrow> non_empty (normalize_hostname v)),
            dc_aliases = dedup (parsed_aliases (dx_parse dx) aliases)\<rparr>)"
  by (auto simp: config_of_def get_domain_config_def dom_get_def bind_def ret_def split: sum.splits)

definition with_rows :: "(setting_row list \<Rightarrow> setting_row list) \<Rightarrow> 'w dom_site \<Rightarrow> 'w dom_site" where
  "with_rows f s = s\<lparr>dm_rows := f (dm_rows s)\<rparr>"

lemma dom_set_run:
  "dx_writes dx k \<Longrightarrow> dom_set dx k v e cat s = (Inr (), with_rows (setting_set (dx_enc dx) (dx_now dx) k v e (Some cat)) s)"
  by (simp add: dom_set_def with_rows_def)

lemma config_after_aliases:
  assumes "lossless (dx_parse dx)" "list_all valid_host xs" "distinct xs" "config_of dx s = Inr (c, z)"
  shows "config_of dx (with_rows (setting_set enc now ALIASES_KEY (json_texts xs) None cat) s) = Inr (c\<lparr>dc_aliases := xs\<rparr>, z)"
  using assms(4) plain_keys
  by (auto simp: config_of_Inr with_rows_def get_plain_set aliases_read_back [OF assms(1,2)] dedup_distinct [OF assms(3)])

lemma config_after_canonical:
  assumes "valid_host h" "config_of dx s = Inr (c, z)"
  shows "config_of dx (with_rows (setting_set enc now CANONICAL_KEY h None cat) s) = Inr (c\<lparr>dc_canonical := Some h\<rparr>, z)"
  using assms(2) plain_keys valid_host_not_Nil [OF assms(1)]
  by (auto simp: config_of_Inr with_rows_def get_plain_set normalize_valid [OF assms(1)] non_empty_def)

subsection \<open>Histories of changes\<close>

datatype domain_op = Switch_to string | Add_alias string | Remove_alias string

definition domain_step :: "'w domain_api \<Rightarrow> time \<times> domain_op \<Rightarrow> 'w dom_site \<Rightarrow> 'w dom_site" where
  "domain_step dx o' s = snd ((case snd o' of
       Switch_to h \<Rightarrow> set_canonical_domain (dx\<lparr>dx_now := fst o'\<rparr>) h
     | Add_alias h \<Rightarrow> add_domain_alias (dx\<lparr>dx_now := fst o'\<rparr>) h
     | Remove_alias h \<Rightarrow> remove_domain_alias (dx\<lparr>dx_now := fst o'\<rparr>) h) s)"

lemma config_at_time: "config_of (dx\<lparr>dx_now := t\<rparr>) s = config_of dx s"
proof -
  have "dom_get (dx\<lparr>dx_now := t\<rparr>) = dom_get dx" by (intro ext) (simp add: dom_get_def)
  then show ?thesis by (simp add: config_of_def get_domain_config_def)
qed

definition switched :: "string \<Rightarrow> domain_config \<Rightarrow> domain_config" where
  "switched h c = \<lparr>dc_canonical = Some h, dc_aliases =
     (if truthy (dc_canonical c) \<and> dc_canonical c \<noteq> Some h
      then filter (\<lambda>a. a \<noteq> h) (dc_aliases c) @ [the (dc_canonical c)] else filter (\<lambda>a. a \<noteq> h) (dc_aliases c))\<rparr>"

lemma switched_wf:
  assumes "domain_wf c" "valid_host h" shows "domain_wf (switched h c)"
  using assms by (cases "dc_canonical c") (auto simp: domain_wf_def switched_def list_all_iff truthy_def)

lemma switched_known: "domain_wf c \<Longrightarrow> known (switched h c) x \<longleftrightarrow> known c x \<or> x = h"
  by (cases "dc_canonical c") (auto simp: known_def switched_def domain_wf_def truthy_def dest: valid_host_not_Nil)

lemma set_canonical_run:
  assumes "lossless (dx_parse dx)" "dx_writes dx CANONICAL_KEY" "dx_writes dx ALIASES_KEY"
    and c: "config_of dx s = Inr (c, z)" "domain_wf c" and v: "valid_host (normalize_hostname raw)"
  shows "\<exists>s'. set_canonical_domain dx raw s = (Inr (switched (normalize_hostname raw) c), s')
     \<and> config_of dx s' = Inr (switched (normalize_hostname raw) c, z)"
proof -
  let ?h = "normalize_hostname raw"
  let ?xs = "dc_aliases (switched ?h c)"
  let ?s1 = "with_rows (setting_set (dx_enc dx) (dx_now dx) CANONICAL_KEY ?h None (Some ''system'')) s"
  let ?s2 = "with_rows (setting_set (dx_enc dx) (dx_now dx) ALIASES_KEY (json_texts ?xs) None (Some ''system'')) ?s1"
  have wf: "domain_wf (switched ?h c)" using switched_wf c(2) v .
  then have xs: "list_all valid_host ?xs" "distinct ?xs" by (simp_all add: domain_wf_def)
  have aliases: "dedup (if truthy (dc_canonical c) \<and> dc_canonical c \<noteq> Some ?h
      then filter (\<lambda>a. a \<noteq> ?h) (dc_aliases c) @ [the (dc_canonical c)] else filter (\<lambda>a. a \<noteq> ?h) (dc_aliases c)) = ?xs"
    using dedup_distinct [OF xs(2)] unfolding switched_def domain_config.simps .
  obtain u where u: "assert_valid_hostname ?h = Inr u" using v by (auto simp: valid_host_def is_ok_iff)
  have "set_canonical_domain dx raw s = (Inr \<lparr>dc_canonical = Some ?h, dc_aliases = ?xs\<rparr>, ?s2)"
    unfolding set_canonical_domain_def Let_def
    by (simp only: bind_def lift_res_def u get_domain_config_run c(1) aliases dom_set_run assms(2,3) ret_def
        sum.case prod.case fst_conv)
  moreover have "config_of dx ?s2 = Inr (c\<lparr>dc_canonical := Some ?h, dc_aliases := ?xs\<rparr>, z)"
    using config_after_aliases [OF assms(1) xs config_after_canonical [OF v c(1)]] by simp
  ultimately show ?thesis by (auto simp: switched_def)
qed

lemma set_canonical_refused: "\<not> valid_host (normalize_hostname raw) \<Longrightarrow> snd (set_canonical_domain dx raw s) = s"
  by (auto simp: set_canonical_domain_def Let_def bind_def lift_res_def valid_host_def split: sum.splits)

lemma add_alias_run:
  assumes "lossless (dx_parse dx)" "dx_writes dx ALIASES_KEY" and c: "config_of dx s = Inr (c, z)" "domain_wf c"
  shows "\<exists>c'. config_of dx (snd (add_domain_alias dx raw s)) = Inr (c', z) \<and> domain_wf c'
     \<and> dc_canonical c' = dc_canonical c \<and> set (dc_aliases c) \<subseteq> set (dc_aliases c')"
proof (cases "valid_host (normalize_hostname raw) \<and> dc_canonical c \<noteq> Some (normalize_hostname raw)
    \<and> normalize_hostname raw \<notin> set (dc_aliases c)")
  case True
  let ?h = "normalize_hostname raw"
  obtain u where u: "assert_valid_hostname ?h = Inr u" using True by (auto simp: valid_host_def is_ok_iff)
  have xs: "list_all valid_host (dc_aliases c @ [?h])" "distinct (dc_aliases c @ [?h])"
    using c(2) True by (simp_all add: domain_wf_def)
  have "snd (add_domain_alias dx raw s) = with_rows (setting_set (dx_enc dx) (dx_now dx) ALIASES_KEY
      (json_texts (dc_aliases c @ [?h])) None (Some ''system'')) s"
    using True unfolding add_domain_alias_def Let_def
    by (simp add: bind_def lift_res_def u get_domain_config_run c(1) dom_set_run assms(2) ret_def)
  then have "config_of dx (snd (add_domain_alias dx raw s)) = Inr (c\<lparr>dc_aliases := dc_aliases c @ [?h]\<rparr>, z)"
    using config_after_aliases [OF assms(1) xs c(1)] by simp
  moreover have "domain_wf (c\<lparr>dc_aliases := dc_aliases c @ [?h]\<rparr>)"
    using c(2) True xs by (auto simp: domain_wf_def)
  ultimately show ?thesis by auto
next
  case False
  have "snd (add_domain_alias dx raw s) = s"
    using False unfolding add_domain_alias_def Let_def
    by (auto simp: bind_def lift_res_def get_domain_config_run c(1) ret_def throw_def valid_host_def split: sum.splits)
  then show ?thesis using c by auto
qed

lemma remove_alias_run:
  assumes "lossless (dx_parse dx)" "dx_writes dx ALIASES_KEY" and c: "config_of dx s = Inr (c, z)" "domain_wf c"
  shows "\<exists>c'. config_of dx (snd (remove_domain_alias dx raw s)) = Inr (c', z) \<and> domain_wf c'
     \<and> dc_canonical c' = dc_canonical c \<and> set (dc_aliases c') = set (dc_aliases c) - {normalize_hostname raw}"
proof -
  let ?xs = "filter (\<lambda>a. a \<noteq> normalize_hostname raw) (dc_aliases c)"
  have xs: "list_all valid_host ?xs" "distinct ?xs" using c(2) by (auto simp: domain_wf_def list_all_iff)
  have "snd (remove_domain_alias dx raw s) = with_rows (setting_set (dx_enc dx) (dx_now dx) ALIASES_KEY
      (json_texts ?xs) None (Some ''system'')) s"
    unfolding remove_domain_alias_def Let_def
    by (simp add: bind_def get_domain_config_run c(1) dom_set_run assms(2) ret_def)
  then have "config_of dx (snd (remove_domain_alias dx raw s)) = Inr (c\<lparr>dc_aliases := ?xs\<rparr>, z)"
    using config_after_aliases [OF assms(1) xs c(1)] by simp
  moreover have "domain_wf (c\<lparr>dc_aliases := ?xs\<rparr>)" using c(2) xs by (auto simp: domain_wf_def)
  ultimately show ?thesis by auto
qed

lemma step_keeps_hosts:
  assumes "lossless (dx_parse dx)" "dx_writes dx CANONICAL_KEY" "dx_writes dx ALIASES_KEY"
    and c: "config_of dx s = Inr (c, z)" "domain_wf c"
  shows "\<exists>c'. config_of dx (domain_step dx o' s) = Inr (c', z) \<and> domain_wf c'
     \<and> (\<forall>h. known c h \<and> (\<forall>r. snd o' = Remove_alias r \<longrightarrow> normalize_hostname r \<noteq> h) \<longrightarrow> known c' h)"
proof -
  let ?d = "dx\<lparr>dx_now := fst o'\<rparr>"
  have d: "lossless (dx_parse ?d)" "dx_writes ?d CANONICAL_KEY" "dx_writes ?d ALIASES_KEY" "config_of ?d s = Inr (c, z)"
    using assms by (simp_all add: config_at_time)
  show ?thesis
  proof (cases "snd o'")
    case (Switch_to raw)
    show ?thesis
    proof (cases "valid_host (normalize_hostname raw)")
      case True
      then show ?thesis
        using set_canonical_run [OF d c(2) True] switched_wf [OF c(2) True] switched_known [OF c(2)]
        by (force simp: domain_step_def Switch_to config_at_time)
    next
      case False
      then show ?thesis using c by (auto simp: domain_step_def Switch_to set_canonical_refused)
    qed
  next
    case (Add_alias raw)
    then show ?thesis
      using add_alias_run [OF d(1,3,4) c(2), of raw] by (auto simp: domain_step_def config_at_time known_def)
  next
    case (Remove_alias raw)
    then show ?thesis
      using remove_alias_run [OF d(1,3,4) c(2), of raw] by (auto simp: domain_step_def config_at_time known_def)
  qed
qed

lemma history_keeps_hosts:
  assumes "lossless (dx_parse dx)" "dx_writes dx CANONICAL_KEY" "dx_writes dx ALIASES_KEY"
    and "config_of dx s = Inr (c, z)" "domain_wf c"
  shows "\<exists>c'. config_of dx (fold (domain_step dx) ops s) = Inr (c', z) \<and> domain_wf c'
     \<and> (\<forall>h. known c h \<and> (\<forall>r. Remove_alias r \<in> snd ` set ops \<longrightarrow> normalize_hostname r \<noteq> h) \<longrightarrow> known c' h)"
  using assms(4,5)
proof (induction ops arbitrary: s c)
  case (Cons o' ops)
  from step_keeps_hosts [OF assms(1-3) Cons.prems, of o']
  obtain c1 where c1: "config_of dx (domain_step dx o' s) = Inr (c1, z)" "domain_wf c1"
      "\<And>h. known c h \<Longrightarrow> (\<forall>r. snd o' = Remove_alias r \<longrightarrow> normalize_hostname r \<noteq> h) \<Longrightarrow> known c1 h"
    by blast
  from Cons.IH [OF c1(1,2)] c1(3) show ?case by fastforce
qed auto

lemma known_redirects:
  assumes "domain_wf c" "known c h" "dc_canonical c = Some canonical" "h \<noteq> canonical" "redirectable u"
  shows "resolve_domain_redirect \<lparr>rq_host = Some h, rq_url = u, rq_method = ''GET''\<rparr> c = Some (''https://'' @ canonical @ u)"
proof -
  have "h \<in> set (dc_aliases c)" using assms(2,3,4) by (auto simp: known_def)
  moreover from this have "valid_host h" "valid_host canonical"
    using assms(1,3) by (auto simp: domain_wf_def list_all_iff)
  ultimately show ?thesis
    using assms(3,4,5) valid_host_not_Nil by (fastforce simp: redirect_iff normalize_valid)
qed

subsection \<open>A switch in two writes\<close>

lemma half_written_switch:
  assumes "dx_writes dx CANONICAL_KEY" "\<not> dx_writes dx ALIASES_KEY" "config_of dx s = Inr (c, z)"
    and v: "valid_host (normalize_hostname raw)"
  shows "\<exists>e s'. set_canonical_domain dx raw s = (Inl e, s')
     \<and> config_of dx s' = Inr (c\<lparr>dc_canonical := Some (normalize_hostname raw)\<rparr>, z)"
proof -
  let ?h = "normalize_hostname raw"
  let ?s1 = "with_rows (setting_set (dx_enc dx) (dx_now dx) CANONICAL_KEY ?h None (Some ''system'')) s"
  obtain u where u: "assert_valid_hostname ?h = Inr u" using v by (auto simp: valid_host_def is_ok_iff)
  have "fst (set_canonical_domain dx raw s) = Inl (pg_error ''the settings row cannot be written'')"
    "snd (set_canonical_domain dx raw s) = ?s1"
    unfolding set_canonical_domain_def Let_def
    by (simp_all add: bind_def lift_res_def u get_domain_config_run assms(3) dom_set_run [OF assms(1)] dom_set_def [where key = ALIASES_KEY] assms(2))
  then show ?thesis using config_after_canonical [OF v assms(3)] by (metis prod.collapse)
qed

subsection \<open>The ranges of addresses\<close>

lemma masked_eq_iff: "(n AND push_bit k (- 1)) = (b AND push_bit k (- 1)) \<longleftrightarrow> drop_bit k n = drop_bit k (b :: 'a :: len word)"
proof -
  have m: "x AND push_bit k (- 1) = push_bit k (drop_bit k x)" for x :: "'a word"
    by (rule bit_word_eqI) (auto simp: bit_simps)
  have "drop_bit k (push_bit k (drop_bit k x)) = drop_bit k x" for x :: "'a word"
    by (rule bit_word_eqI) (auto simp: bit_simps dest: bit_imp_le_length)
  then show ?thesis unfolding m by metis
qed

lemma drop_eq_iff: "drop_bit k n = drop_bit k b \<longleftrightarrow> uint n div 2 ^ k = uint (b :: 'a :: len word) div 2 ^ k"
proof -
  have "uint (drop_bit k x) = uint x div 2 ^ k" for x :: "'a word"
    by transfer (simp add: drop_bit_eq_div [symmetric] drop_bit_take_bit)
  then show ?thesis by (simp add: word_uint_eq_iff)
qed

definition octets :: "string \<Rightarrow> int list" where
  "octets ip = map (int \<circ> digits_val) (split_on CHR ''.'' ip)"

definition quad_val :: "int \<Rightarrow> int \<Rightarrow> int \<Rightarrow> int \<Rightarrow> int" where
  "quad_val a b c d = ((a * 256 + b) * 256 + c) * 256 + d"

lemma v4_word_octets:
  assumes "is_v4 ip" "octets ip = [a, b, c, d]"
  shows "uint (v4_word ip) = quad_val a b c d" "{a, b, c, d} \<subseteq> {0..255}"
proof -
  obtain p q r t where s: "split_on CHR ''.'' ip = [p, q, r, t]" and v: "a = int (digits_val p)" "b = int (digits_val q)"
      "c = int (digits_val r)" "d = int (digits_val t)"
    using assms(2) by (auto simp: octets_def Cons_eq_map_conv map_eq_Cons_conv)
  have "digits_val x \<le> 255" if "x \<in> {p, q, r, t}" for x
    using assms(1) that by (auto simp: is_v4_def s v4_octet_def)
  then have le: "a \<le> 255" "b \<le> 255" "c \<le> 255" "d \<le> 255" using v by simp_all
  with v show "{a, b, c, d} \<subseteq> {0..255}" by simp
  have "0 \<le> quad_val a b c d" "quad_val a b c d < 2 ^ 32" using le v by (simp_all add: quad_val_def)
  moreover have "v4_word ip = word_of_int (quad_val a b c d)"
    by (simp add: v4_word_def s v quad_val_def)
  ultimately show "uint (v4_word ip) = quad_val a b c d"
    by (simp add: uint_word_of_int)
qed

lemma in_range_iff:
  assumes "0 < prefix" "uint n = v" "uint (v4_word base) = w"
  shows "in_range n base prefix \<longleftrightarrow> v div 2 ^ (32 - prefix) = w div 2 ^ (32 - prefix)"
proof -
  have "prefix \<noteq> 0" using assms(1) by simp
  then show ?thesis unfolding in_range_def Let_def by (simp only: if_False masked_eq_iff drop_eq_iff assms(2,3))
qed

lemma base_words:
  "uint (v4_word ''127.0.0.0'') = 127 * 2 ^ 24" "uint (v4_word ''0.0.0.0'') = 0 * 2 ^ 24"
  "uint (v4_word ''10.0.0.0'') = 10 * 2 ^ 24" "uint (v4_word ''172.16.0.0'') = 2753 * 2 ^ 20"
  "uint (v4_word ''192.168.0.0'') = 49320 * 2 ^ 16" "uint (v4_word ''169.254.0.0'') = 43518 * 2 ^ 16"
  "uint (v4_word ''192.0.2.0'') = 12582914 * 2 ^ 8" "uint (v4_word ''198.51.100.0'') = 12989284 * 2 ^ 8"
  "uint (v4_word ''203.0.113.0'') = 13303921 * 2 ^ 8"
  by code_simp+

lemma quad_divs:
  assumes "0 \<le> a" "0 \<le> b" "0 \<le> c" "0 \<le> d" "a \<le> 255" "b \<le> 255" "c \<le> 255" "d \<le> (255 :: int)"
  shows "quad_val a b c d div 2 ^ (32 - 8) = a" "quad_val a b c d div 2 ^ (32 - 16) = a * 256 + b"
    "quad_val a b c d div 2 ^ (32 - 12) = a * 16 + b div 16" "quad_val a b c d div 2 ^ (32 - 24) = (a * 256 + b) * 256 + c"
proof -
  have "quad_val a b c d = 16777216 * a + 65536 * b + 256 * c + d" by (simp add: quad_val_def)
  with assms show "quad_val a b c d div 2 ^ (32 - 8) = a" "quad_val a b c d div 2 ^ (32 - 16) = a * 256 + b"
      "quad_val a b c d div 2 ^ (32 - 12) = a * 16 + b div 16" "quad_val a b c d div 2 ^ (32 - 24) = (a * 256 + b) * 256 + c"
    by simp_all
qed

lemma base_divs:
  "(127 * 2 ^ 24) div 2 ^ (32 - 8) = (127 :: int)" "(0 * 2 ^ 24) div 2 ^ (32 - 8) = (0 :: int)"
  "(10 * 2 ^ 24) div 2 ^ (32 - 8) = (10 :: int)" "(2753 * 2 ^ 20) div 2 ^ (32 - 12) = (2753 :: int)"
  "(49320 * 2 ^ 16) div 2 ^ (32 - 16) = (49320 :: int)" "(43518 * 2 ^ 16) div 2 ^ (32 - 16) = (43518 :: int)"
  "(12582914 * 2 ^ 8) div 2 ^ (32 - 24) = (12582914 :: int)" "(12989284 * 2 ^ 8) div 2 ^ (32 - 24) = (12989284 :: int)"
  "(13303921 * 2 ^ 8) div 2 ^ (32 - 24) = (13303921 :: int)"
  by simp_all

definition reserved :: "int \<Rightarrow> int \<Rightarrow> int \<Rightarrow> bool" where
  "reserved a b c \<longleftrightarrow> a \<in> {0, 10, 127} \<or> (a = 172 \<and> 16 \<le> b \<and> b \<le> 31) \<or> (a, b) \<in> {(192, 168), (169, 254)}
     \<or> (a, b, c) \<in> {(192, 0, 2), (198, 51, 100), (203, 0, 113)}"

lemma split_digit:
  assumes "0 \<le> b" "b < (k :: int)"
  shows "a * k + b = n \<longleftrightarrow> a = n div k \<and> b = n mod k"
proof
  assume "a * k + b = n"
  then show "a = n div k \<and> b = n mod k" using assms by (auto simp: div_add1_eq)
qed (use div_mult_mod_eq [of n k] in auto)

lemma range_members:
  assumes "0 \<le> b" "b \<le> (255 :: int)"
  shows "a * 16 + b div 16 = 2753 \<longleftrightarrow> a = 172 \<and> b div 16 = 1"
    "a * 256 + b = 49320 \<longleftrightarrow> a = 192 \<and> b = 168" "a * 256 + b = 43518 \<longleftrightarrow> a = 169 \<and> b = 254"
  using assms by (simp_all add: split_digit)

lemma range_members_24:
  assumes "0 \<le> b" "0 \<le> c" "b \<le> (255 :: int)" "c \<le> (255 :: int)"
  shows "(a * 256 + b) * 256 + c = 12582914 \<longleftrightarrow> a = 192 \<and> b = 0 \<and> c = 2"
    "(a * 256 + b) * 256 + c = 12989284 \<longleftrightarrow> a = 198 \<and> b = 51 \<and> c = 100"
    "(a * 256 + b) * 256 + c = 13303921 \<longleftrightarrow> a = 203 \<and> b = 0 \<and> c = 113"
proof -
  have s: "x * 256 + y = n \<longleftrightarrow> x = n div 256 \<and> y = n mod 256" if "0 \<le> y" "y \<le> 255" for x y n :: int
    using split_digit [of y 256] that by simp
  show "(a * 256 + b) * 256 + c = 12582914 \<longleftrightarrow> a = 192 \<and> b = 0 \<and> c = 2"
    "(a * 256 + b) * 256 + c = 12989284 \<longleftrightarrow> a = 198 \<and> b = 51 \<and> c = 100"
    "(a * 256 + b) * 256 + c = 13303921 \<longleftrightarrow> a = 203 \<and> b = 0 \<and> c = 113"
    unfolding s [OF assms(2,4)] s [OF assms(1,3)] by simp_all
qed

lemma div_16_1: "b div 16 = 1 \<longleftrightarrow> 16 \<le> b \<and> b \<le> (31 :: int)"
  by auto

lemma non_public_v4_iff:
  assumes "is_v4 ip" "octets ip = [a, b, c, d]" "is_ip ip"
  shows "is_non_public_ip is_ip ip \<longleftrightarrow> reserved a b c"
proof -
  note o = v4_word_octets [OF assms(1,2)]
  have r: "0 \<le> a" "0 \<le> b" "0 \<le> c" "0 \<le> d" "a \<le> 255" "b \<le> 255" "c \<le> 255" "d \<le> 255" using o(2) by auto
  have "is_non_public_ip is_ip ip \<longleftrightarrow> list_ex (\<lambda>r. in_range (v4_word ip) (fst r) (snd r)) non_public_v4"
    using assms(1,3) by (simp add: is_non_public_ip_def)
  also have "\<dots> \<longleftrightarrow> a = 127 \<or> a = 0 \<or> a = 10 \<or> a * 16 + b div 16 = 2753 \<or> a * 256 + b = 49320 \<or> a * 256 + b = 43518
      \<or> (a * 256 + b) * 256 + c = 12582914 \<or> (a * 256 + b) * 256 + c = 12989284 \<or> (a * 256 + b) * 256 + c = 13303921"
    unfolding non_public_v4_def list_ex_Cons_iff list_ex_Nil_iff fst_conv snd_conv
    by (simp only: in_range_iff [OF _ o(1) base_words(1)] in_range_iff [OF _ o(1) base_words(2)] in_range_iff [OF _ o(1) base_words(3)]
        in_range_iff [OF _ o(1) base_words(4)] in_range_iff [OF _ o(1) base_words(5)] in_range_iff [OF _ o(1) base_words(6)]
        in_range_iff [OF _ o(1) base_words(7)] in_range_iff [OF _ o(1) base_words(8)] in_range_iff [OF _ o(1) base_words(9)]
        zero_less_numeral quad_divs [OF r] base_divs simp_thms)
  also have "\<dots> \<longleftrightarrow> reserved a b c"
    unfolding range_members [OF r(2,6)] range_members_24 [OF r(2,3,6,7)]
    by (auto simp: reserved_def div_16_1)
  finally show ?thesis .
qed

text \<open>
  Addresses that are not public either and pass the test: carrier-grade NAT, the mapped form of
  a private address, and link-local addresses past \<open>fe80::/16\<close>.
\<close>

lemma missed_ranges:
  "\<not> is_non_public_ip (\<lambda>_. True) ''100.64.0.1''" "\<not> is_non_public_ip (\<lambda>_. True) ''::ffff:10.0.0.1''"
  "\<not> is_non_public_ip (\<lambda>_. True) ''fe90::1''"
  by code_simp+

text \<open>C39. Old addresses keep working. Over any history of switches of the canonical domain, added and
  removed aliases, whatever the texts given and whether or not each request is accepted, every
  host that was once canonical or an alias, and that no request removed by name, is the canonical
  host or still redirects there with its path and query; the stored hosts stay valid and distinct,
  and the canonical host itself never redirects.\<close>

theorem old_domains_keep_redirecting:
  assumes "lossless (dx_parse dx)" "dx_writes dx CANONICAL_KEY" "dx_writes dx ALIASES_KEY"
    and "config_of dx s = Inr (c, z)" "domain_wf c"
  shows "\<exists>c'. config_of dx (fold (domain_step dx) ops s) = Inr (c', z) \<and> domain_wf c'
     \<and> (\<forall>h u. known c h \<and> (\<forall>r. Remove_alias r \<in> snd ` set ops \<longrightarrow> normalize_hostname r \<noteq> h) \<and> redirectable u \<longrightarrow>
          dc_canonical c' \<in> {None, Some h} \<or>
          resolve_domain_redirect \<lparr>rq_host = Some h, rq_url = u, rq_method = ''GET''\<rparr> c'
            = Some (''https://'' @ the (dc_canonical c') @ u))
     \<and> (\<forall>q. rq_host q = dc_canonical c' \<longrightarrow> resolve_domain_redirect q c' = None)"
proof -
  obtain c' where c': "config_of dx (fold (domain_step dx) ops s) = Inr (c', z)" "domain_wf c'"
      "\<And>h. known c h \<Longrightarrow> (\<forall>r. Remove_alias r \<in> snd ` set ops \<longrightarrow> normalize_hostname r \<noteq> h) \<Longrightarrow> known c' h"
    using history_keeps_hosts [OF assms, of ops] by blast
  have "resolve_domain_redirect q c' = None" if "rq_host q = dc_canonical c'" for q
    using that c'(2) by (cases "dc_canonical c'")
      (auto simp: resolve_domain_redirect_def truthy_def Let_def domain_wf_def normalize_valid)
  with c' known_redirects [OF c'(2)] show ?thesis by (cases "dc_canonical c'") auto
qed

text \<open>A parser of arrays of texts without escapes, which reads host names back.\<close>

definition parse_hosts :: "string \<Rightarrow> json option" where
  "parse_hosts t = (let inner = butlast (tl t) in
     Some (JArr (if inner = [] then [] else map (\<lambda>p. JStr (butlast (tl p))) (split_on CHR '','' inner))))"

lemma escape_host: assumes "host_char c" shows "json_escape c = [c]"
proof -
  have "\<forall>d \<in> {CHR 0x22, CHR 0x5C, CHR 0x08, CHR 0x09, CHR 0x0A, CHR 0x0C, CHR 0x0D}. \<not> host_char d" by code_simp
  then have special: "c \<notin> {CHR 0x22, CHR 0x5C, CHR 0x08, CHR 0x09, CHR 0x0A, CHR 0x0C, CHR 0x0D}" using assms by blast
  have "45 \<le> (of_char c :: nat)"
    using assms by (elim host_char_cases) auto
  then have "\<not> (of_char c :: nat) < 32" by simp
  with special show ?thesis by (simp add: json_escape_def Let_def)
qed

lemma json_text_host: "valid_host h \<Longrightarrow> json_text h = CHR 0x22 # h @ [CHR 0x22]"
proof -
  assume "valid_host h"
  then have "map json_escape h = map (\<lambda>c. [c]) h"
    using valid_host_chars escape_host by (simp cong: map_cong)
  moreover have "concat (map (\<lambda>c. [c]) h) = h" by (induction h) auto
  ultimately show ?thesis by (simp only: json_text_def append.simps)
qed

lemma parse_hosts_lossless: "lossless parse_hosts"
proof -
  have "parse_hosts (json_texts xs) = Some (JArr (map JStr xs))" if "list_all valid_host xs" for xs
  proof (cases "xs = []")
    case False
    have v: "\<And>h. h \<in> set xs \<Longrightarrow> valid_host h" using that by (simp add: list_all_iff)
    have comma: "CHR '','' \<notin> set (json_text h)" if "h \<in> set xs" for h
    proof -
      have "\<not> host_char CHR '',''" by code_simp
      then show ?thesis using json_text_host [OF v [OF that]] valid_host_chars [OF v [OF that]] by auto
    qed
    have "split_on CHR '','' (join '','' (map json_text xs)) = map json_text xs"
      using False comma by (intro split_on_join) auto
    moreover have "join '','' (map json_text xs) \<noteq> []"
      using False by (cases xs; cases "tl xs") (auto simp: json_text_def)
    moreover have "map (\<lambda>p. JStr (butlast (tl p))) (map json_text xs) = map JStr xs"
      using v by (simp add: json_text_host)
    ultimately show ?thesis by (simp add: parse_hosts_def json_texts_def)
  qed (simp add: parse_hosts_def json_texts_def)
  then show ?thesis by (simp add: lossless_def)
qed

definition demo_domain_api :: "unit domain_api" where
  "demo_domain_api = \<lparr>dx_now = 0, dx_nid = ''n'', dx_iso = (\<lambda>_. ''2026-01-01T00:00:00.000Z''), dx_env = (\<lambda>_. []),
     dx_enc = (\<lambda>v. v), dx_dec = Inr, dx_writes = (\<lambda>_. True), dx_parse = parse_hosts, dx_url = (\<lambda>_. None),
     dx_push = (\<lambda>_ _. ret ()), dx_redis = (\<lambda>_ _. True),
     dx_verify = (\<lambda>_. ret \<lparr>ve_dns = True, ve_https = True, ve_detail = []\<rparr>), dx_broker = (\<lambda>_ _. ret (200, ''SS''))\<rparr>"

definition demo_domains :: "unit dom_site" where
  "demo_domains = \<lparr>dm_rows = [\<lparr>sg_key = CANONICAL_KEY, sg_value = ''vm.example.com'', sg_encrypted = False,
     sg_category = ''system'', sg_updated = 0\<rparr>], dm_redis = [], dm_audit = [], dm_bell = [], dm_world = ()\<rparr>"

lemma demo_config:
  "config_of demo_domain_api demo_domains = Inr (\<lparr>dc_canonical = Some ''vm.example.com'', dc_aliases = []\<rparr>, None)"
  "domain_wf \<lparr>dc_canonical = Some ''vm.example.com'', dc_aliases = []\<rparr>"
  by code_simp (simp add: domain_wf_def, code_simp)

lemma old_domains_keep_redirecting_witness:
  "\<exists>c' z. config_of demo_domain_api (fold (domain_step demo_domain_api)
       [(1, Switch_to ''https://VM2.example.com/''), (2, Add_alias ''vm9.example.com''), (3, Remove_alias ''vm9.example.com''),
        (4, Switch_to ''vm3.example.com''), (5, Switch_to ''-'')] demo_domains) = Inr (c', z)
     \<and> (dc_canonical c' \<in> {None, Some ''vm.example.com''} \<or>
        resolve_domain_redirect \<lparr>rq_host = Some ''vm.example.com'', rq_url = ''/vms?page=2'', rq_method = ''GET''\<rparr> c'
          = Some (''https://'' @ the (dc_canonical c') @ ''/vms?page=2''))"
proof -
  have "lossless (dx_parse demo_domain_api)" "dx_writes demo_domain_api CANONICAL_KEY" "dx_writes demo_domain_api ALIASES_KEY"
    by (simp_all add: demo_domain_api_def parse_hosts_lossless)
  moreover have "redirectable ''/vms?page=2''" by code_simp
  moreover have "normalize_hostname ''vm9.example.com'' \<noteq> ''vm.example.com''" by code_simp
  ultimately show ?thesis
    using old_domains_keep_redirecting [OF _ _ _ demo_config, of "[(1, Switch_to ''https://VM2.example.com/''),
        (2, Add_alias ''vm9.example.com''), (3, Remove_alias ''vm9.example.com''),
        (4, Switch_to ''vm3.example.com''), (5, Switch_to ''-'')]"]
    by (fastforce simp: known_def)
qed

end
