(* ===== verification/Rotate.thy ===== *)
theory Rotate
  imports Domains
begin

text \<open>
  The switch of the canonical domain and its automatic rotation
  (\<open>packages/core/src/services/domainrotate.ts\<close>, \<open>services/filtercheck.ts\<close>,
  \<open>packages/core/src/cloudflare/client.ts\<close>): the envelope of every Cloudflare answer, the edit of
  a tunnel's ingress rules, the next numbered host name, the switch, and the pass of the rotator
  with its Redis keys.

  Cloudflare's endpoints are computations on the world that give an HTTP answer with an envelope;
  the broker's request gives a status and a body. \<open>CloudflareApiError\<close> is not an \<open>AppError\<close>: like
  every other error of the runtime it is a \<open>plain_error\<close>, with status 500. Dashes
  and arrows of messages are written in ASCII.
\<close>

subsection \<open>Numbers of JavaScript in text\<close>

text \<open>
  \<open>Number(s)\<close> of a run of digits is the double nearest to its value, ties to even, and \<open>String\<close>
  of a double from \<open>2 ^ 53\<close> on has the fewest digits that read back as the same double, padded
  with zeros, in exponent notation from \<open>1e21\<close>.
\<close>

function bit_count :: "int \<Rightarrow> nat" where
  "bit_count n = (if n \<le> 0 then 0 else Suc (bit_count (n div 2)))"
  by auto
termination by (relation "measure nat") auto

declare bit_count.simps [simp del]

definition to_double :: "int \<Rightarrow> int" where
  "to_double n =
     (if n \<le> 2 ^ 53 then n
      else let e = bit_count n - 53; q = n div 2 ^ e; r = n mod 2 ^ e; half = 2 ^ (e - 1) in
        (if r > half \<or> (r = half \<and> odd q) then q + 1 else q) * 2 ^ e)"

definition closest :: "int \<Rightarrow> int \<Rightarrow> int \<Rightarrow> int" where
  "closest n a b = (if abs (n - a) \<le> abs (b - n) then a else b)"

text \<open>\<open>shortest d f k\<close> tries \<open>k\<close> significant digits of the \<open>d\<close>-digit double \<open>n\<close>, then more; \<open>f\<close> is fuel.\<close>

fun shortest :: "int \<Rightarrow> nat \<Rightarrow> nat \<Rightarrow> nat \<Rightarrow> int" where
  "shortest n d 0 k = n"
| "shortest n d (Suc f) k =
     (let u = 10 ^ (d - k); a = n div u * u; b = a + u;
          ok_a = (to_double a = n); ok_b = (to_double b = n)
      in if ok_a \<and> ok_b then closest n a b
         else if ok_a then a else if ok_b then b else shortest n d f (Suc k))"

function big_text :: "int \<Rightarrow> string" where
  "big_text n = (if n < 10 then [char_of (48 + nat n)] else big_text (n div 10) @ [char_of (48 + nat (n mod 10))])"
  by auto
termination by (relation "measure nat") auto

declare big_text.simps [simp del]

definition js_int_text :: "int \<Rightarrow> string" where
  "js_int_text n =
     (if n < 2 ^ 53 then int_str n
      else if n \<ge> 2 ^ 1024 then ''Infinity''
      else let d = length (big_text n); t = big_text (shortest n d d 1) in
        if n < 10 ^ 21 then t
        else let m = rev (dropWhile (\<lambda>c. c = CHR ''0'') (rev t)) in
          hd m # (if tl m = [] then [] else CHR ''.'' # tl m) @ ''e+'' @ nat_str (length t - 1))"

subsection \<open>Names\<close>

definition qualify_name :: "string \<Rightarrow> string \<Rightarrow> string" where
  "qualify_name name zone =
     (let t = to_lower (trim name) in
      if t = ''@'' then zone
      else if CHR ''.'' \<in> set t then normalize_hostname t
      else t @ ''.'' @ zone)"

definition first_label :: "string \<Rightarrow> string" where
  "first_label h = takeWhile (\<lambda>c. c \<noteq> CHR ''.'') h"

definition after_label :: "string \<Rightarrow> string" where
  "after_label h = dropWhile (\<lambda>c. c \<noteq> CHR ''.'') h"

definition digit_tail :: "string \<Rightarrow> string" where
  "digit_tail l = rev (takeWhile is_digit (rev l))"

definition label_head :: "string \<Rightarrow> string" where
  "label_head l = rev (dropWhile is_digit (rev l))"

definition bump_hostname :: "string \<Rightarrow> string" where
  "bump_hostname h =
     (let l = first_label h in
      if digit_tail l = [] then l @ ''2'' @ after_label h
      else label_head l @ js_int_text (to_double (to_double (int (digits_val (digit_tail l))) + 1)) @ after_label h)"

fun next_unused :: "string set \<Rightarrow> nat \<Rightarrow> string \<Rightarrow> string option" where
  "next_unused skipped 0 current = None"
| "next_unused skipped (Suc n) current =
     (let next = bump_hostname current in if next \<notin> skipped then Some next else next_unused skipped n next)"

definition next_rotated_hostname :: "string \<Rightarrow> string list \<Rightarrow> nat \<Rightarrow> string option" where
  "next_rotated_hostname canonical used max_attempts =
     (let skipped = set (filter (\<lambda>h. h \<noteq> []) (map normalize_hostname used)); current = normalize_hostname canonical in
      if current = [] then None else next_unused skipped max_attempts current)"

subsection \<open>Cloudflare\<close>

record cf_zone =
  cz_id :: string
  cz_name :: string

record dns_record =
  dr_id :: string
  dr_type :: string
  dr_name :: string
  dr_content :: string
  dr_proxied :: bool

record tunnel_rule =
  tr_host :: "string option"
  tr_service :: string
  tr_rest :: "(string \<times> json) list"

datatype 'r cf_body = NotJson | NullJson | Envelope "bool option" "string option list" "'r option"

record 'r cf_response =
  cr_status :: int
  cr_body :: "'r cf_body"

record cf_new_record =
  cn_type :: string
  cn_name :: string
  cn_content :: string
  cn_proxied :: bool

record cf_patch =
  cp_content :: string
  cp_proxied :: bool

record 'w rotate_api = "'w domain_api" +
  rx_zone :: "string \<Rightarrow> string \<Rightarrow> ('w, cf_zone cf_response) comp"
  rx_records :: "string \<Rightarrow> string \<Rightarrow> ('w, dns_record list cf_response) comp"
  rx_create :: "string \<Rightarrow> string \<Rightarrow> cf_new_record \<Rightarrow> ('w, dns_record cf_response) comp"
  rx_update :: "string \<Rightarrow> string \<Rightarrow> string \<Rightarrow> cf_patch \<Rightarrow> ('w, dns_record cf_response) comp"
  rx_ingress :: "string \<Rightarrow> string \<Rightarrow> string \<Rightarrow> ('w, (tunnel_rule list \<times> (string \<times> json) list) cf_response) comp"
  rx_put_ingress :: "string \<Rightarrow> string \<Rightarrow> string \<Rightarrow> (string \<times> json) list \<Rightarrow> tunnel_rule list \<Rightarrow> ('w, unit cf_response) comp"

text \<open>
  The first argument of each endpoint is the bearer token. The ingress endpoint gives the rules
  and the whole configuration object.
\<close>

definition dom_out :: "('w, 'a) comp \<Rightarrow> ('w dom_site, 'a) comp" where
  "dom_out m s = (case m (dm_world s) of (r, w) \<Rightarrow> (r, s\<lparr>dm_world := w\<rparr>))"

definition http_ok :: "int \<Rightarrow> bool" where
  "http_ok st \<longleftrightarrow> 200 \<le> st \<and> st \<le> 299"

definition envelope_error :: "int \<Rightarrow> string option list \<Rightarrow> app_error" where
  "envelope_error st messages = plain_error (''Cloudflare API error (HTTP '' @ int_str st @ '')'' @
     (let detail = join ''; '' (map (\<lambda>m. or_else m ''unknown'') messages) in if detail = [] then [] else '': '' @ detail))"

definition cf_request :: "('w, 'r cf_response) comp \<Rightarrow> ('w dom_site, 'r option) comp" where
  "cf_request fetch =
     bind (try_catch (dom_out fetch) (\<lambda>e. throw (plain_error (''Cannot reach the Cloudflare API: '' @ err_message e)))) (\<lambda>res.
     case cr_body res of
       NotJson \<Rightarrow> throw (plain_error (''Cloudflare API returned a non-JSON response (HTTP '' @ int_str (cr_status res) @ '')''))
     | NullJson \<Rightarrow> throw (envelope_error (cr_status res) [])
     | Envelope success messages result \<Rightarrow>
         if \<not> http_ok (cr_status res) \<or> success = Some False then throw (envelope_error (cr_status res) messages)
         else ret result)"

text \<open>Reading a field of a \<open>null\<close> result is a \<open>TypeError\<close>.\<close>

definition not_null :: "'r option \<Rightarrow> 'r res" where
  "not_null r = (case r of None \<Rightarrow> Inl (plain_error ''Cannot read properties of null'') | Some x \<Rightarrow> Inr x)"

definition list_dns_records :: "('w, 'b) rotate_api_scheme \<Rightarrow> string \<Rightarrow> string \<Rightarrow> ('w dom_site, dns_record list) comp" where
  "list_dns_records rx token zone = bind (cf_request (rx_records rx token zone)) (\<lambda>r. ret (or_else r []))"

definition get_tunnel_ingress ::
  "('w, 'b) rotate_api_scheme \<Rightarrow> string \<Rightarrow> string \<Rightarrow> string \<Rightarrow> ('w dom_site, tunnel_rule list \<times> (string \<times> json) list) comp" where
  "get_tunnel_ingress rx token account tunnel =
     bind (cf_request (rx_ingress rx token account tunnel)) (\<lambda>r. ret (or_else r ([], [])))"

definition get_cloudflare_client :: "('w, 'b) rotate_api_scheme \<Rightarrow> ('w dom_site, string) comp" where
  "get_cloudflare_client rx = bind (get_cloudflare_config rx) (\<lambda>c.
     if truthy (cc_token c) then ret (the (cc_token c))
     else throw (AppError CONFIGURATION_ERROR
       ''Cloudflare is not configured. Set PROXVM_CLOUDFLARE_API_TOKEN or save an API token on the Domains page.'' 400))"

subsection \<open>Ingress rules\<close>

definition rule_host :: "tunnel_rule \<Rightarrow> string" where
  "rule_host r = to_lower (or_else (tr_host r) [])"

fun set_first_service :: "string \<Rightarrow> string \<Rightarrow> tunnel_rule list \<Rightarrow> tunnel_rule list" where
  "set_first_service h sv [] = []"
| "set_first_service h sv (r # rs) = (if rule_host r = h then r\<lparr>tr_service := sv\<rparr> # rs else r # set_first_service h sv rs)"

fun before_catch_all :: "tunnel_rule \<Rightarrow> tunnel_rule list \<Rightarrow> tunnel_rule list" where
  "before_catch_all n [] = [n]"
| "before_catch_all n (r # rs) = (if truthy (tr_host r) then r # before_catch_all n rs else n # r # rs)"

definition ensure_tunnel_ingress_rule ::
  "tunnel_rule list \<Rightarrow> string \<Rightarrow> string \<Rightarrow> tunnel_rule list \<times> bool \<times> string option" where
  "ensure_tunnel_ingress_rule rules hostname sv =
     (let h = to_lower (trim hostname) in
      case find (\<lambda>r. rule_host r = h) rules of
        Some r \<Rightarrow> if tr_service r = sv then (rules, False, Some (tr_service r))
                  else (set_first_service h sv rules, True, Some (tr_service r))
      | None \<Rightarrow> (before_catch_all \<lparr>tr_host = Some h, tr_service = sv, tr_rest = []\<rparr> rules, True, None))"

definition tunnel_service_for :: "tunnel_rule list \<Rightarrow> string \<Rightarrow> string option" where
  "tunnel_service_for rules hostname =
     map_option tr_service (find (\<lambda>r. rule_host r = to_lower (trim hostname)) rules)"

subsection \<open>The filter check\<close>

datatype filter_status = Blocked | Clean | Unknown

record filter_check =
  fk_status :: filter_status
  fk_rule :: "string option"
  fk_detail :: string

definition get_securly_config :: "('w, 'b) rotate_api_scheme \<Rightarrow> ('w dom_site, string option) comp" where
  "get_securly_config rx =
     (let env = trim (dx_env rx ''PROXVM_SECURLY_USEREMAIL'') in
      if env \<noteq> [] then ret (Some env)
      else bind (dom_get rx ''securly.useremail'') (\<lambda>v. ret (non_empty (trim (or_else v [])))))"

definition parse_securly_verdict :: "string \<Rightarrow> filter_status \<times> string option" where
  "parse_securly_verdict body =
     (let verdict = trim body in
      if starts_with verdict ''DENY''
      then (let parts = split_on CHR '':'' verdict in (Blocked, if length parts \<ge> 3 then Some (parts ! 2) else None))
      else (Clean, None))"

text \<open>What the answer of the broker, or the failure to get one, says.\<close>

definition verdict_of :: "(int \<times> string) res \<Rightarrow> filter_check" where
  "verdict_of answer = (case answer of
       Inl e \<Rightarrow> \<lparr>fk_status = Unknown, fk_rule = None, fk_detail = take 120 (err_message e)\<rparr>
     | Inr (st, body) \<Rightarrow>
         if \<not> http_ok st \<or> trim body = []
         then \<lparr>fk_status = Unknown, fk_rule = None, fk_detail = ''broker HTTP '' @ int_str st\<rparr>
         else let p = parse_securly_verdict body in
           if fst p = Blocked
           then \<lparr>fk_status = Blocked, fk_rule = snd p, fk_detail = ''Securly reports this hostname blocked'' @
                  (if truthy (snd p) then '' (rule '' @ the (snd p) @ '')'' else [])\<rparr>
           else \<lparr>fk_status = Clean, fk_rule = None, fk_detail = ''No DENY verdict''\<rparr>)"

definition check_securly_block :: "('w, 'b) rotate_api_scheme \<Rightarrow> string \<Rightarrow> string \<Rightarrow> ('w dom_site, filter_check) comp" where
  "check_securly_block rx hostname email =
     bind (settled (dom_out (dx_broker rx hostname email))) (\<lambda>answer. ret (verdict_of answer))"

subsection \<open>The switch\<close>

record switch_input =
  sb_name :: string
  sb_target :: "string option"
  sb_type :: "string option"
  sb_copy :: "string option"
  sb_proxied :: "bool option"
  sb_service :: "string option"

record tunnel_info =
  ti_managed :: bool
  ti_ensured :: bool
  ti_service :: "string option"

record switch_result =
  sr_flipped :: bool
  sr_fqdn :: string
  sr_record :: dns_record
  sr_tunnel :: tunnel_info
  sr_verification :: verification
  sr_canonical :: "string option"
  sr_aliases :: "string list"
  sr_abort :: "string option"

text \<open>\<open>a || b || c\<close> on nullable texts.\<close>

fun first_truthy :: "string option list \<Rightarrow> string option" where
  "first_truthy [] = None"
| "first_truthy (x # xs) = (if truthy x then x else first_truthy xs)"

definition no_zone :: app_error where
  "no_zone = err_validation ''No Cloudflare Zone ID configured (env or Domains settings)''"

definition record_named :: "string \<Rightarrow> dns_record list \<Rightarrow> dns_record option" where
  "record_named h records = find (\<lambda>r. to_lower (dr_name r) = h) records"

definition v4_pattern :: "string \<Rightarrow> bool" where
  "v4_pattern t \<longleftrightarrow> length (split_on CHR ''.'' t) = 4
     \<and> list_all (\<lambda>p. 1 \<le> length p \<and> length p \<le> 3 \<and> list_all is_digit p) (split_on CHR ''.'' t)"

definition private_prefixes :: "string list" where
  "private_prefixes = [''10.'', ''127.'', ''192.168.'', ''169.254.'', ''0.''] @ map (\<lambda>k. ''172.'' @ nat_str k @ ''.'') [16..<32]"

definition is_alpha :: "char \<Rightarrow> bool" where
  "is_alpha c \<longleftrightarrow> is_lower_alpha c \<or> (65 \<le> (of_char c :: nat) \<and> (of_char c :: nat) \<le> 90)"

definition check_target :: "string \<Rightarrow> string \<Rightarrow> unit res" where
  "check_target type target =
     rbind (guard (\<not> (starts_with (to_lower target) ''http://'' \<or> starts_with (to_lower target) ''https://''))
       (err_validation ''Target must be a bare IP address or hostname, not a URL (no http://, no port, no path)'')) (\<lambda>_.
     rbind (guard (\<not> (type = ''A'' \<and> \<not> v4_pattern target))
       (err_validation ''A records need a bare IPv4 address (e.g. 203.0.113.10)'')) (\<lambda>_.
     rbind (guard (\<not> (type = ''A'' \<and> list_ex (starts_with target) private_prefixes))
       (err_validation (''That is a private LAN address - it is unreachable on the public internet, so publishing it would break the domain. ''
         @ ''Use your public IP (or tunnel hostname via CNAME), copied from an existing record below.''))) (\<lambda>_.
     rbind (guard (\<not> (type = ''AAAA'' \<and> \<not> (target \<noteq> [] \<and> list_all (\<lambda>c. is_hex c \<or> c = CHR '':'') target)))
       (err_validation ''AAAA records need a bare IPv6 address'')) (\<lambda>_.
     guard (\<not> (type = ''CNAME'' \<and>
         \<not> (target \<noteq> [] \<and> list_all (\<lambda>c. is_alpha c \<or> is_digit c \<or> c = CHR ''.'' \<or> c = CHR ''-'') target)))
       (err_validation ''CNAME records need a bare hostname'')))))"

definition valid_service :: "string \<Rightarrow> bool" where
  "valid_service sv \<longleftrightarrow>
     (sv \<noteq> [] \<and> is_alpha (hd sv) \<and>
        starts_with (dropWhile (\<lambda>c. is_alpha c \<or> is_digit c \<or> c \<in> set ''+.-'') (tl sv)) ''://'')
     \<or> (to_lower (take 12 sv) = ''http_status:'' \<and> length (drop 12 sv) = 3 \<and> list_all is_digit (drop 12 sv))
     \<or> sv = ''hello-world''"

definition no_tunnel :: tunnel_info where
  "no_tunnel = \<lparr>ti_managed = False, ti_ensured = False, ti_service = None\<rparr>"

definition write_record ::
  "('w, 'b) rotate_api_scheme \<Rightarrow> string \<Rightarrow> string \<Rightarrow> string \<Rightarrow> string \<Rightarrow> string \<Rightarrow> bool option \<Rightarrow> dns_record option \<Rightarrow> dns_record list
   \<Rightarrow> ('w dom_site, dns_record option) comp" where
  "write_record rx token zone fqdn type target proxied template records =
     (case find (\<lambda>r. to_lower (dr_name r) = fqdn \<and> dr_type r \<in> {''A'', ''AAAA'', ''CNAME''}) records of
        Some e \<Rightarrow> cf_request (rx_update rx token zone (dr_id e) \<lparr>cp_content = target, cp_proxied = or_else proxied (dr_proxied e)\<rparr>)
      | None \<Rightarrow> cf_request (rx_create rx token zone \<lparr>cn_type = type, cn_name = fqdn, cn_content = target,
          cn_proxied = or_else proxied (case template of None \<Rightarrow> True | Some t \<Rightarrow> dr_proxied t)\<rparr>))"

definition route_tunnel ::
  "('w, 'b) rotate_api_scheme \<Rightarrow> string \<Rightarrow> string \<Rightarrow> string option \<Rightarrow> string option \<Rightarrow> ('w dom_site, tunnel_info) comp" where
  "route_tunnel rx token fqdn service canonical =
     bind (get_cloudflare_config rx) (\<lambda>cf.
     if \<not> (truthy (cc_account cf) \<and> truthy (cc_tunnel cf)) then ret no_tunnel
     else let account = the (cc_account cf); tunnel = the (cc_tunnel cf) in
       bind (try_catch (get_tunnel_ingress rx token account tunnel) (\<lambda>e.
         if err_status e = 404
         then throw (err_validation (''This tunnel runs on a local config.yml, so ProxVM cannot manage its ingress. '' @
           ''Convert it to a cloud-managed tunnel once in the Cloudflare dashboard (or add the hostname there by hand), then Switch again.''))
         else throw e)) (\<lambda>got.
       let wanted = (case service of None \<Rightarrow> None | Some sv \<Rightarrow> non_empty (trim sv)) in
       bind (lift_res (guard (wanted = None \<or> valid_service (the wanted))
         (err_validation (''Service target '' @ [CHR 0x22] @ or_else wanted [] @ [CHR 0x22] @ '' is not a valid tunnel service - use scheme://host form (e.g. http://localhost:8080), http_status:404, or hello-world. Pick one from the existing routes below instead of typing.'')))) (\<lambda>_.
       let target = (case wanted of Some sv \<Rightarrow> Some sv
                     | None \<Rightarrow> if truthy canonical then tunnel_service_for (fst got) (the canonical) else None) in
       if \<not> truthy target
       then throw (err_validation ''No ingress rule exists for the current domain and no service target was given - pick the service from an existing route below (same target your current domain uses).'')
       else let merged = ensure_tunnel_ingress_rule (fst got) fqdn (the target) in
         bind (do_when (fst (snd merged)) (bind (cf_request (rx_put_ingress rx token account tunnel (snd got) (fst merged))) (\<lambda>_. ret ()))) (\<lambda>_.
         ret \<lparr>ti_managed = True, ti_ensured = True, ti_service = target\<rparr>))))"

definition abort_reason :: "string \<Rightarrow> verification \<Rightarrow> string" where
  "abort_reason fqdn v = ''DNS for '' @ fqdn @ '' does not resolve yet ('' @ ve_detail v @
     ''). The DNS record was saved - wait for propagation (or fix the target) and Switch again. Nothing was flipped.''"

definition flip_canonical ::
  "('w, 'b) rotate_api_scheme \<Rightarrow> string \<Rightarrow> dns_record option \<Rightarrow> tunnel_info \<Rightarrow> domain_config \<Rightarrow> ('w dom_site, switch_result) comp" where
  "flip_canonical rx fqdn answer tunnel config =
     bind (dom_out (dx_verify rx fqdn)) (\<lambda>v.
     if \<not> ve_dns v
     then bind (lift_res (not_null answer)) (\<lambda>r. ret \<lparr>sr_flipped = False, sr_fqdn = fqdn, sr_record = r, sr_tunnel = tunnel,
            sr_verification = v, sr_canonical = dc_canonical config, sr_aliases = dc_aliases config,
            sr_abort = Some (abort_reason fqdn v)\<rparr>)
     else bind (set_canonical_domain rx fqdn) (\<lambda>updated.
          bind (lift_res (not_null answer)) (\<lambda>r. ret \<lparr>sr_flipped = True, sr_fqdn = fqdn, sr_record = r, sr_tunnel = tunnel,
            sr_verification = v, sr_canonical = dc_canonical updated, sr_aliases = dc_aliases updated, sr_abort = None\<rparr>)))"

text \<open>The source of the copy, the type and the content of the record to write.\<close>

definition choose_target ::
  "switch_input \<Rightarrow> string option \<Rightarrow> dns_record list \<Rightarrow> (dns_record option \<times> string \<times> string) res" where
  "choose_target body canonical records =
     (let current = (if truthy canonical then record_named (the canonical) records else None);
          template = (if truthy (sb_copy body) then find (\<lambda>r. dr_id r = the (sb_copy body)) records else None) in
      if truthy (sb_copy body) \<and> template = None then Inl (err_validation ''Selected source record no longer exists'')
      else case first_truthy [map_option trim (sb_target body), map_option dr_content template, map_option dr_content current] of
        None \<Rightarrow> Inl (err_validation (''No target given and no current domain set yet - pick '' @ [CHR 0x27] @
          ''copy from existing record'' @ [CHR 0x27] @ '' or enter the target explicitly''))
      | Some target \<Rightarrow>
          let type = (case sb_type body of Some t \<Rightarrow> t | None \<Rightarrow> (case template of Some t \<Rightarrow> dr_type t
                        | None \<Rightarrow> (case current of Some t \<Rightarrow> dr_type t | None \<Rightarrow> ''A'')))
          in rbind (check_target type target) (\<lambda>_. Inr (template, type, target)))"

definition publish ::
  "('w, 'b) rotate_api_scheme \<Rightarrow> string \<Rightarrow> string \<Rightarrow> string \<Rightarrow> switch_input \<Rightarrow> dns_record list \<Rightarrow> domain_config
   \<Rightarrow> ('w dom_site, switch_result) comp" where
  "publish rx token zone fqdn body records config =
     bind (lift_res (choose_target body (dc_canonical config) records)) (\<lambda>p.
     bind (write_record rx token zone fqdn (fst (snd p)) (snd (snd p)) (sb_proxied body) (fst p) records) (\<lambda>answer.
     bind (route_tunnel rx token fqdn (sb_service body) (dc_canonical config)) (\<lambda>tunnel.
     flip_canonical rx fqdn answer tunnel config)))"

definition switch_in_zone ::
  "('w, 'b) rotate_api_scheme \<Rightarrow> string \<Rightarrow> switch_input \<Rightarrow> cf_zone \<Rightarrow> ('w dom_site, switch_result) comp" where
  "switch_in_zone rx token body zone =
     (let fqdn = qualify_name (sb_name body) (cz_name zone) in
      bind (lift_res (assert_valid_hostname fqdn)) (\<lambda>_.
      bind (list_dns_records rx token (cz_id zone)) (\<lambda>records.
      bind (get_domain_config rx) (\<lambda>c.
      publish rx token (cz_id zone) fqdn body records (fst c)))))"

definition perform_domain_switch :: "('w, 'b) rotate_api_scheme \<Rightarrow> switch_input \<Rightarrow> ('w dom_site, switch_result) comp" where
  "perform_domain_switch rx body =
     bind (get_cloudflare_config rx) (\<lambda>cf.
     if \<not> truthy (cc_zone cf) then throw no_zone else
     bind (get_cloudflare_client rx) (\<lambda>token.
     bind (cf_request (rx_zone rx token (the (cc_zone cf)))) (\<lambda>z.
     bind (lift_res (not_null z)) (switch_in_zone rx token body))))"

subsection \<open>Redis\<close>

definition redis_live :: "time \<Rightarrow> redis_row \<Rightarrow> bool" where
  "redis_live now r \<longleftrightarrow> is_live (rr_expires r) now"

interpretation redis_keys: expiring rr_expires redis_live
  by unfold_locales (simp add: redis_live_def)

text \<open>\<open>dx_redis command key\<close> is whether the server answers; a key past its expiry is gone.\<close>

definition redis_find :: "time \<Rightarrow> string \<Rightarrow> redis_row list \<Rightarrow> redis_row option" where
  "redis_find now k t = find (\<lambda>r. rr_key r = k) (filter (redis_live now) t)"

definition redis_put :: "time \<Rightarrow> redis_row \<Rightarrow> redis_row list \<Rightarrow> redis_row list" where
  "redis_put now n t = n # filter (\<lambda>r. rr_key r \<noteq> rr_key n) (filter (redis_live now) t)"

definition redis_down :: app_error where
  "redis_down = plain_error ''Connection is closed.''"

definition redis_get :: "('w, 'b) domain_api_scheme \<Rightarrow> string \<Rightarrow> ('w dom_site, string option) comp" where
  "redis_get rx k s =
     (if dx_redis rx ''get'' k then Inr (map_option rr_value (redis_find (dx_now rx) k (dm_redis s))) else Inl redis_down, s)"

definition redis_write ::
  "('w, 'b) domain_api_scheme \<Rightarrow> string \<Rightarrow> string \<Rightarrow> (redis_row list \<Rightarrow> redis_row list) \<Rightarrow> ('w dom_site, unit) comp" where
  "redis_write rx command k f s =
     (if dx_redis rx command k then (Inr (), s\<lparr>dm_redis := f (dm_redis s)\<rparr>) else (Inl redis_down, s))"

text \<open>Every write of the pass is followed by \<open>.catch(() => undefined)\<close>; times to live are seconds.\<close>

definition redis_set :: "('w, 'b) domain_api_scheme \<Rightarrow> string \<Rightarrow> string \<Rightarrow> int \<Rightarrow> ('w dom_site, unit) comp" where
  "redis_set rx k v ttl = try_catch (redis_write rx ''set'' k
     (redis_put (dx_now rx) \<lparr>rr_key = k, rr_value = v, rr_expires = Some (dx_now rx + ttl * 1000)\<rparr>)) (\<lambda>_. ret ())"

definition incremented :: "time \<Rightarrow> string \<Rightarrow> redis_row list \<Rightarrow> redis_row" where
  "incremented now k t = (case redis_find now k t of
       None \<Rightarrow> \<lparr>rr_key = k, rr_value = ''1'', rr_expires = None\<rparr>
     | Some r \<Rightarrow> r\<lparr>rr_value := (case js_number (rr_value r) of JNum n \<Rightarrow> int_str (n + 1) | _ \<Rightarrow> rr_value r)\<rparr>)"

definition redis_incr :: "('w, 'b) domain_api_scheme \<Rightarrow> string \<Rightarrow> ('w dom_site, unit) comp" where
  "redis_incr rx k = try_catch (redis_write rx ''incr'' k (\<lambda>t. redis_put (dx_now rx) (incremented (dx_now rx) k t) t)) (\<lambda>_. ret ())"

definition redis_expire :: "('w, 'b) domain_api_scheme \<Rightarrow> string \<Rightarrow> int \<Rightarrow> ('w dom_site, unit) comp" where
  "redis_expire rx k ttl = try_catch (redis_write rx ''expire'' k
     (map (\<lambda>r. if rr_key r = k \<and> redis_live (dx_now rx) r then r\<lparr>rr_expires := Some (dx_now rx + ttl * 1000)\<rparr> else r))) (\<lambda>_. ret ())"

subsection \<open>The pass of the rotator\<close>

definition AUTO_ROTATE_ENABLED_KEY :: string where
  "AUTO_ROTATE_ENABLED_KEY = ''domains.auto_rotate''"

definition AUTO_ROTATE_COOLDOWN_S :: int where
  "AUTO_ROTATE_COOLDOWN_S = 15 * 60"

definition AUTO_ROTATE_MAX_PER_DAY :: int where
  "AUTO_ROTATE_MAX_PER_DAY = 5"

definition AUTO_ROTATE_MAX_CANDIDATES :: nat where
  "AUTO_ROTATE_MAX_CANDIDATES = 10"

definition RETRY_COOLDOWN_S :: int where
  "RETRY_COOLDOWN_S = 30 * 60"

definition FAILURE_COOLDOWN_S :: int where
  "FAILURE_COOLDOWN_S = 60 * 60"

definition COOLDOWN_KEY :: string where
  "COOLDOWN_KEY = ''proxvm:auto-rotate:cooldown''"

definition CAPPED_TTL_S :: int where
  "CAPPED_TTL_S = 26 * 60 * 60"

definition COUNT_TTL_S :: int where
  "COUNT_TTL_S = 2 * 24 * 60 * 60"

datatype rotate_outcome = Disabled | No_canonical | No_useremail | Cooldown | Clean_now | Unknown_now | Rotated
  | No_clean_candidate | Broker_down | Aborted | Failed | Capped

record rotate_result =
  ro_outcome :: rotate_outcome
  ro_from :: "string option"
  ro_to :: "string option"
  ro_rule :: "string option"
  ro_detail :: "string option"

definition ended :: "rotate_outcome \<Rightarrow> string option \<Rightarrow> rotate_result" where
  "ended o' from = \<lparr>ro_outcome = o', ro_from = from, ro_to = None, ro_rule = None, ro_detail = None\<rparr>"

definition day_key :: "('w, 'b) domain_api_scheme \<Rightarrow> string" where
  "day_key rx = filter (\<lambda>c. c \<noteq> CHR ''-'') (take 10 (dx_iso rx (dx_now rx)))"

definition count_key :: "('w, 'b) domain_api_scheme \<Rightarrow> string" where
  "count_key rx = ''proxvm:auto-rotate:count:'' @ day_key rx"

definition capped_key :: "('w, 'b) domain_api_scheme \<Rightarrow> string" where
  "capped_key rx = ''proxvm:auto-rotate:capped:'' @ day_key rx"

definition safe_audit :: "('w, 'b) domain_api_scheme \<Rightarrow> (string \<times> json) list \<Rightarrow> ('w dom_site, unit) comp" where
  "safe_audit rx detail = modify (\<lambda>s. s\<lparr>dm_audit := audit_record (dx_now rx)
     \<lparr>au_event = ''SETTINGS_CHANGED'', au_actor = None, au_actor_name = Some ''auto-rotate'', au_vm = None, au_job = None,
      au_ip = None, au_detail = Some (JObj ((''section'', JStr ''domains'') # detail))\<rparr> (dm_audit s)\<rparr>)"

definition rotate_alert :: "('w, 'b) domain_api_scheme \<Rightarrow> string \<Rightarrow> string \<Rightarrow> int \<Rightarrow> ('w dom_site, unit) comp" where
  "rotate_alert rx title body priority s =
     (case alert_admins (dx_now rx) (dx_nid rx) (dx_url rx) (dx_push rx) (get_plain (dx_dec rx) (dm_rows s)) None title (Some body)
        (Some ''/domains'') (Some (JNum priority)) (dm_bell s, dm_world s) of
        (b, w) \<Rightarrow> (Inr (), s\<lparr>dm_bell := b, dm_world := w\<rparr>))"

definition alert_blocked :: "string \<Rightarrow> string option \<Rightarrow> string \<Rightarrow> string" where
  "alert_blocked canonical rule rest = ''Securly still reports '' @ canonical @ '' blocked'' @
     (if truthy rule then '' (rule '' @ the rule @ '')'' else []) @ rest"

text \<open>\<open>done >= cap\<close>; the counter is only ever written by \<open>INCR\<close>, so its text is an integer.\<close>

definition reached :: "json \<Rightarrow> int \<Rightarrow> bool" where
  "reached d cap \<longleftrightarrow> (case d of JNum n \<Rightarrow> n \<ge> cap | _ \<Rightarrow> False)"

definition number_text :: "json \<Rightarrow> string" where
  "number_text d = (case d of JNum n \<Rightarrow> int_str n | _ \<Rightarrow> ''NaN'')"

definition capped_pass ::
  "('w, 'b) rotate_api_scheme \<Rightarrow> int \<Rightarrow> string \<Rightarrow> string option \<Rightarrow> json \<Rightarrow> ('w dom_site, rotate_result) comp" where
  "capped_pass rx cap canonical rule d =
     (let so_far = number_text d @ ''/'' @ int_str cap in
      bind (redis_get rx (capped_key rx)) (\<lambda>told.
      bind (do_when (\<not> truthy told)
        (bind (rotate_alert rx (''Auto-rotate paused - daily cap reached ('' @ so_far @ '')'')
          (alert_blocked canonical rule ('', but '' @ number_text d @ '' automatic rotation(s) already happened today. Rotate manually on the Domains page or raise the cap once things settle.'')) 7) (\<lambda>_.
         redis_set rx (capped_key rx) ''1'' CAPPED_TTL_S))) (\<lambda>_.
      ret ((ended Capped (Some canonical))\<lparr>ro_rule := rule, ro_detail := Some so_far\<rparr>))))"

text \<open>\<open>find_candidate n\<close> may probe \<open>n\<close> more names; the flag is \<open>brokerDirty\<close>.\<close>

fun find_candidate ::
  "('w, 'b) rotate_api_scheme \<Rightarrow> string \<Rightarrow> string \<Rightarrow> nat \<Rightarrow> string list \<Rightarrow> ('w dom_site, string option \<times> bool) comp" where
  "find_candidate rx canonical email 0 probed = ret (None, False)"
| "find_candidate rx canonical email (Suc n) probed =
     (case next_rotated_hostname canonical probed AUTO_ROTATE_MAX_CANDIDATES of
        None \<Rightarrow> ret (None, False)
      | Some next \<Rightarrow> bind (check_securly_block rx next email) (\<lambda>v.
          case fk_status v of
            Clean \<Rightarrow> ret (Some next, False)
          | Unknown \<Rightarrow> ret (None, True)
          | Blocked \<Rightarrow> find_candidate rx canonical email n (probed @ [next])))"

definition no_candidate ::
  "('w, 'b) rotate_api_scheme \<Rightarrow> string \<Rightarrow> bool \<Rightarrow> ('w dom_site, rotate_result) comp" where
  "no_candidate rx canonical dirty =
     (let detail = (if dirty
            then ''Securly'' @ [CHR 0x27] @ ''s broker returned an unknown verdict while checking the next name after '' @ canonical @ '', so auto-rotate will not switch blind.''
            else ''Securly also blocks the next '' @ nat_str AUTO_ROTATE_MAX_CANDIDATES @ '' name(s) after '' @ canonical @ '' - the whole numbering pattern looks listed.'')
      in bind (safe_audit rx [(''autoRotate'', JStr ''no-clean-candidate''), (''canonical'', JStr canonical), (''reason'', JStr detail)]) (\<lambda>_.
         bind (rotate_alert rx (if dirty then ''Auto-rotate paused - Securly broker giving unclear answers''
             else ''Auto-rotate stopped - the next names are blocked too'')
           (detail @ '' Nothing was switched; the next attempt is after a cooldown.'') 8) (\<lambda>_.
         bind (redis_set rx COOLDOWN_KEY ''1'' RETRY_COOLDOWN_S) (\<lambda>_.
         ret (ended (if dirty then Broker_down else No_clean_candidate) (Some canonical))))))"

definition nothing_to_copy :: "('w, 'b) rotate_api_scheme \<Rightarrow> string \<Rightarrow> ('w dom_site, rotate_result) comp" where
  "nothing_to_copy rx canonical =
     (let detail = ''No DNS record exists for '' @ canonical @ '' in the zone, so there is no target to copy - rotating would publish a dead address.''
      in bind (safe_audit rx [(''autoRotate'', JStr ''failed''), (''canonical'', JStr canonical), (''reason'', JStr detail)]) (\<lambda>_.
         bind (rotate_alert rx ''Auto-rotate stopped - no current DNS record to copy'' detail 8) (\<lambda>_.
         bind (redis_set rx COOLDOWN_KEY ''1'' FAILURE_COOLDOWN_S) (\<lambda>_.
         ret ((ended Failed (Some canonical))\<lparr>ro_detail := Some detail\<rparr>)))))"

definition waiting_for_dns ::
  "('w, 'b) rotate_api_scheme \<Rightarrow> int \<Rightarrow> string \<Rightarrow> switch_result \<Rightarrow> ('w dom_site, rotate_result) comp" where
  "waiting_for_dns rx cooldown canonical r =
     bind (safe_audit rx [(''switchAborted'', JStr (sr_fqdn r)), (''autoRotate'', JBool True), (''reason'', JStr (ve_detail (sr_verification r)))]) (\<lambda>_.
     bind (rotate_alert rx (''Auto-rotate waiting on DNS for '' @ sr_fqdn r)
       (or_else (sr_abort r) ''null'' @ '' The record exists; once it resolves, auto-rotate flips automatically.'') 7) (\<lambda>_.
     bind (redis_set rx COOLDOWN_KEY ''1'' cooldown) (\<lambda>_.
     ret ((ended Aborted (Some canonical))\<lparr>ro_detail := Some (ve_detail (sr_verification r))\<rparr>))))"

definition record_json :: "dns_record \<Rightarrow> json" where
  "record_json r = JObj [(''id'', JStr (dr_id r)), (''type'', JStr (dr_type r)), (''name'', JStr (dr_name r)),
     (''content'', JStr (dr_content r)), (''proxied'', JBool (dr_proxied r))]"

definition tunnel_json :: "tunnel_info \<Rightarrow> json" where
  "tunnel_json t = JObj [(''managed'', JBool (ti_managed t)), (''ruleEnsured'', JBool (ti_ensured t)),
     (''service'', case ti_service t of None \<Rightarrow> JNull | Some sv \<Rightarrow> JStr sv)]"

definition verification_json :: "verification \<Rightarrow> json" where
  "verification_json v = JObj [(''dnsOk'', JBool (ve_dns v)), (''httpsOk'', JBool (ve_https v)), (''detail'', JStr (ve_detail v))]"

definition nullable :: "string option \<Rightarrow> json" where
  "nullable x = (case x of None \<Rightarrow> JNull | Some v \<Rightarrow> JStr v)"

definition rotation_done ::
  "('w, 'b) rotate_api_scheme \<Rightarrow> int \<Rightarrow> string \<Rightarrow> string \<Rightarrow> string option \<Rightarrow> switch_result \<Rightarrow> ('w dom_site, rotate_result) comp" where
  "rotation_done rx cooldown canonical candidate rule r =
     bind (redis_set rx COOLDOWN_KEY ''1'' cooldown) (\<lambda>_.
     bind (redis_incr rx (count_key rx)) (\<lambda>_.
     bind (redis_expire rx (count_key rx) COUNT_TTL_S) (\<lambda>_.
     bind (safe_audit rx [(''autoRotated'', JBool True), (''from'', JStr canonical), (''to'', nullable (sr_canonical r)),
         (''ruleId'', nullable rule), (''dnsRecord'', record_json (sr_record r)), (''tunnel'', tunnel_json (sr_tunnel r)),
         (''verification'', verification_json (sr_verification r))]) (\<lambda>_.
     bind (rotate_alert rx (''Domain auto-rotated: '' @ canonical @ '' -> '' @ or_else (sr_canonical r) ''null'')
         (''Securly reports '' @ canonical @ '' blocked'' @ (if truthy rule then '' (rule '' @ the rule @ '')'' else []) @
          ''. Auto-rotate created the DNS record for '' @ or_else (sr_canonical r) ''null'' @ '' (same target: '' @ dr_content (sr_record r) @ '')'' @
          (if ti_managed (sr_tunnel r) then '', ensured the tunnel route'' else []) @
          '', and verified DNS. Old URLs redirect to the new domain automatically.'') 7) (\<lambda>_.
     ret ((ended Rotated (Some canonical))\<lparr>ro_to := Some (or_else (sr_canonical r) candidate), ro_rule := rule\<rparr>))))))"

definition rotate_from ::
  "('w, 'b) rotate_api_scheme \<Rightarrow> int \<Rightarrow> string \<Rightarrow> string \<Rightarrow> string option \<Rightarrow> dns_record list \<Rightarrow> ('w dom_site, rotate_result) comp" where
  "rotate_from rx cooldown canonical candidate rule records = (case record_named canonical records of
       None \<Rightarrow> nothing_to_copy rx canonical
     | Some current \<Rightarrow>
         bind (perform_domain_switch rx \<lparr>sb_name = candidate, sb_target = Some (dr_content current),
           sb_type = Some (if dr_type current \<in> {''A'', ''AAAA'', ''CNAME''} then dr_type current else ''A''),
           sb_copy = None, sb_proxied = Some (dr_proxied current), sb_service = None\<rparr>) (\<lambda>r.
         if \<not> sr_flipped r then waiting_for_dns rx cooldown canonical r
         else rotation_done rx cooldown canonical candidate rule r))"

definition rotate_to ::
  "('w, 'b) rotate_api_scheme \<Rightarrow> int \<Rightarrow> string \<Rightarrow> string \<Rightarrow> string option \<Rightarrow> ('w dom_site, rotate_result) comp" where
  "rotate_to rx cooldown canonical candidate rule =
     bind (get_cloudflare_config rx) (\<lambda>cf.
     if \<not> truthy (cc_zone cf) then throw no_zone else
     bind (get_cloudflare_client rx) (\<lambda>token.
     bind (cf_request (rx_zone rx token (the (cc_zone cf)))) (\<lambda>z.
     bind (lift_res (not_null z)) (\<lambda>zone.
     bind (list_dns_records rx token (cz_id zone)) (rotate_from rx cooldown canonical candidate rule)))))"

definition search_and_rotate ::
  "('w, 'b) rotate_api_scheme \<Rightarrow> int \<Rightarrow> string \<Rightarrow> string list \<Rightarrow> string \<Rightarrow> string option \<Rightarrow> ('w dom_site, rotate_result) comp" where
  "search_and_rotate rx cooldown canonical aliases email rule =
     bind (find_candidate rx canonical email AUTO_ROTATE_MAX_CANDIDATES (dedup (canonical # aliases))) (\<lambda>f.
     case fst f of
       None \<Rightarrow> no_candidate rx canonical (snd f)
     | Some candidate \<Rightarrow> rotate_to rx cooldown canonical candidate rule)"

definition rotate_blocked ::
  "('w, 'b) rotate_api_scheme \<Rightarrow> int \<Rightarrow> int \<Rightarrow> string \<Rightarrow> string list \<Rightarrow> string \<Rightarrow> string option \<Rightarrow> ('w dom_site, rotate_result) comp" where
  "rotate_blocked rx cooldown cap canonical aliases email rule =
     bind (redis_get rx (count_key rx)) (\<lambda>n.
     let d = js_number (or_else n ''0'') in
     if reached d cap then capped_pass rx cap canonical rule d
     else search_and_rotate rx cooldown canonical aliases email rule)"

definition rotate_checked ::
  "('w, 'b) rotate_api_scheme \<Rightarrow> int \<Rightarrow> int \<Rightarrow> string \<Rightarrow> string list \<Rightarrow> string \<Rightarrow> ('w dom_site, rotate_result) comp" where
  "rotate_checked rx cooldown cap canonical aliases email =
     bind (redis_get rx COOLDOWN_KEY) (\<lambda>cold.
     if truthy cold then ret (ended Cooldown (Some canonical)) else
     bind (check_securly_block rx canonical email) (\<lambda>v.
     case fk_status v of
       Clean \<Rightarrow> ret (ended Clean_now (Some canonical))
     | Unknown \<Rightarrow> ret ((ended Unknown_now (Some canonical))\<lparr>ro_detail := Some (fk_detail v)\<rparr>)
     | Blocked \<Rightarrow> rotate_blocked rx cooldown cap canonical aliases email (fk_rule v)))"

definition rotate_configured ::
  "('w, 'b) rotate_api_scheme \<Rightarrow> int \<Rightarrow> int \<Rightarrow> domain_config \<Rightarrow> ('w dom_site, rotate_result) comp" where
  "rotate_configured rx cooldown cap c =
     (if \<not> truthy (dc_canonical c) then ret (ended No_canonical None) else
      bind (get_securly_config rx) (\<lambda>e.
      if \<not> truthy e then ret (ended No_useremail None)
      else rotate_checked rx cooldown cap (the (dc_canonical c)) (dc_aliases c) (the e)))"

definition rotate_pass_body :: "('w, 'b) rotate_api_scheme \<Rightarrow> int \<Rightarrow> int \<Rightarrow> ('w dom_site, rotate_result) comp" where
  "rotate_pass_body rx cooldown cap =
     bind (dom_get rx AUTO_ROTATE_ENABLED_KEY) (\<lambda>enabled.
     if enabled \<noteq> Some ''true'' then ret (ended Disabled None) else
     bind (get_domain_config rx) (\<lambda>c. rotate_configured rx cooldown cap (fst c)))"

definition pass_failed :: "('w, 'b) rotate_api_scheme \<Rightarrow> app_error \<Rightarrow> ('w dom_site, rotate_result) comp" where
  "pass_failed rx e =
     bind (safe_audit rx [(''autoRotate'', JStr ''failed''), (''error'', JStr (take 300 (err_message e)))]) (\<lambda>_.
     bind (rotate_alert rx ''Domain auto-rotate failed''
       (take 300 (err_message e) @ '' Nothing was switched; the next attempt is after a cooldown.'') 7) (\<lambda>_.
     bind (redis_set rx COOLDOWN_KEY ''1'' FAILURE_COOLDOWN_S) (\<lambda>_.
     ret ((ended Failed None)\<lparr>ro_detail := Some (take 300 (err_message e))\<rparr>))))"

definition run_filter_rotate_pass :: "('w, 'b) rotate_api_scheme \<Rightarrow> int \<Rightarrow> int \<Rightarrow> ('w dom_site, rotate_result) comp" where
  "run_filter_rotate_pass rx cooldown cap = try_catch (rotate_pass_body rx cooldown cap) (pass_failed rx)"

end
