(* ===== verification/Numbers.thy ===== *)
theory Numbers
  imports Strings
begin

text \<open>
  Printed numbers: the digits of a printed number read back as the number, and so does
  \<open>Number(String(n))\<close>.
\<close>

lemma digits_val_snoc [simp]: "digits_val (s @ [c]) = 10 * digits_val s + digit_val c"
  by (simp add: digits_val_def)

lemma digits_val_Nil [simp]: "digits_val [] = 0"
  by (simp add: digits_val_def)

lemma printed_digit:
  assumes "k < 10"
  shows "is_digit (char_of (48 + k))" "digit_val (char_of (48 + k)) = k"
  using assms by (simp_all add: is_digit_def digit_val_def)

lemma digits_val_single [simp]: "digits_val [c] = digit_val c"
  by (simp add: digits_val_def)

lemma nat_str_fuel_val: "n < f \<Longrightarrow> digits_val (nat_str_fuel f n) = n"
proof (induction f n rule: nat_str_fuel.induct)
  case (2 f n)
  show ?case
  proof (cases "n < 10")
    case True
    then show ?thesis by (simp add: printed_digit)
  next
    case False
    then have "n div 10 < f" using 2(2) by simp
    moreover have "digit_val (char_of (48 + n mod 10)) = n mod 10" by (rule printed_digit) simp
    ultimately show ?thesis using 2(1) False by simp
  qed
qed simp

lemma nat_str_val [simp]: "digits_val (nat_str n) = n"
  unfolding nat_str_def by (rule nat_str_fuel_val) simp

lemma nat_str_fuel_all: "list_all is_digit (nat_str_fuel f n)"
proof (induction f n rule: nat_str_fuel.induct)
  case (2 f n)
  have "is_digit (char_of (48 + n mod 10))" by (rule printed_digit) simp
  with 2 printed_digit(1) [of n] show ?case by auto
qed simp

lemma nat_str_all: "list_all is_digit (nat_str n)"
  unfolding nat_str_def by (rule nat_str_fuel_all)

lemma nat_str_not_Nil [simp]: "nat_str n \<noteq> []"
  by (simp add: nat_str_def)

lemma nat_str_inject [simp]: "nat_str m = nat_str n \<longleftrightarrow> m = n"
  using nat_str_val by metis

lemma int_str_nat: "int_str (int n) = nat_str n"
  by (simp add: int_str_def)

lemma digit_not: "is_digit c \<Longrightarrow> \<not> is_space c \<and> c \<notin> {CHR ''-'', CHR ''+'', CHR ''.'', CHR ''e'', CHR ''E''}"
  by (auto simp: is_digit_def is_space_def)

lemma digits_trim:
  assumes "list_all is_digit s" shows "trim s = s"
proof -
  have d: "dropWhile is_space x = x" if "list_all is_digit x" for x
    using that digit_not by (cases x) auto
  show ?thesis using d [of s] d [of "rev s"] assms by (simp add: trim_def)
qed

lemma digits_no_radix:
  assumes "list_all is_digit s" "p \<in> {''0x'', ''0o'', ''0b''}" shows "\<not> starts_with (to_lower s) p"
proof
  assume st: "starts_with (to_lower s) p"
  then have "length p \<le> length s" using starts_with_iff [of "to_lower s" p] by (auto simp: to_lower_def dest: arg_cong [where f = length])
  then obtain a b t where s: "s = a # b # t" using assms(2) by (cases s; cases "tl s") auto
  have b: "to_lower [b] = [b]" using assms(1) s by (auto simp: is_digit_def to_lower_def)
  have "to_lower s ! 1 = b" using b s by (simp add: to_lower_def)
  moreover have "to_lower s ! 1 = p ! 1"
    using st assms(2) by (auto simp: starts_with_iff)
  ultimately have "is_digit (p ! 1)" using assms(1) s by simp
  moreover have "\<forall>p \<in> {''0x'', ''0o'', ''0b''}. \<not> is_digit (p ! 1)" by code_simp
  ultimately show False using assms(2) by blast
qed

lemma takeWhile_digits: "list_all is_digit s \<Longrightarrow> takeWhile is_digit s = s \<and> dropWhile is_digit s = []"
  by (induction s) auto

lemma digits_signed: "list_all is_digit s \<Longrightarrow> signed s = (False, s)"
  by (cases s) (auto simp: signed_def dest: digit_not)

lemma js_number_digits:
  assumes "list_all is_digit s" "s \<noteq> []" "int (digits_val s) < 2 ^ 1024"
  shows "js_number s = JNum (int (digits_val s))"
proof -
  have n: "\<not> starts_with (to_lower s) ''0x''" "\<not> starts_with (to_lower s) ''0o''" "\<not> starts_with (to_lower s) ''0b''"
    using digits_no_radix [OF assms(1)] by blast+
  have sc: "scaled False (int (digits_val s)) 0 = JNum (int (digits_val s))"
    using assms(3) by (simp add: scaled_def del: power_numeral)
  have "decimal_number s = JNum (int (digits_val s))"
    using assms(2) sc unfolding decimal_number_def digits_signed [OF assms(1)] Let_def prod.case
      takeWhile_digits [OF assms(1), THEN conjunct1] takeWhile_digits [OF assms(1), THEN conjunct2] by simp
  then show ?thesis using n assms(2) by (simp add: js_number_def digits_trim [OF assms(1)])
qed

lemma js_number_nat_str: "int n < 2 ^ 1024 \<Longrightarrow> js_number (nat_str n) = JNum (int n)"
  using js_number_digits [OF nat_str_all nat_str_not_Nil, of n] by (simp del: power_numeral)

end
