(* ===== verification/Rotate_Props.thy ===== *)
theory Rotate_Props
  imports Rotate Numbers Domains_Props
begin

text \<open>
  What the switch and the rotator promise: the edit of a tunnel's rules, the next free numbered
  name, and where the numbering of names gets stuck.
\<close>

subsection \<open>Ingress rules\<close>

lemma lower_lower [simp]: "to_lower (to_lower s) = to_lower s"
  by (auto simp: to_lower_def)

lemma find_set_first:
  "find (\<lambda>r. rule_host r = k) (set_first_service h sv rs) =
     (if k = h then map_option (\<lambda>r. r\<lparr>tr_service := sv\<rparr>) (find (\<lambda>r. rule_host r = h) rs) else find (\<lambda>r. rule_host r = k) rs)"
  by (induction rs) (auto simp: rule_host_def)

lemma find_before_catch_all:
  "find (\<lambda>r. rule_host r = h) rs = None \<Longrightarrow> rule_host n = h \<Longrightarrow>
   find (\<lambda>r. rule_host r = k) (before_catch_all n rs) = (if k = h then Some n else find (\<lambda>r. rule_host r = k) rs)"
  by (induction rs) (auto split: if_splits)

definition named :: "tunnel_rule \<Rightarrow> bool" where
  "named r \<longleftrightarrow> truthy (tr_host r)"

lemma set_first_service_last:
  "h \<noteq> [] \<Longrightarrow> list_all named rs \<Longrightarrow> \<not> named c \<Longrightarrow> \<exists>rs'. set_first_service h sv (rs @ [c]) = rs' @ [c] \<and> list_all named rs'"
proof (induction rs)
  case Nil
  then have "rule_host c \<noteq> h" by (cases "tr_host c") (auto simp: named_def truthy_def rule_host_def to_lower_def)
  then show ?case by simp
next
  case (Cons r rs)
  then obtain rs' where "set_first_service h sv (rs @ [c]) = rs' @ [c]" "list_all named rs'" by auto
  moreover have "named (r\<lparr>tr_service := sv\<rparr>) \<longleftrightarrow> named r" by (simp add: named_def)
  ultimately show ?case using Cons.prems by (cases "rule_host r = h") auto
qed

lemma before_catch_all_last:
  "list_all named rs \<Longrightarrow> \<not> named c \<Longrightarrow> before_catch_all n (rs @ [c]) = (rs @ [n]) @ [c]"
  by (induction rs) (auto simp: named_def)

text \<open>Editing a tunnel's rules. After the edit the host is routed to the service, every other host
  is routed as before, the rule without a host name that Cloudflare wants last stays last, and
  doing it again changes nothing.\<close>

theorem ingress_edit_exact:
  assumes "to_lower (trim h) \<noteq> []" and edited: "edited = fst (ensure_tunnel_ingress_rule rules h sv)"
  shows "tunnel_service_for edited h = Some sv
    \<and> (\<forall>k. to_lower (trim k) \<noteq> to_lower (trim h) \<longrightarrow> tunnel_service_for edited k = tunnel_service_for rules k)
    \<and> ensure_tunnel_ingress_rule edited h sv = (edited, False, Some sv)
    \<and> (\<forall>rs c. rules = rs @ [c] \<and> list_all named rs \<and> \<not> named c \<longrightarrow> (\<exists>rs'. edited = rs' @ [c] \<and> list_all named rs'))"
proof -
  let ?h = "to_lower (trim h)"
  let ?n = "\<lparr>tr_host = Some ?h, tr_service = sv, tr_rest = []\<rparr>"
  have n: "rule_host ?n = ?h" by (simp add: rule_host_def)
  have "\<exists>r. find (\<lambda>r. rule_host r = ?h) edited = Some r \<and> tr_service r = sv"
    and other: "k \<noteq> ?h \<Longrightarrow> map_option tr_service (find (\<lambda>r. rule_host r = k) edited)
      = map_option tr_service (find (\<lambda>r. rule_host r = k) rules)" for k
    using n by (auto simp: edited ensure_tunnel_ingress_rule_def Let_def find_set_first find_before_catch_all
        split: option.splits)
  then have here: "tunnel_service_for edited h = Some sv" "ensure_tunnel_ingress_rule edited h sv = (edited, False, Some sv)"
    by (auto simp: tunnel_service_for_def ensure_tunnel_ingress_rule_def)
  have "\<exists>rs'. edited = rs' @ [c] \<and> list_all named rs'" if "rules = rs @ [c]" "list_all named rs" "\<not> named c" for rs c
    using that set_first_service_last [OF assms(1) that(2,3), of sv] before_catch_all_last [OF that(2,3), of ?n] assms(1)
    by (auto simp: edited ensure_tunnel_ingress_rule_def Let_def named_def truthy_def split: option.splits)
  with here other show ?thesis by (auto simp: tunnel_service_for_def)
qed

definition demo_rules :: "tunnel_rule list" where
  "demo_rules = [\<lparr>tr_host = Some ''vm.example.com'', tr_service = ''http://localhost:8080'', tr_rest = []\<rparr>,
     \<lparr>tr_host = None, tr_service = ''http_status:404'', tr_rest = []\<rparr>]"

lemma ingress_edit_exact_witness:
  "tunnel_service_for (fst (ensure_tunnel_ingress_rule demo_rules ''VM2.example.com'' ''http://localhost:8080'')) ''vm2.example.com''
     = Some ''http://localhost:8080''
   \<and> tunnel_service_for (fst (ensure_tunnel_ingress_rule demo_rules ''VM2.example.com'' ''http://localhost:8080'')) ''vm.example.com''
     = Some ''http://localhost:8080''"
proof -
  have "to_lower (trim ''VM2.example.com'') \<noteq> []" by code_simp
  note e = ingress_edit_exact [OF this refl, of demo_rules "''http://localhost:8080''"]
  have "to_lower (trim ''vm.example.com'') \<noteq> to_lower (trim ''VM2.example.com'')"
    "to_lower (trim ''vm2.example.com'') = to_lower (trim ''VM2.example.com'')"
    "tunnel_service_for demo_rules ''vm.example.com'' = Some ''http://localhost:8080''" by code_simp+
  with e show ?thesis by (metis tunnel_service_for_def)
qed

subsection \<open>Numbered names\<close>

definition numbered :: "string \<Rightarrow> int \<Rightarrow> string" where
  "numbered h n = label_head (first_label h) @ int_str n @ after_label h"

definition start_number :: "string \<Rightarrow> int" where
  "start_number h = (if digit_tail (first_label h) = [] then 1 else int (digits_val (digit_tail (first_label h))))"

lemma label_split: "label_head l @ digit_tail l = l"
  unfolding label_head_def digit_tail_def rev_append [symmetric] by simp

lemma head_tail_plain: "list_all is_digit ds \<Longrightarrow> digit_tail (label_head l @ ds) = ds \<and> label_head (label_head l @ ds) = label_head l"
proof -
  assume d: "list_all is_digit ds"
  have h: "takeWhile is_digit (dropWhile is_digit x) = [] \<and> dropWhile is_digit (dropWhile is_digit x) = dropWhile is_digit x" for x
    by (induction x) auto
  from d have "takeWhile is_digit (rev ds @ dropWhile is_digit (rev l)) = rev ds"
    "dropWhile is_digit (rev ds @ dropWhile is_digit (rev l)) = dropWhile is_digit (rev l)"
    using h [of "rev l"] by (subst takeWhile_append2 dropWhile_append2; simp add: list_all_iff)+
  then show ?thesis by (simp add: label_head_def digit_tail_def)
qed

lemma label_no_dot: "CHR ''.'' \<notin> set (label_head (first_label h))"
  using label_split [of "first_label h"] set_takeWhileD [of "CHR ''.''" "\<lambda>c. c \<noteq> CHR ''.''" h]
  by (metis Un_iff first_label_def set_append)

lemma int_str_all: "0 \<le> n \<Longrightarrow> list_all is_digit (int_str n) \<and> int_str n \<noteq> []"
  using nat_str_all by (simp add: int_str_def)

lemma int_str_val: "0 \<le> n \<Longrightarrow> int (digits_val (int_str n)) = n"
  by (simp add: int_str_def)

lemma int_str_eq_iff: "0 \<le> m \<Longrightarrow> 0 \<le> n \<Longrightarrow> int_str m = int_str n \<longleftrightarrow> m = n"
  using int_str_val by metis

lemma numbered_parts:
  assumes "0 \<le> n"
  shows "first_label (numbered h n) = label_head (first_label h) @ int_str n" "after_label (numbered h n) = after_label h"
proof -
  have "\<not> is_digit CHR ''.''" by code_simp
  then have d: "CHR ''.'' \<notin> set (label_head (first_label h) @ int_str n)"
    using label_no_dot int_str_all [OF assms] by (auto simp: list_all_iff)
  have a: "takeWhile (\<lambda>c. c \<noteq> CHR ''.'') (after_label h) = [] \<and> dropWhile (\<lambda>c. c \<noteq> CHR ''.'') (after_label h) = after_label h"
    unfolding after_label_def by (induction h) auto
  have n: "numbered h n = (label_head (first_label h) @ int_str n) @ after_label h" by (simp add: numbered_def)
  have "takeWhile (\<lambda>c. c \<noteq> CHR ''.'') ((label_head (first_label h) @ int_str n) @ after_label h)
      = (label_head (first_label h) @ int_str n) @ takeWhile (\<lambda>c. c \<noteq> CHR ''.'') (after_label h)"
    using d by (intro takeWhile_append2) auto
  then show "first_label (numbered h n) = label_head (first_label h) @ int_str n"
    unfolding n first_label_def [of "_ @ _"] using a by simp
  have "dropWhile (\<lambda>c. c \<noteq> CHR ''.'') ((label_head (first_label h) @ int_str n) @ after_label h)
      = dropWhile (\<lambda>c. c \<noteq> CHR ''.'') (after_label h)"
    using d by (intro dropWhile_append2) auto
  then show "after_label (numbered h n) = after_label h"
    unfolding n after_label_def [of "_ @ _"] using a by simp
qed

lemma to_double_small: "n < 2 ^ 53 \<Longrightarrow> to_double n = n"
  by (simp add: to_double_def)

lemma bump_start: "start_number h + 1 < 2 ^ 53 \<Longrightarrow> bump_hostname h = numbered h (start_number h + 1)"
proof (cases "digit_tail (first_label h) = []")
  case True
  have "int_str 2 = ''2''" by code_simp
  then show ?thesis using True label_split [of "first_label h"] by (simp add: bump_hostname_def numbered_def start_number_def)
qed (simp add: bump_hostname_def numbered_def start_number_def to_double_small js_int_text_def Let_def)

lemma bump_numbered:
  assumes "0 \<le> n" "n + 1 < 2 ^ 53" shows "bump_hostname (numbered h n) = numbered h (n + 1)"
proof -
  note p = numbered_parts [OF assms(1), of h]
  have t: "digit_tail (first_label (numbered h n)) = int_str n" "label_head (first_label (numbered h n)) = label_head (first_label h)"
    using head_tail_plain [of "int_str n"] int_str_all [OF assms(1)] by (simp_all add: p(1))
  have "start_number (numbered h n) = n" using int_str_all [OF assms(1)] int_str_val [OF assms(1)] by (simp add: start_number_def t)
  then have "bump_hostname (numbered h n) = numbered (numbered h n) (n + 1)"
    using bump_start [of "numbered h n"] assms(2) by simp
  then show ?thesis by (simp add: numbered_def [of "numbered h n"] numbered_def [of h "n + 1"] t(2) p(2))
qed

lemma next_unused_from:
  assumes "0 \<le> n" "n + int m < 2 ^ 53"
  shows "next_unused skipped m (numbered h n) = find (\<lambda>x. x \<notin> skipped) (map (\<lambda>k. numbered h (n + 1 + int k)) [0..<m])"
  using assms
proof (induction m arbitrary: n)
  case (Suc m)
  have "next_unused skipped m (numbered h (n + 1)) = find (\<lambda>x. x \<notin> skipped) (map (\<lambda>k. numbered h (n + 1 + 1 + int k)) [0..<m])"
    using Suc.prems by (intro Suc.IH) simp_all
  then show ?case
    using Suc.prems by (simp add: bump_numbered Let_def upt_conv_Cons map_Suc_upt [symmetric] o_def add.assoc del: upt_Suc)
qed simp

lemma next_unused_start:
  assumes "start_number h + int m < 2 ^ 53"
  shows "next_unused skipped m h = find (\<lambda>x. x \<notin> skipped) (map (\<lambda>k. numbered h (start_number h + 1 + int k)) [0..<m])"
proof (cases m)
  case (Suc k)
  have s: "0 \<le> start_number h" by (simp add: start_number_def)
  have b: "bump_hostname h = numbered h (start_number h + 1)" using assms Suc by (intro bump_start) simp
  have "next_unused skipped k (numbered h (start_number h + 1))
      = find (\<lambda>x. x \<notin> skipped) (map (\<lambda>j. numbered h (start_number h + 1 + 1 + int j)) [0..<k])"
    using s assms Suc by (intro next_unused_from) simp_all
  then show ?thesis
    by (simp add: Suc b Let_def upt_conv_Cons map_Suc_upt [symmetric] o_def add.assoc del: upt_Suc)
qed simp

lemma numbered_inj: "0 \<le> m \<Longrightarrow> 0 \<le> n \<Longrightarrow> numbered h m = numbered h n \<longleftrightarrow> m = n"
  by (simp add: numbered_def int_str_eq_iff)

definition taken :: "string list \<Rightarrow> string set" where
  "taken used = set (filter (\<lambda>h. h \<noteq> []) (map normalize_hostname used))"

text \<open>C40. The next free name. While the number stays exact in a double, the candidate is the first of the
  names with the next numbers that is neither the canonical host, an alias nor probed already; and
  with more attempts than names in use there always is one.\<close>

theorem next_name_is_first_free:
  assumes "normalize_hostname canonical \<noteq> []" "start_number (normalize_hostname canonical) + int attempts < 2 ^ 53"
  shows "next_rotated_hostname canonical used attempts = find (\<lambda>x. x \<notin> taken used)
      (map (\<lambda>k. numbered (normalize_hostname canonical) (start_number (normalize_hostname canonical) + 1 + int k)) [0..<attempts])
    \<and> (length used < attempts \<longrightarrow> next_rotated_hostname canonical used attempts \<noteq> None)"
proof -
  let ?h = "normalize_hostname canonical"
  let ?names = "map (\<lambda>k. numbered ?h (start_number ?h + 1 + int k)) [0..<attempts]"
  have eq: "next_rotated_hostname canonical used attempts = find (\<lambda>x. x \<notin> taken used) ?names"
    using assms next_unused_start [OF assms(2)] by (simp add: next_rotated_hostname_def Let_def taken_def)
  have "0 \<le> start_number ?h" by (simp add: start_number_def)
  then have "distinct ?names" by (auto simp: distinct_map inj_on_def numbered_inj)
  then have "card (set ?names) = length ?names" by (rule distinct_card)
  then have "card (set ?names) = attempts" unfolding length_map length_upt by simp
  moreover have "card (taken used) \<le> length used"
    unfolding taken_def by (rule order_trans [OF card_length]) (rule order_trans [OF length_filter_le], simp)
  ultimately have "\<not> set ?names \<subseteq> taken used" if "length used < attempts"
    using that card_mono [of "taken used" "set ?names"] by (auto simp: taken_def)
  then show ?thesis using eq by (auto simp: find_None_iff)
qed

lemma next_name_is_first_free_witness:
  "next_rotated_hostname ''vm9.example.com'' [''vm9.example.com'', ''vm10.example.com''] 3
     = find (\<lambda>x. x \<notin> taken [''vm9.example.com'', ''vm10.example.com''])
         (map (\<lambda>k. numbered ''vm9.example.com'' (9 + 1 + int k)) [0..<3])
   \<and> next_rotated_hostname ''vm9.example.com'' [''vm9.example.com'', ''vm10.example.com''] 3 \<noteq> None"
proof -
  have n: "normalize_hostname ''vm9.example.com'' = ''vm9.example.com''" "start_number ''vm9.example.com'' = 9" by code_simp+
  have "normalize_hostname ''vm9.example.com'' \<noteq> []" "start_number (normalize_hostname ''vm9.example.com'') + int 3 < 2 ^ 53"
    unfolding n by simp_all
  note t = next_name_is_first_free [OF this, of "[''vm9.example.com'', ''vm10.example.com'']", unfolded n]
  show ?thesis by (rule conjI [OF t [THEN conjunct1] t [THEN conjunct2, THEN mp]]) simp
qed

text \<open>
  Where the number is no longer exact the rotation is stuck: \<open>2 ^ 53\<close> plus one is \<open>2 ^ 53\<close> again,
  and from \<open>1e21\<close> on the printed number is not part of a host name any more.
\<close>

lemma stuck_number: "bump_hostname ''vm9007199254740992.example.com'' = ''vm9007199254740992.example.com''"
proof -
  have l: "first_label ''vm9007199254740992.example.com'' = ''vm9007199254740992''" "after_label ''vm9007199254740992.example.com'' = ''.example.com''"
    "digit_tail ''vm9007199254740992'' = ''9007199254740992''" "label_head ''vm9007199254740992'' = ''vm''" by code_simp+
  have v: "digits_val ''9007199254740992'' = 9007199254740992" by (simp add: digits_val_def digit_val_def)
  have "js_int_text (to_double (to_double 9007199254740992 + 1)) = ''9007199254740992''" by code_simp
  then show ?thesis by (simp add: bump_hostname_def l v Let_def)
qed

lemma exponent_in_name: "js_int_text (to_double (to_double 999999999999999999999 + 1)) = ''1e+21'' \<and> \<not> valid_host ''vm1e+21.example.com''"
  by code_simp

end
