(* ===== verification/Rotate_Gates.thy ===== *)
theory Rotate_Gates
  imports Rotate_Props
begin

text \<open>
  The pass of the rotator: what its searches and switches leave alone, and that a rotation needs
  the refusal of the current host and the approval of the new one.
\<close>

subsection \<open>What a computation leaves alone\<close>

named_theorems stays \<open>computations that leave a part of the state alone\<close>

definition kept :: "('s \<Rightarrow> 'x) \<Rightarrow> ('s, 'a) comp \<Rightarrow> bool" where
  "kept f m \<longleftrightarrow> (\<forall>s. f (snd (m s)) = f s)"

lemma keptD: "kept f m \<Longrightarrow> m s = (r, t) \<Longrightarrow> f t = f s"
  by (metis kept_def snd_conv)

lemma kept_basic [stays]: "kept f (ret x)" "kept f (throw e)" "kept f (gets g)" "kept f (lift_res r)"
  by (simp_all add: kept_def comp_defs)

lemma kept_bind [stays]: "kept f m \<Longrightarrow> (\<And>x. kept f (g x)) \<Longrightarrow> kept f (bind m g)"
  by (simp add: kept_def bind_def split: prod.splits sum.splits) (metis snd_conv)

lemma kept_try [stays]: "kept f m \<Longrightarrow> (\<And>e. kept f (h e)) \<Longrightarrow> kept f (try_catch m h)"
  by (simp add: kept_def try_catch_def split: prod.splits sum.splits) (metis snd_conv)

lemma kept_if [stays]: "(b \<Longrightarrow> kept f m) \<Longrightarrow> (\<not> b \<Longrightarrow> kept f n) \<Longrightarrow> kept f (if b then m else n)"
  by simp

lemma kept_when [stays]: "kept f m \<Longrightarrow> kept f (do_when b m)"
  by (simp add: do_when_def stays)

lemma kept_settled [stays]: "kept f m \<Longrightarrow> kept f (settled m)"
  by (simp add: kept_def settled_def split: prod.splits) (metis snd_conv)

lemma kept_case_option [stays]: "kept f m \<Longrightarrow> (\<And>y. kept f (g y)) \<Longrightarrow> kept f (case x of None \<Rightarrow> m | Some y \<Rightarrow> g y)"
  by (cases x) auto

lemma kept_case_sum [stays]: "(\<And>e. kept f (g e)) \<Longrightarrow> (\<And>y. kept f (h y)) \<Longrightarrow> kept f (case x of Inl e \<Rightarrow> g e | Inr y \<Rightarrow> h y)"
  by (cases x) auto

lemma kept_case_pair [stays]: "(\<And>a b. kept f (g a b)) \<Longrightarrow> kept f (case x of (a, b) \<Rightarrow> g a b)"
  by (cases x) auto

lemma kept_case_body [stays]:
  "kept f a \<Longrightarrow> kept f b \<Longrightarrow> (\<And>x y z. kept f (g x y z)) \<Longrightarrow> kept f (case r of NotJson \<Rightarrow> a | NullJson \<Rightarrow> b | Envelope x y z \<Rightarrow> g x y z)"
  by (cases r) auto

lemma kept_case_status [stays]:
  "kept f a \<Longrightarrow> kept f b \<Longrightarrow> kept f c \<Longrightarrow> kept f (case v of Blocked \<Rightarrow> a | Clean \<Rightarrow> b | Unknown \<Rightarrow> c)"
  by (cases v) auto

text \<open>The two parts that matter here do not depend on the world, the audit trail or the bell.\<close>

definition calm :: "('w dom_site \<Rightarrow> 'x) \<Rightarrow> bool" where
  "calm f \<longleftrightarrow> (\<forall>s w b a. f (s\<lparr>dm_world := w\<rparr>) = f s \<and> f (s\<lparr>dm_bell := b\<rparr>) = f s \<and> f (s\<lparr>dm_audit := a\<rparr>) = f s)"

lemma calm_halves: "calm dm_rows" "calm dm_redis"
  by (simp_all add: calm_def)

lemma kept_dom_out [stays]: "calm f \<Longrightarrow> kept f (dom_out m)"
  by (simp add: kept_def calm_def dom_out_def split: prod.splits)

lemma kept_reads [stays]: "kept f (dom_get dx k)" "kept f (redis_get rx k)"
  by (simp_all add: kept_def dom_get_def redis_get_def)

lemma kept_alert [stays]: "calm f \<Longrightarrow> kept f (rotate_alert rx title body p)"
  by (auto simp: kept_def calm_def rotate_alert_def split: prod.splits)

lemma kept_audit [stays]: "calm f \<Longrightarrow> kept f (safe_audit rx detail)"
  by (simp add: kept_def calm_def safe_audit_def modify_def)

lemma kept_configs [stays]: "kept f (get_domain_config dx)" "kept f (get_cloudflare_config dx)"
  unfolding get_domain_config_def get_cloudflare_config_def Let_def by (intro stays)+

lemma kept_clients [stays]: "kept f (get_securly_config rx)" "kept f (get_cloudflare_client rx)"
  unfolding get_securly_config_def get_cloudflare_client_def Let_def by (intro stays)+

lemma kept_cf_request [stays]: "calm f \<Longrightarrow> kept f (cf_request m)"
  unfolding cf_request_def by (intro stays)

lemma kept_lists [stays]:
  "calm f \<Longrightarrow> kept f (list_dns_records rx token zone)" "calm f \<Longrightarrow> kept f (get_tunnel_ingress rx token account tunnel)"
  unfolding list_dns_records_def get_tunnel_ingress_def by (intro stays; assumption)+

lemma kept_check [stays]: "calm f \<Longrightarrow> kept f (check_securly_block rx h email)"
  unfolding check_securly_block_def Let_def by (intro stays)

lemma kept_find_candidate [stays]: "calm f \<Longrightarrow> kept f (find_candidate rx canonical email n probed)"
  by (induction n arbitrary: probed) (auto intro!: stays)

lemma kept_write_record [stays]: "calm f \<Longrightarrow> kept f (write_record rx token zone fqdn type target proxied template records)"
  unfolding write_record_def by (intro stays)

lemma kept_route_tunnel [stays]: "calm f \<Longrightarrow> kept f (route_tunnel rx token fqdn service canonical)"
  unfolding route_tunnel_def Let_def by (intro stays)

lemma kept_dom_set [stays]: "kept dm_redis (dom_set dx k v e cat)"
  by (simp add: kept_def dom_set_def)

lemma redis_in_canonical [stays]: "kept dm_redis (set_canonical_domain dx raw)"
  unfolding set_canonical_domain_def Let_def by (intro stays)

lemma redis_in_flip [stays]: "kept dm_redis (flip_canonical rx fqdn answer tunnel config)"
  unfolding flip_canonical_def Let_def by (intro stays calm_halves)

lemma redis_in_switch [stays]: "kept dm_redis (perform_domain_switch rx body)"
  unfolding perform_domain_switch_def switch_in_zone_def publish_def Let_def by (intro stays calm_halves)

lemma kept_redis_write [stays]: "kept dm_rows (redis_write rx command k f)"
  by (simp add: kept_def redis_write_def)

lemma rows_in_endings [stays]:
  "kept dm_rows (redis_set rx k v ttl)" "kept dm_rows (redis_incr rx k)" "kept dm_rows (redis_expire rx k ttl)"
  "kept dm_rows (capped_pass rx cap canonical rule d)" "kept dm_rows (no_candidate rx canonical dirty)"
  "kept dm_rows (nothing_to_copy rx canonical)" "kept dm_rows (waiting_for_dns rx cooldown canonical r)"
  "kept dm_rows (rotation_done rx cooldown canonical candidate rule r)" "kept dm_rows (pass_failed rx e)"
  unfolding redis_set_def redis_incr_def redis_expire_def capped_pass_def no_candidate_def nothing_to_copy_def
    waiting_for_dns_def rotation_done_def pass_failed_def Let_def
  by (intro stays calm_halves)+

subsection \<open>Endings never throw\<close>

lemma never_throws:
  "\<exists>t. safe_audit rx detail s = (Inr (), t)" "\<exists>t. rotate_alert rx title body p s = (Inr (), t)"
  "\<exists>t. redis_set rx k v ttl s = (Inr (), t)" "\<exists>t. redis_incr rx k s = (Inr (), t)" "\<exists>t. redis_expire rx k ttl s = (Inr (), t)"
  by (auto simp: safe_audit_def modify_def rotate_alert_def redis_set_def redis_incr_def redis_expire_def redis_write_def
      try_catch_def ret_def split: prod.splits)

lemma after_step: "\<exists>t. m s = (Inr (), t) \<Longrightarrow> (\<And>t. \<exists>u. n t = (Inr x, u)) \<Longrightarrow> \<exists>u. bind m (\<lambda>_. n) s = (Inr x, u)"
  by (auto simp: bind_def)

lemma ending_results:
  "\<exists>t. pass_failed rx e s = (Inr ((ended Failed None)\<lparr>ro_detail := Some (take 300 (err_message e))\<rparr>), t)"
  "\<exists>t. rotation_done rx cooldown canonical candidate rule r s
     = (Inr ((ended Rotated (Some canonical))\<lparr>ro_to := Some (or_else (sr_canonical r) candidate), ro_rule := rule\<rparr>), t)"
  "\<exists>t. waiting_for_dns rx cooldown canonical r s = (Inr ((ended Aborted (Some canonical))\<lparr>ro_detail := Some (ve_detail (sr_verification r))\<rparr>), t)"
  unfolding pass_failed_def rotation_done_def waiting_for_dns_def
  by (intro after_step never_throws; simp add: ret_def)+

subsection \<open>A switch, step by step\<close>

lemma through:
  assumes "bind m f s = (Inr y, s')" "kept g m"
  obtains x t where "m s = (Inr x, t)" "f x t = (Inr y, s')" "g t = g s"
proof -
  from assms(1) obtain x t where x: "m s = (Inr x, t)" "f x t = (Inr y, s')" by (auto simp: bind_Inr_iff)
  with keptD [OF assms(2)] have "g t = g s" by blast
  with x show thesis by (rule that)
qed

lemma throws_not: "throw e s = (Inr y, s') \<longleftrightarrow> False"
  by (simp add: throw_def)

lemma lift_Inr_iff: "lift_res r s = (Inr x, t) \<longleftrightarrow> r = Inr x \<and> t = s"
  by (auto simp: lift_res_def)

lemma config_of_rows: "dm_rows t = dm_rows s \<Longrightarrow> config_of dx t = config_of dx s"
  by (simp add: config_of_def get_domain_config_def dom_get_def bind_def ret_def split: sum.splits)

lemma publish_reaches_flip:
  assumes "publish rx token zone fqdn body records config s = (Inr r, s')"
  obtains answer tunnel u where "dm_rows u = dm_rows s" "flip_canonical rx fqdn answer tunnel config u = (Inr r, s')"
proof -
  note k = stays calm_halves(1)
  from assms obtain p where "bind (write_record rx token zone fqdn (fst (snd p)) (snd (snd p)) (sb_proxied body) (fst p) records)
      (\<lambda>answer. bind (route_tunnel rx token fqdn (sb_service body) (dc_canonical config)) (\<lambda>tunnel.
        flip_canonical rx fqdn answer tunnel config)) s = (Inr r, s')"
    unfolding publish_def by (auto simp: bind_Inr_iff [where m = "lift_res x" for x] lift_Inr_iff)
  then obtain answer t where t: "bind (route_tunnel rx token fqdn (sb_service body) (dc_canonical config)) (\<lambda>tunnel.
        flip_canonical rx fqdn answer tunnel config) t = (Inr r, s')" "dm_rows t = dm_rows s"
    by (rule through [where g = dm_rows], (intro k)[1], blast)
  from t(1) obtain tunnel u where "flip_canonical rx fqdn answer tunnel config u = (Inr r, s')" "dm_rows u = dm_rows t"
    by (rule through [where g = dm_rows], (intro k)[1], blast)
  with t(2) show thesis by (intro that) simp_all
qed

lemma zone_reaches_flip:
  assumes "switch_in_zone rx token body zone s = (Inr r, s')"
  obtains answer tunnel c z u where "valid_host (qualify_name (sb_name body) (cz_name zone))" "config_of rx s = Inr (c, z)"
    "dm_rows u = dm_rows s" "flip_canonical rx (qualify_name (sb_name body) (cz_name zone)) answer tunnel c u = (Inr r, s')"
proof -
  note k = stays calm_halves(1)
  let ?f = "qualify_name (sb_name body) (cz_name zone)"
  from assms have v: "valid_host ?f" and r: "bind (list_dns_records rx token (cz_id zone)) (\<lambda>records.
      bind (get_domain_config rx) (\<lambda>c. publish rx token (cz_id zone) ?f body records (fst c))) s = (Inr r, s')"
    unfolding switch_in_zone_def Let_def
    by (auto simp: bind_Inr_iff [where m = "lift_res x" for x] lift_Inr_iff valid_host_iff)
  from r obtain records t where t: "bind (get_domain_config rx) (\<lambda>c. publish rx token (cz_id zone) ?f body records (fst c)) t
      = (Inr r, s')" "dm_rows t = dm_rows s"
    by (rule through [where g = dm_rows], (intro k)[1], blast)
  then obtain c z where c: "config_of rx t = Inr (c, z)" and p: "publish rx token (cz_id zone) ?f body records c t = (Inr r, s')"
    by (auto simp: bind_Inr_iff get_domain_config_run)
  from p obtain answer tunnel u where "dm_rows u = dm_rows t" "flip_canonical rx ?f answer tunnel c u = (Inr r, s')"
    by (rule publish_reaches_flip)
  with v c t(2) show thesis using config_of_rows [of t s rx] by (intro that) simp_all
qed

lemma switch_reaches_flip:
  assumes "perform_domain_switch rx body s = (Inr r, s')"
  obtains zone :: cf_zone and answer tunnel c z u where "valid_host (qualify_name (sb_name body) (cz_name zone))" "config_of rx s = Inr (c, z)"
    "dm_rows u = dm_rows s" "flip_canonical rx (qualify_name (sb_name body) (cz_name zone)) answer tunnel c u = (Inr r, s')"
proof -
  note k = stays calm_halves(1)
  from assms [unfolded perform_domain_switch_def] obtain cf t1 where 0: "get_cloudflare_config rx s = (Inr cf, t1)" and r1: "(if \<not> truthy (cc_zone cf) then throw no_zone else
      bind (get_cloudflare_client rx) (\<lambda>token. bind (cf_request (rx_zone rx token (the (cc_zone cf)))) (\<lambda>z.
      bind (lift_res (not_null z)) (switch_in_zone rx token body)))) t1 = (Inr r, s')" and 1: "dm_rows t1 = dm_rows s"
    by (rule through [where g = dm_rows], (intro k)[1], blast)
  then have "bind (get_cloudflare_client rx) (\<lambda>token. bind (cf_request (rx_zone rx token (the (cc_zone cf)))) (\<lambda>z.
      bind (lift_res (not_null z)) (switch_in_zone rx token body))) t1 = (Inr r, s')"
    by (simp add: throws_not split: if_splits)
  then obtain token t2 where r2: "bind (cf_request (rx_zone rx token (the (cc_zone cf)))) (\<lambda>z.
      bind (lift_res (not_null z)) (switch_in_zone rx token body)) t2 = (Inr r, s')" and 2: "dm_rows t2 = dm_rows t1"
    by (rule through [where g = dm_rows], (intro k)[1], blast)
  from r2 obtain z t3 where r3: "bind (lift_res (not_null z)) (switch_in_zone rx token body) t3 = (Inr r, s')"
      and 3: "dm_rows t3 = dm_rows t2"
    by (rule through [where g = dm_rows], (intro k)[1], blast)
  from r3 obtain zone where "switch_in_zone rx token body zone t3 = (Inr r, s')"
    by (auto simp: bind_Inr_iff lift_Inr_iff)
  then obtain answer tunnel c z u where "valid_host (qualify_name (sb_name body) (cz_name zone))" "config_of rx t3 = Inr (c, z)"
    "dm_rows u = dm_rows t3" "flip_canonical rx (qualify_name (sb_name body) (cz_name zone)) answer tunnel c u = (Inr r, s')"
    by (rule zone_reaches_flip)
  with 1 2 3 show thesis using config_of_rows [of t3 s rx] by (intro that [of zone c z u answer tunnel]) simp_all
qed

lemma flip_result:
  assumes "flip_canonical rx fqdn answer tunnel config s = (Inr r, s')"
  shows "(\<not> sr_flipped r \<longrightarrow> dm_rows s' = dm_rows s) \<and>
     (sr_flipped r \<longrightarrow> (\<exists>v w u updated. dx_verify rx fqdn (dm_world s) = (Inr v, w) \<and> ve_dns v \<and> dm_rows u = dm_rows s
        \<and> set_canonical_domain rx fqdn u = (Inr updated, s') \<and> sr_canonical r = dc_canonical updated))"
proof -
  from assms obtain v t where v: "dom_out (dx_verify rx fqdn) s = (Inr v, t)" and rest: "(if \<not> ve_dns v
      then bind (lift_res (not_null answer)) (\<lambda>r. ret \<lparr>sr_flipped = False, sr_fqdn = fqdn, sr_record = r, sr_tunnel = tunnel,
            sr_verification = v, sr_canonical = dc_canonical config, sr_aliases = dc_aliases config,
            sr_abort = Some (abort_reason fqdn v)\<rparr>)
      else bind (set_canonical_domain rx fqdn) (\<lambda>updated.
          bind (lift_res (not_null answer)) (\<lambda>r. ret \<lparr>sr_flipped = True, sr_fqdn = fqdn, sr_record = r, sr_tunnel = tunnel,
            sr_verification = v, sr_canonical = dc_canonical updated, sr_aliases = dc_aliases updated, sr_abort = None\<rparr>))) t
      = (Inr r, s')" and t: "dm_rows t = dm_rows s"
    unfolding flip_canonical_def by (rule through [where g = dm_rows]) (intro stays calm_halves)
  from v have w: "\<exists>w. dx_verify rx fqdn (dm_world s) = (Inr v, w)" by (auto simp: dom_out_def split: prod.splits)
  show ?thesis
  proof (cases "ve_dns v")
    case True
    with rest obtain updated where "set_canonical_domain rx fqdn t = (Inr updated, s')" "sr_flipped r" "sr_canonical r = dc_canonical updated"
      by (auto simp: bind_Inr_iff lift_Inr_iff ret_Inr_iff)
    with w t True show ?thesis by auto
  next
    case False
    with rest t show ?thesis by (auto simp: bind_Inr_iff lift_Inr_iff ret_Inr_iff)
  qed
qed

subsection \<open>The pass, step by step\<close>

lemma nothing_to_copy_failed: "\<exists>t r. nothing_to_copy rx canonical s = (Inr r, t) \<and> ro_outcome r = Failed"
proof -
  have "\<exists>t. nothing_to_copy rx canonical s = (Inr ((ended Failed (Some canonical))\<lparr>ro_detail := Some
      (''No DNS record exists for '' @ canonical @ '' in the zone, so there is no target to copy - rotating would publish a dead address.'')\<rparr>), t)"
    unfolding nothing_to_copy_def Let_def by (intro after_step never_throws; simp add: ret_def)
  then show ?thesis by (auto simp: ended_def)
qed

lemma no_candidate_outcome: "no_candidate rx canonical dirty s = (Inr r, s') \<Longrightarrow> ro_outcome r \<in> {Broker_down, No_clean_candidate}"
  by (cases dirty) (auto simp: no_candidate_def Let_def bind_Inr_iff ret_Inr_iff ended_def)

lemma capped_outcome: "capped_pass rx cap canonical rule d s = (Inr r, s') \<Longrightarrow> ro_outcome r = Capped"
  by (auto simp: capped_pass_def Let_def bind_Inr_iff ret_Inr_iff ended_def)

text \<open>What a part of the pass that starts from the rows of \<open>s\<close> and rotates to \<open>candidate\<close> has done.\<close>

definition rotated_from ::
  "('w, 'b) rotate_api_scheme \<Rightarrow> string \<Rightarrow> string \<Rightarrow> 'w dom_site \<Rightarrow> rotate_result \<Rightarrow> 'w dom_site \<Rightarrow> bool" where
  "rotated_from rx canonical candidate s r s' \<longleftrightarrow> (\<exists>u body r0 t. dm_rows u = dm_rows s \<and> sb_name body = candidate
     \<and> perform_domain_switch rx body u = (Inr r0, t) \<and> sr_flipped r0 \<and> dm_rows s' = dm_rows t
     \<and> ro_from r = Some canonical \<and> ro_to r = Some (or_else (sr_canonical r0) candidate))"

lemma rotated_from_rows: "dm_rows t = dm_rows s \<Longrightarrow> rotated_from rx canonical candidate t r s' \<Longrightarrow> rotated_from rx canonical candidate s r s'"
  by (simp add: rotated_from_def)

lemma rotate_from_result:
  assumes "rotate_from rx cooldown canonical candidate rule records s = (Inr r, s')"
  shows "(ro_outcome r = Rotated \<longrightarrow> rotated_from rx canonical candidate s r s')
    \<and> (ro_outcome r \<notin> {Rotated, Failed} \<longrightarrow> dm_rows s' = dm_rows s)"
proof (cases "record_named canonical records")
  case None
  then show ?thesis using assms nothing_to_copy_failed [of rx canonical s] by (auto simp: rotate_from_def)
next
  case (Some current)
  let ?body = "\<lparr>sb_name = candidate, sb_target = Some (dr_content current),
     sb_type = Some (if dr_type current \<in> {''A'', ''AAAA'', ''CNAME''} then dr_type current else ''A''),
     sb_copy = None, sb_proxied = Some (dr_proxied current), sb_service = None\<rparr>"
  from assms obtain r0 t where t: "perform_domain_switch rx ?body s = (Inr r0, t)"
      and e: "(if \<not> sr_flipped r0 then waiting_for_dns rx cooldown canonical r0
         else rotation_done rx cooldown canonical candidate rule r0) t = (Inr r, s')"
    unfolding rotate_from_def Some option.case by (auto simp: bind_Inr_iff)
  show ?thesis
  proof (cases "sr_flipped r0")
    case True
    then have d: "rotation_done rx cooldown canonical candidate rule r0 t = (Inr r, s')" using e by simp
    then have "dm_rows s' = dm_rows t" by (rule keptD [OF rows_in_endings(8)])
    moreover have r: "r = (ended Rotated (Some canonical))\<lparr>ro_to := Some (or_else (sr_canonical r0) candidate), ro_rule := rule\<rparr>"
      using d ending_results(2) [of rx cooldown canonical candidate rule r0 t] by auto
    ultimately have "rotated_from rx canonical candidate s r s'"
      unfolding rotated_from_def using t True
      by (intro exI [where x = s] exI [where x = ?body] exI [where x = r0] exI [where x = t]) (simp add: ended_def)
    then show ?thesis by (simp add: r ended_def)
  next
    case False
    then have d: "waiting_for_dns rx cooldown canonical r0 t = (Inr r, s')" using e by simp
    then have "dm_rows s' = dm_rows t" by (rule keptD [OF rows_in_endings(7)])
    moreover have "dm_rows t = dm_rows s"
    proof -
      from t obtain zone :: cf_zone and answer tunnel c z u where "dm_rows u = dm_rows s"
          "flip_canonical rx (qualify_name (sb_name ?body) (cz_name zone)) answer tunnel c u = (Inr r0, t)"
        by (rule switch_reaches_flip)
      with flip_result [OF this(2)] False show ?thesis by simp
    qed
    ultimately show ?thesis using d ending_results(3) [of rx cooldown canonical r0 t] by (auto simp: ended_def)
  qed
qed

lemma rotate_to_result:
  assumes "rotate_to rx cooldown canonical candidate rule s = (Inr r, s')"
  shows "(ro_outcome r = Rotated \<longrightarrow> rotated_from rx canonical candidate s r s')
    \<and> (ro_outcome r \<notin> {Rotated, Failed} \<longrightarrow> dm_rows s' = dm_rows s)"
proof -
  note k = stays calm_halves(1)
  from assms [unfolded rotate_to_def] obtain cf t1 where 0: "get_cloudflare_config rx s = (Inr cf, t1)" and r1: "(if \<not> truthy (cc_zone cf) then throw no_zone else
      bind (get_cloudflare_client rx) (\<lambda>token. bind (cf_request (rx_zone rx token (the (cc_zone cf)))) (\<lambda>z.
      bind (lift_res (not_null z)) (\<lambda>zone. bind (list_dns_records rx token (cz_id zone))
        (rotate_from rx cooldown canonical candidate rule))))) t1 = (Inr r, s')" and 1: "dm_rows t1 = dm_rows s"
    by (rule through [where g = dm_rows], (intro k)[1], blast)
  then have "bind (get_cloudflare_client rx) (\<lambda>token. bind (cf_request (rx_zone rx token (the (cc_zone cf)))) (\<lambda>z.
      bind (lift_res (not_null z)) (\<lambda>zone. bind (list_dns_records rx token (cz_id zone))
        (rotate_from rx cooldown canonical candidate rule)))) t1 = (Inr r, s')"
    by (simp add: throws_not split: if_splits)
  then obtain token t2 where r2: "bind (cf_request (rx_zone rx token (the (cc_zone cf)))) (\<lambda>z.
      bind (lift_res (not_null z)) (\<lambda>zone. bind (list_dns_records rx token (cz_id zone))
        (rotate_from rx cooldown canonical candidate rule))) t2 = (Inr r, s')" and 2: "dm_rows t2 = dm_rows t1"
    by (rule through [where g = dm_rows], (intro k)[1], blast)
  from r2 obtain z :: "cf_zone option" and t3 where r3: "bind (lift_res (not_null z)) (\<lambda>zone. bind (list_dns_records rx token (cz_id zone))
        (rotate_from rx cooldown canonical candidate rule)) t3 = (Inr r, s')" and 3: "dm_rows t3 = dm_rows t2"
    by (rule through [where g = dm_rows], (intro k)[1], blast)
  from r3 obtain zone :: cf_zone where "bind (list_dns_records rx token (cz_id zone)) (rotate_from rx cooldown canonical candidate rule) t3 = (Inr r, s')"
    by (auto simp: bind_Inr_iff [where m = "lift_res x" for x] lift_Inr_iff)
  then obtain records t4 where "rotate_from rx cooldown canonical candidate rule records t4 = (Inr r, s')" "dm_rows t4 = dm_rows t3"
    by (rule through [where g = dm_rows], (intro k)[1], blast)
  with 1 2 3 rotate_from_result [of rx cooldown canonical candidate rule records t4 r s'] rotated_from_rows [of t4 s rx canonical candidate r s']
  show ?thesis by auto
qed

lemma find_candidate_result:
  assumes "find_candidate rx canonical email n probed s = (Inr (Some candidate, b), s')"
  shows "\<exists>used v t t'. set probed \<subseteq> set used \<and> next_rotated_hostname canonical used AUTO_ROTATE_MAX_CANDIDATES = Some candidate
     \<and> check_securly_block rx candidate email t = (Inr v, t') \<and> fk_status v = Clean"
  using assms
proof (induction n arbitrary: probed s)
  case (Suc n)
  then obtain nx where n: "next_rotated_hostname canonical probed AUTO_ROTATE_MAX_CANDIDATES = Some nx"
    by (auto simp: ret_Inr_iff split: option.splits)
  with Suc.prems obtain v t where v: "check_securly_block rx nx email s = (Inr v, t)"
      and rest: "(case fk_status v of Blocked \<Rightarrow> find_candidate rx canonical email n (probed @ [nx])
         | Clean \<Rightarrow> ret (Some nx, False) | Unknown \<Rightarrow> ret (None, True)) t = (Inr (Some candidate, b), s')"
    by (auto simp: bind_Inr_iff)
  show ?case
  proof (cases "fk_status v")
    case Blocked
    with rest have "find_candidate rx canonical email n (probed @ [nx]) t = (Inr (Some candidate, b), s')" by simp
    from Suc.IH [OF this] show ?thesis by auto
  next
    case Clean
    with rest n v show ?thesis by (auto simp: ret_Inr_iff)
  next
    case Unknown
    with rest show ?thesis by (simp add: ret_Inr_iff)
  qed
qed (simp add: ret_Inr_iff)

lemma search_result:
  assumes "search_and_rotate rx cooldown canonical aliases email rule s = (Inr r, s')"
  shows "(ro_outcome r = Rotated \<longrightarrow> (\<exists>candidate used v t t'. set (canonical # aliases) \<subseteq> set used
      \<and> next_rotated_hostname canonical used AUTO_ROTATE_MAX_CANDIDATES = Some candidate
      \<and> check_securly_block rx candidate email t = (Inr v, t') \<and> fk_status v = Clean \<and> rotated_from rx canonical candidate s r s'))
    \<and> (ro_outcome r \<notin> {Rotated, Failed} \<longrightarrow> dm_rows s' = dm_rows s)"
proof -
  from assms obtain f t where f: "find_candidate rx canonical email AUTO_ROTATE_MAX_CANDIDATES (dedup (canonical # aliases)) s = (Inr f, t)"
      and rest: "(case fst f of None \<Rightarrow> no_candidate rx canonical (snd f) | Some candidate \<Rightarrow> rotate_to rx cooldown canonical candidate rule) t = (Inr r, s')"
      and t: "dm_rows t = dm_rows s"
    unfolding search_and_rotate_def by (rule through [where g = dm_rows]) (intro stays calm_halves(1))
  show ?thesis
  proof (cases "fst f")
    case None
    then have n: "no_candidate rx canonical (snd f) t = (Inr r, s')" using rest by simp
    then have "dm_rows s' = dm_rows t" by (rule keptD [OF rows_in_endings(5)])
    with no_candidate_outcome [OF n] t show ?thesis by auto
  next
    case (Some candidate)
    then have f': "find_candidate rx canonical email AUTO_ROTATE_MAX_CANDIDATES (dedup (canonical # aliases)) s = (Inr (Some candidate, snd f), t)"
      using f by (metis prod.collapse)
    from Some rest have "rotate_to rx cooldown canonical candidate rule t = (Inr r, s')" by simp
    note to = rotate_to_result [OF this]
    from find_candidate_result [OF f'] obtain used v x x' where "set (dedup (canonical # aliases)) \<subseteq> set used"
        "next_rotated_hostname canonical used AUTO_ROTATE_MAX_CANDIDATES = Some candidate"
        "check_securly_block rx candidate email x = (Inr v, x')" "fk_status v = Clean" by blast
    moreover from this(1) have "set (canonical # aliases) \<subseteq> set used" by simp
    ultimately show ?thesis using to rotated_from_rows [OF t, of rx canonical candidate r s'] t by (intro conjI impI) (blast, simp)
  qed
qed

lemma reads_run:
  "dom_get dx k s = (Inr x, t) \<longleftrightarrow> get_plain (dx_dec dx) (dm_rows s) k = Inr x \<and> t = s"
  "redis_get dx k s = (Inr x, t) \<longleftrightarrow> dx_redis dx ''get'' k \<and> x = map_option rr_value (redis_find (dx_now dx) k (dm_redis s)) \<and> t = s"
  "get_domain_config dx s = (Inr p, t) \<longleftrightarrow> config_of dx s = Inr p \<and> t = s"
  by (auto simp: dom_get_def redis_get_def get_domain_config_run)

lemma securly_run: "get_securly_config rx s = (Inr e, t) \<Longrightarrow> t = s"
  by (auto simp: get_securly_config_def Let_def ret_Inr_iff bind_Inr_iff reads_run split: if_splits)

definition rotations_today :: "('w, 'b) rotate_api_scheme \<Rightarrow> 'w dom_site \<Rightarrow> json" where
  "rotations_today rx s = js_number (or_else (map_option rr_value (redis_find (dx_now rx) (count_key rx) (dm_redis s))) ''0'')"

lemma blocked_result:
  assumes "rotate_blocked rx cooldown cap canonical aliases email rule s = (Inr r, s')"
  shows "(ro_outcome r = Rotated \<longrightarrow> \<not> reached (rotations_today rx s) cap
      \<and> search_and_rotate rx cooldown canonical aliases email rule s = (Inr r, s'))
    \<and> (ro_outcome r \<notin> {Rotated, Failed} \<longrightarrow> dm_rows s' = dm_rows s)"
proof (cases "reached (rotations_today rx s) cap")
  case True
  then have c: "capped_pass rx cap canonical rule (rotations_today rx s) s = (Inr r, s')"
    using assms by (auto simp: rotate_blocked_def bind_Inr_iff reads_run Let_def rotations_today_def)
  then have "dm_rows s' = dm_rows s" by (rule keptD [OF rows_in_endings(4)])
  with capped_outcome [OF c] show ?thesis by simp
next
  case False
  then have c: "search_and_rotate rx cooldown canonical aliases email rule s = (Inr r, s')"
    using assms by (auto simp: rotate_blocked_def bind_Inr_iff reads_run Let_def rotations_today_def)
  with search_result [OF c] False show ?thesis by blast
qed

definition refused ::
  "('w, 'b) rotate_api_scheme \<Rightarrow> string \<Rightarrow> string list \<Rightarrow> string \<Rightarrow> 'w dom_site \<Rightarrow> filter_check \<Rightarrow> 'w dom_site \<Rightarrow> bool" where
  "refused rx canonical aliases email s v t \<longleftrightarrow>
     \<not> truthy (map_option rr_value (redis_find (dx_now rx) COOLDOWN_KEY (dm_redis s)))
     \<and> check_securly_block rx canonical email s = (Inr v, t) \<and> fk_status v = Blocked"

lemma checked_result:
  assumes "rotate_checked rx cooldown cap canonical aliases email s = (Inr r, s')"
  shows "(ro_outcome r = Rotated \<longrightarrow> (\<exists>v t. refused rx canonical aliases email s v t
        \<and> rotate_blocked rx cooldown cap canonical aliases email (fk_rule v) t = (Inr r, s')))
    \<and> (ro_outcome r \<notin> {Rotated, Failed} \<longrightarrow> dm_rows s' = dm_rows s)"
proof (cases "truthy (map_option rr_value (redis_find (dx_now rx) COOLDOWN_KEY (dm_redis s)))")
  case True
  with assms show ?thesis
    by (auto simp: rotate_checked_def bind_Inr_iff [where m = "redis_get rx k" for k] reads_run ret_Inr_iff ended_def)
next
  case False
  with assms obtain v u where v: "check_securly_block rx canonical email s = (Inr v, u)" and w: "(case fk_status v of
       Clean \<Rightarrow> ret (ended Clean_now (Some canonical))
     | Unknown \<Rightarrow> ret ((ended Unknown_now (Some canonical))\<lparr>ro_detail := Some (fk_detail v)\<rparr>)
     | Blocked \<Rightarrow> rotate_blocked rx cooldown cap canonical aliases email (fk_rule v)) u = (Inr r, s')"
    by (auto simp: rotate_checked_def bind_Inr_iff reads_run)
  have u: "dm_rows u = dm_rows s" using v by (rule keptD [OF kept_check [OF calm_halves(1)]])
  show ?thesis
  proof (cases "fk_status v")
    case Blocked
    with w have b: "rotate_blocked rx cooldown cap canonical aliases email (fk_rule v) u = (Inr r, s')" by simp
    moreover have "refused rx canonical aliases email s v u" using v False Blocked by (simp add: refused_def)
    ultimately show ?thesis using blocked_result [OF b] u by auto
  qed (use w u in \<open>auto simp: ret_Inr_iff ended_def\<close>)
qed

lemma configured_result:
  assumes "rotate_configured rx cooldown cap c s = (Inr r, s')"
  shows "(ro_outcome r = Rotated \<longrightarrow> (\<exists>canonical email v t. dc_canonical c = Some canonical
        \<and> refused rx canonical (dc_aliases c) email s v t
        \<and> rotate_blocked rx cooldown cap canonical (dc_aliases c) email (fk_rule v) t = (Inr r, s')))
    \<and> (ro_outcome r \<notin> {Rotated, Failed} \<longrightarrow> dm_rows s' = dm_rows s)"
proof (cases "truthy (dc_canonical c)")
  case True
  then obtain canonical where can: "dc_canonical c = Some canonical" by (auto simp: truthy_def split: option.splits)
  with True assms obtain e t where e: "get_securly_config rx s = (Inr e, t)" and r: "(if \<not> truthy e then ret (ended No_useremail None)
      else rotate_checked rx cooldown cap (the (dc_canonical c)) (dc_aliases c) (the e)) t = (Inr r, s')"
    by (auto simp: rotate_configured_def bind_Inr_iff)
  have t: "t = s" using securly_run [OF e] .
  show ?thesis
  proof (cases "truthy e")
    case True
    with r t can have "rotate_checked rx cooldown cap canonical (dc_aliases c) (the e) s = (Inr r, s')" by simp
    from checked_result [OF this] can show ?thesis by auto
  next
    case False
    with r t show ?thesis by (auto simp: ret_Inr_iff ended_def)
  qed
qed (use assms in \<open>auto simp: rotate_configured_def ret_Inr_iff ended_def\<close>)

lemma body_result:
  assumes "rotate_pass_body rx cooldown cap s = (Inr r, s')"
  shows "(ro_outcome r = Rotated \<longrightarrow> (\<exists>c z canonical email v t. get_plain (dx_dec rx) (dm_rows s) AUTO_ROTATE_ENABLED_KEY = Inr (Some ''true'')
        \<and> config_of rx s = Inr (c, z) \<and> dc_canonical c = Some canonical \<and> refused rx canonical (dc_aliases c) email s v t
        \<and> rotate_blocked rx cooldown cap canonical (dc_aliases c) email (fk_rule v) t = (Inr r, s')))
    \<and> (ro_outcome r \<notin> {Rotated, Failed} \<longrightarrow> dm_rows s' = dm_rows s)"
proof -
  from assms obtain on where on: "get_plain (dx_dec rx) (dm_rows s) AUTO_ROTATE_ENABLED_KEY = Inr on"
      and r: "(if on \<noteq> Some ''true'' then ret (ended Disabled None) else
        bind (get_domain_config rx) (\<lambda>c. rotate_configured rx cooldown cap (fst c))) s = (Inr r, s')"
    unfolding rotate_pass_body_def by (auto simp: bind_Inr_iff [where m = "dom_get rx k" for k] reads_run)
  show ?thesis
  proof (cases "on = Some ''true''")
    case True
    with r obtain c z where "config_of rx s = Inr (c, z)" "rotate_configured rx cooldown cap c s = (Inr r, s')"
      by (auto simp: bind_Inr_iff reads_run)
    with configured_result [OF this(2)] on True show ?thesis by auto
  qed (use r in \<open>auto simp: ret_Inr_iff ended_def\<close>)
qed

subsection \<open>The name that becomes canonical\<close>

definition verdict :: "('w, 'b) rotate_api_scheme \<Rightarrow> string \<Rightarrow> string \<Rightarrow> bool \<Rightarrow> bool" where
  "verdict rx h email denied \<longleftrightarrow> (\<exists>w st body. fst (dx_broker rx h email w) = Inr (st, body) \<and> http_ok st \<and> trim body \<noteq> []
     \<and> starts_with (trim body) ''DENY'' = denied)"

lemma check_verdict:
  assumes "check_securly_block rx h email s = (Inr v, t)" "fk_status v \<noteq> Unknown"
  shows "verdict rx h email (fk_status v = Blocked)"
proof -
  have v: "v = verdict_of (fst (dx_broker rx h email (dm_world s)))"
    using assms(1) by (auto simp: check_securly_block_def bind_def settled_def dom_out_def ret_def split: prod.splits)
  with assms(2) obtain st body where a: "fst (dx_broker rx h email (dm_world s)) = Inr (st, body)" "http_ok st" "trim body \<noteq> []"
    by (auto simp: verdict_of_def split: sum.splits prod.splits if_splits)
  then have "starts_with (trim body) ''DENY'' = (fk_status v = Blocked)"
    by (simp add: v verdict_of_def parse_securly_verdict_def Let_def)
  with a show ?thesis unfolding verdict_def by blast
qed

lemma numbered_chars:
  assumes "valid_host h" "0 \<le> n"
  shows "\<And>c. c \<in> set (numbered h n) \<Longrightarrow> host_char c" "numbered h n \<noteq> []" "last (numbered h n) \<noteq> CHR ''.''" "CHR ''.'' \<in> set (numbered h n)"
proof -
  have l: "set (label_head (first_label h)) \<subseteq> set h"
    using label_split [of "first_label h"] set_takeWhileD by (metis Un_iff first_label_def set_append subsetI)
  have a: "set (after_label h) \<subseteq> set h" by (auto simp: after_label_def dest: set_dropWhileD)
  have dot: "CHR ''.'' \<in> set h" using assms(1) by (auto simp: valid_host_def assert_valid_hostname_def)
  have d: "after_label h \<noteq> []" using dot by (auto simp: after_label_def)
  have "h = first_label h @ after_label h" by (simp add: first_label_def after_label_def)
  then have la: "last (after_label h) = last h" using d by (metis last_appendR)
  have "CHR ''.'' \<in> set (after_label h)"
    using hd_dropWhile [of "\<lambda>c. c \<noteq> CHR ''.''" h] d hd_in_set [OF d] by (simp add: after_label_def)
  then show "CHR ''.'' \<in> set (numbered h n)" by (simp add: numbered_def)
  have "host_char c" if "is_digit c" for c using that by (simp add: host_char_def is_hostname_char_def)
  then show "host_char c" if "c \<in> set (numbered h n)" for c
    using that l a valid_host_chars [OF assms(1)] int_str_all [OF assms(2)] by (auto simp: numbered_def list_all_iff)
  show "numbered h n \<noteq> []" "last (numbered h n) \<noteq> CHR ''.''"
    using d la valid_host_last [OF assms(1)] by (simp_all add: numbered_def)
qed

lemma candidate_name:
  assumes "valid_host h" "start_number h + int m < 2 ^ 53" "next_rotated_hostname h used m = Some candidate"
  shows "qualify_name candidate zone = candidate" "normalize_hostname candidate = candidate" "candidate \<notin> taken used"
proof -
  have h: "normalize_hostname h = h" "h \<noteq> []" using normalize_valid valid_host_not_Nil assms(1) by blast+
  have "find (\<lambda>x. x \<notin> taken used) (map (\<lambda>k. numbered h (start_number h + 1 + int k)) [0..<m]) = Some candidate"
    using assms(3) next_unused_start [OF assms(2)] h by (simp add: next_rotated_hostname_def Let_def taken_def)
  from find_Some_in [OF this] obtain n where n: "candidate = numbered h n" "0 \<le> n" and fresh: "candidate \<notin> taken used"
    by (auto simp: start_number_def)
  note c = numbered_chars [OF assms(1) n(2), folded n(1)]
  show norm: "normalize_hostname candidate = candidate" using normalize_plain c(1-3) by blast
  have "to_lower (trim candidate) = candidate"
    using lower_host [of candidate] trim_host [of candidate] host_char_plain(1) c(1) by simp
  moreover have "candidate \<noteq> ''@''" using c(4) by auto
  ultimately show "qualify_name candidate zone = candidate" using c(4) norm by (simp add: qualify_name_def)
  show "candidate \<notin> taken used" by (rule fresh)
qed

lemma rotated_config:
  assumes "lossless (dx_parse rx)" "dx_writes rx CANONICAL_KEY" "dx_writes rx ALIASES_KEY"
    and c: "config_of rx s = Inr (c, z)" "domain_wf c" and q: "\<And>zone. qualify_name candidate zone = candidate"
      "normalize_hostname candidate = candidate"
    and r: "rotated_from rx canonical candidate s r s'"
  shows "ro_from r = Some canonical" "ro_to r = Some candidate" "config_of rx s' = Inr (switched candidate c, z)"
    "\<exists>w v w'. dx_verify rx candidate w = (Inr v, w') \<and> ve_dns v"
proof -
  from r obtain u body r0 t where u: "dm_rows u = dm_rows s" "sb_name body = candidate" "perform_domain_switch rx body u = (Inr r0, t)"
      "sr_flipped r0" "dm_rows s' = dm_rows t" "ro_from r = Some canonical" "ro_to r = Some (or_else (sr_canonical r0) candidate)"
    unfolding rotated_from_def by blast
  from u(3) obtain zone :: cf_zone and answer tunnel c' z' x where x: "valid_host (qualify_name (sb_name body) (cz_name zone))"
      "config_of rx u = Inr (c', z')" "dm_rows x = dm_rows u"
      "flip_canonical rx (qualify_name (sb_name body) (cz_name zone)) answer tunnel c' x = (Inr r0, t)"
    by (rule switch_reaches_flip)
  have v: "valid_host candidate" using x(1) u(2) q(1) by simp
  from flip_result [OF x(4)] u(2,4) q(1) obtain y w w' ve updated where y: "dx_verify rx candidate w = (Inr ve, w')" "ve_dns ve"
      "dm_rows y = dm_rows x" "set_canonical_domain rx candidate y = (Inr updated, t)" "sr_canonical r0 = dc_canonical updated"
    by auto
  have cy: "config_of rx y = Inr (c, z)" using config_of_rows [of y s rx] y(3) x(3) u(1) c(1) by simp
  from set_canonical_run [OF assms(1-3) cy c(2), of candidate] v q(2)
  have "updated = switched candidate c \<and> config_of rx t = Inr (switched candidate c, z)" using y(4) by auto
  with u(5-7) y(1,2,5) show "ro_from r = Some canonical" "ro_to r = Some candidate" "config_of rx s' = Inr (switched candidate c, z)"
      "\<exists>w v w'. dx_verify rx candidate w = (Inr v, w') \<and> ve_dns v"
    using config_of_rows [of s' t rx] by (auto simp: switched_def)
qed

lemma pass_outcome:
  assumes "run_filter_rotate_pass rx cooldown cap s = (res, s')"
  obtains r where "res = Inr r" "ro_outcome r \<noteq> Failed \<longrightarrow> rotate_pass_body rx cooldown cap s = (Inr r, s')"
proof (cases "fst (rotate_pass_body rx cooldown cap s)")
  case (Inl e)
  then obtain t where "rotate_pass_body rx cooldown cap s = (Inl e, t)" by (metis prod.collapse)
  with assms have "pass_failed rx e t = (res, s')" by (simp add: run_filter_rotate_pass_def try_catch_def)
  with ending_results(1) [of rx e t] show thesis by (intro that [of "(ended Failed None)\<lparr>ro_detail := Some (take 300 (err_message e))\<rparr>"])
    (auto simp: ended_def)
next
  case (Inr r)
  then obtain t where "rotate_pass_body rx cooldown cap s = (Inr r, t)" by (metis prod.collapse)
  with assms show thesis by (intro that [of r]) (auto simp: run_filter_rotate_pass_def try_catch_def)
qed

text \<open>Two verdicts before a rotation. Whatever Cloudflare, DNS, Redis and the broker answer, the pass
  returns an outcome. Unless it rotated or failed, the settings are untouched. When it rotated,
  rotation was enabled, the broker had refused the canonical host and accepted the new one, the
  new one resolved and was not in use; and afterwards it is the canonical host, the old one an
  alias.\<close>

theorem rotation_needs_two_verdicts:
  assumes "run_filter_rotate_pass rx cooldown cap s = (res, s')"
    and l: "lossless (dx_parse rx)" "dx_writes rx CANONICAL_KEY" "dx_writes rx ALIASES_KEY"
    and c: "config_of rx s = Inr (c, z)" "domain_wf c"
    and n: "\<forall>h. dc_canonical c = Some h \<longrightarrow> start_number h + 10 < 2 ^ 53"
  shows "\<exists>r. res = Inr r \<and> (ro_outcome r \<notin> {Rotated, Failed} \<longrightarrow> dm_rows s' = dm_rows s) \<and>
    (ro_outcome r = Rotated \<longrightarrow> (\<exists>old new email. dc_canonical c = Some old \<and> ro_from r = Some old \<and> ro_to r = Some new
      \<and> get_plain (dx_dec rx) (dm_rows s) AUTO_ROTATE_ENABLED_KEY = Inr (Some ''true'')
      \<and> verdict rx old email True \<and> verdict rx new email False \<and> \<not> known c new
      \<and> (\<exists>w v w'. dx_verify rx new w = (Inr v, w') \<and> ve_dns v)
      \<and> config_of rx s' = Inr (switched new c, z)))"
proof -
  from assms(1) obtain r where r: "res = Inr r" "ro_outcome r \<noteq> Failed \<longrightarrow> rotate_pass_body rx cooldown cap s = (Inr r, s')"
    by (rule pass_outcome)
  have "\<exists>old new email. dc_canonical c = Some old \<and> ro_from r = Some old \<and> ro_to r = Some new
      \<and> get_plain (dx_dec rx) (dm_rows s) AUTO_ROTATE_ENABLED_KEY = Inr (Some ''true'')
      \<and> verdict rx old email True \<and> verdict rx new email False \<and> \<not> known c new
      \<and> (\<exists>w v w'. dx_verify rx new w = (Inr v, w') \<and> ve_dns v)
      \<and> config_of rx s' = Inr (switched new c, z)" if rot: "ro_outcome r = Rotated"
  proof -
    have "rotate_pass_body rx cooldown cap s = (Inr r, s')" using r(2) rot by simp
    from body_result [OF this] rot c(1) obtain old email v t where old: "dc_canonical c = Some old"
        and on: "get_plain (dx_dec rx) (dm_rows s) AUTO_ROTATE_ENABLED_KEY = Inr (Some ''true'')"
        and ref: "refused rx old (dc_aliases c) email s v t"
        and b: "rotate_blocked rx cooldown cap old (dc_aliases c) email (fk_rule v) t = (Inr r, s')" by auto
    from ref have denied: "verdict rx old email True" and t: "dm_rows t = dm_rows s"
      using check_verdict [of rx old email s v t] keptD [OF kept_check [OF calm_halves(1)], of rx old email s "Inr v" t]
      by (auto simp: refused_def)
    from blocked_result [OF b] rot have "search_and_rotate rx cooldown old (dc_aliases c) email (fk_rule v) t = (Inr r, s')" by blast
    from search_result [OF this] rot obtain new used v' x x' where new: "set (old # dc_aliases c) \<subseteq> set used"
        "next_rotated_hostname old used AUTO_ROTATE_MAX_CANDIDATES = Some new"
        "check_securly_block rx new email x = (Inr v', x')" "fk_status v' = Clean" "rotated_from rx old new t r s'" by blast
    have valid: "valid_host old" using c(2) old by (simp add: domain_wf_def)
    have small: "start_number old + int AUTO_ROTATE_MAX_CANDIDATES < 2 ^ 53" using n old by (simp add: AUTO_ROTATE_MAX_CANDIDATES_def)
    note name = candidate_name [OF valid small new(2)]
    have ct: "config_of rx t = Inr (c, z)" using config_of_rows [OF t, of rx] c(1) by simp
    note done' = rotated_config [OF l ct c(2) name(1,2) new(5)]
    have "verdict rx new email False" using check_verdict [OF new(3)] new(4) by simp
    moreover have "\<not> known c new"
    proof
      assume "known c new"
      then have "new \<in> set (old # dc_aliases c)" "valid_host new"
        using old c(2) by (auto simp: known_def domain_wf_def list_all_iff)
      then have "new \<in> taken used" using new(1) normalize_valid [of new] valid_host_not_Nil [of new]
        by (force simp: taken_def)
      with name(3) show False by simp
    qed
    ultimately show ?thesis using old on denied done' by blast
  qed
  moreover have "dm_rows s' = dm_rows s" if "ro_outcome r \<notin> {Rotated, Failed}"
    using body_result [of rx cooldown cap s r s'] r(2) that by auto
  ultimately show ?thesis using r(1) by blast
qed

definition answer :: "'r \<Rightarrow> ('w, 'r cf_response) comp" where
  "answer r = ret \<lparr>cr_status = 200, cr_body = Envelope (Some True) [] (Some r)\<rparr>"

definition demo_rotate_api :: "unit rotate_api" where
  "demo_rotate_api = domain_api.extend (demo_domain_api\<lparr>dx_broker := (\<lambda>h e. ret (200, if h = ''vm.example.com'' then ''DENY:999:42'' else ''SS:999''))\<rparr>)
     (rotate_api.fields (\<lambda>_ _. answer \<lparr>cz_id = ''z'', cz_name = ''example.com''\<rparr>)
       (\<lambda>_ _. answer [\<lparr>dr_id = ''r1'', dr_type = ''A'', dr_name = ''vm.example.com'', dr_content = ''203.0.113.10'', dr_proxied = True\<rparr>])
       (\<lambda>_ _ n. answer \<lparr>dr_id = ''r2'', dr_type = cn_type n, dr_name = cn_name n, dr_content = cn_content n, dr_proxied = cn_proxied n\<rparr>)
       (\<lambda>_ _ i p. answer \<lparr>dr_id = i, dr_type = ''A'', dr_name = ''vm.example.com'', dr_content = cp_content p, dr_proxied = cp_proxied p\<rparr>)
       (\<lambda>_ _ _. answer ([], [])) (\<lambda>_ _ _ _ _. answer ()))"

definition plain_setting :: "string \<Rightarrow> string \<Rightarrow> setting_row" where
  "plain_setting k v = \<lparr>sg_key = k, sg_value = v, sg_encrypted = False, sg_category = ''system'', sg_updated = 0\<rparr>"

definition demo_rotate_site :: "unit dom_site" where
  "demo_rotate_site = demo_domains\<lparr>dm_rows := [plain_setting CANONICAL_KEY ''vm.example.com'', plain_setting AUTO_ROTATE_ENABLED_KEY ''true'',
     plain_setting ''securly.useremail'' ''kid@school.example'', plain_setting ''cloudflare.api_token'' ''t'', plain_setting ''cloudflare.zone_id'' ''z'']\<rparr>"

lemma demo_rotates: "map_option ro_outcome (case fst (run_filter_rotate_pass demo_rotate_api 900 5 demo_rotate_site) of Inr r \<Rightarrow> Some r | Inl _ \<Rightarrow> None) = Some Rotated"
  by code_simp

lemma demo_rotate_config:
  "config_of demo_rotate_api demo_rotate_site = Inr (\<lparr>dc_canonical = Some ''vm.example.com'', dc_aliases = []\<rparr>, Some ''z'')"
  by code_simp

lemma rotation_needs_two_verdicts_witness:
  "\<exists>new email. verdict demo_rotate_api ''vm.example.com'' email True \<and> verdict demo_rotate_api new email False
     \<and> config_of demo_rotate_api (snd (run_filter_rotate_pass demo_rotate_api 900 5 demo_rotate_site))
         = Inr (switched new \<lparr>dc_canonical = Some ''vm.example.com'', dc_aliases = []\<rparr>, Some ''z'')"
proof -
  have l: "lossless (dx_parse demo_rotate_api)" "dx_writes demo_rotate_api CANONICAL_KEY" "dx_writes demo_rotate_api ALIASES_KEY"
    by (simp_all add: demo_rotate_api_def demo_domain_api_def domain_api.defs rotate_api.defs parse_hosts_lossless)
  have n: "\<forall>h. dc_canonical \<lparr>dc_canonical = Some ''vm.example.com'', dc_aliases = []\<rparr> = Some h \<longrightarrow> start_number h + 10 < 2 ^ 53"
  proof -
    have "start_number ''vm.example.com'' = 1" by code_simp
    then show ?thesis by simp
  qed
  obtain res s' where run: "run_filter_rotate_pass demo_rotate_api 900 5 demo_rotate_site = (res, s')" by fastforce
  from rotation_needs_two_verdicts [OF run l demo_rotate_config demo_config(2) n] demo_rotates
  show ?thesis unfolding run by (auto split: sum.splits)
qed

end
