(* ===== verification/Spec2Isabelle.thy ===== *)
theory Spec2Isabelle
  imports Guac_Props Firewall_Props Policy_Props Session_Props Audit_Props HostKeys_Props Netconf_Props Worker_Limits
    Ssrf_Props Settings_Props Rotation_Props Homelab_Props Alerts_Props Backups_Props Usage_Props Drift_Gates
    Sharing_Props Plan_Props Launch_Props Delete_Props Domains_Props Rotate_Gates
begin

text \<open>
  A model of the backend of ProxVM, a self-service portal for virtual machines on Proxmox with
  remote consoles through Guacamole. The program is a TypeScript monorepo: \<open>packages/core\<close>
  (services over a PostgreSQL database and clients of Proxmox, Guacamole and SSH), \<open>apps/api\<close>
  (HTTP routes), \<open>apps/worker\<close> (the consumer of the provisioning queue), \<open>apps/web\<close> (the
  browser client) and \<open>packages/shared\<close> (schemas and enumerations). What is modelled is the
  core logic of the first three.

  \<^bold>\<open>Conventions.\<close> A database table is a list of rows (a record per table), an SQL statement a
  filter, a comprehension or a \<open>table_update\<close> on it; unique constraints are branches of the
  writers. A method is a function on the state of its service; what may throw returns
  \<open>'a res\<close> (\<open>Inl\<close> an \<open>app_error\<close>) or is a computation \<open>('s, 'a) comp\<close>, in which what was
  written before a throw stays written. Clock readings, fresh identifiers, ciphers, hashes and
  all remote systems are parameters: arguments, or the fields of a record of services over a
  world of an arbitrary type. Numbers of JavaScript are \<open>int\<close> where only integers matter;
  IPv4 addresses are \<open>32 word\<close>. Strings are sequences of code units below 256.

  \<^bold>\<open>Theories\<close>, with the source they model (paths under \<open>src/packages/core/src\<close> unless said
  otherwise):

  \<^item> \<open>Prelude\<close>: errors (\<open>util/errors.ts\<close>), untyped values, string helpers (\<open>util/misc.ts\<close>), the
    state-and-exception computations, and the two interfaces that components share, as
    locales: \<open>expiring\<close> (rows with an expiry date) and \<open>keyed_table\<close> (a table with a primary
    key), interpreted in the theories of the tables.
  \<^item> \<open>Rbac\<close>, \<open>Iam\<close>, \<open>Iam_Props\<close>: system roles (\<open>services/rbac.ts\<close>), effective access and the
    rules of conferral (\<open>services/iam.ts\<close>). The lemmas relate the resolver to a declarative
    reading of the grant tables.
  \<^item> \<open>Vms\<close>, \<open>Vms_Props\<close>: the VM registry (\<open>services/vms.ts\<close>, \<open>services/start-on-boot.ts\<close>, the
    unique keys of the migrations): uniqueness under every writer, visibility, bulk changes.
  \<^item> \<open>Guac\<close>, \<open>Guac_Props\<close>: the Guacamole database client (\<open>guacamole/db.ts\<close>) and its mirror
    (\<open>services/guacamole.ts\<close>), with reconciliation against effective access and the expiry
    sweep.
  \<^item> \<open>Firewall\<close>, \<open>Firewall_Props\<close>: per-VM network isolation (\<open>services/firewall.ts\<close>) against
    the laws of the Proxmox firewall API.
  \<^item> \<open>Policy\<close>, \<open>Policy_Props\<close>: ceilings and the static-address allowlist
    (\<open>provisioning/policy.ts\<close>).
  \<^item> \<open>Users\<close>, \<open>Auth\<close>, \<open>Auth_Props\<close>, \<open>Session_Props\<close>: accounts (\<open>services/users.ts\<close>), sessions
    (\<open>services/sessions.ts\<close>), quotas (\<open>services/usage.ts\<close>), the request gate and the login
    (\<open>apps/api/src/plugins/auth.ts\<close>, \<open>routes/auth.ts\<close>).
  \<^item> \<open>Audit_Log\<close>, \<open>Audit_Props\<close>: the audit trail (\<open>services/audit.ts\<close>) under any sequence of
    recorded events and retention sweeps.
  \<^item> \<open>HostKeys\<close>, \<open>HostKeys_Props\<close>: trust on first use of SSH host keys (\<open>ssh/host-keys.ts\<close>).
  \<^item> \<open>Templates\<close>, \<open>Credentials\<close>: the template registry (\<open>services/templates.ts\<close>) and the vault of
    guest passwords (\<open>services/credentials.ts\<close>).
  \<^item> \<open>Jobs\<close>, \<open>Jobs_Props\<close>: the provisioning ledger (\<open>services/jobs.ts\<close>, \<open>services/queue.ts\<close>,
    \<open>services/progress.ts\<close>); its writers are the step relation \<open>ledger_step\<close>.
  \<^item> \<open>Netconf\<close>, \<open>Netconf_Props\<close>, \<open>Pipeline\<close>, \<open>Worker\<close>: the provisioning worker
    (\<open>provisioning/pipeline.ts\<close>, \<open>provisioning/reschedule.ts\<close>, \<open>apps/worker/src/index.ts\<close>), all
    eleven steps over the state of the components above.
  \<^item> \<open>Worker_Frame\<close>, \<open>Worker_Demo\<close>, \<open>Worker_Props\<close>, \<open>Worker_Runs\<close>, \<open>Worker_Gate\<close>,
    \<open>Worker_Limits\<close>: what steps leave alone, a small world on which the worker runs, completed
    steps, outcomes and the end of every job, re-authorization and VMIDs, and what the verdicts
    do not mean.

  \<^item> \<open>Strings\<close>: splitting, prefixes and suffixes, shared by the theories that parse.
  \<^item> \<open>Ssrf\<close>, \<open>Ssrf_Props\<close>: the guard of requests the server makes (\<open>util/ssrf.ts\<close>): numeric hosts
    in any radix against a reading of numerals and addresses that does not use the guard's own
    reader, blocked destinations, the fetch that follows redirects.
  \<^item> \<open>Settings\<close>, \<open>Settings_Props\<close>: the settings store (\<open>services/settings.ts\<close>), which refines a map.
  \<^item> \<open>Rotation\<close>, \<open>Rotation_Props\<close>: rotation of guest passwords (\<open>services/rotation.ts\<close>) over the
    state of the worker: guest, vault, rollback, Guacamole; and the quoting of its commands
    against a reading of POSIX words.
  \<^item> \<open>Homelab\<close>, \<open>Homelab_Props\<close>: power schedules (which calls of Proxmox a pass
    makes), share links, the port scan as interleaved workers, connection health
    (\<open>services/homelab.ts\<close>).
  \<^item> \<open>Alerts\<close>, \<open>Alerts_Props\<close>: notifications, Gotify and the webhook (\<open>services/notifications.ts\<close>,
    \<open>services/gotify.ts\<close>, the guard and transport of \<open>services/threats.ts\<close>).
  \<^item> \<open>Backups\<close>, \<open>Backups_Props\<close>: backup timetables, the state machine of runs, retention and
    snapshots (\<open>services/backups.ts\<close>); timetables extend those of \<open>Homelab\<close>, failures are
    reported through \<open>Alerts\<close>, creators are checked against \<open>Iam\<close>.
  \<^item> \<open>Usage\<close>, \<open>Usage_Props\<close>: power periods and the usage reports with their rounding, tickets,
    the announcement (\<open>services/usage.ts\<close>).
  \<^item> \<open>Drift\<close>, \<open>Drift_Demo\<close>, \<open>Drift_Props\<close>, \<open>Drift_Gates\<close>: ground-truth drift
    (\<open>services/drift.ts\<close>, \<open>apps/api/src/routes/drift.ts\<close>): detectors, the lifecycle of findings,
    passes and remediations; an instance; what any history keeps; the gates.
  \<^item> \<open>Site\<close>, \<open>Sharing\<close>, \<open>Vm_Edits\<close>, \<open>Vm_Bulk\<close>, \<open>Vm_Plans\<close>: the HTTP routes of machines
    (\<open>apps/api/src/routes/vms.ts\<close>) as computations on the state of the whole site, which is the
    state of drift with power schedules and share links. \<open>Launch\<close>: sessions
    (\<open>guacamole/api.ts\<close>, \<open>services/launch.ts\<close>, \<open>apps/api/src/routes/guacamole.ts\<close>).
  \<^item> \<open>Site_Frame\<close>, \<open>Site_Gates\<close>, \<open>Sharing_Props\<close>, \<open>Plan_Props\<close>, \<open>Launch_Props\<close>,
    \<open>Delete_Props\<close>: what the building blocks of the routes change; the gates of nineteen requests
    about one machine; what a grant leaves behind and how far invitations reach; classes against
    timetables; launch URLs and tokens; deletion, statement by statement.
  \<^item> \<open>Domains\<close>, \<open>Domains_Props\<close>: the canonical host and its aliases (\<open>services/domains.ts\<close>).
    \<open>Numbers\<close>, \<open>Rotate\<close>, \<open>Rotate_Props\<close>, \<open>Rotate_Gates\<close>: the switch to another host, the next
    numbered name and the automatic rotation (\<open>services/domainrotate.ts\<close>,
    \<open>services/filtercheck.ts\<close>, \<open>cloudflare/client.ts\<close>), with the integral doubles of JavaScript and their texts.

  \<^bold>\<open>How the components meet.\<close> \<open>app_db\<close> holds accounts, sessions and the registry, which holds
  the grant tables, so that a deletion follows the foreign keys across components. The worker
  state \<open>pstate\<close> adds ledger, vault, templates, the Guacamole mirror with its database, the
  audit log, settings and the world; a step of the pipeline calls the operations of those
  components as the code does. The state of drift adds findings and running times to it, and the
  state \<open>site\<close> of the routes adds schedules and links to that; a route lifts the operations of a
  component to the site (\<open>at_reg\<close>, \<open>at_base\<close>, \<open>call\<close>).

  \<^bold>\<open>Bounds.\<close> \<open>nat_str_fuel\<close> takes \<open>n + 1\<close> units for the digits of \<open>n\<close>. The search for a VMID
  makes at most \<open>VMID_ATTEMPTS\<close> = 1000 increments as in the code. The deliveries of a job
  recurse with the measure \<open>MAX_WAIT_ATTEMPTS - attempt\<close>; \<open>job_always_ends\<close> needs no further
  bound.

  \<^bold>\<open>Not modelled.\<close> The browser client; the routes about machines that only read, and the
  provisioning route; the API routes other than those of machines, sessions and drift (they
  validate input with the shared schemas and call the services); the idle shutdown, registration,
  the provisioning defaults and the store behind the IAM pages; the protocol clients of Proxmox,
  PBS, Guacamole's REST interface and SSH; ciphers and hashes; the connection pool and the DDL of
  the migrations; logging, metrics and configuration files. A statement on the database of the
  application succeeds, except where it is a parameter whether it does: the statements of a
  deletion (\<open>sa_store\<close>, \<open>sa_unlink\<close>), those on the tokens of a session (\<open>ga_store\<close>), and those
  of domains and their rotation. Two queries of one operation see the same database unless an
  interleaving is written out.
\<close>

end
